(* ===== verification/Prelude.thy ===== *)
theory Prelude
  imports Main "HOL-Library.AList" "HOL-Library.Multiset" "HOL-Library.Char_ord" "HOL-Library.List_Lexorder"
    "HOL-Library.Product_Lexorder"
begin

text \<open>
  What the components share: the exceptions the code raises as values of one datatype, the
  two shapes every operation of the model has (a pure computation that may raise, \<open>err + 'a\<close>,
  and one that also passes a state on, \<open>'s \<Rightarrow> (err + 'a) \<times> 's\<close>) with their sequencing, and the
  generic facts on insertion-ordered dictionaries (association lists updated in place by
  \<open>AList.update\<close>), on sorting and on decimal numerals.
\<close>

named_theorems bind_simps \<open>unfolding of the sequencing combinators\<close>

section \<open>Exceptions\<close>

datatype err =
    ValueError string
  | KeyError string
  | TypeError string
  | AttributeError string
  | DuplicateCanonicalKey string
  | ScopedRecordNotFound string
  | VersionConflict string
  | TransactionUnavailable string
  | LedgerIntegrityError string
  | UndeclaredLockRef string
  | IntegrityError string
  | IndexError string
  | RuntimeError string
  | HTTPException int string
  | NotTyped string

text \<open>
  \<open>IntegrityError\<close> is the exception of the \<open>sqlite3\<close> module when a uniqueness constraint fails,
  \<open>HTTPException\<close> that of \<open>fastapi\<close>, with its status and detail.
  \<open>NotTyped\<close> is no exception of the code: the source's dataclasses do not check the type of a
  field, so a row whose field is not of the annotated type builds an object outside the model;
  the model stops there with \<open>NotTyped\<close>.
\<close>

section \<open>Sequencing\<close>

type_synonym 'a res = "err + 'a"
type_synonym ('s, 'a) act = "'s \<Rightarrow> (err + 'a) \<times> 's"

text \<open>\<open>bindE\<close> stops at the first exception; \<open>raise_if\<close> is a guard of the code that raises.\<close>

fun bindE :: "'a res \<Rightarrow> ('a \<Rightarrow> 'b res) \<Rightarrow> 'b res" where
  "bindE (Inl e) f = Inl e"
| "bindE (Inr x) f = f x"

definition raise_if :: "bool \<Rightarrow> err \<Rightarrow> unit res" where
  "raise_if c e = (if c then Inl e else Inr ())"

fun mapE :: "('a \<Rightarrow> 'b res) \<Rightarrow> 'a list \<Rightarrow> 'b list res" where
  "mapE f [] = Inr []"
| "mapE f (x # xs) = bindE (f x) (\<lambda>y. bindE (mapE f xs) (\<lambda>ys. Inr (y # ys)))"

fun allE :: "('a \<Rightarrow> unit res) \<Rightarrow> 'a list \<Rightarrow> unit res" where
  "allE f [] = Inr ()"
| "allE f (x # xs) = bindE (f x) (\<lambda>_. allE f xs)"

text \<open>
  The same with a state: an exception keeps the state reached so far (Python does not undo
  what the statements before the \<open>raise\<close> did), \<open>tryS\<close> is \<open>try/except\<close> with the handler applied
  to the exception, and \<open>liftS\<close> runs a pure computation.
\<close>

definition retS :: "'a \<Rightarrow> ('s, 'a) act" where
  "retS x s = (Inr x, s)"

definition failS :: "err \<Rightarrow> ('s, 'a) act" where
  "failS e s = (Inl e, s)"

definition liftS :: "'a res \<Rightarrow> ('s, 'a) act" where
  "liftS r s = (r, s)"

definition bindS :: "('s, 'a) act \<Rightarrow> ('a \<Rightarrow> ('s, 'b) act) \<Rightarrow> ('s, 'b) act" where
  "bindS m f s = (case m s of (Inl e, s') \<Rightarrow> (Inl e, s') | (Inr x, s') \<Rightarrow> f x s')"

definition tryS :: "('s, 'a) act \<Rightarrow> (err \<Rightarrow> ('s, 'a) act) \<Rightarrow> ('s, 'a) act" where
  "tryS m h s = (case m s of (Inl e, s') \<Rightarrow> h e s' | (Inr x, s') \<Rightarrow> (Inr x, s'))"

lemma bindE_Inr_iff: "bindE m f = Inr y \<longleftrightarrow> (\<exists>x. m = Inr x \<and> f x = Inr y)"
  by (cases m) auto

lemma bindE_Inl_iff: "bindE m f = Inl e \<longleftrightarrow> m = Inl e \<or> (\<exists>x. m = Inr x \<and> f x = Inl e)"
  by (cases m) auto

lemma bindE_unit_iff: "bindE (m :: unit res) f = Inr y \<longleftrightarrow> m = Inr () \<and> f () = Inr y"
  by (cases m) auto

lemma bindE_assoc: "bindE (bindE m f) g = bindE m (\<lambda>x. bindE (f x) g)"
  by (cases m) auto

lemma bindE_cong [fundef_cong]:
  "m = m' \<Longrightarrow> (\<And>x. m' = Inr x \<Longrightarrow> f x = g x) \<Longrightarrow> bindE m f = bindE m' g"
  by (cases m') auto

lemma raise_if_Inr [simp]: "raise_if c e = Inr u \<longleftrightarrow> \<not> c"
  by (simp add: raise_if_def)

lemma raise_if_Inl [simp]: "raise_if c e = Inl e' \<longleftrightarrow> c \<and> e' = e"
  by (auto simp: raise_if_def)

lemma raise_if_simps [simp]: "raise_if True e = Inl e" "raise_if False e = Inr ()"
  by (simp_all add: raise_if_def)

lemma bindE_raise_if: "bindE (raise_if c e) f = (if c then Inl e else f ())"
  by (simp add: raise_if_def)

lemma allE_Inr_iff: "allE f xs = Inr u \<longleftrightarrow> (\<forall>x \<in> set xs. f x = Inr ())"
  by (induction xs) (auto simp: bindE_Inr_iff)

lemma mapE_Inr_iff: "mapE f xs = Inr ys \<longleftrightarrow> list_all2 (\<lambda>x y. f x = Inr y) xs ys"
  by (induction xs arbitrary: ys) (auto simp: bindE_Inr_iff list_all2_Cons1)

lemma mapE_map_Inr: "(\<And>x. x \<in> set xs \<Longrightarrow> f x = Inr (g x)) \<Longrightarrow> mapE f xs = Inr (map g xs)"
  by (induction xs) auto

lemma retS_apply [bind_simps]: "retS x s = (Inr x, s)"
  by (simp add: retS_def)

lemma failS_apply [bind_simps]: "failS e s = (Inl e, s)"
  by (simp add: failS_def)

lemma liftS_apply [bind_simps]: "liftS r s = (r, s)"
  by (simp add: liftS_def)

lemma bindS_Inr [bind_simps]: "m s = (Inr x, s') \<Longrightarrow> bindS m f s = f x s'"
  by (simp add: bindS_def)

lemma bindS_Inl [bind_simps]: "m s = (Inl e, s') \<Longrightarrow> bindS m f s = (Inl e, s')"
  by (simp add: bindS_def)

lemma bindS_lift_Inr [bind_simps]: "bindS (liftS (Inr x)) f = f x"
  by (rule ext) (simp add: bindS_def liftS_def)

lemma bindS_ret [bind_simps]: "bindS (retS x) f = f x"
  by (rule ext) (simp add: bindS_def retS_def)

lemma bindS_InrE:
  assumes "bindS m f s = (Inr y, s'')"
  obtains x s' where "m s = (Inr x, s')" "f x s' = (Inr y, s'')"
  using assms by (auto simp: bindS_def split: prod.splits sum.splits)

lemma bindS_InlE:
  assumes "bindS m f s = (Inl e, s'')"
  obtains "m s = (Inl e, s'')" | x s' where "m s = (Inr x, s')" "f x s' = (Inl e, s'')"
  using assms by (auto simp: bindS_def split: prod.splits sum.splits)

section \<open>Dictionaries\<close>

text \<open>
  A Python dictionary keeps insertion order and has distinct keys: an association list, looked
  up with \<open>map_of\<close> and assigned with \<open>AList.update\<close>, which replaces a value in place or appends a
  new key at the end, as \<open>d[k] = v\<close> and \<open>{**d, k: v}\<close> do.
\<close>

abbreviation dkeys :: "('k \<times> 'v) list \<Rightarrow> 'k list" where
  "dkeys d \<equiv> map fst d"

abbreviation ddistinct :: "('k \<times> 'v) list \<Rightarrow> bool" where
  "ddistinct d \<equiv> distinct (map fst d)"

definition dset :: "('k \<times> 'v) list \<Rightarrow> 'k \<Rightarrow> 'v \<Rightarrow> ('k \<times> 'v) list" where
  "dset d k v = AList.update k v d"

definition dremove :: "('k \<times> 'v) list \<Rightarrow> 'k \<Rightarrow> ('k \<times> 'v) list" where
  "dremove d k = filter (\<lambda>(k', v). k' \<noteq> k) d"

lemma dset_simps [simp]:
  "dset [] k v = [(k, v)]"
  "dset ((k', v') # d) k v = (if k' = k then (k, v) # d else (k', v') # dset d k v)"
  by (simp_all add: dset_def)

lemma map_of_dset [simp]: "map_of (dset d k v) k' = (if k' = k then Some v else map_of d k')"
  by (simp add: dset_def update_conv')

lemma ddistinct_dset [simp]: "ddistinct d \<Longrightarrow> ddistinct (dset d k v)"
  by (simp add: dset_def distinct_update)

lemma dkeys_dset: "dkeys (dset d k v) = (if k \<in> set (dkeys d) then dkeys d else dkeys d @ [k])"
  by (simp add: dset_def update_keys image_iff)

lemma dset_fresh: "map_of d k = None \<Longrightarrow> dset d k v = d @ [(k, v)]"
  by (induction d) (auto split: if_splits)

lemma set_dset_subset: "set (dset d k v) \<subseteq> insert (k, v) (set d)"
proof (induction d)
  case (Cons p d)
  then show ?case by (cases p) auto
qed simp

lemma set_dset: "ddistinct d \<Longrightarrow> set (dset d k v) = insert (k, v) {(k', v') \<in> set d. k' \<noteq> k}"
  by (induction d) (force simp: image_iff split: if_splits)+

lemma dremove_dset_same: "dremove (dset d k v) k = dremove d k"
  by (induction d) (auto simp: dremove_def)

lemma map_of_dremove [simp]: "map_of (dremove d k) k' = (if k' = k then None else map_of d k')"
  by (induction d) (auto simp: dremove_def)

lemma ddistinct_dremove [simp]: "ddistinct d \<Longrightarrow> ddistinct (dremove d k)"
  by (induction d) (auto simp: dremove_def)

lemma set_dkeys_dremove [simp]: "fst ` set (dremove d k) = fst ` set d - {k}"
  by (force simp: dremove_def)

lemma dremove_idle: "map_of d k = None \<Longrightarrow> dremove d k = d"
  by (induction d) (auto simp: dremove_def split: if_splits)

lemma dremove_dset_other: "k \<noteq> k' \<Longrightarrow> dremove (dset d k' v) k = dset (dremove d k) k' v"
  by (induction d) (auto simp: dremove_def)

lemma map_of_Some_in_set: "map_of d k = Some v \<Longrightarrow> (k, v) \<in> set d"
  by (rule map_of_SomeD)

lemma filter_snd_dset:
  "map_of d k = Some v \<Longrightarrow> \<not> P v \<Longrightarrow> \<not> P w \<Longrightarrow> filter P (map snd (dset d k w)) = filter P (map snd d)"
  by (induction d) (auto split: if_splits)

lemma map_fst_dset_old: "map_of d k = Some v \<Longrightarrow> dkeys (dset d k w) = dkeys d"
  by (induction d) (auto split: if_splits)

section \<open>Sorting\<close>

lemma filter_key_inj:
  assumes "set zs \<subseteq> A" "k \<in> A" "inj_on f A"
  shows "filter (\<lambda>x. f k = f x) zs = filter (\<lambda>x. k = x) zs"
  using assms by (intro filter_cong) (auto simp: inj_on_def)

lemma sort_key_perm_inj:
  assumes perm: "mset xs = mset ys" and inj: "inj_on f (set xs)"
  shows "sort_key f xs = sort_key f ys"
proof (rule properties_for_sort_key)
  show "mset (sort_key f ys) = mset xs" using perm by simp
  show "sorted (map f (sort_key f ys))" by simp
  fix k assume "k \<in> set (sort_key f ys)"
  with perm have k: "k \<in> set xs" by (metis set_sort set_mset_mset)
  have sub: "set (sort_key f ys) \<subseteq> set xs"
    using perm by (metis set_sort set_mset_mset subset_refl)
  have "mset (filter (\<lambda>x. k = x) (sort_key f ys)) = mset (filter (\<lambda>x. k = x) xs)"
    using perm by simp
  then have len: "length (filter (\<lambda>x. k = x) (sort_key f ys)) = length (filter (\<lambda>x. k = x) xs)"
    by (rule mset_eq_length)
  have "filter (\<lambda>x. k = x) (sort_key f ys)
      = replicate (length (filter (\<lambda>x. k = x) (sort_key f ys))) k"
    by (rule replicate_length_filter [symmetric])
  also have "\<dots> = replicate (length (filter (\<lambda>x. k = x) xs)) k"
    by (simp only: len)
  also have "\<dots> = filter (\<lambda>x. k = x) xs"
    by (rule replicate_length_filter)
  finally have "filter (\<lambda>x. k = x) (sort_key f ys) = filter (\<lambda>x. k = x) xs" .
  then show "filter (\<lambda>x. f k = f x) (sort_key f ys) = filter (\<lambda>x. f k = f x) xs"
    using filter_key_inj [OF sub k inj] filter_key_inj [OF subset_refl k inj] by simp
qed

lemma sort_key_sorted_idem: "sorted (map f xs) \<Longrightarrow> sort_key f xs = xs"
  by (induction xs) (auto simp: insort_is_Cons)

section \<open>Decimal numerals\<close>

text \<open>\<open>str(n)\<close> and the integers of an f-string.\<close>

definition digit :: "nat \<Rightarrow> char" where
  "digit n = char_of (48 + n)"

fun show_nat :: "nat \<Rightarrow> string" where
  "show_nat n = (if n < 10 then [digit n] else show_nat (n div 10) @ [digit (n mod 10)])"

declare show_nat.simps [simp del]

definition show_int :: "int \<Rightarrow> string" where
  "show_int i = (if i < 0 then CHR ''-'' # show_nat (nat (- i)) else show_nat (nat i))"

definition is_digit :: "char \<Rightarrow> bool" where
  "is_digit c \<longleftrightarrow> 48 \<le> (of_char c :: nat) \<and> (of_char c :: nat) < 58"

definition digit_val :: "char \<Rightarrow> nat" where
  "digit_val c = of_char c - 48"

lemma digit_val_digit [simp]: "n < 10 \<Longrightarrow> digit_val (digit n) = n"
  by (simp add: digit_val_def digit_def)

lemma is_digit_digit [simp]: "n < 10 \<Longrightarrow> is_digit (digit n)"
  by (simp add: is_digit_def digit_def)

lemma show_nat_digits: "c \<in> set (show_nat n) \<Longrightarrow> is_digit c"
proof (induction n rule: show_nat.induct)
  case (1 n)
  then show ?case by (subst (asm) (2) show_nat.simps) (auto split: if_splits)
qed

lemma show_nat_nonempty [simp]: "show_nat n \<noteq> []"
  by (subst show_nat.simps) simp

lemma foldl_show_nat: "foldl (\<lambda>a c. a * 10 + digit_val c) 0 (show_nat n) = n"
proof (induction n rule: show_nat.induct)
  case (1 n)
  then show ?case by (subst show_nat.simps) (auto simp: div_mult_mod_eq)
qed

lemma show_nat_inj [simp]: "show_nat m = show_nat n \<longleftrightarrow> m = n"
  by (metis foldl_show_nat)

lemma digit_not_minus: "is_digit c \<Longrightarrow> c \<noteq> CHR ''-''"
  by (auto simp: is_digit_def)

lemma show_nat_not_minus: "show_nat n \<noteq> CHR ''-'' # s"
proof
  assume "show_nat n = CHR ''-'' # s"
  then have "is_digit (CHR ''-'')" by (metis list.set_intros(1) show_nat_digits)
  then show False by (simp add: is_digit_def)
qed

lemma show_int_inj [simp]: "show_int m = show_int n \<longleftrightarrow> m = n"
  using show_nat_not_minus show_nat_not_minus [symmetric] by (auto simp: show_int_def)

section \<open>Comparing characters\<close>

text \<open>The order of characters bit by bit, for evaluation in the kernel.\<close>

lemma bits_eq: "(of_bool x + 2 * m :: nat) = of_bool y + 2 * n \<longleftrightarrow> x = y \<and> m = n"
  by (cases x; cases y) (simp_all, presburger+)

lemma bits_less: "(of_bool x + 2 * m :: nat) < of_bool y + 2 * n \<longleftrightarrow> (if m = n then \<not> x \<and> y else m < n)"
  by (cases x; cases y) auto

lemma char_less_code [code]:
  "Char a0 a1 a2 a3 a4 a5 a6 a7 < Char b0 b1 b2 b3 b4 b5 b6 b7 \<longleftrightarrow>
   (if a7 \<noteq> b7 then b7 else if a6 \<noteq> b6 then b6 else if a5 \<noteq> b5 then b5 else if a4 \<noteq> b4 then b4
    else if a3 \<noteq> b3 then b3 else if a2 \<noteq> b2 then b2 else if a1 \<noteq> b1 then b1 else \<not> a0 \<and> b0)"
proof -
  have eq: "horner_sum of_bool 2 (x # xs) = (horner_sum of_bool 2 (y # ys) :: nat) \<longleftrightarrow>
      x = y \<and> horner_sum of_bool 2 xs = (horner_sum of_bool 2 ys :: nat)" for x y xs ys
    by (simp only: horner_sum_simps bits_eq)
  have less: "horner_sum of_bool 2 (x # xs) < (horner_sum of_bool 2 (y # ys) :: nat) \<longleftrightarrow>
      (if horner_sum of_bool 2 xs = (horner_sum of_bool 2 ys :: nat) then \<not> x \<and> y
       else horner_sum of_bool 2 xs < (horner_sum of_bool 2 ys :: nat))" for x y xs ys
    by (simp only: horner_sum_simps bits_less)
  have nil: "\<not> horner_sum of_bool 2 [] < (horner_sum of_bool 2 [] :: nat)" by simp
  show ?thesis
    unfolding less_char_def of_char_Char less eq nil by argo
qed

end
