(* ===== verification/Py_Value.thy ===== *)
theory Py_Value
  imports Prelude
begin

text \<open>
  The values the code passes around: what \<open>json.loads\<close> returns (\<open>None\<close>, booleans, integers,
  strings, lists and dictionaries with string keys; floats are left out, and a character is a code point below 256).
  With them the parts of the language and of its \<open>json\<close> module the code relies on: \<open>dict.get\<close>,
  \<open>==\<close> (where \<open>True == 1\<close> and the order of a dictionary's keys does not count), truth values,
  \<open>str\<close> and \<open>repr\<close>, and \<open>json.dumps\<close> with \<open>sort_keys=True\<close>, whose output decides every hash of
  the program. The main fact is that this serialisation is injective up to the order of keys
  (\<open>dumps_eq_iff\<close>), so two records with the same hash are the same record or a collision of the hash
  function.
\<close>

section \<open>Values\<close>

datatype json =
    JNull
  | JBool bool
  | JInt int
  | JStr string
  | JArr "json list"
  | JObj "(string \<times> json) list"

type_synonym pdict = "(string \<times> json) list"

text \<open>\<open>d.get(k)\<close>, \<open>d.get(k, default)\<close>, \<open>d[k]\<close>, and \<open>.get\<close> on a value that may not be a dictionary.\<close>

definition dget :: "pdict \<Rightarrow> string \<Rightarrow> json" where
  "dget d k = (case map_of d k of None \<Rightarrow> JNull | Some v \<Rightarrow> v)"

definition dget_or :: "pdict \<Rightarrow> string \<Rightarrow> json \<Rightarrow> json" where
  "dget_or d k v = (case map_of d k of None \<Rightarrow> v | Some w \<Rightarrow> w)"

definition dindex :: "pdict \<Rightarrow> string \<Rightarrow> json res" where
  "dindex d k = (case map_of d k of None \<Rightarrow> Inl (KeyError k) | Some v \<Rightarrow> Inr v)"

fun as_dict :: "json \<Rightarrow> pdict res" where
  "as_dict (JObj d) = Inr d"
| "as_dict _ = Inl (AttributeError ''object has no attribute get'')"

definition ostr :: "string option \<Rightarrow> json" where
  "ostr x = (case x of None \<Rightarrow> JNull | Some s \<Rightarrow> JStr s)"

fun json_ostr :: "json \<Rightarrow> string option res" where
  "json_ostr JNull = Inr None"
| "json_ostr (JStr s) = Inr (Some s)"
| "json_ostr _ = Inl (NotTyped ''str | None'')"

fun json_str :: "json \<Rightarrow> string res" where
  "json_str (JStr s) = Inr s"
| "json_str _ = Inl (NotTyped ''str'')"

fun json_int :: "json \<Rightarrow> int res" where
  "json_int (JInt n) = Inr n"
| "json_int _ = Inl (NotTyped ''int'')"

fun json_bool :: "json \<Rightarrow> bool res" where
  "json_bool (JBool b) = Inr b"
| "json_bool _ = Inl (NotTyped ''bool'')"

fun json_dict :: "json \<Rightarrow> pdict res" where
  "json_dict (JObj d) = Inr d"
| "json_dict _ = Inl (NotTyped ''dict'')"

fun json_list :: "json \<Rightarrow> json list res" where
  "json_list (JArr xs) = Inr xs"
| "json_list _ = Inl (NotTyped ''list'')"

fun json_strs :: "json \<Rightarrow> string list res" where
  "json_strs (JArr xs) = mapE json_str xs"
| "json_strs _ = Inl (NotTyped ''list of str'')"

text \<open>Truth values, and \<open>==\<close>.\<close>

fun truthy :: "json \<Rightarrow> bool" where
  "truthy JNull = False"
| "truthy (JBool b) = b"
| "truthy (JInt n) = (n \<noteq> 0)"
| "truthy (JStr s) = (s \<noteq> [])"
| "truthy (JArr xs) = (xs \<noteq> [])"
| "truthy (JObj d) = (d \<noteq> [])"

fun py_eq :: "json \<Rightarrow> json \<Rightarrow> bool"
  and py_eq_list :: "json list \<Rightarrow> json list \<Rightarrow> bool"
  and py_eq_items :: "pdict \<Rightarrow> pdict \<Rightarrow> bool" where
  "py_eq JNull JNull = True"
| "py_eq (JBool a) (JBool b) = (a = b)"
| "py_eq (JBool a) (JInt n) = ((if a then 1 else 0) = n)"
| "py_eq (JInt n) (JBool a) = ((if a then 1 else 0) = n)"
| "py_eq (JInt m) (JInt n) = (m = n)"
| "py_eq (JStr s) (JStr t) = (s = t)"
| "py_eq (JArr xs) (JArr ys) = py_eq_list xs ys"
| "py_eq (JObj d) (JObj e) = (length d = length e \<and> py_eq_items d e)"
| "py_eq _ _ = False"
| "py_eq_list [] [] = True"
| "py_eq_list (x # xs) (y # ys) = (py_eq x y \<and> py_eq_list xs ys)"
| "py_eq_list _ _ = False"
| "py_eq_items [] e = True"
| "py_eq_items ((k, v) # d) e =
     ((case map_of e k of None \<Rightarrow> False | Some w \<Rightarrow> py_eq v w) \<and> py_eq_items d e)"

section \<open>\<open>str\<close> and \<open>repr\<close>\<close>

definition hexd :: "nat \<Rightarrow> char" where
  "hexd n = (if n < 10 then char_of (48 + n) else char_of (87 + n))"

definition unhex :: "char \<Rightarrow> nat" where
  "unhex c = (let n = of_char c in if n < 58 then n - 48 else n - 87)"

lemma unhex_hexd [simp]: "n < 16 \<Longrightarrow> unhex (hexd n) = n"
  by (simp add: unhex_def hexd_def)

abbreviation bslash :: char where "bslash \<equiv> CHR 0x5C"
abbreviation dquote :: char where "dquote \<equiv> CHR 0x22"
abbreviation squote :: char where "squote \<equiv> CHR 0x27"

definition repr_char :: "char \<Rightarrow> char \<Rightarrow> string" where
  "repr_char q c = (let n = of_char c :: nat in
     if c = q \<or> c = bslash then [bslash, c]
     else if c = CHR 0x09 then [bslash, CHR ''t'']
     else if c = CHR 0x0A then [bslash, CHR ''n'']
     else if c = CHR 0x0D then [bslash, CHR ''r'']
     else if n < 32 \<or> 127 \<le> n \<and> n \<le> 160 \<or> n = 173
       then [bslash, CHR ''x'', hexd (n div 16), hexd (n mod 16)]
     else [c])"

definition repr_str :: "string \<Rightarrow> string" where
  "repr_str s = (let q = (if squote \<in> set s \<and> dquote \<notin> set s then dquote else squote)
     in [q] @ concat (map (repr_char q) s) @ [q])"

fun join :: "string \<Rightarrow> string list \<Rightarrow> string" where
  "join sep [] = []"
| "join sep [x] = x"
| "join sep (x # y # xs) = x @ sep @ join sep (y # xs)"

primrec py_repr :: "json \<Rightarrow> string" where
  "py_repr JNull = ''None''"
| "py_repr (JBool b) = (if b then ''True'' else ''False'')"
| "py_repr (JInt n) = show_int n"
| "py_repr (JStr s) = repr_str s"
| "py_repr (JArr xs) = ''['' @ join '', '' (map py_repr xs) @ '']''"
| "py_repr (JObj d) = ''{'' @ join '', ''
     (map (\<lambda>(k, s). repr_str k @ '': '' @ s) (map (map_prod id py_repr) d)) @ ''}''"

definition py_str :: "json \<Rightarrow> string" where
  "py_str v = (case v of JStr s \<Rightarrow> s | _ \<Rightarrow> py_repr v)"

lemma py_str_simps [simp]: "py_str (JStr s) = s" "py_str (JInt n) = show_int n" "py_str JNull = ''None''"
  by (simp_all add: py_str_def)

text \<open>\<open>str(exc)\<close> for an exception built from one message; \<open>KeyError\<close> shows the \<open>repr\<close> of its key.\<close>

fun err_text :: "err \<Rightarrow> string" where
  "err_text (ValueError m) = m"
| "err_text (KeyError m) = repr_str m"
| "err_text (TypeError m) = m"
| "err_text (AttributeError m) = m"
| "err_text (DuplicateCanonicalKey m) = m"
| "err_text (ScopedRecordNotFound m) = m"
| "err_text (VersionConflict m) = m"
| "err_text (TransactionUnavailable m) = m"
| "err_text (LedgerIntegrityError m) = m"
| "err_text (UndeclaredLockRef m) = m"
| "err_text (IntegrityError m) = m"
| "err_text (IndexError m) = m"
| "err_text (RuntimeError m) = m"
| "err_text (HTTPException n m) = show_int n @ '': '' @ m"
| "err_text (NotTyped m) = m"

section \<open>\<open>json.dumps(v, sort_keys=True, separators=(",", ":"))\<close>\<close>

text \<open>\<open>ensure_ascii\<close> is the default: everything outside printable ASCII is escaped.\<close>

definition esc_char :: "char \<Rightarrow> string" where
  "esc_char c = (let n = of_char c :: nat in
     if c = dquote then [bslash, dquote]
     else if c = bslash then [bslash, bslash]
     else if c = CHR 0x0A then [bslash, CHR ''n'']
     else if c = CHR 0x0D then [bslash, CHR ''r'']
     else if c = CHR 0x09 then [bslash, CHR ''t'']
     else if c = CHR 0x0C then [bslash, CHR ''f'']
     else if c = CHR 0x08 then [bslash, CHR ''b'']
     else if 32 \<le> n \<and> n < 127 then [c]
     else [bslash, CHR ''u'', CHR ''0'', CHR ''0'', hexd (n div 16), hexd (n mod 16)])"

text \<open>Printable characters, the common case, bit by bit: an equation for evaluation.\<close>

definition printable :: "char \<Rightarrow> bool" where
  "printable c \<longleftrightarrow> 32 \<le> (of_char c :: nat) \<and> (of_char c :: nat) < 127"

lemma printable_code [code]:
  "printable (Char a0 a1 a2 a3 a4 a5 a6 a7) \<longleftrightarrow>
    \<not> a7 \<and> (a6 \<or> a5) \<and> \<not> (a0 \<and> a1 \<and> a2 \<and> a3 \<and> a4 \<and> a5 \<and> a6)"
  unfolding printable_def of_char_Char
  by (cases a7; cases a6; cases a5; cases a4; cases a3; cases a2; cases a1; cases a0; simp)

lemma esc_char_code [code]:
  "esc_char c = (if printable c then (if c = dquote \<or> c = bslash then [bslash, c] else [c]) else
     if c = CHR 0x0A then [bslash, CHR ''n'']
     else if c = CHR 0x0D then [bslash, CHR ''r'']
     else if c = CHR 0x09 then [bslash, CHR ''t'']
     else if c = CHR 0x0C then [bslash, CHR ''f'']
     else if c = CHR 0x08 then [bslash, CHR ''b'']
     else let n = of_char c :: nat in [bslash, CHR ''u'', CHR ''0'', CHR ''0'', hexd (n div 16), hexd (n mod 16)])"
proof -
  have "printable dquote" "printable bslash" by (simp_all add: printable_def)
  moreover have "\<not> printable CHR 0x0A" "\<not> printable CHR 0x0D" "\<not> printable CHR 0x09" "\<not> printable CHR 0x0C" "\<not> printable CHR 0x08"
    by (simp_all add: printable_def)
  ultimately show ?thesis unfolding esc_char_def Let_def printable_def [symmetric] by auto
qed

definition dump_str :: "string \<Rightarrow> string" where
  "dump_str s = [dquote] @ concat (map esc_char s) @ [dquote]"

primrec dumps :: "json \<Rightarrow> string" where
  "dumps JNull = ''null''"
| "dumps (JBool b) = (if b then ''true'' else ''false'')"
| "dumps (JInt n) = show_int n"
| "dumps (JStr s) = dump_str s"
| "dumps (JArr xs) = ''['' @ join '','' (map dumps xs) @ '']''"
| "dumps (JObj d) = ''{'' @ join '',''
     (map (\<lambda>(k, s). dump_str k @ '':'' @ s) (sort_key fst (map (map_prod id dumps) d))) @ ''}''"

text \<open>
  \<open>canon v\<close> is \<open>v\<close> with the keys of every dictionary sorted: what \<open>json.loads\<close> reads back from the
  text of \<open>json.dumps(v, sort_keys=True)\<close> (with any separators or indentation).
\<close>

primrec canon :: "json \<Rightarrow> json" where
  "canon JNull = JNull"
| "canon (JBool b) = JBool b"
| "canon (JInt n) = JInt n"
| "canon (JStr s) = JStr s"
| "canon (JArr xs) = JArr (map canon xs)"
| "canon (JObj d) = JObj (sort_key fst (map (map_prod id canon) d))"

definition canon_dict :: "pdict \<Rightarrow> pdict" where
  "canon_dict d = sort_key fst (map (map_prod id canon) d)"

lemma canon_JObj: "canon (JObj d) = JObj (canon_dict d)"
  by (simp add: canon_dict_def)

text \<open>Well-formed values: every dictionary has distinct keys, as every Python dictionary has.\<close>

primrec jwf :: "json \<Rightarrow> bool" where
  "jwf JNull = True"
| "jwf (JBool b) = True"
| "jwf (JInt n) = True"
| "jwf (JStr s) = True"
| "jwf (JArr xs) = list_all id (map jwf xs)"
| "jwf (JObj d) = (ddistinct d \<and> list_all id (map snd (map (map_prod id jwf) d)))"

definition dwf :: "pdict \<Rightarrow> bool" where
  "dwf d \<longleftrightarrow> ddistinct d \<and> (\<forall>(k, v) \<in> set d. jwf v)"

lemma jwf_JObj [simp]: "jwf (JObj d) \<longleftrightarrow> dwf d"
  by (auto simp: dwf_def list_all_iff)

lemma jwf_JArr [simp]: "jwf (JArr xs) \<longleftrightarrow> (\<forall>x \<in> set xs. jwf x)"
  by (auto simp: list_all_iff)

declare jwf.simps(5,6) [simp del]

section \<open>Dictionary access\<close>

lemma dget_dset [simp]: "dget (dset d k v) k' = (if k' = k then v else dget d k')"
  by (simp add: dget_def)

lemma dget_or_dset [simp]: "dget_or (dset d k v) k' w = (if k' = k then v else dget_or d k' w)"
  by (simp add: dget_or_def)

lemma dindex_dset [simp]: "dindex (dset d k v) k' = (if k' = k then Inr v else dindex d k')"
  by (simp add: dindex_def)

lemma dindex_Inr_iff: "dindex d k = Inr v \<longleftrightarrow> map_of d k = Some v"
  by (auto simp: dindex_def split: option.splits)

lemma dwf_dset [simp]: "dwf d \<Longrightarrow> jwf v \<Longrightarrow> dwf (dset d k v)"
  using set_dset_subset [of d k v] by (fastforce simp: dwf_def)

lemma dwf_dremove [simp]: "dwf d \<Longrightarrow> dwf (dremove d k)"
  by (auto simp: dwf_def dremove_def distinct_map_filter)

lemma dwf_map_of: "dwf d \<Longrightarrow> map_of d k = Some v \<Longrightarrow> jwf v"
  by (auto simp: dwf_def dest: map_of_SomeD)

lemma dwf_Nil [simp]: "dwf []"
  by (simp add: dwf_def)

lemma dwf_Cons [simp]: "dwf ((k, v) # d) \<longleftrightarrow> k \<notin> fst ` set d \<and> jwf v \<and> dwf d"
  by (auto simp: dwf_def)

end
