(* ===== verification/Json_Canon.thy ===== *)
theory Json_Canon
  imports Py_Value
begin

text \<open>
  Facts on the serialisation of \<^verbatim>\<open>json.dumps(..., sort_keys=True)\<close>: it depends on a value only up
  to the order of dictionary keys, it determines the value up to that order, and \<open>==\<close> does not see that
  order either. Every hash and signature argument of the development rests on these.
\<close>

section \<open>Sorting keys\<close>

lemma insort_key_map: "insort_key f (h x) (map h xs) = map h (insort_key (\<lambda>y. f (h y)) x xs)"
  by (induction xs) auto

lemma sort_key_map: "sort_key f (map h xs) = map h (sort_key (\<lambda>y. f (h y)) xs)"
  by (induction xs) (auto simp: insort_key_map)

lemma sort_fst_map_prod: "sort_key fst (map (map_prod id g) d) = map (map_prod id g) (sort_key fst d)"
  by (simp add: sort_key_map)

lemma sort_fst_idem [simp]: "sort_key fst (sort_key fst d) = sort_key fst d"
  by (simp add: sort_key_sorted_idem)

lemma distinct_sort_fst [simp]: "ddistinct (sort_key fst d) = ddistinct d"
  by (metis distinct_map mset_map mset_sort mset_eq_imp_distinct_iff)

lemma map_of_sort_fst: "ddistinct d \<Longrightarrow> map_of (sort_key fst d) = map_of d"
  by (rule map_of_inject_set [THEN iffD2]) simp_all

lemma map_of_map_prod: "map_of (map (map_prod id g) d) k = map_option g (map_of d k)"
  by (induction d) auto

lemma map_of_canon_dict: "ddistinct d \<Longrightarrow> map_of (canon_dict d) k = map_option canon (map_of d k)"
  by (simp add: canon_dict_def sort_fst_map_prod map_of_map_prod map_of_sort_fst)

lemma dget_canon_dict: "ddistinct d \<Longrightarrow> dget (canon_dict d) k = canon (dget d k)"
  by (simp add: dget_def map_of_canon_dict split: option.splits)

lemma ddistinct_canon_dict [simp]: "ddistinct (canon_dict d) = ddistinct d"
  by (simp add: canon_dict_def sort_fst_map_prod)

lemma length_canon_dict [simp]: "length (canon_dict d) = length d"
  by (simp add: canon_dict_def)

lemma set_canon_dict: "set (canon_dict d) = map_prod id canon ` set d"
  by (simp add: canon_dict_def)

lemma map_fst_map_prod_id [simp]: "map (fst \<circ> map_prod id g) d = map fst d"
  by (induction d) auto

section \<open>Normal form\<close>

lemma canon_idem [simp]: "canon (canon v) = canon v"
proof (induction v)
  case (JObj d)
  have "map (map_prod id canon \<circ> map_prod id canon) (sort_key fst d)
      = map (map_prod id canon) (sort_key fst d)"
    using JObj by (intro map_cong) (auto simp: snds.simps)
  then show ?case by (simp only: canon.simps dumps.simps sort_fst_map_prod map_map sort_fst_idem)
qed auto

lemma canon_dict_idem [simp]: "canon_dict (canon_dict d) = canon_dict d"
  using canon_idem [of "JObj d"] by (simp only: canon_JObj json.inject)

lemma dumps_canon [simp]: "dumps (canon v) = dumps v"
proof (induction v)
  case (JArr xs)
  then show ?case by (simp add: comp_def cong: map_cong)
next
  case (JObj d)
  have "map (map_prod id dumps \<circ> map_prod id canon) (sort_key fst d)
      = map (map_prod id dumps) (sort_key fst d)"
    using JObj by (intro map_cong) (auto simp: snds.simps)
  then show ?case by (simp only: canon.simps dumps.simps sort_fst_map_prod map_map sort_fst_idem)
qed auto

lemma dwf_canon_iff: "(\<And>k v. (k, v) \<in> set d \<Longrightarrow> jwf (canon v) = jwf v) \<Longrightarrow> dwf (canon_dict d) = dwf d"
  by (auto simp: dwf_def set_canon_dict)

lemma jwf_canon [simp]: "jwf (canon v) = jwf v"
proof (induction v)
  case (JObj d)
  then have "dwf (canon_dict d) = dwf d" by (intro dwf_canon_iff) (auto simp: snds.simps)
  then show ?case by (simp only: canon_JObj jwf_JObj)
qed auto

lemma dwf_canon_dict [simp]: "dwf (canon_dict d) = dwf d"
  using jwf_canon [of "JObj d"] by (simp only: canon_JObj jwf_JObj)

lemma canon_dict_cong: "mset d = mset e \<Longrightarrow> ddistinct d \<Longrightarrow> canon_dict d = canon_dict e"
  unfolding canon_dict_def
  by (rule sort_key_perm_inj) (auto simp: distinct_map inj_on_def)

text \<open>Two dictionaries with the same entries in another order serialise alike.\<close>

lemma mset_eq_if_map_of_eq:
  assumes "ddistinct d" "ddistinct e" "map_of d = map_of e"
  shows "mset d = mset e"
  using assms by (metis distinct_map map_of_inject_set set_eq_iff_mset_eq_distinct)

lemma canon_dict_eq_if_map_of_eq:
  "ddistinct d \<Longrightarrow> ddistinct e \<Longrightarrow> map_of d = map_of e \<Longrightarrow> canon_dict d = canon_dict e"
  by (rule canon_dict_cong) (auto intro: mset_eq_if_map_of_eq)

lemma canon_dict_eqI:
  assumes "ddistinct d" "ddistinct e" "\<And>k. map_option canon (map_of d k) = map_option canon (map_of e k)"
  shows "canon_dict d = canon_dict e"
proof -
  have "canon_dict (canon_dict d) = canon_dict (canon_dict e)"
    using assms by (intro canon_dict_eq_if_map_of_eq) (auto simp: map_of_canon_dict)
  then show ?thesis by simp
qed

section \<open>The serialisation is injective\<close>

text \<open>The serialisation without sorting, which is what the code emits on a normal form.\<close>

primrec dumps_raw :: "json \<Rightarrow> string" where
  "dumps_raw JNull = ''null''"
| "dumps_raw (JBool b) = (if b then ''true'' else ''false'')"
| "dumps_raw (JInt n) = show_int n"
| "dumps_raw (JStr s) = dump_str s"
| "dumps_raw (JArr xs) = ''['' @ join '','' (map dumps_raw xs) @ '']''"
| "dumps_raw (JObj d) = ''{'' @ join '',''
     (map (\<lambda>(k, s). dump_str k @ '':'' @ s) (map (map_prod id dumps_raw) d)) @ ''}''"

lemma dumps_eq_raw: "dumps v = dumps_raw (canon v)"
proof (induction v)
  case (JArr xs)
  then show ?case by (simp add: comp_def cong: map_cong)
next
  case (JObj d)
  have "map (map_prod id dumps) d = map (map_prod id dumps_raw) (map (map_prod id canon) d)"
    using JObj by (auto simp: map_prod_def)
  then show ?case by (simp only: dumps.simps canon.simps dumps_raw.simps sort_fst_map_prod)
qed auto

text \<open>Reading one escaped character back.\<close>

definition unesc :: "string \<Rightarrow> char \<times> string" where
  "unesc s = (case s of
     c # r \<Rightarrow> (if c \<noteq> bslash then (c, r) else case r of
        d # r' \<Rightarrow> (if d = CHR ''n'' then (CHR 0x0A, r') else if d = CHR ''r'' then (CHR 0x0D, r')
          else if d = CHR ''t'' then (CHR 0x09, r') else if d = CHR ''f'' then (CHR 0x0C, r')
          else if d = CHR ''b'' then (CHR 0x08, r')
          else if d = CHR ''u'' then
            (char_of (16 * unhex (r' ! 2) + unhex (r' ! 3)), drop 4 r')
          else (d, r')))
   )"

lemma unesc_esc: "unesc (esc_char c @ s) = (c, s)"
proof -
  define k :: nat where "k = of_char c"
  have "k < 256" by (simp add: k_def)
  then have d: "k div 16 < 16" "k mod 16 < 16" by presburger+
  have e: "char_of (16 * (k div 16) + k mod 16) = c" by (simp add: k_def)
  show ?thesis
    unfolding esc_char_def unesc_def Let_def k_def [symmetric] using d e by simp
qed

lemma esc_char_prefix: "esc_char c @ s = esc_char d @ t \<Longrightarrow> c = d \<and> s = t"
  by (metis prod.inject unesc_esc)

lemma esc_char_head: "\<exists>x r. esc_char c = x # r \<and> x \<noteq> dquote"
  by (auto simp: esc_char_def Let_def)

lemma dump_body_prefix:
  "concat (map esc_char a) @ dquote # s = concat (map esc_char b) @ dquote # t \<Longrightarrow> a = b \<and> s = t"
proof (induction a arbitrary: b)
  case Nil
  show ?case
  proof (cases b)
    case (Cons d b')
    with Nil esc_char_head [of d] show ?thesis by auto
  qed (use Nil in simp)
next
  case (Cons c a)
  show ?case
  proof (cases b)
    case Nil
    with Cons.prems esc_char_head [of c] show ?thesis by auto
  next
    case (Cons d b')
    with Cons.prems have "esc_char c @ (concat (map esc_char a) @ dquote # s)
        = esc_char d @ (concat (map esc_char b') @ dquote # t)" by simp
    then have "c = d" and r: "concat (map esc_char a) @ dquote # s = concat (map esc_char b') @ dquote # t"
      by (auto dest: esc_char_prefix)
    from Cons.IH [OF r] \<open>c = d\<close> Cons show ?thesis by simp
  qed
qed

lemma dump_str_prefix: "dump_str a @ s = dump_str b @ t \<Longrightarrow> a = b \<and> s = t"
  using dump_body_prefix [of a s b t] by (simp add: dump_str_def)

lemma dump_str_inj [simp]: "dump_str a = dump_str b \<longleftrightarrow> a = b"
  using dump_str_prefix [of a "[]" b "[]"] by auto

text \<open>A number ends where the next character is no digit.\<close>

definition delim :: "string \<Rightarrow> bool" where
  "delim s \<longleftrightarrow> (case s of [] \<Rightarrow> True | c # _ \<Rightarrow> \<not> is_digit c)"

lemma takeWhile_digits: "delim s \<Longrightarrow> takeWhile is_digit (show_nat n @ s) = show_nat n"
  by (auto simp: delim_def takeWhile_append2 show_nat_digits split: list.splits)

lemma show_nat_prefix:
  assumes "show_nat m @ s = show_nat n @ t" "delim s" "delim t"
  shows "m = n \<and> s = t"
proof -
  have "show_nat m = show_nat n" using assms takeWhile_digits by metis
  with assms(1) show ?thesis by simp
qed

lemma show_nat_hd: "\<exists>c r. show_nat n = c # r \<and> is_digit c"
  by (metis list.exhaust list.set_intros(1) show_nat_digits show_nat_nonempty)

lemma minus_not_digit [simp]: "\<not> is_digit (CHR ''-'')"
  by (simp add: is_digit_def)

lemma show_nat_minus_clash: "CHR ''-'' # a \<noteq> show_nat k @ b"
  using show_nat_hd [of k] by auto

lemma show_int_prefix:
  assumes eq: "show_int m @ s = show_int n @ t" and "delim s" "delim t"
  shows "m = n \<and> s = t"
proof (cases "m < 0")
  case True
  with eq show_nat_minus_clash [of _ "nat n" t] have n: "n < 0"
    by (auto simp: show_int_def split: if_splits)
  with True eq have "show_nat (nat (- m)) @ s = show_nat (nat (- n)) @ t"
    by (simp add: show_int_def)
  with assms have "nat (- m) = nat (- n) \<and> s = t" by (intro show_nat_prefix)
  with True n show ?thesis by auto
next
  case False
  with eq show_nat_minus_clash [of _ "nat m" s] have n: "\<not> n < 0"
    by (auto simp: show_int_def split: if_splits dest: sym)
  with False eq have "show_nat (nat m) @ s = show_nat (nat n) @ t"
    by (simp add: show_int_def)
  with assms have "nat m = nat n \<and> s = t" by (intro show_nat_prefix)
  with False n show ?thesis by auto
qed

text \<open>A joined sequence is read back element by element.\<close>

lemma join_Cons: "join sep (x # xs) = x @ concat (map (\<lambda>y. sep @ y) xs)"
  by (induction xs arbitrary: x) auto

lemma tail_prefix:
  assumes inj: "\<And>x y s t. x \<in> set xs \<Longrightarrow> f x @ s = f y @ t \<Longrightarrow> delim s \<Longrightarrow> delim t \<Longrightarrow> x = y \<and> s = t"
    and cl: "\<not> is_digit cl" "cl \<noteq> CHR '',''"
    and eq: "concat (map (\<lambda>y. '','' @ f y) xs) @ cl # s = concat (map (\<lambda>y. '','' @ f y) ys) @ cl # t"
  shows "xs = ys \<and> s = t"
  using inj eq
proof (induction xs arbitrary: ys)
  case Nil
  with cl show ?case by (cases ys) auto
next
  case (Cons x xs)
  from Cons.prems(2) cl obtain y ys' where ys: "ys = y # ys'" by (cases ys) auto
  have nd: "delim (concat (map (\<lambda>y. '','' @ f y) zs) @ cl # u)" for zs u
    using cl by (cases zs) (auto simp: delim_def is_digit_def)
  from Cons.prems(2) ys have "f x @ (concat (map (\<lambda>y. '','' @ f y) xs) @ cl # s)
      = f y @ (concat (map (\<lambda>y. '','' @ f y) ys') @ cl # t)" by simp
  with Cons.prems(1) [of x] nd have "x = y"
    and r: "concat (map (\<lambda>y. '','' @ f y) xs) @ cl # s = concat (map (\<lambda>y. '','' @ f y) ys') @ cl # t"
    by (metis list.set_intros(1))+
  from Cons.IH [OF _ r] Cons.prems(1) have "xs = ys' \<and> s = t" by (metis list.set_intros(2))
  with \<open>x = y\<close> ys show ?case by simp
qed

lemma join_prefix:
  assumes inj: "\<And>x y s t. x \<in> set xs \<Longrightarrow> f x @ s = f y @ t \<Longrightarrow> delim s \<Longrightarrow> delim t \<Longrightarrow> x = y \<and> s = t"
    and hd: "\<And>x. \<exists>c r. f x = c # r \<and> c \<noteq> cl"
    and cl: "\<not> is_digit cl" "cl \<noteq> CHR '',''"
    and eq: "join '','' (map f xs) @ cl # s = join '','' (map f ys) @ cl # t"
  shows "xs = ys \<and> s = t"
proof (cases xs)
  case Nil
  show ?thesis
  proof (cases ys)
    case (Cons y ys')
    with Nil eq hd [of y] show ?thesis by (auto simp: join_Cons)
  qed (use Nil eq in simp)
next
  case xs: (Cons x xs')
  show ?thesis
  proof (cases ys)
    case Nil
    with xs eq hd [of x] show ?thesis by (auto simp: join_Cons)
  next
    case (Cons y ys')
    with xs eq have "concat (map (\<lambda>y. '','' @ f y) xs) @ cl # s
        = concat (map (\<lambda>y. '','' @ f y) ys) @ cl # t"
      by (simp add: join_Cons comp_def)
    from tail_prefix [OF inj cl this] show ?thesis .
  qed
qed

lemma show_int_hd: "\<exists>c r. show_int n = c # r \<and> (is_digit c \<or> c = CHR ''-'')"
  using show_nat_hd [of "nat n"] by (auto simp: show_int_def)

definition raw_kind :: "json \<Rightarrow> nat" where
  "raw_kind v = (case v of JNull \<Rightarrow> 0 | JBool b \<Rightarrow> if b then 1 else 2 | JInt _ \<Rightarrow> 3 | JStr _ \<Rightarrow> 4
     | JArr _ \<Rightarrow> 5 | JObj _ \<Rightarrow> 6)"

definition kind_of :: "char \<Rightarrow> nat" where
  "kind_of c = (if c = CHR ''n'' then 0 else if c = CHR ''t'' then 1 else if c = CHR ''f'' then 2
     else if c = dquote then 4 else if c = CHR ''['' then 5 else if c = CHR ''{'' then 6 else 3)"

lemma number_kind:
  "is_digit c \<or> c = CHR ''-'' \<Longrightarrow> kind_of c = 3 \<and> c \<notin> {CHR '']'', CHR ''}''}"
proof -
  assume c: "is_digit c \<or> c = CHR ''-''"
  have nd: "\<not> is_digit (CHR ''n'')" "\<not> is_digit (CHR ''t'')" "\<not> is_digit (CHR ''f'')"
    "\<not> is_digit dquote" "\<not> is_digit (CHR ''['')" "\<not> is_digit (CHR ''{'')"
    "\<not> is_digit (CHR '']'')" "\<not> is_digit (CHR ''}'')"
    by (simp_all add: is_digit_def)
  have "c \<noteq> CHR ''n''" "c \<noteq> CHR ''t''" "c \<noteq> CHR ''f''" "c \<noteq> dquote" "c \<noteq> CHR ''[''"
    "c \<noteq> CHR ''{''" "c \<noteq> CHR '']''" "c \<noteq> CHR ''}''"
    using c nd by (elim disjE; force)+
  then show ?thesis by (simp add: kind_of_def)
qed

lemma dumps_raw_hd: "\<exists>c r. dumps_raw v = c # r \<and> kind_of c = raw_kind v \<and> c \<notin> {CHR '']'', CHR ''}''}"
proof (cases v)
  case (JInt n)
  obtain c r where "show_int n = c # r" "is_digit c \<or> c = CHR ''-''" using show_int_hd by blast
  with JInt number_kind [of c] show ?thesis by (simp add: raw_kind_def)
qed (auto simp: kind_of_def raw_kind_def dump_str_def)

lemma raw_same_kind: "dumps_raw x @ s = dumps_raw y @ t \<Longrightarrow> raw_kind x = raw_kind y"
  using dumps_raw_hd [of x] dumps_raw_hd [of y] by auto

lemma item_prefix:
  assumes inj: "\<And>y s t. dumps_raw v @ s = dumps_raw y @ t \<Longrightarrow> delim s \<Longrightarrow> delim t \<Longrightarrow> v = y \<and> s = t"
    and eq: "(dump_str k @ '':'' @ dumps_raw v) @ s = (dump_str k' @ '':'' @ dumps_raw v') @ t"
    and d: "delim s" "delim t"
  shows "(k, v) = (k', v') \<and> s = t"
proof -
  from eq have "dump_str k @ ('':'' @ dumps_raw v @ s) = dump_str k' @ ('':'' @ dumps_raw v' @ t)" by simp
  then have "k = k'" and "dumps_raw v @ s = dumps_raw v' @ t"
    by (auto dest: dump_str_prefix)
  with inj d show ?thesis by blast
qed

lemma dumps_raw_prefix:
  "dumps_raw x @ s = dumps_raw y @ t \<Longrightarrow> delim s \<Longrightarrow> delim t \<Longrightarrow> x = y \<and> s = t"
proof (induction x arbitrary: y s t)
  case JNull
  with raw_same_kind [OF JNull(1)] show ?case by (cases y) (auto simp: raw_kind_def split: if_splits)
next
  case (JBool b)
  with raw_same_kind [OF JBool(1)] show ?case by (cases y) (auto simp: raw_kind_def split: if_splits)
next
  case (JInt n)
  with raw_same_kind [OF JInt(1)] show_int_prefix [of n s _ t] show ?case
    by (cases y) (auto simp: raw_kind_def split: if_splits)
next
  case (JStr a)
  with raw_same_kind [OF JStr(1)] dump_str_prefix [of a s _ t] show ?case
    by (cases y) (auto simp: raw_kind_def split: if_splits)
next
  case (JArr xs)
  from raw_same_kind [OF JArr.prems(1)] obtain ys where y: "y = JArr ys"
    by (cases y) (auto simp: raw_kind_def split: if_splits)
  have hd: "\<exists>c r. dumps_raw x = c # r \<and> c \<noteq> CHR '']''" for x using dumps_raw_hd [of x] by auto
  from JArr.prems(1) y have "join '','' (map dumps_raw xs) @ CHR '']'' # s
      = join '','' (map dumps_raw ys) @ CHR '']'' # t" by simp
  from join_prefix [OF JArr.IH hd _ _ this] y show ?case by (simp add: is_digit_def)
next
  case (JObj d)
  from raw_same_kind [OF JObj.prems(1)] obtain e where y: "y = JObj e"
    by (cases y) (auto simp: raw_kind_def split: if_splits)
  let ?f = "\<lambda>(k, v). dump_str k @ '':'' @ dumps_raw v"
  have m: "map (\<lambda>(k, s). dump_str k @ '':'' @ s) (map (map_prod id dumps_raw) z) = map ?f z" for z
    by (simp add: case_prod_unfold comp_def)
  have hd: "\<exists>c r. ?f p = c # r \<and> c \<noteq> CHR ''}''" for p
    by (cases p) (simp add: dump_str_def)
  have inj: "p = q \<and> s = t" if "p \<in> set d" "?f p @ s = ?f q @ t" "delim s" "delim t" for p q s t
  proof -
    obtain k v k' v' where p: "p = (k, v)" and q: "q = (k', v')" by (cases p, cases q) auto
    have "v \<in> Basic_BNFs.snds p" using p by simp
    from JObj.IH [OF that(1) this] show ?thesis
      using item_prefix [of v k s k' v' t] that p q by simp
  qed
  have raw: "dumps_raw (JObj z) = ''{'' @ join '','' (map ?f z) @ ''}''" for z
    by (simp only: dumps_raw.simps m)
  from JObj.prems(1) have "join '','' (map ?f d) @ CHR ''}'' # s
      = join '','' (map ?f e) @ CHR ''}'' # t" by (simp only: y raw append_Cons append_Nil append_assoc list.inject)
  from join_prefix [OF inj hd _ _ this] y show ?case by (simp add: is_digit_def)
qed

theorem dumps_eq_iff: "dumps v = dumps w \<longleftrightarrow> canon v = canon w"
  using dumps_raw_prefix [of "canon v" "[]" "canon w" "[]"]
  by (auto simp: dumps_eq_raw delim_def)

declare dumps.simps(5,6) [simp del] canon.simps(6) [simp del]
declare canon_JObj [simp]

section \<open>\<open>==\<close> does not see the order of keys\<close>

lemma py_eq_items_iff:
  "py_eq_items d e \<longleftrightarrow> (\<forall>(k, v) \<in> set d. \<exists>w. map_of e k = Some w \<and> py_eq v w)"
  by (induction d) (auto split: option.splits)

lemma py_eq_list_iff: "py_eq_list xs ys \<longleftrightarrow> list_all2 py_eq xs ys"
  by (induction xs arbitrary: ys) (auto simp: list_all2_Cons1 neq_Nil_conv split: list.splits,
      (case_tac ys; simp)+)

lemma py_eq_canon_self: "jwf v \<Longrightarrow> py_eq v (canon v)"
proof (induction v)
  case (JArr xs)
  then show ?case by (auto simp: py_eq_list_iff list_all2_conv_all_nth)
next
  case (JObj d)
  have "\<exists>w. map_of (canon_dict d) k = Some w \<and> py_eq v w" if "(k, v) \<in> set d" for k v
    using JObj that by (auto simp: map_of_canon_dict dwf_def snds.simps)
  then have "py_eq_items d (canon_dict d)" by (auto simp: py_eq_items_iff)
  then show ?case unfolding canon_JObj by simp
qed auto

lemma py_eq_refl: "jwf v \<Longrightarrow> py_eq v v"
proof (induction v)
  case (JArr xs)
  then show ?case by (auto simp: py_eq_list_iff list_all2_conv_all_nth)
next
  case (JObj d)
  have "\<exists>w. map_of d k = Some w \<and> py_eq v w" if "(k, v) \<in> set d" for k v
    using JObj that by (auto simp: dwf_def snds.simps)
  then show ?case by (auto simp: py_eq_items_iff)
qed auto

lemma py_eq_canon_left: "jwf v \<Longrightarrow> py_eq (canon v) v"
proof (induction v)
  case (JArr xs)
  then show ?case by (auto simp: py_eq_list_iff list_all2_conv_all_nth)
next
  case (JObj d)
  have "\<exists>w. map_of d k = Some w \<and> py_eq (canon v) w" if "(k, v) \<in> set d" for k v
    using JObj that by (auto simp: dwf_def snds.simps)
  then have "py_eq_items (canon_dict d) d" by (auto simp: py_eq_items_iff set_canon_dict)
  then show ?case unfolding canon_JObj by simp
qed auto

lemma py_eq_JStr [simp]: "py_eq v (JStr s) \<longleftrightarrow> v = JStr s" "py_eq (JStr s) v \<longleftrightarrow> v = JStr s"
  by (cases v; auto)+

lemma py_eq_JNull [simp]: "py_eq v JNull \<longleftrightarrow> v = JNull" "py_eq JNull v \<longleftrightarrow> v = JNull"
  by (cases v; simp)+

lemma py_eq_ostr [simp]: "py_eq v (ostr x) \<longleftrightarrow> v = ostr x" "py_eq (ostr x) v \<longleftrightarrow> v = ostr x"
  by (auto simp: ostr_def split: option.splits)

lemma ostr_inj [simp]: "ostr x = ostr y \<longleftrightarrow> x = y"
  by (auto simp: ostr_def split: option.splits)

lemma canon_ostr [simp]: "canon (ostr x) = ostr x"
  by (simp add: ostr_def split: option.splits)

lemma json_ostr_ostr [simp]: "json_ostr (ostr x) = Inr x"
  by (simp add: ostr_def split: option.splits)

lemma jwf_ostr [simp]: "jwf (ostr x)"
  by (simp add: ostr_def split: option.splits)

end
