(* ===== verification/Transactions.thy ===== *)
theory Transactions
  imports Json_Canon
begin

text \<open>
  Model of \<^verbatim>\<open>src/src/phigraph/core_v3/transactions.py\<close>: the collections of the scoped ledger, lock
  references and their global order, the hashes of a record and of a chain link, and the checks
  every scoped operation starts with. SHA-256 followed by \<open>hexdigest\<close> is the parameter \<open>H\<close>
  of the hash functions: nothing is assumed about it, so what is proved holds for SHA-256; a
  property that two different texts could break says so by exhibiting the collision.
\<close>

section \<open>Collections\<close>

definition MAX_LIST_LIMIT :: int where
  "MAX_LIST_LIMIT = 1000"

definition SCOPED_COLLECTIONS :: "string list" where
  "SCOPED_COLLECTIONS = [''decision_envelopes'', ''authority_decisions'', ''execution_requests'',
     ''gateway_decisions'', ''gateway_decision_events'', ''shadow_execution_receipts'',
     ''shadow_outcomes'', ''replay_reports'', ''historical_comparisons'']"

definition LEGACY_MIGRATABLE_SCOPED_COLLECTIONS :: "string list" where
  "LEGACY_MIGRATABLE_SCOPED_COLLECTIONS = filter (\<lambda>c. c \<noteq> ''gateway_decision_events'') SCOPED_COLLECTIONS"

definition GATEWAY_DECISION_EVENT_TYPES :: "string list" where
  "GATEWAY_DECISION_EVENT_TYPES = [''GATEWAY_DECISION_CREATED'', ''SIMULATION_RECORDED'']"

definition CAS_ALLOWED_COLLECTIONS :: "string list" where
  "CAS_ALLOWED_COLLECTIONS = [''claims'', ''evidence'', ''verifications'', ''actions'',
     ''policy_decisions'', ''outcomes'']"

definition CHAIN_LINKED_COLLECTIONS :: "string list" where
  "CHAIN_LINKED_COLLECTIONS = SCOPED_COLLECTIONS"

definition COLLECTION_RECORD_ID_KEYS :: "(string \<times> string) list" where
  "COLLECTION_RECORD_ID_KEYS = [
     (''decision_envelopes'', ''envelope_id''),
     (''authority_decisions'', ''authority_decision_id''),
     (''execution_requests'', ''plan_id''),
     (''gateway_decisions'', ''gateway_decision_id''),
     (''gateway_decision_events'', ''event_id''),
     (''shadow_execution_receipts'', ''receipt_id''),
     (''shadow_outcomes'', ''outcome_id''),
     (''replay_reports'', ''replay_id''),
     (''historical_comparisons'', ''comparison_id''),
     (''claims'', ''claim_id''),
     (''evidence'', ''evidence_id''),
     (''verifications'', ''verification_id''),
     (''actions'', ''action_id''),
     (''policy_decisions'', ''decision_id''),
     (''outcomes'', ''outcome_id'')]"

definition LEGACY_CANONICAL_KEY_FIELDS :: "(string \<times> string) list" where
  "LEGACY_CANONICAL_KEY_FIELDS = [
     (''decision_envelopes'', ''envelope_id''),
     (''authority_decisions'', ''authority_decision_id''),
     (''execution_requests'', ''plan_id''),
     (''gateway_decisions'', ''plan_id''),
     (''shadow_execution_receipts'', ''plan_id''),
     (''shadow_outcomes'', ''shadow_receipt_id''),
     (''replay_reports'', ''manifest_hash''),
     (''historical_comparisons'', ''comparison_key'')]"

definition gateway_event_canonical_key :: "string \<Rightarrow> string \<Rightarrow> string res" where
  "gateway_event_canonical_key plan_id event_type =
     (if event_type \<notin> set GATEWAY_DECISION_EVENT_TYPES
      then Inl (ValueError (''unsupported gateway decision event type: '' @ event_type))
      else Inr (plan_id @ '':'' @ event_type))"

definition is_chain_linked_collection :: "string \<Rightarrow> bool" where
  "is_chain_linked_collection c \<longleftrightarrow> c \<in> set CHAIN_LINKED_COLLECTIONS"

definition APPEND_SCOPED_COLLECTIONS :: "string list" where
  "APPEND_SCOPED_COLLECTIONS = SCOPED_COLLECTIONS @ CAS_ALLOWED_COLLECTIONS"

definition READ_SCOPED_COLLECTIONS :: "string list" where
  "READ_SCOPED_COLLECTIONS = SCOPED_COLLECTIONS @ CAS_ALLOWED_COLLECTIONS"

definition validate_collection :: "string \<Rightarrow> bool \<Rightarrow> bool \<Rightarrow> bool \<Rightarrow> unit res" where
  "validate_collection collection cas app rd =
     (let allowed = (if cas then CAS_ALLOWED_COLLECTIONS
        else if app then APPEND_SCOPED_COLLECTIONS
        else if rd then READ_SCOPED_COLLECTIONS
        else SCOPED_COLLECTIONS)
      in raise_if (collection \<notin> set allowed)
           (ValueError (''Unsupported collection for scoped operation: '' @ collection)))"

definition extract_record_id :: "string \<Rightarrow> pdict \<Rightarrow> string option \<Rightarrow> string res" where
  "extract_record_id collection record record_id =
     (case map_of COLLECTION_RECORD_ID_KEYS collection of
        None \<Rightarrow> Inl (ValueError (''No record id mapping for collection: '' @ collection))
      | Some id_key \<Rightarrow> (case record_id of
          Some rid \<Rightarrow> (case map_of record id_key of
              Some v \<Rightarrow> if py_str v \<noteq> rid
                then Inl (ValueError (''record['' @ id_key @ ''] conflicts with explicit record_id''))
                else Inr rid
            | None \<Rightarrow> Inr rid)
        | None \<Rightarrow> (case map_of record id_key of
              None \<Rightarrow> Inl (ValueError (''Missing required field '' @ id_key @ '' for collection '' @ collection))
            | Some v \<Rightarrow> Inr (py_str v))))"

section \<open>Hashes\<close>

definition canonical_scoped_payload_hash :: "(string \<Rightarrow> string) \<Rightarrow> pdict \<Rightarrow> string" where
  "canonical_scoped_payload_hash H record = H (dumps (JObj (dremove record ''_chain'')))"

definition chain_record_hash ::
  "(string \<Rightarrow> string) \<Rightarrow> string option \<Rightarrow> string \<Rightarrow> pdict \<Rightarrow> string" where
  "chain_record_hash H previous_hash collection record =
     H (dumps (JObj [(''previous_hash'', ostr previous_hash),
                     (''collection'', JStr collection),
                     (''record'', JObj (dremove record ''_chain''))]))"

section \<open>Lock references\<close>

datatype lock_kind = CHAIN | CANONICAL

record lock_ref =
  lr_tenant :: string
  lr_project :: string
  lr_collection :: string
  lr_kind :: lock_kind
  lr_key :: string

text \<open>The constructor with its \<open>__post_init__\<close>.\<close>

definition LockRef :: "string \<Rightarrow> string \<Rightarrow> string \<Rightarrow> lock_kind \<Rightarrow> string \<Rightarrow> lock_ref res" where
  "LockRef tenant_id project_id collection kind canonical_key =
     (if tenant_id = [] \<or> project_id = [] \<or> collection = []
      then Inl (ValueError ''LockRef tenant_id, project_id, and collection are required'')
      else if kind = CHAIN \<and> canonical_key \<noteq> []
      then Inl (ValueError ''CHAIN LockRef must not carry a canonical_key'')
      else if kind \<noteq> CHAIN \<and> canonical_key = []
      then Inl (ValueError ''CANONICAL LockRef requires canonical_key'')
      else Inr \<lparr>lr_tenant = tenant_id, lr_project = project_id, lr_collection = collection,
                lr_kind = kind, lr_key = canonical_key\<rparr>)"

definition lock_sort_key :: "lock_ref \<Rightarrow> string \<times> string \<times> string \<times> nat \<times> string" where
  "lock_sort_key ref = (lr_tenant ref, lr_project ref, lr_collection ref,
     (if lr_kind ref = CHAIN then 0 else 1), lr_key ref)"

definition normalize_lock_refs :: "lock_ref list \<Rightarrow> lock_ref list" where
  "normalize_lock_refs refs = sort_key lock_sort_key (remdups refs)"

definition validate_lock_refs_scope :: "lock_ref list \<Rightarrow> string \<Rightarrow> string \<Rightarrow> unit res" where
  "validate_lock_refs_scope refs tenant_id project_id =
     allE (\<lambda>ref. raise_if (lr_tenant ref \<noteq> tenant_id \<or> lr_project ref \<noteq> project_id)
        (ValueError ''lock_refs scope must match run_scoped_transaction scope'')) refs"

record lock_context =
  chain_locks :: "string set"
  canonical_locks :: "(string \<times> string) set"

definition build_lock_context :: "lock_ref list \<Rightarrow> lock_context" where
  "build_lock_context refs =
     \<lparr>chain_locks = set (map lr_collection (filter (\<lambda>r. lr_kind r = CHAIN) refs)),
      canonical_locks = set (map (\<lambda>r. (lr_collection r, lr_key r)) (filter (\<lambda>r. lr_kind r = CANONICAL) refs))\<rparr>"

definition require_write_locks ::
  "lock_context option \<Rightarrow> string \<Rightarrow> string \<Rightarrow> bool \<Rightarrow> unit res" where
  "require_write_locks ctx collection canonical_key require_chain =
     (case ctx of None \<Rightarrow> Inr ()
      | Some c \<Rightarrow>
          if require_chain \<and> collection \<notin> chain_locks c
          then Inl (UndeclaredLockRef (''Missing CHAIN lock for collection: '' @ collection))
          else if (collection, canonical_key) \<notin> canonical_locks c
          then Inl (UndeclaredLockRef
            (''Missing CANONICAL lock for collection='' @ collection @ '' key='' @ canonical_key))
          else Inr ())"

section \<open>Facts\<close>

lemma lock_sort_key_inj: "inj lock_sort_key"
proof (rule injI)
  fix a b :: lock_ref assume eq: "lock_sort_key a = lock_sort_key b"
  then have "lr_kind a = lr_kind b"
    by (cases "lr_kind a"; cases "lr_kind b") (simp_all add: lock_sort_key_def)
  with eq show "a = b" by (simp add: lock_sort_key_def)
qed

lemma set_normalize [simp]: "set (normalize_lock_refs refs) = set refs"
  by (simp add: normalize_lock_refs_def)

lemma distinct_normalize [simp]: "distinct (normalize_lock_refs refs)"
  by (simp add: normalize_lock_refs_def)

lemma sorted_normalize: "sorted (map lock_sort_key (normalize_lock_refs refs))"
  by (simp add: normalize_lock_refs_def)

lemma normalize_cong: "set refs = set refs' \<Longrightarrow> normalize_lock_refs refs = normalize_lock_refs refs'"
  unfolding normalize_lock_refs_def
  by (rule sort_key_perm_inj)
    (auto intro: inj_on_subset [OF lock_sort_key_inj] simp: set_eq_iff_mset_eq_distinct [symmetric])

lemma normalize_idem: "normalize_lock_refs (normalize_lock_refs refs) = normalize_lock_refs refs"
  by (rule normalize_cong) simp

text \<open>The order is strict: an earlier reference has a smaller key.\<close>

lemma strict_sorted_normalize: "sorted_wrt (\<lambda>a b. lock_sort_key a < lock_sort_key b) (normalize_lock_refs refs)"
proof -
  let ?ks = "map lock_sort_key (normalize_lock_refs refs)"
  have "distinct ?ks"
    using inj_on_subset [OF lock_sort_key_inj] by (simp add: distinct_map)
  then have "sorted_wrt (<) ?ks" using sorted_normalize strict_sorted_iff by blast
  then show ?thesis by (simp add: sorted_wrt_map)
qed

lemma build_lock_context_simps [simp]:
  "c \<in> chain_locks (build_lock_context refs) \<longleftrightarrow>
     (\<exists>r \<in> set refs. lr_kind r = CHAIN \<and> lr_collection r = c)"
  "(c, k) \<in> canonical_locks (build_lock_context refs) \<longleftrightarrow>
     (\<exists>r \<in> set refs. lr_kind r = CANONICAL \<and> lr_collection r = c \<and> lr_key r = k)"
  by (auto simp: build_lock_context_def)

lemma build_lock_context_cong:
  "set refs = set refs' \<Longrightarrow> build_lock_context refs = build_lock_context refs'"
  by (simp add: build_lock_context_def)

lemma collections_disjoint: "c \<in> set CAS_ALLOWED_COLLECTIONS \<Longrightarrow> \<not> is_chain_linked_collection c"
  by (auto simp: is_chain_linked_collection_def CAS_ALLOWED_COLLECTIONS_def
      CHAIN_LINKED_COLLECTIONS_def SCOPED_COLLECTIONS_def)

lemma payload_hash_cong:
  "canon_dict (dremove d ''_chain'') = canon_dict (dremove e ''_chain'')
   \<Longrightarrow> canonical_scoped_payload_hash H d = canonical_scoped_payload_hash H e"
  unfolding canonical_scoped_payload_hash_def
  by (intro arg_cong [where f = H] dumps_eq_iff [THEN iffD2]) simp

lemma chain_hash_cong:
  "canon_dict (dremove d ''_chain'') = canon_dict (dremove e ''_chain'')
   \<Longrightarrow> chain_record_hash H p c d = chain_record_hash H p c e"
  unfolding chain_record_hash_def
  by (intro arg_cong [where f = H] dumps_eq_iff [THEN iffD2]) (simp add: canon_dict_def)

text \<open>
  What a link of the chain hashes. A hash fixes the link it was computed from as long as it
  tells the texts at hand apart, which is how the properties below use it: they assume the hash
  injective on the texts that really occur, never on all texts.
\<close>

definition link_value :: "string option \<Rightarrow> string \<Rightarrow> pdict \<Rightarrow> json" where
  "link_value previous_hash collection record =
     JObj [(''previous_hash'', ostr previous_hash), (''collection'', JStr collection),
           (''record'', JObj (dremove record ''_chain''))]"

lemma chain_record_hash_link: "chain_record_hash H p c d = H (dumps (link_value p c d))"
  by (simp add: chain_record_hash_def link_value_def)

lemma link_value_inj:
  assumes "dumps (link_value p c d) = dumps (link_value p' c' e)"
  shows "p = p' \<and> c = c' \<and> canon_dict (dremove d ''_chain'') = canon_dict (dremove e ''_chain'')"
proof -
  let ?x = "[(''previous_hash'', ostr p), (''collection'', JStr c), (''record'', JObj (dremove d ''_chain''))]"
  let ?y = "[(''previous_hash'', ostr p'), (''collection'', JStr c'), (''record'', JObj (dremove e ''_chain''))]"
  have "canon_dict ?x = canon_dict ?y"
    using assms dumps_eq_iff by (simp add: link_value_def)
  then have "map_of (canon_dict ?x) k = map_of (canon_dict ?y) k" for k by simp
  then have "map_option canon (map_of ?x k) = map_option canon (map_of ?y k)" for k
    by (simp add: map_of_canon_dict del: map_of.simps)
  from this [of "''previous_hash''"] this [of "''collection''"] this [of "''record''"]
  show ?thesis by simp
qed

end
