(* ===== verification/Scoped_Store.thy ===== *)
theory Scoped_Store
  imports Transactions
begin

text \<open>
  Model of the JSON backend of \<^verbatim>\<open>src/src/phigraph/core_v3/scoped_ledger.py\<close>: the stored rows and
  chain heads, reading and writing the file, the scoped operations (append, append once, get,
  list, administrative list, compare-and-set), the transaction with its declared locks, and the verifier of the
  hash chains. The file is the JSON value that its text denotes; the clock \<open>_utc_now\<close> is a
  parameter \<open>clk\<close>, the readings of one operation numbered from 0. \<open>RLock\<close> makes every operation and every
  transaction of the code atomic, so an execution is a sequence of them.
\<close>

section \<open>State\<close>

record stored_row =
  sr_tenant_id :: string
  sr_project_id :: string
  sr_collection :: string
  sr_canonical_key :: string
  sr_record_id :: string
  sr_payload :: pdict
  sr_payload_hash :: string
  sr_chain_prev :: "string option"
  sr_chain_hash :: string
  sr_chain_sequence :: int
  sr_row_version :: int
  sr_created_at :: string
  sr_updated_at :: string
  sr_chain_linked :: bool

definition to_public :: "stored_row \<Rightarrow> pdict" where
  "to_public row = sr_payload row"

record chain_head =
  ch_tenant_id :: string
  ch_project_id :: string
  ch_collection :: string
  ch_last_sequence :: int
  ch_last_chain_hash :: "string option"
  ch_updated_at :: string

record store_state =
  st_records :: "(string \<times> stored_row) list"
  st_heads :: "(string \<times> chain_head) list"

definition empty_store :: store_state where
  "empty_store = \<lparr>st_records = [], st_heads = []\<rparr>"

definition scoped_key :: "string \<Rightarrow> string \<Rightarrow> string \<Rightarrow> string \<Rightarrow> string" where
  "scoped_key tenant_id project_id collection canonical_key =
     tenant_id @ [CHR 0x00] @ project_id @ [CHR 0x00] @ collection @ [CHR 0x00] @ canonical_key"

definition head_key :: "string \<Rightarrow> string \<Rightarrow> string \<Rightarrow> string" where
  "head_key tenant_id project_id collection =
     tenant_id @ [CHR 0x00] @ project_id @ [CHR 0x00] @ collection"

definition standalone_row_hash :: "(string \<Rightarrow> string) \<Rightarrow> string \<Rightarrow> pdict \<Rightarrow> string" where
  "standalone_row_hash H collection record = chain_record_hash H None collection record"

text \<open>
  The engine: the file (\<open>None\<close> while it does not exist), whether \<open>transactional_mode\<close> is
  \<open>"multiprocess"\<close>, and the thread's transaction state.
\<close>

record engine =
  eng_disk :: "json option"
  eng_multiprocess :: bool
  tx_depth :: nat
  active_state :: "store_state option"
  eng_lock_context :: "lock_context option"
  eng_lock_refs :: "lock_ref list option"

definition fresh_engine :: engine where
  "fresh_engine = \<lparr>eng_disk = None, eng_multiprocess = False, tx_depth = 0, active_state = None,
     eng_lock_context = None, eng_lock_refs = None\<rparr>"

definition ensure_multiprocess_json_allowed :: "engine \<Rightarrow> unit res" where
  "ensure_multiprocess_json_allowed eng = raise_if (eng_multiprocess eng)
     (TransactionUnavailable ''JSON backend does not support multiprocess transactional mode'')"

section \<open>The file\<close>

definition row_to_json :: "stored_row \<Rightarrow> json" where
  "row_to_json row = JObj [
     (''tenant_id'', JStr (sr_tenant_id row)),
     (''project_id'', JStr (sr_project_id row)),
     (''collection'', JStr (sr_collection row)),
     (''canonical_key'', JStr (sr_canonical_key row)),
     (''record_id'', JStr (sr_record_id row)),
     (''payload'', JObj (sr_payload row)),
     (''payload_hash'', JStr (sr_payload_hash row)),
     (''chain_prev'', ostr (sr_chain_prev row)),
     (''chain_hash'', JStr (sr_chain_hash row)),
     (''chain_sequence'', JInt (sr_chain_sequence row)),
     (''row_version'', JInt (sr_row_version row)),
     (''created_at'', JStr (sr_created_at row)),
     (''updated_at'', JStr (sr_updated_at row)),
     (''chain_linked'', JBool (sr_chain_linked row))]"

definition head_to_json :: "chain_head \<Rightarrow> json" where
  "head_to_json h = JObj [
     (''tenant_id'', JStr (ch_tenant_id h)),
     (''project_id'', JStr (ch_project_id h)),
     (''collection'', JStr (ch_collection h)),
     (''last_sequence'', JInt (ch_last_sequence h)),
     (''last_chain_hash'', ostr (ch_last_chain_hash h)),
     (''updated_at'', JStr (ch_updated_at h))]"

text \<open>The text is written with sorted keys, so what will be read back is the normal form.\<close>

definition write_json_state :: "store_state \<Rightarrow> engine \<Rightarrow> engine" where
  "write_json_state st eng = eng\<lparr>eng_disk := Some (canon (JObj [
     (''records'', JArr (map (\<lambda>(k, r). row_to_json r) (st_records st))),
     (''heads'', JArr (map (\<lambda>(k, h). head_to_json h) (st_heads st)))]))\<rparr>"

text \<open>
  A dataclass constructor called with \<open>**d\<close>: an unexpected key, then a missing required one, is a
  \<open>TypeError\<close> (with the text of its message abbreviated).
\<close>

definition ctor_check :: "string \<Rightarrow> string list \<Rightarrow> string list \<Rightarrow> pdict \<Rightarrow> unit res" where
  "ctor_check cls required optional d =
     (case filter (\<lambda>k. k \<notin> set (required @ optional)) (dkeys d) of
        k # _ \<Rightarrow> Inl (TypeError (cls @ ''.__init__() got an unexpected keyword argument '' @ repr_str k))
      | [] \<Rightarrow> (case filter (\<lambda>k. k \<notin> set (dkeys d)) required of
          [] \<Rightarrow> Inr ()
        | missing \<Rightarrow> Inl (TypeError (cls @ ''.__init__() missing required arguments: ''
            @ join '', '' (map repr_str missing)))))"

definition stored_row_fields :: "string list" where
  "stored_row_fields = [''tenant_id'', ''project_id'', ''collection'', ''canonical_key'', ''record_id'',
     ''payload'', ''payload_hash'', ''chain_prev'', ''chain_hash'', ''chain_sequence'', ''row_version'',
     ''created_at'', ''updated_at'']"

definition row_from_json :: "json \<Rightarrow> stored_row res" where
  "row_from_json item =
     bindE (as_dict item) (\<lambda>d.
     bindE (dindex d ''collection'') (\<lambda>c0.
     bindE (json_str c0) (\<lambda>coll.
     bindE (json_bool (dget_or d ''chain_linked'' (JBool (is_chain_linked_collection coll)))) (\<lambda>linked.
     bindE (ctor_check ''_StoredRow'' stored_row_fields [] (dremove d ''chain_linked'')) (\<lambda>_.
     bindE (json_str (dget d ''tenant_id'')) (\<lambda>tenant.
     bindE (json_str (dget d ''project_id'')) (\<lambda>project.
     bindE (json_str (dget d ''canonical_key'')) (\<lambda>key.
     bindE (json_str (dget d ''record_id'')) (\<lambda>rid.
     bindE (json_dict (dget d ''payload'')) (\<lambda>payload.
     bindE (json_str (dget d ''payload_hash'')) (\<lambda>phash.
     bindE (json_ostr (dget d ''chain_prev'')) (\<lambda>prev.
     bindE (json_str (dget d ''chain_hash'')) (\<lambda>chash.
     bindE (json_int (dget d ''chain_sequence'')) (\<lambda>sequence.
     bindE (json_int (dget d ''row_version'')) (\<lambda>version.
     bindE (json_str (dget d ''created_at'')) (\<lambda>created.
     bindE (json_str (dget d ''updated_at'')) (\<lambda>updated.
     Inr \<lparr>sr_tenant_id = tenant, sr_project_id = project, sr_collection = coll, sr_canonical_key = key,
          sr_record_id = rid, sr_payload = payload, sr_payload_hash = phash, sr_chain_prev = prev,
          sr_chain_hash = chash, sr_chain_sequence = sequence, sr_row_version = version,
          sr_created_at = created, sr_updated_at = updated, sr_chain_linked = linked\<rparr>)))))))))))))))))"

definition head_from_json :: "json \<Rightarrow> chain_head res" where
  "head_from_json item =
     bindE (as_dict item) (\<lambda>d.
     bindE (bindE (dindex d ''tenant_id'') json_str) (\<lambda>tenant.
     bindE (bindE (dindex d ''project_id'') json_str) (\<lambda>project.
     bindE (bindE (dindex d ''collection'') json_str) (\<lambda>coll.
     bindE (json_int (dget d ''last_sequence'')) (\<lambda>sequence.
     bindE (json_ostr (dget d ''last_chain_hash'')) (\<lambda>hash.
     bindE (json_str (dget d ''updated_at'')) (\<lambda>updated.
     Inr \<lparr>ch_tenant_id = tenant, ch_project_id = project, ch_collection = coll,
          ch_last_sequence = sequence, ch_last_chain_hash = hash, ch_updated_at = updated\<rparr>)))))))"

definition row_key :: "stored_row \<Rightarrow> string" where
  "row_key row = scoped_key (sr_tenant_id row) (sr_project_id row) (sr_collection row) (sr_canonical_key row)"

definition chain_head_key :: "chain_head \<Rightarrow> string" where
  "chain_head_key h = head_key (ch_tenant_id h) (ch_project_id h) (ch_collection h)"

definition state_from_json :: "json \<Rightarrow> store_state res" where
  "state_from_json raw =
     bindE (as_dict raw) (\<lambda>d.
     bindE (bindE (json_list (dget_or d ''records'' (JArr []))) (mapE row_from_json)) (\<lambda>rows.
     bindE (bindE (json_list (dget_or d ''heads'' (JArr []))) (mapE head_from_json)) (\<lambda>hs.
     Inr \<lparr>st_records = foldl (\<lambda>m r. dset m (row_key r) r) [] rows,
          st_heads = foldl (\<lambda>m h. dset m (chain_head_key h) h) [] hs\<rparr>)))"

definition read_json_state :: "engine \<Rightarrow> store_state res" where
  "read_json_state eng = (case eng_disk eng of None \<Rightarrow> Inr empty_store | Some raw \<Rightarrow> state_from_json raw)"

definition current_state :: "engine \<Rightarrow> store_state res" where
  "current_state eng = (if tx_depth eng \<noteq> 0 \<and> active_state eng \<noteq> None
     then Inr (the (active_state eng)) else read_json_state eng)"

section \<open>Appending a row\<close>

definition scope_value :: "string \<Rightarrow> string \<Rightarrow> json" where
  "scope_value tenant_id project_id = JObj [(''tenant_id'', JStr tenant_id), (''project_id'', JStr project_id)]"

definition with_scope :: "pdict \<Rightarrow> string \<Rightarrow> string \<Rightarrow> pdict" where
  "with_scope record tenant_id project_id = dset record ''scope'' (scope_value tenant_id project_id)"

definition chain_value :: "string option \<Rightarrow> string \<Rightarrow> int \<Rightarrow> bool \<Rightarrow> json" where
  "chain_value prev hash sequence linked = JObj [(''previous_hash'', ostr prev), (''hash'', JStr hash),
     (''alg'', JStr ''sha256''), (''sequence'', JInt sequence), (''linked'', JBool linked)]"

definition or_now :: "string option \<Rightarrow> string \<Rightarrow> string" where
  "or_now x now = (case x of None \<Rightarrow> now | Some s \<Rightarrow> if s = [] then now else s)"

definition build_row ::
  "(string \<Rightarrow> string) \<Rightarrow> string \<Rightarrow> string \<Rightarrow> pdict \<Rightarrow> string \<Rightarrow> string \<Rightarrow> string \<Rightarrow> string option \<Rightarrow> int
   \<Rightarrow> int \<Rightarrow> string option \<Rightarrow> string option \<Rightarrow> bool option \<Rightarrow> stored_row res" where
  "build_row H now collection record canonical_key tenant_id project_id chain_prev chain_sequence
       row_version created_at updated_at chain_linked =
     (let linked = (case chain_linked of None \<Rightarrow> is_chain_linked_collection collection | Some b \<Rightarrow> b)
      in bindE (extract_record_id collection record None) (\<lambda>record_id.
         let scoped_payload = with_scope record tenant_id project_id;
             payload_hash = canonical_scoped_payload_hash H scoped_payload;
             chain_hash = (if linked then chain_record_hash H chain_prev collection scoped_payload
                           else standalone_row_hash H collection scoped_payload);
             prev = (if linked then chain_prev else None)
         in Inr \<lparr>sr_tenant_id = tenant_id, sr_project_id = project_id, sr_collection = collection,
              sr_canonical_key = canonical_key, sr_record_id = record_id,
              sr_payload = dset scoped_payload ''_chain'' (chain_value prev chain_hash chain_sequence linked),
              sr_payload_hash = payload_hash, sr_chain_prev = prev, sr_chain_hash = chain_hash,
              sr_chain_sequence = chain_sequence, sr_row_version = row_version,
              sr_created_at = or_now created_at now, sr_updated_at = or_now updated_at now,
              sr_chain_linked = linked\<rparr>))"

definition in_scope :: "string \<Rightarrow> string \<Rightarrow> string \<Rightarrow> stored_row \<Rightarrow> bool" where
  "in_scope tenant_id project_id collection row \<longleftrightarrow>
     sr_tenant_id row = tenant_id \<and> sr_project_id row = project_id \<and> sr_collection row = collection"

definition rows_of :: "store_state \<Rightarrow> stored_row list" where
  "rows_of st = map snd (st_records st)"

definition next_mutable_sequence :: "store_state \<Rightarrow> string \<Rightarrow> string \<Rightarrow> string \<Rightarrow> int" where
  "next_mutable_sequence st tenant_id project_id collection =
     (let sequences = map sr_chain_sequence (filter (in_scope tenant_id project_id collection) (rows_of st))
      in (if sequences = [] then 0 else Max (set sequences)) + 1)"

text \<open>
  The body of \<open>_json_append\<close> on the state: the returned flag is \<open>created\<close>. An exception of
  \<open>_build_row\<close> leaves the head that was inserted before it.
\<close>

definition json_append_state ::
  "(string \<Rightarrow> string) \<Rightarrow> (nat \<Rightarrow> string) \<Rightarrow> string \<Rightarrow> pdict \<Rightarrow> string \<Rightarrow> string \<Rightarrow> string \<Rightarrow> bool
   \<Rightarrow> (store_state, pdict \<times> bool) act" where
  "json_append_state H clk collection record canonical_key tenant_id project_id chain_linked st =
     (let key = scoped_key tenant_id project_id collection canonical_key;
          incoming_hash = canonical_scoped_payload_hash H (with_scope record tenant_id project_id)
      in case map_of (st_records st) key of
        Some existing \<Rightarrow>
          if sr_payload_hash existing = incoming_hash then (Inr (to_public existing, False), st)
          else (Inl (DuplicateCanonicalKey (''Duplicate canonical key '' @ canonical_key @ '' in ''
                 @ collection @ '' with different payload'')), st)
      | None \<Rightarrow>
          if chain_linked then
            (let hk = head_key tenant_id project_id collection;
                 head = (case map_of (st_heads st) hk of Some h \<Rightarrow> h
                   | None \<Rightarrow> \<lparr>ch_tenant_id = tenant_id, ch_project_id = project_id,
                       ch_collection = collection, ch_last_sequence = 0, ch_last_chain_hash = None,
                       ch_updated_at = clk 0\<rparr>);
                 st1 = st\<lparr>st_heads := dset (st_heads st) hk head\<rparr>;
                 next_sequence = ch_last_sequence head + 1
             in case build_row H (clk 1) collection record canonical_key tenant_id project_id
                       (ch_last_chain_hash head) next_sequence 1 None None (Some True) of
                  Inl e \<Rightarrow> (Inl e, st1)
                | Inr stored \<Rightarrow>
                    (Inr (to_public stored, True),
                     \<lparr>st_records = dset (st_records st) key stored,
                      st_heads = dset (st_heads st) hk
                        (head\<lparr>ch_last_sequence := next_sequence,
                              ch_last_chain_hash := Some (sr_chain_hash stored),
                              ch_updated_at := clk 2\<rparr>)\<rparr>))
          else
            (case build_row H (clk 1) collection record canonical_key tenant_id project_id None
                    (next_mutable_sequence st tenant_id project_id collection) 1 None None (Some False) of
               Inl e \<Rightarrow> (Inl e, st)
             | Inr stored \<Rightarrow>
                 (Inr (to_public stored, True), st\<lparr>st_records := dset (st_records st) key stored\<rparr>)))"

text \<open>
  An operation of the engine on the current state: inside a transaction it mutates the active
  copy in place, outside it works on what it read and, where it got as far as \<open>_write_json_state\<close>
  (\<open>dirty\<close>), writes the file.
\<close>

definition in_transaction :: "engine \<Rightarrow> bool" where
  "in_transaction eng \<longleftrightarrow> tx_depth eng \<noteq> 0 \<and> active_state eng \<noteq> None"

definition on_state :: "('a \<Rightarrow> bool) \<Rightarrow> (store_state, 'a) act \<Rightarrow> (engine, 'a) act" where
  "on_state dirty f eng = (case current_state eng of
     Inl e \<Rightarrow> (Inl e, eng)
   | Inr st \<Rightarrow> (case f st of
       (Inl e, st') \<Rightarrow> (Inl e, if in_transaction eng then eng\<lparr>active_state := Some st'\<rparr> else eng)
     | (Inr x, st') \<Rightarrow>
         (Inr x, let eng1 = (if in_transaction eng then eng\<lparr>active_state := Some st'\<rparr> else eng)
                 in if dirty x \<and> tx_depth eng = 0 then write_json_state st' eng1 else eng1)))"

definition engine_append_scoped ::
  "(string \<Rightarrow> string) \<Rightarrow> (nat \<Rightarrow> string) \<Rightarrow> string \<Rightarrow> pdict \<Rightarrow> string \<Rightarrow> string \<Rightarrow> string
   \<Rightarrow> (engine, pdict \<times> bool) act" where
  "engine_append_scoped H clk collection record canonical_key tenant_id project_id eng =
     bindS (liftS (validate_collection collection False True False)) (\<lambda>_.
     bindS (liftS (ensure_multiprocess_json_allowed eng)) (\<lambda>_.
     let linked = is_chain_linked_collection collection in
     bindS (liftS (require_write_locks (eng_lock_context eng) collection canonical_key linked)) (\<lambda>_.
     on_state snd (json_append_state H clk collection record canonical_key tenant_id project_id linked)))) eng"

section \<open>Reading\<close>

definition read_state :: "(store_state \<Rightarrow> 'a res) \<Rightarrow> engine \<Rightarrow> 'a res" where
  "read_state f eng = bindE (current_state eng) f"

definition get_scoped_state :: "string \<Rightarrow> string \<Rightarrow> string \<Rightarrow> string \<Rightarrow> store_state \<Rightarrow> pdict res" where
  "get_scoped_state collection canonical_key tenant_id project_id st =
     (case map_of (st_records st) (scoped_key tenant_id project_id collection canonical_key) of
        None \<Rightarrow> Inl (ScopedRecordNotFound (''scoped record not found: '' @ collection @ ''/'' @ canonical_key))
      | Some row \<Rightarrow> Inr (to_public row))"

definition engine_get_scoped :: "string \<Rightarrow> string \<Rightarrow> string \<Rightarrow> string \<Rightarrow> engine \<Rightarrow> pdict res" where
  "engine_get_scoped collection canonical_key tenant_id project_id eng =
     bindE (validate_collection collection False False True) (\<lambda>_.
     bindE (ensure_multiprocess_json_allowed eng) (\<lambda>_.
     read_state (get_scoped_state collection canonical_key tenant_id project_id) eng))"

definition slice :: "int \<Rightarrow> int \<Rightarrow> 'a list \<Rightarrow> 'a list" where
  "slice offset limit xs = take (nat limit) (drop (nat offset) xs)"

definition check_page :: "int \<Rightarrow> int \<Rightarrow> unit res" where
  "check_page limit offset =
     bindE (raise_if (offset < 0) (ValueError ''offset must be non-negative'')) (\<lambda>_.
     raise_if (limit < 1 \<or> limit > MAX_LIST_LIMIT)
       (ValueError (''limit must be between 1 and '' @ show_int MAX_LIST_LIMIT)))"

definition list_scoped_state :: "string \<Rightarrow> string \<Rightarrow> string \<Rightarrow> int \<Rightarrow> int \<Rightarrow> store_state \<Rightarrow> pdict list" where
  "list_scoped_state collection tenant_id project_id limit offset st =
     map to_public (slice offset limit
       (sort_key (\<lambda>row. (sr_chain_sequence row, sr_record_id row))
         (filter (in_scope tenant_id project_id collection) (rows_of st))))"

definition engine_list_scoped :: "string \<Rightarrow> string \<Rightarrow> string \<Rightarrow> int \<Rightarrow> int \<Rightarrow> engine \<Rightarrow> pdict list res" where
  "engine_list_scoped collection tenant_id project_id limit offset eng =
     bindE (validate_collection collection False False True) (\<lambda>_.
     bindE (check_page limit offset) (\<lambda>_.
     bindE (ensure_multiprocess_json_allowed eng) (\<lambda>_.
     read_state (\<lambda>st. Inr (list_scoped_state collection tenant_id project_id limit offset st)) eng)))"

definition scope_matches :: "string \<Rightarrow> string \<Rightarrow> string option \<Rightarrow> string option \<Rightarrow> bool" where
  "scope_matches tenant_id project_id filter_tenant filter_project =
     (if filter_tenant \<noteq> None \<and> Some tenant_id \<noteq> filter_tenant then False
      else if filter_project \<noteq> None \<and> Some project_id \<noteq> filter_project then False
      else True)"

definition admin_list_state ::
  "string \<Rightarrow> string option \<Rightarrow> string option \<Rightarrow> int \<Rightarrow> int \<Rightarrow> store_state \<Rightarrow> pdict list" where
  "admin_list_state collection tenant_id project_id limit offset st =
     map to_public (slice offset limit
       (sort_key (\<lambda>row. (sr_tenant_id row, sr_project_id row, sr_chain_sequence row, sr_record_id row))
         (filter (\<lambda>row. scope_matches (sr_tenant_id row) (sr_project_id row) tenant_id project_id)
           (filter (\<lambda>row. sr_collection row = collection) (rows_of st)))))"

definition engine_admin_list_scoped ::
  "string \<Rightarrow> string option \<Rightarrow> string option \<Rightarrow> int \<Rightarrow> int \<Rightarrow> engine \<Rightarrow> pdict list res" where
  "engine_admin_list_scoped collection tenant_id project_id limit offset eng =
     (case (tenant_id, project_id) of
        (Some t, Some p) \<Rightarrow> engine_list_scoped collection t p limit offset eng
      | _ \<Rightarrow>
          bindE (validate_collection collection False False True) (\<lambda>_.
          bindE (check_page limit offset) (\<lambda>_.
          bindE (ensure_multiprocess_json_allowed eng) (\<lambda>_.
          read_state (\<lambda>st. Inr (admin_list_state collection tenant_id project_id limit offset st)) eng))))"

section \<open>Compare and set\<close>

text \<open>The result is the new record and the previous one; \<open>updated\<close> is always \<open>True\<close>.\<close>

definition json_cas_state ::
  "(string \<Rightarrow> string) \<Rightarrow> string \<Rightarrow> string \<Rightarrow> pdict \<Rightarrow> string \<Rightarrow> string \<Rightarrow> string \<Rightarrow> int option \<Rightarrow> string option
   \<Rightarrow> (store_state, pdict \<times> pdict) act" where
  "json_cas_state H now collection record canonical_key tenant_id project_id expected_version
       expected_payload_hash st =
     (let key = scoped_key tenant_id project_id collection canonical_key
      in case map_of (st_records st) key of
        None \<Rightarrow> (Inl (ScopedRecordNotFound (''scoped record not found: '' @ collection @ ''/'' @ canonical_key)), st)
      | Some existing \<Rightarrow>
          if sr_chain_linked existing
          then (Inl (TransactionUnavailable ''CAS is not supported on chain-linked scoped collections''), st)
          else if expected_version \<noteq> None \<and> Some (sr_row_version existing) \<noteq> expected_version
          then (Inl (VersionConflict ''stale expected_version''), st)
          else if expected_payload_hash \<noteq> None \<and> Some (sr_payload_hash existing) \<noteq> expected_payload_hash
          then (Inl (VersionConflict ''stale expected_payload_hash''), st)
          else
            (let updated_payload = with_scope record tenant_id project_id;
                 chain_hash = standalone_row_hash H collection updated_payload;
                 row = existing\<lparr>
                   sr_payload := dset updated_payload ''_chain''
                     (chain_value None chain_hash (sr_chain_sequence existing) False),
                   sr_payload_hash := canonical_scoped_payload_hash H updated_payload,
                   sr_chain_hash := chain_hash,
                   sr_row_version := sr_row_version existing + 1,
                   sr_updated_at := now\<rparr>
             in (Inr (to_public row, to_public existing), st\<lparr>st_records := dset (st_records st) key row\<rparr>)))"

definition engine_compare_and_set_scoped ::
  "(string \<Rightarrow> string) \<Rightarrow> string \<Rightarrow> string \<Rightarrow> pdict \<Rightarrow> string \<Rightarrow> string \<Rightarrow> string \<Rightarrow> int option \<Rightarrow> string option
   \<Rightarrow> (engine, pdict \<times> pdict) act" where
  "engine_compare_and_set_scoped H now collection record canonical_key tenant_id project_id
       expected_version expected_payload_hash eng =
     bindS (liftS (validate_collection collection True False False)) (\<lambda>_.
     bindS (liftS (raise_if (is_chain_linked_collection collection)
        (TransactionUnavailable ''CAS is not supported on chain-linked scoped collections''))) (\<lambda>_.
     bindS (liftS (raise_if (expected_version = None \<and> expected_payload_hash = None)
        (ValueError ''expected_version or expected_payload_hash is required''))) (\<lambda>_.
     bindS (liftS (require_write_locks (eng_lock_context eng) collection canonical_key False)) (\<lambda>_.
     bindS (liftS (ensure_multiprocess_json_allowed eng)) (\<lambda>_.
     on_state (\<lambda>_. True) (json_cas_state H now collection record canonical_key tenant_id project_id
        expected_version expected_payload_hash)))))) eng"

section \<open>Transactions\<close>

text \<open>
  \<open>run_scoped_transaction\<close>: the callback \<open>fn\<close> is any computation on the engine. The thread's
  transaction state is set, and the file read, before the \<open>try\<close>; only what happens in \<open>fn\<close> is
  followed by the \<open>finally\<close> that resets it.
\<close>

definition run_scoped_transaction_engine ::
  "string \<Rightarrow> string \<Rightarrow> lock_ref list \<Rightarrow> (engine, 'a) act \<Rightarrow> (engine, 'a) act" where
  "run_scoped_transaction_engine tenant_id project_id refs fn eng =
     (case ensure_multiprocess_json_allowed eng of Inl e \<Rightarrow> (Inl e, eng) | Inr _ \<Rightarrow>
      if tx_depth eng \<noteq> 0
      then (Inl (TransactionUnavailable ''nested scoped transactions are not supported''), eng)
      else
        (let ordered = normalize_lock_refs refs;
             eng1 = eng\<lparr>tx_depth := tx_depth eng + 1,
                        eng_lock_context := Some (build_lock_context ordered),
                        eng_lock_refs := Some ordered\<rparr>
         in case read_json_state eng1 of
              Inl e \<Rightarrow> (Inl e, eng1)
            | Inr st \<Rightarrow>
                (case fn (eng1\<lparr>active_state := Some st\<rparr>) of
                   (r, eng2) \<Rightarrow>
                     (r, (case r of Inl _ \<Rightarrow> eng2
                          | Inr _ \<Rightarrow> (case active_state eng2 of None \<Rightarrow> eng2
                              | Some st' \<Rightarrow> write_json_state st' eng2))
                         \<lparr>tx_depth := 0, active_state := None, eng_lock_context := None,
                          eng_lock_refs := None\<rparr>))))"

definition run_scoped_transaction ::
  "string \<Rightarrow> string \<Rightarrow> lock_ref list \<Rightarrow> (engine, 'a) act \<Rightarrow> (engine, 'a) act" where
  "run_scoped_transaction tenant_id project_id refs fn eng =
     (case validate_lock_refs_scope refs tenant_id project_id of
        Inl e \<Rightarrow> (Inl e, eng)
      | Inr _ \<Rightarrow> run_scoped_transaction_engine tenant_id project_id (normalize_lock_refs refs) fn eng)"

end
