(* ===== verification/Scoped_Verify.thy ===== *)
theory Scoped_Verify
  imports Scoped_Store
begin

text \<open>
  The verifier of the scoped hash chains in \<^verbatim>\<open>src/src/phigraph/core_v3/scoped_ledger.py\<close>: the checks of
  one row's metadata, of one linked chain against its head, of a standalone row, and the walk
  over a whole JSON store. An exception is the value \<open>Inl (LedgerIntegrityError reason)\<close>.
\<close>

section \<open>Views\<close>

record chain_row_view =
  cv_tenant_id :: string
  cv_project_id :: string
  cv_collection :: string
  cv_chain_sequence :: int
  cv_chain_prev :: "string option"
  cv_chain_hash :: string
  cv_payload :: pdict
  cv_chain_linked :: bool
  cv_payload_hash :: "string option"

record chain_head_view =
  hv_last_sequence :: int
  hv_last_chain_hash :: "string option"

definition row_view :: "stored_row \<Rightarrow> chain_row_view" where
  "row_view row = \<lparr>cv_tenant_id = sr_tenant_id row, cv_project_id = sr_project_id row,
     cv_collection = sr_collection row, cv_chain_sequence = sr_chain_sequence row,
     cv_chain_prev = sr_chain_prev row, cv_chain_hash = sr_chain_hash row,
     cv_payload = sr_payload row, cv_chain_linked = sr_chain_linked row,
     cv_payload_hash = Some (sr_payload_hash row)\<rparr>"

definition head_view :: "chain_head \<Rightarrow> chain_head_view" where
  "head_view h = \<lparr>hv_last_sequence = ch_last_sequence h, hv_last_chain_hash = ch_last_chain_hash h\<rparr>"

definition chain_scope_label :: "string \<Rightarrow> string \<Rightarrow> string \<Rightarrow> string" where
  "chain_scope_label tenant_id project_id collection =
     tenant_id @ ''/'' @ project_id @ ''/'' @ collection"

definition integrity :: "string \<Rightarrow> string \<Rightarrow> err" where
  "integrity reason scope = LedgerIntegrityError (reason @ '':'' @ scope)"

definition integrity_at :: "string \<Rightarrow> string \<Rightarrow> int \<Rightarrow> err" where
  "integrity_at reason scope sequence =
     LedgerIntegrityError (reason @ '':'' @ scope @ '':'' @ show_int sequence)"

section \<open>One row, one chain\<close>

definition validate_chain_metadata :: "(string \<Rightarrow> string) \<Rightarrow> chain_row_view \<Rightarrow> unit res" where
  "validate_chain_metadata H row =
     (let scope = chain_scope_label (cv_tenant_id row) (cv_project_id row) (cv_collection row);
          n = cv_chain_sequence row
      in bindE (as_dict (dget_or (cv_payload row) ''_chain'' (JObj []))) (\<lambda>chain.
         bindE (raise_if (\<not> py_eq (dget chain ''sequence'') (JInt n))
            (integrity_at ''chain_sequence_mismatch'' scope n)) (\<lambda>_.
         bindE (raise_if (\<not> py_eq (dget chain ''previous_hash'') (ostr (cv_chain_prev row)))
            (integrity_at ''chain_previous_hash_mismatch'' scope n)) (\<lambda>_.
         bindE (raise_if (\<not> py_eq (dget chain ''hash'') (JStr (cv_chain_hash row)))
            (integrity_at ''chain_hash_mismatch'' scope n)) (\<lambda>_.
         bindE (raise_if (dget chain ''linked'' \<noteq> JBool (cv_chain_linked row))
            (integrity_at ''chain_linked_mismatch'' scope n)) (\<lambda>_.
         bindE (raise_if (is_chain_linked_collection (cv_collection row) \<and>
              (cv_chain_linked row \<noteq> True \<or> dget chain ''linked'' \<noteq> JBool True))
            (integrity_at ''chain_linked_mismatch'' scope n)) (\<lambda>_.
         raise_if (cv_payload_hash row \<noteq> None \<and>
              cv_payload_hash row \<noteq> Some (canonical_scoped_payload_hash H (cv_payload row)))
            (integrity_at ''payload_hash_mismatch'' scope n))))))))"

definition invalid_orphan_head :: "chain_head_view \<Rightarrow> bool" where
  "invalid_orphan_head h \<longleftrightarrow>
     hv_last_sequence h < 0 \<or> hv_last_sequence h > 0
     \<or> hv_last_sequence h = 0 \<and> hv_last_chain_hash h \<noteq> None"

text \<open>The loop over neighbouring sequence numbers.\<close>

fun check_gaps :: "string \<Rightarrow> int list \<Rightarrow> unit res" where
  "check_gaps scope (m # n # ns) = bindE (raise_if (n \<noteq> m + 1)
     (LedgerIntegrityError (''chain_sequence_gap:'' @ scope @ '':'' @ show_int m @ ''->'' @ show_int n)))
     (\<lambda>_. check_gaps scope (n # ns))"
| "check_gaps scope _ = Inr ()"

text \<open>The loop over the links, with \<open>expected_prev\<close>.\<close>

fun check_links :: "(string \<Rightarrow> string) \<Rightarrow> string \<Rightarrow> string option \<Rightarrow> chain_row_view list \<Rightarrow> unit res" where
  "check_links H scope expected_prev [] = Inr ()"
| "check_links H scope expected_prev (row # rows) =
     bindE (raise_if (cv_chain_prev row \<noteq> expected_prev)
       (integrity_at ''chain_prev mismatch'' scope (cv_chain_sequence row))) (\<lambda>_.
     bindE (raise_if (cv_chain_hash row \<noteq>
         chain_record_hash H (cv_chain_prev row) (cv_collection row) (cv_payload row))
       (integrity_at ''chain_hash mismatch'' scope (cv_chain_sequence row))) (\<lambda>_.
     check_links H scope (Some (cv_chain_hash row)) rows))"

definition validate_linked_chain_group ::
  "(string \<Rightarrow> string) \<Rightarrow> string \<Rightarrow> string \<Rightarrow> string \<Rightarrow> chain_row_view list \<Rightarrow> chain_head_view option
   \<Rightarrow> nat res" where
  "validate_linked_chain_group H tenant_id project_id collection rows head =
     (let scope = chain_scope_label tenant_id project_id collection
      in bindE (raise_if (rows \<noteq> [] \<and> head = None) (integrity ''missing_chain_head'' scope)) (\<lambda>_.
         if rows = [] then Inr 0
         else
           (let sorted_rows = sort_key cv_chain_sequence rows;
                sequences = map cv_chain_sequence sorted_rows
            in bindE (allE (validate_chain_metadata H) sorted_rows) (\<lambda>_.
               bindE (raise_if (hd sequences \<noteq> 1)
                  (LedgerIntegrityError (''chain_sequence_gap:'' @ scope @ '':expected_start_1''))) (\<lambda>_.
               bindE (check_gaps scope sequences) (\<lambda>_.
               bindE (check_links H scope None sorted_rows) (\<lambda>_.
               case head of
                 None \<Rightarrow> Inl (integrity ''missing_chain_head'' scope)
               | Some h \<Rightarrow>
                   bindE (raise_if (hv_last_sequence h \<noteq> cv_chain_sequence (last sorted_rows))
                      (integrity ''head_sequence_mismatch'' scope)) (\<lambda>_.
                   bindE (raise_if (hv_last_chain_hash h \<noteq> Some (cv_chain_hash (last sorted_rows)))
                      (integrity ''head_hash_mismatch'' scope)) (\<lambda>_.
                   Inr (length sorted_rows))))))))))"

definition validate_standalone_row :: "(string \<Rightarrow> string) \<Rightarrow> chain_row_view \<Rightarrow> unit res" where
  "validate_standalone_row H row =
     (let scope = chain_scope_label (cv_tenant_id row) (cv_project_id row) (cv_collection row);
          n = cv_chain_sequence row
      in bindE (as_dict (dget_or (cv_payload row) ''_chain'' (JObj []))) (\<lambda>chain.
         bindE (raise_if (dget chain ''linked'' \<noteq> JBool False)
            (integrity ''chain_linked_mismatch'' scope)) (\<lambda>_.
         bindE (raise_if (\<not> py_eq (dget chain ''sequence'') (JInt n))
            (integrity_at ''chain_sequence_mismatch'' scope n)) (\<lambda>_.
         bindE (raise_if (cv_chain_prev row \<noteq> None \<or> dget chain ''previous_hash'' \<noteq> JNull)
            (integrity_at ''chain_previous_hash_mismatch'' scope n)) (\<lambda>_.
         bindE (raise_if (cv_chain_hash row \<noteq> standalone_row_hash H (cv_collection row) (cv_payload row))
            (integrity_at ''chain_hash mismatch'' scope n)) (\<lambda>_.
         bindE (raise_if (\<not> py_eq (dget chain ''hash'') (JStr (cv_chain_hash row)))
            (integrity_at ''chain_hash_mismatch'' scope n)) (\<lambda>_.
         raise_if (cv_payload_hash row \<noteq> None \<and>
              cv_payload_hash row \<noteq> Some (canonical_scoped_payload_hash H (cv_payload row)))
            (integrity_at ''payload_hash_mismatch'' scope n))))))))"

section \<open>The whole store\<close>

type_synonym scope_key = "string \<times> string \<times> string"

definition row_scope :: "stored_row \<Rightarrow> scope_key" where
  "row_scope row = (sr_tenant_id row, sr_project_id row, sr_collection row)"

definition head_scope :: "chain_head \<Rightarrow> scope_key" where
  "head_scope h = (ch_tenant_id h, ch_project_id h, ch_collection h)"

text \<open>\<open>groups.setdefault(key, []).append(row)\<close> over the rows, then \<open>sorted(groups.items())\<close>.\<close>

definition group_rows :: "stored_row list \<Rightarrow> (scope_key \<times> stored_row list) list" where
  "group_rows rows = map (\<lambda>k. (k, filter (\<lambda>r. row_scope r = k) rows)) (sort (remdups (map row_scope rows)))"

record chain_report =
  rep_checked :: nat
  rep_heads :: "(string \<times> string option) list"

fun check_groups ::
  "(string \<Rightarrow> string) \<Rightarrow> store_state \<Rightarrow> (scope_key \<times> stored_row list) list
   \<Rightarrow> nat \<Rightarrow> (string \<times> string option) list \<Rightarrow> scope_key list
   \<Rightarrow> (nat \<times> (string \<times> string option) list \<times> scope_key list) res" where
  "check_groups H st [] checked heads seen = Inr (checked, heads, seen)"
| "check_groups H st (((t, p, c), rows) # gs) checked heads seen =
     (if c \<notin> set CHAIN_LINKED_COLLECTIONS then check_groups H st gs checked heads seen
      else
        (let head = map_option head_view (map_of (st_heads st) (head_key t p c))
         in bindE (validate_linked_chain_group H t p c (map row_view rows) head) (\<lambda>n.
            check_groups H st gs (checked + n)
              (dset heads (chain_scope_label t p c)
                 (case head of None \<Rightarrow> None | Some h \<Rightarrow> hv_last_chain_hash h))
              (seen @ [(t, p, c)]))))"

definition check_orphans ::
  "string option \<Rightarrow> string option \<Rightarrow> string option \<Rightarrow> scope_key list \<Rightarrow> chain_head list \<Rightarrow> unit res" where
  "check_orphans tenant_id project_id collection seen hs =
     allE (\<lambda>h.
       if ch_collection h \<notin> set CHAIN_LINKED_COLLECTIONS then Inr ()
       else if collection \<noteq> None \<and> Some (ch_collection h) \<noteq> collection then Inr ()
       else if \<not> scope_matches (ch_tenant_id h) (ch_project_id h) tenant_id project_id then Inr ()
       else if head_scope h \<in> set seen then Inr ()
       else raise_if (invalid_orphan_head (head_view h))
         (integrity ''orphan_chain_head''
            (chain_scope_label (ch_tenant_id h) (ch_project_id h) (ch_collection h)))) hs"

fun check_standalone ::
  "(string \<Rightarrow> string) \<Rightarrow> string option \<Rightarrow> string option \<Rightarrow> string option \<Rightarrow> stored_row list \<Rightarrow> nat \<Rightarrow> nat res" where
  "check_standalone H tenant_id project_id collection [] n = Inr n"
| "check_standalone H tenant_id project_id collection (row # rows) n =
     (if collection \<noteq> None \<and> Some (sr_collection row) \<noteq> collection
         \<or> \<not> scope_matches (sr_tenant_id row) (sr_project_id row) tenant_id project_id
         \<or> sr_chain_linked row
      then check_standalone H tenant_id project_id collection rows n
      else bindE (validate_standalone_row H (row_view row)) (\<lambda>_.
           check_standalone H tenant_id project_id collection rows (n + 1)))"

text \<open>\<open>[collection] if collection else sorted(CHAIN_LINKED_COLLECTIONS)\<close>: the empty string counts as none here.\<close>

definition verify_collections :: "string option \<Rightarrow> string list" where
  "verify_collections collection = (case collection of
     Some c \<Rightarrow> if c \<noteq> [] then [c] else sort CHAIN_LINKED_COLLECTIONS
   | None \<Rightarrow> sort CHAIN_LINKED_COLLECTIONS)"

definition verify_json_state ::
  "(string \<Rightarrow> string) \<Rightarrow> string option \<Rightarrow> string option \<Rightarrow> string option \<Rightarrow> store_state \<Rightarrow> chain_report res" where
  "verify_json_state H tenant_id project_id collection st =
     (let groups = group_rows (filter (\<lambda>row. sr_collection row \<in> set (verify_collections collection)
            \<and> scope_matches (sr_tenant_id row) (sr_project_id row) tenant_id project_id) (rows_of st))
      in bindE (check_groups H st groups 0 [] []) (\<lambda>(checked, heads, seen).
         bindE (check_orphans tenant_id project_id collection seen (map snd (st_heads st))) (\<lambda>_.
         bindE (check_standalone H tenant_id project_id collection (rows_of st) 0) (\<lambda>standalone.
         Inr \<lparr>rep_checked = checked + standalone, rep_heads = heads\<rparr>))))"

text \<open>\<open>verify_scoped_chain\<close> reads the file, also inside a transaction.\<close>

definition engine_verify_scoped_chain ::
  "(string \<Rightarrow> string) \<Rightarrow> string option \<Rightarrow> string option \<Rightarrow> string option \<Rightarrow> engine \<Rightarrow> chain_report res" where
  "engine_verify_scoped_chain H tenant_id project_id collection eng =
     bindE (read_json_state eng) (verify_json_state H tenant_id project_id collection)"

end
