(* ===== verification/Scoped_Sqlite.thy ===== *)
theory Scoped_Sqlite
  imports Scoped_Verify
begin

text \<open>
  Model of the SQLite backend of \<^verbatim>\<open>src/src/phigraph/core_v3/scoped_ledger.py\<close>: the two tables with their
  primary keys, the unique record id and the partial unique index on the sequence numbers of chains,
  and the operations as the SQL statements the code runs. A \<open>payload\<close> column holds the value that its
  text denotes. The \<open>sqlite3\<close> module is modelled as far as the statements use it: a failed
  constraint is an \<open>IntegrityError\<close>, a connection that is not committed leaves the database alone.
\<close>

section \<open>Tables\<close>

record sql_row =
  q_tenant_id :: string
  q_project_id :: string
  q_collection :: string
  q_canonical_key :: string
  q_record_id :: string
  q_payload :: pdict
  q_payload_hash :: string
  q_chain_prev :: "string option"
  q_chain_hash :: string
  q_chain_sequence :: int
  q_row_version :: int
  q_created_at :: string
  q_updated_at :: string

record scoped_db =
  db_rows :: "sql_row list"
  db_heads :: "chain_head list"

definition empty_db :: scoped_db where
  "empty_db = \<lparr>db_rows = [], db_heads = []\<rparr>"

definition q_scope :: "string \<Rightarrow> string \<Rightarrow> string \<Rightarrow> sql_row \<Rightarrow> bool" where
  "q_scope tenant_id project_id collection r \<longleftrightarrow>
     q_tenant_id r = tenant_id \<and> q_project_id r = project_id \<and> q_collection r = collection"

definition q_key :: "string \<Rightarrow> string \<Rightarrow> string \<Rightarrow> string \<Rightarrow> sql_row \<Rightarrow> bool" where
  "q_key tenant_id project_id collection canonical_key r \<longleftrightarrow>
     q_scope tenant_id project_id collection r \<and> q_canonical_key r = canonical_key"

definition select_row :: "string \<Rightarrow> string \<Rightarrow> string \<Rightarrow> string \<Rightarrow> scoped_db \<Rightarrow> sql_row option" where
  "select_row tenant_id project_id collection canonical_key db =
     find (q_key tenant_id project_id collection canonical_key) (db_rows db)"

definition h_scope :: "string \<Rightarrow> string \<Rightarrow> string \<Rightarrow> chain_head \<Rightarrow> bool" where
  "h_scope tenant_id project_id collection h \<longleftrightarrow>
     ch_tenant_id h = tenant_id \<and> ch_project_id h = project_id \<and> ch_collection h = collection"

definition select_head :: "string \<Rightarrow> string \<Rightarrow> string \<Rightarrow> scoped_db \<Rightarrow> chain_head option" where
  "select_head tenant_id project_id collection db =
     find (h_scope tenant_id project_id collection) (db_heads db)"

text \<open>\<open>SCOPED_LEDGER_DDL\<close> and the partial index of the second migration.\<close>

definition unique_violated :: "sql_row \<Rightarrow> scoped_db \<Rightarrow> bool" where
  "unique_violated r db \<longleftrightarrow> (\<exists>r' \<in> set (db_rows db).
     q_scope (q_tenant_id r) (q_project_id r) (q_collection r) r' \<and>
     (q_canonical_key r' = q_canonical_key r \<or> q_record_id r' = q_record_id r \<or>
      q_collection r \<in> set CHAIN_LINKED_COLLECTIONS \<and> q_chain_sequence r' = q_chain_sequence r))"

definition insert_row :: "sql_row \<Rightarrow> (scoped_db, unit) act" where
  "insert_row r db = (if unique_violated r db then (Inl (IntegrityError ''UNIQUE constraint failed''), db)
     else (Inr (), db\<lparr>db_rows := db_rows db @ [r]\<rparr>))"

definition insert_head :: "chain_head \<Rightarrow> (scoped_db, unit) act" where
  "insert_head h db =
     (if select_head (ch_tenant_id h) (ch_project_id h) (ch_collection h) db \<noteq> None
      then (Inl (IntegrityError ''UNIQUE constraint failed''), db)
      else (Inr (), db\<lparr>db_heads := db_heads db @ [h]\<rparr>))"

definition update_head ::
  "string \<Rightarrow> string \<Rightarrow> string \<Rightarrow> int \<Rightarrow> string \<Rightarrow> string \<Rightarrow> scoped_db \<Rightarrow> scoped_db" where
  "update_head tenant_id project_id collection sequence hash now db = db\<lparr>db_heads := map (\<lambda>h.
     if h_scope tenant_id project_id collection h
     then h\<lparr>ch_last_sequence := sequence, ch_last_chain_hash := Some hash, ch_updated_at := now\<rparr> else h)
     (db_heads db)\<rparr>"

definition sql_row_of :: "stored_row \<Rightarrow> sql_row" where
  "sql_row_of s = \<lparr>q_tenant_id = sr_tenant_id s, q_project_id = sr_project_id s,
     q_collection = sr_collection s, q_canonical_key = sr_canonical_key s, q_record_id = sr_record_id s,
     q_payload = canon_dict (sr_payload s), q_payload_hash = sr_payload_hash s,
     q_chain_prev = sr_chain_prev s, q_chain_hash = sr_chain_hash s,
     q_chain_sequence = sr_chain_sequence s, q_row_version = sr_row_version s,
     q_created_at = sr_created_at s, q_updated_at = sr_updated_at s\<rparr>"

section \<open>Append\<close>

text \<open>\<open>int(row[0] or 0) + 1\<close> on \<open>SELECT MAX(chain_sequence)\<close>, which is \<open>NULL\<close> without rows.\<close>

definition sqlite_next_sequence :: "string \<Rightarrow> string \<Rightarrow> string \<Rightarrow> scoped_db \<Rightarrow> int" where
  "sqlite_next_sequence tenant_id project_id collection db =
     (let sequences = map q_chain_sequence (filter (q_scope tenant_id project_id collection) (db_rows db))
      in (if sequences = [] then 0 else Max (set sequences)) + 1)"

definition sqlite_take_number ::
  "string \<Rightarrow> string \<Rightarrow> string \<Rightarrow> string \<Rightarrow> bool \<Rightarrow> (scoped_db, int \<times> string option) act" where
  "sqlite_take_number now tenant_id project_id collection chain_linked db =
     (if chain_linked then
        (case select_head tenant_id project_id collection db of
           None \<Rightarrow> bindS (insert_head \<lparr>ch_tenant_id = tenant_id, ch_project_id = project_id,
               ch_collection = collection, ch_last_sequence = 0, ch_last_chain_hash = None,
               ch_updated_at = now\<rparr>) (\<lambda>_. retS (1, None)) db
         | Some h \<Rightarrow> (Inr (ch_last_sequence h + 1, ch_last_chain_hash h), db))
      else (Inr (sqlite_next_sequence tenant_id project_id collection db, None), db))"

definition sqlite_append ::
  "(string \<Rightarrow> string) \<Rightarrow> (nat \<Rightarrow> string) \<Rightarrow> string \<Rightarrow> pdict \<Rightarrow> string \<Rightarrow> string \<Rightarrow> string \<Rightarrow> bool
   \<Rightarrow> (scoped_db, pdict \<times> bool) act" where
  "sqlite_append H clk collection record canonical_key tenant_id project_id chain_linked db =
     (let incoming_hash = canonical_scoped_payload_hash H (with_scope record tenant_id project_id)
      in case select_row tenant_id project_id collection canonical_key db of
        Some existing \<Rightarrow>
          if q_payload_hash existing = incoming_hash then (Inr (q_payload existing, False), db)
          else (Inl (DuplicateCanonicalKey (''Duplicate canonical key '' @ canonical_key @ '' in ''
                 @ collection @ '' with different payload'')), db)
      | None \<Rightarrow>
          bindS (sqlite_take_number (clk 0) tenant_id project_id collection chain_linked) (\<lambda>(next_sequence, chain_prev).
          bindS (liftS (build_row H (clk 1) collection record canonical_key tenant_id project_id chain_prev
                   next_sequence 1 None None (Some chain_linked))) (\<lambda>stored.
          bindS (insert_row (sql_row_of stored)) (\<lambda>_ db1.
          (Inr (to_public stored, True),
           if chain_linked then update_head tenant_id project_id collection next_sequence
             (sr_chain_hash stored) (clk 2) db1 else db1)))) db)"

section \<open>Compare and set\<close>

definition sqlite_cas ::
  "(string \<Rightarrow> string) \<Rightarrow> string \<Rightarrow> string \<Rightarrow> pdict \<Rightarrow> string \<Rightarrow> string \<Rightarrow> string \<Rightarrow> int option \<Rightarrow> string option
   \<Rightarrow> (scoped_db, pdict \<times> pdict) act" where
  "sqlite_cas H now collection record canonical_key tenant_id project_id expected_version
       expected_payload_hash db =
     (case select_row tenant_id project_id collection canonical_key db of
        None \<Rightarrow> (Inl (ScopedRecordNotFound (''scoped record not found: '' @ collection @ ''/'' @ canonical_key)), db)
      | Some row \<Rightarrow>
          bindS (liftS (as_dict (dget_or (q_payload row) ''_chain'' (JObj [])))) (\<lambda>chain.
          bindS (liftS (raise_if (dget chain ''linked'' = JBool True \<or> is_chain_linked_collection collection)
            (TransactionUnavailable ''CAS is not supported on chain-linked scoped collections''))) (\<lambda>_.
          bindS (liftS (raise_if (expected_version \<noteq> None \<and> Some (q_row_version row) \<noteq> expected_version)
            (VersionConflict ''stale expected_version''))) (\<lambda>_.
          bindS (liftS (raise_if (expected_payload_hash \<noteq> None \<and> Some (q_payload_hash row) \<noteq> expected_payload_hash)
            (VersionConflict ''stale expected_payload_hash''))) (\<lambda>_ db.
          let updated = with_scope record tenant_id project_id;
              payload_hash = canonical_scoped_payload_hash H updated;
              chain_hash = standalone_row_hash H collection updated;
              updated_payload = dset updated ''_chain'' (chain_value None chain_hash (q_chain_sequence row) False);
              hit = (\<lambda>r. q_key tenant_id project_id collection canonical_key r
                \<and> q_row_version r = q_row_version row \<and> q_payload_hash r = q_payload_hash row)
          in if length (filter hit (db_rows db)) \<noteq> 1
             then (Inl (VersionConflict ''concurrent compare-and-set lost''), db)
             else (Inr (updated_payload, q_payload row), db\<lparr>db_rows := map (\<lambda>r. if hit r
               then r\<lparr>q_payload := canon_dict updated_payload, q_payload_hash := payload_hash,
                      q_row_version := q_row_version row + 1, q_chain_hash := chain_hash,
                      q_updated_at := now\<rparr>
               else r) (db_rows db)\<rparr>))))) db)"

section \<open>Reading\<close>

definition sqlite_get :: "string \<Rightarrow> string \<Rightarrow> string \<Rightarrow> string \<Rightarrow> scoped_db \<Rightarrow> pdict res" where
  "sqlite_get collection canonical_key tenant_id project_id db =
     (case select_row tenant_id project_id collection canonical_key db of
        None \<Rightarrow> Inl (ScopedRecordNotFound (''scoped record not found: '' @ collection @ ''/'' @ canonical_key))
      | Some row \<Rightarrow> Inr (q_payload row))"

definition sqlite_list :: "string \<Rightarrow> string \<Rightarrow> string \<Rightarrow> int \<Rightarrow> int \<Rightarrow> scoped_db \<Rightarrow> pdict list" where
  "sqlite_list collection tenant_id project_id limit offset db =
     map q_payload (slice offset limit
       (sort_key (\<lambda>r. (q_chain_sequence r, q_record_id r))
         (filter (q_scope tenant_id project_id collection) (db_rows db))))"

definition sqlite_admin_list ::
  "string \<Rightarrow> string option \<Rightarrow> string option \<Rightarrow> int \<Rightarrow> int \<Rightarrow> scoped_db \<Rightarrow> pdict list" where
  "sqlite_admin_list collection tenant_id project_id limit offset db =
     map q_payload (slice offset limit
       (sort_key (\<lambda>r. (q_tenant_id r, q_project_id r, q_chain_sequence r, q_record_id r))
         (filter (\<lambda>r. q_collection r = collection
             \<and> (tenant_id = None \<or> Some (q_tenant_id r) = tenant_id)
             \<and> (project_id = None \<or> Some (q_project_id r) = project_id)) (db_rows db))))"

section \<open>Verifying\<close>

definition sqlite_view :: "bool \<Rightarrow> sql_row \<Rightarrow> chain_row_view" where
  "sqlite_view linked r = \<lparr>cv_tenant_id = q_tenant_id r, cv_project_id = q_project_id r,
     cv_collection = q_collection r, cv_chain_sequence = q_chain_sequence r,
     cv_chain_prev = q_chain_prev r, cv_chain_hash = q_chain_hash r,
     cv_payload = q_payload r, cv_chain_linked = linked, cv_payload_hash = Some (q_payload_hash r)\<rparr>"

definition q_row_scope :: "sql_row \<Rightarrow> scope_key" where
  "q_row_scope r = (q_tenant_id r, q_project_id r, q_collection r)"

definition sqlite_linked_collections :: "string option \<Rightarrow> string list" where
  "sqlite_linked_collections collection = (case collection of
     Some c \<Rightarrow> if c \<in> set CHAIN_LINKED_COLLECTIONS then [c] else []
   | None \<Rightarrow> sort CHAIN_LINKED_COLLECTIONS)"

definition sqlite_group_rows ::
  "string option \<Rightarrow> string option \<Rightarrow> string option \<Rightarrow> scoped_db \<Rightarrow> sql_row list" where
  "sqlite_group_rows tenant_id project_id collection db =
     concat (map (\<lambda>coll. sort_key (\<lambda>r. (q_tenant_id r, q_project_id r, q_collection r, q_chain_sequence r))
       (filter (\<lambda>r. q_collection r = coll \<and> scope_matches (q_tenant_id r) (q_project_id r) tenant_id project_id)
         (db_rows db))) (sqlite_linked_collections collection))"

definition sqlite_groups :: "sql_row list \<Rightarrow> (scope_key \<times> sql_row list) list" where
  "sqlite_groups rows = map (\<lambda>k. (k, filter (\<lambda>r. q_row_scope r = k) rows)) (sort (remdups (map q_row_scope rows)))"

fun sqlite_check_groups ::
  "(string \<Rightarrow> string) \<Rightarrow> scoped_db \<Rightarrow> (scope_key \<times> sql_row list) list \<Rightarrow> nat
   \<Rightarrow> (string \<times> string option) list \<Rightarrow> (nat \<times> (string \<times> string option) list) res" where
  "sqlite_check_groups H db [] checked heads = Inr (checked, heads)"
| "sqlite_check_groups H db (((t, p, c), rows) # gs) checked heads =
     (let head = map_option head_view (select_head t p c db)
      in bindE (validate_linked_chain_group H t p c (map (sqlite_view True) rows) head) (\<lambda>n.
         sqlite_check_groups H db gs (checked + n)
           (dset heads (chain_scope_label t p c)
              (case head of None \<Rightarrow> None | Some h \<Rightarrow> hv_last_chain_hash h))))"

definition sqlite_check_orphans ::
  "string option \<Rightarrow> string option \<Rightarrow> string list \<Rightarrow> scope_key list \<Rightarrow> scoped_db \<Rightarrow> unit res" where
  "sqlite_check_orphans tenant_id project_id linked_collections seen db =
     allE (\<lambda>coll. allE (\<lambda>h. if head_scope h \<in> set seen then Inr ()
         else raise_if (invalid_orphan_head (head_view h)) (integrity ''orphan_chain_head''
           (chain_scope_label (ch_tenant_id h) (ch_project_id h) (ch_collection h))))
       (filter (\<lambda>h. ch_collection h = coll \<and> scope_matches (ch_tenant_id h) (ch_project_id h) tenant_id project_id)
         (db_heads db))) linked_collections"

definition sqlite_standalone_rows ::
  "string option \<Rightarrow> string option \<Rightarrow> string option \<Rightarrow> scoped_db \<Rightarrow> sql_row list" where
  "sqlite_standalone_rows tenant_id project_id collection db =
     filter (\<lambda>r. (collection = None \<or> Some (q_collection r) = collection)
       \<and> scope_matches (q_tenant_id r) (q_project_id r) tenant_id project_id
       \<and> q_collection r \<notin> set CHAIN_LINKED_COLLECTIONS) (db_rows db)"

definition verify_sqlite ::
  "(string \<Rightarrow> string) \<Rightarrow> string option \<Rightarrow> string option \<Rightarrow> string option \<Rightarrow> scoped_db \<Rightarrow> chain_report res" where
  "verify_sqlite H tenant_id project_id collection db =
     (let linked = sqlite_linked_collections collection;
          groups = sqlite_groups (sqlite_group_rows tenant_id project_id collection db)
      in bindE (sqlite_check_groups H db groups 0 []) (\<lambda>(checked, heads).
         bindE (sqlite_check_orphans tenant_id project_id linked (map fst groups) db) (\<lambda>_.
         let rows = sqlite_standalone_rows tenant_id project_id collection db
         in bindE (allE (\<lambda>r. validate_standalone_row H (sqlite_view False r)) rows) (\<lambda>_.
            Inr \<lparr>rep_checked = checked + length rows, rep_heads = heads\<rparr>))))"

section \<open>Connections\<close>

text \<open>
  The engine over SQLite: what is committed, and the open transaction of the thread: the state of its
  connection with the declared locks. An operation outside a transaction has a connection of its own, which it
  commits, or rolls back when an exception leaves it.
\<close>

record sqlite_engine =
  sq_committed :: scoped_db
  sq_tx :: "(scoped_db \<times> lock_context) option"

definition sqlite_read :: "sqlite_engine \<Rightarrow> scoped_db" where
  "sqlite_read eng = (case sq_tx eng of None \<Rightarrow> sq_committed eng | Some (db, _) \<Rightarrow> db)"

definition sqlite_locks :: "sqlite_engine \<Rightarrow> lock_context option" where
  "sqlite_locks eng = map_option snd (sq_tx eng)"

definition with_connection :: "(scoped_db, 'a) act \<Rightarrow> (sqlite_engine, 'a) act" where
  "with_connection f eng = (case sq_tx eng of
     Some (db, ctx) \<Rightarrow> (case f db of (r, db') \<Rightarrow> (r, eng\<lparr>sq_tx := Some (db', ctx)\<rparr>))
   | None \<Rightarrow> (case f (sq_committed eng) of
       (Inl e, _) \<Rightarrow> (Inl e, eng)
     | (Inr x, db') \<Rightarrow> (Inr x, eng\<lparr>sq_committed := db'\<rparr>)))"

definition sqlite_append_scoped ::
  "(string \<Rightarrow> string) \<Rightarrow> (nat \<Rightarrow> string) \<Rightarrow> string \<Rightarrow> pdict \<Rightarrow> string \<Rightarrow> string \<Rightarrow> string
   \<Rightarrow> (sqlite_engine, pdict \<times> bool) act" where
  "sqlite_append_scoped H clk collection record canonical_key tenant_id project_id eng =
     bindS (liftS (validate_collection collection False True False)) (\<lambda>_.
     let linked = is_chain_linked_collection collection in
     bindS (liftS (require_write_locks (sqlite_locks eng) collection canonical_key linked)) (\<lambda>_.
     with_connection (sqlite_append H clk collection record canonical_key tenant_id project_id linked))) eng"

definition sqlite_compare_and_set_scoped ::
  "(string \<Rightarrow> string) \<Rightarrow> string \<Rightarrow> string \<Rightarrow> pdict \<Rightarrow> string \<Rightarrow> string \<Rightarrow> string \<Rightarrow> int option \<Rightarrow> string option
   \<Rightarrow> (sqlite_engine, pdict \<times> pdict) act" where
  "sqlite_compare_and_set_scoped H now collection record canonical_key tenant_id project_id
       expected_version expected_payload_hash eng =
     bindS (liftS (validate_collection collection True False False)) (\<lambda>_.
     bindS (liftS (raise_if (is_chain_linked_collection collection)
        (TransactionUnavailable ''CAS is not supported on chain-linked scoped collections''))) (\<lambda>_.
     bindS (liftS (raise_if (expected_version = None \<and> expected_payload_hash = None)
        (ValueError ''expected_version or expected_payload_hash is required''))) (\<lambda>_.
     bindS (liftS (require_write_locks (sqlite_locks eng) collection canonical_key False)) (\<lambda>_.
     with_connection (sqlite_cas H now collection record canonical_key tenant_id project_id
        expected_version expected_payload_hash))))) eng"

definition sqlite_get_scoped :: "string \<Rightarrow> string \<Rightarrow> string \<Rightarrow> string \<Rightarrow> sqlite_engine \<Rightarrow> pdict res" where
  "sqlite_get_scoped collection canonical_key tenant_id project_id eng =
     bindE (validate_collection collection False False True) (\<lambda>_.
     sqlite_get collection canonical_key tenant_id project_id (sqlite_read eng))"

definition sqlite_list_scoped :: "string \<Rightarrow> string \<Rightarrow> string \<Rightarrow> int \<Rightarrow> int \<Rightarrow> sqlite_engine \<Rightarrow> pdict list res" where
  "sqlite_list_scoped collection tenant_id project_id limit offset eng =
     bindE (validate_collection collection False False True) (\<lambda>_.
     bindE (check_page limit offset) (\<lambda>_.
     Inr (sqlite_list collection tenant_id project_id limit offset (sqlite_read eng))))"

definition sqlite_admin_list_scoped ::
  "string \<Rightarrow> string option \<Rightarrow> string option \<Rightarrow> int \<Rightarrow> int \<Rightarrow> sqlite_engine \<Rightarrow> pdict list res" where
  "sqlite_admin_list_scoped collection tenant_id project_id limit offset eng =
     (case (tenant_id, project_id) of
        (Some t, Some p) \<Rightarrow> sqlite_list_scoped collection t p limit offset eng
      | _ \<Rightarrow>
          bindE (validate_collection collection False False True) (\<lambda>_.
          bindE (check_page limit offset) (\<lambda>_.
          Inr (sqlite_admin_list collection tenant_id project_id limit offset (sqlite_read eng)))))"

definition sqlite_verify_scoped_chain ::
  "(string \<Rightarrow> string) \<Rightarrow> string option \<Rightarrow> string option \<Rightarrow> string option \<Rightarrow> sqlite_engine \<Rightarrow> chain_report res" where
  "sqlite_verify_scoped_chain H tenant_id project_id collection eng =
     verify_sqlite H tenant_id project_id collection (sq_committed eng)"

text \<open>
  \<open>run_scoped_transaction\<close>: \<open>BEGIN IMMEDIATE\<close>, the callback, then \<open>COMMIT\<close> or \<open>ROLLBACK\<close>. With
  another writer holding the database, \<open>BEGIN\<close> waits for the busy timeout; the model is the
  execution in which it gets the lock.
\<close>

definition sqlite_run_scoped_transaction ::
  "string \<Rightarrow> string \<Rightarrow> lock_ref list \<Rightarrow> (sqlite_engine, 'a) act \<Rightarrow> (sqlite_engine, 'a) act" where
  "sqlite_run_scoped_transaction tenant_id project_id refs fn eng =
     (case validate_lock_refs_scope refs tenant_id project_id of Inl e \<Rightarrow> (Inl e, eng) | Inr _ \<Rightarrow>
      if sq_tx eng \<noteq> None
      then (Inl (TransactionUnavailable ''nested scoped transactions are not supported''), eng)
      else
        (let ordered = normalize_lock_refs refs
         in case fn (eng\<lparr>sq_tx := Some (sq_committed eng, build_lock_context ordered)\<rparr>) of
              (Inl e, eng') \<Rightarrow> (Inl e, eng'\<lparr>sq_tx := None\<rparr>)
            | (Inr x, eng') \<Rightarrow> (Inr x, eng'\<lparr>sq_committed := sqlite_read eng', sq_tx := None\<rparr>)))"

end
