(* ===== verification/Store_Invariant.thy ===== *)
theory Store_Invariant
  imports Scoped_Verify
begin

text \<open>
  The invariant of the JSON store: keys agree with the rows they lead to, every row's metadata
  and hashes agree with its payload, and for every tenant, project and chain-linked collection the rows, in the order of
  the dictionary, form one hash chain numbered from 1 whose end is the stored head. Keys are built by joining
  names with NUL, so the invariant needs tenant and project names without NUL
  (\<open>scoped_key_inj\<close>). Every operation keeps the invariant, and a store that satisfies it passes the verifier.
\<close>

section \<open>Keys\<close>

abbreviation NUL :: char where "NUL \<equiv> CHR 0x00"

definition nulfree :: "string \<Rightarrow> bool" where
  "nulfree s \<longleftrightarrow> NUL \<notin> set s"

lemma nul_split: "a @ NUL # s = b @ NUL # t \<Longrightarrow> nulfree a \<Longrightarrow> nulfree b \<Longrightarrow> a = b \<and> s = t"
proof (induction a arbitrary: b)
  case Nil
  then show ?case by (cases b) (auto simp: nulfree_def)
next
  case (Cons x a)
  then show ?case by (cases b) (auto simp: nulfree_def)
qed

lemma linked_nulfree: "is_chain_linked_collection c \<Longrightarrow> nulfree c"
  by (auto simp: is_chain_linked_collection_def CHAIN_LINKED_COLLECTIONS_def SCOPED_COLLECTIONS_def nulfree_def)

lemma cas_nulfree: "c \<in> set CAS_ALLOWED_COLLECTIONS \<Longrightarrow> nulfree c"
  by (auto simp: CAS_ALLOWED_COLLECTIONS_def nulfree_def)

lemma append_collection_nulfree: "validate_collection c False True False = Inr () \<Longrightarrow> nulfree c"
  by (auto simp: validate_collection_def Let_def APPEND_SCOPED_COLLECTIONS_def
      dest: cas_nulfree intro: linked_nulfree
      simp: is_chain_linked_collection_def CHAIN_LINKED_COLLECTIONS_def)

lemma head_key_inj:
  assumes "head_key t p c = head_key t' p' c'" "nulfree t" "nulfree t'" "nulfree p" "nulfree p'"
  shows "t = t' \<and> p = p' \<and> c = c'"
  using assms nul_split [of t "p @ NUL # c" t' "p' @ NUL # c'"] nul_split [of p c p' c']
  by (simp add: head_key_def)

lemma scoped_key_inj:
  assumes "scoped_key t p c k = scoped_key t' p' c' k'"
    and "nulfree t" "nulfree t'" "nulfree p" "nulfree p'" "nulfree c" "nulfree c'"
  shows "t = t' \<and> p = p' \<and> c = c' \<and> k = k'"
  using assms nul_split [of t "p @ NUL # c @ NUL # k" t' "p' @ NUL # c' @ NUL # k'"]
    nul_split [of p "c @ NUL # k" p' "c' @ NUL # k'"] nul_split [of c k c' k']
  by (simp add: scoped_key_def)

section \<open>The invariant\<close>

definition scope_rows :: "store_state \<Rightarrow> string \<Rightarrow> string \<Rightarrow> string \<Rightarrow> stored_row list" where
  "scope_rows st t p c = filter (in_scope t p c) (rows_of st)"

definition row_ok :: "(string \<Rightarrow> string) \<Rightarrow> stored_row \<Rightarrow> bool" where
  "row_ok H r \<longleftrightarrow>
     nulfree (sr_tenant_id r) \<and> nulfree (sr_project_id r) \<and> nulfree (sr_collection r) \<and>
     dwf (sr_payload r) \<and>
     sr_chain_linked r = is_chain_linked_collection (sr_collection r) \<and>
     (\<not> sr_chain_linked r \<longrightarrow> sr_chain_prev r = None) \<and>
     sr_payload_hash r = canonical_scoped_payload_hash H (sr_payload r) \<and>
     sr_chain_hash r = chain_record_hash H (sr_chain_prev r) (sr_collection r) (sr_payload r) \<and>
     canon (dget (sr_payload r) ''_chain'') =
       canon (chain_value (sr_chain_prev r) (sr_chain_hash r) (sr_chain_sequence r) (sr_chain_linked r))"

text \<open>The rows of one chain: consecutive numbers, each row's \<open>chain_prev\<close> the hash before it.\<close>

fun chain_from :: "string option \<Rightarrow> int \<Rightarrow> stored_row list \<Rightarrow> bool" where
  "chain_from prev n [] = True"
| "chain_from prev n (r # rs) =
     (sr_chain_prev r = prev \<and> sr_chain_sequence r = n \<and> chain_from (Some (sr_chain_hash r)) (n + 1) rs)"

definition last_hash :: "string option \<Rightarrow> stored_row list \<Rightarrow> string option" where
  "last_hash prev rs = (if rs = [] then prev else Some (sr_chain_hash (last rs)))"

definition head_agrees :: "chain_head option \<Rightarrow> stored_row list \<Rightarrow> bool" where
  "head_agrees h rs = (case h of None \<Rightarrow> rs = []
     | Some h \<Rightarrow> ch_last_sequence h = int (length rs) \<and> ch_last_chain_hash h = last_hash None rs)"

definition keys_ok :: "store_state \<Rightarrow> bool" where
  "keys_ok st \<longleftrightarrow> ddistinct (st_records st) \<and> ddistinct (st_heads st) \<and>
     (\<forall>(k, r) \<in> set (st_records st). k = row_key r) \<and>
     (\<forall>(k, h) \<in> set (st_heads st). k = chain_head_key h \<and> nulfree (ch_tenant_id h)
        \<and> nulfree (ch_project_id h) \<and> is_chain_linked_collection (ch_collection h))"

definition chains_ok :: "store_state \<Rightarrow> bool" where
  "chains_ok st \<longleftrightarrow> (\<forall>t p c. nulfree t \<longrightarrow> nulfree p \<longrightarrow> is_chain_linked_collection c \<longrightarrow>
     chain_from None 1 (scope_rows st t p c) \<and>
     head_agrees (map_of (st_heads st) (head_key t p c)) (scope_rows st t p c))"

definition store_ok :: "(string \<Rightarrow> string) \<Rightarrow> store_state \<Rightarrow> bool" where
  "store_ok H st \<longleftrightarrow> keys_ok st \<and> (\<forall>r \<in> set (rows_of st). row_ok H r) \<and> chains_ok st"

lemma store_ok_empty: "store_ok H empty_store"
  by (simp add: store_ok_def keys_ok_def chains_ok_def empty_store_def rows_of_def scope_rows_def
      head_agrees_def)

lemma chain_from_append:
  "chain_from prev n (rs @ rs') \<longleftrightarrow>
     chain_from prev n rs \<and> chain_from (last_hash prev rs) (n + int (length rs)) rs'"
proof (induction rs arbitrary: prev n)
  case (Cons r rs)
  show ?case using Cons.IH [of "Some (sr_chain_hash r)" "n + 1"]
    by (auto simp: last_hash_def algebra_simps)
qed (simp add: last_hash_def)

lemma chain_from_sequences:
  "chain_from prev n rs \<Longrightarrow> map sr_chain_sequence rs = map (\<lambda>i. n + int i) [0..<length rs]"
proof (induction rs arbitrary: prev n)
  case (Cons r rs)
  then have "chain_from (Some (sr_chain_hash r)) (n + 1) rs" by simp
  from Cons.IH [OF this] have "map sr_chain_sequence rs = map (\<lambda>i. n + 1 + int i) [0..<length rs]" .
  moreover have "map (\<lambda>i. n + int i) [0..<length (r # rs)] = n # map (\<lambda>i. n + 1 + int i) [0..<length rs]"
    by (simp add: upt_conv_Cons map_Suc_upt [symmetric] del: upt_Suc)
  ultimately show ?case using Cons.prems by simp
qed simp

lemma chain_from_sorted: "chain_from prev n rs \<Longrightarrow> sorted (map sr_chain_sequence rs)"
  using chain_from_sequences [of prev n rs] by (simp add: sorted_map sorted_wrt_iff_nth_less)

section \<open>What a built row looks like\<close>

lemma canon_chain_value: "canon (chain_value p h n l) = JObj [(''alg'', JStr ''sha256''), (''hash'', JStr h),
    (''linked'', JBool l), (''previous_hash'', ostr p), (''sequence'', JInt n)]"
  by (simp add: chain_value_def canon_dict_def less_list_code)

lemma jwf_chain_value [simp]: "jwf (chain_value p h n l)"
  by (simp add: chain_value_def)

lemma jwf_scope_value [simp]: "jwf (scope_value t p)"
  by (simp add: scope_value_def)

lemma dwf_with_scope [simp]: "dwf r \<Longrightarrow> dwf (with_scope r t p)"
  by (simp add: with_scope_def)

lemma hash_ignores_chain [simp]:
  "canonical_scoped_payload_hash H (dset d ''_chain'' v) = canonical_scoped_payload_hash H d"
  "chain_record_hash H p c (dset d ''_chain'' v) = chain_record_hash H p c d"
  by (simp_all add: canonical_scoped_payload_hash_def chain_record_hash_def dremove_dset_same)

lemma build_row_Inr:
  assumes "build_row H now c record k t p prev n v ca ua (Some linked) = Inr row"
  shows "sr_tenant_id row = t \<and> sr_project_id row = p \<and> sr_collection row = c \<and>
    sr_canonical_key row = k \<and> sr_chain_sequence row = n \<and> sr_row_version row = v \<and>
    sr_chain_linked row = linked \<and> sr_chain_prev row = (if linked then prev else None) \<and>
    sr_payload_hash row = canonical_scoped_payload_hash H (with_scope record t p) \<and>
    sr_chain_hash row = chain_record_hash H (sr_chain_prev row) c (with_scope record t p) \<and>
    sr_payload row = dset (with_scope record t p) ''_chain''
      (chain_value (sr_chain_prev row) (sr_chain_hash row) n linked) \<and>
    extract_record_id c record None = Inr (sr_record_id row)"
  using assms by (auto simp: build_row_def Let_def bindE_Inr_iff standalone_row_hash_def)

lemma build_row_ok:
  assumes "build_row H now c record k t p prev n v ca ua (Some (is_chain_linked_collection c)) = Inr row"
    and "nulfree t" "nulfree p" "nulfree c" "dwf record"
  shows "row_ok H row"
  using build_row_Inr [OF assms(1)] assms(2-) by (simp add: row_ok_def)

section \<open>Append and compare-and-set keep the invariant\<close>

lemma rows_of_append:
  "map_of (st_records st) k = None \<Longrightarrow> map snd (dset (st_records st) k r) = rows_of st @ [r]"
  by (simp add: dset_fresh rows_of_def)

lemma keys_ok_head:
  assumes "keys_ok st" "map_of (st_heads st) (head_key t p c) = Some h" "nulfree t" "nulfree p"
  shows "ch_tenant_id h = t \<and> ch_project_id h = p \<and> ch_collection h = c"
proof -
  from assms have "head_key t p c = chain_head_key h" "nulfree (ch_tenant_id h)" "nulfree (ch_project_id h)"
    by (auto simp: keys_ok_def dest!: map_of_SomeD)
  with assms(3,4) head_key_inj show ?thesis unfolding chain_head_key_def by metis
qed

lemma keys_ok_record:
  assumes "keys_ok st" "map_of (st_records st) k = Some r"
  shows "row_key r = k \<and> r \<in> set (rows_of st)"
  using assms by (force simp: keys_ok_def rows_of_def dest!: map_of_SomeD)

lemma keys_ok_add_record:
  "keys_ok st \<Longrightarrow> k = row_key r \<Longrightarrow> keys_ok (st\<lparr>st_records := dset (st_records st) k r\<rparr>)"
  using set_dset_subset [of "st_records st" k r] by (auto simp: keys_ok_def)

lemma keys_ok_set_head:
  "keys_ok st \<Longrightarrow> k = chain_head_key h \<Longrightarrow> nulfree (ch_tenant_id h) \<Longrightarrow> nulfree (ch_project_id h)
   \<Longrightarrow> is_chain_linked_collection (ch_collection h) \<Longrightarrow> keys_ok (st\<lparr>st_heads := dset (st_heads st) k h\<rparr>)"
  using set_dset_subset [of "st_heads st" k h] by (auto simp: keys_ok_def)

lemma chains_okD:
  "chains_ok st \<Longrightarrow> nulfree t \<Longrightarrow> nulfree p \<Longrightarrow> is_chain_linked_collection c \<Longrightarrow>
     chain_from None 1 (scope_rows st t p c) \<and>
     head_agrees (map_of (st_heads st) (head_key t p c)) (scope_rows st t p c)"
  by (simp add: chains_ok_def)

text \<open>The head that a linked append works with, found or new, describes the chain so far.\<close>

definition found_head :: "string \<Rightarrow> string \<Rightarrow> string \<Rightarrow> string \<Rightarrow> store_state \<Rightarrow> chain_head" where
  "found_head now t p c st = (case map_of (st_heads st) (head_key t p c) of Some h \<Rightarrow> h
     | None \<Rightarrow> \<lparr>ch_tenant_id = t, ch_project_id = p, ch_collection = c, ch_last_sequence = 0,
         ch_last_chain_hash = None, ch_updated_at = now\<rparr>)"

lemma found_head_scope:
  "keys_ok st \<Longrightarrow> nulfree t \<Longrightarrow> nulfree p \<Longrightarrow>
     ch_tenant_id (found_head now t p c st) = t \<and> ch_project_id (found_head now t p c st) = p \<and>
     ch_collection (found_head now t p c st) = c"
  using keys_ok_head [of st t p c] by (auto simp: found_head_def split: option.splits)

lemma found_head_agrees:
  assumes "chains_ok st" "nulfree t" "nulfree p" "is_chain_linked_collection c"
  shows "ch_last_sequence (found_head now t p c st) = int (length (scope_rows st t p c)) \<and>
    ch_last_chain_hash (found_head now t p c st) = last_hash None (scope_rows st t p c)"
  using chains_okD [OF assms] by (auto simp: head_agrees_def found_head_def last_hash_def split: option.splits)

lemma json_append_state_unfold:
  "json_append_state H clk c record k t p linked st =
     (case map_of (st_records st) (scoped_key t p c k) of
        Some existing \<Rightarrow>
          if sr_payload_hash existing = canonical_scoped_payload_hash H (with_scope record t p)
          then (Inr (sr_payload existing, False), st)
          else (Inl (DuplicateCanonicalKey (''Duplicate canonical key '' @ k @ '' in '' @ c
                 @ '' with different payload'')), st)
      | None \<Rightarrow>
         if linked then
           (case build_row H (clk 1) c record k t p (ch_last_chain_hash (found_head (clk 0) t p c st))
                   (ch_last_sequence (found_head (clk 0) t p c st) + 1) 1 None None (Some True) of
              Inl e \<Rightarrow> (Inl e, st\<lparr>st_heads := dset (st_heads st) (head_key t p c) (found_head (clk 0) t p c st)\<rparr>)
            | Inr row \<Rightarrow> (Inr (sr_payload row, True),
                st\<lparr>st_records := dset (st_records st) (scoped_key t p c k) row,
                   st_heads := dset (st_heads st) (head_key t p c)
                     ((found_head (clk 0) t p c st)\<lparr>
                        ch_last_sequence := ch_last_sequence (found_head (clk 0) t p c st) + 1,
                        ch_last_chain_hash := Some (sr_chain_hash row), ch_updated_at := clk 2\<rparr>)\<rparr>))
         else
           (case build_row H (clk 1) c record k t p None (next_mutable_sequence st t p c) 1 None None (Some False) of
              Inl e \<Rightarrow> (Inl e, st)
            | Inr row \<Rightarrow> (Inr (sr_payload row, True), st\<lparr>st_records := dset (st_records st) (scoped_key t p c k) row\<rparr>)))"
  by (simp add: json_append_state_def found_head_def to_public_def Let_def split: option.split sum.split)

lemma scope_rows_snoc:
  "map snd (st_records st') = rows_of st @ [r] \<Longrightarrow>
   scope_rows st' t p c = scope_rows st t p c @ (if in_scope t p c r then [r] else [])"
  by (simp add: scope_rows_def rows_of_def)

text \<open>Adding a row to a scope that is not a chain touches no chain.\<close>

lemma chains_ok_add_unlinked:
  assumes "chains_ok st" "map snd (st_records st') = rows_of st @ [r]" "st_heads st' = st_heads st"
    and "\<not> is_chain_linked_collection (sr_collection r)"
  shows "chains_ok st'"
  using assms by (auto simp: chains_ok_def scope_rows_snoc in_scope_def)

lemma chains_ok_add_linked:
  assumes ok: "chains_ok st" and rows: "map snd (st_records st') = rows_of st @ [r]"
    and heads: "st_heads st' = dset (st_heads st) (head_key t p c) h"
    and scope: "in_scope t p c r" "nulfree t" "nulfree p" "is_chain_linked_collection c"
    and link: "sr_chain_prev r = last_hash None (scope_rows st t p c)"
      "sr_chain_sequence r = int (length (scope_rows st t p c)) + 1"
    and head: "ch_last_sequence h = int (length (scope_rows st t p c)) + 1"
      "ch_last_chain_hash h = Some (sr_chain_hash r)"
  shows "chains_ok st'"
  unfolding chains_ok_def
proof (intro allI impI)
  fix t' p' c' assume n: "nulfree t'" "nulfree p'" "is_chain_linked_collection c'"
  note old = chains_okD [OF ok n]
  show "chain_from None 1 (scope_rows st' t' p' c') \<and>
    head_agrees (map_of (st_heads st') (head_key t' p' c')) (scope_rows st' t' p' c')"
  proof (cases "(t', p', c') = (t, p, c)")
    case True
    then have "scope_rows st' t' p' c' = scope_rows st t p c @ [r]"
      using scope_rows_snoc [OF rows] scope by simp
    with True old link head heads show ?thesis
      by (simp add: chain_from_append head_agrees_def last_hash_def)
  next
    case False
    then have "head_key t' p' c' \<noteq> head_key t p c" using head_key_inj n scope by metis
    moreover have "scope_rows st' t' p' c' = scope_rows st t' p' c'"
      using scope_rows_snoc [OF rows] scope(1) False by (auto simp: in_scope_def)
    ultimately show ?thesis using old heads by simp
  qed
qed

lemma store_ok_new_head:
  assumes ok: "store_ok H st" and "nulfree t" "nulfree p" "is_chain_linked_collection c"
  shows "store_ok H (st\<lparr>st_heads := dset (st_heads st) (head_key t p c) (found_head now t p c st)\<rparr>)"
    (is "store_ok H ?st'")
proof -
  have k: "keys_ok st" and ch: "chains_ok st" using ok by (auto simp: store_ok_def)
  have sr: "scope_rows ?st' = scope_rows st" "rows_of ?st' = rows_of st"
    by (auto simp: scope_rows_def rows_of_def fun_eq_iff)
  have "keys_ok ?st'"
    using found_head_scope [OF k assms(2,3)] assms k by (intro keys_ok_set_head) (simp_all add: chain_head_key_def)
  moreover have "chains_ok ?st'"
    using ch found_head_agrees [OF ch assms(2-4)]
    by (auto simp: chains_ok_def sr head_agrees_def dest: head_key_inj [OF _ _ assms(2) _ assms(3)])
  ultimately show ?thesis using ok by (simp add: store_ok_def sr)
qed


lemma store_ok_row: "store_ok H st \<Longrightarrow> map_of (st_records st) k = Some r \<Longrightarrow> row_ok H r \<and> row_key r = k"
  using keys_ok_record by (auto simp: store_ok_def)

lemma store_ok_add_unlinked:
  assumes ok: "store_ok H st" and new: "map_of (st_records st) (row_key r) = None"
    and r: "row_ok H r" "\<not> is_chain_linked_collection (sr_collection r)"
  shows "store_ok H (st\<lparr>st_records := dset (st_records st) (row_key r) r\<rparr>)"
proof -
  let ?st = "st\<lparr>st_records := dset (st_records st) (row_key r) r\<rparr>"
  have rows: "map snd (st_records ?st) = rows_of st @ [r]" using rows_of_append [OF new] by simp
  have "chains_ok ?st" using ok r by (intro chains_ok_add_unlinked [OF _ rows]) (auto simp: store_ok_def)
  with ok r rows keys_ok_add_record show ?thesis by (auto simp: store_ok_def rows_of_def)
qed

lemma store_ok_add_linked:
  assumes ok: "store_ok H st" and new: "map_of (st_records st) (row_key r) = None" and r: "row_ok H r"
    and scope: "in_scope t p c r" "nulfree t" "nulfree p" "is_chain_linked_collection c"
    and link: "sr_chain_prev r = ch_last_chain_hash (found_head now t p c st)"
      "sr_chain_sequence r = ch_last_sequence (found_head now t p c st) + 1"
    and head: "ch_last_sequence h = sr_chain_sequence r" "ch_last_chain_hash h = Some (sr_chain_hash r)"
      "head_scope h = (t, p, c)"
  shows "store_ok H (st\<lparr>st_records := dset (st_records st) (row_key r) r,
    st_heads := dset (st_heads st) (head_key t p c) h\<rparr>)" (is "store_ok H ?st")
proof -
  have rows: "map snd (st_records ?st) = rows_of st @ [r]" using rows_of_append [OF new] by simp
  have old: "keys_ok st" "chains_ok st" using ok by (auto simp: store_ok_def)
  have "chains_ok ?st"
    using found_head_agrees [OF old(2) scope(2-4)] link head
    by (intro chains_ok_add_linked [OF old(2) rows _ scope]) simp_all
  moreover have "keys_ok ?st"
    using keys_ok_set_head [OF keys_ok_add_record [OF old(1) refl, of r], of "head_key t p c" h] scope head(3)
    by (simp add: chain_head_key_def head_scope_def)
  ultimately show ?thesis using ok r rows by (auto simp: store_ok_def rows_of_def)
qed

lemma json_append_state_ok:
  assumes ok: "store_ok H st" and n: "nulfree t" "nulfree p" "nulfree c" and wf: "dwf record"
    and run: "json_append_state H clk c record k t p (is_chain_linked_collection c) st = (res, st')"
  shows "store_ok H st'"
proof (cases "map_of (st_records st) (scoped_key t p c k)")
  case (Some e)
  with run ok show ?thesis by (auto simp: json_append_state_unfold split: if_splits)
next
  case None
  show ?thesis
  proof (cases "is_chain_linked_collection c")
    case True
    let ?h = "found_head (clk 0) t p c st"
    let ?b = "build_row H (clk 1) c record k t p (ch_last_chain_hash ?h) (ch_last_sequence ?h + 1) 1 None None (Some True)"
    show ?thesis
    proof (cases ?b)
      case (Inl e)
      with None True run store_ok_new_head [OF ok n(1,2) True] show ?thesis
        by (auto simp: json_append_state_unfold)
    next
      case (Inr row)
      note b = build_row_Inr [OF Inr]
      have rk: "scoped_key t p c k = row_key row" using b by (simp add: row_key_def)
      have rok: "row_ok H row" using build_row_ok [of H] Inr True n wf by metis
      let ?g = "?h\<lparr>ch_last_sequence := ch_last_sequence ?h + 1,
        ch_last_chain_hash := Some (sr_chain_hash row), ch_updated_at := clk 2\<rparr>"
      have st': "st' = st\<lparr>st_records := dset (st_records st) (row_key row) row,
          st_heads := dset (st_heads st) (head_key t p c) ?g\<rparr>"
        using None True run Inr by (simp add: json_append_state_unfold rk)
      have "head_scope ?h = (t, p, c)"
        using found_head_scope [OF _ n(1,2)] ok by (simp add: head_scope_def store_ok_def)
      then have "store_ok H (st\<lparr>st_records := dset (st_records st) (row_key row) row,
          st_heads := dset (st_heads st) (head_key t p c) ?g\<rparr>)"
        using None b rk
        by (intro store_ok_add_linked [OF ok _ rok _ n(1,2) True, where now = "clk 0"])
          (simp_all add: in_scope_def head_scope_def)
      with st' show ?thesis by simp
    qed
  next
    case False
    show ?thesis
    proof (cases "build_row H (clk 1) c record k t p None (next_mutable_sequence st t p c) 1 None None (Some False)")
      case (Inl e)
      with None False run ok show ?thesis by (auto simp: json_append_state_unfold)
    next
      case (Inr row)
      note b = build_row_Inr [OF Inr]
      have rok: "row_ok H row" using build_row_ok [of H] Inr False n wf by metis
      have rk: "scoped_key t p c k = row_key row" using b by (simp add: row_key_def)
      from None False run Inr have "st' = st\<lparr>st_records := dset (st_records st) (row_key row) row\<rparr>"
        by (simp add: json_append_state_unfold rk)
      with store_ok_add_unlinked [OF ok _ rok] None b False rk show ?thesis by simp
    qed
  qed
qed

lemma store_ok_replace_unlinked:
  assumes ok: "store_ok H st" and old: "map_of (st_records st) k = Some e"
    and r: "row_ok H r" "row_key r = k" "row_scope r = row_scope e" "\<not> is_chain_linked_collection (sr_collection e)"
  shows "store_ok H (st\<lparr>st_records := dset (st_records st) k r\<rparr>)"
proof -
  let ?st = "st\<lparr>st_records := dset (st_records st) k r\<rparr>"
  have "scope_rows ?st t p c = scope_rows st t p c" if "is_chain_linked_collection c" for t p c
    using filter_snd_dset [OF old, of "in_scope t p c" r] r that
    by (auto simp: scope_rows_def rows_of_def in_scope_def row_scope_def)
  then have "chains_ok ?st" using ok by (auto simp: store_ok_def chains_ok_def)
  moreover have "set (rows_of ?st) \<subseteq> insert r (set (rows_of st))"
    using set_dset_subset [of "st_records st" k r] by (auto simp: rows_of_def)
  ultimately show ?thesis using ok r keys_ok_add_record [of st k r] by (auto simp: store_ok_def)
qed

lemma json_cas_state_unfold:
  assumes "json_cas_state H now c record k t p ev eh st = (Inr (new, old), st')"
  obtains e where "map_of (st_records st) (scoped_key t p c k) = Some e" "\<not> sr_chain_linked e"
    "ev = None \<or> ev = Some (sr_row_version e)" "eh = None \<or> eh = Some (sr_payload_hash e)"
    "old = sr_payload e"
    "new = dset (with_scope record t p) ''_chain''
        (chain_value None (chain_record_hash H None c (with_scope record t p)) (sr_chain_sequence e) False)"
    "st' = st\<lparr>st_records := dset (st_records st) (scoped_key t p c k) (e\<lparr>sr_payload := new,
        sr_payload_hash := canonical_scoped_payload_hash H (with_scope record t p),
        sr_chain_hash := chain_record_hash H None c (with_scope record t p),
        sr_row_version := sr_row_version e + 1, sr_updated_at := now\<rparr>)\<rparr>"
  using assms
  by (auto simp: json_cas_state_def Let_def to_public_def standalone_row_hash_def split: option.splits if_splits)

lemma json_cas_state_Inl: "json_cas_state H now c record k t p ev eh st = (Inl e, st') \<Longrightarrow> st' = st"
  by (auto simp: json_cas_state_def Let_def split: option.splits if_splits)

lemma json_cas_state_ok:
  assumes ok: "store_ok H st" and n: "nulfree t" "nulfree p" "nulfree c" and wf: "dwf record"
    and run: "json_cas_state H now c record k t p ev eh st = (res, st')"
  shows "store_ok H st'"
proof (cases res)
  case (Inl e)
  with run json_cas_state_Inl ok show ?thesis by metis
next
  case (Inr r)
  obtain new old where "r = (new, old)" by (cases r)
  with Inr run have cas: "json_cas_state H now c record k t p ev eh st = (Inr (new, old), st')" by simp
  obtain e where e: "map_of (st_records st) (scoped_key t p c k) = Some e" "\<not> sr_chain_linked e"
    and new: "new = dset (with_scope record t p) ''_chain''
        (chain_value None (chain_record_hash H None c (with_scope record t p)) (sr_chain_sequence e) False)"
    and st': "st' = st\<lparr>st_records := dset (st_records st) (scoped_key t p c k) (e\<lparr>sr_payload := new,
        sr_payload_hash := canonical_scoped_payload_hash H (with_scope record t p),
        sr_chain_hash := chain_record_hash H None c (with_scope record t p),
        sr_row_version := sr_row_version e + 1, sr_updated_at := now\<rparr>)\<rparr>"
    by (rule json_cas_state_unfold [OF cas]) blast
  from store_ok_row [OF ok e(1)] have rok: "row_ok H e" and rk: "row_key e = scoped_key t p c k" by auto
  with n scoped_key_inj have sc: "sr_tenant_id e = t \<and> sr_project_id e = p \<and> sr_collection e = c \<and> sr_canonical_key e = k"
    unfolding row_key_def row_ok_def by metis
  show ?thesis
    unfolding st'
    by (rule store_ok_replace_unlinked [OF ok e(1)])
      (use rok rk sc e(2) wf in \<open>simp_all add: row_ok_def row_key_def row_scope_def new\<close>)
qed

section \<open>The invariant does not see how a payload is written\<close>

text \<open>Writing and reading the file puts every payload into normal form: sorted keys.\<close>

definition norm_row :: "stored_row \<Rightarrow> stored_row" where
  "norm_row r = r\<lparr>sr_payload := canon_dict (sr_payload r)\<rparr>"

definition norm_state :: "store_state \<Rightarrow> store_state" where
  "norm_state st = st\<lparr>st_records := map (\<lambda>(k, r). (k, norm_row r)) (st_records st)\<rparr>"

lemma norm_row_sel [simp]:
  "sr_tenant_id (norm_row r) = sr_tenant_id r" "sr_project_id (norm_row r) = sr_project_id r"
  "sr_collection (norm_row r) = sr_collection r" "sr_canonical_key (norm_row r) = sr_canonical_key r"
  "sr_record_id (norm_row r) = sr_record_id r" "sr_payload (norm_row r) = canon_dict (sr_payload r)"
  "sr_payload_hash (norm_row r) = sr_payload_hash r" "sr_chain_prev (norm_row r) = sr_chain_prev r"
  "sr_chain_hash (norm_row r) = sr_chain_hash r" "sr_chain_sequence (norm_row r) = sr_chain_sequence r"
  "sr_row_version (norm_row r) = sr_row_version r" "sr_created_at (norm_row r) = sr_created_at r"
  "sr_updated_at (norm_row r) = sr_updated_at r" "sr_chain_linked (norm_row r) = sr_chain_linked r"
  "row_key (norm_row r) = row_key r"
  by (simp_all add: norm_row_def row_key_def)

lemma rows_of_norm: "rows_of (norm_state st) = map norm_row (rows_of st)"
  by (simp add: rows_of_def norm_state_def case_prod_beta)

lemma scope_rows_norm: "scope_rows (norm_state st) t p c = map norm_row (scope_rows st t p c)"
  by (simp add: scope_rows_def rows_of_norm filter_map comp_def in_scope_def [abs_def])

lemma chain_from_norm [simp]: "chain_from prev n (map norm_row rs) = chain_from prev n rs"
  by (induction rs arbitrary: prev n) auto

lemma head_agrees_norm [simp]: "head_agrees h (map norm_row rs) = head_agrees h rs"
  by (auto simp: head_agrees_def last_hash_def last_map split: option.splits)

lemma canon_dict_dremove:
  "ddistinct d \<Longrightarrow> canon_dict (dremove (canon_dict d) k) = canon_dict (dremove d k)"
  by (rule canon_dict_eqI) (auto simp: map_of_canon_dict option.map_comp comp_def)

lemma hash_canon_dict [simp]:
  assumes "ddistinct d"
  shows "canonical_scoped_payload_hash H (canon_dict d) = canonical_scoped_payload_hash H d"
    "chain_record_hash H p c (canon_dict d) = chain_record_hash H p c d"
  using canon_dict_dremove [OF assms] by (auto intro: payload_hash_cong chain_hash_cong)

lemma row_ok_norm: "row_ok H r \<Longrightarrow> row_ok H (norm_row r)"
  by (auto simp: row_ok_def dwf_def [of "sr_payload r"] dget_canon_dict)

lemma store_ok_norm:
  assumes "store_ok H st"
  shows "store_ok H (norm_state st)"
proof -
  have "keys_ok (norm_state st)"
    using assms by (fastforce simp: store_ok_def keys_ok_def norm_state_def comp_def case_prod_beta)
  moreover have "chains_ok (norm_state st)"
    using assms by (simp add: store_ok_def chains_ok_def scope_rows_norm) (simp add: norm_state_def)
  ultimately show ?thesis using assms row_ok_norm by (auto simp: store_ok_def rows_of_norm)
qed

section \<open>Reading back what was written\<close>

lemma ctor_check_Inr:
  assumes "set (dkeys d) \<subseteq> set (required @ optional)" "set required \<subseteq> set (dkeys d)"
  shows "ctor_check cls required optional d = Inr ()"
proof -
  have "filter (\<lambda>k. k \<notin> set (required @ optional)) (dkeys d) = []"
    "filter (\<lambda>k. k \<notin> set (dkeys d)) required = []"
    using assms by (auto simp: filter_empty_conv simp del: set_map set_append)
  then show ?thesis by (simp add: ctor_check_def del: set_map set_append)
qed

lemma row_roundtrip: "row_from_json (canon (row_to_json r)) = Inr (norm_row r)"
proof -
  define d where "d = (case row_to_json r of JObj d \<Rightarrow> d | _ \<Rightarrow> [])"
  have rd: "row_to_json r = JObj d" by (simp add: d_def row_to_json_def)
  have dist: "ddistinct d" by (simp add: d_def row_to_json_def)
  have keys: "set (dkeys (canon_dict d)) = set (dkeys d)" by (force simp: set_canon_dict)
  have c: "dget (canon_dict d) k = canon (dget d k)" for k using dist by (rule dget_canon_dict)
  have ix: "dindex (canon_dict d) ''collection'' = Inr (JStr (sr_collection r))"
    using dist by (simp add: dindex_def map_of_canon_dict) (simp add: d_def row_to_json_def)
  have lk: "dget_or (canon_dict d) ''chain_linked'' v = JBool (sr_chain_linked r)" for v
    using dist by (simp add: dget_or_def map_of_canon_dict) (simp add: d_def row_to_json_def)
  have "dkeys d = stored_row_fields @ [''chain_linked'']"
    by (simp add: d_def row_to_json_def stored_row_fields_def)
  then have "set (dkeys d) = insert ''chain_linked'' (set stored_row_fields)" by simp
  then have ks: "set (dkeys (dremove (canon_dict d) ''chain_linked'')) \<subseteq> set stored_row_fields"
    "set stored_row_fields - {''chain_linked''} \<subseteq> set (dkeys (dremove (canon_dict d) ''chain_linked''))"
    using keys by auto
  moreover have "''chain_linked'' \<notin> set stored_row_fields" by (simp add: stored_row_fields_def)
  ultimately have ctor: "ctor_check ''_StoredRow'' stored_row_fields [] (dremove (canon_dict d) ''chain_linked'') = Inr ()"
    by (intro ctor_check_Inr) auto
  show ?thesis
    by (simp add: rd row_from_json_def canon_JObj ix lk ctor c)
      (simp add: d_def row_to_json_def dget_def norm_row_def canon_JObj)
qed

lemma head_roundtrip: "head_from_json (canon (head_to_json h)) = Inr h"
  by (simp add: head_from_json_def head_to_json_def canon_JObj dindex_def dget_canon_dict map_of_canon_dict)
    (simp add: dget_def)

lemma foldl_dset_distinct:
  "distinct (map f xs) \<Longrightarrow> set (dkeys d) \<inter> f ` set xs = {}
   \<Longrightarrow> foldl (\<lambda>m r. dset m (f r) r) d xs = d @ map (\<lambda>r. (f r, r)) xs"
proof (induction xs arbitrary: d)
  case (Cons x xs)
  then have "map_of d (f x) = None" by (auto simp: map_of_eq_None_iff)
  with Cons show ?case by (simp add: dset_fresh)
qed simp

lemma state_roundtrip:
  assumes "keys_ok st"
  shows "state_from_json (canon (JObj [
     (''records'', JArr (map (\<lambda>(k, r). row_to_json r) (st_records st))),
     (''heads'', JArr (map (\<lambda>(k, h). head_to_json h) (st_heads st)))])) = Inr (norm_state st)"
proof -
  have rk: "map fst (st_records st) = map row_key (rows_of st)"
    and hk: "map fst (st_heads st) = map chain_head_key (map snd (st_heads st))"
    using assms by (auto simp: keys_ok_def rows_of_def)
  have rec: "foldl (\<lambda>m r. dset m (row_key r) r) [] (map norm_row (rows_of st)) = st_records (norm_state st)"
    using assms rk by (subst foldl_dset_distinct)
      (auto simp: keys_ok_def comp_def norm_state_def rows_of_def case_prod_beta)
  have heads: "foldl (\<lambda>m h. dset m (chain_head_key h) h) [] (map snd (st_heads st)) = st_heads (norm_state st)"
    using assms hk by (subst foldl_dset_distinct)
      (auto simp: keys_ok_def comp_def norm_state_def case_prod_beta intro!: map_idI)
  have m1: "mapE row_from_json (map (\<lambda>x. canon (row_to_json (snd x))) xs) = Inr (map norm_row (map snd xs))" for xs
    by (induction xs) (simp_all add: row_roundtrip)
  have m2: "mapE head_from_json (map (\<lambda>x. canon (head_to_json (snd x))) xs) = Inr (map snd xs)" for xs
    by (induction xs) (simp_all add: head_roundtrip)
  show ?thesis
    using rec heads m1 [of "st_records st"]
    by (simp add: state_from_json_def canon_JObj dget_or_def map_of_canon_dict m2 case_prod_beta comp_def rows_of_def)
qed

theorem read_write_json_state:
  "keys_ok st \<Longrightarrow> read_json_state (write_json_state st eng) = Inr (norm_state st)"
  using state_roundtrip by (simp add: read_json_state_def write_json_state_def)

end
