(* ===== verification/Verify_Facts.thy ===== *)
theory Verify_Facts
  imports Store_Invariant
begin

text \<open>
  What the verifier establishes: a linked group passes exactly when its rows, in the order of their
  sequence numbers, form a chain from 1 with correct links, metadata and head
  (\<open>validate_linked_chain_group_iff\<close>), two chains that pass with the same head hash are the same chain
  unless the hash function collides on them (\<open>same_head_same_chain\<close>), and a store with the invariant
  passes under every filter (\<open>store_ok_verifies\<close>).
\<close>

section \<open>The loops of the verifier\<close>

fun view_chain :: "(string \<Rightarrow> string) \<Rightarrow> string option \<Rightarrow> int \<Rightarrow> chain_row_view list \<Rightarrow> bool" where
  "view_chain H prev n [] = True"
| "view_chain H prev n (r # rs) =
     (cv_chain_prev r = prev \<and> cv_chain_sequence r = n \<and>
      cv_chain_hash r = chain_record_hash H (cv_chain_prev r) (cv_collection r) (cv_payload r) \<and>
      view_chain H (Some (cv_chain_hash r)) (n + 1) rs)"

lemma check_gaps_iff:
  "check_gaps scope ns = Inr u \<longleftrightarrow> (\<forall>i. Suc i < length ns \<longrightarrow> ns ! Suc i = ns ! i + 1)"
proof (induction scope ns rule: check_gaps.induct)
  case (1 scope m n ns)
  have "(\<forall>i. Suc i < length (m # n # ns) \<longrightarrow> (m # n # ns) ! Suc i = (m # n # ns) ! i + 1) \<longleftrightarrow>
      n = m + 1 \<and> (\<forall>i. Suc i < length (n # ns) \<longrightarrow> (n # ns) ! Suc i = (n # ns) ! i + 1)"
    by (auto simp: nth_Cons split: nat.splits)
  with 1 show ?case by (auto simp: bindE_Inr_iff)
qed auto

lemma check_gaps_Cons:
  "check_gaps scope (m # ns) = Inr u \<longleftrightarrow> ns = [] \<or> hd ns = m + 1 \<and> check_gaps scope ns = Inr ()"
  by (cases ns) (auto simp: bindE_Inr_iff)

lemma check_chain_iff:
  "(rs = [] \<or> cv_chain_sequence (hd rs) = n) \<and> check_gaps scope (map cv_chain_sequence rs) = Inr ()
     \<and> check_links H scope prev rs = Inr () \<longleftrightarrow> view_chain H prev n rs"
proof (induction rs arbitrary: prev n)
  case (Cons r rs)
  have "hd (map cv_chain_sequence rs) = cv_chain_sequence (hd rs)" if "rs \<noteq> []"
    using that by (simp add: hd_map)
  then show ?case
    using Cons.IH [of "cv_chain_sequence r + 1" "Some (cv_chain_hash r)"]
    by (auto simp: bindE_Inr_iff check_gaps_Cons)
qed simp

definition head_matches :: "chain_head_view \<Rightarrow> chain_row_view list \<Rightarrow> bool" where
  "head_matches h rs \<longleftrightarrow> hv_last_sequence h = int (length rs) \<and>
     hv_last_chain_hash h = Some (cv_chain_hash (last rs))"

lemma view_chain_last:
  "view_chain H prev n rs \<Longrightarrow> rs \<noteq> [] \<Longrightarrow> cv_chain_sequence (last rs) = n + int (length rs) - 1"
  by (induction H prev n rs rule: view_chain.induct) auto

theorem validate_linked_chain_group_iff:
  "validate_linked_chain_group H t p c rows head = Inr n \<longleftrightarrow>
     n = length rows \<and> (rows = [] \<or>
       (\<exists>h. head = Some h \<and> head_matches h (sort_key cv_chain_sequence rows)) \<and>
       view_chain H None 1 (sort_key cv_chain_sequence rows) \<and>
       (\<forall>r \<in> set rows. validate_chain_metadata H r = Inr ()))"
proof (cases "rows = []")
  case True
  then show ?thesis by (auto simp: validate_linked_chain_group_def Let_def bindE_Inr_iff)
next
  case False
  define rs where "rs = sort_key cv_chain_sequence rows"
  define scope where "scope = chain_scope_label t p c"
  have len: "length rs = length rows" and st: "set rs = set rows" by (simp_all add: rs_def)
  with False have ne: "rs \<noteq> []" by auto
  have "validate_linked_chain_group H t p c rows head = Inr n \<longleftrightarrow>
      n = length rs \<and> (\<forall>r \<in> set rs. validate_chain_metadata H r = Inr ()) \<and>
      cv_chain_sequence (hd rs) = 1 \<and> check_gaps scope (map cv_chain_sequence rs) = Inr () \<and>
      check_links H scope None rs = Inr () \<and>
      (\<exists>h. head = Some h \<and> hv_last_sequence h = cv_chain_sequence (last rs) \<and>
         hv_last_chain_hash h = Some (cv_chain_hash (last rs)))"
    using False ne
    by (cases head) (auto simp: validate_linked_chain_group_def Let_def bindE_unit_iff allE_Inr_iff hd_map
        simp flip: rs_def scope_def)
  also have "\<dots> \<longleftrightarrow> n = length rs \<and> (\<forall>r \<in> set rs. validate_chain_metadata H r = Inr ()) \<and>
      view_chain H None 1 rs \<and> (\<exists>h. head = Some h \<and> head_matches h rs)"
    using check_chain_iff [of rs 1 scope H None] ne view_chain_last [of H None 1 rs]
    by (auto simp: head_matches_def)
  finally show ?thesis using False len st by (auto simp: rs_def [symmetric])
qed

section \<open>Two chains with the same head\<close>

definition record_of :: "chain_row_view \<Rightarrow> json" where
  "record_of r = canon (JObj (dremove (cv_payload r) ''_chain''))"

definition link_texts :: "chain_row_view list \<Rightarrow> string set" where
  "link_texts rs = (\<lambda>r. dumps (link_value (cv_chain_prev r) (cv_collection r) (cv_payload r))) ` set rs"

lemma view_chain_snoc:
  "view_chain H prev n (rs @ [r]) \<longleftrightarrow> view_chain H prev n rs \<and>
     cv_chain_prev r = (if rs = [] then prev else Some (cv_chain_hash (last rs))) \<and>
     cv_chain_sequence r = n + int (length rs) \<and>
     cv_chain_hash r = chain_record_hash H (cv_chain_prev r) (cv_collection r) (cv_payload r)"
  by (induction H prev n rs rule: view_chain.induct) auto

theorem same_head_same_chain:
  assumes "view_chain H None 1 rs" "view_chain H None 1 rs'" "inj_on H (link_texts rs \<union> link_texts rs')"
    and "rs \<noteq> []" "rs' \<noteq> []" "cv_chain_hash (last rs) = cv_chain_hash (last rs')"
  shows "map record_of rs = map record_of rs' \<and> map cv_chain_hash rs = map cv_chain_hash rs'"
  using assms
proof (induction rs arbitrary: rs' rule: rev_induct)
  case (snoc r rs)
  then obtain ss s where rs': "rs' = ss @ [s]" by (metis rev_exhaust)
  let ?link = "\<lambda>r. link_value (cv_chain_prev r) (cv_collection r) (cv_payload r)"
  have "H (dumps (?link r)) = H (dumps (?link s))"
    using snoc.prems by (simp add: rs' view_chain_snoc chain_record_hash_link)
  then have "dumps (?link r) = dumps (?link s)"
    by (rule inj_onD [OF snoc.prems(3)]) (auto simp: link_texts_def rs')
  from link_value_inj [OF this] have prev: "cv_chain_prev r = cv_chain_prev s"
    and rec: "record_of r = record_of s" by (auto simp: record_of_def canon_JObj)
  show ?case
  proof (cases "rs = []")
    case True
    with prev snoc.prems have "ss = []" by (auto simp: rs' view_chain_snoc split: if_splits)
    with True rec snoc.prems show ?thesis by (simp add: rs')
  next
    case False
    with prev snoc.prems have "ss \<noteq> []" "cv_chain_hash (last rs) = cv_chain_hash (last ss)"
      by (auto simp: rs' view_chain_snoc split: if_splits)
    moreover have "inj_on H (link_texts rs \<union> link_texts ss)"
      by (rule inj_on_subset [OF snoc.prems(3)]) (auto simp: link_texts_def rs')
    ultimately show ?thesis using snoc.IH [of ss] snoc.prems False rec by (simp add: rs' view_chain_snoc)
  qed
qed simp

section \<open>A store with the invariant passes\<close>

lemma canon_leaf [simp]:
  "canon v = JNull \<longleftrightarrow> v = JNull" "canon v = JInt n \<longleftrightarrow> v = JInt n"
  "canon v = JStr s \<longleftrightarrow> v = JStr s" "canon v = JBool b \<longleftrightarrow> v = JBool b" "canon v = ostr x \<longleftrightarrow> v = ostr x"
  by (cases v; simp add: ostr_def split: option.split)+

lemma row_ok_chain_entry:
  assumes "row_ok H r"
  obtains chain where "dget (sr_payload r) ''_chain'' = JObj chain"
    "dget_or (sr_payload r) ''_chain'' (JObj []) = JObj chain"
    "dget chain ''sequence'' = JInt (sr_chain_sequence r)"
    "dget chain ''previous_hash'' = ostr (sr_chain_prev r)"
    "dget chain ''hash'' = JStr (sr_chain_hash r)" "dget chain ''linked'' = JBool (sr_chain_linked r)"
proof -
  let ?cv = "chain_value (sr_chain_prev r) (sr_chain_hash r) (sr_chain_sequence r) (sr_chain_linked r)"
  have eq: "canon (dget (sr_payload r) ''_chain'') = canon ?cv" and wf: "dwf (sr_payload r)"
    using assms by (auto simp: row_ok_def)
  then obtain chain where ch: "dget (sr_payload r) ''_chain'' = JObj chain"
    by (cases "dget (sr_payload r) ''_chain''") (auto simp: canon_chain_value)
  then have some: "map_of (sr_payload r) ''_chain'' = Some (JObj chain)"
    by (auto simp: dget_def split: option.splits)
  with wf dwf_map_of have dist: "ddistinct chain" by (fastforce simp: dwf_def)
  have "canon_dict chain = canon_dict [(''previous_hash'', ostr (sr_chain_prev r)),
      (''hash'', JStr (sr_chain_hash r)), (''alg'', JStr ''sha256''),
      (''sequence'', JInt (sr_chain_sequence r)), (''linked'', JBool (sr_chain_linked r))]" (is "_ = canon_dict ?d")
    using eq ch by (simp add: chain_value_def canon_JObj)
  then have "canon (dget chain k) = canon (dget ?d k)" for k
    using dist dget_canon_dict [of chain k] dget_canon_dict [of ?d k] by simp
  from this [of "''sequence''"] this [of "''previous_hash''"] this [of "''hash''"] this [of "''linked''"]
  show ?thesis using that [OF ch] some by (simp add: dget_def dget_or_def)
qed

lemma row_ok_metadata: "row_ok H r \<Longrightarrow> validate_chain_metadata H (row_view r) = Inr ()"
  by (rule row_ok_chain_entry, assumption)
    (auto simp: validate_chain_metadata_def row_view_def Let_def bindE_Inr_iff row_ok_def)

lemma row_ok_standalone:
  "row_ok H r \<Longrightarrow> \<not> sr_chain_linked r \<Longrightarrow> validate_standalone_row H (row_view r) = Inr ()"
  by (rule row_ok_chain_entry, assumption)
    (auto simp: validate_standalone_row_def row_view_def Let_def bindE_Inr_iff row_ok_def
      standalone_row_hash_def ostr_def)

lemma view_chain_row_view:
  "chain_from prev n rs \<Longrightarrow> \<forall>r \<in> set rs. row_ok H r \<Longrightarrow> view_chain H prev n (map row_view rs)"
  by (induction prev n rs rule: chain_from.induct) (auto simp: row_view_def row_ok_def)

lemma sort_row_view:
  "chain_from None 1 rs \<Longrightarrow> sort_key cv_chain_sequence (map row_view rs) = map row_view rs"
  using chain_from_sorted [of None 1 rs] by (intro sort_key_sorted_idem) (simp add: comp_def row_view_def)

lemma scope_rows_group:
  assumes ok: "store_ok H st" and n: "nulfree t" "nulfree p" "is_chain_linked_collection c"
  shows "validate_linked_chain_group H t p c (map row_view (scope_rows st t p c))
    (map_option head_view (map_of (st_heads st) (head_key t p c))) = Inr (length (scope_rows st t p c))"
proof -
  let ?rs = "scope_rows st t p c"
  have "chains_ok st" and rows: "\<forall>r \<in> set ?rs. row_ok H r"
    using ok by (auto simp: store_ok_def scope_rows_def)
  then have ch: "chain_from None 1 ?rs" and hd: "head_agrees (map_of (st_heads st) (head_key t p c)) ?rs"
    using chains_okD n by blast+
  have "head_matches (head_view h) (map row_view ?rs)"
    if "?rs \<noteq> []" "map_of (st_heads st) (head_key t p c) = Some h" for h
    using hd that by (auto simp: head_matches_def head_agrees_def head_view_def last_hash_def last_map row_view_def)
  moreover have "\<exists>h. map_of (st_heads st) (head_key t p c) = Some h" if "?rs \<noteq> []"
    using hd that by (auto simp: head_agrees_def split: option.splits)
  ultimately have "?rs = [] \<or> (\<exists>h. map_option head_view (map_of (st_heads st) (head_key t p c)) = Some h
      \<and> head_matches h (map row_view ?rs))" by fastforce
  with rows row_ok_metadata view_chain_row_view [OF ch rows] sort_row_view [OF ch] show ?thesis
    unfolding validate_linked_chain_group_iff by auto
qed

text \<open>The walk over the groups: each linked scope contributes its rows, and is marked as seen.\<close>

lemma check_groups_ok:
  assumes "store_ok H st"
    and "\<And>t p c rows. ((t, p, c), rows) \<in> set gs \<Longrightarrow> nulfree t \<and> nulfree p \<and> rows = scope_rows st t p c"
  shows "\<exists>hs. check_groups H st gs n heads seen =
    Inr (n + sum_list (map (\<lambda>(k, rows). if snd (snd k) \<in> set CHAIN_LINKED_COLLECTIONS then length rows else 0) gs),
         hs, seen @ filter (\<lambda>k. snd (snd k) \<in> set CHAIN_LINKED_COLLECTIONS) (map fst gs))"
  using assms(2)
proof (induction gs arbitrary: n heads seen)
  case (Cons g gs)
  obtain t p c rows where g: "g = ((t, p, c), rows)" by (cases g) auto
  from Cons.prems [of t p c rows] g have s: "nulfree t" "nulfree p" "rows = scope_rows st t p c" by auto
  have IH: "\<exists>hs. check_groups H st gs n heads seen =
    Inr (n + sum_list (map (\<lambda>(k, rows). if snd (snd k) \<in> set CHAIN_LINKED_COLLECTIONS then length rows else 0) gs),
         hs, seen @ filter (\<lambda>k. snd (snd k) \<in> set CHAIN_LINKED_COLLECTIONS) (map fst gs))" for n heads seen
    by (rule Cons.IH) (use Cons.prems in auto)
  show ?case
  proof (cases "c \<in> set CHAIN_LINKED_COLLECTIONS")
    case True
    with s scope_rows_group [OF assms(1) s(1,2)]
    have "check_groups H st (g # gs) n heads seen = check_groups H st gs (n + length rows)
        (dset heads (chain_scope_label t p c) (case map_option head_view (map_of (st_heads st) (head_key t p c))
           of None \<Rightarrow> None | Some h \<Rightarrow> hv_last_chain_hash h)) (seen @ [(t, p, c)])"
      by (simp add: g is_chain_linked_collection_def)
    moreover obtain hs where "check_groups H st gs (n + length rows)
        (dset heads (chain_scope_label t p c) (case map_option head_view (map_of (st_heads st) (head_key t p c))
           of None \<Rightarrow> None | Some h \<Rightarrow> hv_last_chain_hash h)) (seen @ [(t, p, c)]) =
      Inr (n + length rows + sum_list (map (\<lambda>(k, rows). if snd (snd k) \<in> set CHAIN_LINKED_COLLECTIONS
          then length rows else 0) gs),
         hs, (seen @ [(t, p, c)]) @ filter (\<lambda>k. snd (snd k) \<in> set CHAIN_LINKED_COLLECTIONS) (map fst gs))"
      using IH by blast
    ultimately show ?thesis using True by (simp only: g) (simp add: add.assoc)
  next
    case False
    with IH [of n heads seen] show ?thesis by (simp add: g)
  qed
qed simp

definition in_filter :: "string option \<Rightarrow> string option \<Rightarrow> string option \<Rightarrow> scope_key \<Rightarrow> bool" where
  "in_filter tenant_id project_id collection k \<longleftrightarrow>
     snd (snd k) \<in> set (verify_collections collection) \<and> scope_matches (fst k) (fst (snd k)) tenant_id project_id"

definition filtered_groups ::
  "string option \<Rightarrow> string option \<Rightarrow> string option \<Rightarrow> store_state \<Rightarrow> (scope_key \<times> stored_row list) list" where
  "filtered_groups tenant_id project_id collection st =
     group_rows (filter (\<lambda>row. sr_collection row \<in> set (verify_collections collection)
       \<and> scope_matches (sr_tenant_id row) (sr_project_id row) tenant_id project_id) (rows_of st))"

lemma filtered_groups_keys:
  "k \<in> set (map fst (filtered_groups t p c st)) \<longleftrightarrow>
     in_filter t p c k \<and> (\<exists>r \<in> set (rows_of st). row_scope r = k)"
  by (auto simp: filtered_groups_def group_rows_def in_filter_def row_scope_def image_iff)

lemma filtered_groups_rows:
  assumes "((t, p, c), rows) \<in> set (filtered_groups ft fp fc st)"
  shows "rows = scope_rows st t p c"
proof -
  have "in_filter ft fp fc (t, p, c)"
    using filtered_groups_keys [of "(t, p, c)" ft fp fc st] assms by force
  with assms show ?thesis
    by (auto simp: filtered_groups_def group_rows_def scope_rows_def in_filter_def in_scope_def row_scope_def
        intro!: filter_cong)
qed

lemma check_orphans_ok:
  assumes ok: "store_ok H st"
    and seen: "\<And>k. k \<in> set seen \<longleftrightarrow> snd (snd k) \<in> set CHAIN_LINKED_COLLECTIONS \<and>
      in_filter t p c k \<and> (\<exists>r \<in> set (rows_of st). row_scope r = k)"
  shows "check_orphans t p c seen (map snd (st_heads st)) = Inr ()"
  unfolding check_orphans_def allE_Inr_iff
proof
  fix h assume "h \<in> set (map snd (st_heads st))"
  then obtain k where kh: "(k, h) \<in> set (st_heads st)" by auto
  let ?sc = "scope_rows st (ch_tenant_id h) (ch_project_id h) (ch_collection h)"
  have keys: "keys_ok st" "chains_ok st" using ok by (auto simp: store_ok_def)
  with kh have hk: "k = chain_head_key h" "nulfree (ch_tenant_id h)" "nulfree (ch_project_id h)"
    "is_chain_linked_collection (ch_collection h)" "map_of (st_heads st) k = Some h"
    by (auto simp: keys_ok_def)
  with chains_okD [OF keys(2) hk(2-4)] have ag: "head_agrees (Some h) ?sc"
    by (simp add: chain_head_key_def)
  have "\<not> invalid_orphan_head (head_view h)" if "?sc = []"
    using ag that by (simp add: head_agrees_def invalid_orphan_head_def head_view_def last_hash_def)
  moreover have "head_scope h \<in> set seen" if "?sc \<noteq> []" "c = None \<or> c = Some (ch_collection h)"
    "scope_matches (ch_tenant_id h) (ch_project_id h) t p"
  proof -
    from that(1) obtain r where "r \<in> set (rows_of st)" "row_scope r = head_scope h"
      by (auto simp: scope_rows_def filter_empty_conv in_scope_def row_scope_def head_scope_def)
    moreover have "ch_collection h \<noteq> []"
      using hk(4) by (auto simp: is_chain_linked_collection_def CHAIN_LINKED_COLLECTIONS_def SCOPED_COLLECTIONS_def)
    ultimately show ?thesis
      using that hk(4) unfolding seen
      by (auto simp: in_filter_def verify_collections_def head_scope_def is_chain_linked_collection_def)
  qed
  ultimately show "(if ch_collection h \<notin> set CHAIN_LINKED_COLLECTIONS then Inr ()
       else if c \<noteq> None \<and> Some (ch_collection h) \<noteq> c then Inr ()
       else if \<not> scope_matches (ch_tenant_id h) (ch_project_id h) t p then Inr ()
       else if head_scope h \<in> set seen then Inr ()
       else raise_if (invalid_orphan_head (head_view h))
         (integrity ''orphan_chain_head''
            (chain_scope_label (ch_tenant_id h) (ch_project_id h) (ch_collection h)))) = Inr ()"
    by auto
qed

definition standalone_rows ::
  "string option \<Rightarrow> string option \<Rightarrow> string option \<Rightarrow> stored_row list \<Rightarrow> stored_row list" where
  "standalone_rows t p c rows = filter (\<lambda>r. \<not> (c \<noteq> None \<and> Some (sr_collection r) \<noteq> c) \<and>
     scope_matches (sr_tenant_id r) (sr_project_id r) t p \<and> \<not> sr_chain_linked r) rows"

lemma check_standalone_iff:
  "check_standalone H t p c rows n = Inr m \<longleftrightarrow>
     m = n + length (standalone_rows t p c rows) \<and>
     (\<forall>r \<in> set (standalone_rows t p c rows). validate_standalone_row H (row_view r) = Inr ())"
  by (induction H t p c rows n rule: check_standalone.induct)
    (auto simp: standalone_rows_def bindE_Inr_iff)

theorem store_ok_verifies:
  assumes ok: "store_ok H st"
  shows "\<exists>rep. verify_json_state H t p c st = Inr rep"
proof -
  let ?gs = "filtered_groups t p c st"
  have nul: "nulfree t' \<and> nulfree p'" if "((t', p', c'), rows) \<in> set ?gs" for t' p' c' rows
  proof -
    have "(t', p', c') \<in> set (map fst ?gs)" using that by force
    then obtain r where "r \<in> set (rows_of st)" "row_scope r = (t', p', c')"
      unfolding filtered_groups_keys by blast
    with ok show ?thesis by (auto simp: store_ok_def row_ok_def row_scope_def)
  qed
  obtain hs n where gs: "check_groups H st ?gs 0 [] [] =
      Inr (n, hs, filter (\<lambda>k. snd (snd k) \<in> set CHAIN_LINKED_COLLECTIONS) (map fst ?gs))"
    using check_groups_ok [OF ok, of ?gs 0 "[]" "[]"] nul filtered_groups_rows by fastforce
  have orphans: "check_orphans t p c (filter (\<lambda>k. snd (snd k) \<in> set CHAIN_LINKED_COLLECTIONS) (map fst ?gs))
      (map snd (st_heads st)) = Inr ()"
    by (rule check_orphans_ok [OF ok]) (use filtered_groups_keys in auto)
  have "\<exists>m. check_standalone H t p c (rows_of st) 0 = Inr m"
    using ok row_ok_standalone by (auto simp: check_standalone_iff standalone_rows_def store_ok_def)
  with gs orphans show ?thesis
    by (auto simp: verify_json_state_def Let_def filtered_groups_def)
qed

section \<open>What a verified store satisfies\<close>

lemma check_groups_Inr:
  assumes "check_groups H st gs n hs seen = Inr x" "((t, p, c), rows) \<in> set gs" "is_chain_linked_collection c"
  shows "\<exists>m. validate_linked_chain_group H t p c (map row_view rows)
    (map_option head_view (map_of (st_heads st) (head_key t p c))) = Inr m"
  using assms
  by (induction H st gs n hs seen rule: check_groups.induct)
    (auto simp: Let_def bindE_Inr_iff is_chain_linked_collection_def split: if_splits)

lemma verify_sound:
  assumes ver: "verify_json_state H ft fp fc st = Inr rep"
    and k: "in_filter ft fp fc (t, p, c)" "is_chain_linked_collection c"
  shows "\<exists>m. validate_linked_chain_group H t p c (map row_view (scope_rows st t p c))
    (map_option head_view (map_of (st_heads st) (head_key t p c))) = Inr m"
proof (cases "scope_rows st t p c = []")
  case True
  then show ?thesis by (simp add: validate_linked_chain_group_iff)
next
  case False
  then obtain r where "r \<in> set (rows_of st)" "row_scope r = (t, p, c)"
    by (auto simp: scope_rows_def filter_empty_conv in_scope_def row_scope_def)
  with k filtered_groups_keys have "(t, p, c) \<in> set (map fst (filtered_groups ft fp fc st))" by blast
  then obtain rows where g: "((t, p, c), rows) \<in> set (filtered_groups ft fp fc st)" by auto
  from ver obtain x where "check_groups H st (filtered_groups ft fp fc st) 0 [] [] = Inr x"
    by (auto simp: verify_json_state_def bindE_Inr_iff filtered_groups_def Let_def)
  from check_groups_Inr [OF this g k(2)] filtered_groups_rows [OF g] show ?thesis by simp
qed

lemma check_groups_seen:
  "check_groups H st gs n hs seen = Inr (m, hs', seen') \<Longrightarrow> set seen' \<subseteq> set seen \<union> set (map fst gs)"
proof (induction H st gs n hs seen rule: check_groups.induct)
  case (2 H st t p c rows gs n hs seen)
  show ?case
  proof (cases "c \<in> set CHAIN_LINKED_COLLECTIONS")
    case True
    with 2(3) obtain k where k: "validate_linked_chain_group H t p c (map row_view rows)
        (map_option head_view (map_of (st_heads st) (head_key t p c))) = Inr k"
      and g: "check_groups H st gs (n + k) (dset hs (chain_scope_label t p c)
        (case map_option head_view (map_of (st_heads st) (head_key t p c)) of None \<Rightarrow> None
         | Some h \<Rightarrow> hv_last_chain_hash h)) (seen @ [(t, p, c)]) = Inr (m, hs', seen')"
      by (auto simp: Let_def bindE_Inr_iff)
    from 2(2) [OF _ refl k g] True show ?thesis by auto
  next
    case False
    with 2(1) [OF False] 2(3) show ?thesis by auto
  qed
qed simp

text \<open>A head that counts rows, in a scope that has none, is an orphan.\<close>

lemma verify_no_orphan:
  assumes ver: "verify_json_state H None None None st = Inr rep"
    and h: "h \<in> set (map snd (st_heads st))" "head_scope h = (t, p, c)" "is_chain_linked_collection c"
    and empty: "scope_rows st t p c = []"
  shows "ch_last_sequence h = 0 \<and> ch_last_chain_hash h = None"
proof -
  from ver obtain n hs seen where g: "check_groups H st (filtered_groups None None None st) 0 [] [] = Inr (n, hs, seen)"
    and o: "check_orphans None None None seen (map snd (st_heads st)) = Inr ()"
    by (auto simp: verify_json_state_def bindE_Inr_iff bindE_unit_iff filtered_groups_def Let_def)
  have "(t, p, c) \<notin> set seen"
  proof
    assume "(t, p, c) \<in> set seen"
    with check_groups_seen [OF g] have "(t, p, c) \<in> set (map fst (filtered_groups None None None st))" by auto
    with empty show False
      unfolding filtered_groups_keys by (auto simp: scope_rows_def filter_empty_conv in_scope_def row_scope_def)
  qed
  with o h have "\<not> invalid_orphan_head (head_view h)"
    by (auto simp: check_orphans_def allE_Inr_iff head_scope_def is_chain_linked_collection_def scope_matches_def
        split: if_splits)
  then show ?thesis by (auto simp: invalid_orphan_head_def head_view_def)
qed

definition chain_records :: "store_state \<Rightarrow> string \<Rightarrow> string \<Rightarrow> string \<Rightarrow> json list" where
  "chain_records st t p c = map record_of (sort_key cv_chain_sequence (map row_view (scope_rows st t p c)))"

lemma verified_head_fixes_chain:
  assumes ver: "verify_json_state H None None None st = Inr rep" "verify_json_state H None None None st' = Inr rep'"
    and c: "is_chain_linked_collection c"
    and head: "map_of (st_heads st) (head_key t p c) = Some h" "map_of (st_heads st') (head_key t p c) = Some h'"
      "head_scope h' = (t, p, c)" "ch_last_chain_hash h = ch_last_chain_hash h'"
    and rows: "scope_rows st t p c \<noteq> []"
    and inj: "inj_on H (link_texts (map row_view (scope_rows st t p c)) \<union> link_texts (map row_view (scope_rows st' t p c)))"
  shows "chain_records st t p c = chain_records st' t p c"
proof -
  let ?v = "\<lambda>st. sort_key cv_chain_sequence (map row_view (scope_rows st t p c))"
  have k: "in_filter None None None (t, p, c)"
    using c by (simp add: in_filter_def verify_collections_def scope_matches_def is_chain_linked_collection_def)
  from verify_sound [OF ver(1) k c] rows head have v: "view_chain H None 1 (?v st)"
    "hv_last_chain_hash (head_view h) = Some (cv_chain_hash (last (?v st)))"
    by (auto simp: validate_linked_chain_group_iff head_matches_def)
  have h': "h' \<in> set (map snd (st_heads st'))" using head(2) by (force dest: map_of_SomeD)
  have "scope_rows st' t p c \<noteq> []"
    using verify_no_orphan [OF ver(2) h' head(3) c] v(2) head(4) by (auto simp: head_view_def)
  moreover from this verify_sound [OF ver(2) k c] head have v': "view_chain H None 1 (?v st')"
    "hv_last_chain_hash (head_view h') = Some (cv_chain_hash (last (?v st')))"
    by (auto simp: validate_linked_chain_group_iff head_matches_def)
  moreover have "?v st \<noteq> []" "?v st' \<noteq> []"
    using rows calculation(1) by (metis length_0_conv length_map length_sort)+
  moreover have "inj_on H (link_texts (?v st) \<union> link_texts (?v st'))" using inj by (simp add: link_texts_def)
  ultimately show ?thesis
    using same_head_same_chain [of H "?v st" "?v st'"] v head(4) by (simp add: chain_records_def head_view_def)
qed

end
