(* ===== verification/Store_Engine.thy ===== *)
theory Store_Engine
  imports Verify_Facts
begin

text \<open>
  The engine of the JSON backend as a transition system: a step is a standalone append or
  compare-and-set, or a whole transaction whose callback makes any sequence of such calls. Every
  engine that steps reach from an empty file keeps the store's invariant on disk and in the open
  transaction (\<open>engine_reachable_ok\<close>); a callback that raises leaves the file as it was.
\<close>

section \<open>Invariant and frame\<close>

definition engine_ok :: "(string \<Rightarrow> string) \<Rightarrow> engine \<Rightarrow> bool" where
  "engine_ok H eng \<longleftrightarrow> (\<exists>st. read_json_state eng = Inr st \<and> store_ok H st) \<and>
     (case active_state eng of None \<Rightarrow> tx_depth eng = 0
      | Some st \<Rightarrow> tx_depth eng = 1 \<and> store_ok H st)"

text \<open>What no scoped operation changes; inside a transaction the file is among it.\<close>

definition tx_frame :: "engine \<Rightarrow> engine \<Rightarrow> bool" where
  "tx_frame eng eng' \<longleftrightarrow> eng_multiprocess eng' = eng_multiprocess eng \<and> tx_depth eng' = tx_depth eng \<and>
     eng_lock_context eng' = eng_lock_context eng \<and> eng_lock_refs eng' = eng_lock_refs eng \<and>
     (active_state eng' = None) = (active_state eng = None) \<and>
     (tx_depth eng \<noteq> 0 \<longrightarrow> eng_disk eng' = eng_disk eng)"

definition eng_idle :: "engine \<Rightarrow> bool" where
  "eng_idle eng \<longleftrightarrow> tx_depth eng = 0 \<and> active_state eng = None \<and> eng_lock_context eng = None \<and>
     eng_lock_refs eng = None"

lemma tx_frame_refl [simp]: "tx_frame eng eng"
  by (simp add: tx_frame_def)

lemma tx_frame_trans: "tx_frame a b \<Longrightarrow> tx_frame b c \<Longrightarrow> tx_frame a c"
  by (auto simp: tx_frame_def)

lemma write_json_state_simps [simp]:
  "tx_depth (write_json_state st eng) = tx_depth eng"
  "active_state (write_json_state st eng) = active_state eng"
  "eng_lock_context (write_json_state st eng) = eng_lock_context eng"
  "eng_lock_refs (write_json_state st eng) = eng_lock_refs eng"
  "eng_multiprocess (write_json_state st eng) = eng_multiprocess eng"
  by (simp_all add: write_json_state_def)

lemma read_json_state_simps [simp]:
  "read_json_state (eng\<lparr>active_state := a\<rparr>) = read_json_state eng"
  "read_json_state (eng\<lparr>tx_depth := d\<rparr>) = read_json_state eng"
  "read_json_state (eng\<lparr>eng_lock_context := lc\<rparr>) = read_json_state eng"
  "read_json_state (eng\<lparr>eng_lock_refs := lr\<rparr>) = read_json_state eng"
  by (simp_all add: read_json_state_def)

lemma on_state_frame: "on_state dirty f eng = (r, eng') \<Longrightarrow> tx_frame eng eng'"
  by (auto simp: on_state_def tx_frame_def in_transaction_def Let_def split: sum.splits prod.splits if_splits)

lemma store_ok_keys: "store_ok H st \<Longrightarrow> keys_ok st"
  by (simp add: store_ok_def)

lemma current_state_ok:
  "engine_ok H eng \<Longrightarrow> \<exists>st. current_state eng = Inr st \<and> store_ok H st"
  by (auto simp: engine_ok_def current_state_def split: option.splits)

lemma on_state_ok:
  assumes eng: "engine_ok H eng" and run: "on_state dirty f eng = (r, eng')"
    and step: "\<And>st r st'. store_ok H st \<Longrightarrow> f st = (r, st') \<Longrightarrow> store_ok H st'"
  shows "engine_ok H eng'"
proof -
  obtain st where st: "current_state eng = Inr st" "store_ok H st" using current_state_ok [OF eng] by blast
  obtain x st' where f: "f st = (x, st')" by (cases "f st")
  note ok = step [OF st(2) f]
  show ?thesis
    using run st f eng ok read_write_json_state [OF store_ok_keys [OF ok]] store_ok_norm [OF ok]
    by (cases x) (auto simp: on_state_def in_transaction_def engine_ok_def Let_def split: option.splits if_splits)
qed

lemma liftS_bind_run:
  "bindS (liftS m) f s = (r, s') \<Longrightarrow> (\<exists>e. m = Inl e \<and> r = Inl e \<and> s' = s) \<or> (\<exists>x. m = Inr x \<and> f x s = (r, s'))"
  by (cases m) (auto simp: bindS_def liftS_def)

text \<open>An operation either stops at one of its checks, changing nothing, or runs on the current state.\<close>

lemma engine_append_cases:
  assumes "engine_append_scoped H clk c record k t p eng = (r, eng')"
  obtains (stop) e where "r = Inl e" "eng' = eng"
  | (run) "validate_collection c False True False = Inr ()" "\<not> eng_multiprocess eng"
      "require_write_locks (eng_lock_context eng) c k (is_chain_linked_collection c) = Inr ()"
      "on_state snd (json_append_state H clk c record k t p (is_chain_linked_collection c)) eng = (r, eng')"
  using assms unfolding engine_append_scoped_def Let_def
  by (auto simp: ensure_multiprocess_json_allowed_def dest!: liftS_bind_run)

lemma engine_cas_cases:
  assumes "engine_compare_and_set_scoped H now c record k t p ev eh eng = (r, eng')"
  obtains (stop) e where "r = Inl e" "eng' = eng"
  | (run) "c \<in> set CAS_ALLOWED_COLLECTIONS" "\<not> eng_multiprocess eng" "ev \<noteq> None \<or> eh \<noteq> None"
      "require_write_locks (eng_lock_context eng) c k False = Inr ()"
      "on_state (\<lambda>_. True) (json_cas_state H now c record k t p ev eh) eng = (r, eng')"
  using assms unfolding engine_compare_and_set_scoped_def
  by (auto simp: ensure_multiprocess_json_allowed_def validate_collection_def Let_def dest!: liftS_bind_run)

lemma engine_append_frame: "engine_append_scoped H clk c record k t p eng = (r, eng') \<Longrightarrow> tx_frame eng eng'"
  by (erule engine_append_cases) (auto dest: on_state_frame)

lemma engine_cas_frame:
  "engine_compare_and_set_scoped H now c record k t p ev eh eng = (r, eng') \<Longrightarrow> tx_frame eng eng'"
  by (erule engine_cas_cases) (auto dest: on_state_frame)

lemma engine_append_ok:
  assumes ok: "engine_ok H eng" and n: "nulfree t" "nulfree p" and wf: "dwf record"
    and run: "engine_append_scoped H clk c record k t p eng = (r, eng')"
  shows "engine_ok H eng'"
  using run
proof (cases rule: engine_append_cases)
  case run
  from append_collection_nulfree [OF run(1)] have c: "nulfree c" .
  show ?thesis by (rule on_state_ok [OF ok run(4)]) (rule json_append_state_ok [OF _ n c wf])
qed (use ok in simp)

lemma engine_cas_ok:
  assumes ok: "engine_ok H eng" and n: "nulfree t" "nulfree p" and wf: "dwf record"
    and run: "engine_compare_and_set_scoped H now c record k t p ev eh eng = (r, eng')"
  shows "engine_ok H eng'"
  using run
proof (cases rule: engine_cas_cases)
  case run
  from cas_nulfree [OF run(1)] have c: "nulfree c" .
  show ?thesis by (rule on_state_ok [OF ok run(5)]) (rule json_cas_state_ok [OF _ n c wf])
qed (use ok in simp)

section \<open>Steps\<close>

inductive engine_call :: "(string \<Rightarrow> string) \<Rightarrow> engine \<Rightarrow> engine \<Rightarrow> bool" for H where
  append: "nulfree t \<Longrightarrow> nulfree p \<Longrightarrow> dwf rcd
    \<Longrightarrow> engine_append_scoped H clk c rcd k t p eng = (r, eng') \<Longrightarrow> engine_call H eng eng'"
| cas: "nulfree t \<Longrightarrow> nulfree p \<Longrightarrow> dwf rcd
    \<Longrightarrow> engine_compare_and_set_scoped H now c rcd k t p ev eh eng = (r, eng') \<Longrightarrow> engine_call H eng eng'"

text \<open>A callback changes the engine only by scoped operations, as many and in whatever order.\<close>

definition scoped_program :: "(string \<Rightarrow> string) \<Rightarrow> (engine, 'a) act \<Rightarrow> bool" where
  "scoped_program H fn \<longleftrightarrow> (\<forall>eng. (engine_call H)\<^sup>*\<^sup>* eng (snd (fn eng)))"

inductive engine_step :: "(string \<Rightarrow> string) \<Rightarrow> engine \<Rightarrow> engine \<Rightarrow> bool" for H where
  call: "engine_call H eng eng' \<Longrightarrow> engine_step H eng eng'"
| transaction: "scoped_program H fn \<Longrightarrow> run_scoped_transaction t p refs fn eng = ((r :: unit res), eng')
    \<Longrightarrow> engine_step H eng eng'"

inductive_cases engine_stepE: "engine_step H eng eng'"

lemma engine_call_ok: "engine_call H eng eng' \<Longrightarrow> engine_ok H eng \<Longrightarrow> engine_ok H eng'"
  by (induction rule: engine_call.induct) (auto intro: engine_append_ok engine_cas_ok)

lemma engine_call_frame: "engine_call H eng eng' \<Longrightarrow> tx_frame eng eng'"
  by (induction rule: engine_call.induct) (auto intro: engine_append_frame engine_cas_frame)

lemma engine_calls_ok: "(engine_call H)\<^sup>*\<^sup>* eng eng' \<Longrightarrow> engine_ok H eng \<Longrightarrow> engine_ok H eng'"
  by (induction rule: rtranclp_induct) (auto intro: engine_call_ok)

lemma engine_calls_frame: "(engine_call H)\<^sup>*\<^sup>* eng eng' \<Longrightarrow> tx_frame eng eng'"
  by (induction rule: rtranclp_induct) (auto intro: engine_call_frame tx_frame_trans)

definition enter_transaction :: "lock_ref list \<Rightarrow> store_state \<Rightarrow> engine \<Rightarrow> engine" where
  "enter_transaction refs st eng = eng\<lparr>tx_depth := 1, eng_lock_context := Some (build_lock_context refs),
     eng_lock_refs := Some (normalize_lock_refs refs), active_state := Some st\<rparr>"

definition leave_transaction :: "engine \<Rightarrow> engine" where
  "leave_transaction eng = eng\<lparr>tx_depth := 0, active_state := None, eng_lock_context := None, eng_lock_refs := None\<rparr>"

definition commit :: "'a res \<Rightarrow> engine \<Rightarrow> engine" where
  "commit r eng = (case r of Inl _ \<Rightarrow> eng
     | Inr _ \<Rightarrow> (case active_state eng of None \<Rightarrow> eng | Some st \<Rightarrow> write_json_state st eng))"

lemma run_scoped_transaction_unfold:
  "run_scoped_transaction t p refs fn eng =
     (case validate_lock_refs_scope refs t p of Inl e \<Rightarrow> (Inl e, eng) | Inr _ \<Rightarrow>
        if eng_multiprocess eng
        then (Inl (TransactionUnavailable ''JSON backend does not support multiprocess transactional mode''), eng)
        else if tx_depth eng \<noteq> 0
        then (Inl (TransactionUnavailable ''nested scoped transactions are not supported''), eng)
        else (case read_json_state eng of
            Inl e \<Rightarrow> (Inl e, eng\<lparr>tx_depth := 1, eng_lock_context := Some (build_lock_context refs),
                eng_lock_refs := Some (normalize_lock_refs refs)\<rparr>)
          | Inr st \<Rightarrow> (case fn (enter_transaction refs st eng) of (r, eng2) \<Rightarrow>
              (r, leave_transaction (commit r eng2)))))"
proof -
  have ctx: "build_lock_context (normalize_lock_refs refs) = build_lock_context refs"
    by (rule build_lock_context_cong) simp
  show ?thesis
    by (simp add: run_scoped_transaction_def run_scoped_transaction_engine_def Let_def ctx normalize_idem
        ensure_multiprocess_json_allowed_def raise_if_def enter_transaction_def leave_transaction_def commit_def
        split: sum.split)
qed

lemma run_scoped_transaction_cases:
  assumes "run_scoped_transaction t p refs fn eng = (r, eng')"
  obtains (stop) e where "r = Inl e" "eng' = eng"
  | (unreadable) e where "r = Inl e" "read_json_state eng = Inl e" "tx_depth eng = 0"
      "eng' = eng\<lparr>tx_depth := 1, eng_lock_context := Some (build_lock_context refs),
        eng_lock_refs := Some (normalize_lock_refs refs)\<rparr>"
  | (run) st eng2 where "validate_lock_refs_scope refs t p = Inr ()" "\<not> eng_multiprocess eng" "tx_depth eng = 0"
      "read_json_state eng = Inr st" "fn (enter_transaction refs st eng) = (r, eng2)"
      "eng' = leave_transaction (commit r eng2)"
proof (cases "(\<exists>e. validate_lock_refs_scope refs t p = Inl e) \<or> eng_multiprocess eng \<or> tx_depth eng \<noteq> 0")
  case True
  then have "\<exists>e. r = Inl e \<and> eng' = eng"
    using assms by (auto simp: run_scoped_transaction_unfold split: sum.splits if_splits)
  with stop show ?thesis by blast
next
  case False
  then have v: "validate_lock_refs_scope refs t p = Inr ()" by (cases "validate_lock_refs_scope refs t p") auto
  show ?thesis
  proof (cases "read_json_state eng")
    case (Inl e)
    with assms False v have "r = Inl e" "eng' = eng\<lparr>tx_depth := 1,
        eng_lock_context := Some (build_lock_context refs), eng_lock_refs := Some (normalize_lock_refs refs)\<rparr>"
      by (simp_all add: run_scoped_transaction_unfold)
    with unreadable Inl False show ?thesis by blast
  next
    case (Inr st)
    obtain x eng2 where fn: "fn (enter_transaction refs st eng) = (x, eng2)" by fastforce
    with assms False v Inr have "x = r" "eng' = leave_transaction (commit r eng2)"
      by (auto simp: run_scoped_transaction_unfold)
    with run v False Inr fn show ?thesis by blast
  qed
qed

lemma engine_ok_enter:
  "engine_ok H eng \<Longrightarrow> store_ok H st \<Longrightarrow> engine_ok H (enter_transaction refs st eng)"
  by (auto simp: engine_ok_def enter_transaction_def)

lemma engine_ok_leave: "engine_ok H eng \<Longrightarrow> engine_ok H (leave_transaction eng)"
  by (auto simp: engine_ok_def leave_transaction_def)

lemma engine_ok_commit:
  assumes "engine_ok H eng" "active_state eng = Some st"
  shows "engine_ok H (write_json_state st eng)"
proof -
  from assms have "store_ok H st" by (auto simp: engine_ok_def)
  with assms read_write_json_state [OF store_ok_keys] store_ok_norm show ?thesis by (auto simp: engine_ok_def)
qed

lemma transaction_ok:
  assumes ok: "engine_ok H eng" and fn: "scoped_program H fn"
    and run: "run_scoped_transaction t p refs fn eng = (r, eng')"
  shows "engine_ok H eng'"
  using run
proof (cases rule: run_scoped_transaction_cases)
  case (unreadable e)
  with ok show ?thesis by (auto simp: engine_ok_def)
next
  case (run st eng2)
  with ok have "store_ok H st" by (auto simp: engine_ok_def)
  with ok have "engine_ok H (enter_transaction refs st eng)" by (rule engine_ok_enter)
  moreover have "(engine_call H)\<^sup>*\<^sup>* (enter_transaction refs st eng) eng2"
    using fn run(5) unfolding scoped_program_def by (metis snd_conv)
  ultimately have "engine_ok H eng2" using engine_calls_ok by blast
  with run(6) show ?thesis by (auto simp: commit_def intro: engine_ok_leave engine_ok_commit split: sum.split option.split)
qed (use ok in simp)

lemma engine_step_ok: "engine_step H eng eng' \<Longrightarrow> engine_ok H eng \<Longrightarrow> engine_ok H eng'"
  by (erule engine_stepE) (auto intro: engine_call_ok transaction_ok)

lemma engine_ok_fresh: "engine_ok H fresh_engine"
  by (simp add: engine_ok_def fresh_engine_def read_json_state_def store_ok_empty)

lemma engine_reachable_ok: "(engine_step H)\<^sup>*\<^sup>* fresh_engine eng \<Longrightarrow> engine_ok H eng"
  by (induction rule: rtranclp_induct) (auto intro: engine_ok_fresh engine_step_ok)

lemma engine_ok_verifies: "engine_ok H eng \<Longrightarrow> \<exists>rep. engine_verify_scoped_chain H t p c eng = Inr rep"
  using store_ok_verifies by (fastforce simp: engine_ok_def engine_verify_scoped_chain_def)

lemma transaction_rollback:
  assumes "scoped_program H fn" "eng_idle eng" "read_json_state eng = Inr st"
    "run_scoped_transaction t p refs fn eng = (Inl e, eng')"
  shows "eng' = eng"
  using assms(4)
proof (cases rule: run_scoped_transaction_cases)
  case (run st' eng2)
  have "(engine_call H)\<^sup>*\<^sup>* (enter_transaction refs st' eng) eng2"
    using assms(1) run(5) unfolding scoped_program_def by (metis snd_conv)
  from engine_calls_frame [OF this] run(6) assms(2) show ?thesis
    by (cases eng; cases eng2) (auto simp: tx_frame_def eng_idle_def enter_transaction_def leave_transaction_def commit_def)
qed (use assms in simp_all)

end
