(* ===== verification/Store_Ops.thy ===== *)
theory Store_Ops
  imports Store_Engine "HOL-Library.Sublist"
begin

text \<open>
  What one operation does to the records: the lookups and scopes it leaves alone, the row it adds
  or replaces, and the order \<open>extends\<close> in which every operation moves the store up: a row
  never disappears, a chain only grows at its end, and a version number fixes the row's content.
\<close>

section \<open>Lookups\<close>

lemma map_of_norm: "map_of (st_records (norm_state st)) k = map_option norm_row (map_of (st_records st) k)"
  by (induction "st_records st" arbitrary: st) (auto simp: norm_state_def map_of_map)

lemma append_state_cases:
  assumes "json_append_state H clk c record k t p linked st = (r, st')"
  obtains (existing) e where "map_of (st_records st) (scoped_key t p c k) = Some e"
      "sr_payload_hash e = canonical_scoped_payload_hash H (with_scope record t p)"
      "r = Inr (sr_payload e, False)" "st' = st"
  | (duplicate) e where "map_of (st_records st) (scoped_key t p c k) = Some e"
      "sr_payload_hash e \<noteq> canonical_scoped_payload_hash H (with_scope record t p)"
      "r = Inl (DuplicateCanonicalKey (''Duplicate canonical key '' @ k @ '' in '' @ c @ '' with different payload''))"
      "st' = st"
  | (failed) e where "map_of (st_records st) (scoped_key t p c k) = None" "r = Inl e"
      "extract_record_id c record None = Inl e" "st_records st' = st_records st"
  | (created) row prev n where "map_of (st_records st) (scoped_key t p c k) = None"
      "build_row H (clk 1) c record k t p prev n 1 None None (Some linked) = Inr row"
      "r = Inr (sr_payload row, True)" "st_records st' = dset (st_records st) (scoped_key t p c k) row"
proof (cases "map_of (st_records st) (scoped_key t p c k)")
  case (Some e)
  with assms existing duplicate show ?thesis by (auto simp: json_append_state_unfold split: if_splits)
next
  case None
  define prev where "prev = (if linked then ch_last_chain_hash (found_head (clk 0) t p c st) else None)"
  define n where "n = (if linked then ch_last_sequence (found_head (clk 0) t p c st) + 1
    else next_mutable_sequence st t p c)"
  show ?thesis
  proof (cases "build_row H (clk 1) c record k t p prev n 1 None None (Some linked)")
    case (Inl e)
    with None assms have "r = Inl e" "st_records st' = st_records st"
      by (auto simp: json_append_state_unfold prev_def n_def split: if_splits)
    moreover have "extract_record_id c record None = Inl e"
      using Inl by (auto simp: build_row_def Let_def bindE_Inl_iff)
    ultimately show ?thesis using failed None by blast
  next
    case (Inr row)
    with None assms have "r = Inr (sr_payload row, True)" "st_records st' = dset (st_records st) (scoped_key t p c k) row"
      by (auto simp: json_append_state_unfold prev_def n_def split: if_splits)
    with created None Inr show ?thesis by blast
  qed
qed

lemma append_state_other:
  assumes "json_append_state H clk c record k t p linked st = (r, st')" "k' \<noteq> scoped_key t p c k"
  shows "map_of (st_records st') k' = map_of (st_records st) k'"
  using assms(1) by (rule append_state_cases) (use assms(2) in auto)

lemma append_state_found:
  assumes "json_append_state H clk c record k t p linked st = (Inr (payload, created), st')"
  shows "\<exists>row. map_of (st_records st') (scoped_key t p c k) = Some row \<and> sr_payload row = payload \<and>
    sr_payload_hash row = canonical_scoped_payload_hash H (with_scope record t p)"
  using assms by (rule append_state_cases) (auto dest: build_row_Inr)

lemma append_state_scope:
  assumes "json_append_state H clk c record k t p linked st = (r, st')" "(t', p', c') \<noteq> (t, p, c)"
  shows "scope_rows st' t' p' c' = scope_rows st t' p' c'"
  using assms(1)
proof (rule append_state_cases)
  fix row prev n
  assume "map_of (st_records st) (scoped_key t p c k) = None"
    "build_row H (clk 1) c record k t p prev n 1 None None (Some linked) = Inr row"
    "st_records st' = dset (st_records st) (scoped_key t p c k) row"
  with assms(2) build_row_Inr show ?thesis
    by (subst scope_rows_snoc [of st' st row]) (auto simp: rows_of_append in_scope_def)
qed (auto simp: scope_rows_def rows_of_def)

section \<open>The store only grows\<close>

definition row_extends :: "stored_row \<Rightarrow> stored_row \<Rightarrow> bool" where
  "row_extends r r' \<longleftrightarrow> sr_row_version r \<le> sr_row_version r' \<and>
     (sr_chain_linked r \<or> sr_row_version r' = sr_row_version r \<longrightarrow> norm_row r' = norm_row r)"

definition extends :: "store_state \<Rightarrow> store_state \<Rightarrow> bool" where
  "extends st st' \<longleftrightarrow>
     (\<forall>k r. map_of (st_records st) k = Some r \<longrightarrow>
        (\<exists>r'. map_of (st_records st') k = Some r' \<and> row_extends r r')) \<and>
     (\<forall>t p c. is_chain_linked_collection c \<longrightarrow>
        prefix (map norm_row (scope_rows st t p c)) (map norm_row (scope_rows st' t p c)))"

lemma norm_row_idem [simp]: "norm_row (norm_row r) = norm_row r"
  by (simp add: norm_row_def)

lemma row_extends_refl [simp]: "row_extends r r"
  by (simp add: row_extends_def)

lemma norm_row_same: "norm_row r' = norm_row r \<Longrightarrow> sr_row_version r' = sr_row_version r \<and> sr_chain_linked r' = sr_chain_linked r"
  by (metis norm_row_sel(11,14))

lemma row_extends_trans:
  assumes ab: "row_extends a b" and bc: "row_extends b c"
  shows "row_extends a c"
proof -
  have "norm_row c = norm_row a" if "sr_chain_linked a \<or> sr_row_version c = sr_row_version a"
  proof -
    have "norm_row b = norm_row a" using ab bc that unfolding row_extends_def by fastforce
    with norm_row_same [OF this] bc that show ?thesis unfolding row_extends_def by fastforce
  qed
  with ab bc show ?thesis unfolding row_extends_def by fastforce
qed

lemma extends_refl [simp]: "extends st st"
  by (auto simp: extends_def)

lemma extends_trans: "extends a b \<Longrightarrow> extends b c \<Longrightarrow> extends a c"
  unfolding extends_def by (meson prefix_order.order_trans row_extends_trans)

lemma extends_norm: "extends st (norm_state st)"
  by (auto simp: extends_def map_of_norm row_extends_def scope_rows_norm comp_def)

lemma append_state_extends:
  assumes "json_append_state H clk c record k t p linked st = (r, st')"
  shows "extends st st'"
  using assms
proof (rule append_state_cases)
  fix row prev n
  assume new: "map_of (st_records st) (scoped_key t p c k) = None"
    and st': "st_records st' = dset (st_records st) (scoped_key t p c k) row"
  then have "map snd (st_records st') = rows_of st @ [row]" using rows_of_append by simp
  with new st' show ?thesis by (auto simp: extends_def scope_rows_snoc)
qed (auto simp: extends_def scope_rows_def rows_of_def)

lemma cas_state_extends:
  assumes ok: "store_ok H st" and run: "json_cas_state H now c record k t p ev eh st = (r, st')"
  shows "extends st st'"
proof (cases r)
  case (Inl e)
  with run json_cas_state_Inl have "st' = st" by metis
  then show ?thesis by simp
next
  case (Inr x)
  obtain new old where "r = Inr (new, old)" using Inr by (cases x) auto
  with run have cas: "json_cas_state H now c record k t p ev eh st = (Inr (new, old), st')" by simp
  obtain e e' where e: "map_of (st_records st) (scoped_key t p c k) = Some e" "\<not> sr_chain_linked e"
    and st': "st' = st\<lparr>st_records := dset (st_records st) (scoped_key t p c k) e'\<rparr>"
    and e': "sr_row_version e' = sr_row_version e + 1" "sr_collection e' = sr_collection e"
    by (rule json_cas_state_unfold [OF cas]) auto
  have "\<not> is_chain_linked_collection (sr_collection e)"
    using store_ok_row [OF ok e(1)] e(2) by (simp add: row_ok_def)
  then have "scope_rows st' t' p' c' = scope_rows st t' p' c'" if "is_chain_linked_collection c'" for t' p' c'
    using filter_snd_dset [OF e(1), of "in_scope t' p' c'" e'] that e'
    by (auto simp: scope_rows_def rows_of_def st' in_scope_def)
  with e e' st' show ?thesis by (auto simp: extends_def row_extends_def)
qed

section \<open>Through the engine\<close>

text \<open>What the next operation will find is what \<open>f\<close> left, up to the order of the payloads' keys.\<close>

lemma on_state_current:
  assumes "engine_ok H eng" "current_state eng = Inr st" "f st = (r, st')"
    and "on_state dirty f eng = (r, eng')" "store_ok H st'"
    and "tx_depth eng = 0 \<Longrightarrow> (\<exists>x. r = Inr x \<and> dirty x) \<or> st' = st"
  shows "\<exists>st2. current_state eng' = Inr st2 \<and> (st2 = st' \<or> st2 = norm_state st')"
  using assms read_write_json_state [OF store_ok_keys [OF assms(5)]]
  by (cases r) (auto simp: on_state_def in_transaction_def current_state_def engine_ok_def Let_def
      split: option.splits if_splits)

definition grows :: "engine \<Rightarrow> engine \<Rightarrow> bool" where
  "grows eng eng' \<longleftrightarrow> (\<forall>st. current_state eng = Inr st \<longrightarrow>
     (\<exists>st'. current_state eng' = Inr st' \<and> extends st st'))"

lemma grows_refl [simp]: "grows eng eng"
  by (simp add: grows_def)

lemma grows_trans: "grows a b \<Longrightarrow> grows b c \<Longrightarrow> grows a c"
  unfolding grows_def by (meson extends_trans)

lemma on_state_grows:
  assumes ok: "engine_ok H eng" and run: "on_state dirty f eng = (r, eng')"
    and step: "\<And>st r st'. store_ok H st \<Longrightarrow> f st = (r, st') \<Longrightarrow> store_ok H st' \<and> extends st st'"
  shows "grows eng eng'"
proof -
  obtain st where st: "current_state eng = Inr st" "store_ok H st" using current_state_ok [OF ok] by blast
  obtain x st' where f: "f st = (x, st')" by (cases "f st")
  from step [OF st(2) f] have ok': "store_ok H st'" and ext: "extends st st'" by auto
  have "extends st (norm_state st')" using ext extends_norm extends_trans by blast
  with ok run st f ok' ext read_write_json_state [OF store_ok_keys [OF ok']] show ?thesis
    by (cases x) (auto simp: grows_def on_state_def in_transaction_def current_state_def engine_ok_def Let_def
        split: option.splits if_splits)
qed

lemma engine_append_grows:
  assumes ok: "engine_ok H eng" and n: "nulfree t" "nulfree p" and wf: "dwf record"
    and run: "engine_append_scoped H clk c record k t p eng = (r, eng')"
  shows "grows eng eng'"
  using run
proof (cases rule: engine_append_cases)
  case run
  from append_collection_nulfree [OF run(1)] have c: "nulfree c" .
  show ?thesis
    by (rule on_state_grows [OF ok run(4)])
      (simp add: json_append_state_ok [OF _ n c wf] append_state_extends)
qed simp

lemma engine_cas_grows:
  assumes ok: "engine_ok H eng" and n: "nulfree t" "nulfree p" and wf: "dwf record"
    and run: "engine_compare_and_set_scoped H now c record k t p ev eh eng = (r, eng')"
  shows "grows eng eng'"
  using run
proof (cases rule: engine_cas_cases)
  case run
  from cas_nulfree [OF run(1)] have c: "nulfree c" .
  show ?thesis
    by (rule on_state_grows [OF ok run(5)])
      (simp add: json_cas_state_ok [OF _ n c wf] cas_state_extends)
qed simp

lemma engine_call_grows: "engine_call H eng eng' \<Longrightarrow> engine_ok H eng \<Longrightarrow> grows eng eng'"
  by (induction rule: engine_call.induct) (auto intro: engine_append_grows engine_cas_grows)

lemma engine_calls_grow:
  "(engine_call H)\<^sup>*\<^sup>* eng eng' \<Longrightarrow> engine_ok H eng \<Longrightarrow> grows eng eng'"
  by (induction rule: rtranclp_induct) (auto intro: engine_call_grows grows_trans engine_calls_ok)

lemma transaction_grows:
  assumes ok: "engine_ok H eng" and fn: "scoped_program H fn"
    and run: "run_scoped_transaction t p refs fn eng = (r, eng')"
  shows "grows eng eng'"
  using run
proof (cases rule: run_scoped_transaction_cases)
  case (unreadable e)
  with ok show ?thesis by (auto simp: engine_ok_def)
next
  case (run st eng2)
  let ?in = "enter_transaction refs st eng"
  have st: "current_state eng = Inr st" "store_ok H st" "current_state ?in = Inr st"
    using ok run by (auto simp: engine_ok_def current_state_def enter_transaction_def)
  have inn: "engine_ok H ?in" using engine_ok_enter [OF ok st(2)] .
  have calls: "(engine_call H)\<^sup>*\<^sup>* ?in eng2" using fn run(5) unfolding scoped_program_def by (metis snd_conv)
  have "grows ?in eng2" "tx_frame ?in eng2" "engine_ok H eng2"
    using engine_calls_grow engine_calls_frame engine_calls_ok calls inn by blast+
  then obtain st2 where st2: "active_state eng2 = Some st2" "extends st st2" "store_ok H st2"
      "eng_disk eng2 = eng_disk eng"
    using st by (auto simp: grows_def tx_frame_def current_state_def engine_ok_def enter_transaction_def
        split: option.splits)
  have ext: "extends st (norm_state st2)" using st2(2) extends_norm extends_trans by blast
  show ?thesis
  proof (cases r)
    case (Inl e)
    with run st2 have "current_state eng' = current_state eng"
      using run(3) by (simp add: commit_def leave_transaction_def current_state_def read_json_state_def)
    then show ?thesis by (simp add: grows_def)
  next
    case (Inr x)
    with run st2 read_write_json_state [OF store_ok_keys [OF st2(3)]]
    have "current_state eng' = Inr (norm_state st2)"
      by (simp add: commit_def leave_transaction_def current_state_def)
    with st(1) ext show ?thesis by (auto simp: grows_def)
  qed
qed simp

lemma engine_step_grows: "engine_step H eng eng' \<Longrightarrow> engine_ok H eng \<Longrightarrow> grows eng eng'"
  by (erule engine_stepE) (auto intro: engine_call_grows transaction_grows)

lemma engine_steps_ok: "(engine_step H)\<^sup>*\<^sup>* eng eng' \<Longrightarrow> engine_ok H eng \<Longrightarrow> engine_ok H eng'"
  by (induction rule: rtranclp_induct) (auto intro: engine_step_ok)

lemma engine_steps_grow: "(engine_step H)\<^sup>*\<^sup>* eng eng' \<Longrightarrow> engine_ok H eng \<Longrightarrow> grows eng eng'"
  by (induction rule: rtranclp_induct) (auto intro: engine_step_grows grows_trans engine_steps_ok)

section \<open>Reads after writes\<close>

text \<open>Results up to the order of keys, which \<open>==\<close> on dictionaries does not see.\<close>

definition same_read :: "pdict res \<Rightarrow> pdict res \<Rightarrow> bool" where
  "same_read a b \<longleftrightarrow> map_sum id canon_dict a = map_sum id canon_dict b"

definition same_reads :: "pdict list res \<Rightarrow> pdict list res \<Rightarrow> bool" where
  "same_reads a b \<longleftrightarrow> map_sum id (map canon_dict) a = map_sum id (map canon_dict) b"

lemma same_read_simps [simp]: "same_read a a" "same_read (Inr x) (Inr y) \<longleftrightarrow> canon_dict x = canon_dict y"
  "same_reads b b"
  by (simp_all add: same_read_def same_reads_def)

lemma get_scoped_norm: "same_read (get_scoped_state c k t p (norm_state st)) (get_scoped_state c k t p st)"
  by (simp add: same_read_def get_scoped_state_def map_of_norm to_public_def split: option.split)

lemma sort_key_norm:
  "(\<And>r. f (norm_row r) = f r) \<Longrightarrow> sort_key f (map norm_row rs) = map norm_row (sort_key f rs)"
  by (simp add: sort_key_map)

lemma list_scoped_norm:
  "list_scoped_state c t p l o' (norm_state st) = map canon_dict (list_scoped_state c t p l o' st)"
  by (simp add: list_scoped_state_def rows_of_norm filter_map comp_def in_scope_def [abs_def] sort_key_norm
      slice_def to_public_def take_map drop_map)

lemma list_scoped_rows:
  "list_scoped_state c t p l o' st = map to_public (slice o' l
     (sort_key (\<lambda>row. (sr_chain_sequence row, sr_record_id row)) (scope_rows st t p c)))"
  by (simp add: list_scoped_state_def scope_rows_def)

lemma engine_get_run:
  assumes "validate_collection c False False True = Inr ()" "\<not> eng_multiprocess eng" "current_state eng = Inr st"
  shows "engine_get_scoped c k t p eng = get_scoped_state c k t p st"
  using assms by (simp add: engine_get_scoped_def ensure_multiprocess_json_allowed_def read_state_def)

text \<open>A read depends on the engine only through its mode and its current state.\<close>

lemma engine_get_cong:
  "eng_multiprocess eng' = eng_multiprocess eng \<Longrightarrow> current_state eng = Inr st \<Longrightarrow> current_state eng' = Inr st'
   \<Longrightarrow> same_read (get_scoped_state c k t p st') (get_scoped_state c k t p st)
   \<Longrightarrow> same_read (engine_get_scoped c k t p eng') (engine_get_scoped c k t p eng)"
  by (cases "validate_collection c False False True")
    (auto simp: engine_get_scoped_def ensure_multiprocess_json_allowed_def read_state_def bindE_raise_if)

lemma engine_list_cong:
  assumes "eng_multiprocess eng' = eng_multiprocess eng" "current_state eng = Inr st" "current_state eng' = Inr st'"
    and "map canon_dict (list_scoped_state c t p l o' st') = map canon_dict (list_scoped_state c t p l o' st)"
  shows "same_reads (engine_list_scoped c t p l o' eng') (engine_list_scoped c t p l o' eng)"
  using assms
  by (cases "validate_collection c False False True"; cases "check_page l o'")
    (auto simp: engine_list_scoped_def ensure_multiprocess_json_allowed_def read_state_def bindE_raise_if same_reads_def)

text \<open>An append that ran, with the states before and after.\<close>

lemma engine_append_run:
  assumes ok: "engine_ok H eng" and n: "nulfree t" "nulfree p" and wf: "dwf record"
    and call: "engine_append_scoped H clk c record k t p eng = (r, eng')"
  obtains (stop) e where "r = Inl e" "eng' = eng"
  | (run) st st' st2 where "validate_collection c False True False = Inr ()" "\<not> eng_multiprocess eng"
      "current_state eng = Inr st" "store_ok H st"
      "json_append_state H clk c record k t p (is_chain_linked_collection c) st = (r, st')"
      "current_state eng' = Inr st2" "st2 = st' \<or> st2 = norm_state st' \<or> (\<exists>e. r = Inl e) \<and> st2 = st"
      "tx_frame eng eng'"
proof -
  show ?thesis
    using call
  proof (cases rule: engine_append_cases)
    case (stop e)
    with that(1) show ?thesis by blast
  next
    case run
    obtain st where st: "current_state eng = Inr st" "store_ok H st" using current_state_ok [OF ok] by blast
    obtain x st' where f: "json_append_state H clk c record k t p (is_chain_linked_collection c) st = (x, st')"
      by fastforce
    have x: "x = r" using run(4) st f by (auto simp: on_state_def split: sum.splits)
    have ok': "store_ok H st'" using json_append_state_ok [OF st(2) n append_collection_nulfree [OF run(1)] wf f] .
    have "\<exists>st2. current_state eng' = Inr st2 \<and> (st2 = st' \<or> st2 = norm_state st' \<or> (\<exists>e. r = Inl e) \<and> st2 = st)"
    proof (cases "\<exists>e. r = Inl e \<and> tx_depth eng = 0")
      case True
      with run(4) st f x ok have "eng' = eng"
        by (auto simp: on_state_def in_transaction_def split: if_splits)
      with True st show ?thesis by auto
    next
      case False
      have "(\<exists>y. r = Inr y \<and> snd y) \<or> st' = st" if "tx_depth eng = 0"
        using f x False that by (auto elim!: append_state_cases)
      with on_state_current [OF ok st(1) f [unfolded x] run(4) ok'] show ?thesis by auto
    qed
    with that(2) [OF run(1,2) st f [unfolded x]] on_state_frame [OF run(4)] show ?thesis by blast
  qed
qed

lemma read_allowed: "validate_collection c False True False = Inr () \<Longrightarrow> validate_collection c False False True = Inr ()"
  by (auto simp: validate_collection_def Let_def APPEND_SCOPED_COLLECTIONS_def READ_SCOPED_COLLECTIONS_def)

lemma get_after_append:
  assumes ok: "engine_ok H eng" and n: "nulfree t" "nulfree p" and wf: "dwf record"
    and run: "engine_append_scoped H clk c record k t p eng = (Inr (payload, created), eng')"
  shows "same_read (engine_get_scoped c k t p eng') (Inr payload)"
  using ok n wf run
proof (cases rule: engine_append_run)
  case (run st st' st2)
  from append_state_found [OF run(5)] obtain row where
    row: "map_of (st_records st') (scoped_key t p c k) = Some row" "sr_payload row = payload" by blast
  from run(7) get_scoped_norm [of c k t p st'] have "same_read (get_scoped_state c k t p st2) (get_scoped_state c k t p st')"
    by auto
  moreover have "engine_get_scoped c k t p eng' = get_scoped_state c k t p st2"
    using run(2,8) by (intro engine_get_run read_allowed run) (simp_all add: tx_frame_def)
  ultimately show ?thesis using row by (simp add: get_scoped_state_def to_public_def)
qed simp

lemma read_nulfree: "validate_collection c False False True = Inr () \<Longrightarrow> nulfree c"
  by (auto simp: validate_collection_def Let_def READ_SCOPED_COLLECTIONS_def dest: cas_nulfree
      intro: linked_nulfree simp: is_chain_linked_collection_def CHAIN_LINKED_COLLECTIONS_def)

lemma append_other_get:
  assumes ok: "engine_ok H eng" and n: "nulfree t" "nulfree p" "nulfree t'" "nulfree p'" and wf: "dwf record"
    and run: "engine_append_scoped H clk c record k t p eng = (r, eng')"
    and other: "(t', p', c', k') \<noteq> (t, p, c, k) \<or> (\<exists>e. r = Inl e)"
  shows "same_read (engine_get_scoped c' k' t' p' eng') (engine_get_scoped c' k' t' p' eng)"
proof (cases "validate_collection c' False False True")
  case (Inl e)
  then show ?thesis by (simp add: engine_get_scoped_def)
next
  case (Inr u)
  then have c': "nulfree c'" by (simp add: read_nulfree)
  show ?thesis
    using ok n(1,2) wf run
  proof (cases rule: engine_append_run)
    case (run st st' st2)
    have "map_of (st_records st') (scoped_key t' p' c' k') = map_of (st_records st) (scoped_key t' p' c' k')"
    proof (cases "\<exists>e. r = Inl e")
      case True
      with run(5) show ?thesis by (auto elim: append_state_cases)
    next
      case False
      with other have "scoped_key t' p' c' k' \<noteq> scoped_key t p c k"
        using scoped_key_inj n c' append_collection_nulfree [OF run(1)] by blast
      from append_state_other [OF run(5) this] show ?thesis .
    qed
    then have "get_scoped_state c' k' t' p' st' = get_scoped_state c' k' t' p' st" by (simp add: get_scoped_state_def)
    with run(7) get_scoped_norm [of c' k' t' p' st'] have
      "same_read (get_scoped_state c' k' t' p' st2) (get_scoped_state c' k' t' p' st)" by auto
    with engine_get_cong run(3,6,8) show ?thesis by (simp add: tx_frame_def)
  qed simp
qed

lemma append_isolated_list:
  assumes ok: "engine_ok H eng" and n: "nulfree t" "nulfree p" and wf: "dwf record"
    and run: "engine_append_scoped H clk c record k t p eng = (r, eng')" and other: "(t', p', c') \<noteq> (t, p, c)"
  shows "same_reads (engine_list_scoped c' t' p' l o' eng') (engine_list_scoped c' t' p' l o' eng)"
  using ok n wf run
proof (cases rule: engine_append_run)
  case (run st st' st2)
  have "list_scoped_state c' t' p' l o' st' = list_scoped_state c' t' p' l o' st"
    using append_state_scope [OF run(5) other] by (simp add: list_scoped_rows)
  with run(7) list_scoped_norm [of c' t' p' l o' st'] have
    "map canon_dict (list_scoped_state c' t' p' l o' st2) = map canon_dict (list_scoped_state c' t' p' l o' st)"
    by (auto simp: comp_def)
  with engine_list_cong run(3,6,8) show ?thesis by (simp add: tx_frame_def)
qed simp

section \<open>Appending twice\<close>

lemma on_state_no_change:
  assumes "current_state eng = Inr st" "f st = (r, st)" "\<And>x. r = Inr x \<Longrightarrow> \<not> dirty x"
  shows "on_state dirty f eng = (r, eng)"
  using assms
  by (cases r; cases eng) (auto simp: on_state_def in_transaction_def current_state_def Let_def split: if_splits)

lemma engine_append_eq:
  assumes "validate_collection c False True False = Inr ()" "\<not> eng_multiprocess eng"
    and "require_write_locks (eng_lock_context eng) c k (is_chain_linked_collection c) = Inr ()"
  shows "engine_append_scoped H clk c record k t p eng =
    on_state snd (json_append_state H clk c record k t p (is_chain_linked_collection c)) eng"
  using assms
  by (simp add: engine_append_scoped_def ensure_multiprocess_json_allowed_def bindS_lift_Inr Let_def)

definition stored_text :: "pdict \<Rightarrow> string \<Rightarrow> string \<Rightarrow> string" where
  "stored_text record t p = dumps (JObj (dremove (with_scope record t p) ''_chain''))"

lemma payload_hash_text: "canonical_scoped_payload_hash H (with_scope record t p) = H (stored_text record t p)"
  by (simp add: canonical_scoped_payload_hash_def stored_text_def)

lemma append_again:
  assumes ok: "engine_ok H eng" and n: "nulfree t" "nulfree p" and wf: "dwf record"
    and call: "engine_append_scoped H clk c record k t p eng = (Inr (payload, created), eng')"
  shows "\<exists>q. canon_dict q = canon_dict payload \<and> engine_append_scoped H clk' c record' k t p eng' =
    (if H (stored_text record' t p) = H (stored_text record t p) then Inr (q, False)
     else Inl (DuplicateCanonicalKey (''Duplicate canonical key '' @ k @ '' in '' @ c @ '' with different payload'')),
     eng')"
  using ok n wf call
proof (cases rule: engine_append_run)
  case (run st st' st2)
  have locks: "require_write_locks (eng_lock_context eng') c k (is_chain_linked_collection c) = Inr ()"
    using call run(8) by (cases rule: engine_append_cases) (auto simp: tx_frame_def)
  from append_state_found [OF run(5)] obtain row where
    row: "map_of (st_records st') (scoped_key t p c k) = Some row" "sr_payload row = payload"
      "sr_payload_hash row = H (stored_text record t p)" by (auto simp: payload_hash_text)
  obtain row2 where
    row2: "map_of (st_records st2) (scoped_key t p c k) = Some row2" "canon_dict (sr_payload row2) = canon_dict payload"
      "sr_payload_hash row2 = H (stored_text record t p)"
    using run(7) row by (auto simp: map_of_norm)
  let ?r = "if H (stored_text record' t p) = H (stored_text record t p) then Inr (sr_payload row2, False)
     else Inl (DuplicateCanonicalKey (''Duplicate canonical key '' @ k @ '' in '' @ c @ '' with different payload''))"
  have "json_append_state H clk' c record' k t p (is_chain_linked_collection c) st2 = (?r, st2)"
    using row2 by (simp add: json_append_state_unfold payload_hash_text)
  then have "on_state snd (json_append_state H clk' c record' k t p (is_chain_linked_collection c)) eng' = (?r, eng')"
    by (intro on_state_no_change [OF run(6)]) (auto split: if_splits)
  moreover have "\<not> eng_multiprocess eng'" using run(2,8) by (simp add: tx_frame_def)
  ultimately show ?thesis using engine_append_eq [OF run(1) _ locks] row2(2) by metis
qed simp

section \<open>Compare and set\<close>

text \<open>The version number of a row, and what a successful compare-and-set does to it.\<close>

definition row_version :: "engine \<Rightarrow> string \<Rightarrow> int option" where
  "row_version eng key = (case current_state eng of Inl _ \<Rightarrow> None
     | Inr st \<Rightarrow> map_option sr_row_version (map_of (st_records st) key))"

lemma grows_version:
  "grows eng eng' \<Longrightarrow> row_version eng key = Some v \<Longrightarrow> \<exists>v'. row_version eng' key = Some v' \<and> v \<le> v'"
  by (fastforce simp: grows_def row_version_def extends_def row_extends_def split: sum.splits)

lemma cas_success_version:
  assumes ok: "engine_ok H eng" and n: "nulfree t" "nulfree p" and wf: "dwf record"
    and call: "engine_compare_and_set_scoped H now c record k t p ev eh eng = (Inr (new, old), eng')"
  shows "\<exists>v. row_version eng (scoped_key t p c k) = Some v \<and> (ev = None \<or> ev = Some v) \<and>
    row_version eng' (scoped_key t p c k) = Some (v + 1) \<and>
    same_read (engine_get_scoped c k t p eng') (Inr new) \<and> engine_get_scoped c k t p eng = Inr old"
  using call
proof (cases rule: engine_cas_cases)
  case run
  obtain st where st: "current_state eng = Inr st" "store_ok H st" using current_state_ok [OF ok] by blast
  obtain x st' where "json_cas_state H now c record k t p ev eh st = (x, st')" by fastforce
  with run(5) st have f: "json_cas_state H now c record k t p ev eh st = (Inr (new, old), st')"
    by (auto simp: on_state_def split: sum.splits)
  have ok': "store_ok H st'" using json_cas_state_ok [OF st(2) n cas_nulfree [OF run(1)] wf f] .
  from on_state_current [OF ok st(1) f run(5) ok'] obtain st2 where
    st2: "current_state eng' = Inr st2" "st2 = st' \<or> st2 = norm_state st'" by auto
  obtain e e' where e: "map_of (st_records st) (scoped_key t p c k) = Some e" "sr_payload e = old"
      "ev = None \<or> ev = Some (sr_row_version e)"
    and e': "map_of (st_records st') (scoped_key t p c k) = Some e'" "sr_payload e' = new"
      "sr_row_version e' = sr_row_version e + 1"
    by (rule json_cas_state_unfold [OF f]) auto
  obtain e2 where e2: "map_of (st_records st2) (scoped_key t p c k) = Some e2"
      "canon_dict (sr_payload e2) = canon_dict new" "sr_row_version e2 = sr_row_version e + 1"
    using st2(2) e' by (auto simp: map_of_norm)
  have "validate_collection c False False True = Inr ()"
    using run(1) by (simp add: validate_collection_def READ_SCOPED_COLLECTIONS_def)
  moreover have "\<not> eng_multiprocess eng'" using on_state_frame [OF run(5)] run(2) by (simp add: tx_frame_def)
  ultimately show ?thesis
    using engine_get_run [of c eng' st2 k t p] engine_get_run [of c eng st k t p] st2(1) e2 e st(1) run(2)
    by (auto simp: row_version_def get_scoped_state_def to_public_def)
qed simp

lemma stale_cas_fails:
  assumes eng: "engine_ok H eng" and n: "nulfree t" "nulfree p" and wf: "dwf record" "dwf record'"
    and win: "engine_compare_and_set_scoped H now c record k t p (Some v) eh eng = (Inr x, eng1)"
    and steps: "(engine_step H)\<^sup>*\<^sup>* eng1 eng2"
  shows "\<exists>e. fst (engine_compare_and_set_scoped H now' c record' k t p (Some v) eh' eng2) = Inl e"
proof (rule ccontr)
  assume "\<nexists>e. fst (engine_compare_and_set_scoped H now' c record' k t p (Some v) eh' eng2) = Inl e"
  then obtain y eng3 where "engine_compare_and_set_scoped H now' c record' k t p (Some v) eh' eng2 = (Inr y, eng3)"
    by (metis old.sum.exhaust prod.collapse)
  then have again: "\<exists>new old. engine_compare_and_set_scoped H now' c record' k t p (Some v) eh' eng2 = (Inr (new, old), eng3)"
    by (cases y) auto
  have ok1: "engine_ok H eng1" by (rule engine_cas_ok [OF eng n wf(1) win])
  have ok2: "engine_ok H eng2" using engine_steps_ok [OF steps ok1] .
  have "row_version eng1 (scoped_key t p c k) = Some (v + 1)"
    using cas_success_version [OF eng n wf(1)] win by (cases x) fastforce
  then obtain v' where "row_version eng2 (scoped_key t p c k) = Some v'" "v < v'"
    using grows_version [OF engine_steps_grow [OF steps ok1]] by fastforce
  with again cas_success_version [OF ok2 n wf(2)] show False by fastforce
qed

section \<open>Transactions\<close>

lemma engine_call_idle: "engine_call H eng eng' \<Longrightarrow> eng_idle eng \<Longrightarrow> eng_idle eng'"
  by (drule engine_call_frame) (auto simp: tx_frame_def eng_idle_def)

lemma leave_idle [simp]: "eng_idle (leave_transaction eng)"
  by (simp add: leave_transaction_def eng_idle_def)

lemma transaction_idle:
  "run_scoped_transaction t p refs fn eng = (r, eng') \<Longrightarrow> engine_ok H eng \<Longrightarrow> eng_idle eng \<Longrightarrow> eng_idle eng'"
  by (erule run_scoped_transaction_cases) (auto simp: engine_ok_def)

lemma engine_step_idle: "engine_step H eng eng' \<Longrightarrow> engine_ok H eng \<Longrightarrow> eng_idle eng \<Longrightarrow> eng_idle eng'"
  by (erule engine_stepE) (auto intro: engine_call_idle transaction_idle)

lemma engine_reachable_idle: "(engine_step H)\<^sup>*\<^sup>* fresh_engine eng \<Longrightarrow> engine_ok H eng \<and> eng_idle eng"
proof (induction rule: rtranclp_induct)
  case base
  show ?case by (simp add: engine_ok_fresh) (simp add: eng_idle_def fresh_engine_def)
qed (auto intro: engine_step_ok engine_step_idle)

lemma transaction_atomic:
  assumes ok: "engine_ok H eng" "eng_idle eng" and fn: "scoped_program H fn"
    and run: "run_scoped_transaction t p refs fn eng = (r, eng')"
  shows "case r of Inl e \<Rightarrow> eng' = eng
    | Inr x \<Rightarrow> \<exists>st st'. current_state eng = Inr st \<and> fst (fn (enter_transaction refs st eng)) = Inr x \<and>
        current_state (snd (fn (enter_transaction refs st eng))) = Inr st' \<and>
        current_state eng' = Inr (norm_state st') \<and> eng_idle eng'"
proof (cases r)
  case (Inl e)
  from ok(1) obtain st where "read_json_state eng = Inr st" by (auto simp: engine_ok_def)
  with transaction_rollback [OF fn ok(2)] run Inl show ?thesis by simp
next
  case (Inr x)
  show ?thesis
    using run
  proof (cases rule: run_scoped_transaction_cases)
    case (run st eng2)
    let ?in = "enter_transaction refs st eng"
    have "store_ok H st" using ok(1) run(4) by (auto simp: engine_ok_def)
    then have inn: "engine_ok H ?in" by (rule engine_ok_enter [OF ok(1)])
    have calls: "(engine_call H)\<^sup>*\<^sup>* ?in eng2" using fn run(5) unfolding scoped_program_def by (metis snd_conv)
    obtain st2 where st2: "active_state eng2 = Some st2" "store_ok H st2" "tx_depth eng2 = 1"
      using engine_calls_frame [OF calls] engine_calls_ok [OF calls inn]
      by (auto simp: tx_frame_def enter_transaction_def engine_ok_def split: option.splits)
    have "current_state eng2 = Inr st2" using st2 by (simp add: current_state_def)
    moreover have "current_state eng' = Inr (norm_state st2)"
      using run(6) Inr st2 read_write_json_state [OF store_ok_keys [OF st2(2)]]
      by (simp add: commit_def leave_transaction_def current_state_def)
    moreover have "current_state eng = Inr st" using ok(2) run(4) by (simp add: current_state_def eng_idle_def)
    ultimately show ?thesis using Inr run(5,6) by simp
  qed (use Inr in auto)
qed

section \<open>Listing\<close>

lemma sorted_seq_id:
  "chain_from prev n rs \<Longrightarrow> sort_key (\<lambda>row. (sr_chain_sequence row, sr_record_id row)) rs = rs"
proof (rule sort_key_sorted_idem)
  assume "chain_from prev n rs"
  then have "sorted_wrt (<) (map sr_chain_sequence rs)"
    using chain_from_sequences [of prev n rs] by (simp add: sorted_wrt_iff_nth_less sorted_wrt_map)
  then show "sorted (map (\<lambda>row. (sr_chain_sequence row, sr_record_id row)) rs)"
    by (auto simp: sorted_wrt_map less_eq_prod_def elim!: sorted_wrt_mono_rel [rotated])
qed

lemma list_linked:
  assumes "store_ok H st" "nulfree t" "nulfree p" "is_chain_linked_collection c"
  shows "list_scoped_state c t p l o' st = map sr_payload (slice o' l (scope_rows st t p c))"
proof -
  have "chain_from None 1 (scope_rows st t p c)" using assms chains_okD by (auto simp: store_ok_def)
  from sorted_seq_id [OF this] show ?thesis by (simp add: list_scoped_rows to_public_def [abs_def])
qed

lemma pages_take: "concat (map (\<lambda>i. take l (drop (i * l) xs)) [0..<m]) = take (m * l) xs"
proof (induction m)
  case (Suc m)
  have "Suc m * l = m * l + l" by simp
  then have "take (Suc m * l) xs = take (m * l) xs @ take l (drop (m * l) xs)" by (simp only: take_add)
  with Suc show ?case by simp
qed simp

end
