(* ===== verification/Sqlite_Refinement.thy ===== *)
theory Sqlite_Refinement
  imports Scoped_Sqlite Store_Ops
begin

text \<open>
  The SQLite backend refines the JSON backend: as long as the tables hold the rows and heads of a store
  with the invariant, every operation gives the result the JSON operation gives, up to the order of keys,
  and leaves the tables of the resulting store. The one exception is the unique
  record id, which only SQLite enforces: an append that would repeat one is an \<open>IntegrityError\<close>.
\<close>

definition sql_rel :: "(string \<Rightarrow> string) \<Rightarrow> scoped_db \<Rightarrow> store_state \<Rightarrow> bool" where
  "sql_rel H db st \<longleftrightarrow> store_ok H st \<and> db_rows db = map sql_row_of (rows_of st) \<and>
     db_heads db = map snd (st_heads st)"

definition sqlite_ok :: "(string \<Rightarrow> string) \<Rightarrow> scoped_db \<Rightarrow> bool" where
  "sqlite_ok H db \<longleftrightarrow> (\<exists>st. sql_rel H db st)"

lemma sql_row_of_sel [simp]:
  "q_tenant_id (sql_row_of s) = sr_tenant_id s" "q_project_id (sql_row_of s) = sr_project_id s"
  "q_collection (sql_row_of s) = sr_collection s" "q_canonical_key (sql_row_of s) = sr_canonical_key s"
  "q_record_id (sql_row_of s) = sr_record_id s" "q_payload (sql_row_of s) = canon_dict (sr_payload s)"
  "q_payload_hash (sql_row_of s) = sr_payload_hash s" "q_chain_prev (sql_row_of s) = sr_chain_prev s"
  "q_chain_hash (sql_row_of s) = sr_chain_hash s" "q_chain_sequence (sql_row_of s) = sr_chain_sequence s"
  "q_row_version (sql_row_of s) = sr_row_version s" "q_created_at (sql_row_of s) = sr_created_at s"
  "q_updated_at (sql_row_of s) = sr_updated_at s"
  "q_scope t p c (sql_row_of s) = in_scope t p c s"
  by (simp_all add: sql_row_of_def q_scope_def in_scope_def)

lemma sql_rel_empty: "sql_rel H empty_db empty_store"
  by (simp add: sql_rel_def store_ok_empty) (simp add: empty_db_def empty_store_def rows_of_def)

section \<open>Selecting\<close>

lemma find_row_aux:
  assumes "\<forall>(k, r) \<in> set d. k = row_key r \<and> nulfree (sr_tenant_id r) \<and> nulfree (sr_project_id r) \<and> nulfree (sr_collection r)"
    and "nulfree t" "nulfree p" "nulfree c"
  shows "find (q_key t p c k) (map sql_row_of (map snd d)) = map_option sql_row_of (map_of d (scoped_key t p c k))"
  using assms(1)
proof (induction d)
  case (Cons x d)
  obtain k' r where x: "x = (k', r)" by (cases x)
  have "q_key t p c k (sql_row_of r) \<longleftrightarrow> row_key r = scoped_key t p c k"
    using Cons.prems x assms(2-4) scoped_key_inj [of "sr_tenant_id r" "sr_project_id r" "sr_collection r"
        "sr_canonical_key r" t p c k]
    by (auto simp: q_key_def in_scope_def row_key_def)
  with Cons x show ?case by auto
qed simp

lemma store_ok_entry:
  assumes "store_ok H st" "(k, r) \<in> set (st_records st)"
  shows "k = row_key r \<and> row_ok H r"
proof -
  have "\<forall>(k, r) \<in> set (st_records st). k = row_key r" using assms(1) by (simp add: store_ok_def keys_ok_def)
  from bspec [OF this assms(2)] have "k = row_key r" by simp
  moreover have "r \<in> set (rows_of st)" using assms(2) by (force simp: rows_of_def)
  ultimately show ?thesis using assms(1) by (simp add: store_ok_def)
qed

lemma select_row_rel:
  assumes rel: "sql_rel H db st" and n: "nulfree t" "nulfree p" "nulfree c"
  shows "select_row t p c k db = map_option sql_row_of (map_of (st_records st) (scoped_key t p c k))"
proof -
  have "\<forall>(k, r) \<in> set (st_records st). k = row_key r \<and> nulfree (sr_tenant_id r) \<and> nulfree (sr_project_id r) \<and> nulfree (sr_collection r)"
    using store_ok_entry rel by (fastforce simp: sql_rel_def row_ok_def)
  from find_row_aux [OF this n, of k] rel show ?thesis by (simp add: select_row_def sql_rel_def rows_of_def)
qed

lemma h_scope_key:
  assumes "keys_ok st" "(k, h) \<in> set (st_heads st)" "nulfree t" "nulfree p"
  shows "h_scope t p c h \<longleftrightarrow> k = head_key t p c"
proof -
  have "\<forall>(k, h) \<in> set (st_heads st). k = chain_head_key h \<and> nulfree (ch_tenant_id h) \<and>
      nulfree (ch_project_id h) \<and> is_chain_linked_collection (ch_collection h)"
    using assms(1) by (simp add: keys_ok_def)
  from bspec [OF this assms(2)] have k: "k = chain_head_key h"
    and n: "nulfree (ch_tenant_id h)" "nulfree (ch_project_id h)" by simp_all
  show ?thesis
    using head_key_inj [OF _ n(1) assms(3) n(2) assms(4)] unfolding k chain_head_key_def h_scope_def by blast
qed

lemma find_snd: "(\<And>k h. (k, h) \<in> set d \<Longrightarrow> P h \<longleftrightarrow> k = key) \<Longrightarrow> find P (map snd d) = map_of d key"
proof (induction d)
  case (Cons x d)
  obtain k h where x: "x = (k, h)" by (cases x)
  have "P h \<longleftrightarrow> k = key" by (rule Cons.prems) (simp add: x)
  moreover have "find P (map snd d) = map_of d key" by (rule Cons.IH, rule Cons.prems) simp
  ultimately show ?case by (simp add: x)
qed simp

lemma select_head_rel:
  assumes rel: "sql_rel H db st" and n: "nulfree t" "nulfree p"
  shows "select_head t p c db = map_of (st_heads st) (head_key t p c)"
proof -
  have "keys_ok st" using rel by (simp add: sql_rel_def store_ok_def)
  from h_scope_key [OF this] n show ?thesis
    using rel by (simp add: select_head_def sql_rel_def find_snd)
qed

lemma map_snd_dset_old:
  "map_of d key = Some v \<Longrightarrow> ddistinct d \<Longrightarrow> (\<And>k h. (k, h) \<in> set d \<Longrightarrow> P h \<longleftrightarrow> k = key)
   \<Longrightarrow> map snd (dset d key w) = map (\<lambda>h. if P h then w else h) (map snd d)"
proof (induction d)
  case (Cons x d)
  obtain k h where x: "x = (k, h)" by (cases x)
  have P: "P h' \<longleftrightarrow> k' = key" if "(k', h') \<in> set (x # d)" for k' h' using Cons.prems(3) that by blast
  show ?case
  proof (cases "k = key")
    case True
    have "\<not> P h'" if "h' \<in> set (map snd d)" for h'
    proof -
      from that obtain k' where k': "(k', h') \<in> set d" by auto
      with Cons.prems(2) True x have "k' \<noteq> key" by force
      with P [of k' h'] k' show ?thesis by simp
    qed
    then have "map (\<lambda>h. if P h then w else h) (map snd d) = map snd d" by (simp add: map_idI)
    with True x P [of k h] show ?thesis by (simp add: comp_def)
  next
    case False
    with Cons x P [of k h] show ?thesis by (simp add: comp_def)
  qed
qed simp

lemma filter_key_one: "ddistinct d \<Longrightarrow> map_of d k = Some v \<Longrightarrow> filter (\<lambda>x. fst x = k) d = [(k, v)]"
  by (induction d) (auto simp: filter_empty_conv image_iff split: if_splits)

lemma map_dset_upd:
  "ddistinct d \<Longrightarrow> map_of d key = Some v \<Longrightarrow> (\<And>k h. (k, h) \<in> set d \<Longrightarrow> P (f h) \<longleftrightarrow> k = key) \<Longrightarrow> f w = u (f v)
   \<Longrightarrow> map f (map snd (dset d key w)) = map (\<lambda>x. if P x then u x else x) (map f (map snd d))"
proof (induction d)
  case (Cons x d)
  obtain k h where x: "x = (k, h)" by (cases x)
  have P: "P (f h) \<longleftrightarrow> k = key" by (rule Cons.prems(3)) (simp add: x)
  show ?case
  proof (cases "k = key")
    case True
    have "\<not> P (f h')" if "h' \<in> set (map snd d)" for h'
    proof -
      from that obtain k' where k': "(k', h') \<in> set d" by auto
      with Cons.prems(1) True x have "k' \<noteq> key" by force
      with Cons.prems(3) [of k' h'] k' show ?thesis by simp
    qed
    then have "map (\<lambda>x. if P x then u x else x) (map f (map snd d)) = map f (map snd d)" by (intro map_idI) auto
    with True x P Cons.prems(2,4) show ?thesis by simp
  next
    case False
    have "map f (map snd (dset d key w)) = map (\<lambda>x. if P x then u x else x) (map f (map snd d))"
      using Cons.prems False x by (intro Cons.IH) auto
    with False x P show ?thesis by simp
  qed
qed simp

section \<open>Append\<close>

definition same_append :: "(pdict \<times> bool) res \<Rightarrow> (pdict \<times> bool) res \<Rightarrow> bool" where
  "same_append a b \<longleftrightarrow> map_sum id (map_prod canon_dict id) a = map_sum id (map_prod canon_dict id) b"

lemma same_append_simps [simp]:
  "same_append a a" "same_append (Inr (x, y)) (Inr (x', y')) \<longleftrightarrow> canon_dict x = canon_dict x' \<and> y = y'"
  by (simp_all add: same_append_def)

definition repeats_id :: "string \<Rightarrow> pdict \<Rightarrow> string \<Rightarrow> string \<Rightarrow> store_state \<Rightarrow> bool" where
  "repeats_id c record t p st \<longleftrightarrow> (\<exists>row \<in> set (scope_rows st t p c).
     extract_record_id c record None = Inr (sr_record_id row))"

lemma found_head_rel:
  assumes rel: "sql_rel H db st" and n: "nulfree t" "nulfree p"
  shows "sqlite_take_number now t p c True db =
    (Inr (ch_last_sequence (found_head now t p c st) + 1, ch_last_chain_hash (found_head now t p c st)),
     if map_of (st_heads st) (head_key t p c) = None
     then db\<lparr>db_heads := db_heads db @ [found_head now t p c st]\<rparr> else db)"
  using select_head_rel [OF rel n]
  by (simp add: sqlite_take_number_def found_head_def insert_head_def bindS_def retS_def split: option.split)

lemma update_head_rel:
  assumes rel: "sql_rel H db st" and n: "nulfree t" "nulfree p"
    and db1: "db_heads db1 = (if map_of (st_heads st) (head_key t p c) = None
       then db_heads db @ [found_head now t p c st] else db_heads db)"
  shows "db_heads (update_head t p c s h now2 db1) = map snd (dset (st_heads st) (head_key t p c)
    ((found_head now t p c st)\<lparr>ch_last_sequence := s, ch_last_chain_hash := Some h, ch_updated_at := now2\<rparr>))"
proof -
  have keys: "keys_ok st" and heads: "db_heads db = map snd (st_heads st)"
    using rel by (auto simp: sql_rel_def store_ok_def)
  note hs = h_scope_key [OF keys _ n, of _ _ c]
  show ?thesis
  proof (cases "map_of (st_heads st) (head_key t p c)")
    case None
    then have "\<forall>h \<in> set (map snd (st_heads st)). \<not> h_scope t p c h"
      using hs by (force simp: map_of_eq_None_iff)
    then have "map (\<lambda>h'. if h_scope t p c h' then h'\<lparr>ch_last_sequence := s, ch_last_chain_hash := Some h,
        ch_updated_at := now2\<rparr> else h') (map snd (st_heads st)) = map snd (st_heads st)"
      by (intro map_idI) auto
    moreover have "h_scope t p c (found_head now t p c st)"
      using found_head_scope [OF keys n] by (simp add: h_scope_def)
    ultimately show ?thesis using None db1 heads by (simp add: update_head_def dset_fresh comp_def)
  next
    case (Some h0)
    have "ddistinct (st_heads st)" using keys by (simp add: keys_ok_def)
    from map_snd_dset_old [OF Some this hs] have
      "map snd (dset (st_heads st) (head_key t p c) (h0\<lparr>ch_last_sequence := s, ch_last_chain_hash := Some h, ch_updated_at := now2\<rparr>))
       = map (\<lambda>h'. if h_scope t p c h' then h0\<lparr>ch_last_sequence := s, ch_last_chain_hash := Some h, ch_updated_at := now2\<rparr>
           else h') (map snd (st_heads st))" by simp
    moreover have "h' = h0" if "h' \<in> set (map snd (st_heads st))" "h_scope t p c h'" for h'
    proof -
      from that(1) obtain k' where k': "(k', h') \<in> set (st_heads st)" by auto
      with hs that(2) have "k' = head_key t p c" by blast
      with k' \<open>ddistinct (st_heads st)\<close> have "map_of (st_heads st) (head_key t p c) = Some h'" by simp
      with Some show ?thesis by simp
    qed
    ultimately show ?thesis
      using Some db1 heads by (simp add: update_head_def found_head_def comp_def cong: map_cong) force
  qed
qed

lemma unique_violated_rel:
  assumes rel: "sql_rel H db st" and n: "nulfree t" "nulfree p" "nulfree c"
    and rows: "db_rows db1 = db_rows db"
    and new: "map_of (st_records st) (scoped_key t p c k) = None"
    and build: "build_row H now c record k t p prev num 1 None None (Some (is_chain_linked_collection c)) = Inr row"
    and num: "is_chain_linked_collection c \<Longrightarrow> num = ch_last_sequence (found_head now' t p c st) + 1"
  shows "unique_violated (sql_row_of row) db1 \<longleftrightarrow> repeats_id c record t p st"
proof -
  note b = build_row_Inr [OF build]
  have ok: "store_ok H st" and db: "db_rows db = map sql_row_of (rows_of st)" using rel by (auto simp: sql_rel_def)
  have key: "sr_canonical_key r \<noteq> k" if "r \<in> set (scope_rows st t p c)" for r
  proof
    assume "sr_canonical_key r = k"
    moreover from that obtain k' where "(k', r) \<in> set (st_records st)" "in_scope t p c r"
      by (auto simp: scope_rows_def rows_of_def)
    ultimately have "(scoped_key t p c k, r) \<in> set (st_records st)"
      using ok by (force simp: store_ok_def keys_ok_def row_key_def in_scope_def)
    with new show False by (force simp: map_of_eq_None_iff)
  qed
  have seq: "sr_chain_sequence r \<noteq> num" if "is_chain_linked_collection c" "r \<in> set (scope_rows st t p c)" for r
  proof -
    have ch: "chains_ok st" using ok by (simp add: store_ok_def)
    have "map sr_chain_sequence (scope_rows st t p c) = map (\<lambda>i. 1 + int i) [0..<length (scope_rows st t p c)]"
      using chains_okD [OF ch n(1,2) that(1)] chain_from_sequences by blast
    then have "sr_chain_sequence r \<in> set (map (\<lambda>i. 1 + int i) [0..<length (scope_rows st t p c)])"
      using that(2) by (metis image_eqI list.set_map)
    moreover have "num = int (length (scope_rows st t p c)) + 1"
      using num [OF that(1)] found_head_agrees [OF ch n(1,2) that(1)] by simp
    ultimately show ?thesis by auto
  qed
  show ?thesis
    using b key seq
    by (auto simp: unique_violated_def rows db repeats_id_def scope_rows_def is_chain_linked_collection_def)
qed

theorem sqlite_append_refines:
  assumes rel: "sql_rel H db st" and n: "nulfree t" "nulfree p" "nulfree c" and wf: "dwf record"
    and json: "json_append_state H clk c record k t p (is_chain_linked_collection c) st = (r, st')"
    and sql: "sqlite_append H clk c record k t p (is_chain_linked_collection c) db = (r2, db')"
  shows "if map_of (st_records st) (scoped_key t p c k) = None \<and> repeats_id c record t p st
    then (\<exists>m. r2 = Inl (IntegrityError m)) \<and> sqlite_ok H db'
    else same_append r2 r \<and> sql_rel H db' st'"
proof -
  have ok: "store_ok H st" and rows: "db_rows db = map sql_row_of (rows_of st)"
    and heads: "db_heads db = map snd (st_heads st)" using rel by (auto simp: sql_rel_def)
  note ok' = json_append_state_ok [OF ok n wf json]
  note sel = select_row_rel [OF rel n, of k]
  show ?thesis
  proof (cases "map_of (st_records st) (scoped_key t p c k)")
    case (Some e)
    with json sql sel ok rel show ?thesis
      by (auto simp: sqlite_append_def json_append_state_unfold Let_def split: if_splits)
  next
    case None
    show ?thesis
    proof (cases "is_chain_linked_collection c")
      case True
      let ?h = "found_head (clk 0) t p c st"
      let ?db1 = "if map_of (st_heads st) (head_key t p c) = None then db\<lparr>db_heads := db_heads db @ [?h]\<rparr> else db"
      let ?b = "build_row H (clk 1) c record k t p (ch_last_chain_hash ?h) (ch_last_sequence ?h + 1) 1 None None (Some True)"
      have head1: "map snd (dset (st_heads st) (head_key t p c) ?h) = db_heads ?db1"
      proof (cases "map_of (st_heads st) (head_key t p c)")
        case None
        then show ?thesis by (simp add: dset_fresh heads)
      next
        case (Some h0)
        then have "dset (st_heads st) (head_key t p c) h0 = st_heads st"
          by (simp add: dset_def update_triv)
        with Some show ?thesis by (simp add: found_head_def heads)
      qed
      have st1: "sql_rel H ?db1 (st\<lparr>st_heads := dset (st_heads st) (head_key t p c) ?h\<rparr>)"
        using store_ok_new_head [OF ok n(1,2) True, of "clk 0"] head1 rows by (simp add: sql_rel_def rows_of_def)
      show ?thesis
      proof (cases ?b)
        case (Inl e)
        then have "extract_record_id c record None = Inl e" by (auto simp: build_row_def Let_def bindE_Inl_iff)
        with None Inl json sql sel True found_head_rel [OF rel n(1,2), of "clk 0" c] st1 show ?thesis
          by (auto simp: sqlite_append_def json_append_state_unfold Let_def bind_simps repeats_id_def)
      next
        case (Inr row)
        have uv: "unique_violated (sql_row_of row) ?db1 \<longleftrightarrow> repeats_id c record t p st"
          using Inr True by (intro unique_violated_rel [OF rel n _ None, where now' = "clk 0"]) auto
        show ?thesis
        proof (cases "repeats_id c record t p st")
          case True
          with None Inr sql sel found_head_rel [OF rel n(1,2), of "clk 0" c] uv \<open>is_chain_linked_collection c\<close> st1
          show ?thesis
            by (auto simp: sqlite_append_def Let_def bind_simps insert_row_def sqlite_ok_def)
        next
          case False
          have r: "r2 = Inr (sr_payload row, True)" "r = Inr (sr_payload row, True)"
            and db': "db' = update_head t p c (ch_last_sequence ?h + 1) (sr_chain_hash row) (clk 2)
              (?db1\<lparr>db_rows := db_rows ?db1 @ [sql_row_of row]\<rparr>)"
            using None Inr json sql sel found_head_rel [OF rel n(1,2), of "clk 0" c] uv False True
            by (simp_all add: sqlite_append_def json_append_state_unfold Let_def bind_simps insert_row_def to_public_def)
          have st': "st_records st' = dset (st_records st) (scoped_key t p c k) row"
              "st_heads st' = dset (st_heads st) (head_key t p c) (?h\<lparr>ch_last_sequence := ch_last_sequence ?h + 1,
                 ch_last_chain_hash := Some (sr_chain_hash row), ch_updated_at := clk 2\<rparr>)"
            using None Inr json True by (auto simp: json_append_state_unfold)
          have "db_rows ?db1 = map sql_row_of (rows_of st)" using rows by simp
          then have "db_rows db' = map sql_row_of (rows_of st')"
            unfolding db' update_head_def rows_of_def [of st'] st'(1) rows_of_append [OF None] by simp
          moreover have "db_heads db' = map snd (st_heads st')"
            unfolding db' st'(2) by (rule update_head_rel [OF rel n(1,2)]) simp
          ultimately show ?thesis using r ok' False by (simp add: sql_rel_def)
        qed
      qed
    next
      case False
      have num: "sqlite_next_sequence t p c db = next_mutable_sequence st t p c"
        by (simp add: sqlite_next_sequence_def next_mutable_sequence_def rows filter_map comp_def Let_def)
      show ?thesis
      proof (cases "build_row H (clk 1) c record k t p None (next_mutable_sequence st t p c) 1 None None (Some False)")
        case (Inl e)
        then have "extract_record_id c record None = Inl e" by (auto simp: build_row_def Let_def bindE_Inl_iff)
        with None Inl json sql sel False num rel show ?thesis
          by (auto simp: sqlite_append_def json_append_state_unfold Let_def bind_simps repeats_id_def sqlite_take_number_def)
      next
        case (Inr row)
        have uv: "unique_violated (sql_row_of row) db \<longleftrightarrow> repeats_id c record t p st"
          using Inr False by (intro unique_violated_rel [OF rel n _ None, where now' = "clk 0"]) auto
        show ?thesis
        proof (cases "repeats_id c record t p st")
          case True
          with None Inr sql sel num uv False rel show ?thesis
            by (auto simp: sqlite_append_def Let_def bind_simps insert_row_def sqlite_take_number_def sqlite_ok_def)
        next
          case norep: False
          have r: "r2 = Inr (sr_payload row, True)" "r = Inr (sr_payload row, True)"
            and db': "db' = db\<lparr>db_rows := db_rows db @ [sql_row_of row]\<rparr>"
            and st': "st' = st\<lparr>st_records := dset (st_records st) (scoped_key t p c k) row\<rparr>"
            using None Inr json sql sel num uv norep False
            by (simp_all add: sqlite_append_def json_append_state_unfold Let_def bind_simps insert_row_def
                to_public_def sqlite_take_number_def)
          with rows heads ok' norep rows_of_append [OF None] show ?thesis
            by (simp add: sql_rel_def rows_of_def [of "st\<lparr>st_records := _\<rparr>"])
        qed
      qed
    qed
  qed
qed

section \<open>Compare and set\<close>

definition same_cas :: "(pdict \<times> pdict) res \<Rightarrow> (pdict \<times> pdict) res \<Rightarrow> bool" where
  "same_cas a b \<longleftrightarrow> map_sum id (map_prod canon_dict canon_dict) a = map_sum id (map_prod canon_dict canon_dict) b"

lemma same_cas_simps [simp]:
  "same_cas a a" "same_cas (Inr (x, y)) (Inr (x', y')) \<longleftrightarrow> canon_dict x = canon_dict x' \<and> canon_dict y = canon_dict y'"
  by (simp_all add: same_cas_def)

lemma row_ok_linked_entry:
  assumes "row_ok H e"
  shows "\<exists>chain. dget_or (canon_dict (sr_payload e)) ''_chain'' (JObj []) = JObj chain \<and>
    (dget chain ''linked'' = JBool True \<longleftrightarrow> sr_chain_linked e)"
proof -
  have "row_ok H (norm_row e)" using assms by (rule row_ok_norm)
  then show ?thesis by (rule row_ok_chain_entry) simp
qed

theorem sqlite_cas_refines:
  assumes rel: "sql_rel H db st" and n: "nulfree t" "nulfree p" "nulfree c" and wf: "dwf record"
    and c: "\<not> is_chain_linked_collection c"
    and json: "json_cas_state H now c record k t p ev eh st = (r, st')"
    and sql: "sqlite_cas H now c record k t p ev eh db = (r2, db')"
  shows "same_cas r2 r \<and> sql_rel H db' st'"
proof -
  have ok: "store_ok H st" and rows: "db_rows db = map sql_row_of (rows_of st)"
    and heads: "db_heads db = map snd (st_heads st)" using rel by (auto simp: sql_rel_def)
  note ok' = json_cas_state_ok [OF ok n wf json]
  note sel = select_row_rel [OF rel n, of k]
  show ?thesis
  proof (cases "map_of (st_records st) (scoped_key t p c k)")
    case None
    with json sql sel rel show ?thesis by (auto simp: sqlite_cas_def json_cas_state_def)
  next
    case (Some e)
    from store_ok_row [OF ok Some] have e: "row_ok H e" "row_key e = scoped_key t p c k" by auto
    then have sc: "sr_tenant_id e = t \<and> sr_project_id e = p \<and> sr_collection e = c \<and> sr_canonical_key e = k"
      using n scoped_key_inj unfolding row_key_def row_ok_def by metis
    with e c have lk: "\<not> sr_chain_linked e" by (simp add: row_ok_def)
    obtain chain where ch: "dget_or (canon_dict (sr_payload e)) ''_chain'' (JObj []) = JObj chain"
      "dget chain ''linked'' \<noteq> JBool True" using row_ok_linked_entry [OF e(1)] lk by blast
    define hit where "hit = (\<lambda>r. q_key t p c k r \<and> q_row_version r = sr_row_version e \<and> q_payload_hash r = sr_payload_hash e)"
    have dist: "ddistinct (st_records st)" and keys: "\<And>k' r. (k', r) \<in> set (st_records st) \<Longrightarrow> k' = row_key r"
      using ok by (auto simp: store_ok_def keys_ok_def)
    have hit_iff: "hit (sql_row_of r) \<longleftrightarrow> k' = scoped_key t p c k" if kr: "(k', r) \<in> set (st_records st)" for k' r
    proof
      assume "hit (sql_row_of r)"
      then show "k' = scoped_key t p c k" using keys [OF kr] by (simp add: hit_def q_key_def in_scope_def row_key_def)
    next
      assume "k' = scoped_key t p c k"
      with kr Some dist have "r = e" by simp
      with sc show "hit (sql_row_of r)" by (simp add: hit_def q_key_def in_scope_def)
    qed
    have one: "length (filter hit (db_rows db)) = 1"
    proof -
      have "length (filter (\<lambda>x. fst x = scoped_key t p c k) (st_records st)) = 1"
        using filter_key_one [OF dist Some] by simp
      moreover have "filter hit (db_rows db) = map (sql_row_of \<circ> snd) (filter (\<lambda>x. fst x = scoped_key t p c k) (st_records st))"
      proof -
        have "filter (\<lambda>x. hit (sql_row_of (snd x))) (st_records st) = filter (\<lambda>x. fst x = scoped_key t p c k) (st_records st)"
          by (rule filter_cong [OF refl]) (use hit_iff in auto)
        then show ?thesis by (simp add: rows rows_of_def filter_map comp_def)
      qed
      ultimately show ?thesis by simp
    qed
    let ?new = "dset (with_scope record t p) ''_chain''
      (chain_value None (standalone_row_hash H c (with_scope record t p)) (sr_chain_sequence e) False)"
    let ?e' = "e\<lparr>sr_payload := ?new, sr_payload_hash := canonical_scoped_payload_hash H (with_scope record t p),
        sr_chain_hash := standalone_row_hash H c (with_scope record t p),
        sr_row_version := sr_row_version e + 1, sr_updated_at := now\<rparr>"
    show ?thesis
    proof (cases "(ev \<noteq> None \<and> Some (sr_row_version e) \<noteq> ev) \<or> (eh \<noteq> None \<and> Some (sr_payload_hash e) \<noteq> eh)")
      case True
      show ?thesis
      proof (cases "ev \<noteq> None \<and> Some (sr_row_version e) \<noteq> ev")
        case True
        with Some json sql sel c lk ch rel show ?thesis
          by (simp add: sqlite_cas_def json_cas_state_def bind_simps)
      next
        case False
        with True obtain h where h: "eh = Some h" "sr_payload_hash e \<noteq> h" by auto
        show ?thesis
          using False by (cases ev)
            (use Some json sql sel c lk ch rel h in \<open>auto simp: sqlite_cas_def json_cas_state_def bind_simps\<close>)
      qed
    next
      case False
      then have r: "r = Inr (?new, sr_payload e)" "r2 = Inr (?new, canon_dict (sr_payload e))"
        and st': "st' = st\<lparr>st_records := dset (st_records st) (scoped_key t p c k) ?e'\<rparr>"
        and db': "db' = db\<lparr>db_rows := map (\<lambda>r. if hit r then r\<lparr>q_payload := canon_dict ?new,
            q_payload_hash := canonical_scoped_payload_hash H (with_scope record t p),
            q_row_version := sr_row_version e + 1, q_chain_hash := standalone_row_hash H c (with_scope record t p),
            q_updated_at := now\<rparr> else r) (db_rows db)\<rparr>"
        using Some json sql sel c lk ch one
        by (auto simp: sqlite_cas_def json_cas_state_def bind_simps Let_def to_public_def hit_def [symmetric])
      have "db_rows db' = map sql_row_of (rows_of st')"
      proof -
        have "map sql_row_of (map snd (dset (st_records st) (scoped_key t p c k) ?e')) =
          map (\<lambda>r. if hit r then r\<lparr>q_payload := canon_dict ?new,
            q_payload_hash := canonical_scoped_payload_hash H (with_scope record t p),
            q_row_version := sr_row_version e + 1, q_chain_hash := standalone_row_hash H c (with_scope record t p),
            q_updated_at := now\<rparr> else r) (map sql_row_of (map snd (st_records st)))"
          by (rule map_dset_upd [OF dist Some, where P = hit]) (use hit_iff in \<open>simp_all add: sql_row_of_def\<close>)
        then show ?thesis by (simp add: db' st' rows rows_of_def del: map_map)
      qed
      with r ok' st' db' heads show ?thesis by (simp add: sql_rel_def)
    qed
  qed
qed

section \<open>Reading\<close>

theorem sqlite_get_refines:
  assumes "sql_rel H db st" "nulfree t" "nulfree p" "nulfree c"
  shows "sqlite_get c k t p db = map_sum id canon_dict (get_scoped_state c k t p st)"
  using select_row_rel [OF assms, of k] by (simp add: sqlite_get_def get_scoped_state_def to_public_def split: option.split)

lemma sort_key_sql: "(\<And>s. g (sql_row_of s) = f s) \<Longrightarrow> sort_key g (map sql_row_of xs) = map sql_row_of (sort_key f xs)"
  by (simp add: sort_key_map)

lemma filter_sql: "(\<And>s. g (sql_row_of s) = f s) \<Longrightarrow> filter g (map sql_row_of xs) = map sql_row_of (filter f xs)"
  by (simp add: filter_map comp_def)

theorem sqlite_list_refines:
  assumes "sql_rel H db st"
  shows "sqlite_list c t p limit offset db = map canon_dict (list_scoped_state c t p limit offset st)"
  using assms
  by (simp add: sqlite_list_def list_scoped_state_def sql_rel_def filter_sql [where f = "in_scope t p c"] sort_key_sql
      slice_def take_map drop_map to_public_def)

theorem sqlite_admin_list_refines:
  assumes "sql_rel H db st"
  shows "sqlite_admin_list c t p limit offset db = map canon_dict (admin_list_state c t p limit offset st)"
proof -
  let ?f = "\<lambda>s. sr_collection s = c \<and> (t = None \<or> Some (sr_tenant_id s) = t) \<and> (p = None \<or> Some (sr_project_id s) = p)"
  have "filter (\<lambda>row. scope_matches (sr_tenant_id row) (sr_project_id row) t p)
      (filter (\<lambda>row. sr_collection row = c) (rows_of st)) = filter ?f (rows_of st)"
    by (auto simp: scope_matches_def intro!: filter_cong)
  with assms show ?thesis
    by (simp add: sqlite_admin_list_def admin_list_state_def sql_rel_def filter_sql [where f = ?f] sort_key_sql
        slice_def take_map drop_map to_public_def)
qed

section \<open>Verifying\<close>

lemma sqlite_view_linked:
  assumes "row_ok H r" "is_chain_linked_collection (sr_collection r) = b"
  shows "sqlite_view b (sql_row_of r) = row_view (norm_row r)"
  using assms by (simp add: sqlite_view_def row_view_def row_ok_def)

lemma sql_scope_rows:
  assumes rel: "sql_rel H db st" and n: "nulfree t" "nulfree p" "is_chain_linked_collection c"
    and rows: "mset rows = mset (map sql_row_of (scope_rows st t p c))"
  shows "validate_linked_chain_group H t p c (map (sqlite_view True) rows)
    (map_option head_view (select_head t p c db)) = Inr (length rows)"
proof -
  let ?rs = "scope_rows (norm_state st) t p c"
  have ok: "store_ok H (norm_state st)" using rel store_ok_norm by (auto simp: sql_rel_def)
  have "row_ok H r \<and> is_chain_linked_collection (sr_collection r)" if "r \<in> set (scope_rows st t p c)" for r
    using that rel n by (auto simp: sql_rel_def store_ok_def scope_rows_def in_scope_def)
  then have eq: "map (sqlite_view True \<circ> sql_row_of) (scope_rows st t p c) = map (row_view \<circ> norm_row) (scope_rows st t p c)"
    by (intro map_cong) (auto simp: sqlite_view_linked [of H])
  have "mset (map (sqlite_view True) rows) = mset (map (sqlite_view True) (map sql_row_of (scope_rows st t p c)))"
    using rows by (simp only: mset_map)
  also have "map (sqlite_view True) (map sql_row_of (scope_rows st t p c)) = map row_view ?rs"
    using eq by (simp only: map_map scope_rows_norm)
  finally have perm: "mset (map (sqlite_view True) rows) = mset (map row_view ?rs)" .
  have "chain_from None 1 ?rs" using ok chains_okD n by (auto simp: store_ok_def)
  from chain_from_sequences [OF this] have "distinct (map sr_chain_sequence ?rs)"
    by (simp add: distinct_map inj_on_def del: map_map)
  then have "inj_on cv_chain_sequence (set (map row_view ?rs))"
    by (auto simp: inj_on_def distinct_map row_view_def)
  then have same: "sort_key cv_chain_sequence (map (sqlite_view True) rows) = sort_key cv_chain_sequence (map row_view ?rs)"
    using perm sort_key_perm_inj by metis
  have len: "length rows = length ?rs" and st: "set (map (sqlite_view True) rows) = set (map row_view ?rs)"
    using perm by (metis length_map mset_eq_length, metis set_mset_mset)
  have "map_option head_view (select_head t p c db) = map_option head_view (map_of (st_heads (norm_state st)) (head_key t p c))"
    using select_head_rel [OF rel n(1,2)] by (simp add: norm_state_def)
  with scope_rows_group [OF ok n] same len st show ?thesis
    unfolding validate_linked_chain_group_iff by (metis length_map list.map_disc_iff length_0_conv)
qed

lemma sqlite_check_groups_ok:
  assumes "\<And>t p c rows. ((t, p, c), rows) \<in> set gs \<Longrightarrow>
      validate_linked_chain_group H t p c (map (sqlite_view True) rows)
        (map_option head_view (select_head t p c db)) = Inr (length rows)"
  shows "\<exists>hs. sqlite_check_groups H db gs n heads = Inr (n + sum_list (map (length \<circ> snd) gs), hs)"
  using assms
proof (induction gs arbitrary: n heads)
  case (Cons g gs)
  obtain t p c rows where g: "g = ((t, p, c), rows)" by (cases g) auto
  have v: "validate_linked_chain_group H t p c (map (sqlite_view True) rows)
      (map_option head_view (select_head t p c db)) = Inr (length rows)" by (rule Cons.prems) (simp add: g)
  have IH: "\<exists>hs. sqlite_check_groups H db gs n heads = Inr (n + sum_list (map (length \<circ> snd) gs), hs)" for n heads
    by (rule Cons.IH, rule Cons.prems) simp
  obtain hs where "sqlite_check_groups H db gs (n + length rows) (dset heads (chain_scope_label t p c)
      (case map_option head_view (select_head t p c db) of None \<Rightarrow> None | Some h \<Rightarrow> hv_last_chain_hash h)) =
      Inr (n + length rows + sum_list (map (length \<circ> snd) gs), hs)" using IH by blast
  with v show ?case by (simp only: g) (simp add: add.assoc comp_def)
qed simp

lemma linked_collections_set: "c \<in> set (sqlite_linked_collections f) \<longleftrightarrow>
    is_chain_linked_collection c \<and> (f = None \<or> f = Some c)"
  by (auto simp: sqlite_linked_collections_def is_chain_linked_collection_def split: option.splits)

lemma distinct_linked_collections: "distinct (sqlite_linked_collections f)"
  by (simp add: sqlite_linked_collections_def CHAIN_LINKED_COLLECTIONS_def SCOPED_COLLECTIONS_def split: option.split)

text \<open>The rows of one group of the query are the rows of its scope, in some order.\<close>

lemma mset_filter_concat:
  "distinct cs \<Longrightarrow> c \<in> set cs \<Longrightarrow> (\<And>c' x. c' \<in> set cs \<Longrightarrow> x \<in> set (f c') \<Longrightarrow> P x \<Longrightarrow> c' = c)
   \<Longrightarrow> filter P (concat (map f cs)) = filter P (f c)"
proof (induction cs)
  case (Cons a cs)
  show ?case
  proof (cases "a = c")
    case True
    with Cons.prems have "filter P (concat (map f cs)) = []" by (fastforce simp: filter_empty_conv)
    with True show ?thesis by simp
  next
    case False
    with Cons.prems have "filter P (f a) = []" by (fastforce simp: filter_empty_conv)
    with Cons False show ?thesis by simp
  qed
qed simp

lemma sqlite_groups_mem:
  assumes rel: "sql_rel H db st"
    and g: "((t, p, c), rows) \<in> set (sqlite_groups (sqlite_group_rows ft fp fc db))"
  shows "nulfree t \<and> nulfree p \<and> is_chain_linked_collection c \<and> rows \<noteq> [] \<and>
    mset rows = mset (map sql_row_of (scope_rows st t p c))"
proof -
  let ?f = "\<lambda>coll. sort_key (\<lambda>r. (q_tenant_id r, q_project_id r, q_collection r, q_chain_sequence r))
       (filter (\<lambda>r. q_collection r = coll \<and> scope_matches (q_tenant_id r) (q_project_id r) ft fp) (db_rows db))"
  have rows: "rows = filter (\<lambda>r. q_row_scope r = (t, p, c)) (sqlite_group_rows ft fp fc db)"
    and mem: "(t, p, c) \<in> q_row_scope ` set (sqlite_group_rows ft fp fc db)"
    using g by (auto simp: sqlite_groups_def)
  then obtain q where q: "q \<in> set (sqlite_group_rows ft fp fc db)" "q_row_scope q = (t, p, c)" by auto
  then have c: "c \<in> set (sqlite_linked_collections fc)" "scope_matches t p ft fp" "q \<in> set (db_rows db)"
    by (auto simp: sqlite_group_rows_def q_row_scope_def)
  have "rows = filter (\<lambda>r. q_row_scope r = (t, p, c)) (?f c)"
    unfolding rows sqlite_group_rows_def
    by (rule mset_filter_concat [OF distinct_linked_collections c(1)]) (auto simp: q_row_scope_def)
  then have "mset rows = filter_mset (\<lambda>r. q_row_scope r = (t, p, c)) (mset (?f c))" by simp
  also have "\<dots> = mset (filter (q_scope t p c) (db_rows db))"
    using c(2) by (simp add: filter_filter_mset) (rule filter_mset_cong, auto simp: q_row_scope_def q_scope_def)
  also have "filter (q_scope t p c) (db_rows db) = map sql_row_of (scope_rows st t p c)"
    using rel by (simp add: sql_rel_def scope_rows_def filter_sql [where f = "in_scope t p c"])
  finally have m: "mset rows = mset (map sql_row_of (scope_rows st t p c))" .
  obtain s where "s \<in> set (rows_of st)" "q = sql_row_of s" using rel c(3) by (auto simp: sql_rel_def)
  with q rel have "nulfree t \<and> nulfree p" by (auto simp: sql_rel_def store_ok_def row_ok_def q_row_scope_def)
  moreover have "rows \<noteq> []" using rows q by (auto simp: filter_empty_conv)
  ultimately show ?thesis using m c(1) linked_collections_set by blast
qed

theorem sqlite_ok_verifies:
  assumes "sqlite_ok H db"
  shows "\<exists>rep. verify_sqlite H t p c db = Inr rep"
proof -
  obtain st where rel: "sql_rel H db st" using assms by (auto simp: sqlite_ok_def)
  have ok: "store_ok H st" using rel by (simp add: sql_rel_def)
  let ?gs = "sqlite_groups (sqlite_group_rows t p c db)"
  obtain n hs where gs: "sqlite_check_groups H db ?gs 0 [] = Inr (n, hs)"
    using sqlite_check_groups_ok [of ?gs H db 0 "[]"] sqlite_groups_mem [OF rel] sql_scope_rows [OF rel] by blast
  have "\<not> invalid_orphan_head (head_view h)"
    if h: "h \<in> set (db_heads db)" "head_scope h \<notin> set (map fst ?gs)"
      "ch_collection h \<in> set (sqlite_linked_collections c)" "scope_matches (ch_tenant_id h) (ch_project_id h) t p" for h
  proof -
    obtain k where kh: "(k, h) \<in> set (st_heads st)" using h(1) rel by (auto simp: sql_rel_def)
    have keys: "keys_ok st" "chains_ok st" using ok by (auto simp: store_ok_def)
    have "\<forall>(k, h) \<in> set (st_heads st). k = chain_head_key h \<and> nulfree (ch_tenant_id h) \<and>
        nulfree (ch_project_id h) \<and> is_chain_linked_collection (ch_collection h)"
      using keys by (simp add: keys_ok_def)
    from bspec [OF this kh] have hk: "k = chain_head_key h" "nulfree (ch_tenant_id h)" "nulfree (ch_project_id h)"
      "is_chain_linked_collection (ch_collection h)" by auto
    have "map_of (st_heads st) k = Some h" using kh keys by (simp add: keys_ok_def)
    with chains_okD [OF keys(2) hk(2-4)] hk(1)
    have ag: "head_agrees (Some h) (scope_rows st (ch_tenant_id h) (ch_project_id h) (ch_collection h))"
      by (simp add: chain_head_key_def)
    have "scope_rows st (ch_tenant_id h) (ch_project_id h) (ch_collection h) = []"
    proof (rule ccontr)
      assume "scope_rows st (ch_tenant_id h) (ch_project_id h) (ch_collection h) \<noteq> []"
      then obtain s where "s \<in> set (rows_of st)" "in_scope (ch_tenant_id h) (ch_project_id h) (ch_collection h) s"
        by (auto simp: scope_rows_def filter_empty_conv)
      then have "sql_row_of s \<in> set (sqlite_group_rows t p c db)" "q_row_scope (sql_row_of s) = head_scope h"
        using rel h(3,4) by (auto simp: sql_rel_def sqlite_group_rows_def in_scope_def q_row_scope_def head_scope_def)
      then have "head_scope h \<in> set (map fst ?gs)" by (force simp: sqlite_groups_def image_iff)
      with h(2) show False by contradiction
    qed
    with ag show ?thesis by (simp add: head_agrees_def invalid_orphan_head_def head_view_def last_hash_def)
  qed
  then have orphans: "sqlite_check_orphans t p (sqlite_linked_collections c) (map fst ?gs) db = Inr ()"
    by (auto simp: sqlite_check_orphans_def allE_Inr_iff)
  have "validate_standalone_row H (sqlite_view False r) = Inr ()"
    if "r \<in> set (sqlite_standalone_rows t p c db)" for r
  proof -
    from that rel obtain s where s: "s \<in> set (rows_of st)" "r = sql_row_of s"
        "\<not> is_chain_linked_collection (sr_collection s)"
      by (auto simp: sqlite_standalone_rows_def sql_rel_def is_chain_linked_collection_def)
    with ok have "row_ok H s" by (simp add: store_ok_def)
    with s show ?thesis
      using row_ok_standalone [OF row_ok_norm] by (simp add: sqlite_view_linked) (simp add: row_ok_def)
  qed
  then have "allE (\<lambda>r. validate_standalone_row H (sqlite_view False r)) (sqlite_standalone_rows t p c db) = Inr ()"
    by (simp add: allE_Inr_iff)
  with gs orphans show ?thesis by (simp add: verify_sqlite_def Let_def)
qed

end
