(* ===== verification/Ledger_Contract.thy ===== *)
theory Ledger_Contract
  imports Sqlite_Refinement
begin

text \<open>
  The contract of a scoped ledger towards its callers, stated as a locale over whatever keeps
  the records, with what callers derive from it, and its two interpretations: the JSON engine and the SQLite
  engine.
\<close>

section \<open>The contract\<close>

text \<open>A caller that registers a list of records, one append after the other, stopping at the first exception.\<close>

fun append_all ::
  "(string \<Rightarrow> pdict \<Rightarrow> string \<Rightarrow> string \<Rightarrow> string \<Rightarrow> ('s, pdict \<times> bool) act) \<Rightarrow> string \<Rightarrow> string
   \<Rightarrow> (string \<times> string \<times> pdict) list \<Rightarrow> ('s, pdict list) act" where
  "append_all add t p [] = retS []"
| "append_all add t p ((c, k, record) # items) =
     bindS (add c record k t p) (\<lambda>(payload, _).
     bindS (append_all add t p items) (\<lambda>payloads. retS (payload # payloads)))"

locale scoped_ledger =
  fixes inv :: "'s \<Rightarrow> bool"
    and add :: "string \<Rightarrow> pdict \<Rightarrow> string \<Rightarrow> string \<Rightarrow> string \<Rightarrow> ('s, pdict \<times> bool) act"
    and fetch :: "string \<Rightarrow> string \<Rightarrow> string \<Rightarrow> string \<Rightarrow> 's \<Rightarrow> pdict res"
  assumes append_inv: "inv s \<Longrightarrow> nulfree t \<Longrightarrow> nulfree p \<Longrightarrow> dwf d \<Longrightarrow> add c d k t p s = (r, s') \<Longrightarrow> inv s'"
    and append_fetch: "inv s \<Longrightarrow> nulfree t \<Longrightarrow> nulfree p \<Longrightarrow> dwf d
      \<Longrightarrow> add c d k t p s = (Inr (payload, created), s') \<Longrightarrow> same_read (fetch c k t p s') (Inr payload)"
    and append_frame: "inv s \<Longrightarrow> nulfree t \<Longrightarrow> nulfree p \<Longrightarrow> nulfree t' \<Longrightarrow> nulfree p' \<Longrightarrow> dwf d
      \<Longrightarrow> add c d k t p s = (r, s') \<Longrightarrow> (t', p', c', k') \<noteq> (t, p, c, k) \<or> (\<exists>e. r = Inl e)
      \<Longrightarrow> same_read (fetch c' k' t' p' s') (fetch c' k' t' p' s)"
begin

lemma append_all_inv:
  "inv s \<Longrightarrow> nulfree t \<Longrightarrow> nulfree p \<Longrightarrow> list_all (\<lambda>(c, k, d). dwf d) items
   \<Longrightarrow> append_all add t p items s = (r, s') \<Longrightarrow> inv s'"
proof (induction items arbitrary: s r s')
  case (Cons item items)
  obtain c k d where item: "item = (c, k, d)" by (cases item)
  obtain x s1 where x: "add c d k t p s = (x, s1)" by fastforce
  have s1: "inv s1" using append_inv [OF Cons.prems(1-3) _ x] Cons.prems(4) by (simp add: item)
  show ?case
  proof (cases x)
    case (Inl e)
    with Cons.prems(5) x s1 show ?thesis by (simp add: item bindS_def)
  next
    case (Inr y)
    obtain r2 s2 where y: "append_all add t p items s1 = (r2, s2)" by fastforce
    have "inv s2" using Cons.IH [OF s1 Cons.prems(2,3) _ y] Cons.prems(4) by (simp add: item)
    with Inr x y Cons.prems(5) show ?thesis
      by (cases r2) (auto simp: item bindS_def retS_def split: prod.splits)
  qed
qed (simp add: retS_def)

text \<open>Appends under other keys leave a record readable, so that a whole batch can be read back.\<close>

lemma append_all_frame:
  "inv s \<Longrightarrow> nulfree t \<Longrightarrow> nulfree p \<Longrightarrow> nulfree t' \<Longrightarrow> nulfree p' \<Longrightarrow> list_all (\<lambda>(c, k, d). dwf d) items
   \<Longrightarrow> append_all add t p items s = (r, s') \<Longrightarrow> (t', p') \<noteq> (t, p) \<or> (c', k') \<notin> set (map (\<lambda>(c, k, d). (c, k)) items)
   \<Longrightarrow> same_read (fetch c' k' t' p' s') (fetch c' k' t' p' s)"
proof (induction items arbitrary: s r s')
  case (Cons item items)
  obtain c k d where item: "item = (c, k, d)" by (cases item)
  obtain x s1 where x: "add c d k t p s = (x, s1)" by fastforce
  have s1: "inv s1" using append_inv [OF Cons.prems(1-3) _ x] Cons.prems(6) by (simp add: item)
  have f1: "same_read (fetch c' k' t' p' s1) (fetch c' k' t' p' s)"
    using append_frame [OF Cons.prems(1-5) _ x] Cons.prems(6,8) by (auto simp: item)
  show ?case
  proof (cases x)
    case (Inl e)
    with Cons.prems(7) x f1 show ?thesis by (simp add: item bindS_def)
  next
    case (Inr y)
    obtain r2 s2 where y: "append_all add t p items s1 = (r2, s2)" by fastforce
    have "same_read (fetch c' k' t' p' s2) (fetch c' k' t' p' s1)"
      using Cons.IH [OF s1 Cons.prems(2-5) _ y] Cons.prems(6,8) by (auto simp: item)
    moreover have "s' = s2" using Inr x y Cons.prems(7)
      by (cases r2) (auto simp: item bindS_def retS_def split: prod.splits)
    ultimately show ?thesis using f1 by (simp add: same_read_def)
  qed
qed (simp add: retS_def)

lemma append_all_read_back:
  "inv s \<Longrightarrow> nulfree t \<Longrightarrow> nulfree p \<Longrightarrow> list_all (\<lambda>(c, k, d). dwf d) items
   \<Longrightarrow> distinct (map (\<lambda>(c, k, d). (c, k)) items) \<Longrightarrow> append_all add t p items s = (Inr payloads, s')
   \<Longrightarrow> list_all2 (\<lambda>(c, k, d) payload. same_read (fetch c k t p s') (Inr payload)) items payloads"
proof (induction items arbitrary: s payloads)
  case (Cons item items)
  obtain c k d where item: "item = (c, k, d)" by (cases item)
  from Cons.prems(6) obtain payload created s1 ps where
    x: "add c d k t p s = (Inr (payload, created), s1)"
    and y: "append_all add t p items s1 = (Inr ps, s')" and ps: "payloads = payload # ps"
    by (auto simp: item retS_def elim!: bindS_InrE)
  have s1: "inv s1" using append_inv [OF Cons.prems(1-3) _ x] Cons.prems(4) by (simp add: item)
  have "same_read (fetch c k t p s1) (Inr payload)"
    using append_fetch [OF Cons.prems(1-3) _ x] Cons.prems(4) by (simp add: item)
  moreover have "same_read (fetch c k t p s') (fetch c k t p s1)"
    using append_all_frame [OF s1 Cons.prems(2,3,2,3) _ y] Cons.prems(4,5) by (auto simp: item)
  ultimately have "same_read (fetch c k t p s') (Inr payload)" by (simp add: same_read_def)
  with Cons.IH [OF s1 Cons.prems(2,3) _ _ y] Cons.prems(4,5) show ?case by (simp add: item ps)
qed (simp add: retS_def)

end

section \<open>The JSON engine\<close>

interpretation json_ledger: scoped_ledger "engine_ok H" "engine_append_scoped H clk" engine_get_scoped for H clk
  by unfold_locales (fact engine_append_ok get_after_append append_other_get)+

section \<open>The SQLite engine\<close>

definition sqlite_engine_ok :: "(string \<Rightarrow> string) \<Rightarrow> sqlite_engine \<Rightarrow> bool" where
  "sqlite_engine_ok H eng \<longleftrightarrow> sqlite_ok H (sq_committed eng) \<and>
     (case sq_tx eng of None \<Rightarrow> True | Some (db, _) \<Rightarrow> sqlite_ok H db)"

lemma sqlite_engine_ok_read: "sqlite_engine_ok H eng \<Longrightarrow> sqlite_ok H (sqlite_read eng)"
  by (auto simp: sqlite_engine_ok_def sqlite_read_def split: option.splits)

lemma with_connection_ok:
  assumes "sqlite_engine_ok H eng" "with_connection f eng = (r, eng')"
    and "\<And>db r db'. sqlite_ok H db \<Longrightarrow> f db = (r, db') \<Longrightarrow> sqlite_ok H db'"
  shows "sqlite_engine_ok H eng'"
  using assms
  by (fastforce simp: with_connection_def sqlite_engine_ok_def split: option.splits prod.splits sum.splits)

lemma with_connection_Inr:
  "with_connection f eng = (Inr x, eng') \<Longrightarrow> f (sqlite_read eng) = (Inr x, sqlite_read eng')"
  by (auto simp: with_connection_def sqlite_read_def split: option.splits prod.splits sum.splits)

lemma with_connection_read:
  "with_connection f eng = (r, eng') \<Longrightarrow> f (sqlite_read eng) = (r2, db') \<Longrightarrow>
     r2 = r \<and> (sqlite_read eng' = db' \<or> (\<exists>e. r = Inl e) \<and> sqlite_read eng' = sqlite_read eng)"
  by (auto simp: with_connection_def sqlite_read_def split: option.splits prod.splits sum.splits)

lemma sqlite_append_cases:
  assumes "sqlite_append_scoped H clk c record k t p eng = (r, eng')"
  obtains (stop) e where "r = Inl e" "eng' = eng"
  | (run) "validate_collection c False True False = Inr ()"
      "with_connection (sqlite_append H clk c record k t p (is_chain_linked_collection c)) eng = (r, eng')"
  using assms unfolding sqlite_append_scoped_def Let_def by (auto dest!: liftS_bind_run)

lemma sqlite_append_rel:
  assumes "sqlite_ok H db" "nulfree t" "nulfree p" "nulfree c" "dwf record"
    and "sqlite_append H clk c record k t p (is_chain_linked_collection c) db = (r, db')"
  obtains (refused) "\<exists>e. r = Inl e" "sqlite_ok H db'" "db_rows db' = db_rows db"
  | (ran) st r1 st' where "sql_rel H db st" "sql_rel H db' st'" "same_append r r1"
      "json_append_state H clk c record k t p (is_chain_linked_collection c) st = (r1, st')"
proof -
  obtain st where st: "sql_rel H db st" using assms(1) by (auto simp: sqlite_ok_def)
  obtain r1 st' where j: "json_append_state H clk c record k t p (is_chain_linked_collection c) st = (r1, st')"
    by fastforce
  note ref = sqlite_append_refines [OF st assms(2-5) j assms(6)]
  show ?thesis
  proof (cases "map_of (st_records st) (scoped_key t p c k) = None \<and> repeats_id c record t p st")
    case True
    with ref have r: "\<exists>e. r = Inl e" "sqlite_ok H db'" by auto
    have "db_rows db' = db_rows db"
      using assms(6) r(1)
      by (auto simp: sqlite_append_def Let_def bindS_def liftS_def insert_row_def sqlite_take_number_def
          insert_head_def retS_def split: option.splits if_splits sum.splits prod.splits)
    with r refused show ?thesis by blast
  next
    case False
    with ref ran [OF st _ _ j] show ?thesis by auto
  qed
qed

lemma sqlite_append_ok:
  assumes "sqlite_engine_ok H eng" "nulfree t" "nulfree p" "dwf record"
    and "sqlite_append_scoped H clk c record k t p eng = (r, eng')"
  shows "sqlite_engine_ok H eng'"
  using assms(5)
proof (cases rule: sqlite_append_cases)
  case run
  from append_collection_nulfree [OF run(1)] have c: "nulfree c" .
  show ?thesis
    by (rule with_connection_ok [OF assms(1) run(2)])
      (erule sqlite_append_rel [OF _ assms(2,3) c assms(4)], assumption, auto simp: sqlite_ok_def)
qed (use assms in simp)

lemma sqlite_get_found:
  assumes "sql_rel H db st" "nulfree t" "nulfree p" "nulfree c"
    and "map_of (st_records st) (scoped_key t p c k) = Some row"
  shows "sqlite_get c k t p db = Inr (canon_dict (sr_payload row))"
  using sqlite_get_refines [OF assms(1-4), of k] assms(5) by (simp add: get_scoped_state_def to_public_def)

lemma sqlite_append_fetch:
  assumes ok: "sqlite_engine_ok H eng" and n: "nulfree t" "nulfree p" and wf: "dwf record"
    and call: "sqlite_append_scoped H clk c record k t p eng = (Inr (payload, created), eng')"
  shows "same_read (sqlite_get_scoped c k t p eng') (Inr payload)"
  using call
proof (cases rule: sqlite_append_cases)
  case run
  from append_collection_nulfree [OF run(1)] have c: "nulfree c" .
  from sqlite_engine_ok_read [OF ok] n c wf with_connection_Inr [OF run(2)] show ?thesis
  proof (cases rule: sqlite_append_rel)
    case (ran st r1 st')
    then obtain payload1 where r1: "r1 = Inr (payload1, created)" "canon_dict payload1 = canon_dict payload"
      by (cases r1) (auto simp: same_append_def)
    from append_state_found [OF ran(4) [unfolded r1(1)]] obtain row where
      "map_of (st_records st') (scoped_key t p c k) = Some row" "sr_payload row = payload1" by blast
    with sqlite_get_found [OF ran(2) n c] r1 read_allowed [OF run(1)] show ?thesis
      by (simp add: sqlite_get_scoped_def)
  qed auto
qed simp

lemma select_row_cong: "db_rows db' = db_rows db \<Longrightarrow> sqlite_get c k t p db' = sqlite_get c k t p db"
  by (simp add: sqlite_get_def select_row_def)

lemma sqlite_append_frame:
  assumes ok: "sqlite_engine_ok H eng" and n: "nulfree t" "nulfree p" "nulfree t'" "nulfree p'" and wf: "dwf record"
    and call: "sqlite_append_scoped H clk c record k t p eng = (r, eng')"
    and other: "(t', p', c', k') \<noteq> (t, p, c, k) \<or> (\<exists>e. r = Inl e)"
  shows "same_read (sqlite_get_scoped c' k' t' p' eng') (sqlite_get_scoped c' k' t' p' eng)"
proof (cases "validate_collection c' False False True")
  case (Inl e)
  then show ?thesis by (simp add: sqlite_get_scoped_def)
next
  case (Inr u)
  then have c': "nulfree c'" by (simp add: read_nulfree)
  show ?thesis
    using call
  proof (cases rule: sqlite_append_cases)
    case run
    from append_collection_nulfree [OF run(1)] have c: "nulfree c" .
    obtain r2 db' where f: "sqlite_append H clk c record k t p (is_chain_linked_collection c) (sqlite_read eng) = (r2, db')"
      by fastforce
    from with_connection_read [OF run(2) f] have r: "r2 = r"
      and read: "sqlite_read eng' = db' \<or> sqlite_read eng' = sqlite_read eng" by auto
    have "same_read (sqlite_get c' k' t' p' db') (sqlite_get c' k' t' p' (sqlite_read eng))"
      using sqlite_engine_ok_read [OF ok] n(1,2) c wf f
    proof (cases rule: sqlite_append_rel)
      case refused
      show ?thesis by (simp add: select_row_cong [OF refused(3)])
    next
      case (ran st r1 st')
      have "map_of (st_records st') (scoped_key t' p' c' k') = map_of (st_records st) (scoped_key t' p' c' k')"
      proof (cases "\<exists>e. r = Inl e")
        case True
        with ran(3) r have "\<exists>e. r1 = Inl e" by (cases r1) (auto simp: same_append_def)
        with ran(4) show ?thesis by (auto elim: append_state_cases)
      next
        case False
        with other have "scoped_key t' p' c' k' \<noteq> scoped_key t p c k" using scoped_key_inj n c c' by blast
        from append_state_other [OF ran(4) this] show ?thesis .
      qed
      with sqlite_get_refines [OF ran(1) n(3,4) c'] sqlite_get_refines [OF ran(2) n(3,4) c'] show ?thesis
        by (simp add: get_scoped_state_def)
    qed
    with read Inr show ?thesis by (auto simp: sqlite_get_scoped_def)
  qed simp
qed

interpretation sqlite_ledger: scoped_ledger "sqlite_engine_ok H" "sqlite_append_scoped H clk" sqlite_get_scoped for H clk
  by unfold_locales (fact sqlite_append_ok sqlite_append_fetch sqlite_append_frame)+

section \<open>Steps of the SQLite engine\<close>

inductive sqlite_call :: "(string \<Rightarrow> string) \<Rightarrow> sqlite_engine \<Rightarrow> sqlite_engine \<Rightarrow> bool" for H where
  append: "nulfree t \<Longrightarrow> nulfree p \<Longrightarrow> dwf rcd
    \<Longrightarrow> sqlite_append_scoped H clk c rcd k t p eng = (r, eng') \<Longrightarrow> sqlite_call H eng eng'"
| cas: "nulfree t \<Longrightarrow> nulfree p \<Longrightarrow> dwf rcd
    \<Longrightarrow> sqlite_compare_and_set_scoped H now c rcd k t p ev eh eng = (r, eng') \<Longrightarrow> sqlite_call H eng eng'"

definition sqlite_program :: "(string \<Rightarrow> string) \<Rightarrow> (sqlite_engine, 'a) act \<Rightarrow> bool" where
  "sqlite_program H fn \<longleftrightarrow> (\<forall>eng. (sqlite_call H)\<^sup>*\<^sup>* eng (snd (fn eng)))"

inductive sqlite_step :: "(string \<Rightarrow> string) \<Rightarrow> sqlite_engine \<Rightarrow> sqlite_engine \<Rightarrow> bool" for H where
  call: "sqlite_call H eng eng' \<Longrightarrow> sqlite_step H eng eng'"
| transaction: "sqlite_program H fn \<Longrightarrow> sqlite_run_scoped_transaction t p refs fn eng = ((r :: unit res), eng')
    \<Longrightarrow> sqlite_step H eng eng'"

inductive_cases sqlite_stepE: "sqlite_step H eng eng'"

lemma sqlite_cas_cases:
  assumes "sqlite_compare_and_set_scoped H now c record k t p ev eh eng = (r, eng')"
  obtains (stop) "eng' = eng"
  | (run) "c \<in> set CAS_ALLOWED_COLLECTIONS" "with_connection (sqlite_cas H now c record k t p ev eh) eng = (r, eng')"
  using assms unfolding sqlite_compare_and_set_scoped_def
  by (auto simp: validate_collection_def Let_def dest!: liftS_bind_run)

lemma sqlite_cas_ok:
  assumes "sqlite_engine_ok H eng" "nulfree t" "nulfree p" "dwf record"
    and "sqlite_compare_and_set_scoped H now c record k t p ev eh eng = (r, eng')"
  shows "sqlite_engine_ok H eng'"
  using assms(5)
proof (cases rule: sqlite_cas_cases)
  case run
  have c: "nulfree c" "\<not> is_chain_linked_collection c" using run(1) cas_nulfree collections_disjoint by auto
  have "sqlite_ok H db'" if "sqlite_ok H db" "sqlite_cas H now c record k t p ev eh db = (r, db')" for db r db'
  proof -
    from that(1) obtain st where st: "sql_rel H db st" by (auto simp: sqlite_ok_def)
    obtain r1 st' where "json_cas_state H now c record k t p ev eh st = (r1, st')" by fastforce
    from sqlite_cas_refines [OF st assms(2,3) c(1) assms(4) c(2) this that(2)] show ?thesis
      by (auto simp: sqlite_ok_def)
  qed
  then show ?thesis by (rule with_connection_ok [OF assms(1) run(2)])
qed (use assms in simp)

lemma sqlite_call_ok: "sqlite_call H eng eng' \<Longrightarrow> sqlite_engine_ok H eng \<Longrightarrow> sqlite_engine_ok H eng'"
  by (induction rule: sqlite_call.induct) (rule sqlite_append_ok sqlite_cas_ok; assumption)+

lemma sqlite_calls_ok: "(sqlite_call H)\<^sup>*\<^sup>* eng eng' \<Longrightarrow> sqlite_engine_ok H eng \<Longrightarrow> sqlite_engine_ok H eng'"
  by (induction rule: rtranclp_induct) (auto intro: sqlite_call_ok)

lemma sqlite_transaction_keeps:
  assumes ok: "sqlite_engine_ok H eng"
    and fn: "\<And>eng x eng2. sqlite_engine_ok H eng \<Longrightarrow> fn eng = (x, eng2) \<Longrightarrow> sqlite_engine_ok H eng2"
    and run: "sqlite_run_scoped_transaction t p refs fn eng = (r, eng')"
  shows "sqlite_engine_ok H eng'"
proof (cases "(\<exists>e. validate_lock_refs_scope refs t p = Inl e) \<or> sq_tx eng \<noteq> None")
  case True
  then have "eng' = eng"
    using run by (cases "validate_lock_refs_scope refs t p") (auto simp: sqlite_run_scoped_transaction_def)
  with ok show ?thesis by simp
next
  case False
  let ?in = "eng\<lparr>sq_tx := Some (sq_committed eng, build_lock_context (normalize_lock_refs refs))\<rparr>"
  from False have v: "validate_lock_refs_scope refs t p = Inr ()" "sq_tx eng = None"
    by (cases "validate_lock_refs_scope refs t p"; simp del: not_None_eq)+
  obtain x eng2 where x: "fn ?in = (x, eng2)" by fastforce
  have "sqlite_engine_ok H ?in" using ok by (simp add: sqlite_engine_ok_def)
  from fn [OF this x] have ok2: "sqlite_engine_ok H eng2" .
  from run v x have "eng' = (case x of Inl _ \<Rightarrow> eng2\<lparr>sq_tx := None\<rparr>
      | Inr _ \<Rightarrow> eng2\<lparr>sq_committed := sqlite_read eng2, sq_tx := None\<rparr>)"
    by (cases x) (auto simp: sqlite_run_scoped_transaction_def Let_def)
  with ok2 sqlite_engine_ok_read [OF ok2] show ?thesis
    by (auto simp: sqlite_engine_ok_def split: sum.splits)
qed

lemma sqlite_transaction_ok:
  assumes "sqlite_engine_ok H eng" "sqlite_program H fn" "sqlite_run_scoped_transaction t p refs fn eng = (r, eng')"
  shows "sqlite_engine_ok H eng'"
  by (rule sqlite_transaction_keeps [OF assms(1) _ assms(3)])
    (metis assms(2) sqlite_program_def sqlite_calls_ok snd_conv)

definition fresh_sqlite :: sqlite_engine where
  "fresh_sqlite = \<lparr>sq_committed = empty_db, sq_tx = None\<rparr>"

lemma sqlite_reachable_ok: "(sqlite_step H)\<^sup>*\<^sup>* fresh_sqlite eng \<Longrightarrow> sqlite_engine_ok H eng"
proof (induction rule: rtranclp_induct)
  case base
  show ?case using sql_rel_empty by (auto simp: sqlite_engine_ok_def fresh_sqlite_def sqlite_ok_def)
next
  case (step eng eng')
  then show ?case by (auto elim!: sqlite_stepE intro: sqlite_call_ok sqlite_transaction_ok)
qed

end
