(* ===== verification/Store_Properties.thy ===== *)
theory Store_Properties
  imports Store_Ops
begin

text \<open>
  The properties of the scoped store: what holds after any run of operations, what a caller sees of
  one operation, what a transaction guarantees, and concrete runs that meet their hypotheses.
\<close>

section \<open>Concrete runs\<close>

definition demo_clock :: "nat \<Rightarrow> string" where
  "demo_clock n = ''t'' @ show_nat n"

definition demo_hash :: "string \<Rightarrow> string" where
  "demo_hash s = CHR ''h'' # s"

definition demo_claim :: pdict where
  "demo_claim = [(''claim_id'', JStr ''c1''), (''text'', JStr ''x'')]"

definition demo_envelope :: "string \<Rightarrow> pdict" where
  "demo_envelope i = [(''envelope_id'', JStr i)]"

definition demo_append :: "(engine, pdict \<times> bool) act" where
  "demo_append = engine_append_scoped demo_hash demo_clock ''decision_envelopes'' (demo_envelope ''e1'') ''e1'' ''t'' ''p''"

definition demo_engine :: engine where
  "demo_engine = snd (demo_append fresh_engine)"

lemma demo_dwf [simp]: "dwf demo_claim" "dwf (demo_envelope i)"
  by (simp_all add: demo_claim_def demo_envelope_def)

lemma demo_nulfree [simp]: "nulfree ''t''" "nulfree ''p''" "nulfree ''q''"
  by (simp_all add: nulfree_def)

lemma demo_hash_inj: "inj_on demo_hash A"
  by (rule inj_onI) (simp add: demo_hash_def)

lemma demo_engine_reachable: "(engine_step demo_hash)\<^sup>*\<^sup>* fresh_engine demo_engine"
proof -
  have "engine_call demo_hash fresh_engine demo_engine"
    by (rule engine_call.append [where t = "''t''" and p = "''p''" and rcd = "demo_envelope ''e1''"
          and r = "fst (demo_append fresh_engine)" and clk = demo_clock and k = "''e1''"
          and c = "''decision_envelopes''"])
      (simp_all add: demo_engine_def demo_append_def)
  then show ?thesis by (intro r_into_rtranclp engine_step.call)
qed

lemma demo_engine_ok: "engine_ok demo_hash demo_engine"
  using engine_reachable_ok [OF demo_engine_reachable] .

definition demo_store :: store_state where
  "demo_store = snd (json_append_state demo_hash demo_clock ''decision_envelopes'' (demo_envelope ''e1'')
     ''e1'' ''t'' ''p'' True empty_store)"

lemma demo_store_ok: "store_ok demo_hash demo_store"
    unfolding demo_store_def
    using json_append_state_ok [OF store_ok_empty demo_nulfree(1,2) _ demo_dwf(2), of "''decision_envelopes''" demo_hash
        demo_clock "''e1''" "''e1''" "fst (json_append_state demo_hash demo_clock ''decision_envelopes''
          (demo_envelope ''e1'') ''e1'' ''t'' ''p'' True empty_store)"]
    by (simp add: is_chain_linked_collection_def CHAIN_LINKED_COLLECTIONS_def SCOPED_COLLECTIONS_def nulfree_def)

section \<open>The chains\<close>

text \<open>C1: Every engine that starts from an empty file and is used through the scoped operations, alone and in
  transactions, with tenant and project names without NUL, passes the verifier of the hash chains
  under every filter.\<close>

theorem reachable_engine_verifies:
  assumes "(engine_step H)\<^sup>*\<^sup>* fresh_engine eng"
  shows "\<exists>rep. engine_verify_scoped_chain H t p c eng = Inr rep"
  using engine_reachable_ok [OF assms] by (rule engine_ok_verifies)

theorem reachable_engine_verifies_witness:
  "map_sum id snd (fst (demo_append fresh_engine)) = Inr True \<and>
   (\<exists>rep. engine_verify_scoped_chain demo_hash None None None demo_engine = Inr rep)"
proof -
  have "map_sum id snd (fst (demo_append fresh_engine)) = Inr True" by code_simp
  then show ?thesis using reachable_engine_verifies [OF demo_engine_reachable] by blast
qed

text \<open>C2: The ledger is append-only: however the engine is used after a point, every record of that point
  is still there, the rows of a chain-linked collection unchanged and as the first links of their chain,
  and a row of any collection whose version number is the same has the same content.\<close>

theorem ledger_append_only:
  assumes "(engine_step H)\<^sup>*\<^sup>* fresh_engine eng" "(engine_step H)\<^sup>*\<^sup>* eng eng'" "current_state eng = Inr st"
  shows "\<exists>st'. current_state eng' = Inr st' \<and> extends st st'"
  using engine_steps_grow [OF assms(2) engine_reachable_ok [OF assms(1)]] assms(3) by (simp add: grows_def)

theorem ledger_append_only_witness:
  "\<exists>st'. current_state demo_engine = Inr st' \<and> extends empty_store st'"
  by (rule ledger_append_only [OF rtranclp.rtrancl_refl demo_engine_reachable])
    (simp add: current_state_def fresh_engine_def read_json_state_def)

text \<open>C3: A verified head fixes its chain: two stores that both pass the verifier and have the same head hash for
  a scope hold the same records in that scope, in the same order, unless the hash function
  collides on the links of the two chains. Editing, dropping, reordering or truncating rows needs another head.\<close>

theorem verified_head_determines_records:
  assumes "verify_json_state H None None None st = Inr rep" "verify_json_state H None None None st' = Inr rep'"
    and "is_chain_linked_collection c"
    and "map_of (st_heads st) (head_key t p c) = Some h" "map_of (st_heads st') (head_key t p c) = Some h'"
    and "head_scope h' = (t, p, c)" "ch_last_chain_hash h = ch_last_chain_hash h'"
    and "scope_rows st t p c \<noteq> []"
    and "inj_on H (link_texts (map row_view (scope_rows st t p c)) \<union> link_texts (map row_view (scope_rows st' t p c)))"
  shows "chain_records st t p c = chain_records st' t p c"
  using assms by (rule verified_head_fixes_chain)

definition demo_head :: chain_head where
  "demo_head = snd (hd (st_heads demo_store))"

theorem verified_head_determines_records_witness:
  "chain_records demo_store ''t'' ''p'' ''decision_envelopes'' =
   chain_records (norm_state demo_store) ''t'' ''p'' ''decision_envelopes''"
proof (rule verified_head_determines_records [where H = demo_hash and h = demo_head and h' = demo_head
      and rep = "projr (verify_json_state demo_hash None None None demo_store)"
      and rep' = "projr (verify_json_state demo_hash None None None (norm_state demo_store))"])
  show "verify_json_state demo_hash None None None demo_store =
      Inr (projr (verify_json_state demo_hash None None None demo_store))" by code_simp
  show "verify_json_state demo_hash None None None (norm_state demo_store) =
      Inr (projr (verify_json_state demo_hash None None None (norm_state demo_store)))" by code_simp
  show "is_chain_linked_collection ''decision_envelopes''" by code_simp
  show "map_of (st_heads demo_store) (head_key ''t'' ''p'' ''decision_envelopes'') = Some demo_head"
    "map_of (st_heads (norm_state demo_store)) (head_key ''t'' ''p'' ''decision_envelopes'') = Some demo_head"
    "head_scope demo_head = (''t'', ''p'', ''decision_envelopes'')"
    "scope_rows demo_store ''t'' ''p'' ''decision_envelopes'' \<noteq> []"
    by code_simp+
qed (simp_all add: demo_hash_inj)

text \<open>C9: The verifier accepts a chain-linked group exactly when the group is empty, or its rows in the
  order of their sequence numbers are numbered from 1, each row's previous hash is the hash of the
  row before it, each hash is the hash of the link, every row's metadata agrees with its columns, and the
  head names the last row.\<close>

theorem linked_group_accepted_iff:
  "validate_linked_chain_group H t p c rows head = Inr n \<longleftrightarrow>
     n = length rows \<and> (rows = [] \<or>
       (\<exists>h. head = Some h \<and> head_matches h (sort_key cv_chain_sequence rows)) \<and>
       view_chain H None 1 (sort_key cv_chain_sequence rows) \<and>
       list_all (\<lambda>r. validate_chain_metadata H r = Inr ()) rows)"
  by (simp add: validate_linked_chain_group_iff list_all_iff)

text \<open>What was written can be read: reading the file that a state was written to gives that state
  back, with the keys of every payload sorted and nothing else changed.\<close>

theorem json_file_roundtrip:
  assumes "keys_ok st"
  shows "read_json_state (write_json_state st eng) = Inr (norm_state st)"
  using assms by (rule read_write_json_state)

theorem json_file_roundtrip_witness:
  "keys_ok demo_store \<and> read_json_state (write_json_state demo_store fresh_engine) = Inr (norm_state demo_store)"
proof -
  have "keys_ok demo_store" using demo_store_ok by (rule store_ok_keys)
  then show ?thesis using json_file_roundtrip by blast
qed

section \<open>What a caller sees\<close>

text \<open>After a successful append, alone or inside a transaction, reading the canonical key in that scope gives
  the payload the append returned.\<close>

theorem append_then_get:
  assumes "engine_ok H eng" "nulfree t" "nulfree p" "dwf record"
    and "engine_append_scoped H clk c record k t p eng = (Inr (payload, created), eng')"
  shows "same_read (engine_get_scoped c k t p eng') (Inr payload)"
  using assms by (rule get_after_append)

definition demo_second :: "(engine, pdict \<times> bool) act" where
  "demo_second = engine_append_scoped demo_hash demo_clock ''claims'' demo_claim ''c1'' ''t'' ''p''"

lemma demo_second_run:
  "demo_second demo_engine = (Inr (projl' (fst (demo_second demo_engine)), True), snd (demo_second demo_engine))"
  if "projl' = (\<lambda>r. fst (projr r))" for projl' :: "err + pdict \<times> bool \<Rightarrow> pdict"
proof -
  have "map_sum id snd (fst (demo_second demo_engine)) = Inr True" by code_simp
  then show ?thesis using that by (cases "fst (demo_second demo_engine)") (auto simp: prod_eq_iff)
qed

theorem append_then_get_witness:
  "same_read (engine_get_scoped ''claims'' ''c1'' ''t'' ''p'' (snd (demo_second demo_engine)))
     (Inr (fst (projr (fst (demo_second demo_engine)))))"
  by (rule append_then_get [OF demo_engine_ok demo_nulfree(1,2) demo_dwf(1), of demo_clock "''claims''" "''c1''"])
    (use demo_second_run [OF refl] in \<open>simp add: demo_second_def\<close>)

text \<open>C8: Scopes are isolated: whatever an append in one tenant and project does, reading and listing in another
  tenant or project give what they gave before.\<close>

theorem append_isolated:
  assumes "engine_ok H eng" "nulfree t" "nulfree p" "nulfree t'" "nulfree p'" "dwf record" "(t', p') \<noteq> (t, p)"
    and "engine_append_scoped H clk c record k t p eng = (r, eng')"
  shows "same_read (engine_get_scoped c' k' t' p' eng') (engine_get_scoped c' k' t' p' eng) \<and>
    same_reads (engine_list_scoped c' t' p' limit offset eng') (engine_list_scoped c' t' p' limit offset eng)"
  using append_other_get [OF assms(1-6,8)] append_isolated_list [OF assms(1-3,6,8)] assms(7) by auto

theorem append_isolated_witness:
  "same_reads (engine_list_scoped ''claims'' ''t'' ''q'' 10 0 (snd (demo_second demo_engine)))
     (engine_list_scoped ''claims'' ''t'' ''q'' 10 0 demo_engine)"
  using append_isolated [OF demo_engine_ok demo_nulfree(1,2,1,3) demo_dwf(1), of demo_clock "''claims''" "''c1''"
      "fst (demo_second demo_engine)" "snd (demo_second demo_engine)" "''claims''" "''c1''" 10 0]
  by (simp add: demo_second_def)

text \<open>C5: Appending again under the same canonical key never changes the store: with the same record, whatever
  the order of its keys, it returns the stored payload and \<open>created = False\<close>, with another record it
  raises \<open>DuplicateCanonicalKey\<close>, unless the hash function collides on the two records.\<close>

theorem append_once_per_key:
  assumes "engine_ok H eng" "nulfree t" "nulfree p" "dwf record"
    and "engine_append_scoped H clk c record k t p eng = (Inr (payload, created), eng')"
    and "inj_on H {stored_text record t p, stored_text record' t p}"
  shows "\<exists>q. canon_dict q = canon_dict payload \<and> engine_append_scoped H clk' c record' k t p eng' =
    (if canon_dict (dremove (with_scope record' t p) ''_chain'') = canon_dict (dremove (with_scope record t p) ''_chain'')
     then Inr (q, False)
     else Inl (DuplicateCanonicalKey (''Duplicate canonical key '' @ k @ '' in '' @ c @ '' with different payload'')),
     eng')"
proof -
  have "H (stored_text record' t p) = H (stored_text record t p) \<longleftrightarrow> stored_text record' t p = stored_text record t p"
    using assms(6) by (auto simp: inj_on_def)
  also have "\<dots> \<longleftrightarrow> canon_dict (dremove (with_scope record' t p) ''_chain'') =
      canon_dict (dremove (with_scope record t p) ''_chain'')"
    unfolding stored_text_def dumps_eq_iff by (simp only: canon_JObj json.inject)
  finally show ?thesis using append_again [OF assms(1-5), of clk' record'] by simp
qed

theorem append_once_per_key_witness:
  "\<exists>q. engine_append_scoped demo_hash demo_clock ''claims'' (rev demo_claim) ''c1'' ''t'' ''p''
     (snd (demo_second demo_engine)) = (Inr (q, False), snd (demo_second demo_engine))"
proof -
  have "canon_dict (dremove (with_scope (rev demo_claim) ''t'' ''p'') ''_chain'') =
      canon_dict (dremove (with_scope demo_claim ''t'' ''p'') ''_chain'')" by code_simp
  with append_once_per_key [OF demo_engine_ok demo_nulfree(1,2) demo_dwf(1)
      demo_second_run [OF refl, unfolded demo_second_def] demo_hash_inj, of demo_clock "rev demo_claim"]
  show ?thesis by (simp add: demo_second_def) blast
qed

text \<open>C6: A compare-and-set wins once: after one with an expected version has succeeded, another with the same
  expected version fails, whatever happens in between.\<close>

theorem compare_and_set_wins_once:
  assumes "(engine_step H)\<^sup>*\<^sup>* fresh_engine eng" "nulfree t" "nulfree p" "dwf record" "dwf record'"
    and "engine_compare_and_set_scoped H now c record k t p (Some v) eh eng = (Inr x, eng1)"
    and "(engine_step H)\<^sup>*\<^sup>* eng1 eng2"
  shows "\<exists>e. fst (engine_compare_and_set_scoped H now' c record' k t p (Some v) eh' eng2) = Inl e"
  by (rule stale_cas_fails [OF engine_reachable_ok [OF assms(1)] assms(2-7)])

definition demo_with_claim :: engine where
  "demo_with_claim = snd (demo_second fresh_engine)"

definition demo_cas :: "(engine, pdict \<times> pdict) act" where
  "demo_cas = engine_compare_and_set_scoped demo_hash ''now'' ''claims'' demo_claim ''c1'' ''t'' ''p'' (Some 1) None"

lemma demo_with_claim_reachable: "(engine_step demo_hash)\<^sup>*\<^sup>* fresh_engine demo_with_claim"
proof -
  have "engine_call demo_hash fresh_engine demo_with_claim"
    by (rule engine_call.append [where t = "''t''" and p = "''p''" and rcd = demo_claim
          and r = "fst (demo_second fresh_engine)" and clk = demo_clock and k = "''c1''" and c = "''claims''"])
      (simp_all add: demo_with_claim_def demo_second_def)
  then show ?thesis by (intro r_into_rtranclp engine_step.call)
qed

theorem compare_and_set_wins_once_witness:
  "\<exists>e. fst (demo_cas (snd (demo_cas demo_with_claim))) = Inl e"
proof -
  have "(case fst (demo_cas demo_with_claim) of Inr _ \<Rightarrow> True | Inl _ \<Rightarrow> False)" by code_simp
  then obtain x where "fst (demo_cas demo_with_claim) = Inr x" by (auto split: sum.splits)
  then have "demo_cas demo_with_claim = (Inr x, snd (demo_cas demo_with_claim))" by (simp add: prod_eq_iff)
  from compare_and_set_wins_once [OF demo_with_claim_reachable demo_nulfree(1,2) demo_dwf(1) demo_dwf(1)
      this [unfolded demo_cas_def], of _ "''now''" None] show ?thesis
    by (simp add: demo_cas_def)
qed

text \<open>A successful compare-and-set found the version it expected, leaves the next version, returns the
  record it replaced, and the new record is what a read then gives.\<close>

theorem compare_and_set_effect:
  assumes "engine_ok H eng" "nulfree t" "nulfree p" "dwf record"
    and "engine_compare_and_set_scoped H now c record k t p ev eh eng = (Inr (new, old), eng')"
  shows "\<exists>v. row_version eng (scoped_key t p c k) = Some v \<and> (ev = None \<or> ev = Some v) \<and>
    row_version eng' (scoped_key t p c k) = Some (v + 1) \<and>
    same_read (engine_get_scoped c k t p eng') (Inr new) \<and> engine_get_scoped c k t p eng = Inr old"
  using assms by (rule cas_success_version)

theorem compare_and_set_effect_witness:
  "\<exists>v. row_version demo_with_claim (scoped_key ''t'' ''p'' ''claims'' ''c1'') = Some v \<and>
    row_version (snd (demo_cas demo_with_claim)) (scoped_key ''t'' ''p'' ''claims'' ''c1'') = Some (v + 1)"
proof -
  have "(case fst (demo_cas demo_with_claim) of Inr _ \<Rightarrow> True | Inl _ \<Rightarrow> False)" by code_simp
  then obtain new old where "fst (demo_cas demo_with_claim) = Inr (new, old)" by (auto split: sum.splits)
  then have "demo_cas demo_with_claim = (Inr (new, old), snd (demo_cas demo_with_claim))" by (simp add: prod_eq_iff)
  from compare_and_set_effect [OF engine_reachable_ok [OF demo_with_claim_reachable] demo_nulfree(1,2) demo_dwf(1)
      this [unfolded demo_cas_def]] show ?thesis by (auto simp: demo_cas_def)
qed

section \<open>Transactions\<close>

text \<open>C4: A transaction is all or nothing: if its callback raises, the engine is exactly as before; if it
  returns, the file holds the state the callback left, and the transaction is closed.\<close>

theorem transaction_all_or_nothing:
  assumes "(engine_step H)\<^sup>*\<^sup>* fresh_engine eng" "scoped_program H fn"
    and "run_scoped_transaction t p refs fn eng = (r, eng')"
  shows "case r of Inl e \<Rightarrow> eng' = eng
    | Inr x \<Rightarrow> \<exists>st st'. current_state eng = Inr st \<and> fst (fn (enter_transaction refs st eng)) = Inr x \<and>
        current_state (snd (fn (enter_transaction refs st eng))) = Inr st' \<and>
        current_state eng' = Inr (norm_state st') \<and> eng_idle eng'"
  using transaction_atomic engine_reachable_idle [OF assms(1)] assms(2,3) by blast

definition demo_callback :: "(engine, unit) act" where
  "demo_callback eng = (case demo_append eng of (Inl e, eng') \<Rightarrow> (Inl e, eng')
     | (Inr _, eng') \<Rightarrow> (Inl (ValueError ''after the append''), eng'))"

definition demo_refs :: "lock_ref list" where
  "demo_refs = [
     \<lparr>lr_tenant = ''t'', lr_project = ''p'', lr_collection = ''decision_envelopes'', lr_kind = CHAIN, lr_key = []\<rparr>,
     \<lparr>lr_tenant = ''t'', lr_project = ''p'', lr_collection = ''decision_envelopes'', lr_kind = CANONICAL, lr_key = ''e1''\<rparr>]"

lemma demo_callback_program: "scoped_program demo_hash demo_callback"
  unfolding scoped_program_def
proof
  fix eng
  have "engine_call demo_hash eng (snd (demo_append eng))"
    by (rule engine_call.append [where t = "''t''" and p = "''p''" and rcd = "demo_envelope ''e1''"
          and r = "fst (demo_append eng)" and clk = demo_clock and k = "''e1''"
          and c = "''decision_envelopes''"])
      (simp_all add: demo_append_def)
  then show "(engine_call demo_hash)\<^sup>*\<^sup>* eng (snd (demo_callback eng))"
    by (auto simp: demo_callback_def split: prod.split sum.split)
qed

theorem transaction_all_or_nothing_witness:
  "run_scoped_transaction ''t'' ''p'' demo_refs demo_callback fresh_engine =
     (Inl (ValueError ''after the append''), fresh_engine)"
proof -
  let ?x = "run_scoped_transaction ''t'' ''p'' demo_refs demo_callback fresh_engine"
  have e: "fst ?x = Inl (ValueError ''after the append'')" by code_simp
  have "?x = (fst ?x, snd ?x)" by simp
  from transaction_all_or_nothing [OF rtranclp.rtrancl_refl demo_callback_program this] e show ?thesis
    by (simp add: prod_eq_iff)
qed

definition canonical_declared :: "lock_ref list \<Rightarrow> string \<Rightarrow> string \<Rightarrow> bool" where
  "canonical_declared refs c k \<longleftrightarrow> (\<exists>ref \<in> set refs. lr_kind ref = CANONICAL \<and> lr_collection ref = c \<and> lr_key ref = k)"

definition chain_declared :: "lock_ref list \<Rightarrow> string \<Rightarrow> bool" where
  "chain_declared refs c \<longleftrightarrow> (\<exists>ref \<in> set refs. lr_kind ref = CHAIN \<and> lr_collection ref = c)"

lemma require_write_locks_declared:
  "require_write_locks (Some (build_lock_context refs)) c k linked = Inr u \<longleftrightarrow>
     canonical_declared refs c k \<and> (linked \<longrightarrow> chain_declared refs c)"
  "require_write_locks (Some (build_lock_context refs)) c k linked = Inl e \<Longrightarrow> \<exists>m. e = UndeclaredLockRef m"
  by (auto simp: require_write_locks_def canonical_declared_def chain_declared_def split: if_splits)

text \<open>C7: Inside a transaction a write needs its locks. An append runs only if the transaction declared the canonical lock of its key
  and, for a chain-linked collection, the chain lock; a compare-and-set, which chain-linked collections do not have, only if the
  transaction declared the canonical lock. Otherwise the call raises \<open>UndeclaredLockRef\<close>, and the engine is as it was.\<close>

theorem writes_need_declared_locks:
  assumes "eng_lock_context eng = Some (build_lock_context refs)" "\<not> eng_multiprocess eng"
  shows "(validate_collection c False True False = Inr () \<and> engine_append_scoped H clk c record k t p eng = (r, eng') \<longrightarrow>
      (if canonical_declared refs c k \<and> (is_chain_linked_collection c \<longrightarrow> chain_declared refs c)
       then on_state snd (json_append_state H clk c record k t p (is_chain_linked_collection c)) eng = (r, eng')
       else (\<exists>m. r = Inl (UndeclaredLockRef m)) \<and> eng' = eng)) \<and>
    (c \<in> set CAS_ALLOWED_COLLECTIONS \<and> (ev \<noteq> None \<or> eh \<noteq> None) \<and>
       engine_compare_and_set_scoped H now c record k t p ev eh eng = (cr, eng'') \<longrightarrow>
      (if canonical_declared refs c k
       then on_state (\<lambda>_. True) (json_cas_state H now c record k t p ev eh) eng = (cr, eng'')
       else (\<exists>m. cr = Inl (UndeclaredLockRef m)) \<and> eng'' = eng))"
proof (intro conjI impI, goal_cases)
  case 1
  show ?case
  proof (cases "require_write_locks (eng_lock_context eng) c k (is_chain_linked_collection c)")
    case (Inl e)
    have "engine_append_scoped H clk c record k t p eng = (Inl e, eng)"
      using conjunct1 [OF 1] assms(2) Inl
      by (simp add: engine_append_scoped_def ensure_multiprocess_json_allowed_def bind_simps Let_def)
    with conjunct2 [OF 1] have "(r, eng') = (Inl e, eng)" by simp
    moreover from require_write_locks_declared(2) [OF Inl [unfolded assms(1)]] obtain m where "e = UndeclaredLockRef m" by blast
    moreover have "\<not> (canonical_declared refs c k \<and> (is_chain_linked_collection c \<longrightarrow> chain_declared refs c))"
      using Inl require_write_locks_declared(1) [of refs c k "is_chain_linked_collection c" "()"] unfolding assms(1) by auto
    ultimately show ?thesis by auto
  next
    case (Inr u)
    with engine_append_eq [of c eng k H clk "record" t p] 1 assms(2)
      require_write_locks_declared(1) [of refs c k "is_chain_linked_collection c" u]
    show ?thesis unfolding assms(1) by simp
  qed
next
  case 2
  have "\<not> is_chain_linked_collection c" "validate_collection c True False False = Inr ()"
    using 2 by (auto simp: CAS_ALLOWED_COLLECTIONS_def is_chain_linked_collection_def validate_collection_def Let_def raise_if_def
        CHAIN_LINKED_COLLECTIONS_def SCOPED_COLLECTIONS_def)
  then have run: "(cr, eng'') = (case require_write_locks (eng_lock_context eng) c k False of Inl e \<Rightarrow> (Inl e, eng)
      | Inr u \<Rightarrow> on_state (\<lambda>_. True) (json_cas_state H now c record k t p ev eh) eng)"
    using 2 assms(2) by (auto simp: engine_compare_and_set_scoped_def ensure_multiprocess_json_allowed_def raise_if_def bind_simps
        liftS_def bindS_def split: sum.split)
  show ?case
  proof (cases "require_write_locks (eng_lock_context eng) c k False")
    case (Inl e)
    moreover from require_write_locks_declared(2) [OF Inl [unfolded assms(1)]] obtain m where "e = UndeclaredLockRef m" by blast
    moreover have "\<not> canonical_declared refs c k"
      using Inl require_write_locks_declared(1) [of refs c k False "()"] unfolding assms(1) by auto
    ultimately show ?thesis using run by auto
  next
    case (Inr u)
    with run require_write_locks_declared(1) [of refs c k False u] show ?thesis unfolding assms(1) by simp
  qed
qed

text \<open>A transaction that declared no lock of the claim \<open>c1\<close>: the append and the compare-and-set of it.\<close>

theorem writes_need_declared_locks_witness:
  "let eng = enter_transaction demo_refs empty_store fresh_engine in
     (\<exists>m. fst (demo_second eng) = Inl (UndeclaredLockRef m)) \<and> snd (demo_second eng) = eng \<and>
     (\<exists>m. fst (demo_cas eng) = Inl (UndeclaredLockRef m)) \<and> snd (demo_cas eng) = eng"
proof -
  let ?eng = "enter_transaction demo_refs empty_store fresh_engine"
  have v: "validate_collection ''claims'' False True False = Inr ()" "''claims'' \<in> set CAS_ALLOWED_COLLECTIONS"
      "\<not> canonical_declared demo_refs ''claims'' ''c1''"
    by code_simp+
  have "eng_lock_context ?eng = Some (build_lock_context demo_refs)" "\<not> eng_multiprocess ?eng"
    by (simp_all add: enter_transaction_def fresh_engine_def)
  from writes_need_declared_locks [OF this, of "''claims''" demo_hash demo_clock demo_claim "''c1''" "''t''" "''p''"
      "fst (demo_second ?eng)" "snd (demo_second ?eng)" "Some 1" None "''now''" "fst (demo_cas ?eng)" "snd (demo_cas ?eng)"] v
  show ?thesis by (simp add: demo_second_def demo_cas_def)
qed

section \<open>Listing\<close>

text \<open>C10: Listing a chain-linked collection of a scope gives its records in the order they were appended, and
  pages of one size put one after the other give a first part of that list, the whole of it when
  there are enough pages.\<close>

theorem listing_follows_chain:
  assumes "store_ok H st" "nulfree t" "nulfree p" "is_chain_linked_collection c"
  shows "concat (map (\<lambda>i. list_scoped_state c t p (int limit) (int (i * limit)) st) [0..<pages]) =
    map sr_payload (take (pages * limit) (scope_rows st t p c))"
proof -
  have "map (\<lambda>i. list_scoped_state c t p (int limit) (int (i * limit)) st) [0..<pages] =
      map (\<lambda>i. take limit (drop (i * limit) (map sr_payload (scope_rows st t p c)))) [0..<pages]"
    using list_linked [OF assms] by (simp add: slice_def take_map drop_map del: of_nat_mult)
  then show ?thesis using pages_take [of limit "map sr_payload (scope_rows st t p c)" pages]
    by (simp only: take_map)
qed

theorem listing_follows_chain_witness:
  "length (scope_rows demo_store ''t'' ''p'' ''decision_envelopes'') = 1 \<and>
   concat (map (\<lambda>i. list_scoped_state ''decision_envelopes'' ''t'' ''p'' (int 1) (int (i * 1)) demo_store) [0..<2]) =
     map sr_payload (scope_rows demo_store ''t'' ''p'' ''decision_envelopes'')"
proof -
  have "is_chain_linked_collection ''decision_envelopes''"
    and one: "length (scope_rows demo_store ''t'' ''p'' ''decision_envelopes'') = 1" by code_simp+
  from listing_follows_chain [OF demo_store_ok demo_nulfree(1,2) this(1), of 1 2] one show ?thesis by simp
qed

end
