(* ===== verification/Backend_Properties.thy ===== *)
theory Backend_Properties
  imports Ledger_Contract Store_Properties
begin

text \<open>
  The properties of the SQLite backend and of batches of appends: it keeps to the behaviour of the JSON
  backend, its chains verify after any run, and what a batch wrote can be read back.
\<close>

text \<open>C11: The SQLite backend refines the JSON backend: on tables that hold a store with the invariant, an append gives
  the result of the JSON append, up to the order of keys, and leaves the tables of the resulting store, except
  that repeating a record id in a scope is refused with an \<open>IntegrityError\<close>, which the JSON backend accepts.\<close>

theorem sqlite_append_refines_json:
  assumes "sql_rel H db st" "nulfree t" "nulfree p" "nulfree c" "dwf record"
    and "json_append_state H clk c record k t p (is_chain_linked_collection c) st = (r, st')"
    and "sqlite_append H clk c record k t p (is_chain_linked_collection c) db = (r2, db')"
  shows "if map_of (st_records st) (scoped_key t p c k) = None \<and> repeats_id c record t p st
    then (\<exists>m. r2 = Inl (IntegrityError m)) \<and> sqlite_ok H db'
    else same_append r2 r \<and> sql_rel H db' st'"
  using assms by (rule sqlite_append_refines)

theorem sqlite_append_refines_json_witness:
  "same_append (fst (sqlite_append demo_hash demo_clock ''claims'' demo_claim ''c1'' ''t'' ''p'' False empty_db))
     (fst (json_append_state demo_hash demo_clock ''claims'' demo_claim ''c1'' ''t'' ''p'' False empty_store))"
proof -
  have "nulfree ''claims''" "is_chain_linked_collection ''claims'' = False"
    "\<not> repeats_id ''claims'' demo_claim ''t'' ''p'' empty_store" by code_simp+
  with sqlite_append_refines_json [OF sql_rel_empty demo_nulfree(1,2) _ demo_dwf(1), of "''claims''" demo_hash demo_clock "''c1''"
      "fst (json_append_state demo_hash demo_clock ''claims'' demo_claim ''c1'' ''t'' ''p'' False empty_store)"
      "snd (json_append_state demo_hash demo_clock ''claims'' demo_claim ''c1'' ''t'' ''p'' False empty_store)"
      "fst (sqlite_append demo_hash demo_clock ''claims'' demo_claim ''c1'' ''t'' ''p'' False empty_db)"
      "snd (sqlite_append demo_hash demo_clock ''claims'' demo_claim ''c1'' ''t'' ''p'' False empty_db)"]
  show ?thesis by simp
qed

text \<open>A compare-and-set of the SQLite backend gives the result of the JSON one and leaves the tables of the
  resulting store; its guard on the row count is never the one that fails.\<close>

theorem sqlite_cas_refines_json:
  assumes "sql_rel H db st" "nulfree t" "nulfree p" "nulfree c" "dwf record" "\<not> is_chain_linked_collection c"
    and "json_cas_state H now c record k t p ev eh st = (r, st')"
    and "sqlite_cas H now c record k t p ev eh db = (r2, db')"
  shows "same_cas r2 r \<and> sql_rel H db' st'"
  using assms by (rule sqlite_cas_refines)

definition demo_claim_store :: store_state where
  "demo_claim_store = snd (json_append_state demo_hash demo_clock ''claims'' demo_claim ''c1'' ''t'' ''p'' False empty_store)"

definition demo_claim_db :: scoped_db where
  "demo_claim_db = snd (sqlite_append demo_hash demo_clock ''claims'' demo_claim ''c1'' ''t'' ''p'' False empty_db)"

lemma demo_claim_rel: "sql_rel demo_hash demo_claim_db demo_claim_store"
proof -
  have "nulfree ''claims''" "is_chain_linked_collection ''claims'' = False"
    "\<not> repeats_id ''claims'' demo_claim ''t'' ''p'' empty_store" by code_simp+
  with sqlite_append_refines [OF sql_rel_empty demo_nulfree(1,2) _ demo_dwf(1), of "''claims''" demo_hash demo_clock "''c1''"
      "fst (json_append_state demo_hash demo_clock ''claims'' demo_claim ''c1'' ''t'' ''p'' False empty_store)"
      demo_claim_store "fst (sqlite_append demo_hash demo_clock ''claims'' demo_claim ''c1'' ''t'' ''p'' False empty_db)"
      demo_claim_db]
  show ?thesis by (simp add: demo_claim_store_def demo_claim_db_def)
qed

definition demo_sql_cas :: "(scoped_db, pdict \<times> pdict) act" where
  "demo_sql_cas = sqlite_cas demo_hash ''now'' ''claims'' demo_claim ''c1'' ''t'' ''p'' (Some 1) None"

theorem sqlite_cas_refines_json_witness:
  "\<not> isl (fst (demo_sql_cas demo_claim_db)) \<and> same_cas (fst (demo_sql_cas demo_claim_db))
     (fst (json_cas_state demo_hash ''now'' ''claims'' demo_claim ''c1'' ''t'' ''p'' (Some 1) None demo_claim_store))"
proof -
  have "nulfree ''claims''" "\<not> is_chain_linked_collection ''claims''"
    and ran: "\<not> isl (fst (demo_sql_cas demo_claim_db))" by code_simp+
  from sqlite_cas_refines_json [OF demo_claim_rel demo_nulfree(1,2) this(1) demo_dwf(1) this(2), of "''now''" "''c1''" "Some 1" None
      "fst (json_cas_state demo_hash ''now'' ''claims'' demo_claim ''c1'' ''t'' ''p'' (Some 1) None demo_claim_store)"
      "snd (json_cas_state demo_hash ''now'' ''claims'' demo_claim ''c1'' ''t'' ''p'' (Some 1) None demo_claim_store)"
      "fst (demo_sql_cas demo_claim_db)" "snd (demo_sql_cas demo_claim_db)"] ran
  show ?thesis by (simp add: demo_sql_cas_def)
qed

text \<open>C12: Every SQLite database that starts empty and is used through the scoped operations, alone and in
  transactions, passes the verifier of the hash chains under every filter.\<close>

theorem reachable_sqlite_verifies:
  assumes "(sqlite_step H)\<^sup>*\<^sup>* fresh_sqlite eng"
  shows "\<exists>rep. sqlite_verify_scoped_chain H t p c eng = Inr rep"
  using sqlite_ok_verifies sqlite_reachable_ok [OF assms]
  by (auto simp: sqlite_verify_scoped_chain_def sqlite_engine_ok_def)

definition demo_sqlite :: sqlite_engine where
  "demo_sqlite = snd (sqlite_append_scoped demo_hash demo_clock ''decision_envelopes'' (demo_envelope ''e1'') ''e1''
     ''t'' ''p'' fresh_sqlite)"

theorem reachable_sqlite_verifies_witness:
  "db_rows (sq_committed demo_sqlite) \<noteq> [] \<and> (\<exists>rep. sqlite_verify_scoped_chain demo_hash None None None demo_sqlite = Inr rep)"
proof -
  have "sqlite_call demo_hash fresh_sqlite demo_sqlite"
    by (rule sqlite_call.append [where t = "''t''" and p = "''p''" and rcd = "demo_envelope ''e1''"
          and r = "fst (sqlite_append_scoped demo_hash demo_clock ''decision_envelopes'' (demo_envelope ''e1'') ''e1''
            ''t'' ''p'' fresh_sqlite)" and clk = demo_clock and k = "''e1''" and c = "''decision_envelopes''"])
      (simp_all add: demo_sqlite_def)
  then have "(sqlite_step demo_hash)\<^sup>*\<^sup>* fresh_sqlite demo_sqlite" by (intro r_into_rtranclp sqlite_step.call)
  moreover have "db_rows (sq_committed demo_sqlite) \<noteq> []" by code_simp
  ultimately show ?thesis using reachable_sqlite_verifies by blast
qed

text \<open>A batch of appends under different keys that runs to its end can be read back: each key gives the
  payload its append returned, from the JSON engine and from the SQLite engine alike.\<close>

theorem batch_reads_back:
  assumes "nulfree t" "nulfree p" "list_all (\<lambda>(c, k, d). dwf d) items" "distinct (map (\<lambda>(c, k, d). (c, k)) items)"
    and "engine_ok H eng" "append_all (engine_append_scoped H clk) t p items eng = (Inr payloads, eng')"
    and "sqlite_engine_ok H sql" "append_all (sqlite_append_scoped H clk) t p items sql = (Inr payloads', sql')"
  shows "list_all2 (\<lambda>(c, k, d) payload. same_read (engine_get_scoped c k t p eng') (Inr payload)) items payloads \<and>
    list_all2 (\<lambda>(c, k, d) payload. same_read (sqlite_get_scoped c k t p sql') (Inr payload)) items payloads'"
  using json_ledger.append_all_read_back [OF assms(5,1-4,6)] sqlite_ledger.append_all_read_back [OF assms(7,1-4,8)]
  by simp

definition demo_items :: "(string \<times> string \<times> pdict) list" where
  "demo_items = [(''decision_envelopes'', ''e1'', demo_envelope ''e1''), (''claims'', ''c1'', demo_claim)]"

theorem batch_reads_back_witness:
  "\<exists>payloads. list_all2 (\<lambda>(c, k, d) payload. same_read (engine_get_scoped c k ''t'' ''p''
     (snd (append_all (engine_append_scoped demo_hash demo_clock) ''t'' ''p'' demo_items fresh_engine))) (Inr payload))
     demo_items payloads"
proof -
  let ?j = "append_all (engine_append_scoped demo_hash demo_clock) ''t'' ''p'' demo_items fresh_engine"
  let ?s = "append_all (sqlite_append_scoped demo_hash demo_clock) ''t'' ''p'' demo_items fresh_sqlite"
  have "isl (fst ?j) = False" "isl (fst ?s) = False" by code_simp+
  then obtain xs ys where xs: "fst ?j = Inr xs" and ys: "fst ?s = Inr ys"
    by (cases "fst ?j"; cases "fst ?s") auto
  have "sqlite_engine_ok demo_hash fresh_sqlite" by (rule sqlite_reachable_ok) simp
  moreover have "list_all (\<lambda>(c, k, d). dwf d) demo_items" "distinct (map (\<lambda>(c, k, d). (c, k)) demo_items)"
    by (simp_all add: demo_items_def)
  ultimately show ?thesis
    using batch_reads_back [OF demo_nulfree(1,2) _ _ engine_ok_fresh, where items = demo_items and clk = demo_clock
        and payloads = xs and eng' = "snd ?j" and H = demo_hash and sql = fresh_sqlite and payloads' = ys
        and sql' = "snd ?s"] xs ys by (auto simp: prod_eq_iff)
qed

end
