(* ===== verification/Core_Models.thy ===== *)
theory Core_Models
  imports Py_Value
begin

text \<open>
  Model of \<^verbatim>\<open>src/src/phigraph/core_v3/models.py\<close> and \<^verbatim>\<open>policy.py\<close>: the records of the evidence ledger with
  \<open>to_dict\<close>, and the policy engine. \<open>asdict\<close> lists the fields in their order. A confidence is kept as
  the JSON value it is written as. Identifiers (\<open>new_id\<close>) and times (\<open>utc_now\<close>) are arguments.
\<close>

section \<open>Records\<close>

datatype claim_status = PROPOSED | UNVERIFIED | PARTIALLY_VERIFIED | VERIFIED | REFUTED | SUPERSEDED

fun claim_status_value :: "claim_status \<Rightarrow> string" where
  "claim_status_value PROPOSED = ''proposed''"
| "claim_status_value UNVERIFIED = ''unverified''"
| "claim_status_value PARTIALLY_VERIFIED = ''partially_verified''"
| "claim_status_value VERIFIED = ''verified''"
| "claim_status_value REFUTED = ''refuted''"
| "claim_status_value SUPERSEDED = ''superseded''"

datatype evidence_status = REGISTERED | VALID | INVALID | EXPIRED

fun evidence_status_value :: "evidence_status \<Rightarrow> string" where
  "evidence_status_value REGISTERED = ''registered''"
| "evidence_status_value VALID = ''valid''"
| "evidence_status_value INVALID = ''invalid''"
| "evidence_status_value EXPIRED = ''expired''"

datatype decision_effect = ALLOW | WARN | REQUIRE_APPROVAL | BLOCK

fun decision_effect_value :: "decision_effect \<Rightarrow> string" where
  "decision_effect_value ALLOW = ''allow''"
| "decision_effect_value WARN = ''warn''"
| "decision_effect_value REQUIRE_APPROVAL = ''require_approval''"
| "decision_effect_value BLOCK = ''block''"

datatype runtime_mode = REPLAY | SHADOW | COPILOT | GUARDED_AUTO

definition jstrs :: "string list \<Rightarrow> json" where
  "jstrs xs = JArr (map JStr xs)"

lemma jwf_jstrs [simp]: "jwf (jstrs xs)"
  by (simp add: jstrs_def list_all_iff)

record evidence =
  ev_id :: string
  ev_kind :: string
  ev_source :: string
  ev_payload :: pdict
  ev_status :: evidence_status
  ev_content_hash :: "string option"
  ev_observed_at :: string
  ev_metadata :: pdict

definition evidence_to_dict :: "evidence \<Rightarrow> pdict" where
  "evidence_to_dict e = [
     (''evidence_id'', JStr (ev_id e)), (''kind'', JStr (ev_kind e)), (''source'', JStr (ev_source e)),
     (''payload'', JObj (ev_payload e)), (''status'', JStr (evidence_status_value (ev_status e))),
     (''content_hash'', ostr (ev_content_hash e)), (''observed_at'', JStr (ev_observed_at e)),
     (''metadata'', JObj (ev_metadata e))]"

record claim =
  cl_id :: string
  cl_statement :: string
  cl_claim_type :: string
  cl_subject :: string
  cl_issuer :: string
  cl_status :: claim_status
  cl_confidence :: json
  cl_evidence_ids :: "string list"
  cl_created_at :: string
  cl_supersedes :: "string option"
  cl_metadata :: pdict

definition claim_to_dict :: "claim \<Rightarrow> pdict" where
  "claim_to_dict c = [
     (''claim_id'', JStr (cl_id c)), (''statement'', JStr (cl_statement c)),
     (''claim_type'', JStr (cl_claim_type c)), (''subject'', JStr (cl_subject c)),
     (''issuer'', JStr (cl_issuer c)), (''status'', JStr (claim_status_value (cl_status c))),
     (''confidence'', cl_confidence c), (''evidence_ids'', jstrs (cl_evidence_ids c)),
     (''created_at'', JStr (cl_created_at c)), (''supersedes'', ostr (cl_supersedes c)),
     (''metadata'', JObj (cl_metadata c))]"

record verification =
  vr_id :: string
  vr_claim_id :: string
  vr_verifier :: string
  vr_method :: string
  vr_result :: claim_status
  vr_evidence_ids :: "string list"
  vr_rationale :: string
  vr_verified_at :: string
  vr_metadata :: pdict

definition verification_to_dict :: "verification \<Rightarrow> pdict" where
  "verification_to_dict v = [
     (''verification_id'', JStr (vr_id v)), (''claim_id'', JStr (vr_claim_id v)),
     (''verifier'', JStr (vr_verifier v)), (''method'', JStr (vr_method v)),
     (''result'', JStr (claim_status_value (vr_result v))), (''evidence_ids'', jstrs (vr_evidence_ids v)),
     (''rationale'', JStr (vr_rationale v)), (''verified_at'', JStr (vr_verified_at v)),
     (''metadata'', JObj (vr_metadata v))]"

record action_proposal =
  ac_id :: string
  ac_action_type :: string
  ac_target :: string
  ac_proposed_by :: string
  ac_parameters :: pdict
  ac_rationale_claim_ids :: "string list"
  ac_reversible :: bool
  ac_risk_level :: string
  ac_created_at :: string

definition action_to_dict :: "action_proposal \<Rightarrow> pdict" where
  "action_to_dict a = [
     (''action_id'', JStr (ac_id a)), (''action_type'', JStr (ac_action_type a)),
     (''target'', JStr (ac_target a)), (''proposed_by'', JStr (ac_proposed_by a)),
     (''parameters'', JObj (ac_parameters a)),
     (''rationale_claim_ids'', jstrs (ac_rationale_claim_ids a)),
     (''reversible'', JBool (ac_reversible a)), (''risk_level'', JStr (ac_risk_level a)),
     (''created_at'', JStr (ac_created_at a))]"

record policy_decision =
  pd_id :: string
  pd_action_id :: string
  pd_effect :: decision_effect
  pd_policy_ids :: "string list"
  pd_reasons :: "string list"
  pd_required_approvals :: "string list"
  pd_decided_at :: string

definition policy_decision_to_dict :: "policy_decision \<Rightarrow> pdict" where
  "policy_decision_to_dict d = [
     (''decision_id'', JStr (pd_id d)), (''action_id'', JStr (pd_action_id d)),
     (''effect'', JStr (decision_effect_value (pd_effect d))),
     (''policy_ids'', jstrs (pd_policy_ids d)), (''reasons'', jstrs (pd_reasons d)),
     (''required_approvals'', jstrs (pd_required_approvals d)), (''decided_at'', JStr (pd_decided_at d))]"

record outcome =
  oc_id :: string
  oc_action_id :: string
  oc_status :: string
  oc_executed :: bool
  oc_observed_effects :: pdict
  oc_evidence_ids :: "string list"
  oc_observed_at :: string

definition outcome_to_dict :: "outcome \<Rightarrow> pdict" where
  "outcome_to_dict r = [
     (''outcome_id'', JStr (oc_id r)), (''action_id'', JStr (oc_action_id r)),
     (''status'', JStr (oc_status r)), (''executed'', JBool (oc_executed r)),
     (''observed_effects'', JObj (oc_observed_effects r)), (''evidence_ids'', jstrs (oc_evidence_ids r)),
     (''observed_at'', JStr (oc_observed_at r))]"

section \<open>The policy engine\<close>

record policy_rule =
  pr_policy_id :: string
  pr_action_types :: "string list"
  pr_max_risk :: string
  pr_allowed_modes :: "runtime_mode list"
  pr_require_reversible :: bool
  pr_required_approvals :: "string list"

definition RISK :: "(string \<times> int) list" where
  "RISK = [(''low'', 0), (''medium'', 1), (''high'', 2), (''critical'', 3)]"

definition risk_or :: "string \<Rightarrow> int \<Rightarrow> int" where
  "risk_or level d = (case map_of RISK level of None \<Rightarrow> d | Some n \<Rightarrow> n)"

definition core_shadow_default :: policy_rule where
  "core_shadow_default = \<lparr>pr_policy_id = ''core-shadow-default'', pr_action_types = [''*''],
     pr_max_risk = ''medium'', pr_allowed_modes = [REPLAY, SHADOW], pr_require_reversible = False,
     pr_required_approvals = []\<rparr>"

definition policy_rules :: "policy_rule list \<Rightarrow> policy_rule list" where
  "policy_rules rules = (if rules = [] then [core_shadow_default] else rules)"

definition rule_applies :: "action_proposal \<Rightarrow> policy_rule \<Rightarrow> bool" where
  "rule_applies action rule \<longleftrightarrow>
     ''*'' \<in> set (pr_action_types rule) \<or> ac_action_type action \<in> set (pr_action_types rule)"

definition rule_reasons :: "action_proposal \<Rightarrow> runtime_mode \<Rightarrow> policy_rule \<Rightarrow> string list" where
  "rule_reasons action mode rule =
     (if mode \<notin> set (pr_allowed_modes rule) then [''mode_not_allowed:'' @ pr_policy_id rule] else [])
   @ (if risk_or (ac_risk_level action) 99 > risk_or (pr_max_risk rule) (-1)
      then [''risk_exceeds_limit:'' @ pr_policy_id rule] else [])
   @ (if pr_require_reversible rule \<and> \<not> ac_reversible action
      then [''reversibility_required:'' @ pr_policy_id rule] else [])"

definition evaluate ::
  "string \<Rightarrow> string \<Rightarrow> policy_rule list \<Rightarrow> action_proposal \<Rightarrow> runtime_mode \<Rightarrow> string list \<Rightarrow> policy_decision" where
  "evaluate decision_id now rules action mode approvals =
     (let matching = filter (rule_applies action) (policy_rules rules)
      in if matching = []
         then \<lparr>pd_id = decision_id, pd_action_id = ac_id action, pd_effect = BLOCK,
               pd_policy_ids = [''implicit-deny''], pd_reasons = [''no_matching_policy''],
               pd_required_approvals = [], pd_decided_at = now\<rparr>
         else
           (let reasons = concat (map (rule_reasons action mode) matching);
                required = sort (remdups (concat (map pr_required_approvals matching)));
                missing = filter (\<lambda>role. role \<notin> set approvals) required;
                effect_reasons =
                  (if reasons \<noteq> [] then (BLOCK, reasons)
                   else if missing \<noteq> []
                   then (REQUIRE_APPROVAL, reasons @ map (\<lambda>role. ''missing_approval:'' @ role) missing)
                   else if mode \<in> {REPLAY, SHADOW} then (ALLOW, reasons @ [''simulation_only''])
                   else (ALLOW, reasons))
            in \<lparr>pd_id = decision_id, pd_action_id = ac_id action, pd_effect = fst effect_reasons,
                pd_policy_ids = map pr_policy_id matching, pd_reasons = snd effect_reasons,
                pd_required_approvals = required, pd_decided_at = now\<rparr>))"

section \<open>What a decision means\<close>

definition rule_permits :: "action_proposal \<Rightarrow> runtime_mode \<Rightarrow> policy_rule \<Rightarrow> bool" where
  "rule_permits action mode rule \<longleftrightarrow> mode \<in> set (pr_allowed_modes rule) \<and>
     risk_or (ac_risk_level action) 99 \<le> risk_or (pr_max_risk rule) (-1) \<and>
     (pr_require_reversible rule \<longrightarrow> ac_reversible action)"

lemma rule_reasons_Nil: "rule_reasons action mode rule = [] \<longleftrightarrow> rule_permits action mode rule"
  by (auto simp: rule_reasons_def rule_permits_def)

lemma evaluate_effect:
  "pd_effect (evaluate i now rules action mode approvals) =
     (let matching = filter (rule_applies action) (policy_rules rules)
      in if matching = [] \<or> \<not> list_all (rule_permits action mode) matching then BLOCK
         else if \<not> list_all (\<lambda>rule. set (pr_required_approvals rule) \<subseteq> set approvals) matching then REQUIRE_APPROVAL
         else ALLOW)"
  by (auto simp: evaluate_def Let_def list_all_iff filter_empty_conv rule_reasons_Nil concat_eq_Nil_conv)

end
