(* ===== verification/Receipts.thy ===== *)
theory Receipts
  imports Json_Canon
begin

text \<open>
  Model of \<^verbatim>\<open>src/src/phigraph/core_v3/receipts.py\<close>: signed receipts. The HMAC of the standard library is the
  argument \<open>mac\<close> (key and message to the hexadecimal digest). The lemmas show what a signature is
  worth: a signed receipt verifies, and two verified receipts with one signature value carry the same
  content unless \<open>mac\<close> maps their two texts to the same digest.
\<close>

record receipt_signer =
  rs_key :: string
  rs_key_id :: string

definition signer_create :: "string \<Rightarrow> string \<Rightarrow> receipt_signer" where
  "signer_create key key_id = \<lparr>rs_key = key, rs_key_id = key_id\<rparr>"

definition receipt_canonical :: "pdict \<Rightarrow> string" where
  "receipt_canonical receipt = dumps (JObj (filter (\<lambda>(k, v). k \<noteq> ''signature'') receipt))"

definition receipt_sign :: "(string \<Rightarrow> string \<Rightarrow> string) \<Rightarrow> receipt_signer \<Rightarrow> pdict \<Rightarrow> pdict" where
  "receipt_sign mac signer receipt =
     (let digest = mac (rs_key signer) (receipt_canonical receipt)
      in dset receipt ''signature'' (JObj [(''alg'', JStr ''hmac-sha256''), (''key_id'', JStr (rs_key_id signer)),
           (''value'', JStr digest)]))"

text \<open>\<open>hmac.compare_digest\<close> on two strings raises unless both are ASCII.\<close>

definition is_ascii :: "string \<Rightarrow> bool" where
  "is_ascii s \<longleftrightarrow> list_all (\<lambda>c. (of_char c :: nat) < 128) s"

definition compare_digest :: "string \<Rightarrow> string \<Rightarrow> bool res" where
  "compare_digest a b = (if is_ascii a \<and> is_ascii b then Inr (a = b)
     else Inl (TypeError ''comparing strings with non-ASCII characters is not supported''))"

definition receipt_verify :: "(string \<Rightarrow> string \<Rightarrow> string) \<Rightarrow> receipt_signer \<Rightarrow> pdict \<Rightarrow> bool res" where
  "receipt_verify mac signer receipt =
     bindE (as_dict (dget_or receipt ''signature'' (JObj []))) (\<lambda>signature.
     if dget signature ''alg'' \<noteq> JStr ''hmac-sha256'' \<or> dget signature ''key_id'' \<noteq> JStr (rs_key_id signer)
     then Inr False
     else compare_digest (py_str (dget_or signature ''value'' (JStr [])))
       (mac (rs_key signer) (receipt_canonical receipt)))"

section \<open>What a signature shows\<close>

text \<open>A hexadecimal digest is ASCII: what the code relies on of \<open>hmac\<close>.\<close>

definition ascii_mac :: "(string \<Rightarrow> string \<Rightarrow> string) \<Rightarrow> bool" where
  "ascii_mac mac \<longleftrightarrow> (\<forall>k m. is_ascii (mac k m))"

lemma receipt_canonical_dremove: "receipt_canonical r = dumps (JObj (dremove r ''signature''))"
  by (simp add: receipt_canonical_def dremove_def)

lemma receipt_canonical_signature [simp]: "receipt_canonical (dset r ''signature'' v) = receipt_canonical r"
  by (simp add: receipt_canonical_dremove dremove_dset_same)

lemma receipt_canonical_canon:
  assumes "ddistinct r"
  shows "receipt_canonical (canon_dict r) = receipt_canonical r"
proof -
  have "canon_dict (dremove (canon_dict r) ''signature'') = canon_dict (dremove r ''signature'')"
    using assms by (intro canon_dict_eqI) (auto simp: map_of_canon_dict option.map_comp comp_def)
  then show ?thesis
    unfolding receipt_canonical_dremove dumps_eq_iff by (simp only: canon_JObj)
qed

lemma receipt_sign_verify: "is_ascii (mac (rs_key signer) (receipt_canonical r)) \<Longrightarrow>
    receipt_verify mac signer (receipt_sign mac signer r) = Inr True"
  by (simp add: receipt_verify_def receipt_sign_def Let_def dget_or_def dget_def compare_digest_def)

lemma receipt_verify_True:
  "receipt_verify mac signer r = Inr True \<Longrightarrow>
     \<exists>s. map_of r ''signature'' = Some (JObj s) \<and> dget s ''alg'' = JStr ''hmac-sha256'' \<and>
       dget s ''key_id'' = JStr (rs_key_id signer) \<and>
       py_str (dget_or s ''value'' (JStr [])) = mac (rs_key signer) (receipt_canonical r)"
  by (cases "dget_or r ''signature'' (JObj [])")
    (auto simp: receipt_verify_def dget_or_def dget_def compare_digest_def split: option.splits if_splits)

lemma canon_signature_cases: "canon v = JObj d \<Longrightarrow> \<exists>e. v = JObj e \<and> d = canon_dict e"
  by (cases v) (auto simp: canon_dict_def)

text \<open>Reading a receipt back from the file does not change what it verifies to.\<close>

lemma py_str_canon_str: "canon v = JStr s \<longleftrightarrow> v = JStr s"
  by (cases v) auto

lemma receipt_verify_canon:
  assumes "dwf r" "receipt_verify mac signer r = Inr True" "\<exists>s v. map_of r ''signature'' = Some (JObj s) \<and> map_of s ''value'' = Some (JStr v)"
  shows "receipt_verify mac signer (canon_dict r) = Inr True"
proof -
  have d: "ddistinct r" using assms(1) by (simp add: dwf_def)
  from assms(3) obtain s v where s: "map_of r ''signature'' = Some (JObj s)" "map_of s ''value'' = Some (JStr v)" by blast
  have ds: "ddistinct s" using dwf_map_of [OF assms(1) s(1)] by (simp add: dwf_def)
  have e: "dget_or r ''signature'' (JObj []) = JObj s" "dget_or (canon_dict r) ''signature'' (JObj []) = JObj (canon_dict s)"
    "dget_or s ''value'' (JStr []) = JStr v" "dget_or (canon_dict s) ''value'' (JStr []) = JStr v"
    using s map_of_canon_dict [OF d, of "''signature''"] map_of_canon_dict [OF ds, of "''value''"]
    by (simp_all add: dget_or_def canon_JObj del: canon.simps(6))
  show ?thesis
    using assms(2)
    by (simp add: receipt_verify_def e dget_canon_dict [OF ds] py_str_canon_str receipt_canonical_canon [OF d] split: if_splits)
qed

text \<open>A signature fixes the signed content, up to a collision of the two texts at hand.\<close>

lemma receipt_signature_binds:
  assumes "receipt_verify mac signer r = Inr True" "receipt_verify mac signer r' = Inr True"
    and "map_of r' ''signature'' = map_of r ''signature''"
    and "inj_on (mac (rs_key signer)) {receipt_canonical r, receipt_canonical r'}"
  shows "canon_dict (dremove r ''signature'') = canon_dict (dremove r' ''signature'')"
proof -
  obtain s where s: "map_of r ''signature'' = Some (JObj s)"
    "py_str (dget_or s ''value'' (JStr [])) = mac (rs_key signer) (receipt_canonical r)"
    using receipt_verify_True [OF assms(1)] by blast
  obtain s' where s': "map_of r' ''signature'' = Some (JObj s')"
    "py_str (dget_or s' ''value'' (JStr [])) = mac (rs_key signer) (receipt_canonical r')"
    using receipt_verify_True [OF assms(2)] by blast
  have "s' = s" using s(1) s'(1) assms(3) by simp
  then have "mac (rs_key signer) (receipt_canonical r) = mac (rs_key signer) (receipt_canonical r')"
    using s(2) s'(2) by simp
  then have "receipt_canonical r = receipt_canonical r'" by (rule inj_onD [OF assms(4)]) simp_all
  then show ?thesis
    unfolding receipt_canonical_dremove dumps_eq_iff by (simp only: canon_JObj json.inject)
qed

text \<open>C17: A signed receipt stands for its content: two receipts that verify under one signer with the same
  signature have the same content up to the order of keys, as long as the HMAC tells their two texts apart.\<close>

theorem signature_fixes_receipt:
  assumes "receipt_verify mac signer r = Inr True" "receipt_verify mac signer r' = Inr True"
    and "map_of r' ''signature'' = map_of r ''signature''"
    and "inj_on (mac (rs_key signer)) {receipt_canonical r, receipt_canonical r'}"
  shows "canon_dict (dremove r ''signature'') = canon_dict (dremove r' ''signature'')"
  by (rule receipt_signature_binds [OF assms])

definition demo_mac :: "string \<Rightarrow> string \<Rightarrow> string" where
  "demo_mac k m = k @ m"

definition demo_signer :: receipt_signer where
  "demo_signer = signer_create ''k'' ''core-v3-default''"

lemma signature_fixes_receipt_witness:
  "canon_dict (dremove (receipt_sign demo_mac demo_signer [(''a'', JInt 1), (''b'', JInt 2)]) ''signature'') =
   canon_dict (dremove (receipt_sign demo_mac demo_signer [(''b'', JInt 2), (''a'', JInt 1)]) ''signature'')"
proof (rule signature_fixes_receipt [of demo_mac demo_signer])
  show "inj_on (demo_mac (rs_key demo_signer)) A" for A by (simp add: demo_mac_def inj_on_def)
qed code_simp+

end
