(* ===== verification/Legacy_Ledger.thy ===== *)
theory Legacy_Ledger
  imports Transactions Core_Models Receipts
begin

text \<open>
  Model of the collection ledger: \<^verbatim>\<open>src/src/phigraph/core_v3/ledger.py\<close> (the unscoped operations of
  \<open>EvidenceLedger\<close>) over the JSON and SQLite backends of \<^verbatim>\<open>src/src/phigraph/core_v3/backends.py\<close>. An operation
  takes the backend's \<open>read_all\<close> and \<open>write_all\<close> as its first arguments; both backends are given
  below. Every operation holds the ledger's \<open>RLock\<close> from its read to its write.
\<close>

type_synonym ledger_rows = "(string \<times> pdict list) list"

section \<open>Backends\<close>

definition LEDGER_COLLECTIONS :: "string list" where
  "LEDGER_COLLECTIONS = [''claims'', ''evidence'', ''verifications'', ''actions'', ''policy_decisions'',
     ''outcomes'', ''decision_envelopes'', ''authority_decisions'', ''execution_requests'',
     ''gateway_decisions'', ''gateway_decision_events'', ''shadow_execution_receipts'',
     ''shadow_outcomes'', ''replay_reports'', ''historical_comparisons'']"

text \<open>\<open>payload.setdefault(collection, [])\<close> for every collection.\<close>

definition set_defaults :: "string list \<Rightarrow> ledger_rows \<Rightarrow> ledger_rows" where
  "set_defaults collections payload =
     foldl (\<lambda>m c. if map_of m c = None then dset m c [] else m) payload collections"

definition collection_from_json :: "string \<times> json \<Rightarrow> (string \<times> pdict list) res" where
  "collection_from_json item = bindE (json_list (snd item)) (\<lambda>xs.
     bindE (mapE json_dict xs) (\<lambda>rows. Inr (fst item, rows)))"

definition json_read_all :: "json \<Rightarrow> ledger_rows res" where
  "json_read_all file = bindE (as_dict file) (\<lambda>d.
     bindE (mapE collection_from_json d) (\<lambda>payload. Inr (set_defaults LEDGER_COLLECTIONS payload)))"

definition payload_to_json :: "ledger_rows \<Rightarrow> json" where
  "payload_to_json payload = JObj (map (\<lambda>(c, rows). (c, JArr (map JObj rows))) payload)"

definition json_write_all :: "ledger_rows \<Rightarrow> (json, unit) act" where
  "json_write_all payload file = (Inr (), canon (payload_to_json payload))"

text \<open>The table \<open>ledger(collection, record_id, payload)\<close>, in the order of \<open>rowid\<close>.\<close>

type_synonym ledger_table = "(string \<times> string \<times> pdict) list"

definition sqlite_read_all :: "ledger_table \<Rightarrow> ledger_rows res" where
  "sqlite_read_all table = Inr (foldl (\<lambda>m (c, rid, row). dset m c ((case map_of m c of None \<Rightarrow> [] | Some rows \<Rightarrow> rows) @ [row]))
     (map (\<lambda>c. (c, [])) LEDGER_COLLECTIONS) table)"

text \<open>\<open>next((str(v) for k, v in row.items() if k.endswith("_id")), None)\<close>\<close>

definition ends_with_id :: "string \<Rightarrow> bool" where
  "ends_with_id k \<longleftrightarrow> length k \<ge> 3 \<and> drop (length k - 3) k = ''_id''"

definition table_record_id :: "pdict \<Rightarrow> string option" where
  "table_record_id row = map_option (\<lambda>(k, v). py_str v) (find (\<lambda>(k, v). ends_with_id k) row)"

fun insert_rows :: "string \<Rightarrow> pdict list \<Rightarrow> ledger_table \<Rightarrow> ledger_table res" where
  "insert_rows c [] table = Inr table"
| "insert_rows c (row # rows) table = (case table_record_id row of
     None \<Rightarrow> Inl (ValueError (''Record in '' @ c @ '' has no *_id field''))
   | Some rid \<Rightarrow> if (\<exists>(c', rid', _) \<in> set table. c' = c \<and> rid' = rid)
       then Inl (IntegrityError ''UNIQUE constraint failed: ledger.collection, ledger.record_id'')
       else insert_rows c rows (table @ [(c, rid, canon_dict row)]))"

fun insert_collections :: "ledger_rows \<Rightarrow> ledger_table \<Rightarrow> ledger_table res" where
  "insert_collections [] table = Inr table"
| "insert_collections ((c, rows) # cs) table = bindE (insert_rows c rows table) (insert_collections cs)"

definition sqlite_write_all :: "ledger_rows \<Rightarrow> (ledger_table, unit) act" where
  "sqlite_write_all payload table = (case insert_collections payload [] of
     Inl e \<Rightarrow> (Inl e, table) | Inr table' \<Rightarrow> (Inr (), table'))"

section \<open>Hashes and chains\<close>

definition hash_payload :: "(string \<Rightarrow> string) \<Rightarrow> json \<Rightarrow> string" where
  "hash_payload H payload = H (dumps payload)"

definition legacy_link :: "(string \<Rightarrow> string) \<Rightarrow> json \<Rightarrow> string \<Rightarrow> pdict \<Rightarrow> string" where
  "legacy_link H previous_hash collection row = hash_payload H (JObj [
     (''previous_hash'', previous_hash), (''collection'', JStr collection),
     (''record'', JObj (dremove row ''_chain''))])"

definition legacy_chain_value :: "json \<Rightarrow> string \<Rightarrow> json" where
  "legacy_chain_value previous_hash hash = JObj [(''previous_hash'', previous_hash), (''hash'', JStr hash),
     (''alg'', JStr ''sha256'')]"

fun rechain_rows :: "(string \<Rightarrow> string) \<Rightarrow> string \<Rightarrow> json \<Rightarrow> pdict list \<Rightarrow> pdict list" where
  "rechain_rows H collection previous_hash [] = []"
| "rechain_rows H collection previous_hash (existing # rows) =
     (let canonical = dremove existing ''_chain'';
          chain_hash = legacy_link H previous_hash collection canonical
      in dset canonical ''_chain'' (legacy_chain_value previous_hash chain_hash)
         # rechain_rows H collection (JStr chain_hash) rows)"

definition rechain_payload :: "(string \<Rightarrow> string) \<Rightarrow> ledger_rows \<Rightarrow> ledger_rows" where
  "rechain_payload H payload = foldl (\<lambda>m c. dset m c (rechain_rows H c JNull
     (case map_of m c of None \<Rightarrow> [] | Some rows \<Rightarrow> rows))) payload LEDGER_COLLECTIONS"

datatype rows_status = RowsOk nat json | RowsBad nat string

fun verify_rows :: "(string \<Rightarrow> string) \<Rightarrow> string \<Rightarrow> json \<Rightarrow> nat \<Rightarrow> pdict list \<Rightarrow> rows_status res" where
  "verify_rows H collection previous_hash checked [] = Inr (RowsOk checked previous_hash)"
| "verify_rows H collection previous_hash checked (row # rows) =
     (if dget row ''_chain'' = JNull then Inr (RowsBad checked ''missing_chain'')
      else bindE (as_dict (dget row ''_chain'')) (\<lambda>chain.
        if \<not> py_eq (dget chain ''previous_hash'') previous_hash then Inr (RowsBad checked ''link_mismatch'')
        else if \<not> py_eq (JStr (legacy_link H previous_hash collection row)) (dget chain ''hash'')
        then Inr (RowsBad checked ''hash_mismatch'')
        else verify_rows H collection (dget chain ''hash'') (checked + 1) rows))"

datatype chain_status = ChainValid nat "(string \<times> json) list" | ChainInvalid nat string string

definition collection_rows :: "ledger_rows \<Rightarrow> string \<Rightarrow> pdict list res" where
  "collection_rows payload c = (case map_of payload c of None \<Rightarrow> Inl (KeyError c) | Some rows \<Rightarrow> Inr rows)"

fun verify_collections_from ::
  "(string \<Rightarrow> string) \<Rightarrow> ledger_rows \<Rightarrow> nat \<Rightarrow> (string \<times> json) list \<Rightarrow> string list \<Rightarrow> chain_status res" where
  "verify_collections_from H payload checked heads [] = Inr (ChainValid checked heads)"
| "verify_collections_from H payload checked heads (c # cs) =
     bindE (collection_rows payload c) (\<lambda>rows.
     bindE (verify_rows H c JNull checked rows) (\<lambda>st.
     case st of RowsBad n reason \<Rightarrow> Inr (ChainInvalid n reason c)
     | RowsOk n head \<Rightarrow> verify_collections_from H payload n (dset heads c head) cs))"

definition verify_chain :: "('b \<Rightarrow> ledger_rows res) \<Rightarrow> (string \<Rightarrow> string) \<Rightarrow> 'b \<Rightarrow> chain_status res" where
  "verify_chain rd H s = bindE (rd s) (\<lambda>payload. verify_collections_from H payload 0 [] LEDGER_COLLECTIONS)"

definition readS :: "('b \<Rightarrow> 'a res) \<Rightarrow> ('b, 'a) act" where
  "readS rd s = (rd s, s)"

definition repair_chain ::
  "('b \<Rightarrow> ledger_rows res) \<Rightarrow> (ledger_rows \<Rightarrow> ('b, unit) act) \<Rightarrow> (string \<Rightarrow> string) \<Rightarrow> ('b, chain_status) act" where
  "repair_chain rd wr H =
     bindS (readS rd) (\<lambda>payload.
     bindS (wr (rechain_payload H payload)) (\<lambda>_.
     readS (verify_chain rd H)))"

section \<open>Appending\<close>

fun key_exists :: "string \<Rightarrow> pdict \<Rightarrow> pdict list \<Rightarrow> bool res" where
  "key_exists unique_key row [] = Inr False"
| "key_exists unique_key row (item # items) =
     bindE (dindex item unique_key) (\<lambda>a. bindE (dindex row unique_key) (\<lambda>b.
     if py_eq a b then Inr True else key_exists unique_key row items))"

definition last_chain_hash :: "pdict list \<Rightarrow> json res" where
  "last_chain_hash rows = (if rows = [] then Inr JNull
     else bindE (as_dict (dget_or (last rows) ''_chain'' (JObj []))) (\<lambda>chain. Inr (dget chain ''hash'')))"

definition chained_row :: "(string \<Rightarrow> string) \<Rightarrow> json \<Rightarrow> string \<Rightarrow> pdict \<Rightarrow> pdict" where
  "chained_row H previous_hash collection row =
     dset row ''_chain'' (legacy_chain_value previous_hash (legacy_link H previous_hash collection row))"

definition add_row ::
  "(ledger_rows \<Rightarrow> ('b, unit) act) \<Rightarrow> (string \<Rightarrow> string) \<Rightarrow> ledger_rows \<Rightarrow> string \<Rightarrow> pdict list \<Rightarrow> pdict \<Rightarrow> ('b, pdict) act" where
  "add_row wr H payload collection rows row =
     bindS (liftS (last_chain_hash rows)) (\<lambda>previous_hash.
     let stored = chained_row H previous_hash collection row in
     bindS (wr (dset payload collection (rows @ [stored]))) (\<lambda>_. retS stored))"

definition legacy_append ::
  "('b \<Rightarrow> ledger_rows res) \<Rightarrow> (ledger_rows \<Rightarrow> ('b, unit) act) \<Rightarrow> (string \<Rightarrow> string)
   \<Rightarrow> string \<Rightarrow> pdict \<Rightarrow> string \<Rightarrow> ('b, pdict) act" where
  "legacy_append rd wr H collection row unique_key =
     bindS (readS rd) (\<lambda>payload.
     bindS (liftS (collection_rows payload collection)) (\<lambda>rows.
     bindS (liftS (key_exists unique_key row rows)) (\<lambda>dup.
     if dup then failS (ValueError (''Duplicate '' @ unique_key @ '': '' @ py_str (dget row unique_key)))
     else add_row wr H payload collection rows row)))"

definition scope_metadata :: "pdict \<Rightarrow> string \<Rightarrow> string \<Rightarrow> pdict" where
  "scope_metadata metadata tenant_id project_id =
     dset (dset metadata ''tenant_id'' (JStr tenant_id)) ''project_id'' (JStr project_id)"

definition with_scope_field :: "pdict \<Rightarrow> string \<Rightarrow> string \<Rightarrow> pdict" where
  "with_scope_field row tenant_id project_id = dset row ''scope''
     (JObj [(''tenant_id'', JStr tenant_id), (''project_id'', JStr project_id)])"

text \<open>The HMAC of the standard library is the argument \<open>mac\<close>; an empty key counts as none.\<close>

definition sign_hash :: "(string \<Rightarrow> string \<Rightarrow> string) \<Rightarrow> string option \<Rightarrow> string \<Rightarrow> string option" where
  "sign_hash mac signing_key content_hash = (case signing_key of None \<Rightarrow> None
     | Some key \<Rightarrow> if key = [] then None else Some (mac key content_hash))"

definition signed_evidence ::
  "(string \<Rightarrow> string) \<Rightarrow> (string \<Rightarrow> string \<Rightarrow> string) \<Rightarrow> string option \<Rightarrow> evidence \<Rightarrow> string \<Rightarrow> string \<Rightarrow> evidence" where
  "signed_evidence H mac signing_key e tenant_id project_id =
     (let content_hash = (case ev_content_hash e of None \<Rightarrow> hash_payload H (JObj (ev_payload e)) | Some h \<Rightarrow> h);
          metadata = scope_metadata (ev_metadata e) tenant_id project_id
      in e\<lparr>ev_content_hash := Some content_hash,
           ev_metadata := (case sign_hash mac signing_key content_hash of
             None \<Rightarrow> metadata
           | Some s \<Rightarrow> if s = [] then metadata
               else dset (dset metadata ''signature'' (JStr s)) ''signature_alg'' (JStr ''hmac-sha256''))\<rparr>)"

definition register_evidence ::
  "('b \<Rightarrow> ledger_rows res) \<Rightarrow> (ledger_rows \<Rightarrow> ('b, unit) act) \<Rightarrow> (string \<Rightarrow> string) \<Rightarrow> (string \<Rightarrow> string \<Rightarrow> string)
   \<Rightarrow> string option \<Rightarrow> evidence \<Rightarrow> string \<Rightarrow> string \<Rightarrow> ('b, evidence) act" where
  "register_evidence rd wr H mac signing_key e tenant_id project_id =
     (let e' = signed_evidence H mac signing_key e tenant_id project_id
      in bindS (legacy_append rd wr H ''evidence'' (evidence_to_dict e') ''evidence_id'') (\<lambda>_. retS e'))"

definition register_claim ::
  "('b \<Rightarrow> ledger_rows res) \<Rightarrow> (ledger_rows \<Rightarrow> ('b, unit) act) \<Rightarrow> (string \<Rightarrow> string)
   \<Rightarrow> claim \<Rightarrow> string \<Rightarrow> string \<Rightarrow> ('b, claim) act" where
  "register_claim rd wr H c tenant_id project_id =
     (let c' = c\<lparr>cl_metadata := scope_metadata (cl_metadata c) tenant_id project_id\<rparr>
      in bindS (legacy_append rd wr H ''claims'' (claim_to_dict c') ''claim_id'') (\<lambda>_. retS c'))"

definition register_action ::
  "('b \<Rightarrow> ledger_rows res) \<Rightarrow> (ledger_rows \<Rightarrow> ('b, unit) act) \<Rightarrow> (string \<Rightarrow> string)
   \<Rightarrow> action_proposal \<Rightarrow> string \<Rightarrow> string \<Rightarrow> ('b, action_proposal) act" where
  "register_action rd wr H a tenant_id project_id =
     bindS (legacy_append rd wr H ''actions'' (with_scope_field (action_to_dict a) tenant_id project_id) ''action_id'')
       (\<lambda>_. retS a)"

definition record_policy_decision ::
  "('b \<Rightarrow> ledger_rows res) \<Rightarrow> (ledger_rows \<Rightarrow> ('b, unit) act) \<Rightarrow> (string \<Rightarrow> string)
   \<Rightarrow> policy_decision \<Rightarrow> string \<Rightarrow> string \<Rightarrow> ('b, policy_decision) act" where
  "record_policy_decision rd wr H d tenant_id project_id =
     bindS (legacy_append rd wr H ''policy_decisions'' (with_scope_field (policy_decision_to_dict d) tenant_id project_id)
       ''decision_id'') (\<lambda>_. retS d)"

definition record_outcome ::
  "('b \<Rightarrow> ledger_rows res) \<Rightarrow> (ledger_rows \<Rightarrow> ('b, unit) act) \<Rightarrow> (string \<Rightarrow> string)
   \<Rightarrow> outcome \<Rightarrow> string \<Rightarrow> string \<Rightarrow> ('b, outcome) act" where
  "record_outcome rd wr H r tenant_id project_id =
     bindS (legacy_append rd wr H ''outcomes'' (with_scope_field (outcome_to_dict r) tenant_id project_id) ''outcome_id'')
       (\<lambda>_. retS r)"

section \<open>Recording a verification\<close>

definition index_all :: "string \<Rightarrow> pdict list \<Rightarrow> json list res" where
  "index_all k rows = mapE (\<lambda>row. dindex row k) rows"

fun find_index :: "string \<Rightarrow> json \<Rightarrow> nat \<Rightarrow> pdict list \<Rightarrow> nat option res" where
  "find_index k v n [] = Inr None"
| "find_index k v n (row # rows) = bindE (dindex row k) (\<lambda>w. if py_eq w v then Inr (Some n) else find_index k v (n + 1) rows)"

definition merged_evidence_ids :: "pdict \<Rightarrow> string list \<Rightarrow> string list res" where
  "merged_evidence_ids claim ids = bindE (json_strs (dget_or claim ''evidence_ids'' (JArr []))) (\<lambda>old.
     Inr (sort (remdups (old @ ids))))"

definition record_verification ::
  "('b \<Rightarrow> ledger_rows res) \<Rightarrow> (ledger_rows \<Rightarrow> ('b, unit) act) \<Rightarrow> (string \<Rightarrow> string)
   \<Rightarrow> verification \<Rightarrow> string \<Rightarrow> string \<Rightarrow> ('b, verification) act" where
  "record_verification rd wr H v0 tenant_id project_id =
     (let v = v0\<lparr>vr_metadata := scope_metadata (vr_metadata v0) tenant_id project_id\<rparr> in
     bindS (readS rd) (\<lambda>payload.
     bindS (liftS (collection_rows payload ''claims'')) (\<lambda>claims.
     bindS (liftS (find_index ''claim_id'' (JStr (vr_claim_id v)) 0 claims)) (\<lambda>found.
     case found of None \<Rightarrow> failS (KeyError (''Unknown claim: '' @ vr_claim_id v))
     | Some i \<Rightarrow>
     bindS (liftS (bindE (collection_rows payload ''evidence'') (index_all ''evidence_id''))) (\<lambda>known.
     let missing = sort (remdups (filter (\<lambda>e. JStr e \<notin> set known) (vr_evidence_ids v))) in
     if missing \<noteq> [] then failS (KeyError (''Unknown evidence: '' @ py_repr (jstrs missing)))
     else bindS (liftS (collection_rows payload ''verifications'')) (\<lambda>verifications.
     bindS (liftS (find_index ''verification_id'' (JStr (vr_id v)) 0 verifications)) (\<lambda>dup.
     if dup \<noteq> None then failS (ValueError (''Duplicate verification_id: '' @ vr_id v))
     else bindS (liftS (merged_evidence_ids (claims ! i) (vr_evidence_ids v))) (\<lambda>ids.
     let claim = dset (dset (claims ! i) ''status'' (JStr (claim_status_value (vr_result v))))
                   ''evidence_ids'' (jstrs ids);
         payload1 = dset payload ''verifications'' (verifications @ [verification_to_dict v]);
         payload2 = dset payload1 ''claims'' (claims[i := claim])
     in bindS (wr (rechain_payload H payload2)) (\<lambda>_. retS v)))))))))"

section \<open>Scoped extension records\<close>

definition EXTENSION_COLLECTIONS :: "string list" where
  "EXTENSION_COLLECTIONS = [''decision_envelopes'', ''authority_decisions'', ''execution_requests'',
     ''gateway_decisions'', ''shadow_execution_receipts'', ''shadow_outcomes'', ''replay_reports'',
     ''historical_comparisons'']"

definition check_extension :: "string \<Rightarrow> unit res" where
  "check_extension collection = raise_if (collection \<notin> set EXTENSION_COLLECTIONS)
     (ValueError (''Unsupported scoped extension collection: '' @ collection))"

definition register_scoped_record ::
  "('b \<Rightarrow> ledger_rows res) \<Rightarrow> (ledger_rows \<Rightarrow> ('b, unit) act) \<Rightarrow> (string \<Rightarrow> string)
   \<Rightarrow> string \<Rightarrow> pdict \<Rightarrow> string \<Rightarrow> string \<Rightarrow> string \<Rightarrow> ('b, pdict) act" where
  "register_scoped_record rd wr H collection row unique_key tenant_id project_id =
     bindS (liftS (check_extension collection)) (\<lambda>_.
     let scoped = with_scope_field row tenant_id project_id
     in bindS (legacy_append rd wr H collection scoped unique_key) (\<lambda>_. retS scoped))"

text \<open>\<open>scope.get("tenant_id") == tenant_id and scope.get("project_id") == project_id\<close> for \<open>existing.get("scope", {})\<close>.\<close>

definition row_in_scope :: "pdict \<Rightarrow> string \<Rightarrow> string \<Rightarrow> bool res" where
  "row_in_scope row tenant_id project_id = bindE (as_dict (dget_or row ''scope'' (JObj []))) (\<lambda>scope.
     Inr (dget scope ''tenant_id'' = JStr tenant_id \<and> dget scope ''project_id'' = JStr project_id))"

fun find_in_scope :: "string \<Rightarrow> pdict \<Rightarrow> string \<Rightarrow> string \<Rightarrow> pdict list \<Rightarrow> pdict option res" where
  "find_in_scope unique_key row tenant_id project_id [] = Inr None"
| "find_in_scope unique_key row tenant_id project_id (existing # rows) =
     bindE (dindex existing unique_key) (\<lambda>a. bindE (dindex row unique_key) (\<lambda>b.
     if \<not> py_eq a b then find_in_scope unique_key row tenant_id project_id rows
     else bindE (row_in_scope existing tenant_id project_id) (\<lambda>hit.
       if hit then Inr (Some existing) else find_in_scope unique_key row tenant_id project_id rows)))"

definition register_scoped_record_once ::
  "('b \<Rightarrow> ledger_rows res) \<Rightarrow> (ledger_rows \<Rightarrow> ('b, unit) act) \<Rightarrow> (string \<Rightarrow> string)
   \<Rightarrow> string \<Rightarrow> pdict \<Rightarrow> string \<Rightarrow> string \<Rightarrow> string \<Rightarrow> ('b, pdict \<times> bool) act" where
  "register_scoped_record_once rd wr H collection row unique_key tenant_id project_id =
     bindS (liftS (check_extension collection)) (\<lambda>_.
     bindS (readS rd) (\<lambda>payload.
     bindS (liftS (collection_rows payload collection)) (\<lambda>rows.
     bindS (liftS (find_in_scope unique_key row tenant_id project_id rows)) (\<lambda>found.
     case found of Some existing \<Rightarrow> retS (existing, False)
     | None \<Rightarrow> bindS (add_row wr H payload collection rows (with_scope_field row tenant_id project_id))
         (\<lambda>stored. retS (stored, True))))))"

text \<open>The loop of \<open>update_scoped_record\<close>: the index and the scope of the row to replace.\<close>

fun find_for_update :: "string \<Rightarrow> pdict \<Rightarrow> string \<Rightarrow> string \<Rightarrow> nat \<Rightarrow> pdict list \<Rightarrow> (nat \<times> json) res" where
  "find_for_update unique_key row tenant_id project_id n [] =
     bindE (dindex row unique_key) (\<lambda>b. Inl (KeyError (''scoped_record_not_found:'' @ py_str b)))"
| "find_for_update unique_key row tenant_id project_id n (existing # rows) =
     bindE (dindex existing unique_key) (\<lambda>a. bindE (dindex row unique_key) (\<lambda>b.
     if \<not> py_eq a b then find_for_update unique_key row tenant_id project_id (n + 1) rows
     else bindE (row_in_scope existing tenant_id project_id) (\<lambda>hit.
       if hit then Inr (n, dget_or existing ''scope'' (JObj []))
       else Inl (KeyError (''scoped_record_not_found:'' @ py_str b)))))"

definition update_scoped_record ::
  "('b \<Rightarrow> ledger_rows res) \<Rightarrow> (ledger_rows \<Rightarrow> ('b, unit) act) \<Rightarrow> (string \<Rightarrow> string)
   \<Rightarrow> string \<Rightarrow> pdict \<Rightarrow> string \<Rightarrow> string \<Rightarrow> string \<Rightarrow> ('b, pdict) act" where
  "update_scoped_record rd wr H collection row unique_key tenant_id project_id =
     bindS (liftS (check_extension collection)) (\<lambda>_.
     bindS (readS rd) (\<lambda>payload.
     bindS (liftS (collection_rows payload collection)) (\<lambda>rows.
     bindS (liftS (find_for_update unique_key row tenant_id project_id 0 rows)) (\<lambda>(i, scope).
     let scoped = dset row ''scope'' scope
     in bindS (wr (rechain_payload H (dset payload collection (rows[i := scoped])))) (\<lambda>_. retS scoped)))))"

section \<open>Queries\<close>

definition get_record :: "('b \<Rightarrow> ledger_rows res) \<Rightarrow> string \<Rightarrow> string \<Rightarrow> string \<Rightarrow> 'b \<Rightarrow> pdict res" where
  "get_record rd collection record_id id_key s =
     bindE (rd s) (\<lambda>payload. bindE (collection_rows payload collection) (\<lambda>rows.
     bindE (find_index id_key (JStr record_id) 0 rows) (\<lambda>found. case found of
       None \<Rightarrow> Inl (KeyError (''Unknown '' @ butlast collection @ '': '' @ record_id))
     | Some i \<Rightarrow> Inr (rows ! i))))"

text \<open>\<open>None\<close> is the code's \<open>None\<close>: there is no signature, or no key to check it with.\<close>

definition verify_evidence_signature ::
  "('b \<Rightarrow> ledger_rows res) \<Rightarrow> (string \<Rightarrow> string \<Rightarrow> string) \<Rightarrow> string option \<Rightarrow> string \<Rightarrow> 'b \<Rightarrow> bool option res" where
  "verify_evidence_signature rd mac signing_key evidence_id s =
     bindE (get_record rd ''evidence'' evidence_id ''evidence_id'' s) (\<lambda>row.
     bindE (as_dict (dget_or row ''metadata'' (JObj []))) (\<lambda>metadata.
     if dget metadata ''signature'' = JNull \<or> signing_key = None then Inr None
     else bindE (bindE (dindex row ''content_hash'') json_str) (\<lambda>content_hash.
       bindE (json_str (dget metadata ''signature'')) (\<lambda>signature.
       bindE (compare_digest signature (case sign_hash mac signing_key content_hash of None \<Rightarrow> [] | Some s \<Rightarrow> s)) (\<lambda>ok.
       Inr (Some ok))))))"

definition query_matches :: "string option \<Rightarrow> string option \<Rightarrow> string option \<Rightarrow> pdict \<Rightarrow> bool res" where
  "query_matches tenant_id project_id status row =
     (let scope = (if truthy (dget row ''scope'') then dget row ''scope'' else dget_or row ''metadata'' (JObj []))
      in bindE (case tenant_id of None \<Rightarrow> Inr True | Some t \<Rightarrow> bindE (as_dict scope) (\<lambda>d. Inr (dget d ''tenant_id'' = JStr t))) (\<lambda>a.
         if \<not> a then Inr False else
         bindE (case project_id of None \<Rightarrow> Inr True | Some p \<Rightarrow> bindE (as_dict scope) (\<lambda>d. Inr (dget d ''project_id'' = JStr p))) (\<lambda>b.
         if \<not> b then Inr False else
         Inr (case status of None \<Rightarrow> True | Some st \<Rightarrow> dget row ''status'' = JStr st))))"

fun filterE :: "('a \<Rightarrow> bool res) \<Rightarrow> 'a list \<Rightarrow> 'a list res" where
  "filterE f [] = Inr []"
| "filterE f (x # xs) = bindE (f x) (\<lambda>b. bindE (filterE f xs) (\<lambda>ys. Inr (if b then x # ys else ys)))"

text \<open>Python's slice \<open>xs[offset:offset + n]\<close>, negative bounds counting from the end.\<close>

definition py_bound :: "int \<Rightarrow> nat \<Rightarrow> nat" where
  "py_bound i len = (if i < 0 then nat (max 0 (i + int len)) else min (nat i) len)"

definition py_slice :: "int \<Rightarrow> int \<Rightarrow> 'a list \<Rightarrow> 'a list" where
  "py_slice i j xs = drop (py_bound i (length xs)) (take (py_bound j (length xs)) xs)"

definition ledger_query ::
  "('b \<Rightarrow> ledger_rows res) \<Rightarrow> string \<Rightarrow> string option \<Rightarrow> string option \<Rightarrow> string option \<Rightarrow> int \<Rightarrow> int \<Rightarrow> 'b \<Rightarrow> pdict list res" where
  "ledger_query rd collection tenant_id project_id status limit offset s =
     bindE (raise_if (collection \<notin> set LEDGER_COLLECTIONS) (ValueError (''Unknown collection: '' @ collection))) (\<lambda>_.
     bindE (rd s) (\<lambda>payload. bindE (collection_rows payload collection) (\<lambda>rows.
     bindE (filterE (query_matches tenant_id project_id status) rows) (\<lambda>hits.
     Inr (py_slice offset (offset + min limit 1000) hits)))))"

end
