(* ===== verification/Legacy_Facts.thy ===== *)
theory Legacy_Facts
  imports Legacy_Ledger Verify_Facts
begin

text \<open>
  The collection ledger over any backend: the contract of a backend as a locale, what every operation
  of the ledger keeps of the chains under that contract, and the two backends as its interpretations.
\<close>

section \<open>Chains of rows\<close>

fun rows_chain :: "(string \<Rightarrow> string) \<Rightarrow> string \<Rightarrow> json \<Rightarrow> pdict list \<Rightarrow> bool" where
  "rows_chain H c prev [] = True"
| "rows_chain H c prev (row # rows) =
     ((case dget row ''_chain'' of JObj chain \<Rightarrow> dget chain ''previous_hash'' = prev \<and>
         dget chain ''hash'' = JStr (legacy_link H prev c row) | _ \<Rightarrow> False) \<and>
      rows_chain H c (JStr (legacy_link H prev c row)) rows)"

definition leaf :: "json \<Rightarrow> bool" where
  "leaf v \<longleftrightarrow> v = JNull \<or> (\<exists>s. v = JStr s)"

lemma leaf_simps [simp]: "leaf JNull" "leaf (JStr s)"
  by (simp_all add: leaf_def)

lemma verify_rows_iff:
  "leaf prev \<Longrightarrow> (\<exists>h. verify_rows H c prev n rows = Inr (RowsOk m h)) \<longleftrightarrow> rows_chain H c prev rows \<and> m = n + length rows"
proof (induction H c prev n rows rule: verify_rows.induct)
  case (2 H c prev n row rows)
  show ?case
  proof (cases "dget row ''_chain''")
    case (JObj chain)
    then show ?thesis
      using 2 by (auto simp: leaf_def)
  qed (use 2 in auto)
qed auto

lemma dremove_twice [simp]: "dremove (dremove d k) k = dremove d k"
  by (rule dremove_idle) simp

lemma legacy_link_chain [simp]:
  "legacy_link H prev c (dset row ''_chain'' v) = legacy_link H prev c row"
  "legacy_link H prev c (dremove row ''_chain'') = legacy_link H prev c row"
  by (simp_all add: legacy_link_def dremove_dset_same)

lemma dget_legacy_chain [simp]:
  "dget [(''previous_hash'', p), (''hash'', JStr h), (''alg'', JStr ''sha256'')] ''previous_hash'' = p"
  "dget [(''previous_hash'', p), (''hash'', JStr h), (''alg'', JStr ''sha256'')] ''hash'' = JStr h"
  by (simp_all add: dget_def)

lemma rechain_rows_chain: "rows_chain H c prev (rechain_rows H c prev rows)"
  by (induction H c prev rows rule: rechain_rows.induct) (simp_all add: Let_def legacy_chain_value_def)

lemma rechain_rows_wf: "leaf prev \<Longrightarrow> list_all dwf rows \<Longrightarrow> list_all dwf (rechain_rows H c prev rows)"
proof (induction H c prev rows rule: rechain_rows.induct)
  case (2 H c prev row rows)
  then show ?case by (auto simp: Let_def legacy_chain_value_def leaf_def)
qed simp

definition chain_end :: "(string \<Rightarrow> string) \<Rightarrow> string \<Rightarrow> json \<Rightarrow> pdict list \<Rightarrow> json" where
  "chain_end H c prev rows = foldl (\<lambda>p row. JStr (legacy_link H p c row)) prev rows"

lemma rows_chain_snoc:
  "rows_chain H c prev (rows @ [row]) \<longleftrightarrow> rows_chain H c prev rows \<and> rows_chain H c (chain_end H c prev rows) [row]"
  by (induction rows arbitrary: prev) (simp_all add: chain_end_def)

lemma chain_end_leaf: "leaf prev \<Longrightarrow> leaf (chain_end H c prev rows)"
  by (induction rows arbitrary: prev) (simp_all add: chain_end_def)

lemma chain_end_last:
  "rows_chain H c prev rows \<Longrightarrow> rows \<noteq> [] \<Longrightarrow> last_chain_hash rows = Inr (chain_end H c prev rows)"
proof (induction rows arbitrary: prev)
  case (Cons row rows)
  show ?case
  proof (cases "rows = []")
    case True
    with Cons.prems show ?thesis
      by (auto simp: last_chain_hash_def chain_end_def dget_or_def dget_def split: json.splits option.splits)
  next
    case False
    with Cons show ?thesis by (simp add: last_chain_hash_def chain_end_def)
  qed
qed simp

lemma last_chain_hash_chain: "rows_chain H c JNull rows \<Longrightarrow> last_chain_hash rows = Inr (chain_end H c JNull rows)"
  using chain_end_last [of H c JNull rows] by (cases "rows = []") (simp_all add: last_chain_hash_def chain_end_def)

text \<open>Chains do not see the order of keys.\<close>

lemma legacy_link_canon:
  assumes "ddistinct row"
  shows "legacy_link H prev c (canon_dict row) = legacy_link H prev c row"
proof -
  have "canon (JObj (dremove (canon_dict row) ''_chain'')) = canon (JObj (dremove row ''_chain''))"
    using canon_dict_dremove [OF assms] by (simp only: canon_JObj)
  then have "canon_dict [(''previous_hash'', prev), (''collection'', JStr c), (''record'', JObj (dremove (canon_dict row) ''_chain''))]
      = canon_dict [(''previous_hash'', prev), (''collection'', JStr c), (''record'', JObj (dremove row ''_chain''))]"
    by (intro canon_dict_eqI) (simp_all del: canon.simps)
  then show ?thesis
    unfolding legacy_link_def hash_payload_def
    by (intro arg_cong [where f = H] dumps_eq_iff [THEN iffD2]) (simp only: canon_JObj)
qed

lemma rows_chain_canon:
  "list_all dwf rows \<Longrightarrow> leaf prev \<Longrightarrow> rows_chain H c prev (map canon_dict rows) = rows_chain H c prev rows"
proof (induction rows arbitrary: prev)
  case (Cons row rows)
  have d: "ddistinct row" using Cons.prems by (simp add: dwf_def)
  have "canon v = prev \<longleftrightarrow> v = prev" for v using Cons.prems(2) by (auto simp: leaf_def)
  moreover have "ddistinct chain" if "dget row ''_chain'' = JObj chain" for chain
    using that Cons.prems(1) dwf_map_of [of row "''_chain''"] by (fastforce simp: dget_def dwf_def split: option.splits)
  ultimately show ?case
    using Cons.IH [of "JStr (legacy_link H prev c row)"] Cons.prems legacy_link_canon [OF d] dget_canon_dict [OF d]
    by (auto simp: dget_canon_dict split: json.splits)
qed simp

lemma rows_chain_same:
  "map canon_dict rows = map canon_dict rows' \<Longrightarrow> list_all dwf rows \<Longrightarrow> list_all dwf rows'
   \<Longrightarrow> rows_chain H c JNull rows = rows_chain H c JNull rows'"
  using rows_chain_canon [of rows JNull H c] rows_chain_canon [of rows' JNull H c] by simp

section \<open>The contract of a backend\<close>

definition payload_wf :: "ledger_rows \<Rightarrow> bool" where
  "payload_wf p \<longleftrightarrow> ddistinct p \<and> (\<forall>c \<in> set LEDGER_COLLECTIONS. map_of p c \<noteq> None) \<and>
     (\<forall>(c, rows) \<in> set p. list_all dwf rows)"

definition same_rows :: "ledger_rows \<Rightarrow> ledger_rows \<Rightarrow> bool" where
  "same_rows p q \<longleftrightarrow> (\<forall>c \<in> set LEDGER_COLLECTIONS.
     map_option (map canon_dict) (map_of p c) = map_option (map canon_dict) (map_of q c))"

definition payload_chain :: "(string \<Rightarrow> string) \<Rightarrow> ledger_rows \<Rightarrow> bool" where
  "payload_chain H p \<longleftrightarrow> (\<forall>c \<in> set LEDGER_COLLECTIONS. \<forall>rows. map_of p c = Some rows \<longrightarrow> rows_chain H c JNull rows)"

lemma payload_wf_rows: "payload_wf p \<Longrightarrow> map_of p c = Some rows \<Longrightarrow> list_all dwf rows"
  by (auto simp: payload_wf_def dest: map_of_SomeD)

lemma payload_wf_dset: "payload_wf p \<Longrightarrow> list_all dwf rows \<Longrightarrow> payload_wf (dset p c rows)"
  using set_dset_subset [of p c rows] by (auto simp: payload_wf_def)

lemma payload_chain_same:
  assumes "same_rows p q" "payload_wf p" "payload_wf q" "payload_chain H q"
  shows "payload_chain H p"
  unfolding payload_chain_def
proof (intro ballI allI impI)
  fix c rows assume c: "c \<in> set LEDGER_COLLECTIONS" "map_of p c = Some rows"
  from bspec [OF assms(1) [unfolded same_rows_def] c(1)] c(2)
  obtain rows' where r: "map_of q c = Some rows'" "map canon_dict rows = map canon_dict rows'"
    by (cases "map_of q c") auto
  have "rows_chain H c JNull rows'" using assms(4) c(1) r(1) by (simp add: payload_chain_def)
  then show "rows_chain H c JNull rows"
    using rows_chain_same [OF r(2) payload_wf_rows [OF assms(2) c(2)] payload_wf_rows [OF assms(3) r(1)]] by simp
qed

lemma payload_chain_dset:
  "payload_chain H p \<Longrightarrow> (c \<in> set LEDGER_COLLECTIONS \<Longrightarrow> rows_chain H c JNull rows) \<Longrightarrow> payload_chain H (dset p c rows)"
  by (auto simp: payload_chain_def)

lemma verify_collections_ok:
  assumes "\<forall>c \<in> set cs. \<exists>rows. map_of p c = Some rows \<and> rows_chain H c JNull rows"
  shows "\<exists>m hs. verify_collections_from H p n heads cs = Inr (ChainValid m hs)"
  using assms
proof (induction cs arbitrary: n heads)
  case (Cons c cs)
  then obtain rows where rows: "map_of p c = Some rows" "rows_chain H c JNull rows" by auto
  with verify_rows_iff [of JNull H c n rows "n + length rows"]
  obtain h where "verify_rows H c JNull n rows = Inr (RowsOk (n + length rows) h)" by auto
  with rows Cons.IH [of "n + length rows" "dset heads c h"] Cons.prems show ?case
    by (simp add: collection_rows_def)
qed simp

text \<open>Rebuilding every chain makes any payload valid.\<close>

lemma rechain_step_wf: "payload_wf p \<Longrightarrow> payload_wf (dset p c (rechain_rows H c JNull
    (case map_of p c of None \<Rightarrow> [] | Some rows \<Rightarrow> rows)))"
  by (rule payload_wf_dset) (auto intro!: rechain_rows_wf dest: payload_wf_rows split: option.split)

lemma rechain_wf: "payload_wf p \<Longrightarrow> payload_wf (rechain_payload H p)"
proof -
  have "payload_wf p \<Longrightarrow> payload_wf (foldl (\<lambda>m c. dset m c (rechain_rows H c JNull
      (case map_of m c of None \<Rightarrow> [] | Some rows \<Rightarrow> rows))) p cs)" for cs
  proof (induction cs arbitrary: p)
    case (Cons c cs)
    show ?case using Cons.IH [OF rechain_step_wf [OF Cons.prems]] by simp
  qed simp
  then show "payload_wf p \<Longrightarrow> payload_wf (rechain_payload H p)" by (simp add: rechain_payload_def)
qed

lemma rechain_foldl_other:
  "c \<notin> set cs \<Longrightarrow> map_of (foldl (\<lambda>m c. dset m c (f c m)) p cs) c = map_of p c"
  by (induction cs arbitrary: p) auto

lemma rechain_chain: "payload_chain H (rechain_payload H p)"
proof -
  have "\<forall>c \<in> set cs. \<forall>rows. map_of (foldl (\<lambda>m c. dset m c (rechain_rows H c JNull
      (case map_of m c of None \<Rightarrow> [] | Some rows \<Rightarrow> rows))) p cs) c = Some rows \<longrightarrow> rows_chain H c JNull rows" for cs p
  proof (induction cs arbitrary: p)
    case (Cons c cs)
    show ?case
    proof (intro ballI allI impI)
      fix c' rows assume c': "c' \<in> set (c # cs)" and rows: "map_of (foldl (\<lambda>m c. dset m c (rechain_rows H c JNull
        (case map_of m c of None \<Rightarrow> [] | Some rows \<Rightarrow> rows))) p (c # cs)) c' = Some rows"
      show "rows_chain H c' JNull rows"
      proof (cases "c' \<in> set cs")
        case True
        with Cons.IH rows show ?thesis by simp
      next
        case False
        with rows c' show ?thesis
          by (simp add: rechain_foldl_other [where f = "\<lambda>c m. rechain_rows H c JNull
            (case map_of m c of None \<Rightarrow> [] | Some rows \<Rightarrow> rows)"]) (use rechain_rows_chain in blast)
      qed
    qed
  qed simp
  then show ?thesis by (simp add: payload_chain_def rechain_payload_def)
qed

locale ledger_backend =
  fixes inv :: "'b \<Rightarrow> bool"
    and rd :: "'b \<Rightarrow> ledger_rows res"
    and wr :: "ledger_rows \<Rightarrow> ('b, unit) act"
  assumes read_ok: "inv s \<Longrightarrow> \<exists>p. rd s = Inr p \<and> payload_wf p"
    and write_ok: "payload_wf p \<Longrightarrow> wr p s = (Inr u, s') \<Longrightarrow> inv s' \<and> (\<exists>q. rd s' = Inr q \<and> same_rows q p)"
    and write_err: "wr p s = (Inl e, s') \<Longrightarrow> s' = s"
begin

definition valid :: "(string \<Rightarrow> string) \<Rightarrow> 'b \<Rightarrow> bool" where
  "valid H s \<longleftrightarrow> inv s \<and> (\<exists>p. rd s = Inr p \<and> payload_chain H p)"

lemma valid_verifies: "valid H s \<Longrightarrow> \<exists>n hs. verify_chain rd H s = Inr (ChainValid n hs)"
proof -
  assume "valid H s"
  then obtain p where p: "rd s = Inr p" "payload_chain H p" and i: "inv s"
    by (auto simp: valid_def)
  have w: "payload_wf p" using read_ok [OF i] p(1) by auto
  have "\<forall>c \<in> set LEDGER_COLLECTIONS. \<exists>rows. map_of p c = Some rows \<and> rows_chain H c JNull rows"
  proof
    fix c assume "c \<in> set LEDGER_COLLECTIONS"
    with w p(2) show "\<exists>rows. map_of p c = Some rows \<and> rows_chain H c JNull rows"
      unfolding payload_wf_def payload_chain_def by (cases "map_of p c") auto
  qed
  from verify_collections_ok [OF this] p(1) show ?thesis by (simp add: verify_chain_def)
qed

lemma write_valid:
  assumes "payload_wf p" "payload_chain H p" "wr p s = (Inr u, s')"
  shows "valid H s'"
proof -
  from write_ok [OF assms(1,3)] obtain q where q: "inv s'" "rd s' = Inr q" "same_rows q p" by blast
  with read_ok [OF q(1)] have "payload_wf q" by auto
  from payload_chain_same [OF q(3) this assms(1,2)] q show ?thesis by (auto simp: valid_def)
qed

text \<open>A step of the ledger: it fails or reads without writing, or it writes one payload.\<close>

lemma write_step:
  assumes "valid H s" "bindS (wr p) (\<lambda>_. retS x) s = (r, s')" "payload_wf p" "payload_chain H p"
  shows "valid H s'"
proof -
  obtain z t where run: "wr p s = (z, t)" by (cases "wr p s")
  show ?thesis
  proof (cases z)
    case (Inl e)
    then show ?thesis using assms(1,2) write_err [OF run [unfolded Inl]] run by (simp add: bindS_def)
  next
    case (Inr u)
    then show ?thesis using write_valid [OF assms(3,4) run [unfolded Inr]] assms(2) run
      by (simp add: bindS_def retS_def)
  qed
qed

lemma read_step:
  assumes "valid H s" "bindS (readS rd) f s = (r, s')"
  obtains p where "rd s = Inr p" "payload_wf p" "payload_chain H p" "f p s = (r, s')"
proof -
  obtain p where p: "rd s = Inr p" "payload_chain H p" and i: "inv s"
    using assms(1) by (auto simp: valid_def)
  have "payload_wf p" using read_ok [OF i] p(1) by auto
  from that [OF p(1) this p(2)] show ?thesis using assms(2) p(1) by (simp add: bindS_def readS_def)
qed

lemma lift_step:
  assumes "bindS (liftS m) f s = (r, s')" "valid H s" "\<And>x. m = Inr x \<Longrightarrow> f x s = (r, s') \<Longrightarrow> valid H s'"
  shows "valid H s'"
  using assms by (cases m) (auto simp: bindS_def liftS_def)

lemma add_row_valid:
  assumes v: "valid H s" and p: "payload_wf p" "payload_chain H p" and rows: "map_of p c = Some rows"
    and c: "c \<in> set LEDGER_COLLECTIONS" and wf: "dwf row"
    and run: "add_row wr H p c rows row s = (r, s')"
  shows "valid H s'"
proof -
  let ?prev = "chain_end H c JNull rows"
  have ch: "rows_chain H c JNull rows" using p(2) c rows by (simp add: payload_chain_def)
  have leaf: "leaf ?prev" by (simp add: chain_end_leaf)
  have "rows_chain H c JNull (rows @ [chained_row H ?prev c row])"
    using ch by (simp add: rows_chain_snoc chained_row_def legacy_chain_value_def)
  moreover have "list_all dwf (rows @ [chained_row H ?prev c row])"
    using payload_wf_rows [OF p(1) rows] wf leaf by (auto simp: chained_row_def legacy_chain_value_def leaf_def)
  ultimately show ?thesis
    using run write_step [OF v, of "dset p c (rows @ [chained_row H ?prev c row])"] p
    by (simp add: add_row_def last_chain_hash_chain [OF ch] bindS_lift_Inr Let_def payload_wf_dset payload_chain_dset)
qed

lemma append_valid:
  assumes v: "valid H s" and wf: "dwf row" and c: "c \<in> set LEDGER_COLLECTIONS"
    and run: "legacy_append rd wr H c row k s = (r, s')"
  shows "valid H s'"
proof -
  obtain p where p: "payload_wf p" "payload_chain H p"
    and f: "bindS (liftS (collection_rows p c)) (\<lambda>rows. bindS (liftS (key_exists k row rows)) (\<lambda>dup.
       if dup then failS (ValueError (''Duplicate '' @ k @ '': '' @ py_str (dget row k)))
       else add_row wr H p c rows row)) s = (r, s')"
    using read_step [OF v run [unfolded legacy_append_def]] by blast
  show ?thesis
    using f v
  proof (rule lift_step)
    fix rows assume rows: "collection_rows p c = Inr rows"
      and g: "bindS (liftS (key_exists k row rows)) (\<lambda>dup.
       if dup then failS (ValueError (''Duplicate '' @ k @ '': '' @ py_str (dget row k)))
       else add_row wr H p c rows row) s = (r, s')"
    show ?thesis
      using g v
    proof (rule lift_step)
      fix dup assume "(if dup then failS (ValueError (''Duplicate '' @ k @ '': '' @ py_str (dget row k)))
        else add_row wr H p c rows row) s = (r, s')"
      with v p rows c wf add_row_valid show "valid H s'"
        by (auto simp: failS_def collection_rows_def split: if_splits option.splits)
    qed
  qed
qed

end

end
