(* ===== verification/Legacy_Backends.thy ===== *)
theory Legacy_Backends
  imports Legacy_Facts Store_Properties
begin

text \<open>
  The operations of the collection ledger keep every chain valid over any backend that honours the
  contract of \<open>Legacy_Facts\<close>; the JSON file and the SQLite table honour it; and the properties that
  follow for runs of the ledger on either.
\<close>

section \<open>Searching rows\<close>

lemma find_index_bound: "find_index k v n rows = Inr (Some i) \<Longrightarrow> n \<le> i \<and> i < n + length rows"
proof (induction k v n rows rule: find_index.induct)
  case (2 k v n row rows)
  then show ?case by (cases "dindex row k") (auto split: if_splits)
qed simp

lemma jwf_dget_or: "dwf d \<Longrightarrow> jwf v \<Longrightarrow> jwf (dget_or d k v)"
  by (auto simp: dget_or_def dest: dwf_map_of split: option.split)

lemma find_for_update_scope:
  "find_for_update k row t p n rows = Inr (i, scope) \<Longrightarrow> list_all dwf rows \<Longrightarrow> jwf scope"
proof (induction k row t p n rows rule: find_for_update.induct)
  case (1 k row t p n)
  then show ?case by (cases "dindex row k") auto
next
  case (2 k row t p n existing rows)
  show ?case
  proof (cases "dindex existing k")
    case (Inr a)
    note a = this
    show ?thesis
    proof (cases "dindex row k")
      case (Inr b)
      show ?thesis
      proof (cases "py_eq a b")
        case True
        with 2 a Inr show ?thesis
          by (cases "row_in_scope existing t p") (auto intro: jwf_dget_or split: if_splits)
      qed (use 2 a Inr in auto)
    qed (use 2 a in auto)
  qed (use 2 in auto)
qed

lemma list_all_update: "list_all P xs \<Longrightarrow> P x \<Longrightarrow> list_all P (xs[i := x])"
  using set_update_subset_insert [of xs i x] by (auto simp: list_all_iff)

lemma with_scope_field_wf [simp]: "dwf row \<Longrightarrow> dwf (with_scope_field row t p)"
  by (simp add: with_scope_field_def)

lemma payload_wf_row: "row \<in> set rows \<Longrightarrow> map_of p c = Some rows \<Longrightarrow> payload_wf p \<Longrightarrow> dwf row"
  using payload_wf_rows by (fastforce simp: list_all_iff)

lemma collection_rows_Inr: "collection_rows p c = Inr rows \<longleftrightarrow> map_of p c = Some rows"
  by (simp add: collection_rows_def split: option.split)

section \<open>The operations keep the chains\<close>

context ledger_backend
begin

text \<open>What an operation made of reads, checks and one write has to show.\<close>

definition keeps :: "(string \<Rightarrow> string) \<Rightarrow> ('b, 'a) act \<Rightarrow> bool" where
  "keeps H m \<longleftrightarrow> (\<forall>s r s'. valid H s \<longrightarrow> m s = (r, s') \<longrightarrow> valid H s')"

lemma keepsD: "keeps H m \<Longrightarrow> valid H s \<Longrightarrow> m s = (r, s') \<Longrightarrow> valid H s'"
  by (auto simp: keeps_def)

lemma keeps_ret: "keeps H (retS x)"
  by (simp add: keeps_def retS_def)

lemma keeps_fail: "keeps H (failS e)"
  by (simp add: keeps_def failS_def)

lemma keeps_lift: "(\<And>x. m = Inr x \<Longrightarrow> keeps H (f x)) \<Longrightarrow> keeps H (bindS (liftS m) f)"
  by (cases m) (simp_all add: keeps_def bindS_def liftS_def)

lemma keeps_bind:
  assumes "keeps H m" "\<And>x. keeps H (f x)"
  shows "keeps H (bindS m f)"
  unfolding keeps_def
proof (intro allI impI)
  fix s r s' assume v: "valid H s" and run: "bindS m f s = (r, s')"
  obtain z t where z: "m s = (z, t)" by (cases "m s")
  from keepsD [OF assms(1) v z] have "valid H t" .
  then show "valid H s'" using run z keepsD [OF assms(2)] by (cases z) (auto simp: bindS_def)
qed

lemma keeps_read:
  assumes "\<And>p. payload_wf p \<Longrightarrow> payload_chain H p \<Longrightarrow> keeps H (f p)"
  shows "keeps H (bindS (readS rd) f)"
  unfolding keeps_def
proof (intro allI impI)
  fix s r s' assume v: "valid H s" and run: "bindS (readS rd) f s = (r, s')"
  from read_step [OF v run] obtain p where p: "payload_wf p" "payload_chain H p" "f p s = (r, s')" by blast
  show "valid H s'" by (rule keepsD [OF assms [OF p(1,2)] v p(3)])
qed

lemma keeps_write:
  assumes "payload_wf p" "payload_chain H p"
  shows "keeps H (wr p)"
  unfolding keeps_def
proof (intro allI impI)
  fix s r s' assume v: "valid H s" and run: "wr p s = (r, s')"
  show "valid H s'"
  proof (cases r)
    case (Inl e)
    then show ?thesis using v write_err run by blast
  next
    case (Inr u)
    then show ?thesis using write_valid [OF assms] run by blast
  qed
qed

lemma keeps_rewrite: "payload_wf p \<Longrightarrow> keeps H (bindS (wr (rechain_payload H p)) (\<lambda>_. retS x))"
  by (intro keeps_bind keeps_write keeps_ret rechain_wf rechain_chain)

lemma repair_valid:
  assumes "inv s" "repair_chain rd wr H s = (Inr st, s')"
  shows "valid H s'"
proof -
  from read_ok [OF assms(1)] obtain p where p: "rd s = Inr p" "payload_wf p" by blast
  from assms(2) obtain s1 where "wr (rechain_payload H p) s = (Inr (), s1)" "s' = s1"
    by (auto simp: repair_chain_def readS_def p(1) bindS_def split: prod.splits sum.splits)
  with write_valid [OF rechain_wf [OF p(2)] rechain_chain] show ?thesis by blast
qed

lemma keeps_repair: "keeps H (repair_chain rd wr H)"
  unfolding repair_chain_def
  by (intro keeps_read keeps_bind keeps_write rechain_wf rechain_chain) (auto simp: keeps_def readS_def)

lemma keeps_add_row:
  assumes p: "payload_wf p" "payload_chain H p" and rows: "map_of p c = Some rows"
    and c: "c \<in> set LEDGER_COLLECTIONS" and wf: "dwf row"
  shows "keeps H (add_row wr H p c rows row)"
  unfolding keeps_def using add_row_valid [OF _ p rows c wf] by blast

lemma keeps_append: "c \<in> set LEDGER_COLLECTIONS \<Longrightarrow> dwf row \<Longrightarrow> keeps H (legacy_append rd wr H c row k)"
  unfolding legacy_append_def
  by (intro keeps_read keeps_lift) (auto intro: keeps_fail keeps_add_row simp: collection_rows_Inr)

lemma check_extension_collection: "check_extension c = Inr u \<Longrightarrow> c \<in> set LEDGER_COLLECTIONS"
  by (auto simp: check_extension_def EXTENSION_COLLECTIONS_def LEDGER_COLLECTIONS_def)

lemma keeps_register_scoped: "dwf row \<Longrightarrow> keeps H (register_scoped_record rd wr H c row k t pr)"
  unfolding register_scoped_record_def Let_def
  by (intro keeps_lift keeps_bind keeps_append keeps_ret with_scope_field_wf check_extension_collection)

lemma keeps_once:
  assumes "dwf row"
  shows "keeps H (register_scoped_record_once rd wr H c row k t pr)"
  unfolding register_scoped_record_once_def
proof (intro keeps_lift keeps_read)
  fix u p rows found
  assume "check_extension c = Inr u" "payload_wf p" "payload_chain H p" "collection_rows p c = Inr rows"
  then have "keeps H (add_row wr H p c rows (with_scope_field row t pr))"
    using assms by (intro keeps_add_row) (auto simp: collection_rows_Inr dest: check_extension_collection)
  then show "keeps H (case found of Some existing \<Rightarrow> retS (existing, False)
     | None \<Rightarrow> bindS (add_row wr H p c rows (with_scope_field row t pr)) (\<lambda>stored. retS (stored, True)))"
    by (cases found) (simp_all add: keeps_ret keeps_bind)
qed

lemma keeps_update:
  assumes wf: "dwf row"
  shows "keeps H (update_scoped_record rd wr H c row k t pr)"
  unfolding update_scoped_record_def
proof (intro keeps_lift keeps_read)
  fix u p rows x
  assume p: "payload_wf p" and rows: "collection_rows p c = Inr rows"
    and x: "find_for_update k row t pr 0 rows = Inr x"
  obtain j scope where j: "x = (j, scope)" by (cases x)
  have rwf: "list_all dwf rows" using payload_wf_rows [OF p] rows by (simp add: collection_rows_Inr)
  have "payload_wf (dset p c (rows[j := dset row ''scope'' scope]))"
    using find_for_update_scope [of k row t pr 0 rows j scope] x rwf wf j
    by (intro payload_wf_dset [OF p] list_all_update) auto
  from keeps_rewrite [OF this] show "keeps H (case x of (i, scope) \<Rightarrow> let scoped = dset row ''scope'' scope
     in bindS (wr (rechain_payload H (dset p c (rows[i := scoped])))) (\<lambda>_. retS scoped))"
    by (simp add: j Let_def)
qed

lemma keeps_record_verification:
  assumes wf: "dwf (vr_metadata v)"
  shows "keeps H (record_verification rd wr H v t pr)"
  unfolding record_verification_def Let_def
proof (intro keeps_lift keeps_read, goal_cases)
  case (1 p claims found)
  then have p: "payload_wf p" and claims: "map_of p ''claims'' = Some claims"
    and found: "find_index ''claim_id'' (JStr (vr_claim_id v)) 0 claims = Inr found"
    by (simp_all add: collection_rows_Inr)
  show ?case
  proof (cases found)
    case (Some i)
    have i: "dwf (claims ! i)"
      using payload_wf_rows [OF p claims] find_index_bound [of _ _ 0 claims i] found Some by (simp add: list_all_length)
    have v: "dwf (verification_to_dict (v\<lparr>vr_metadata := scope_metadata (vr_metadata v) t pr\<rparr>))"
      using wf by (simp add: verification_to_dict_def jstrs_def scope_metadata_def list_all_iff)
    show ?thesis
      using claims p i v payload_wf_rows [OF p claims]
      by (auto intro!: keeps_lift keeps_fail keeps_rewrite payload_wf_dset list_all_update
          simp: Some collection_rows_Inr jstrs_def list_all_iff)
        (erule (1) payload_wf_row)
  qed (simp add: keeps_fail)
qed

end

section \<open>The JSON file\<close>

lemma map_of_set_defaults:
  "map_of (set_defaults cs m) c = (if map_of m c = None \<and> c \<in> set cs then Some [] else map_of m c)"
  unfolding set_defaults_def by (induction cs arbitrary: m) auto

lemma ddistinct_set_defaults [simp]: "ddistinct m \<Longrightarrow> ddistinct (set_defaults cs m)"
  unfolding set_defaults_def by (induction cs arbitrary: m) auto

lemma set_defaults_rows: "(c, rows) \<in> set (set_defaults cs m) \<Longrightarrow> rows = [] \<or> (c, rows) \<in> set m"
proof (induction cs arbitrary: m)
  case (Cons a cs)
  then show ?case
    using set_dset_subset [of m a "[]"] by (force simp: set_defaults_def split: if_splits)
qed (simp add: set_defaults_def)

lemma collection_from_json_canon:
  "collection_from_json (c, canon (JArr (map JObj rows))) = Inr (c, map canon_dict rows)"
proof -
  have "mapE json_dict (map canon (map JObj rows)) = Inr (map canon_dict rows)"
    by (induction rows) (simp_all only: list.map canon_JObj json_dict.simps mapE.simps bindE.simps)
  then show ?thesis by (simp add: collection_from_json_def del: canon.simps(6))
qed

definition json_inv :: "json \<Rightarrow> bool" where
  "json_inv file \<longleftrightarrow> (\<exists>p. json_read_all file = Inr p \<and> payload_wf p)"

lemma json_reread:
  "json_read_all (canon (payload_to_json p)) =
    Inr (set_defaults LEDGER_COLLECTIONS (sort_key fst (map (\<lambda>(c, rows). (c, map canon_dict rows)) p)))"
proof -
  let ?items = "map (\<lambda>x. (fst x, canon (JArr (map JObj (snd x))))) (sort_key fst p)"
  have "canon (payload_to_json p) = JObj ?items"
    by (simp add: payload_to_json_def canon_JObj canon_dict_def sort_key_map comp_def case_prod_beta del: canon.simps)
  moreover have "mapE collection_from_json ?items = Inr (map (\<lambda>x. (fst x, map canon_dict (snd x))) (sort_key fst p))"
    by (induction "sort_key fst p" arbitrary: p rule: list.induct)
      (simp_all add: list.map_comp [symmetric] mapE_Inr_iff list_all2_map1 list_all2_map2 list_all2_same
        collection_from_json_canon del: canon.simps list.map_comp)
  ultimately show ?thesis by (simp add: json_read_all_def sort_key_map split_def)
qed

interpretation json_rows: ledger_backend json_inv json_read_all json_write_all
proof
  fix s assume "json_inv s"
  then show "\<exists>p. json_read_all s = Inr p \<and> payload_wf p" by (simp add: json_inv_def)
next
  fix p u s s' assume p: "payload_wf p" and w: "json_write_all p s = (Inr u, s')"
  let ?q = "set_defaults LEDGER_COLLECTIONS (sort_key fst (map (\<lambda>(c, rows). (c, map canon_dict rows)) p))"
  have d: "ddistinct p" using p by (simp add: payload_wf_def)
  have dm: "ddistinct (map (\<lambda>(c, rows). (c, map canon_dict rows)) p)"
    using d by (simp add: comp_def case_prod_beta)
  have m: "map_of (sort_key fst (map (\<lambda>(c, rows). (c, map canon_dict rows)) p)) c = map_option (map canon_dict) (map_of p c)" for c
    unfolding map_of_sort_fst [OF dm] by (induction p) auto
  have q: "json_read_all s' = Inr ?q"
    using w json_reread by (auto simp: json_write_all_def)
  have "same_rows ?q p"
    using p by (auto simp: same_rows_def map_of_set_defaults m payload_wf_def option.map_comp comp_def)
  moreover have "payload_wf ?q"
    unfolding payload_wf_def
  proof (intro conjI ballI)
    show "ddistinct ?q" using dm by simp
    show "map_of ?q c \<noteq> None" if "c \<in> set LEDGER_COLLECTIONS" for c
      using that by (simp add: map_of_set_defaults)
    show "case x of (c, rows) \<Rightarrow> list_all dwf rows" if "x \<in> set ?q" for x
    proof -
      obtain c rows where x: "x = (c, rows)" by (cases x)
      with that set_defaults_rows [of c rows LEDGER_COLLECTIONS "sort_key fst (map (\<lambda>(c, rows). (c, map canon_dict rows)) p)"]
      have "rows = [] \<or> (\<exists>rows'. rows = map canon_dict rows' \<and> (c, rows') \<in> set p)"
        by auto
      with p show ?thesis by (fastforce simp: x payload_wf_def list_all_iff)
    qed
  qed
  ultimately show "json_inv s' \<and> (\<exists>q. json_read_all s' = Inr q \<and> same_rows q p)"
    using q by (auto simp: json_inv_def)
qed (simp add: json_write_all_def)

section \<open>The SQLite table\<close>

definition table_rows :: "string \<Rightarrow> ledger_table \<Rightarrow> pdict list" where
  "table_rows c table = map (\<lambda>(c', rid, row). row) (filter (\<lambda>(c', rid, row). c' = c) table)"

lemma map_of_table:
  "map_of (foldl (\<lambda>m (c, rid, row). dset m c ((case map_of m c of None \<Rightarrow> [] | Some rows \<Rightarrow> rows) @ [row])) m table) c =
     (if map_of m c = None \<and> table_rows c table = [] then None
      else Some ((case map_of m c of None \<Rightarrow> [] | Some rows \<Rightarrow> rows) @ table_rows c table))"
proof (induction table arbitrary: m)
  case (Cons x table)
  then show ?case by (cases x) (auto simp: table_rows_def split: option.splits)
qed (auto simp: table_rows_def split: option.splits)

lemma ddistinct_table:
  "ddistinct m \<Longrightarrow> ddistinct (foldl (\<lambda>m (c, rid, row). dset m c ((case map_of m c of None \<Rightarrow> [] | Some rows \<Rightarrow> rows) @ [row])) m table)"
proof (induction table arbitrary: m)
  case (Cons x table)
  then show ?case by (cases x) simp
qed simp

lemma sqlite_read_map:
  assumes "sqlite_read_all table = Inr p"
  shows "map_of p c = (if c \<notin> set LEDGER_COLLECTIONS \<and> table_rows c table = [] then None else Some (table_rows c table))"
    and "ddistinct p"
proof -
  have e: "map_of (map (\<lambda>c. (c, [])) cs) c = (if c \<in> set cs then Some [] else None)" for cs :: "string list"
    by (induction cs) auto
  have "distinct LEDGER_COLLECTIONS" by (simp add: LEDGER_COLLECTIONS_def)
  then have "ddistinct (map (\<lambda>c. (c, [])) LEDGER_COLLECTIONS)" by (simp add: comp_def)
  with assms show "ddistinct p" by (auto simp: sqlite_read_all_def intro: ddistinct_table)
  from assms show "map_of p c = (if c \<notin> set LEDGER_COLLECTIONS \<and> table_rows c table = [] then None else Some (table_rows c table))"
    by (auto simp: sqlite_read_all_def map_of_table e)
qed

lemma insert_rows_table:
  "insert_rows c rows table = Inr table' \<Longrightarrow>
     table_rows c' table' = table_rows c' table @ (if c' = c then map canon_dict rows else [])"
proof (induction c rows table rule: insert_rows.induct)
  case (2 c row rows table)
  then show ?case by (auto simp: table_rows_def split: option.splits if_splits)
qed simp

lemma insert_collections_table:
  "insert_collections p table = Inr table' \<Longrightarrow> ddistinct p \<Longrightarrow>
     table_rows c table' = table_rows c table @ (case map_of p c of None \<Rightarrow> [] | Some rows \<Rightarrow> map canon_dict rows)"
proof (induction p table rule: insert_collections.induct)
  case (2 c' rows cs table)
  from 2 obtain t where t: "insert_rows c' rows table = Inr t" "insert_collections cs t = Inr table'"
    by (cases "insert_rows c' rows table") auto
  have "map_of cs c' = None" using 2(3) by (simp add: map_of_eq_None_iff)
  with 2 t insert_rows_table [OF t(1), of c] show ?case by (auto split: option.split)
qed simp

lemma table_rows_wf: "map_of p c = Some rows \<Longrightarrow> payload_wf p \<Longrightarrow> list_all dwf (map canon_dict rows)"
  using payload_wf_rows by (fastforce simp: list_all_iff)

definition table_inv :: "ledger_table \<Rightarrow> bool" where
  "table_inv table \<longleftrightarrow> list_all (\<lambda>(c, rid, row). dwf row) table"

lemma table_inv_rows: "table_inv table \<longleftrightarrow> (\<forall>c. list_all dwf (table_rows c table))"
  by (fastforce simp: table_inv_def table_rows_def list_all_iff)

lemma table_payload_wf:
  assumes "sqlite_read_all table = Inr p" "table_inv table"
  shows "payload_wf p"
proof -
  note m = sqlite_read_map [OF assms(1)]
  have "list_all dwf rows" if "(c, rows) \<in> set p" for c rows
    using m(1) [of c] map_of_is_SomeI [OF m(2) that] assms(2) by (auto simp: table_inv_rows split: if_splits)
  then show ?thesis using m by (auto simp: payload_wf_def)
qed

interpretation sqlite_rows: ledger_backend table_inv sqlite_read_all sqlite_write_all
proof
  fix s assume "table_inv s"
  then show "\<exists>p. sqlite_read_all s = Inr p \<and> payload_wf p"
    using table_payload_wf by (simp add: sqlite_read_all_def)
next
  fix p u s s' assume p: "payload_wf p" and w: "sqlite_write_all p s = (Inr u, s')"
  from w have i: "insert_collections p [] = Inr s'" by (auto simp: sqlite_write_all_def split: sum.splits)
  have d: "ddistinct p" using p by (simp add: payload_wf_def)
  have t: "table_rows c s' = (case map_of p c of None \<Rightarrow> [] | Some rows \<Rightarrow> map canon_dict rows)" for c
    using insert_collections_table [OF i d, of c] by (simp add: table_rows_def)
  have inv: "table_inv s'"
    unfolding table_inv_rows t using table_rows_wf [OF _ p] by (auto split: option.split)
  obtain q where q: "sqlite_read_all s' = Inr q" by (simp add: sqlite_read_all_def)
  have "same_rows q p"
    using p by (auto simp: same_rows_def sqlite_read_map(1) [OF q] t payload_wf_def comp_def)
  with q inv show "table_inv s' \<and> (\<exists>q. sqlite_read_all s' = Inr q \<and> same_rows q p)" by blast
next
  fix p s e s' assume "sqlite_write_all p s = (Inl e, s')"
  then show "s' = s" by (auto simp: sqlite_write_all_def split: sum.splits)
qed

section \<open>Runs of the ledger\<close>

text \<open>What a client asks of the collection ledger.\<close>

datatype ledger_op =
    AddEvidence evidence
  | AddClaim claim
  | AddAction action_proposal
  | AddDecision policy_decision
  | AddOutcome outcome
  | AddVerification verification
  | AddRecord string pdict string
  | AddRecordOnce string pdict string
  | UpdateRecord string pdict string
  | Repair

definition done_with :: "('b, 'a) act \<Rightarrow> ('b, unit) act" where
  "done_with m = bindS m (\<lambda>_. retS ())"

fun run_op ::
  "('b \<Rightarrow> ledger_rows res) \<Rightarrow> (ledger_rows \<Rightarrow> ('b, unit) act) \<Rightarrow> (string \<Rightarrow> string) \<Rightarrow> (string \<Rightarrow> string \<Rightarrow> string)
   \<Rightarrow> string option \<Rightarrow> string \<Rightarrow> string \<Rightarrow> ledger_op \<Rightarrow> ('b, unit) act" where
  "run_op rd wr H mac key t p (AddEvidence e) = done_with (register_evidence rd wr H mac key e t p)"
| "run_op rd wr H mac key t p (AddClaim c) = done_with (register_claim rd wr H c t p)"
| "run_op rd wr H mac key t p (AddAction a) = done_with (register_action rd wr H a t p)"
| "run_op rd wr H mac key t p (AddDecision d) = done_with (record_policy_decision rd wr H d t p)"
| "run_op rd wr H mac key t p (AddOutcome r) = done_with (record_outcome rd wr H r t p)"
| "run_op rd wr H mac key t p (AddVerification v) = done_with (record_verification rd wr H v t p)"
| "run_op rd wr H mac key t p (AddRecord c row k) = done_with (register_scoped_record rd wr H c row k t p)"
| "run_op rd wr H mac key t p (AddRecordOnce c row k) = done_with (register_scoped_record_once rd wr H c row k t p)"
| "run_op rd wr H mac key t p (UpdateRecord c row k) = done_with (update_scoped_record rd wr H c row k t p)"
| "run_op rd wr H mac key t p Repair = done_with (repair_chain rd wr H)"

text \<open>A sequence of calls, the ones that raise included: the caller goes on from the state they leave.\<close>

fun run_ops ::
  "('b \<Rightarrow> ledger_rows res) \<Rightarrow> (ledger_rows \<Rightarrow> ('b, unit) act) \<Rightarrow> (string \<Rightarrow> string) \<Rightarrow> (string \<Rightarrow> string \<Rightarrow> string)
   \<Rightarrow> string option \<Rightarrow> (string \<times> string \<times> ledger_op) list \<Rightarrow> 'b \<Rightarrow> 'b" where
  "run_ops rd wr H mac key [] s = s"
| "run_ops rd wr H mac key ((t, p, op) # ops) s =
     run_ops rd wr H mac key ops (snd (run_op rd wr H mac key t p op s))"

text \<open>The dictionaries a client passes have distinct keys, as every Python dictionary has.\<close>

fun op_wf :: "ledger_op \<Rightarrow> bool" where
  "op_wf (AddEvidence e) = (dwf (ev_payload e) \<and> dwf (ev_metadata e))"
| "op_wf (AddClaim c) = (jwf (cl_confidence c) \<and> dwf (cl_metadata c))"
| "op_wf (AddAction a) = dwf (ac_parameters a)"
| "op_wf (AddDecision d) = True"
| "op_wf (AddOutcome r) = dwf (oc_observed_effects r)"
| "op_wf (AddVerification v) = dwf (vr_metadata v)"
| "op_wf (AddRecord c row k) = dwf row"
| "op_wf (AddRecordOnce c row k) = dwf row"
| "op_wf (UpdateRecord c row k) = dwf row"
| "op_wf Repair = True"

lemma scope_metadata_wf [simp]: "dwf m \<Longrightarrow> dwf (scope_metadata m t p)"
  by (simp add: scope_metadata_def)

lemma evidence_row_wf:
  "op_wf (AddEvidence e) \<Longrightarrow> dwf (evidence_to_dict (signed_evidence H mac key e t p))"
  by (auto simp: evidence_to_dict_def signed_evidence_def Let_def split: option.split)

lemma claim_row_wf: "op_wf (AddClaim c) \<Longrightarrow> dwf (claim_to_dict (c\<lparr>cl_metadata := scope_metadata (cl_metadata c) t p\<rparr>))"
  by (simp add: claim_to_dict_def)

lemma plain_rows_wf:
  "op_wf (AddAction a) \<Longrightarrow> dwf (action_to_dict a)" "dwf (policy_decision_to_dict d)"
  "op_wf (AddOutcome r) \<Longrightarrow> dwf (outcome_to_dict r)"
  by (simp_all add: action_to_dict_def policy_decision_to_dict_def outcome_to_dict_def)

context ledger_backend
begin

lemma keeps_run_op: "op_wf op \<Longrightarrow> keeps H (run_op rd wr H mac key t p op)"
  by (cases op)
    (auto simp: done_with_def register_evidence_def register_claim_def register_action_def record_policy_decision_def
      record_outcome_def Let_def LEDGER_COLLECTIONS_def plain_rows_wf simp del: op_wf.simps(1-5)
      intro!: keeps_bind keeps_append keeps_ret keeps_record_verification keeps_register_scoped keeps_once keeps_update
        keeps_repair with_scope_field_wf evidence_row_wf claim_row_wf)

lemma run_ops_valid: "list_all (\<lambda>(t, p, op). op_wf op) ops \<Longrightarrow> valid H s \<Longrightarrow> valid H (run_ops rd wr H mac key ops s)"
proof (induction ops arbitrary: s)
  case (Cons x ops)
  obtain t p op where x: "x = (t, p, op)" by (cases x)
  obtain r s' where r: "run_op rd wr H mac key t p op s = (r, s')" by (cases "run_op rd wr H mac key t p op s")
  have "valid H s'" using keepsD [OF keeps_run_op Cons.prems(2) r] Cons.prems(1) x by simp
  with Cons x r show ?case by simp
qed simp

end

section \<open>Registering once\<close>

lemma dindex_canon_str:
  "ddistinct d \<Longrightarrow> dindex (canon_dict d) k = map_sum id canon (dindex d k)"
  by (simp add: dindex_def map_of_canon_dict split: option.split)

lemma py_eq_canon_str [simp]: "py_eq (canon v) (JStr i) = py_eq v (JStr i)"
  by (cases v) simp_all

lemma row_in_scope_canon:
  assumes "dwf d"
  shows "row_in_scope (canon_dict d) t p = row_in_scope d t p"
proof -
  have d: "ddistinct d" using assms by (simp add: dwf_def)
  have str: "canon v = JStr s \<longleftrightarrow> v = JStr s" for v s by (cases v) simp_all
  show ?thesis
  proof (cases "map_of d ''scope''")
    case None
    then show ?thesis using d by (simp add: row_in_scope_def dget_or_def map_of_canon_dict)
  next
    case (Some v)
    have e: "dget_or (canon_dict d) ''scope'' (JObj []) = canon v" "dget_or d ''scope'' (JObj []) = v"
      using d Some by (simp_all add: dget_or_def map_of_canon_dict)
    have "jwf v" using dwf_map_of [OF assms Some] .
    then show ?thesis unfolding row_in_scope_def e
      by (cases v) (simp_all add: canon_JObj dget_canon_dict dwf_def str del: canon.simps(6))
  qed
qed

lemma find_in_scope_canon:
  assumes "dindex row k = Inr (JStr i)" "list_all dwf rows"
  shows "find_in_scope k row t p (map canon_dict rows) = map_sum id (map_option canon_dict) (find_in_scope k row t p rows)"
  using assms(2)
proof (induction rows)
  case (Cons d rows)
  then have d: "ddistinct d" "dwf d" by (simp_all add: dwf_def)
  show ?case
  proof (cases "dindex d k")
    case (Inr a)
    then show ?thesis
      using Cons d assms(1) by (cases "row_in_scope d t p")
        (simp_all add: dindex_canon_str row_in_scope_canon)
  qed (simp add: dindex_canon_str d)
qed simp

lemma find_in_scope_snoc:
  "find_in_scope k row t p rows = Inr None \<Longrightarrow>
   find_in_scope k row t p (rows @ [x]) = find_in_scope k row t p [x]"
proof (induction rows)
  case (Cons d rows)
  show ?case
  proof (cases "dindex d k")
    case (Inr a)
    note a = this
    show ?thesis
    proof (cases "dindex row k")
      case (Inr b)
      show ?thesis
      proof (cases "py_eq a b")
        case True
        then show ?thesis using Cons a Inr by (cases "row_in_scope d t p") (auto split: if_splits)
      qed (use Cons a Inr in simp)
    qed (use Cons a in simp)
  qed (use Cons in simp)
qed simp

lemma find_in_scope_stored:
  assumes "dindex row k = Inr (JStr i)" "k \<noteq> ''scope''" "k \<noteq> ''_chain''"
  shows "find_in_scope k row t p [chained_row H prev c (with_scope_field row t p)]
    = Inr (Some (chained_row H prev c (with_scope_field row t p)))"
proof -
  have "map_of row k = Some (JStr i)" using assms(1) by (simp add: dindex_def split: option.splits)
  then show ?thesis
    using assms(2,3) by (simp add: chained_row_def with_scope_field_def dindex_def row_in_scope_def dget_or_def dget_def)
qed

context ledger_backend
begin

lemma once_again:
  assumes v: "valid H s" and wf: "dwf row" and k: "dindex row k = Inr (JStr i)" "k \<noteq> ''scope''" "k \<noteq> ''_chain''"
    and run: "register_scoped_record_once rd wr H c row k t pr s = (Inr (stored, True), s')"
  shows "\<exists>row'. register_scoped_record_once rd wr H c row k t pr s' = (Inr (row', False), s') \<and> canon_dict row' = canon_dict stored"
proof -
  obtain p where p: "rd s = Inr p" "payload_chain H p" and i: "inv s" using v by (auto simp: valid_def)
  have pw: "payload_wf p" using read_ok [OF i] p(1) by auto
  have chk: "check_extension c = Inr ()"
    using run by (cases "check_extension c") (auto simp: register_scoped_record_once_def bindS_def liftS_def)
  then have c: "c \<in> set LEDGER_COLLECTIONS" by (rule check_extension_collection)
  from pw c obtain rows where rows: "map_of p c = Some rows" by (auto simp: payload_wf_def)
  have lc: "last_chain_hash rows = Inr (chain_end H c JNull rows)"
    using p(2) c rows by (intro last_chain_hash_chain) (simp add: payload_chain_def)
  let ?new = "chained_row H (chain_end H c JNull rows) c (with_scope_field row t pr)"
  have rwf: "list_all dwf rows" by (rule payload_wf_rows [OF pw rows])
  have nwf: "dwf ?new"
    using wf chain_end_leaf [of JNull H c rows] by (auto simp: chained_row_def legacy_chain_value_def leaf_def)
  from run have miss: "find_in_scope k row t pr rows = Inr None"
    by (auto simp: register_scoped_record_once_def chk p(1) rows collection_rows_def readS_def bindS_def liftS_def retS_def
        split: sum.splits option.splits)
  with run lc have w: "wr (dset p c (rows @ [?new])) s = (Inr (), s')" and st: "stored = ?new"
    by (auto simp: register_scoped_record_once_def chk p(1) rows collection_rows_def readS_def bindS_def liftS_def retS_def
        add_row_def Let_def split: sum.splits prod.splits)
  have dw: "payload_wf (dset p c (rows @ [?new]))" using pw rwf nwf by (intro payload_wf_dset) auto
  from write_ok [OF dw w] obtain q where q: "inv s'" "rd s' = Inr q" "same_rows q (dset p c (rows @ [?new]))" by blast
  have qw: "payload_wf q" using read_ok [OF q(1)] q(2) by auto
  from q(3) c obtain rows' where r': "map_of q c = Some rows'" "map canon_dict rows' = map canon_dict (rows @ [?new])"
    by (cases "map_of q c") (auto simp: same_rows_def)
  have rw': "list_all dwf rows'" by (rule payload_wf_rows [OF qw r'(1)])
  have "find_in_scope k row t pr (rows @ [?new]) = Inr (Some ?new)"
    using find_in_scope_snoc [OF miss] find_in_scope_stored [OF k] by simp
  then have "map_sum id (map_option canon_dict) (find_in_scope k row t pr rows') = Inr (Some (canon_dict ?new))"
    using find_in_scope_canon [OF k(1), of "rows @ [?new]" t pr] find_in_scope_canon [OF k(1) rw', of t pr] r'(2) rwf nwf
    by simp
  then obtain row' where "find_in_scope k row t pr rows' = Inr (Some row')" "canon_dict row' = canon_dict ?new"
    by (cases "find_in_scope k row t pr rows'") auto
  then show ?thesis
    by (auto simp: st register_scoped_record_once_def chk q(2) r'(1) collection_rows_def readS_def bindS_def liftS_def retS_def)
qed

end

section \<open>Properties\<close>

lemma json_empty_valid: "json_rows.valid H (JObj [])"
  by (simp add: json_rows.valid_def json_inv_def json_read_all_def payload_chain_def payload_wf_def
      map_of_set_defaults LEDGER_COLLECTIONS_def) (auto dest: set_defaults_rows)

lemma sqlite_empty_valid: "sqlite_rows.valid H []"
proof -
  have "sqlite_read_all [] = Inr (map (\<lambda>c. (c, [])) LEDGER_COLLECTIONS)" by (simp add: sqlite_read_all_def)
  then show ?thesis
    by (auto simp: sqlite_rows.valid_def table_inv_def payload_chain_def map_of_map_restrict dest!: map_of_SomeD)
qed

text \<open>Whatever sequence of calls is made on a new JSON ledger, calls that raise included, the file's chains
  verify afterwards: \<open>verify_chain\<close> reports every collection valid.\<close>

theorem json_ledger_verifies:
  "list_all (\<lambda>(t, p, op). op_wf op) ops \<Longrightarrow>
   \<exists>n heads. verify_chain json_read_all H (run_ops json_read_all json_write_all H mac key ops (JObj [])) = Inr (ChainValid n heads)"
  by (intro json_rows.valid_verifies json_rows.run_ops_valid json_empty_valid)

lemma json_ledger_verifies_witness:
  "\<exists>n heads. verify_chain json_read_all demo_hash (run_ops json_read_all json_write_all demo_hash (\<lambda>k s. k @ s) None
     [(''t'', ''p'', AddRecord ''replay_reports'' [(''report_id'', JStr ''r1'')] ''report_id'')] (JObj [])) = Inr (ChainValid n heads)"
  by (rule json_ledger_verifies) simp

text \<open>The same on a new SQLite ledger, whose writes may also fail on the uniqueness of a row's identifier.\<close>

theorem sqlite_ledger_verifies:
  "list_all (\<lambda>(t, p, op). op_wf op) ops \<Longrightarrow>
   \<exists>n heads. verify_chain sqlite_read_all H (run_ops sqlite_read_all sqlite_write_all H mac key ops []) = Inr (ChainValid n heads)"
  by (intro sqlite_rows.valid_verifies sqlite_rows.run_ops_valid sqlite_empty_valid)

lemma sqlite_ledger_verifies_witness:
  "\<exists>n heads. verify_chain sqlite_read_all demo_hash (run_ops sqlite_read_all sqlite_write_all demo_hash (\<lambda>k s. k @ s) None
     [(''t'', ''p'', AddRecord ''replay_reports'' [(''report_id'', JStr ''r1'')] ''report_id'')] []) = Inr (ChainValid n heads)"
  by (rule sqlite_ledger_verifies) simp

text \<open>Registering once is idempotent on the JSON ledger: after a call that stored a record, the same call
  stores nothing, leaves the file as it is and returns the stored record with \<open>False\<close>.\<close>

theorem register_once_idempotent:
  assumes "list_all (\<lambda>(t, p, op). op_wf op) ops" "s = run_ops json_read_all json_write_all H mac key ops (JObj [])"
    and "dwf row" "dindex row k = Inr (JStr i)" "k \<noteq> ''scope''" "k \<noteq> ''_chain''"
    and "register_scoped_record_once json_read_all json_write_all H c row k t p s = (Inr (stored, True), s')"
  shows "\<exists>row'. register_scoped_record_once json_read_all json_write_all H c row k t p s' = (Inr (row', False), s') \<and>
    canon_dict row' = canon_dict stored"
proof -
  have "json_rows.valid H s" unfolding assms(2) by (rule json_rows.run_ops_valid [OF assms(1) json_empty_valid])
  from json_rows.once_again [OF this assms(3-7)] show ?thesis .
qed

definition demo_once :: "(json, pdict \<times> bool) act" where
  "demo_once = register_scoped_record_once json_read_all json_write_all demo_hash ''replay_reports''
     [(''report_id'', JStr ''r1'')] ''report_id'' ''t'' ''p''"

lemma register_once_idempotent_witness:
  "\<exists>row'. demo_once (snd (demo_once (JObj []))) = (Inr (row', False), snd (demo_once (JObj [])))"
proof -
  have r: "json_read_all (JObj []) = Inr (set_defaults LEDGER_COLLECTIONS [])" by (simp add: json_read_all_def)
  have c: "collection_rows (set_defaults LEDGER_COLLECTIONS []) ''replay_reports'' = Inr []"
    by (simp add: collection_rows_def map_of_set_defaults LEDGER_COLLECTIONS_def)
  have "check_extension ''replay_reports'' = Inr ()" by (simp add: check_extension_def EXTENSION_COLLECTIONS_def)
  then have "\<exists>stored s'. demo_once (JObj []) = (Inr (stored, True), s')"
    by (simp add: demo_once_def register_scoped_record_once_def r c add_row_def last_chain_hash_def
        json_write_all_def bindS_def readS_def liftS_def retS_def Let_def del: canon.simps)
  then obtain stored where first: "demo_once (JObj []) = (Inr (stored, True), snd (demo_once (JObj [])))" by auto
  have k: "dindex [(''report_id'', JStr ''r1'')] ''report_id'' = Inr (JStr ''r1'')" by (simp add: dindex_def)
  obtain row' where "demo_once (snd (demo_once (JObj []))) = (Inr (row', False), snd (demo_once (JObj [])))"
    using register_once_idempotent [of "[]" "JObj []" demo_hash, OF _ _ _ k _ _ first [unfolded demo_once_def]]
    unfolding demo_once_def by auto
  then show ?thesis by blast
qed

end
