(* ===== verification/Sessions.thy ===== *)
theory Sessions
  imports Scoped_Verify Legacy_Ledger
begin

text \<open>
  The two facades over the engine of the scoped store: \<open>ScopedTransactionSession\<close> of
  \<^verbatim>\<open>src/src/phigraph/core_v3/scoped_ledger.py\<close>, whose operations carry the scope of their transaction, and the
  scoped methods of \<open>EvidenceLedger\<close> in \<^verbatim>\<open>src/src/phigraph/core_v3/ledger.py\<close> (over the JSON backend), which
  the services call outside a transaction.
\<close>

section \<open>Sessions\<close>

definition session_append_scoped ::
  "(string \<Rightarrow> string) \<Rightarrow> (nat \<Rightarrow> string) \<Rightarrow> string \<Rightarrow> string \<Rightarrow> string \<Rightarrow> pdict \<Rightarrow> string \<Rightarrow> (engine, pdict) act" where
  "session_append_scoped H clk tenant_id project_id collection record canonical_key =
     bindS (engine_append_scoped H clk collection record canonical_key tenant_id project_id) (\<lambda>(row, created). retS row)"

definition session_append_scoped_once ::
  "(string \<Rightarrow> string) \<Rightarrow> (nat \<Rightarrow> string) \<Rightarrow> string \<Rightarrow> string \<Rightarrow> string \<Rightarrow> pdict \<Rightarrow> string \<Rightarrow> (engine, pdict \<times> bool) act" where
  "session_append_scoped_once H clk tenant_id project_id collection record canonical_key =
     engine_append_scoped H clk collection record canonical_key tenant_id project_id"

definition session_get_scoped :: "string \<Rightarrow> string \<Rightarrow> string \<Rightarrow> string \<Rightarrow> (engine, pdict) act" where
  "session_get_scoped tenant_id project_id collection canonical_key =
     readS (engine_get_scoped collection canonical_key tenant_id project_id)"

definition session_list_scoped :: "string \<Rightarrow> string \<Rightarrow> string \<Rightarrow> int \<Rightarrow> int \<Rightarrow> (engine, pdict list) act" where
  "session_list_scoped tenant_id project_id collection limit offset =
     readS (engine_list_scoped collection tenant_id project_id limit offset)"

definition session_compare_and_set_scoped ::
  "(string \<Rightarrow> string) \<Rightarrow> string \<Rightarrow> string \<Rightarrow> string \<Rightarrow> string \<Rightarrow> pdict \<Rightarrow> string \<Rightarrow> int option \<Rightarrow> string option
   \<Rightarrow> (engine, pdict \<times> pdict) act" where
  "session_compare_and_set_scoped H now tenant_id project_id collection record canonical_key expected_version
     expected_payload_hash =
     engine_compare_and_set_scoped H now collection record canonical_key tenant_id project_id expected_version
       expected_payload_hash"

end
