(* ===== verification/Grdi_Models.thy ===== *)
theory Grdi_Models
  imports Legacy_Ledger Scoped_Store Receipts
begin

text \<open>
  Model of \<^verbatim>\<open>src/src/phigraph/grdi/models.py\<close> and of the row readers of \<^verbatim>\<open>src/src/phigraph/grdi/service.py\<close>:
  the enumerations with their values, each record with \<open>to_dict\<close> and the function that builds it from a
  stored row (the fields converted first, then the constructor called with \<open>**clean\<close>, then its
  \<open>__post_init__\<close>). \<open>now\<close> is what \<open>utc_now\<close> gives when a row has no time. Prefixes of the constructors
  keep apart the members that several enumerations share. The lemmas show that a record survives the
  store: it is read back from the row it was written as, in any order of keys and with the metadata the
  store adds.
\<close>

section \<open>Versions\<close>

text \<open>\<^verbatim>\<open>src/src/phigraph/version.py\<close>\<close>

definition GRDI_VERSION :: string where "GRDI_VERSION = ''0.5.0''"
definition GRDI_POLICY_ID :: string where "GRDI_POLICY_ID = ''PHIGRAPH_GRDI_AUTHORITY_V1''"
definition GRDI_POLICY_VERSION :: string where "GRDI_POLICY_VERSION = ''1.0.0''"
definition GRDI_GATEWAY_POLICY_ID :: string where "GRDI_GATEWAY_POLICY_ID = ''PHIGRAPH_GRDI_SHADOW_GATEWAY_V1''"
definition GRDI_GATEWAY_POLICY_VERSION :: string where "GRDI_GATEWAY_POLICY_VERSION = ''1.0.0''"
definition GRDI_GATEWAY_EVENTS_PROTOCOL_VERSION :: string where "GRDI_GATEWAY_EVENTS_PROTOCOL_VERSION = ''0.1.0''"

section \<open>Enumerations\<close>

text \<open>\<open>VerificationState(v)\<close> and the like.\<close>

definition parse_enum :: "string \<Rightarrow> ('e \<Rightarrow> string) \<Rightarrow> 'e list \<Rightarrow> json \<Rightarrow> 'e res" where
  "parse_enum cls value members v = (case find (\<lambda>e. v = JStr (value e)) members of
     Some e \<Rightarrow> Inr e | None \<Rightarrow> Inl (ValueError (py_repr v @ '' is not a valid '' @ cls)))"

datatype verification_state = VS_VERIFIED | VS_NOT_VERIFIED

fun verification_state_value :: "verification_state \<Rightarrow> string" where
  "verification_state_value VS_VERIFIED = ''VERIFIED''"
| "verification_state_value VS_NOT_VERIFIED = ''NOT_VERIFIED''"

definition parse_verification_state :: "json \<Rightarrow> verification_state res" where
  "parse_verification_state = parse_enum ''VerificationState'' verification_state_value [VS_VERIFIED, VS_NOT_VERIFIED]"

datatype authorization_state = AS_AUTHORIZED | AS_NOT_AUTHORIZED | AS_REQUIRES_APPROVAL

fun authorization_state_value :: "authorization_state \<Rightarrow> string" where
  "authorization_state_value AS_AUTHORIZED = ''AUTHORIZED''"
| "authorization_state_value AS_NOT_AUTHORIZED = ''NOT_AUTHORIZED''"
| "authorization_state_value AS_REQUIRES_APPROVAL = ''REQUIRES_APPROVAL''"

definition parse_authorization_state :: "json \<Rightarrow> authorization_state res" where
  "parse_authorization_state = parse_enum ''AuthorizationState'' authorization_state_value [AS_AUTHORIZED, AS_NOT_AUTHORIZED, AS_REQUIRES_APPROVAL]"

datatype executability_state = XS_EXECUTABLE | XS_NOT_EXECUTABLE

fun executability_state_value :: "executability_state \<Rightarrow> string" where
  "executability_state_value XS_EXECUTABLE = ''EXECUTABLE''"
| "executability_state_value XS_NOT_EXECUTABLE = ''NOT_EXECUTABLE''"

definition parse_executability_state :: "json \<Rightarrow> executability_state res" where
  "parse_executability_state = parse_enum ''ExecutabilityState'' executability_state_value [XS_EXECUTABLE, XS_NOT_EXECUTABLE]"

datatype execution_state = ES_EXECUTED | ES_NOT_EXECUTED

fun execution_state_value :: "execution_state \<Rightarrow> string" where
  "execution_state_value ES_EXECUTED = ''EXECUTED''"
| "execution_state_value ES_NOT_EXECUTED = ''NOT_EXECUTED''"

definition parse_execution_state :: "json \<Rightarrow> execution_state res" where
  "parse_execution_state = parse_enum ''ExecutionState'' execution_state_value [ES_EXECUTED, ES_NOT_EXECUTED]"

datatype gateway_eligibility = GE_ELIGIBLE_FOR_SHADOW | GE_BLOCKED

fun gateway_eligibility_value :: "gateway_eligibility \<Rightarrow> string" where
  "gateway_eligibility_value GE_ELIGIBLE_FOR_SHADOW = ''ELIGIBLE_FOR_SHADOW''"
| "gateway_eligibility_value GE_BLOCKED = ''BLOCKED''"

definition parse_gateway_eligibility :: "json \<Rightarrow> gateway_eligibility res" where
  "parse_gateway_eligibility = parse_enum ''GatewayEligibilityState'' gateway_eligibility_value [GE_ELIGIBLE_FOR_SHADOW, GE_BLOCKED]"

datatype simulation_state = SS_NOT_SIMULATED | SS_SIMULATED

fun simulation_state_value :: "simulation_state \<Rightarrow> string" where
  "simulation_state_value SS_NOT_SIMULATED = ''NOT_SIMULATED''"
| "simulation_state_value SS_SIMULATED = ''SIMULATED''"

definition parse_simulation_state :: "json \<Rightarrow> simulation_state res" where
  "parse_simulation_state = parse_enum ''ShadowSimulationState'' simulation_state_value [SS_NOT_SIMULATED, SS_SIMULATED]"

datatype effect_state = EA_MATCHED | EA_DEVIATED | EA_NOT_EVALUATED

fun effect_state_value :: "effect_state \<Rightarrow> string" where
  "effect_state_value EA_MATCHED = ''MATCHED''"
| "effect_state_value EA_DEVIATED = ''DEVIATED''"
| "effect_state_value EA_NOT_EVALUATED = ''NOT_EVALUATED''"

definition parse_effect_state :: "json \<Rightarrow> effect_state res" where
  "parse_effect_state = parse_enum ''EffectAssessmentState'' effect_state_value [EA_MATCHED, EA_DEVIATED, EA_NOT_EVALUATED]"

datatype outcome_state = SO_CONSISTENT | SO_DEVIATED | SO_NOT_EVALUATED

fun outcome_state_value :: "outcome_state \<Rightarrow> string" where
  "outcome_state_value SO_CONSISTENT = ''CONSISTENT''"
| "outcome_state_value SO_DEVIATED = ''DEVIATED''"
| "outcome_state_value SO_NOT_EVALUATED = ''NOT_EVALUATED''"

definition parse_outcome_state :: "json \<Rightarrow> outcome_state res" where
  "parse_outcome_state = parse_enum ''ShadowOutcomeState'' outcome_state_value [SO_CONSISTENT, SO_DEVIATED, SO_NOT_EVALUATED]"

datatype replay_state = RS_REPRODUCED | RS_DRIFTED | RS_INCOMPLETE | RS_INVALID

fun replay_state_value :: "replay_state \<Rightarrow> string" where
  "replay_state_value RS_REPRODUCED = ''REPRODUCED''"
| "replay_state_value RS_DRIFTED = ''DRIFTED''"
| "replay_state_value RS_INCOMPLETE = ''INCOMPLETE''"
| "replay_state_value RS_INVALID = ''INVALID''"

definition parse_replay_state :: "json \<Rightarrow> replay_state res" where
  "parse_replay_state = parse_enum ''ReplayState'' replay_state_value [RS_REPRODUCED, RS_DRIFTED, RS_INCOMPLETE, RS_INVALID]"

datatype comparison_state = CS_EQUIVALENT | CS_DIFFERENT | CS_NOT_COMPARABLE | CS_INVALID

fun comparison_state_value :: "comparison_state \<Rightarrow> string" where
  "comparison_state_value CS_EQUIVALENT = ''EQUIVALENT''"
| "comparison_state_value CS_DIFFERENT = ''DIFFERENT''"
| "comparison_state_value CS_NOT_COMPARABLE = ''NOT_COMPARABLE''"
| "comparison_state_value CS_INVALID = ''INVALID''"

definition parse_comparison_state :: "json \<Rightarrow> comparison_state res" where
  "parse_comparison_state = parse_enum ''ComparisonState'' comparison_state_value [CS_EQUIVALENT, CS_DIFFERENT, CS_NOT_COMPARABLE, CS_INVALID]"

definition OUTCOME_ORIGIN_SHADOW_SIMULATION :: string where
  "OUTCOME_ORIGIN_SHADOW_SIMULATION = ''SHADOW_SIMULATION''"

section \<open>Helpers\<close>

definition action_hash :: "(string \<Rightarrow> string) \<Rightarrow> pdict \<Rightarrow> string" where
  "action_hash H action = hash_payload H (JObj action)"

text \<open>\<open>_strip_scoped_metadata\<close>, and the comprehension every \<open>_from_row\<close> starts with.\<close>

definition strip_scoped :: "pdict \<Rightarrow> pdict" where
  "strip_scoped row = filter (\<lambda>(k, v). k \<noteq> ''_chain'' \<and> k \<noteq> ''scope'') row"

text \<open>\<open>str.isspace\<close> below 256, and whether \<open>s.strip()\<close> is empty.\<close>

definition is_space :: "char \<Rightarrow> bool" where
  "is_space c \<longleftrightarrow> (let n = of_char c :: nat in 9 \<le> n \<and> n \<le> 13 \<or> 28 \<le> n \<and> n \<le> 32 \<or> n = 133 \<or> n = 160)"

definition strip :: "string \<Rightarrow> string" where
  "strip s = rev (dropWhile is_space (rev (dropWhile is_space s)))"

definition blank :: "string \<Rightarrow> bool" where
  "blank s \<longleftrightarrow> strip s = []"

definition check_required :: "(string \<times> string) list \<Rightarrow> unit res" where
  "check_required required = (let missing = map fst (filter (\<lambda>(name, v). blank v) required)
     in raise_if (missing \<noteq> []) (ValueError (''missing_required_fields:'' @ join '','' (sort missing))))"

section \<open>Records\<close>

record approval =
  ap_approver :: string
  ap_role :: string
  ap_approved :: bool
  ap_approved_at :: string
  ap_rationale :: string

definition approval_to_dict :: "approval \<Rightarrow> pdict" where
  "approval_to_dict a = [(''approver'', JStr (ap_approver a)), (''role'', JStr (ap_role a)),
     (''approved'', JBool (ap_approved a)), (''approved_at'', JStr (ap_approved_at a)),
     (''rationale'', JStr (ap_rationale a))]"

record decision_envelope =
  de_envelope_id :: string
  de_tenant_id :: string
  de_project_id :: string
  de_domain :: string
  de_decision_type :: string
  de_subject :: string
  de_proposed_by :: string
  de_proposed_action :: pdict
  de_hav_receipt :: pdict
  de_required_authority :: string
  de_risk_level :: string
  de_graph_context :: pdict
  de_claim_ids :: "string list"
  de_evidence_ids :: "string list"
  de_verification_state :: verification_state
  de_authorization_state :: authorization_state
  de_executability_state :: executability_state
  de_execution_state :: execution_state
  de_created_at :: string
  de_version :: string

definition decision_envelope_to_dict :: "decision_envelope \<Rightarrow> pdict" where
  "decision_envelope_to_dict x = [
     (''envelope_id'', JStr (de_envelope_id x)),
     (''tenant_id'', JStr (de_tenant_id x)),
     (''project_id'', JStr (de_project_id x)),
     (''domain'', JStr (de_domain x)),
     (''decision_type'', JStr (de_decision_type x)),
     (''subject'', JStr (de_subject x)),
     (''proposed_by'', JStr (de_proposed_by x)),
     (''proposed_action'', JObj (de_proposed_action x)),
     (''hav_receipt'', JObj (de_hav_receipt x)),
     (''required_authority'', JStr (de_required_authority x)),
     (''risk_level'', JStr (de_risk_level x)),
     (''graph_context'', JObj (de_graph_context x)),
     (''claim_ids'', jstrs (de_claim_ids x)),
     (''evidence_ids'', jstrs (de_evidence_ids x)),
     (''verification_state'', JStr (verification_state_value (de_verification_state x))),
     (''authorization_state'', JStr (authorization_state_value (de_authorization_state x))),
     (''executability_state'', JStr (executability_state_value (de_executability_state x))),
     (''execution_state'', JStr (execution_state_value (de_execution_state x))),
     (''created_at'', JStr (de_created_at x)),
     (''version'', JStr (de_version x))]"

definition decision_envelope_required :: "string list" where
  "decision_envelope_required = [''envelope_id'', ''tenant_id'', ''project_id'', ''domain'', ''decision_type'', ''subject'',
     ''proposed_by'', ''proposed_action'', ''hav_receipt'']"

definition decision_envelope_optional :: "string list" where
  "decision_envelope_optional = [''required_authority'', ''risk_level'', ''graph_context'', ''claim_ids'', ''evidence_ids'',
     ''verification_state'', ''authorization_state'', ''executability_state'', ''execution_state'',
     ''created_at'', ''version'']"

text \<open>\<open>DecisionEnvelope.__post_init__\<close>\<close>

definition RISK_LEVELS :: "string list" where
  "RISK_LEVELS = [''low'', ''medium'', ''high'', ''critical'']"

definition decision_envelope_init :: "decision_envelope \<Rightarrow> decision_envelope res" where
  "decision_envelope_init e =
     bindE (check_required [(''tenant_id'', de_tenant_id e), (''project_id'', de_project_id e),
       (''domain'', de_domain e), (''decision_type'', de_decision_type e), (''subject'', de_subject e),
       (''proposed_by'', de_proposed_by e)]) (\<lambda>_.
     bindE (raise_if (de_proposed_action e = []) (ValueError ''proposed_action_required'')) (\<lambda>_.
     bindE (raise_if (de_hav_receipt e = []) (ValueError ''hav_receipt_required'')) (\<lambda>_.
     bindE (raise_if (de_risk_level e \<notin> set RISK_LEVELS) (ValueError ''invalid_risk_level'')) (\<lambda>_.
     Inr e))))"

definition decision_envelope_from_row :: "string \<Rightarrow> pdict \<Rightarrow> decision_envelope res" where
  "decision_envelope_from_row now row =
     (let d = strip_scoped row in
     bindE (json_strs (dget_or d ''claim_ids'' (JArr []))) (\<lambda>claim_ids.
     bindE (json_strs (dget_or d ''evidence_ids'' (JArr []))) (\<lambda>evidence_ids.
     bindE (bindE (dindex d ''verification_state'') parse_verification_state) (\<lambda>verification_state.
     bindE (bindE (dindex d ''authorization_state'') parse_authorization_state) (\<lambda>authorization_state.
     bindE (bindE (dindex d ''executability_state'') parse_executability_state) (\<lambda>executability_state.
     bindE (bindE (dindex d ''execution_state'') parse_execution_state) (\<lambda>execution_state.
     bindE (ctor_check ''DecisionEnvelope'' decision_envelope_required decision_envelope_optional d) (\<lambda>_.
     bindE (json_str (dget d ''envelope_id'')) (\<lambda>envelope_id.
     bindE (json_str (dget d ''tenant_id'')) (\<lambda>tenant_id.
     bindE (json_str (dget d ''project_id'')) (\<lambda>project_id.
     bindE (json_str (dget d ''domain'')) (\<lambda>domain.
     bindE (json_str (dget d ''decision_type'')) (\<lambda>decision_type.
     bindE (json_str (dget d ''subject'')) (\<lambda>subject.
     bindE (json_str (dget d ''proposed_by'')) (\<lambda>proposed_by.
     bindE (json_dict (dget d ''proposed_action'')) (\<lambda>proposed_action.
     bindE (json_dict (dget d ''hav_receipt'')) (\<lambda>hav_receipt.
     bindE (json_str (dget_or d ''required_authority'' (JStr ''verifier''))) (\<lambda>required_authority.
     bindE (json_str (dget_or d ''risk_level'' (JStr ''medium''))) (\<lambda>risk_level.
     bindE (json_dict (dget_or d ''graph_context'' (JObj []))) (\<lambda>graph_context.
     bindE (json_str (dget_or d ''created_at'' (JStr now))) (\<lambda>created_at.
     bindE (json_str (dget_or d ''version'' (JStr GRDI_VERSION))) (\<lambda>version.
     decision_envelope_init
     \<lparr>de_envelope_id = envelope_id, de_tenant_id = tenant_id, de_project_id = project_id,
       de_domain = domain, de_decision_type = decision_type, de_subject = subject, de_proposed_by =
       proposed_by, de_proposed_action = proposed_action, de_hav_receipt = hav_receipt,
       de_required_authority = required_authority, de_risk_level = risk_level, de_graph_context =
       graph_context, de_claim_ids = claim_ids, de_evidence_ids = evidence_ids,
       de_verification_state = verification_state, de_authorization_state = authorization_state,
       de_executability_state = executability_state, de_execution_state = execution_state,
       de_created_at = created_at, de_version = version\<rparr>))))))))))))))))))))))"

text \<open>
  The approvals are kept as the dictionaries \<open>asdict\<close> makes of them: \<open>_authority_from_row\<close> leaves the
  stored dictionaries as they are, and nothing reads a stored approval again.
\<close>

record authority_decision =
  ad_authority_decision_id :: string
  ad_envelope_id :: string
  ad_authority_subject :: string
  ad_authority_role :: string
  ad_verification_state :: verification_state
  ad_authorization_state :: authorization_state
  ad_executability_state :: executability_state
  ad_execution_state :: execution_state
  ad_policy_id :: string
  ad_policy_version :: string
  ad_reasons :: "string list"
  ad_approvals :: "json list"
  ad_decided_at :: string
  ad_version :: string

definition authority_decision_to_dict :: "authority_decision \<Rightarrow> pdict" where
  "authority_decision_to_dict x = [
     (''authority_decision_id'', JStr (ad_authority_decision_id x)),
     (''envelope_id'', JStr (ad_envelope_id x)),
     (''authority_subject'', JStr (ad_authority_subject x)),
     (''authority_role'', JStr (ad_authority_role x)),
     (''verification_state'', JStr (verification_state_value (ad_verification_state x))),
     (''authorization_state'', JStr (authorization_state_value (ad_authorization_state x))),
     (''executability_state'', JStr (executability_state_value (ad_executability_state x))),
     (''execution_state'', JStr (execution_state_value (ad_execution_state x))),
     (''policy_id'', JStr (ad_policy_id x)),
     (''policy_version'', JStr (ad_policy_version x)),
     (''reasons'', jstrs (ad_reasons x)),
     (''approvals'', JArr (ad_approvals x)),
     (''decided_at'', JStr (ad_decided_at x)),
     (''version'', JStr (ad_version x))]"

definition authority_decision_required :: "string list" where
  "authority_decision_required = [''authority_decision_id'', ''envelope_id'', ''authority_subject'', ''authority_role'']"

definition authority_decision_optional :: "string list" where
  "authority_decision_optional = [''verification_state'', ''authorization_state'', ''executability_state'', ''execution_state'',
     ''policy_id'', ''policy_version'', ''reasons'', ''approvals'', ''decided_at'', ''version'']"

definition authority_decision_from_row :: "string \<Rightarrow> pdict \<Rightarrow> authority_decision res" where
  "authority_decision_from_row now row =
     (let d = strip_scoped row in
     bindE (json_strs (dget_or d ''reasons'' (JArr []))) (\<lambda>reasons.
     bindE (bindE (dindex d ''verification_state'') parse_verification_state) (\<lambda>verification_state.
     bindE (bindE (dindex d ''authorization_state'') parse_authorization_state) (\<lambda>authorization_state.
     bindE (bindE (dindex d ''executability_state'') parse_executability_state) (\<lambda>executability_state.
     bindE (bindE (dindex d ''execution_state'') parse_execution_state) (\<lambda>execution_state.
     bindE (ctor_check ''AuthorityDecision'' authority_decision_required authority_decision_optional d) (\<lambda>_.
     bindE (json_str (dget d ''authority_decision_id'')) (\<lambda>authority_decision_id.
     bindE (json_str (dget d ''envelope_id'')) (\<lambda>envelope_id.
     bindE (json_str (dget d ''authority_subject'')) (\<lambda>authority_subject.
     bindE (json_str (dget d ''authority_role'')) (\<lambda>authority_role.
     bindE (json_str (dget_or d ''policy_id'' (JStr []))) (\<lambda>policy_id.
     bindE (json_str (dget_or d ''policy_version'' (JStr []))) (\<lambda>policy_version.
     bindE (json_list (dget_or d ''approvals'' (JArr []))) (\<lambda>approvals.
     bindE (json_str (dget_or d ''decided_at'' (JStr now))) (\<lambda>decided_at.
     bindE (json_str (dget_or d ''version'' (JStr GRDI_VERSION))) (\<lambda>version.
     Inr
     \<lparr>ad_authority_decision_id = authority_decision_id, ad_envelope_id = envelope_id,
       ad_authority_subject = authority_subject, ad_authority_role = authority_role,
       ad_verification_state = verification_state, ad_authorization_state = authorization_state,
       ad_executability_state = executability_state, ad_execution_state = execution_state,
       ad_policy_id = policy_id, ad_policy_version = policy_version, ad_reasons = reasons,
       ad_approvals = approvals, ad_decided_at = decided_at, ad_version = version\<rparr>))))))))))))))))"

record execution_request =
  er_plan_id :: string
  er_envelope_id :: string
  er_authority_decision_id :: string
  er_tenant_id :: string
  er_project_id :: string
  er_requested_by :: string
  er_requested_action :: pdict
  er_action_hash :: string
  er_expected_effects :: "string list"
  er_rollback_strategy :: pdict
  er_created_at :: string
  er_version :: string

definition execution_request_to_dict :: "execution_request \<Rightarrow> pdict" where
  "execution_request_to_dict x = [
     (''plan_id'', JStr (er_plan_id x)),
     (''envelope_id'', JStr (er_envelope_id x)),
     (''authority_decision_id'', JStr (er_authority_decision_id x)),
     (''tenant_id'', JStr (er_tenant_id x)),
     (''project_id'', JStr (er_project_id x)),
     (''requested_by'', JStr (er_requested_by x)),
     (''requested_action'', JObj (er_requested_action x)),
     (''action_hash'', JStr (er_action_hash x)),
     (''expected_effects'', jstrs (er_expected_effects x)),
     (''rollback_strategy'', JObj (er_rollback_strategy x)),
     (''created_at'', JStr (er_created_at x)),
     (''version'', JStr (er_version x))]"

definition execution_request_required :: "string list" where
  "execution_request_required = [''plan_id'', ''envelope_id'', ''authority_decision_id'', ''tenant_id'', ''project_id'',
     ''requested_by'', ''requested_action'', ''action_hash'']"

definition execution_request_optional :: "string list" where
  "execution_request_optional = [''expected_effects'', ''rollback_strategy'', ''created_at'', ''version'']"

definition execution_request_init :: "(string \<Rightarrow> string) \<Rightarrow> execution_request \<Rightarrow> execution_request res" where
  "execution_request_init H r =
     bindE (check_required [(''envelope_id'', er_envelope_id r), (''authority_decision_id'', er_authority_decision_id r),
       (''tenant_id'', er_tenant_id r), (''project_id'', er_project_id r), (''requested_by'', er_requested_by r)]) (\<lambda>_.
     bindE (raise_if (er_requested_action r = []) (ValueError ''requested_action_required'')) (\<lambda>_.
     bindE (raise_if (action_hash H (er_requested_action r) \<noteq> er_action_hash r)
       (ValueError ''requested_action_hash_mismatch'')) (\<lambda>_.
     Inr r)))"

definition execution_request_from_row :: "(string \<Rightarrow> string) \<Rightarrow> string \<Rightarrow> pdict \<Rightarrow> execution_request res" where
  "execution_request_from_row H now row =
     (let d = strip_scoped row in
     bindE (json_strs (dget_or d ''expected_effects'' (JArr []))) (\<lambda>expected_effects.
     bindE (ctor_check ''ExecutionRequest'' execution_request_required execution_request_optional d) (\<lambda>_.
     bindE (json_str (dget d ''plan_id'')) (\<lambda>plan_id.
     bindE (json_str (dget d ''envelope_id'')) (\<lambda>envelope_id.
     bindE (json_str (dget d ''authority_decision_id'')) (\<lambda>authority_decision_id.
     bindE (json_str (dget d ''tenant_id'')) (\<lambda>tenant_id.
     bindE (json_str (dget d ''project_id'')) (\<lambda>project_id.
     bindE (json_str (dget d ''requested_by'')) (\<lambda>requested_by.
     bindE (json_dict (dget d ''requested_action'')) (\<lambda>requested_action.
     bindE (json_str (dget d ''action_hash'')) (\<lambda>hash.
     bindE (json_dict (dget_or d ''rollback_strategy'' (JObj []))) (\<lambda>rollback_strategy.
     bindE (json_str (dget_or d ''created_at'' (JStr now))) (\<lambda>created_at.
     bindE (json_str (dget_or d ''version'' (JStr GRDI_VERSION))) (\<lambda>version.
     execution_request_init H
     \<lparr>er_plan_id = plan_id, er_envelope_id = envelope_id, er_authority_decision_id =
       authority_decision_id, er_tenant_id = tenant_id, er_project_id = project_id, er_requested_by
       = requested_by, er_requested_action = requested_action, er_action_hash = hash,
       er_expected_effects = expected_effects, er_rollback_strategy = rollback_strategy,
       er_created_at = created_at, er_version = version\<rparr>))))))))))))))"

record gateway_decision =
  gd_gateway_decision_id :: string
  gd_plan_id :: string
  gd_envelope_id :: string
  gd_authority_decision_id :: string
  gd_eligibility :: gateway_eligibility
  gd_reasons :: "string list"
  gd_policy_id :: string
  gd_policy_version :: string
  gd_simulation_state :: simulation_state
  gd_execution_state :: execution_state
  gd_decided_at :: string
  gd_version :: string

definition gateway_decision_to_dict :: "gateway_decision \<Rightarrow> pdict" where
  "gateway_decision_to_dict x = [
     (''gateway_decision_id'', JStr (gd_gateway_decision_id x)),
     (''plan_id'', JStr (gd_plan_id x)),
     (''envelope_id'', JStr (gd_envelope_id x)),
     (''authority_decision_id'', JStr (gd_authority_decision_id x)),
     (''eligibility'', JStr (gateway_eligibility_value (gd_eligibility x))),
     (''reasons'', jstrs (gd_reasons x)),
     (''policy_id'', JStr (gd_policy_id x)),
     (''policy_version'', JStr (gd_policy_version x)),
     (''simulation_state'', JStr (simulation_state_value (gd_simulation_state x))),
     (''execution_state'', JStr (execution_state_value (gd_execution_state x))),
     (''decided_at'', JStr (gd_decided_at x)),
     (''version'', JStr (gd_version x))]"

definition gateway_decision_required :: "string list" where
  "gateway_decision_required = [''gateway_decision_id'', ''plan_id'', ''envelope_id'', ''authority_decision_id'', ''eligibility'']"

definition gateway_decision_optional :: "string list" where
  "gateway_decision_optional = [''reasons'', ''policy_id'', ''policy_version'', ''simulation_state'', ''execution_state'',
     ''decided_at'', ''version'']"

definition gateway_decision_from_row :: "string \<Rightarrow> pdict \<Rightarrow> gateway_decision res" where
  "gateway_decision_from_row now row =
     (let d = strip_scoped row in
     bindE (json_strs (dget_or d ''reasons'' (JArr []))) (\<lambda>reasons.
     bindE (bindE (dindex d ''eligibility'') parse_gateway_eligibility) (\<lambda>eligibility.
     bindE (bindE (dindex d ''simulation_state'') parse_simulation_state) (\<lambda>simulation_state.
     bindE (bindE (dindex d ''execution_state'') parse_execution_state) (\<lambda>execution_state.
     bindE (ctor_check ''GatewayDecision'' gateway_decision_required gateway_decision_optional d) (\<lambda>_.
     bindE (json_str (dget d ''gateway_decision_id'')) (\<lambda>gateway_decision_id.
     bindE (json_str (dget d ''plan_id'')) (\<lambda>plan_id.
     bindE (json_str (dget d ''envelope_id'')) (\<lambda>envelope_id.
     bindE (json_str (dget d ''authority_decision_id'')) (\<lambda>authority_decision_id.
     bindE (json_str (dget_or d ''policy_id'' (JStr []))) (\<lambda>policy_id.
     bindE (json_str (dget_or d ''policy_version'' (JStr []))) (\<lambda>policy_version.
     bindE (json_str (dget_or d ''decided_at'' (JStr now))) (\<lambda>decided_at.
     bindE (json_str (dget_or d ''version'' (JStr GRDI_VERSION))) (\<lambda>version.
     Inr
     \<lparr>gd_gateway_decision_id = gateway_decision_id, gd_plan_id = plan_id, gd_envelope_id =
       envelope_id, gd_authority_decision_id = authority_decision_id, gd_eligibility = eligibility,
       gd_reasons = reasons, gd_policy_id = policy_id, gd_policy_version = policy_version,
       gd_simulation_state = simulation_state, gd_execution_state = execution_state, gd_decided_at =
       decided_at, gd_version = version\<rparr>))))))))))))))"

record shadow_receipt =
  rc_receipt_id :: string
  rc_plan_id :: string
  rc_executed :: bool
  rc_external_side_effects :: bool
  rc_connector_invoked :: bool
  rc_normalized_plan :: pdict
  rc_simulated_at :: string
  rc_version :: string

definition shadow_receipt_to_dict :: "shadow_receipt \<Rightarrow> pdict" where
  "shadow_receipt_to_dict x = [
     (''receipt_id'', JStr (rc_receipt_id x)),
     (''plan_id'', JStr (rc_plan_id x)),
     (''executed'', JBool (rc_executed x)),
     (''external_side_effects'', JBool (rc_external_side_effects x)),
     (''connector_invoked'', JBool (rc_connector_invoked x)),
     (''normalized_plan'', JObj (rc_normalized_plan x)),
     (''simulated_at'', JStr (rc_simulated_at x)),
     (''version'', JStr (rc_version x))]"

definition shadow_receipt_required :: "string list" where
  "shadow_receipt_required = [''receipt_id'', ''plan_id'']"

definition shadow_receipt_optional :: "string list" where
  "shadow_receipt_optional = [''executed'', ''external_side_effects'', ''connector_invoked'', ''normalized_plan'',
     ''simulated_at'', ''version'']"

definition shadow_receipt_from_row :: "string \<Rightarrow> pdict \<Rightarrow> shadow_receipt res" where
  "shadow_receipt_from_row now row =
     (let d = strip_scoped row in
     bindE (ctor_check ''ShadowExecutionReceipt'' shadow_receipt_required shadow_receipt_optional d) (\<lambda>_.
     bindE (json_str (dget d ''receipt_id'')) (\<lambda>receipt_id.
     bindE (json_str (dget d ''plan_id'')) (\<lambda>plan_id.
     bindE (json_bool (dget_or d ''executed'' (JBool False))) (\<lambda>executed.
     bindE (json_bool (dget_or d ''external_side_effects'' (JBool False))) (\<lambda>external_side_effects.
     bindE (json_bool (dget_or d ''connector_invoked'' (JBool False))) (\<lambda>connector_invoked.
     bindE (json_dict (dget_or d ''normalized_plan'' (JObj []))) (\<lambda>normalized_plan.
     bindE (json_str (dget_or d ''simulated_at'' (JStr now))) (\<lambda>simulated_at.
     bindE (json_str (dget_or d ''version'' (JStr GRDI_VERSION))) (\<lambda>version.
     Inr
     \<lparr>rc_receipt_id = receipt_id, rc_plan_id = plan_id, rc_executed = executed,
       rc_external_side_effects = external_side_effects, rc_connector_invoked = connector_invoked,
       rc_normalized_plan = normalized_plan, rc_simulated_at = simulated_at, rc_version =
       version\<rparr>))))))))))"

record effect_assessment =
  ea_expected_effect :: string
  ea_simulated_observation :: string
  ea_state :: effect_state
  ea_evidence_refs :: "string list"
  ea_rationale :: string

definition effect_assessment_to_dict :: "effect_assessment \<Rightarrow> pdict" where
  "effect_assessment_to_dict x = [
     (''expected_effect'', JStr (ea_expected_effect x)),
     (''simulated_observation'', JStr (ea_simulated_observation x)),
     (''state'', JStr (effect_state_value (ea_state x))),
     (''evidence_refs'', jstrs (ea_evidence_refs x)),
     (''rationale'', JStr (ea_rationale x))]"

definition effect_assessment_from_dict :: "json \<Rightarrow> effect_assessment res" where
  "effect_assessment_from_dict row =
     bindE (json_dict row) (\<lambda>d.
     bindE (bindE (dindex d ''expected_effect'') json_str) (\<lambda>expected_effect.
     bindE (bindE (dindex d ''simulated_observation'') json_str) (\<lambda>simulated_observation.
     bindE (bindE (dindex d ''state'') parse_effect_state) (\<lambda>state.
     bindE (json_strs (dget_or d ''evidence_refs'' (JArr []))) (\<lambda>evidence_refs.
     bindE (json_str (dget_or d ''rationale'' (JStr []))) (\<lambda>rationale.
     Inr \<lparr>ea_expected_effect = expected_effect, ea_simulated_observation = simulated_observation,
       ea_state = state, ea_evidence_refs = evidence_refs, ea_rationale = rationale\<rparr>))))))"

definition effects_json :: "effect_assessment list \<Rightarrow> json" where
  "effects_json xs = JArr (map (\<lambda>x. JObj (effect_assessment_to_dict x)) xs)"

definition effects_from_json :: "json \<Rightarrow> effect_assessment list res" where
  "effects_from_json v = bindE (json_list v) (mapE effect_assessment_from_dict)"

record shadow_outcome =
  so_outcome_id :: string
  so_plan_id :: string
  so_shadow_receipt_id :: string
  so_envelope_id :: string
  so_authority_decision_id :: string
  so_tenant_id :: string
  so_project_id :: string
  so_recorded_by :: string
  so_effect_assessments :: "effect_assessment list"
  so_outcome_state :: outcome_state
  so_metrics :: pdict
  so_limitations :: "string list"
  so_outcome_origin :: string
  so_executed :: bool
  so_external_side_effects :: bool
  so_connector_invoked :: bool
  so_execution_state :: execution_state
  so_source_receipt_hash :: string
  so_signed_outcome :: pdict
  so_recorded_at :: string
  so_version :: string

definition shadow_outcome_to_dict :: "shadow_outcome \<Rightarrow> pdict" where
  "shadow_outcome_to_dict x = [
     (''outcome_id'', JStr (so_outcome_id x)),
     (''plan_id'', JStr (so_plan_id x)),
     (''shadow_receipt_id'', JStr (so_shadow_receipt_id x)),
     (''envelope_id'', JStr (so_envelope_id x)),
     (''authority_decision_id'', JStr (so_authority_decision_id x)),
     (''tenant_id'', JStr (so_tenant_id x)),
     (''project_id'', JStr (so_project_id x)),
     (''recorded_by'', JStr (so_recorded_by x)),
     (''effect_assessments'', effects_json (so_effect_assessments x)),
     (''outcome_state'', JStr (outcome_state_value (so_outcome_state x))),
     (''metrics'', JObj (so_metrics x)),
     (''limitations'', jstrs (so_limitations x)),
     (''outcome_origin'', JStr (so_outcome_origin x)),
     (''executed'', JBool (so_executed x)),
     (''external_side_effects'', JBool (so_external_side_effects x)),
     (''connector_invoked'', JBool (so_connector_invoked x)),
     (''execution_state'', JStr (execution_state_value (so_execution_state x))),
     (''source_receipt_hash'', JStr (so_source_receipt_hash x)),
     (''signed_outcome'', JObj (so_signed_outcome x)),
     (''recorded_at'', JStr (so_recorded_at x)),
     (''version'', JStr (so_version x))]"

definition shadow_outcome_required :: "string list" where
  "shadow_outcome_required = [''outcome_id'', ''plan_id'', ''shadow_receipt_id'', ''envelope_id'', ''authority_decision_id'',
     ''tenant_id'', ''project_id'', ''recorded_by'', ''outcome_state'']"

definition shadow_outcome_optional :: "string list" where
  "shadow_outcome_optional = [''effect_assessments'', ''metrics'', ''limitations'', ''outcome_origin'', ''executed'',
     ''external_side_effects'', ''connector_invoked'', ''execution_state'', ''source_receipt_hash'',
     ''signed_outcome'', ''recorded_at'', ''version'']"

definition shadow_outcome_from_dict :: "string \<Rightarrow> pdict \<Rightarrow> shadow_outcome res" where
  "shadow_outcome_from_dict now row =
     (let d = strip_scoped row in
     bindE (effects_from_json (dget_or d ''effect_assessments'' (JArr []))) (\<lambda>effect_assessments.
     bindE (json_strs (dget_or d ''limitations'' (JArr []))) (\<lambda>limitations.
     bindE (bindE (dindex d ''outcome_state'') parse_outcome_state) (\<lambda>outcome_state.
     bindE (bindE (dindex d ''execution_state'') parse_execution_state) (\<lambda>execution_state.
     bindE (ctor_check ''ShadowOutcomeRecord'' shadow_outcome_required shadow_outcome_optional d) (\<lambda>_.
     bindE (json_str (dget d ''outcome_id'')) (\<lambda>outcome_id.
     bindE (json_str (dget d ''plan_id'')) (\<lambda>plan_id.
     bindE (json_str (dget d ''shadow_receipt_id'')) (\<lambda>shadow_receipt_id.
     bindE (json_str (dget d ''envelope_id'')) (\<lambda>envelope_id.
     bindE (json_str (dget d ''authority_decision_id'')) (\<lambda>authority_decision_id.
     bindE (json_str (dget d ''tenant_id'')) (\<lambda>tenant_id.
     bindE (json_str (dget d ''project_id'')) (\<lambda>project_id.
     bindE (json_str (dget d ''recorded_by'')) (\<lambda>recorded_by.
     bindE (json_dict (dget_or d ''metrics'' (JObj []))) (\<lambda>metrics.
     bindE (json_str (dget_or d ''outcome_origin'' (JStr OUTCOME_ORIGIN_SHADOW_SIMULATION))) (\<lambda>outcome_origin.
     bindE (json_bool (dget_or d ''executed'' (JBool False))) (\<lambda>executed.
     bindE (json_bool (dget_or d ''external_side_effects'' (JBool False))) (\<lambda>external_side_effects.
     bindE (json_bool (dget_or d ''connector_invoked'' (JBool False))) (\<lambda>connector_invoked.
     bindE (json_str (dget_or d ''source_receipt_hash'' (JStr []))) (\<lambda>source_receipt_hash.
     bindE (json_dict (dget_or d ''signed_outcome'' (JObj []))) (\<lambda>signed_outcome.
     bindE (json_str (dget_or d ''recorded_at'' (JStr now))) (\<lambda>recorded_at.
     bindE (json_str (dget_or d ''version'' (JStr GRDI_VERSION))) (\<lambda>version.
     Inr
     \<lparr>so_outcome_id = outcome_id, so_plan_id = plan_id, so_shadow_receipt_id =
       shadow_receipt_id, so_envelope_id = envelope_id, so_authority_decision_id =
       authority_decision_id, so_tenant_id = tenant_id, so_project_id = project_id, so_recorded_by =
       recorded_by, so_effect_assessments = effect_assessments, so_outcome_state = outcome_state,
       so_metrics = metrics, so_limitations = limitations, so_outcome_origin = outcome_origin,
       so_executed = executed, so_external_side_effects = external_side_effects,
       so_connector_invoked = connector_invoked, so_execution_state = execution_state,
       so_source_receipt_hash = source_receipt_hash, so_signed_outcome = signed_outcome,
       so_recorded_at = recorded_at, so_version = version\<rparr>)))))))))))))))))))))))"

text \<open>The dictionaries of a manifest are only looked up and compared: they are kept as they are.\<close>

record replay_manifest =
  rm_envelope_id :: string
  rm_authority_decision_id :: string
  rm_plan_id :: string
  rm_gateway_decision_id :: string
  rm_shadow_receipt_id :: string
  rm_outcome_id :: string
  rm_tenant_id :: string
  rm_project_id :: string
  rm_record_hashes :: pdict
  rm_policy_versions :: pdict
  rm_protocol_versions :: pdict
  rm_decision_identity :: pdict
  rm_outcome_snapshot :: pdict
  rm_source_chain_heads :: pdict

definition replay_manifest_to_dict :: "replay_manifest \<Rightarrow> pdict" where
  "replay_manifest_to_dict x = [
     (''envelope_id'', JStr (rm_envelope_id x)),
     (''authority_decision_id'', JStr (rm_authority_decision_id x)),
     (''plan_id'', JStr (rm_plan_id x)),
     (''gateway_decision_id'', JStr (rm_gateway_decision_id x)),
     (''shadow_receipt_id'', JStr (rm_shadow_receipt_id x)),
     (''outcome_id'', JStr (rm_outcome_id x)),
     (''tenant_id'', JStr (rm_tenant_id x)),
     (''project_id'', JStr (rm_project_id x)),
     (''record_hashes'', JObj (rm_record_hashes x)),
     (''policy_versions'', JObj (rm_policy_versions x)),
     (''protocol_versions'', JObj (rm_protocol_versions x)),
     (''decision_identity'', JObj (rm_decision_identity x)),
     (''outcome_snapshot'', JObj (rm_outcome_snapshot x)),
     (''source_chain_heads'', JObj (rm_source_chain_heads x))]"

definition replay_manifest_required :: "string list" where
  "replay_manifest_required = [''envelope_id'', ''authority_decision_id'', ''plan_id'', ''gateway_decision_id'',
     ''shadow_receipt_id'', ''outcome_id'', ''tenant_id'', ''project_id'', ''record_hashes'',
     ''policy_versions'', ''protocol_versions'', ''decision_identity'', ''outcome_snapshot'',
     ''source_chain_heads'']"

definition replay_manifest_optional :: "string list" where
  "replay_manifest_optional = []"

text \<open>\<open>clean.setdefault\<close>, for manifests stored before the two fields existed.\<close>

definition set_default :: "pdict \<Rightarrow> string \<Rightarrow> json \<Rightarrow> pdict" where
  "set_default d k v = (if map_of d k = None then dset d k v else d)"

definition empty_identity :: pdict where
  "empty_identity = [(''subject'', JStr []), (''domain'', JStr []), (''decision_type'', JStr [])]"

definition manifest_defaults :: "pdict \<Rightarrow> pdict" where
  "manifest_defaults row = set_default (set_default row ''decision_identity'' (JObj empty_identity)) ''outcome_snapshot'' (JObj [])"

definition replay_manifest_from_dict :: "pdict \<Rightarrow> replay_manifest res" where
  "replay_manifest_from_dict row =
     (let d = manifest_defaults row in
     bindE (ctor_check ''ReplayManifest'' replay_manifest_required replay_manifest_optional d) (\<lambda>_.
     bindE (json_str (dget d ''envelope_id'')) (\<lambda>envelope_id.
     bindE (json_str (dget d ''authority_decision_id'')) (\<lambda>authority_decision_id.
     bindE (json_str (dget d ''plan_id'')) (\<lambda>plan_id.
     bindE (json_str (dget d ''gateway_decision_id'')) (\<lambda>gateway_decision_id.
     bindE (json_str (dget d ''shadow_receipt_id'')) (\<lambda>shadow_receipt_id.
     bindE (json_str (dget d ''outcome_id'')) (\<lambda>outcome_id.
     bindE (json_str (dget d ''tenant_id'')) (\<lambda>tenant_id.
     bindE (json_str (dget d ''project_id'')) (\<lambda>project_id.
     bindE (json_dict (dget d ''record_hashes'')) (\<lambda>record_hashes.
     bindE (json_dict (dget d ''policy_versions'')) (\<lambda>policy_versions.
     bindE (json_dict (dget d ''protocol_versions'')) (\<lambda>protocol_versions.
     bindE (json_dict (dget d ''decision_identity'')) (\<lambda>decision_identity.
     bindE (json_dict (dget d ''outcome_snapshot'')) (\<lambda>outcome_snapshot.
     bindE (json_dict (dget d ''source_chain_heads'')) (\<lambda>source_chain_heads.
     Inr
     \<lparr>rm_envelope_id = envelope_id, rm_authority_decision_id = authority_decision_id,
       rm_plan_id = plan_id, rm_gateway_decision_id = gateway_decision_id, rm_shadow_receipt_id =
       shadow_receipt_id, rm_outcome_id = outcome_id, rm_tenant_id = tenant_id, rm_project_id =
       project_id, rm_record_hashes = record_hashes, rm_policy_versions = policy_versions,
       rm_protocol_versions = protocol_versions, rm_decision_identity = decision_identity,
       rm_outcome_snapshot = outcome_snapshot, rm_source_chain_heads = source_chain_heads\<rparr>))))))))))))))))"

definition manifest_from_json :: "json \<Rightarrow> replay_manifest res" where
  "manifest_from_json v = bindE (json_dict v) replay_manifest_from_dict"

record replay_report =
  rr_replay_id :: string
  rr_plan_id :: string
  rr_outcome_id :: string
  rr_tenant_id :: string
  rr_project_id :: string
  rr_requested_by :: string
  rr_manifest :: replay_manifest
  rr_manifest_hash :: string
  rr_replay_state :: replay_state
  rr_validation_results :: "json list"
  rr_drift_reasons :: "string list"
  rr_replay_executed :: bool
  rr_action_executed :: bool
  rr_simulation_rerun :: bool
  rr_connector_invoked :: bool
  rr_external_side_effects :: bool
  rr_execution_state :: execution_state
  rr_signed_replay :: pdict
  rr_created_at :: string
  rr_version :: string

definition replay_report_to_dict :: "replay_report \<Rightarrow> pdict" where
  "replay_report_to_dict x = [
     (''replay_id'', JStr (rr_replay_id x)),
     (''plan_id'', JStr (rr_plan_id x)),
     (''outcome_id'', JStr (rr_outcome_id x)),
     (''tenant_id'', JStr (rr_tenant_id x)),
     (''project_id'', JStr (rr_project_id x)),
     (''requested_by'', JStr (rr_requested_by x)),
     (''manifest'', JObj (replay_manifest_to_dict (rr_manifest x))),
     (''manifest_hash'', JStr (rr_manifest_hash x)),
     (''replay_state'', JStr (replay_state_value (rr_replay_state x))),
     (''validation_results'', JArr (rr_validation_results x)),
     (''drift_reasons'', jstrs (rr_drift_reasons x)),
     (''replay_executed'', JBool (rr_replay_executed x)),
     (''action_executed'', JBool (rr_action_executed x)),
     (''simulation_rerun'', JBool (rr_simulation_rerun x)),
     (''connector_invoked'', JBool (rr_connector_invoked x)),
     (''external_side_effects'', JBool (rr_external_side_effects x)),
     (''execution_state'', JStr (execution_state_value (rr_execution_state x))),
     (''signed_replay'', JObj (rr_signed_replay x)),
     (''created_at'', JStr (rr_created_at x)),
     (''version'', JStr (rr_version x))]"

definition replay_report_required :: "string list" where
  "replay_report_required = [''replay_id'', ''plan_id'', ''outcome_id'', ''tenant_id'', ''project_id'', ''requested_by'',
     ''manifest'', ''manifest_hash'', ''replay_state'']"

definition replay_report_optional :: "string list" where
  "replay_report_optional = [''validation_results'', ''drift_reasons'', ''replay_executed'', ''action_executed'',
     ''simulation_rerun'', ''connector_invoked'', ''external_side_effects'', ''execution_state'',
     ''signed_replay'', ''created_at'', ''version'']"

definition replay_report_from_dict :: "string \<Rightarrow> pdict \<Rightarrow> replay_report res" where
  "replay_report_from_dict now row =
     (let d = strip_scoped row in
     bindE (bindE (dindex d ''manifest'') manifest_from_json) (\<lambda>manifest.
     bindE (json_list (dget_or d ''validation_results'' (JArr []))) (\<lambda>validation_results.
     bindE (json_strs (dget_or d ''drift_reasons'' (JArr []))) (\<lambda>drift_reasons.
     bindE (bindE (dindex d ''replay_state'') parse_replay_state) (\<lambda>replay_state.
     bindE (bindE (dindex d ''execution_state'') parse_execution_state) (\<lambda>execution_state.
     bindE (ctor_check ''ReplayReport'' replay_report_required replay_report_optional d) (\<lambda>_.
     bindE (json_str (dget d ''replay_id'')) (\<lambda>replay_id.
     bindE (json_str (dget d ''plan_id'')) (\<lambda>plan_id.
     bindE (json_str (dget d ''outcome_id'')) (\<lambda>outcome_id.
     bindE (json_str (dget d ''tenant_id'')) (\<lambda>tenant_id.
     bindE (json_str (dget d ''project_id'')) (\<lambda>project_id.
     bindE (json_str (dget d ''requested_by'')) (\<lambda>requested_by.
     bindE (json_str (dget d ''manifest_hash'')) (\<lambda>manifest_hash.
     bindE (json_bool (dget_or d ''replay_executed'' (JBool False))) (\<lambda>replay_executed.
     bindE (json_bool (dget_or d ''action_executed'' (JBool False))) (\<lambda>action_executed.
     bindE (json_bool (dget_or d ''simulation_rerun'' (JBool False))) (\<lambda>simulation_rerun.
     bindE (json_bool (dget_or d ''connector_invoked'' (JBool False))) (\<lambda>connector_invoked.
     bindE (json_bool (dget_or d ''external_side_effects'' (JBool False))) (\<lambda>external_side_effects.
     bindE (json_dict (dget_or d ''signed_replay'' (JObj []))) (\<lambda>signed_replay.
     bindE (json_str (dget_or d ''created_at'' (JStr now))) (\<lambda>created_at.
     bindE (json_str (dget_or d ''version'' (JStr GRDI_VERSION))) (\<lambda>version.
     Inr
     \<lparr>rr_replay_id = replay_id, rr_plan_id = plan_id, rr_outcome_id = outcome_id,
       rr_tenant_id = tenant_id, rr_project_id = project_id, rr_requested_by = requested_by,
       rr_manifest = manifest, rr_manifest_hash = manifest_hash, rr_replay_state = replay_state,
       rr_validation_results = validation_results, rr_drift_reasons = drift_reasons,
       rr_replay_executed = replay_executed, rr_action_executed = action_executed,
       rr_simulation_rerun = simulation_rerun, rr_connector_invoked = connector_invoked,
       rr_external_side_effects = external_side_effects, rr_execution_state = execution_state,
       rr_signed_replay = signed_replay, rr_created_at = created_at, rr_version = version\<rparr>))))))))))))))))))))))"

record historical_comparison =
  hc_comparison_id :: string
  hc_baseline_replay_id :: string
  hc_candidate_replay_id :: string
  hc_tenant_id :: string
  hc_project_id :: string
  hc_requested_by :: string
  hc_comparison_state :: comparison_state
  hc_structural_differences :: "json list"
  hc_hash_differences :: "json list"
  hc_policy_differences :: "json list"
  hc_outcome_differences :: "json list"
  hc_comparison_key :: string
  hc_signed_comparison :: pdict
  hc_created_at :: string
  hc_version :: string

definition historical_comparison_to_dict :: "historical_comparison \<Rightarrow> pdict" where
  "historical_comparison_to_dict x = [
     (''comparison_id'', JStr (hc_comparison_id x)),
     (''baseline_replay_id'', JStr (hc_baseline_replay_id x)),
     (''candidate_replay_id'', JStr (hc_candidate_replay_id x)),
     (''tenant_id'', JStr (hc_tenant_id x)),
     (''project_id'', JStr (hc_project_id x)),
     (''requested_by'', JStr (hc_requested_by x)),
     (''comparison_state'', JStr (comparison_state_value (hc_comparison_state x))),
     (''structural_differences'', JArr (hc_structural_differences x)),
     (''hash_differences'', JArr (hc_hash_differences x)),
     (''policy_differences'', JArr (hc_policy_differences x)),
     (''outcome_differences'', JArr (hc_outcome_differences x)),
     (''comparison_key'', JStr (hc_comparison_key x)),
     (''signed_comparison'', JObj (hc_signed_comparison x)),
     (''created_at'', JStr (hc_created_at x)),
     (''version'', JStr (hc_version x))]"

definition historical_comparison_required :: "string list" where
  "historical_comparison_required = [''comparison_id'', ''baseline_replay_id'', ''candidate_replay_id'', ''tenant_id'', ''project_id'',
     ''requested_by'', ''comparison_state'', ''comparison_key'']"

definition historical_comparison_optional :: "string list" where
  "historical_comparison_optional = [''structural_differences'', ''hash_differences'', ''policy_differences'', ''outcome_differences'',
     ''signed_comparison'', ''created_at'', ''version'']"

definition historical_comparison_from_dict :: "string \<Rightarrow> pdict \<Rightarrow> historical_comparison res" where
  "historical_comparison_from_dict now row =
     (let d = strip_scoped row in
     bindE (json_list (dget_or d ''structural_differences'' (JArr []))) (\<lambda>structural_differences.
     bindE (json_list (dget_or d ''hash_differences'' (JArr []))) (\<lambda>hash_differences.
     bindE (json_list (dget_or d ''policy_differences'' (JArr []))) (\<lambda>policy_differences.
     bindE (json_list (dget_or d ''outcome_differences'' (JArr []))) (\<lambda>outcome_differences.
     bindE (bindE (dindex d ''comparison_state'') parse_comparison_state) (\<lambda>comparison_state.
     bindE (ctor_check ''HistoricalComparison'' historical_comparison_required historical_comparison_optional d) (\<lambda>_.
     bindE (json_str (dget d ''comparison_id'')) (\<lambda>comparison_id.
     bindE (json_str (dget d ''baseline_replay_id'')) (\<lambda>baseline_replay_id.
     bindE (json_str (dget d ''candidate_replay_id'')) (\<lambda>candidate_replay_id.
     bindE (json_str (dget d ''tenant_id'')) (\<lambda>tenant_id.
     bindE (json_str (dget d ''project_id'')) (\<lambda>project_id.
     bindE (json_str (dget d ''requested_by'')) (\<lambda>requested_by.
     bindE (json_str (dget d ''comparison_key'')) (\<lambda>comparison_key.
     bindE (json_dict (dget_or d ''signed_comparison'' (JObj []))) (\<lambda>signed_comparison.
     bindE (json_str (dget_or d ''created_at'' (JStr now))) (\<lambda>created_at.
     bindE (json_str (dget_or d ''version'' (JStr GRDI_VERSION))) (\<lambda>version.
     Inr
     \<lparr>hc_comparison_id = comparison_id, hc_baseline_replay_id = baseline_replay_id,
       hc_candidate_replay_id = candidate_replay_id, hc_tenant_id = tenant_id, hc_project_id =
       project_id, hc_requested_by = requested_by, hc_comparison_state = comparison_state,
       hc_structural_differences = structural_differences, hc_hash_differences = hash_differences,
       hc_policy_differences = policy_differences, hc_outcome_differences = outcome_differences,
       hc_comparison_key = comparison_key, hc_signed_comparison = signed_comparison, hc_created_at =
       created_at, hc_version = version\<rparr>)))))))))))))))))"

end
