(* ===== verification/Grdi_Policy.thy ===== *)
theory Grdi_Policy
  imports Grdi_Models
begin

text \<open>
  Model of the pure parts of \<^verbatim>\<open>src/src/phigraph/grdi\<close>: \<^verbatim>\<open>authority.py\<close> (who may authorise a decision),
  \<^verbatim>\<open>execution_gateway.py\<close> (which plans may be simulated, and the simulation itself), \<^verbatim>\<open>events.py\<close>,
  \<^verbatim>\<open>outcome_ledger.py\<close> and \<^verbatim>\<open>projection.py\<close>. A signer is optional, as in the code; \<open>mac\<close> is the HMAC,
  \<open>H\<close> the hash, \<open>uuid5\<close> the name-based identifier of the standard library. Fresh identifiers and times
  are arguments.
\<close>

section \<open>Authority\<close>

text \<open>\<open>verdict in {...}\<close> hashes the verdict, which raises for a list or a dictionary.\<close>

definition hashable :: "json \<Rightarrow> unit res" where
  "hashable v = (case v of JArr xs \<Rightarrow> Inl (TypeError ''unhashable type: list'')
     | JObj d \<Rightarrow> Inl (TypeError ''unhashable type: dict'') | _ \<Rightarrow> Inr ())"

definition authority_scope_reasons :: "decision_envelope \<Rightarrow> pdict \<Rightarrow> string list" where
  "authority_scope_reasons envelope governance =
     (if dget governance ''tenant_id'' \<noteq> JStr (de_tenant_id envelope) then [''hav_receipt_tenant_mismatch''] else [])
   @ (if dget governance ''project_id'' \<noteq> JStr (de_project_id envelope) then [''hav_receipt_project_mismatch''] else [])"

definition authority_verdict ::
  "json \<Rightarrow> string list \<Rightarrow> (verification_state \<times> authorization_state \<times> string list) res" where
  "authority_verdict verdict reasons =
     (if verdict = JStr ''PASS'' \<and> reasons = [] then Inr (VS_VERIFIED, AS_NOT_AUTHORIZED, reasons)
      else bindE (hashable verdict) (\<lambda>_.
        if verdict \<in> {JStr ''WARN'', JStr ''HUMAN_REVIEW''}
        then Inr (VS_NOT_VERIFIED, AS_REQUIRES_APPROVAL, reasons @ [''hav_verdict_requires_review:'' @ py_str verdict])
        else if verdict \<in> {JStr ''REJECT'', JStr ''SOURCE_UNAVAILABLE''}
        then Inr (VS_NOT_VERIFIED, AS_NOT_AUTHORIZED, reasons @ [''hav_verdict_blocks:'' @ py_str verdict])
        else Inr (VS_NOT_VERIFIED, AS_NOT_AUTHORIZED, reasons @ [''unsupported_hav_verdict''])))"

definition authority_receipt ::
  "(string \<Rightarrow> string \<Rightarrow> string) \<Rightarrow> receipt_signer option \<Rightarrow> decision_envelope
   \<Rightarrow> (verification_state \<times> authorization_state \<times> string list) res" where
  "authority_receipt mac signer envelope =
     (case signer of None \<Rightarrow> Inr (VS_NOT_VERIFIED, AS_NOT_AUTHORIZED, [''receipt_signer_not_configured''])
      | Some s \<Rightarrow> bindE (receipt_verify mac s (de_hav_receipt envelope)) (\<lambda>ok.
          if \<not> ok then Inr (VS_NOT_VERIFIED, AS_NOT_AUTHORIZED, [''invalid_hav_receipt_signature''])
          else bindE (as_dict (dget_or (de_hav_receipt envelope) ''governance'' (JObj []))) (\<lambda>governance.
            authority_verdict (dget (de_hav_receipt envelope) ''verdict'') (authority_scope_reasons envelope governance))))"

definition authority_grant ::
  "decision_envelope \<Rightarrow> string \<Rightarrow> string \<Rightarrow> approval list \<Rightarrow> string list \<Rightarrow> authorization_state \<times> string list" where
  "authority_grant envelope authority_subject authority_role approvals reasons =
     (if authority_subject = de_proposed_by envelope then (AS_NOT_AUTHORIZED, reasons @ [''self_authorization_forbidden''])
      else if authority_role \<notin> {de_required_authority envelope, ''admin''}
      then (AS_NOT_AUTHORIZED, reasons @ [''required_authority_missing''])
      else if list_ex (\<lambda>a. \<not> ap_approved a) approvals then (AS_NOT_AUTHORIZED, reasons @ [''approval_rejected''])
      else if de_risk_level envelope \<in> {''high'', ''critical''} \<and> approvals = []
      then (AS_REQUIRES_APPROVAL, reasons @ [''human_approval_required''])
      else if list_ex (\<lambda>a. ap_approver a = de_proposed_by envelope) approvals
      then (AS_NOT_AUTHORIZED, reasons @ [''proposer_approval_forbidden''])
      else (AS_AUTHORIZED, reasons))"

definition authority_evaluate ::
  "(string \<Rightarrow> string \<Rightarrow> string) \<Rightarrow> receipt_signer option \<Rightarrow> string \<Rightarrow> string \<Rightarrow> decision_envelope \<Rightarrow> string \<Rightarrow> string
   \<Rightarrow> approval list \<Rightarrow> authority_decision res" where
  "authority_evaluate mac signer decision_id now envelope authority_subject authority_role approvals =
     bindE (authority_receipt mac signer envelope) (\<lambda>(verification, authorization, reasons).
     let (authorization', reasons') =
       (if verification = VS_VERIFIED then authority_grant envelope authority_subject authority_role approvals reasons
        else (authorization, reasons))
     in Inr \<lparr>ad_authority_decision_id = decision_id, ad_envelope_id = de_envelope_id envelope,
          ad_authority_subject = authority_subject, ad_authority_role = authority_role,
          ad_verification_state = verification, ad_authorization_state = authorization',
          ad_executability_state = XS_NOT_EXECUTABLE, ad_execution_state = ES_NOT_EXECUTED,
          ad_policy_id = GRDI_POLICY_ID, ad_policy_version = GRDI_POLICY_VERSION, ad_reasons = reasons',
          ad_approvals = map (\<lambda>a. JObj (approval_to_dict a)) approvals, ad_decided_at = now,
          ad_version = GRDI_VERSION\<rparr>)"

section \<open>The gateway\<close>

definition gateway_reasons ::
  "(string \<Rightarrow> string) \<Rightarrow> decision_envelope \<Rightarrow> authority_decision \<Rightarrow> execution_request \<Rightarrow> string \<Rightarrow> string \<Rightarrow> string list" where
  "gateway_reasons H envelope authority request tenant_id project_id =
     (if tenant_id \<noteq> de_tenant_id envelope \<or> project_id \<noteq> de_project_id envelope then [''scope_mismatch''] else [])
   @ (if er_tenant_id request \<noteq> tenant_id \<or> er_project_id request \<noteq> project_id then [''request_scope_mismatch''] else [])
   @ (if ad_envelope_id authority \<noteq> de_envelope_id envelope then [''envelope_authority_mismatch''] else [])
   @ (if er_envelope_id request \<noteq> de_envelope_id envelope then [''request_envelope_mismatch''] else [])
   @ (if er_authority_decision_id request \<noteq> ad_authority_decision_id authority then [''request_authority_mismatch''] else [])
   @ (if ad_authorization_state authority = AS_REQUIRES_APPROVAL then [''authority_requires_approval'']
      else if ad_authorization_state authority = AS_NOT_AUTHORIZED then [''authority_not_authorized'']
      else if ad_authorization_state authority \<noteq> AS_AUTHORIZED then [''authority_not_authorized''] else [])
   @ (if ad_verification_state authority \<noteq> VS_VERIFIED then [''authority_not_verified''] else [])
   @ (if ad_executability_state authority \<noteq> XS_NOT_EXECUTABLE then [''unexpected_executability_state''] else [])
   @ (if ad_execution_state authority \<noteq> ES_NOT_EXECUTED then [''unexpected_execution_state''] else [])
   @ (if er_action_hash request \<noteq> action_hash H (de_proposed_action envelope) then [''action_hash_mismatch''] else [])
   @ (if action_hash H (er_requested_action request) \<noteq> er_action_hash request
      then [''requested_action_hash_inconsistent''] else [])"

definition gateway_evaluate ::
  "(string \<Rightarrow> string) \<Rightarrow> string \<Rightarrow> string \<Rightarrow> decision_envelope \<Rightarrow> authority_decision \<Rightarrow> execution_request \<Rightarrow> string \<Rightarrow> string
   \<Rightarrow> gateway_decision" where
  "gateway_evaluate H decision_id now envelope authority request tenant_id project_id =
     (let reasons = gateway_reasons H envelope authority request tenant_id project_id
      in \<lparr>gd_gateway_decision_id = decision_id, gd_plan_id = er_plan_id request,
          gd_envelope_id = de_envelope_id envelope, gd_authority_decision_id = ad_authority_decision_id authority,
          gd_eligibility = (if reasons = [] then GE_ELIGIBLE_FOR_SHADOW else GE_BLOCKED), gd_reasons = reasons,
          gd_policy_id = GRDI_GATEWAY_POLICY_ID, gd_policy_version = GRDI_GATEWAY_POLICY_VERSION,
          gd_simulation_state = SS_NOT_SIMULATED, gd_execution_state = ES_NOT_EXECUTED, gd_decided_at = now,
          gd_version = GRDI_VERSION\<rparr>)"

definition gateway_plan ::
  "decision_envelope \<Rightarrow> authority_decision \<Rightarrow> execution_request \<Rightarrow> gateway_decision \<Rightarrow> pdict" where
  "gateway_plan envelope authority request gateway = [
     (''plan_id'', JStr (er_plan_id request)),
     (''envelope_id'', JStr (de_envelope_id envelope)),
     (''authority_decision_id'', JStr (ad_authority_decision_id authority)),
     (''requested_action'', JObj (er_requested_action request)),
     (''action_hash'', JStr (er_action_hash request)),
     (''expected_effects'', jstrs (er_expected_effects request)),
     (''rollback_strategy'', JObj (er_rollback_strategy request)),
     (''tenant_id'', JStr (er_tenant_id request)),
     (''project_id'', JStr (er_project_id request)),
     (''gateway_eligibility'', JStr (gateway_eligibility_value (gd_eligibility gateway))),
     (''executed'', JBool False),
     (''external_side_effects'', JBool False),
     (''connector_invoked'', JBool False),
     (''simulation_state'', JStr (simulation_state_value SS_SIMULATED)),
     (''execution_state'', JStr (execution_state_value ES_NOT_EXECUTED)),
     (''policy_id'', JStr (gd_policy_id gateway)),
     (''policy_version'', JStr (gd_policy_version gateway))]"

definition gateway_simulate ::
  "(string \<Rightarrow> string \<Rightarrow> string) \<Rightarrow> receipt_signer option \<Rightarrow> string \<Rightarrow> string \<Rightarrow> decision_envelope \<Rightarrow> authority_decision
   \<Rightarrow> execution_request \<Rightarrow> gateway_decision \<Rightarrow> shadow_receipt res" where
  "gateway_simulate mac signer receipt_id now envelope authority request gateway =
     bindE (raise_if (gd_eligibility gateway \<noteq> GE_ELIGIBLE_FOR_SHADOW) (ValueError ''plan_not_eligible_for_shadow'')) (\<lambda>_.
     case signer of None \<Rightarrow> Inl (ValueError ''receipt_signer_not_configured'')
     | Some s \<Rightarrow> Inr \<lparr>rc_receipt_id = receipt_id, rc_plan_id = er_plan_id request, rc_executed = False,
         rc_external_side_effects = False, rc_connector_invoked = False,
         rc_normalized_plan = receipt_sign mac s (gateway_plan envelope authority request gateway),
         rc_simulated_at = now, rc_version = GRDI_VERSION\<rparr>)"

section \<open>Events\<close>

text \<open>\<open>uuid5\<close> is \<open>uuid.uuid5(GRDI_EVENT_NAMESPACE, name)\<close> as a string.\<close>

definition deterministic_event_id :: "(string \<Rightarrow> string) \<Rightarrow> string \<Rightarrow> string \<Rightarrow> string \<Rightarrow> string \<Rightarrow> string" where
  "deterministic_event_id uuid5 tenant_id project_id plan_id event_type =
     uuid5 (tenant_id @ ''/'' @ project_id @ ''/'' @ plan_id @ '':'' @ event_type)"

definition build_gateway_decision_event_record ::
  "(string \<Rightarrow> string) \<Rightarrow> string \<Rightarrow> string \<Rightarrow> string \<Rightarrow> string \<Rightarrow> string \<Rightarrow> string \<Rightarrow> string \<Rightarrow> string \<Rightarrow> pdict" where
  "build_gateway_decision_event_record uuid5 tenant_id project_id plan_id gateway_decision_id event_type occurred_at
     source_record_id shadow_receipt_id = [
     (''event_id'', JStr (deterministic_event_id uuid5 tenant_id project_id plan_id event_type)),
     (''plan_id'', JStr plan_id),
     (''gateway_decision_id'', JStr gateway_decision_id),
     (''event_type'', JStr event_type),
     (''occurred_at'', JStr occurred_at),
     (''tenant_id'', JStr tenant_id),
     (''project_id'', JStr project_id),
     (''source_record_id'', JStr source_record_id),
     (''shadow_receipt_id'', JStr shadow_receipt_id),
     (''version'', JStr GRDI_GATEWAY_EVENTS_PROTOCOL_VERSION),
     (''scope'', JObj [(''tenant_id'', JStr tenant_id), (''project_id'', JStr project_id)])]"

section \<open>Outcomes\<close>

fun validate_effects_from :: "string list \<Rightarrow> effect_assessment list \<Rightarrow> unit res" where
  "validate_effects_from seen [] = Inr ()"
| "validate_effects_from seen (x # xs) =
     (let effect = strip (ea_expected_effect x) in
      if effect = [] then Inl (ValueError ''expected_effect_required'')
      else if blank (ea_simulated_observation x) then Inl (ValueError ''simulated_observation_required'')
      else if effect \<in> set seen then Inl (ValueError ''duplicate_expected_effect'')
      else validate_effects_from (effect # seen) xs)"

definition validate_effect_assessments :: "effect_assessment list \<Rightarrow> unit res" where
  "validate_effect_assessments xs = validate_effects_from [] xs"

definition aggregate_outcome_state :: "string list \<Rightarrow> effect_assessment list \<Rightarrow> outcome_state" where
  "aggregate_outcome_state expected_effects assessments =
     (let effects = map ea_expected_effect assessments in
      if expected_effects = [] then SO_NOT_EVALUATED
      else if length effects \<noteq> length (remdups effects) then SO_NOT_EVALUATED
      else if set effects \<noteq> set expected_effects then SO_NOT_EVALUATED
      else if list_ex (\<lambda>x. ea_state x = EA_NOT_EVALUATED) assessments then SO_NOT_EVALUATED
      else if list_ex (\<lambda>x. ea_state x = EA_DEVIATED) assessments then SO_DEVIATED
      else if list_all (\<lambda>x. ea_state x = EA_MATCHED) assessments then SO_CONSISTENT
      else SO_NOT_EVALUATED)"

section \<open>Projection\<close>

text \<open>The key of the sort is a pair of strings for every event the code writes.\<close>

definition event_sort_key :: "pdict \<Rightarrow> (string \<times> string) res" where
  "event_sort_key row = bindE (json_str (dget_or row ''occurred_at'' (JStr []))) (\<lambda>a.
     bindE (json_str (dget_or row ''event_id'' (JStr []))) (\<lambda>b. Inr (a, b)))"

definition sort_events :: "pdict list \<Rightarrow> pdict list res" where
  "sort_events events = bindE (mapE event_sort_key events) (\<lambda>keys. Inr (map snd (sort_key fst (zip keys events))))"

definition project_gateway_state :: "gateway_decision \<Rightarrow> pdict list \<Rightarrow> pdict res" where
  "project_gateway_state signed_gateway events =
     bindE (sort_events events) (\<lambda>sorted_events.
     let simulation_state = foldl (\<lambda>st event. if dget event ''event_type'' = JStr ''SIMULATION_RECORDED''
           then SS_SIMULATED else st) SS_NOT_SIMULATED sorted_events
     in Inr [(''simulation_state'', JStr (simulation_state_value simulation_state)),
             (''execution_state'', JStr (execution_state_value (gd_execution_state signed_gateway))),
             (''eligibility'', JStr (gateway_eligibility_value (gd_eligibility signed_gateway)))])"

definition build_plan_projection ::
  "pdict \<Rightarrow> gateway_decision \<Rightarrow> pdict \<Rightarrow> pdict list \<Rightarrow> pdict option \<Rightarrow> pdict res" where
  "build_plan_projection request signed_gateway authority events shadow_receipt =
     bindE (project_gateway_state signed_gateway events) (\<lambda>current_state.
     bindE (dindex request ''plan_id'') (\<lambda>plan_id.
     Inr [(''plan_id'', plan_id),
       (''execution_request'', JObj request),
       (''signed_gateway_decision'', JObj (gateway_decision_to_dict signed_gateway)),
       (''current_gateway_state'', JObj current_state),
       (''gateway_events'', JArr (map JObj events)),
       (''flow_state'', JObj [
         (''verification'', dget authority ''verification_state''),
         (''authorization'', dget authority ''authorization_state''),
         (''gateway_eligibility'', JStr (gateway_eligibility_value (gd_eligibility signed_gateway))),
         (''simulation'', dget current_state ''simulation_state''),
         (''execution'', JStr (execution_state_value ES_NOT_EXECUTED))]),
       (''gateway_decision'', JObj (gateway_decision_to_dict signed_gateway)),
       (''shadow_receipt'', (case shadow_receipt of None \<Rightarrow> JNull | Some r \<Rightarrow> JObj r))]))"

end
