(* ===== verification/Grdi_Locks.thy ===== *)
theory Grdi_Locks
  imports Transactions
begin

text \<open>
  Model of \<^verbatim>\<open>src/src/phigraph/grdi/ledger_ops.py\<close>: the locks each operation of the service declares. A
  builder raises what the constructor of \<open>LockRef\<close> raises. The lemmas say what a built list covers: every
  lock is in the scope it was built for, and the writes of the operation are among its locks.
\<close>

definition canonical_lock :: "string \<Rightarrow> string \<Rightarrow> string \<Rightarrow> string \<Rightarrow> lock_ref res" where
  "canonical_lock tenant_id project_id collection canonical_key =
     LockRef tenant_id project_id collection CANONICAL canonical_key"

definition chain_lock :: "string \<Rightarrow> string \<Rightarrow> string \<Rightarrow> lock_ref res" where
  "chain_lock tenant_id project_id collection = LockRef tenant_id project_id collection CHAIN []"

text \<open>A tuple display evaluates its elements in order.\<close>

definition locks_of :: "lock_ref res list \<Rightarrow> lock_ref list res" where
  "locks_of rs = mapE (\<lambda>r. r) rs"

definition envelope_locks :: "string \<Rightarrow> string \<Rightarrow> string \<Rightarrow> lock_ref list res" where
  "envelope_locks t p envelope_id =
     locks_of [
       chain_lock t p ''decision_envelopes'',
       canonical_lock t p ''decision_envelopes'' envelope_id]"

definition authority_locks :: "string \<Rightarrow> string \<Rightarrow> string \<Rightarrow> string \<Rightarrow> lock_ref list res" where
  "authority_locks t p envelope_id authority_decision_id =
     bindE (envelope_locks t p envelope_id) (\<lambda>base. bindE (locks_of [
       chain_lock t p ''authority_decisions'',
       canonical_lock t p ''authority_decisions'' authority_decision_id]) (\<lambda>own. Inr (base @ own)))"

definition execution_plan_locks :: "string \<Rightarrow> string \<Rightarrow> string \<Rightarrow> string \<Rightarrow> string \<Rightarrow> lock_ref list res" where
  "execution_plan_locks t p envelope_id authority_decision_id plan_id =
     bindE (gateway_event_canonical_key plan_id ''GATEWAY_DECISION_CREATED'') (\<lambda>created_event_key.
     bindE (authority_locks t p envelope_id authority_decision_id) (\<lambda>base. bindE (locks_of [
       chain_lock t p ''execution_requests'',
       canonical_lock t p ''execution_requests'' plan_id,
       chain_lock t p ''gateway_decisions'',
       canonical_lock t p ''gateway_decisions'' plan_id,
       chain_lock t p ''gateway_decision_events'',
       canonical_lock t p ''gateway_decision_events'' created_event_key]) (\<lambda>own. Inr (base @ own))))"

definition simulation_locks :: "string \<Rightarrow> string \<Rightarrow> string \<Rightarrow> string \<Rightarrow> lock_ref list res" where
  "simulation_locks t p plan_id authority_decision_id =
     bindE (gateway_event_canonical_key plan_id ''SIMULATION_RECORDED'') (\<lambda>simulation_event_key.
     locks_of [
       canonical_lock t p ''execution_requests'' plan_id,
       canonical_lock t p ''gateway_decisions'' plan_id,
       canonical_lock t p ''authority_decisions'' authority_decision_id,
       chain_lock t p ''shadow_execution_receipts'',
       canonical_lock t p ''shadow_execution_receipts'' plan_id,
       chain_lock t p ''gateway_decision_events'',
       canonical_lock t p ''gateway_decision_events'' simulation_event_key])"

definition outcome_locks :: "string \<Rightarrow> string \<Rightarrow> string \<Rightarrow> string \<Rightarrow> lock_ref list res" where
  "outcome_locks t p plan_id shadow_receipt_id =
     locks_of [
       canonical_lock t p ''execution_requests'' plan_id,
       canonical_lock t p ''gateway_decisions'' plan_id,
       canonical_lock t p ''shadow_execution_receipts'' plan_id,
       chain_lock t p ''shadow_outcomes'',
       canonical_lock t p ''shadow_outcomes'' shadow_receipt_id]"

definition backfill_locks :: "string \<Rightarrow> string \<Rightarrow> string \<Rightarrow> lock_ref list res" where
  "backfill_locks t p plan_id =
     bindE (gateway_event_canonical_key plan_id ''GATEWAY_DECISION_CREATED'') (\<lambda>created_event_key.
     bindE (gateway_event_canonical_key plan_id ''SIMULATION_RECORDED'') (\<lambda>simulation_event_key.
     locks_of [
       canonical_lock t p ''gateway_decisions'' plan_id,
       canonical_lock t p ''shadow_execution_receipts'' plan_id,
       chain_lock t p ''gateway_decision_events'',
       canonical_lock t p ''gateway_decision_events'' created_event_key,
       canonical_lock t p ''gateway_decision_events'' simulation_event_key]))"

definition replay_snapshot_locks :: "string \<Rightarrow> string \<Rightarrow> string \<Rightarrow> lock_ref list res" where
  "replay_snapshot_locks t p plan_id =
     locks_of [
       chain_lock t p ''decision_envelopes'',
       chain_lock t p ''authority_decisions'',
       chain_lock t p ''execution_requests'',
       chain_lock t p ''gateway_decisions'',
       chain_lock t p ''gateway_decision_events'',
       chain_lock t p ''shadow_execution_receipts'',
       chain_lock t p ''shadow_outcomes'',
       chain_lock t p ''replay_reports'',
       canonical_lock t p ''execution_requests'' plan_id]"

definition comparison_snapshot_locks :: "string \<Rightarrow> string \<Rightarrow> lock_ref list res" where
  "comparison_snapshot_locks t p =
     locks_of [
       chain_lock t p ''replay_reports'',
       chain_lock t p ''historical_comparisons'']"

definition replay_locks :: "string \<Rightarrow> string \<Rightarrow> string \<Rightarrow> string \<Rightarrow> lock_ref list res" where
  "replay_locks t p plan_id manifest_hash =
     locks_of [
       canonical_lock t p ''execution_requests'' plan_id,
       chain_lock t p ''replay_reports'',
       canonical_lock t p ''replay_reports'' manifest_hash]"

definition comparison_locks :: "string \<Rightarrow> string \<Rightarrow> string \<Rightarrow> string \<Rightarrow> string \<Rightarrow> lock_ref list res" where
  "comparison_locks t p baseline_manifest_hash candidate_manifest_hash comparison_key =
     locks_of [
       canonical_lock t p ''replay_reports'' baseline_manifest_hash,
       canonical_lock t p ''replay_reports'' candidate_manifest_hash,
       chain_lock t p ''historical_comparisons'',
       canonical_lock t p ''historical_comparisons'' comparison_key]"

section \<open>What the locks cover\<close>

lemma locks_of_Inr: "locks_of rs = Inr ls \<longleftrightarrow> rs = map Inr ls"
  by (induction rs arbitrary: ls) (auto simp: locks_of_def bindE_Inr_iff)

lemma LockRef_Inr:
  "LockRef t p c k key = Inr r \<longleftrightarrow> t \<noteq> [] \<and> p \<noteq> [] \<and> c \<noteq> [] \<and> (k = CHAIN \<longleftrightarrow> key = []) \<and>
     r = \<lparr>lr_tenant = t, lr_project = p, lr_collection = c, lr_kind = k, lr_key = key\<rparr>"
  by (auto simp: LockRef_def)

lemma gateway_event_keys [simp]:
  "gateway_event_canonical_key plan_id ''GATEWAY_DECISION_CREATED'' = Inr (plan_id @ '':GATEWAY_DECISION_CREATED'')"
  "gateway_event_canonical_key plan_id ''SIMULATION_RECORDED'' = Inr (plan_id @ '':SIMULATION_RECORDED'')"
  by (simp_all add: gateway_event_canonical_key_def GATEWAY_DECISION_EVENT_TYPES_def)

text \<open>Whether a write to a collection under a key finds its locks in a list.\<close>

definition covers :: "lock_ref list \<Rightarrow> string \<Rightarrow> string \<Rightarrow> bool" where
  "covers ls c k \<longleftrightarrow> require_write_locks (Some (build_lock_context ls)) c k (is_chain_linked_collection c) = Inr ()"

definition scoped_locks :: "string \<Rightarrow> string \<Rightarrow> lock_ref list \<Rightarrow> bool" where
  "scoped_locks t p ls \<longleftrightarrow> validate_lock_refs_scope ls t p = Inr ()"

lemma scoped_locks_iff: "scoped_locks t p ls \<longleftrightarrow> list_all (\<lambda>r. lr_tenant r = t \<and> lr_project r = p) ls"
  by (auto simp: scoped_locks_def validate_lock_refs_scope_def allE_Inr_iff list_all_iff)

lemma covers_iff:
  "covers ls c k \<longleftrightarrow> (is_chain_linked_collection c \<longrightarrow> list_ex (\<lambda>r. lr_kind r = CHAIN \<and> lr_collection r = c) ls) \<and>
     list_ex (\<lambda>r. lr_kind r = CANONICAL \<and> lr_collection r = c \<and> lr_key r = k) ls"
  by (auto simp: covers_def require_write_locks_def list_ex_iff)

lemmas lock_defs = envelope_locks_def authority_locks_def execution_plan_locks_def simulation_locks_def outcome_locks_def
  backfill_locks_def replay_snapshot_locks_def comparison_snapshot_locks_def replay_locks_def comparison_locks_def
  chain_lock_def canonical_lock_def locks_of_Inr LockRef_Inr bindE_Inr_iff

lemma linked_collections [simp]:
  "is_chain_linked_collection ''decision_envelopes''" "is_chain_linked_collection ''authority_decisions''"
  "is_chain_linked_collection ''execution_requests''" "is_chain_linked_collection ''gateway_decisions''"
  "is_chain_linked_collection ''gateway_decision_events''" "is_chain_linked_collection ''shadow_execution_receipts''"
  "is_chain_linked_collection ''shadow_outcomes''" "is_chain_linked_collection ''replay_reports''"
  "is_chain_linked_collection ''historical_comparisons''"
  by code_simp+

lemma envelope_locks_cover: "envelope_locks t p e = Inr ls \<Longrightarrow> scoped_locks t p ls \<and> covers ls ''decision_envelopes'' e"
  by (auto simp: lock_defs scoped_locks_iff covers_iff map_eq_Cons_conv Cons_eq_map_conv)

lemma authority_locks_cover:
  "authority_locks t p e a = Inr ls \<Longrightarrow> scoped_locks t p ls \<and> covers ls ''authority_decisions'' a"
  by (auto simp: lock_defs scoped_locks_iff covers_iff Cons_eq_map_conv)

lemma execution_plan_locks_cover:
  "execution_plan_locks t p e a pl = Inr ls \<Longrightarrow> scoped_locks t p ls \<and> covers ls ''execution_requests'' pl \<and>
     covers ls ''gateway_decisions'' pl \<and> covers ls ''gateway_decision_events'' (pl @ '':GATEWAY_DECISION_CREATED'')"
  by (auto simp: lock_defs scoped_locks_iff covers_iff Cons_eq_map_conv)

lemma simulation_locks_cover:
  "simulation_locks t p pl a = Inr ls \<Longrightarrow> scoped_locks t p ls \<and> covers ls ''shadow_execution_receipts'' pl \<and>
     covers ls ''gateway_decision_events'' (pl @ '':SIMULATION_RECORDED'')"
  by (auto simp: lock_defs scoped_locks_iff covers_iff Cons_eq_map_conv)

lemma outcome_locks_cover:
  "outcome_locks t p pl r = Inr ls \<Longrightarrow> scoped_locks t p ls \<and> covers ls ''shadow_outcomes'' r"
  by (auto simp: lock_defs scoped_locks_iff covers_iff Cons_eq_map_conv)

lemma backfill_locks_cover:
  "backfill_locks t p pl = Inr ls \<Longrightarrow> scoped_locks t p ls \<and>
     covers ls ''gateway_decision_events'' (pl @ '':GATEWAY_DECISION_CREATED'') \<and>
     covers ls ''gateway_decision_events'' (pl @ '':SIMULATION_RECORDED'')"
  by (auto simp: lock_defs scoped_locks_iff covers_iff Cons_eq_map_conv)

lemma replay_locks_cover:
  "replay_locks t p pl h = Inr ls \<Longrightarrow> scoped_locks t p ls \<and> covers ls ''replay_reports'' h"
  by (auto simp: lock_defs scoped_locks_iff covers_iff Cons_eq_map_conv)

lemma comparison_locks_cover:
  "comparison_locks t p b c k = Inr ls \<Longrightarrow> scoped_locks t p ls \<and> covers ls ''historical_comparisons'' k"
  by (auto simp: lock_defs scoped_locks_iff covers_iff Cons_eq_map_conv)

end
