(* ===== verification/Grdi_Service.thy ===== *)
theory Grdi_Service
  imports Sessions Grdi_Policy Grdi_Locks
begin

text \<open>
  Model of \<^verbatim>\<open>src/src/phigraph/grdi/service.py\<close> over the engine of the scoped store: envelopes, authority
  decisions, execution plans, their simulation and the outcomes of simulations. (Replays and comparisons
  follow in \<open>Grdi_Replay\<close>.) Every handler reads what it needs, then runs one transaction under declared
  locks. What the code takes from its surroundings is one record, \<open>world\<close>: the hash, the HMAC, the
  name-based identifiers, and the identifiers and times that the calls of \<open>new_id\<close> and \<open>utc_now\<close> give, in
  the order of the calls. The service itself keeps only the signer.
\<close>

record world =
  wd_hash :: "string \<Rightarrow> string"
  wd_mac :: "string \<Rightarrow> string \<Rightarrow> string"
  wd_uuid5 :: "string \<Rightarrow> string"
  wd_id :: "nat \<Rightarrow> string"
  wd_now :: "nat \<Rightarrow> string"
  wd_clk :: "nat \<Rightarrow> nat \<Rightarrow> string"
  wd_signer :: "receipt_signer option"

section \<open>Reading rows\<close>

definition scoped_get :: "string \<Rightarrow> string \<Rightarrow> string \<Rightarrow> string \<Rightarrow> string \<Rightarrow> engine \<Rightarrow> pdict res" where
  "scoped_get collection canonical_key tenant_id project_id error eng =
     (case engine_get_scoped collection canonical_key tenant_id project_id eng of
        Inl (ScopedRecordNotFound m) \<Rightarrow> Inl (KeyError error)
      | r \<Rightarrow> r)"

definition get_envelope :: "world \<Rightarrow> string \<Rightarrow> string \<Rightarrow> string \<Rightarrow> engine \<Rightarrow> decision_envelope res" where
  "get_envelope w envelope_id tenant_id project_id eng =
     bindE (scoped_get ''decision_envelopes'' envelope_id tenant_id project_id ''decision_envelope_not_found_in_scope'' eng)
       (decision_envelope_from_row (wd_now w 0))"

definition get_authority_decision :: "world \<Rightarrow> string \<Rightarrow> string \<Rightarrow> string \<Rightarrow> engine \<Rightarrow> authority_decision res" where
  "get_authority_decision w authority_decision_id tenant_id project_id eng =
     bindE (scoped_get ''authority_decisions'' authority_decision_id tenant_id project_id
       ''authority_decision_not_found_in_scope'' eng) (authority_decision_from_row (wd_now w 0))"

definition get_execution_request :: "world \<Rightarrow> string \<Rightarrow> string \<Rightarrow> string \<Rightarrow> engine \<Rightarrow> execution_request res" where
  "get_execution_request w plan_id tenant_id project_id eng =
     bindE (scoped_get ''execution_requests'' plan_id tenant_id project_id ''execution_plan_not_found_in_scope'' eng)
       (execution_request_from_row (wd_hash w) (wd_now w 0))"

definition get_gateway_decision :: "world \<Rightarrow> string \<Rightarrow> string \<Rightarrow> string \<Rightarrow> engine \<Rightarrow> gateway_decision res" where
  "get_gateway_decision w plan_id tenant_id project_id eng =
     bindE (scoped_get ''gateway_decisions'' plan_id tenant_id project_id ''gateway_decision_not_found_in_scope'' eng)
       (gateway_decision_from_row (wd_now w 0))"

definition get_shadow_receipt :: "world \<Rightarrow> string \<Rightarrow> string \<Rightarrow> string \<Rightarrow> engine \<Rightarrow> shadow_receipt res" where
  "get_shadow_receipt w plan_id tenant_id project_id eng =
     bindE (scoped_get ''shadow_execution_receipts'' plan_id tenant_id project_id ''shadow_receipt_not_found_in_scope'' eng)
       (shadow_receipt_from_row (wd_now w 0))"

definition list_gateway_events :: "string \<Rightarrow> string \<Rightarrow> string \<Rightarrow> engine \<Rightarrow> pdict list res" where
  "list_gateway_events plan_id tenant_id project_id eng =
     bindE (engine_list_scoped ''gateway_decision_events'' tenant_id project_id MAX_LIST_LIMIT 0 eng) (\<lambda>rows.
     Inr (map strip_scoped (filter (\<lambda>row. dget row ''plan_id'' = JStr plan_id) rows)))"

section \<open>Checking receipts and outcomes\<close>

text \<open>\<open>if a != b: raise ValueError(error)\<close> between a value of a record and one of the signed body.\<close>

definition require_match :: "json \<Rightarrow> json \<Rightarrow> string \<Rightarrow> unit res" where
  "require_match record_value signed_value error = raise_if (\<not> py_eq record_value signed_value) (ValueError error)"

definition with_signer :: "world \<Rightarrow> (receipt_signer \<Rightarrow> 'a res) \<Rightarrow> 'a res" where
  "with_signer w f = (case wd_signer w of None \<Rightarrow> Inl (ValueError ''receipt_signer_not_configured'') | Some s \<Rightarrow> f s)"

definition check_signature :: "world \<Rightarrow> pdict \<Rightarrow> string \<Rightarrow> unit res" where
  "check_signature w signed error = with_signer w (\<lambda>s.
     bindE (receipt_verify (wd_mac w) s signed) (\<lambda>ok. raise_if (\<not> ok) (ValueError error)))"

definition validate_shadow_receipt :: "world \<Rightarrow> shadow_receipt \<Rightarrow> execution_request \<Rightarrow> shadow_receipt res" where
  "validate_shadow_receipt w receipt request =
     (let signed = rc_normalized_plan receipt in
     bindE (check_signature w signed ''invalid_shadow_receipt_signature'') (\<lambda>_.
     bindE (raise_if (dget signed ''plan_id'' \<noteq> JStr (rc_plan_id receipt) \<or> dget signed ''plan_id'' \<noteq> JStr (er_plan_id request))
       (ValueError ''shadow_receipt_plan_mismatch'')) (\<lambda>_.
     bindE (require_match (JStr (er_envelope_id request)) (dget signed ''envelope_id'') ''shadow_receipt_envelope_mismatch'') (\<lambda>_.
     bindE (require_match (JStr (er_authority_decision_id request)) (dget signed ''authority_decision_id'')
       ''shadow_receipt_authority_mismatch'') (\<lambda>_.
     bindE (require_match (JStr (er_action_hash request)) (dget signed ''action_hash'') ''shadow_receipt_action_hash_mismatch'') (\<lambda>_.
     bindE (require_match (JObj (er_requested_action request)) (dget signed ''requested_action'') ''shadow_receipt_action_mismatch'') (\<lambda>_.
     bindE (require_match (JStr (er_tenant_id request)) (dget signed ''tenant_id'') ''shadow_receipt_tenant_mismatch'') (\<lambda>_.
     bindE (require_match (JStr (er_project_id request)) (dget signed ''project_id'') ''shadow_receipt_project_mismatch'') (\<lambda>_.
     bindE (require_match (jstrs (er_expected_effects request)) (dget signed ''expected_effects'') ''shadow_receipt_effects_mismatch'') (\<lambda>_.
     bindE (require_match (JObj (er_rollback_strategy request)) (dget signed ''rollback_strategy'') ''shadow_receipt_rollback_mismatch'') (\<lambda>_.
     bindE (raise_if (rc_executed receipt \<or> rc_external_side_effects receipt \<or> rc_connector_invoked receipt)
       (ValueError ''shadow_receipt_execution_claim_invalid'')) (\<lambda>_.
     bindE (raise_if (truthy (dget signed ''executed'') \<or> truthy (dget signed ''external_side_effects'') \<or>
         truthy (dget signed ''connector_invoked''))
       (ValueError ''shadow_receipt_signed_execution_claim_invalid'')) (\<lambda>_.
     Inr receipt)))))))))))))"

definition source_receipt_hash :: "world \<Rightarrow> shadow_receipt \<Rightarrow> string" where
  "source_receipt_hash w receipt = hash_payload (wd_hash w) (JObj (shadow_receipt_to_dict receipt))"

definition validate_outcome_identity :: "shadow_outcome \<Rightarrow> execution_request \<Rightarrow> shadow_receipt \<Rightarrow> unit res" where
  "validate_outcome_identity rcd request receipt =
     (let signed = so_signed_outcome rcd in
     bindE (require_match (JStr (so_outcome_id rcd)) (dget signed ''outcome_id'') ''shadow_outcome_outcome_id_mismatch'') (\<lambda>_.
     bindE (require_match (JStr (so_recorded_by rcd)) (dget signed ''recorded_by'') ''shadow_outcome_recorded_by_mismatch'') (\<lambda>_.
     bindE (require_match (JObj (so_metrics rcd)) (dget_or signed ''metrics'' (JObj [])) ''shadow_outcome_metrics_mismatch'') (\<lambda>_.
     bindE (require_match (jstrs (so_limitations rcd)) (dget_or signed ''limitations'' (JArr [])) ''shadow_outcome_limitations_mismatch'') (\<lambda>_.
     bindE (require_match (JStr (so_recorded_at rcd)) (dget signed ''recorded_at'') ''shadow_outcome_recorded_at_mismatch'') (\<lambda>_.
     bindE (require_match (JStr (so_version rcd)) (dget signed ''version'') ''shadow_outcome_version_mismatch'') (\<lambda>_.
     bindE (raise_if (so_plan_id rcd \<noteq> er_plan_id request \<or> dget signed ''plan_id'' \<noteq> JStr (er_plan_id request))
       (ValueError ''shadow_outcome_plan_mismatch'')) (\<lambda>_.
     bindE (raise_if (so_shadow_receipt_id rcd \<noteq> rc_receipt_id receipt \<or> dget signed ''shadow_receipt_id'' \<noteq> JStr (rc_receipt_id receipt))
       (ValueError ''shadow_outcome_receipt_mismatch'')) (\<lambda>_.
     bindE (raise_if (so_envelope_id rcd \<noteq> er_envelope_id request \<or> dget signed ''envelope_id'' \<noteq> JStr (er_envelope_id request))
       (ValueError ''shadow_outcome_envelope_mismatch'')) (\<lambda>_.
     bindE (raise_if (so_authority_decision_id rcd \<noteq> er_authority_decision_id request)
       (ValueError ''shadow_outcome_authority_mismatch'')) (\<lambda>_.
     bindE (require_match (JStr (er_authority_decision_id request)) (dget signed ''authority_decision_id'')
       ''shadow_outcome_signed_authority_mismatch'') (\<lambda>_.
     bindE (raise_if (so_tenant_id rcd \<noteq> er_tenant_id request \<or> dget signed ''tenant_id'' \<noteq> JStr (er_tenant_id request))
       (ValueError ''shadow_outcome_tenant_mismatch'')) (\<lambda>_.
     raise_if (so_project_id rcd \<noteq> er_project_id request \<or> dget signed ''project_id'' \<noteq> JStr (er_project_id request))
       (ValueError ''shadow_outcome_project_mismatch''))))))))))))))"

definition validate_outcome_assessments :: "shadow_outcome \<Rightarrow> execution_request \<Rightarrow> unit res" where
  "validate_outcome_assessments rcd request =
     (let signed = so_signed_outcome rcd in
     bindE (effects_from_json (dget_or signed ''effect_assessments'' (JArr []))) (\<lambda>stored.
     bindE (raise_if (length stored \<noteq> length (so_effect_assessments rcd)) (ValueError ''shadow_outcome_assessments_mismatch'')) (\<lambda>_.
     bindE (raise_if (list_ex (\<lambda>(a, b). \<not> py_eq (JObj (effect_assessment_to_dict a)) (JObj (effect_assessment_to_dict b)))
         (zip stored (so_effect_assessments rcd))) (ValueError ''shadow_outcome_assessments_mismatch'')) (\<lambda>_.
     let aggregated = aggregate_outcome_state (er_expected_effects request) (so_effect_assessments rcd) in
     raise_if (so_outcome_state rcd \<noteq> aggregated \<or> dget signed ''outcome_state'' \<noteq> JStr (outcome_state_value aggregated))
       (ValueError ''shadow_outcome_state_mismatch'')))))"

definition validate_outcome_claims :: "shadow_outcome \<Rightarrow> unit res" where
  "validate_outcome_claims rcd =
     (let signed = so_signed_outcome rcd in
     bindE (raise_if (so_executed rcd \<or> so_external_side_effects rcd \<or> so_connector_invoked rcd \<or>
         so_outcome_origin rcd \<noteq> OUTCOME_ORIGIN_SHADOW_SIMULATION \<or> so_execution_state rcd \<noteq> ES_NOT_EXECUTED)
       (ValueError ''shadow_outcome_execution_claim_invalid'')) (\<lambda>_.
     raise_if (truthy (dget signed ''executed'') \<or> truthy (dget signed ''external_side_effects'') \<or>
         truthy (dget signed ''connector_invoked'') \<or>
         dget signed ''outcome_origin'' \<noteq> JStr OUTCOME_ORIGIN_SHADOW_SIMULATION \<or>
         dget signed ''execution_state'' \<noteq> JStr (execution_state_value ES_NOT_EXECUTED))
       (ValueError ''shadow_outcome_signed_execution_claim_invalid'')))"

definition validate_shadow_outcome ::
  "world \<Rightarrow> shadow_outcome \<Rightarrow> execution_request \<Rightarrow> shadow_receipt \<Rightarrow> shadow_outcome res" where
  "validate_shadow_outcome w rcd request receipt =
     (let signed = so_signed_outcome rcd; expected_hash = source_receipt_hash w receipt in
     bindE (check_signature w signed ''invalid_shadow_outcome_signature'') (\<lambda>_.
     bindE (raise_if (so_source_receipt_hash rcd \<noteq> expected_hash)
       (ValueError ''shadow_outcome_source_receipt_hash_mismatch'')) (\<lambda>_.
     bindE (require_match (JStr expected_hash) (dget signed ''source_receipt_hash'')
       ''shadow_outcome_signed_source_receipt_hash_mismatch'') (\<lambda>_.
     bindE (validate_outcome_identity rcd request receipt) (\<lambda>_.
     bindE (validate_outcome_assessments rcd request) (\<lambda>_.
     bindE (validate_outcome_claims rcd) (\<lambda>_.
     Inr rcd)))))))"

definition load_validated_shadow_receipt ::
  "world \<Rightarrow> execution_request \<Rightarrow> string \<Rightarrow> string \<Rightarrow> engine \<Rightarrow> shadow_receipt res" where
  "load_validated_shadow_receipt w request tenant_id project_id eng =
     bindE (get_shadow_receipt w (er_plan_id request) tenant_id project_id eng) (\<lambda>receipt.
     validate_shadow_receipt w receipt request)"

section \<open>Envelopes and authority\<close>

definition register_envelope :: "world \<Rightarrow> decision_envelope \<Rightarrow> (engine, decision_envelope) act" where
  "register_envelope w envelope =
     (let t = de_tenant_id envelope; p = de_project_id envelope in
     bindS (liftS (envelope_locks t p (de_envelope_id envelope))) (\<lambda>locks.
     run_scoped_transaction t p locks
       (bindS (session_append_scoped_once (wd_hash w) (wd_clk w 0) t p ''decision_envelopes''
          (decision_envelope_to_dict envelope) (de_envelope_id envelope)) (\<lambda>_.
        retS envelope))))"

definition authorize ::
  "world \<Rightarrow> string \<Rightarrow> string \<Rightarrow> string \<Rightarrow> string \<Rightarrow> string \<Rightarrow> approval list \<Rightarrow> (engine, authority_decision) act" where
  "authorize w envelope_id tenant_id project_id authority_subject authority_role approvals =
     bindS (readS (get_envelope w envelope_id tenant_id project_id)) (\<lambda>envelope.
     bindS (liftS (authority_evaluate (wd_mac w) (wd_signer w) (wd_id w 0) (wd_now w 1) envelope authority_subject
        authority_role approvals)) (\<lambda>decision.
     bindS (liftS (authority_locks tenant_id project_id envelope_id (ad_authority_decision_id decision))) (\<lambda>locks.
     run_scoped_transaction tenant_id project_id locks
       (bindS (session_get_scoped tenant_id project_id ''decision_envelopes'' envelope_id) (\<lambda>_.
        bindS (session_append_scoped (wd_hash w) (wd_clk w 0) tenant_id project_id ''authority_decisions''
          (authority_decision_to_dict decision) (ad_authority_decision_id decision)) (\<lambda>_.
        retS decision))))))"

section \<open>Execution plans\<close>

definition plan_projection_payload ::
  "execution_request \<Rightarrow> gateway_decision \<Rightarrow> authority_decision \<Rightarrow> pdict list \<Rightarrow> pdict option \<Rightarrow> pdict res" where
  "plan_projection_payload request gateway authority events shadow_receipt =
     build_plan_projection (strip_scoped (execution_request_to_dict request)) gateway
       (strip_scoped (authority_decision_to_dict authority)) events shadow_receipt"

definition new_request ::
  "world \<Rightarrow> string \<Rightarrow> string \<Rightarrow> string \<Rightarrow> string \<Rightarrow> string \<Rightarrow> pdict \<Rightarrow> string list \<Rightarrow> pdict option \<Rightarrow> execution_request res" where
  "new_request w envelope_id authority_decision_id tenant_id project_id requested_by requested_action expected_effects
     rollback_strategy = execution_request_init (wd_hash w)
     \<lparr>er_plan_id = wd_id w 0, er_envelope_id = envelope_id, er_authority_decision_id = authority_decision_id,
      er_tenant_id = tenant_id, er_project_id = project_id, er_requested_by = requested_by,
      er_requested_action = requested_action, er_action_hash = action_hash (wd_hash w) requested_action,
      er_expected_effects = expected_effects,
      er_rollback_strategy = (case rollback_strategy of None \<Rightarrow> [] | Some d \<Rightarrow> d),
      er_created_at = wd_now w 1, er_version = GRDI_VERSION\<rparr>"

definition commit_plan ::
  "world \<Rightarrow> string \<Rightarrow> string \<Rightarrow> execution_request \<Rightarrow> gateway_decision \<Rightarrow> authority_decision \<Rightarrow> (engine, pdict) act" where
  "commit_plan w tenant_id project_id request gateway authority =
     (let plan_id = er_plan_id request;
          created_event = build_gateway_decision_event_record (wd_uuid5 w) tenant_id project_id plan_id
            (gd_gateway_decision_id gateway) ''GATEWAY_DECISION_CREATED'' (gd_decided_at gateway)
            (gd_gateway_decision_id gateway) []
      in bindS (session_get_scoped tenant_id project_id ''decision_envelopes'' (er_envelope_id request)) (\<lambda>_.
         bindS (session_get_scoped tenant_id project_id ''authority_decisions'' (er_authority_decision_id request)) (\<lambda>_.
         bindS (session_append_scoped (wd_hash w) (wd_clk w 0) tenant_id project_id ''execution_requests''
           (execution_request_to_dict request) plan_id) (\<lambda>_.
         bindS (session_append_scoped (wd_hash w) (wd_clk w 1) tenant_id project_id ''gateway_decisions''
           (gateway_decision_to_dict gateway) plan_id) (\<lambda>_.
         bindS (liftS (gateway_event_canonical_key plan_id ''GATEWAY_DECISION_CREATED'')) (\<lambda>event_key.
         bindS (session_append_scoped_once (wd_hash w) (wd_clk w 2) tenant_id project_id ''gateway_decision_events''
           created_event event_key) (\<lambda>_.
         liftS (plan_projection_payload request gateway authority [created_event] None))))))))"

definition create_execution_plan ::
  "world \<Rightarrow> string \<Rightarrow> string \<Rightarrow> string \<Rightarrow> string \<Rightarrow> string \<Rightarrow> pdict \<Rightarrow> string list \<Rightarrow> pdict option \<Rightarrow> (engine, pdict) act" where
  "create_execution_plan w envelope_id authority_decision_id tenant_id project_id requested_by requested_action
     expected_effects rollback_strategy =
     bindS (readS (get_envelope w envelope_id tenant_id project_id)) (\<lambda>envelope.
     bindS (readS (get_authority_decision w authority_decision_id tenant_id project_id)) (\<lambda>authority.
     bindS (liftS (new_request w envelope_id authority_decision_id tenant_id project_id requested_by requested_action
        expected_effects rollback_strategy)) (\<lambda>request.
     let gateway = gateway_evaluate (wd_hash w) (wd_id w 1) (wd_now w 2) envelope authority request tenant_id project_id in
     bindS (liftS (execution_plan_locks tenant_id project_id envelope_id authority_decision_id (er_plan_id request))) (\<lambda>locks.
     run_scoped_transaction tenant_id project_id locks
       (commit_plan w tenant_id project_id request gateway authority)))))"

text \<open>\<open>except KeyError\<close> around the receipt: a plan that was not simulated has none.\<close>

definition get_execution_plan :: "world \<Rightarrow> string \<Rightarrow> string \<Rightarrow> string \<Rightarrow> engine \<Rightarrow> pdict res" where
  "get_execution_plan w plan_id tenant_id project_id eng =
     bindE (get_execution_request w plan_id tenant_id project_id eng) (\<lambda>request.
     bindE (get_gateway_decision w plan_id tenant_id project_id eng) (\<lambda>gateway.
     bindE (get_authority_decision w (er_authority_decision_id request) tenant_id project_id eng) (\<lambda>authority.
     bindE (list_gateway_events plan_id tenant_id project_id eng) (\<lambda>events.
     bindE (case load_validated_shadow_receipt w request tenant_id project_id eng of
         Inl (KeyError m) \<Rightarrow> Inr None
       | Inl e \<Rightarrow> Inl e
       | Inr receipt \<Rightarrow> Inr (Some (shadow_receipt_to_dict receipt))) (\<lambda>shadow_receipt.
     plan_projection_payload request gateway authority events shadow_receipt)))))"

section \<open>Simulation\<close>

definition ensure_simulation_event ::
  "world \<Rightarrow> nat \<Rightarrow> string \<Rightarrow> string \<Rightarrow> string \<Rightarrow> gateway_decision \<Rightarrow> shadow_receipt \<Rightarrow> (engine, unit) act" where
  "ensure_simulation_event w n tenant_id project_id plan_id gateway receipt =
     (let simulation_event = build_gateway_decision_event_record (wd_uuid5 w) tenant_id project_id plan_id
        (gd_gateway_decision_id gateway) ''SIMULATION_RECORDED'' (rc_simulated_at receipt) (rc_receipt_id receipt)
        (rc_receipt_id receipt)
      in bindS (liftS (gateway_event_canonical_key plan_id ''SIMULATION_RECORDED'')) (\<lambda>event_key.
         bindS (session_append_scoped_once (wd_hash w) (wd_clk w n) tenant_id project_id ''gateway_decision_events''
           simulation_event event_key) (\<lambda>_. retS ())))"

text \<open>\<open>except ScopedRecordNotFound: pass\<close>\<close>

definition if_not_found :: "(engine, 'a) act \<Rightarrow> (engine, 'a) act \<Rightarrow> (engine, 'a) act" where
  "if_not_found body rest = tryS body (\<lambda>e. case e of ScopedRecordNotFound m \<Rightarrow> rest | _ \<Rightarrow> failS e)"

definition new_simulation ::
  "world \<Rightarrow> string \<Rightarrow> string \<Rightarrow> string \<Rightarrow> execution_request \<Rightarrow> gateway_decision \<Rightarrow> (engine, shadow_receipt) act" where
  "new_simulation w tenant_id project_id plan_id request stored_gateway =
     bindS (session_get_scoped tenant_id project_id ''authority_decisions'' (er_authority_decision_id request)) (\<lambda>authority_row.
     bindS (liftS (authority_decision_from_row (wd_now w 0) authority_row)) (\<lambda>authority.
     bindS (session_get_scoped tenant_id project_id ''decision_envelopes'' (er_envelope_id request)) (\<lambda>envelope_row.
     bindS (liftS (decision_envelope_from_row (wd_now w 0) envelope_row)) (\<lambda>envelope.
     let gateway = gateway_evaluate (wd_hash w) (wd_id w 0) (wd_now w 1) envelope authority request tenant_id project_id in
     bindS (liftS (raise_if (gd_eligibility gateway \<noteq> GE_ELIGIBLE_FOR_SHADOW) (ValueError ''plan_not_eligible_for_shadow''))) (\<lambda>_.
     bindS (liftS (gateway_simulate (wd_mac w) (wd_signer w) (wd_id w 1) (wd_now w 2) envelope authority request gateway)) (\<lambda>receipt0.
     bindS (session_append_scoped_once (wd_hash w) (wd_clk w 0) tenant_id project_id ''shadow_execution_receipts''
       (shadow_receipt_to_dict receipt0) plan_id) (\<lambda>(stored, created).
     bindS (liftS (shadow_receipt_from_row (wd_now w 0) stored)) (\<lambda>receipt.
     bindS (liftS (validate_shadow_receipt w receipt request)) (\<lambda>_.
     bindS (ensure_simulation_event w 1 tenant_id project_id plan_id stored_gateway receipt) (\<lambda>_.
     retS receipt))))))))))"

definition commit_simulation :: "world \<Rightarrow> string \<Rightarrow> string \<Rightarrow> string \<Rightarrow> (engine, shadow_receipt) act" where
  "commit_simulation w tenant_id project_id plan_id =
     bindS (session_get_scoped tenant_id project_id ''execution_requests'' plan_id) (\<lambda>request_row.
     bindS (liftS (execution_request_from_row (wd_hash w) (wd_now w 0) request_row)) (\<lambda>request.
     bindS (session_get_scoped tenant_id project_id ''gateway_decisions'' plan_id) (\<lambda>gateway_row.
     bindS (liftS (gateway_decision_from_row (wd_now w 0) gateway_row)) (\<lambda>stored_gateway.
     if_not_found
       (bindS (session_get_scoped tenant_id project_id ''shadow_execution_receipts'' plan_id) (\<lambda>receipt_row.
        bindS (liftS (shadow_receipt_from_row (wd_now w 0) receipt_row)) (\<lambda>receipt.
        bindS (liftS (validate_shadow_receipt w receipt request)) (\<lambda>_.
        bindS (ensure_simulation_event w 0 tenant_id project_id plan_id stored_gateway receipt) (\<lambda>_.
        retS receipt)))))
       (new_simulation w tenant_id project_id plan_id request stored_gateway)))))"

definition simulation_result :: "world \<Rightarrow> string \<Rightarrow> string \<Rightarrow> string \<Rightarrow> shadow_receipt \<Rightarrow> engine \<Rightarrow> pdict res" where
  "simulation_result w plan_id tenant_id project_id receipt eng =
     bindE (get_execution_plan w plan_id tenant_id project_id eng) (\<lambda>plan.
     Inr [(''plan'', JObj plan), (''shadow_receipt'', JObj (shadow_receipt_to_dict receipt))])"

definition simulate_execution_plan :: "world \<Rightarrow> string \<Rightarrow> string \<Rightarrow> string \<Rightarrow> (engine, pdict) act" where
  "simulate_execution_plan w plan_id tenant_id project_id =
     bindS (readS (get_execution_request w plan_id tenant_id project_id)) (\<lambda>request.
     bindS (liftS (simulation_locks tenant_id project_id plan_id (er_authority_decision_id request))) (\<lambda>locks.
     bindS (run_scoped_transaction tenant_id project_id locks (commit_simulation w tenant_id project_id plan_id)) (\<lambda>receipt.
     readS (simulation_result w plan_id tenant_id project_id receipt))))"

section \<open>Outcomes\<close>

definition outcome_body :: "shadow_outcome \<Rightarrow> pdict" where
  "outcome_body draft = [
     (''outcome_id'', JStr (so_outcome_id draft)),
     (''plan_id'', JStr (so_plan_id draft)),
     (''shadow_receipt_id'', JStr (so_shadow_receipt_id draft)),
     (''envelope_id'', JStr (so_envelope_id draft)),
     (''authority_decision_id'', JStr (so_authority_decision_id draft)),
     (''tenant_id'', JStr (so_tenant_id draft)),
     (''project_id'', JStr (so_project_id draft)),
     (''recorded_by'', JStr (so_recorded_by draft)),
     (''effect_assessments'', effects_json (so_effect_assessments draft)),
     (''outcome_state'', JStr (outcome_state_value (so_outcome_state draft))),
     (''metrics'', JObj (so_metrics draft)),
     (''limitations'', jstrs (so_limitations draft)),
     (''outcome_origin'', JStr OUTCOME_ORIGIN_SHADOW_SIMULATION),
     (''executed'', JBool False),
     (''external_side_effects'', JBool False),
     (''connector_invoked'', JBool False),
     (''execution_state'', JStr (execution_state_value ES_NOT_EXECUTED)),
     (''source_receipt_hash'', JStr (so_source_receipt_hash draft)),
     (''recorded_at'', JStr (so_recorded_at draft)),
     (''version'', JStr GRDI_VERSION)]"

definition draft_outcome ::
  "world \<Rightarrow> execution_request \<Rightarrow> shadow_receipt \<Rightarrow> string \<Rightarrow> string \<Rightarrow> string \<Rightarrow> string \<Rightarrow> effect_assessment list \<Rightarrow> pdict option
   \<Rightarrow> string list \<Rightarrow> shadow_outcome" where
  "draft_outcome w request receipt plan_id tenant_id project_id recorded_by assessments metrics limitations =
     \<lparr>so_outcome_id = wd_id w 0, so_plan_id = plan_id, so_shadow_receipt_id = rc_receipt_id receipt,
      so_envelope_id = er_envelope_id request, so_authority_decision_id = er_authority_decision_id request,
      so_tenant_id = tenant_id, so_project_id = project_id, so_recorded_by = recorded_by,
      so_effect_assessments = assessments,
      so_outcome_state = aggregate_outcome_state (er_expected_effects request) assessments,
      so_metrics = (case metrics of None \<Rightarrow> [] | Some m \<Rightarrow> m), so_limitations = limitations,
      so_outcome_origin = OUTCOME_ORIGIN_SHADOW_SIMULATION, so_executed = False, so_external_side_effects = False,
      so_connector_invoked = False, so_execution_state = ES_NOT_EXECUTED,
      so_source_receipt_hash = source_receipt_hash w receipt, so_signed_outcome = [], so_recorded_at = wd_now w 1,
      so_version = GRDI_VERSION\<rparr>"

definition commit_outcome ::
  "world \<Rightarrow> execution_request \<Rightarrow> shadow_receipt \<Rightarrow> string \<Rightarrow> string \<Rightarrow> string \<Rightarrow> string \<Rightarrow> effect_assessment list \<Rightarrow> pdict option
   \<Rightarrow> string list \<Rightarrow> (engine, pdict) act" where
  "commit_outcome w request receipt plan_id tenant_id project_id recorded_by assessments metrics limitations =
     if_not_found
       (bindS (session_get_scoped tenant_id project_id ''shadow_outcomes'' (rc_receipt_id receipt)) (\<lambda>row.
        bindS (liftS (shadow_outcome_from_dict (wd_now w 0) row)) (\<lambda>existing.
        bindS (liftS (validate_shadow_outcome w existing request receipt)) (\<lambda>_.
        retS (shadow_outcome_to_dict existing)))))
       (bindS (liftS (validate_effect_assessments assessments)) (\<lambda>_.
        bindS (liftS (with_signer w Inr)) (\<lambda>signer.
        let draft = draft_outcome w request receipt plan_id tenant_id project_id recorded_by assessments metrics limitations;
            rcd = draft\<lparr>so_signed_outcome := receipt_sign (wd_mac w) signer (outcome_body draft)\<rparr> in
        bindS (session_append_scoped_once (wd_hash w) (wd_clk w 0) tenant_id project_id ''shadow_outcomes''
          (shadow_outcome_to_dict rcd) (rc_receipt_id receipt)) (\<lambda>(row, created).
        bindS (liftS (shadow_outcome_from_dict (wd_now w 0) row)) (\<lambda>stored.
        bindS (liftS (validate_shadow_outcome w stored request receipt)) (\<lambda>_.
        retS (shadow_outcome_to_dict stored)))))))"

definition record_shadow_outcome ::
  "world \<Rightarrow> string \<Rightarrow> string \<Rightarrow> string \<Rightarrow> string \<Rightarrow> effect_assessment list \<Rightarrow> pdict option \<Rightarrow> string list \<Rightarrow> (engine, pdict) act" where
  "record_shadow_outcome w plan_id tenant_id project_id recorded_by assessments metrics limitations =
     bindS (readS (get_execution_request w plan_id tenant_id project_id)) (\<lambda>request.
     bindS (readS (get_gateway_decision w plan_id tenant_id project_id)) (\<lambda>gateway.
     bindS (readS (list_gateway_events plan_id tenant_id project_id)) (\<lambda>events.
     bindS (liftS (project_gateway_state gateway events)) (\<lambda>current_state.
     bindS (liftS (raise_if (dget current_state ''simulation_state'' \<noteq> JStr (simulation_state_value SS_SIMULATED))
       (ValueError ''plan_not_simulated''))) (\<lambda>_.
     bindS (liftS (raise_if (gd_execution_state gateway \<noteq> ES_NOT_EXECUTED) (ValueError ''plan_execution_state_invalid''))) (\<lambda>_.
     bindS (readS (load_validated_shadow_receipt w request tenant_id project_id)) (\<lambda>receipt.
     bindS (liftS (outcome_locks tenant_id project_id plan_id (rc_receipt_id receipt))) (\<lambda>locks.
     run_scoped_transaction tenant_id project_id locks
       (commit_outcome w request receipt plan_id tenant_id project_id recorded_by assessments metrics limitations)))))))))"

text \<open>The first row of the scope with a given field, as \<open>next(...)\<close> finds it.\<close>

definition find_scoped_row :: "string \<Rightarrow> string \<Rightarrow> string \<Rightarrow> string \<Rightarrow> string \<Rightarrow> string \<Rightarrow> engine \<Rightarrow> pdict res" where
  "find_scoped_row collection field v tenant_id project_id error eng =
     bindE (engine_list_scoped collection tenant_id project_id MAX_LIST_LIMIT 0 eng) (\<lambda>rows.
     case find (\<lambda>item. dget item field = JStr v) rows of None \<Rightarrow> Inl (KeyError error)
     | Some item \<Rightarrow> Inr (strip_scoped item))"

definition checked_outcome :: "world \<Rightarrow> string \<Rightarrow> string \<Rightarrow> shadow_outcome \<Rightarrow> engine \<Rightarrow> pdict res" where
  "checked_outcome w tenant_id project_id rcd eng =
     (let plan_id = py_str (dget_or (so_signed_outcome rcd) ''plan_id'' (JStr (so_plan_id rcd))) in
     bindE (get_execution_request w plan_id tenant_id project_id eng) (\<lambda>request.
     bindE (load_validated_shadow_receipt w request tenant_id project_id eng) (\<lambda>receipt.
     bindE (validate_shadow_outcome w rcd request receipt) (\<lambda>_. Inr (shadow_outcome_to_dict rcd)))))"

definition get_shadow_outcome :: "world \<Rightarrow> string \<Rightarrow> string \<Rightarrow> string \<Rightarrow> engine \<Rightarrow> pdict res" where
  "get_shadow_outcome w outcome_id tenant_id project_id eng =
     bindE (find_scoped_row ''shadow_outcomes'' ''outcome_id'' outcome_id tenant_id project_id
       ''shadow_outcome_not_found_in_scope'' eng) (\<lambda>row.
     bindE (shadow_outcome_from_dict (wd_now w 0) row) (\<lambda>rcd. checked_outcome w tenant_id project_id rcd eng))"

definition get_outcome_for_plan :: "world \<Rightarrow> string \<Rightarrow> string \<Rightarrow> string \<Rightarrow> engine \<Rightarrow> pdict res" where
  "get_outcome_for_plan w plan_id tenant_id project_id eng =
     bindE (find_scoped_row ''shadow_outcomes'' ''plan_id'' plan_id tenant_id project_id
       ''shadow_outcome_not_found_in_scope'' eng) (\<lambda>row.
     bindE (shadow_outcome_from_dict (wd_now w 0) row) (\<lambda>rcd. checked_outcome w tenant_id project_id rcd eng))"

end
