(* ===== verification/Grdi_Rows.thy ===== *)
theory Grdi_Rows
  imports Grdi_Models Store_Invariant
begin

text \<open>
  The records of \<open>Grdi_Models\<close> survive the store. A reader depends on a row only through the values of its
  keys, so it gives back the record the row was written as, whatever the order of the keys and whatever
  metadata the store adds; a row that has been through the file comes back with the dictionaries inside
  the record sorted (\<open>_canon\<close>).
\<close>

section \<open>Values\<close>

lemma parse_verification_state_value [simp]: "parse_verification_state (JStr (verification_state_value x)) = Inr x"
  by (cases x) (simp_all add: parse_verification_state_def parse_enum_def)

lemma parse_authorization_state_value [simp]: "parse_authorization_state (JStr (authorization_state_value x)) = Inr x"
  by (cases x) (simp_all add: parse_authorization_state_def parse_enum_def)

lemma parse_executability_state_value [simp]: "parse_executability_state (JStr (executability_state_value x)) = Inr x"
  by (cases x) (simp_all add: parse_executability_state_def parse_enum_def)

lemma parse_execution_state_value [simp]: "parse_execution_state (JStr (execution_state_value x)) = Inr x"
  by (cases x) (simp_all add: parse_execution_state_def parse_enum_def)

lemma parse_gateway_eligibility_value [simp]: "parse_gateway_eligibility (JStr (gateway_eligibility_value x)) = Inr x"
  by (cases x) (simp_all add: parse_gateway_eligibility_def parse_enum_def)

lemma parse_simulation_state_value [simp]: "parse_simulation_state (JStr (simulation_state_value x)) = Inr x"
  by (cases x) (simp_all add: parse_simulation_state_def parse_enum_def)

lemma parse_effect_state_value [simp]: "parse_effect_state (JStr (effect_state_value x)) = Inr x"
  by (cases x) (simp_all add: parse_effect_state_def parse_enum_def)

lemma parse_outcome_state_value [simp]: "parse_outcome_state (JStr (outcome_state_value x)) = Inr x"
  by (cases x) (simp_all add: parse_outcome_state_def parse_enum_def)

lemma parse_replay_state_value [simp]: "parse_replay_state (JStr (replay_state_value x)) = Inr x"
  by (cases x) (simp_all add: parse_replay_state_def parse_enum_def)

lemma parse_comparison_state_value [simp]: "parse_comparison_state (JStr (comparison_state_value x)) = Inr x"
  by (cases x) (simp_all add: parse_comparison_state_def parse_enum_def)

lemma json_strs_jstrs [simp]: "json_strs (jstrs xs) = Inr xs"
  by (induction xs) (simp_all add: jstrs_def)

lemma canon_jstrs [simp]: "canon (jstrs xs) = jstrs xs"
  by (simp add: jstrs_def)

lemma map_of_map_prod_canon: "map_of (map (map_prod id canon) d) k = map_option canon (map_of d k)"
  by (induction d) auto

text \<open>A reader looks at a row only through its keys.\<close>

lemma ctor_check_cong:
  assumes "map_of d = map_of e" "ctor_check c req opt e = Inr ()"
  shows "ctor_check c req opt d = Inr ()"
proof -
  have k: "set (dkeys d) = set (dkeys e)" using assms(1) by (metis dom_map_of_conv_image_fst list.set_map)
  have "filter (\<lambda>k. k \<notin> set (req @ opt)) (dkeys e) = []" "filter (\<lambda>k. k \<notin> set (dkeys e)) req = []"
    using assms(2) by (auto simp: ctor_check_def simp del: set_map set_append split: list.splits)
  then show ?thesis
    using k by (intro ctor_check_Inr) (auto simp: filter_empty_conv simp del: set_map set_append)
qed

lemma ctor_check_keys: "dkeys d = dkeys e \<Longrightarrow> ctor_check c req opt d = ctor_check c req opt e"
  unfolding ctor_check_def by (simp only:)

lemma dkeys_canon [simp]: "dkeys (map (map_prod id canon) d) = dkeys d"
  by simp

lemma dget_cong: "map_of d = map_of e \<Longrightarrow> dget d k = dget e k"
  by (simp add: dget_def)

lemma dget_or_cong: "map_of d = map_of e \<Longrightarrow> dget_or d k v = dget_or e k v"
  by (simp add: dget_or_def)

lemma dindex_cong: "map_of d = map_of e \<Longrightarrow> dindex d k = dindex e k"
  by (simp add: dindex_def)

lemmas row_cong = dget_cong dget_or_cong dindex_cong

section \<open>Reading back\<close>

lemma effect_assessment_read [simp]: "effect_assessment_from_dict (JObj (effect_assessment_to_dict x)) = Inr x"
  by (cases x) (simp add: effect_assessment_from_dict_def effect_assessment_to_dict_def dindex_def dget_or_def)

lemma effects_read [simp]: "effects_from_json (effects_json xs) = Inr xs"
  by (induction xs) (simp_all add: effects_from_json_def effects_json_def)

lemma decision_envelope_ctor: "ctor_check ''DecisionEnvelope'' decision_envelope_required decision_envelope_optional (decision_envelope_to_dict e) = Inr ()"
  by (simp add: ctor_check_def decision_envelope_required_def decision_envelope_optional_def decision_envelope_to_dict_def)

lemma decision_envelope_read:
  assumes "map_of (strip_scoped row) = map_of (decision_envelope_to_dict e)"
  shows "decision_envelope_from_row now row = decision_envelope_init e"
  unfolding decision_envelope_from_row_def Let_def row_cong [OF assms] ctor_check_cong [OF assms decision_envelope_ctor]
  by (cases e) (simp add: decision_envelope_to_dict_def dget_def dget_or_def dindex_def)

lemma authority_decision_ctor: "ctor_check ''AuthorityDecision'' authority_decision_required authority_decision_optional (authority_decision_to_dict e) = Inr ()"
  by (simp add: ctor_check_def authority_decision_required_def authority_decision_optional_def authority_decision_to_dict_def)

lemma authority_decision_read:
  assumes "map_of (strip_scoped row) = map_of (authority_decision_to_dict e)"
  shows "authority_decision_from_row now row = Inr e"
  unfolding authority_decision_from_row_def Let_def row_cong [OF assms] ctor_check_cong [OF assms authority_decision_ctor]
  by (cases e) (simp add: authority_decision_to_dict_def dget_def dget_or_def dindex_def)

lemma execution_request_ctor: "ctor_check ''ExecutionRequest'' execution_request_required execution_request_optional (execution_request_to_dict e) = Inr ()"
  by (simp add: ctor_check_def execution_request_required_def execution_request_optional_def execution_request_to_dict_def)

lemma execution_request_read:
  assumes "map_of (strip_scoped row) = map_of (execution_request_to_dict e)"
  shows "execution_request_from_row H now row = execution_request_init H e"
  unfolding execution_request_from_row_def Let_def row_cong [OF assms] ctor_check_cong [OF assms execution_request_ctor]
  by (cases e) (simp add: execution_request_to_dict_def dget_def dget_or_def dindex_def)

lemma gateway_decision_ctor: "ctor_check ''GatewayDecision'' gateway_decision_required gateway_decision_optional (gateway_decision_to_dict e) = Inr ()"
  by (simp add: ctor_check_def gateway_decision_required_def gateway_decision_optional_def gateway_decision_to_dict_def)

lemma gateway_decision_read:
  assumes "map_of (strip_scoped row) = map_of (gateway_decision_to_dict e)"
  shows "gateway_decision_from_row now row = Inr e"
  unfolding gateway_decision_from_row_def Let_def row_cong [OF assms] ctor_check_cong [OF assms gateway_decision_ctor]
  by (cases e) (simp add: gateway_decision_to_dict_def dget_def dget_or_def dindex_def)

lemma shadow_receipt_ctor: "ctor_check ''ShadowExecutionReceipt'' shadow_receipt_required shadow_receipt_optional (shadow_receipt_to_dict e) = Inr ()"
  by (simp add: ctor_check_def shadow_receipt_required_def shadow_receipt_optional_def shadow_receipt_to_dict_def)

lemma shadow_receipt_read:
  assumes "map_of (strip_scoped row) = map_of (shadow_receipt_to_dict e)"
  shows "shadow_receipt_from_row now row = Inr e"
  unfolding shadow_receipt_from_row_def Let_def row_cong [OF assms] ctor_check_cong [OF assms shadow_receipt_ctor]
  by (cases e) (simp add: shadow_receipt_to_dict_def dget_def dget_or_def dindex_def)

lemma shadow_outcome_ctor: "ctor_check ''ShadowOutcomeRecord'' shadow_outcome_required shadow_outcome_optional (shadow_outcome_to_dict e) = Inr ()"
  by (simp add: ctor_check_def shadow_outcome_required_def shadow_outcome_optional_def shadow_outcome_to_dict_def)

lemma shadow_outcome_read:
  assumes "map_of (strip_scoped row) = map_of (shadow_outcome_to_dict e)"
  shows "shadow_outcome_from_dict now row = Inr e"
  unfolding shadow_outcome_from_dict_def Let_def row_cong [OF assms] ctor_check_cong [OF assms shadow_outcome_ctor]
  by (cases e) (simp add: shadow_outcome_to_dict_def dget_def dget_or_def dindex_def)

lemma replay_manifest_ctor: "ctor_check ''ReplayManifest'' replay_manifest_required replay_manifest_optional (replay_manifest_to_dict e) = Inr ()"
  by (simp add: ctor_check_def replay_manifest_required_def replay_manifest_optional_def replay_manifest_to_dict_def)

lemma replay_manifest_read:
  assumes "map_of (manifest_defaults row) = map_of (replay_manifest_to_dict e)"
  shows "replay_manifest_from_dict row = Inr e"
  unfolding replay_manifest_from_dict_def Let_def row_cong [OF assms] ctor_check_cong [OF assms replay_manifest_ctor]
  by (cases e) (simp add: replay_manifest_to_dict_def dget_def dget_or_def dindex_def)

lemma manifest_json_read [simp]: "manifest_from_json (JObj (replay_manifest_to_dict m)) = Inr m"
proof -
  have "manifest_defaults (replay_manifest_to_dict m) = replay_manifest_to_dict m"
    by (simp add: manifest_defaults_def set_default_def replay_manifest_to_dict_def)
  then show ?thesis using replay_manifest_read [of "replay_manifest_to_dict m" m] by (simp add: manifest_from_json_def)
qed

lemma replay_report_ctor: "ctor_check ''ReplayReport'' replay_report_required replay_report_optional (replay_report_to_dict e) = Inr ()"
  by (simp add: ctor_check_def replay_report_required_def replay_report_optional_def replay_report_to_dict_def)

lemma replay_report_read:
  assumes "map_of (strip_scoped row) = map_of (replay_report_to_dict e)"
  shows "replay_report_from_dict now row = Inr e"
  unfolding replay_report_from_dict_def Let_def row_cong [OF assms] ctor_check_cong [OF assms replay_report_ctor]
  by (cases e) (simp add: replay_report_to_dict_def dget_def dget_or_def dindex_def)

lemma historical_comparison_ctor: "ctor_check ''HistoricalComparison'' historical_comparison_required historical_comparison_optional (historical_comparison_to_dict e) = Inr ()"
  by (simp add: ctor_check_def historical_comparison_required_def historical_comparison_optional_def historical_comparison_to_dict_def)

lemma historical_comparison_read:
  assumes "map_of (strip_scoped row) = map_of (historical_comparison_to_dict e)"
  shows "historical_comparison_from_dict now row = Inr e"
  unfolding historical_comparison_from_dict_def Let_def row_cong [OF assms] ctor_check_cong [OF assms historical_comparison_ctor]
  by (cases e) (simp add: historical_comparison_to_dict_def dget_def dget_or_def dindex_def)

section \<open>Reading back from the file\<close>

lemma map_of_strip_scoped [simp]:
  "map_of (strip_scoped row) k = (if k = ''_chain'' \<or> k = ''scope'' then None else map_of row k)"
  unfolding strip_scoped_def by (induction row) auto

lemma ddistinct_strip_scoped [simp]: "ddistinct row \<Longrightarrow> ddistinct (strip_scoped row)"
  unfolding strip_scoped_def by (induction row) auto

lemma strip_scoped_stored:
  "map_of (strip_scoped (dset (with_scope row t p) ''_chain'' v)) = map_of (strip_scoped row)"
  by (rule ext) (simp add: with_scope_def)

lemma strip_scoped_canon:
  "ddistinct row \<Longrightarrow> map_of (strip_scoped (canon_dict row)) = map_of (map (map_prod id canon) (strip_scoped row))"
  by (rule ext) (simp add: map_of_canon_dict map_of_map_prod_canon)

lemma effect_assessment_read_canon [simp]:
  "effect_assessment_from_dict (JObj (canon_dict (effect_assessment_to_dict x))) = Inr x"
proof -
  have d: "ddistinct (effect_assessment_to_dict x)" by (simp add: effect_assessment_to_dict_def)
  show ?thesis
    unfolding effect_assessment_from_dict_def dindex_def dget_or_def json_dict.simps bindE.simps map_of_canon_dict [OF d]
    by (cases x) (simp add: effect_assessment_to_dict_def)
qed

lemma effects_read_canon [simp]: "effects_from_json (canon (effects_json xs)) = Inr xs"
  by (induction xs) (simp_all add: effects_from_json_def effects_json_def canon_JObj del: canon.simps(6))

definition decision_envelope_canon :: "decision_envelope \<Rightarrow> decision_envelope" where
  "decision_envelope_canon e =
     e\<lparr>de_proposed_action := canon_dict (de_proposed_action e), de_hav_receipt := canon_dict (de_hav_receipt
       e), de_graph_context := canon_dict (de_graph_context e)\<rparr>"

lemma decision_envelope_read_canon:
  assumes "map_of (strip_scoped row) = map_of (map (map_prod id canon) (decision_envelope_to_dict e))"
  shows "decision_envelope_from_row now row = decision_envelope_init (decision_envelope_canon e)"
proof -
  have ctor: "ctor_check ''DecisionEnvelope'' decision_envelope_required decision_envelope_optional (map (map_prod id canon) (decision_envelope_to_dict e)) = Inr ()"
    using decision_envelope_ctor [of e] by (simp only: ctor_check_keys [OF dkeys_canon])
  show ?thesis
    unfolding decision_envelope_from_row_def Let_def row_cong [OF assms] ctor_check_cong [OF assms ctor]
    by (cases e) (simp add: decision_envelope_to_dict_def decision_envelope_canon_def dget_def dget_or_def dindex_def canon_JObj del: canon.simps(6))
qed

definition authority_decision_canon :: "authority_decision \<Rightarrow> authority_decision" where
  "authority_decision_canon e =
     e\<lparr>ad_approvals := map canon (ad_approvals e)\<rparr>"

lemma authority_decision_read_canon:
  assumes "map_of (strip_scoped row) = map_of (map (map_prod id canon) (authority_decision_to_dict e))"
  shows "authority_decision_from_row now row = Inr (authority_decision_canon e)"
proof -
  have ctor: "ctor_check ''AuthorityDecision'' authority_decision_required authority_decision_optional (map (map_prod id canon) (authority_decision_to_dict e)) = Inr ()"
    using authority_decision_ctor [of e] by (simp only: ctor_check_keys [OF dkeys_canon])
  show ?thesis
    unfolding authority_decision_from_row_def Let_def row_cong [OF assms] ctor_check_cong [OF assms ctor]
    by (cases e) (simp add: authority_decision_to_dict_def authority_decision_canon_def dget_def dget_or_def dindex_def canon_JObj del: canon.simps(6))
qed

definition execution_request_canon :: "execution_request \<Rightarrow> execution_request" where
  "execution_request_canon e =
     e\<lparr>er_requested_action := canon_dict (er_requested_action e), er_rollback_strategy := canon_dict
       (er_rollback_strategy e)\<rparr>"

lemma execution_request_read_canon:
  assumes "map_of (strip_scoped row) = map_of (map (map_prod id canon) (execution_request_to_dict e))"
  shows "execution_request_from_row H now row = execution_request_init H (execution_request_canon e)"
proof -
  have ctor: "ctor_check ''ExecutionRequest'' execution_request_required execution_request_optional (map (map_prod id canon) (execution_request_to_dict e)) = Inr ()"
    using execution_request_ctor [of e] by (simp only: ctor_check_keys [OF dkeys_canon])
  show ?thesis
    unfolding execution_request_from_row_def Let_def row_cong [OF assms] ctor_check_cong [OF assms ctor]
    by (cases e) (simp add: execution_request_to_dict_def execution_request_canon_def dget_def dget_or_def dindex_def canon_JObj del: canon.simps(6))
qed

definition gateway_decision_canon :: "gateway_decision \<Rightarrow> gateway_decision" where
  "gateway_decision_canon e =
     e"

lemma gateway_decision_read_canon:
  assumes "map_of (strip_scoped row) = map_of (map (map_prod id canon) (gateway_decision_to_dict e))"
  shows "gateway_decision_from_row now row = Inr (gateway_decision_canon e)"
proof -
  have ctor: "ctor_check ''GatewayDecision'' gateway_decision_required gateway_decision_optional (map (map_prod id canon) (gateway_decision_to_dict e)) = Inr ()"
    using gateway_decision_ctor [of e] by (simp only: ctor_check_keys [OF dkeys_canon])
  show ?thesis
    unfolding gateway_decision_from_row_def Let_def row_cong [OF assms] ctor_check_cong [OF assms ctor]
    by (cases e) (simp add: gateway_decision_to_dict_def gateway_decision_canon_def dget_def dget_or_def dindex_def canon_JObj del: canon.simps(6))
qed

definition shadow_receipt_canon :: "shadow_receipt \<Rightarrow> shadow_receipt" where
  "shadow_receipt_canon e =
     e\<lparr>rc_normalized_plan := canon_dict (rc_normalized_plan e)\<rparr>"

lemma shadow_receipt_read_canon:
  assumes "map_of (strip_scoped row) = map_of (map (map_prod id canon) (shadow_receipt_to_dict e))"
  shows "shadow_receipt_from_row now row = Inr (shadow_receipt_canon e)"
proof -
  have ctor: "ctor_check ''ShadowExecutionReceipt'' shadow_receipt_required shadow_receipt_optional (map (map_prod id canon) (shadow_receipt_to_dict e)) = Inr ()"
    using shadow_receipt_ctor [of e] by (simp only: ctor_check_keys [OF dkeys_canon])
  show ?thesis
    unfolding shadow_receipt_from_row_def Let_def row_cong [OF assms] ctor_check_cong [OF assms ctor]
    by (cases e) (simp add: shadow_receipt_to_dict_def shadow_receipt_canon_def dget_def dget_or_def dindex_def canon_JObj del: canon.simps(6))
qed

definition shadow_outcome_canon :: "shadow_outcome \<Rightarrow> shadow_outcome" where
  "shadow_outcome_canon e =
     e\<lparr>so_metrics := canon_dict (so_metrics e), so_signed_outcome := canon_dict (so_signed_outcome
       e)\<rparr>"

lemma shadow_outcome_read_canon:
  assumes "map_of (strip_scoped row) = map_of (map (map_prod id canon) (shadow_outcome_to_dict e))"
  shows "shadow_outcome_from_dict now row = Inr (shadow_outcome_canon e)"
proof -
  have ctor: "ctor_check ''ShadowOutcomeRecord'' shadow_outcome_required shadow_outcome_optional (map (map_prod id canon) (shadow_outcome_to_dict e)) = Inr ()"
    using shadow_outcome_ctor [of e] by (simp only: ctor_check_keys [OF dkeys_canon])
  show ?thesis
    unfolding shadow_outcome_from_dict_def Let_def row_cong [OF assms] ctor_check_cong [OF assms ctor]
    by (cases e) (simp add: shadow_outcome_to_dict_def shadow_outcome_canon_def dget_def dget_or_def dindex_def canon_JObj del: canon.simps(6))
qed

definition replay_manifest_canon :: "replay_manifest \<Rightarrow> replay_manifest" where
  "replay_manifest_canon e =
     e\<lparr>rm_record_hashes := canon_dict (rm_record_hashes e), rm_policy_versions := canon_dict
       (rm_policy_versions e), rm_protocol_versions := canon_dict (rm_protocol_versions e),
       rm_decision_identity := canon_dict (rm_decision_identity e), rm_outcome_snapshot := canon_dict
       (rm_outcome_snapshot e), rm_source_chain_heads := canon_dict (rm_source_chain_heads e)\<rparr>"

lemma replay_manifest_read_canon:
  assumes "map_of (manifest_defaults row) = map_of (map (map_prod id canon) (replay_manifest_to_dict e))"
  shows "replay_manifest_from_dict row = Inr (replay_manifest_canon e)"
proof -
  have ctor: "ctor_check ''ReplayManifest'' replay_manifest_required replay_manifest_optional (map (map_prod id canon) (replay_manifest_to_dict e)) = Inr ()"
    using replay_manifest_ctor [of e] by (simp only: ctor_check_keys [OF dkeys_canon])
  show ?thesis
    unfolding replay_manifest_from_dict_def Let_def row_cong [OF assms] ctor_check_cong [OF assms ctor]
    by (cases e) (simp add: replay_manifest_to_dict_def replay_manifest_canon_def dget_def dget_or_def dindex_def canon_JObj del: canon.simps(6))
qed

lemma manifest_json_read_canon [simp]:
  "manifest_from_json (JObj (canon_dict (replay_manifest_to_dict m))) = Inr (replay_manifest_canon m)"
proof -
  have d: "ddistinct (replay_manifest_to_dict m)" by (simp add: replay_manifest_to_dict_def)
  have "map_of (canon_dict (replay_manifest_to_dict m)) ''decision_identity'' \<noteq> None"
    "map_of (canon_dict (replay_manifest_to_dict m)) ''outcome_snapshot'' \<noteq> None"
    unfolding map_of_canon_dict [OF d] by (simp_all add: replay_manifest_to_dict_def)
  then have "manifest_defaults (canon_dict (replay_manifest_to_dict m)) = canon_dict (replay_manifest_to_dict m)"
    by (auto simp: manifest_defaults_def set_default_def)
  then have "map_of (manifest_defaults (canon_dict (replay_manifest_to_dict m)))
      = map_of (map (map_prod id canon) (replay_manifest_to_dict m))"
    by (auto simp: map_of_canon_dict [OF d] map_of_map_prod_canon)
  from replay_manifest_read_canon [OF this] show ?thesis by (simp add: manifest_from_json_def)
qed

definition replay_report_canon :: "replay_report \<Rightarrow> replay_report" where
  "replay_report_canon e =
     e\<lparr>rr_signed_replay := canon_dict (rr_signed_replay e), rr_validation_results := map canon
       (rr_validation_results e), rr_manifest := replay_manifest_canon (rr_manifest e)\<rparr>"

lemma replay_report_read_canon:
  assumes "map_of (strip_scoped row) = map_of (map (map_prod id canon) (replay_report_to_dict e))"
  shows "replay_report_from_dict now row = Inr (replay_report_canon e)"
proof -
  have ctor: "ctor_check ''ReplayReport'' replay_report_required replay_report_optional (map (map_prod id canon) (replay_report_to_dict e)) = Inr ()"
    using replay_report_ctor [of e] by (simp only: ctor_check_keys [OF dkeys_canon])
  show ?thesis
    unfolding replay_report_from_dict_def Let_def row_cong [OF assms] ctor_check_cong [OF assms ctor]
    by (cases e) (simp add: replay_report_to_dict_def replay_report_canon_def dget_def dget_or_def dindex_def canon_JObj del: canon.simps(6))
qed

definition historical_comparison_canon :: "historical_comparison \<Rightarrow> historical_comparison" where
  "historical_comparison_canon e =
     e\<lparr>hc_signed_comparison := canon_dict (hc_signed_comparison e), hc_structural_differences := map canon
       (hc_structural_differences e), hc_hash_differences := map canon (hc_hash_differences e),
       hc_policy_differences := map canon (hc_policy_differences e), hc_outcome_differences := map canon
       (hc_outcome_differences e)\<rparr>"

lemma historical_comparison_read_canon:
  assumes "map_of (strip_scoped row) = map_of (map (map_prod id canon) (historical_comparison_to_dict e))"
  shows "historical_comparison_from_dict now row = Inr (historical_comparison_canon e)"
proof -
  have ctor: "ctor_check ''HistoricalComparison'' historical_comparison_required historical_comparison_optional (map (map_prod id canon) (historical_comparison_to_dict e)) = Inr ()"
    using historical_comparison_ctor [of e] by (simp only: ctor_check_keys [OF dkeys_canon])
  show ?thesis
    unfolding historical_comparison_from_dict_def Let_def row_cong [OF assms] ctor_check_cong [OF assms ctor]
    by (cases e) (simp add: historical_comparison_to_dict_def historical_comparison_canon_def dget_def dget_or_def dindex_def canon_JObj del: canon.simps(6))
qed

end
