(* ===== verification/Grdi_Policy_Properties.thy ===== *)
theory Grdi_Policy_Properties
  imports Grdi_Policy Store_Properties
begin

text \<open>
  What the authority, the gateway, the outcome aggregation and the projection decide, each stated against a
  reading of the rules that does not follow the order of the code's branches.
\<close>

section \<open>Authority\<close>

lemma authority_receipt_verified:
  assumes "authority_receipt mac signer envelope = Inr (v, a, reasons)"
  shows "v = VS_VERIFIED \<longleftrightarrow> (\<exists>s g. signer = Some s \<and> receipt_verify mac s (de_hav_receipt envelope) = Inr True \<and>
     dget_or (de_hav_receipt envelope) ''governance'' (JObj []) = JObj g \<and>
     dget g ''tenant_id'' = JStr (de_tenant_id envelope) \<and> dget g ''project_id'' = JStr (de_project_id envelope) \<and>
     dget (de_hav_receipt envelope) ''verdict'' = JStr ''PASS'')"
    and "v \<noteq> VS_VERIFIED \<Longrightarrow> a \<noteq> AS_AUTHORIZED"
proof -
  let ?thesis = "(v = VS_VERIFIED \<longleftrightarrow> (\<exists>s g. signer = Some s \<and> receipt_verify mac s (de_hav_receipt envelope) = Inr True \<and>
     dget_or (de_hav_receipt envelope) ''governance'' (JObj []) = JObj g \<and>
     dget g ''tenant_id'' = JStr (de_tenant_id envelope) \<and> dget g ''project_id'' = JStr (de_project_id envelope) \<and>
     dget (de_hav_receipt envelope) ''verdict'' = JStr ''PASS'')) \<and> (v \<noteq> VS_VERIFIED \<longrightarrow> a \<noteq> AS_AUTHORIZED)"
  have ?thesis
  proof (cases signer)
    case None
    with assms show ?thesis by (auto simp: authority_receipt_def)
  next
    case (Some s)
    with assms obtain ok where ok: "receipt_verify mac s (de_hav_receipt envelope) = Inr ok"
      by (auto simp: authority_receipt_def bindE_Inr_iff)
    show ?thesis
    proof (cases ok)
      case False
      with assms Some ok show ?thesis by (auto simp: authority_receipt_def)
    next
      case True
      with assms Some ok obtain g where g: "as_dict (dget_or (de_hav_receipt envelope) ''governance'' (JObj [])) = Inr g"
        and v: "authority_verdict (dget (de_hav_receipt envelope) ''verdict'') (authority_scope_reasons envelope g) = Inr (v, a, reasons)"
        by (auto simp: authority_receipt_def bindE_Inr_iff)
      from g have g': "dget_or (de_hav_receipt envelope) ''governance'' (JObj []) = JObj g"
        by (cases "dget_or (de_hav_receipt envelope) ''governance'' (JObj [])") auto
      from v Some ok True g' show ?thesis
        by (auto simp: authority_verdict_def authority_scope_reasons_def bindE_unit_iff split: if_splits)
    qed
  qed
  then show "v = VS_VERIFIED \<longleftrightarrow> (\<exists>s g. signer = Some s \<and> receipt_verify mac s (de_hav_receipt envelope) = Inr True \<and>
     dget_or (de_hav_receipt envelope) ''governance'' (JObj []) = JObj g \<and>
     dget g ''tenant_id'' = JStr (de_tenant_id envelope) \<and> dget g ''project_id'' = JStr (de_project_id envelope) \<and>
     dget (de_hav_receipt envelope) ''verdict'' = JStr ''PASS'')"
    and "v \<noteq> VS_VERIFIED \<Longrightarrow> a \<noteq> AS_AUTHORIZED"
    by auto
qed

text \<open>What a verified envelope is: its receipt is signed by the service, for the same scope, and passed.\<close>

definition receipt_passes :: "(string \<Rightarrow> string \<Rightarrow> string) \<Rightarrow> receipt_signer option \<Rightarrow> decision_envelope \<Rightarrow> bool" where
  "receipt_passes mac signer envelope \<longleftrightarrow> (\<exists>s g. signer = Some s \<and>
     receipt_verify mac s (de_hav_receipt envelope) = Inr True \<and>
     dget_or (de_hav_receipt envelope) ''governance'' (JObj []) = JObj g \<and>
     dget g ''tenant_id'' = JStr (de_tenant_id envelope) \<and> dget g ''project_id'' = JStr (de_project_id envelope) \<and>
     dget (de_hav_receipt envelope) ''verdict'' = JStr ''PASS'')"

definition authority_permits :: "decision_envelope \<Rightarrow> string \<Rightarrow> string \<Rightarrow> approval list \<Rightarrow> bool" where
  "authority_permits envelope authority_subject authority_role approvals \<longleftrightarrow>
     authority_subject \<noteq> de_proposed_by envelope \<and>
     authority_role \<in> {de_required_authority envelope, ''admin''} \<and>
     list_all (\<lambda>a. ap_approved a \<and> ap_approver a \<noteq> de_proposed_by envelope) approvals \<and>
     (de_risk_level envelope \<in> {''high'', ''critical''} \<longrightarrow> approvals \<noteq> [])"

lemma authority_grant_iff:
  "fst (authority_grant envelope subj role aps reasons) = AS_AUTHORIZED \<longleftrightarrow> authority_permits envelope subj role aps"
  by (auto simp: authority_grant_def authority_permits_def list_all_iff list_ex_iff)

text \<open>C14: The authority fails closed: a decision is authorised exactly when the envelope's receipt is signed by the
  configured signer for the same tenant and project with the verdict PASS, the authority is not the proposer and
  has the required role, every approval was given and none by the proposer, and a high or critical risk has an
  approval. Whatever it decides, it never says that the action may be executed or was executed.\<close>

theorem authority_authorizes_iff:
  assumes "authority_evaluate mac signer i now envelope subj role aps = Inr d"
  shows "(ad_authorization_state d = AS_AUTHORIZED \<longleftrightarrow>
      receipt_passes mac signer envelope \<and> authority_permits envelope subj role aps) \<and>
    ad_executability_state d = XS_NOT_EXECUTABLE \<and> ad_execution_state d = ES_NOT_EXECUTED"
proof -
  from assms obtain v a reasons where r: "authority_receipt mac signer envelope = Inr (v, a, reasons)"
    by (auto simp: authority_evaluate_def bindE_Inr_iff)
  note verified = authority_receipt_verified [OF r]
  show ?thesis
    using assms verified authority_grant_iff [of envelope subj role aps reasons]
    by (cases "authority_grant envelope subj role aps reasons")
      (auto simp: authority_evaluate_def r receipt_passes_def split: if_splits)
qed

definition demo_hav :: pdict where
  "demo_hav = receipt_sign demo_mac demo_signer [(''verdict'', JStr ''PASS''),
     (''governance'', JObj [(''tenant_id'', JStr ''t''), (''project_id'', JStr ''p'')])]"

definition demo_decision :: decision_envelope where
  "demo_decision = \<lparr>de_envelope_id = ''e1'', de_tenant_id = ''t'', de_project_id = ''p'', de_domain = ''d'',
     de_decision_type = ''x'', de_subject = ''s'', de_proposed_by = ''bob'',
     de_proposed_action = [(''type'', JStr ''pay'')], de_hav_receipt = demo_hav,
     de_required_authority = ''verifier'', de_risk_level = ''medium'', de_graph_context = [], de_claim_ids = [],
     de_evidence_ids = [], de_verification_state = VS_NOT_VERIFIED, de_authorization_state = AS_NOT_AUTHORIZED,
     de_executability_state = XS_NOT_EXECUTABLE, de_execution_state = ES_NOT_EXECUTED,
     de_created_at = ''t0'', de_version = GRDI_VERSION\<rparr>"

definition demo_authority :: authority_decision where
  "demo_authority = (case authority_evaluate demo_mac (Some demo_signer) ''a1'' ''t1'' demo_decision ''eve'' ''admin'' [] of
     Inr d \<Rightarrow> d)"

lemma demo_authority_eq:
  "authority_evaluate demo_mac (Some demo_signer) ''a1'' ''t1'' demo_decision ''eve'' ''admin'' [] = Inr demo_authority"
  unfolding demo_authority_def by code_simp

lemma authority_authorizes_iff_witness:
  "ad_authorization_state demo_authority = AS_AUTHORIZED \<longleftrightarrow>
     receipt_passes demo_mac (Some demo_signer) demo_decision \<and> authority_permits demo_decision ''eve'' ''admin'' []"
  using authority_authorizes_iff [OF demo_authority_eq] by blast

section \<open>The gateway\<close>

text \<open>C15: The gateway lets a plan through to simulation exactly when everything belongs to the caller's scope, the
  decision is about this envelope, the request names both, the decision is authorised, verified and claims no
  execution, and the requested action hashes to the proposed one. A blocked plan carries its reasons, and no
  decision of the gateway claims a simulation or an execution.\<close>

theorem gateway_eligible_iff:
  fixes H envelope authority request tenant_id project_id i now
  defines "g \<equiv> gateway_evaluate H i now envelope authority request tenant_id project_id"
  shows "(gd_eligibility g = GE_ELIGIBLE_FOR_SHADOW \<longleftrightarrow>
      de_tenant_id envelope = tenant_id \<and> de_project_id envelope = project_id \<and>
      er_tenant_id request = tenant_id \<and> er_project_id request = project_id \<and>
      ad_envelope_id authority = de_envelope_id envelope \<and> er_envelope_id request = de_envelope_id envelope \<and>
      er_authority_decision_id request = ad_authority_decision_id authority \<and>
      ad_authorization_state authority = AS_AUTHORIZED \<and> ad_verification_state authority = VS_VERIFIED \<and>
      ad_executability_state authority = XS_NOT_EXECUTABLE \<and> ad_execution_state authority = ES_NOT_EXECUTED \<and>
      action_hash H (er_requested_action request) = action_hash H (de_proposed_action envelope) \<and>
      er_action_hash request = action_hash H (de_proposed_action envelope)) \<and>
    (gd_eligibility g = GE_BLOCKED \<longleftrightarrow> gd_reasons g \<noteq> []) \<and>
    gd_simulation_state g = SS_NOT_SIMULATED \<and> gd_execution_state g = ES_NOT_EXECUTED"
proof (intro conjI)
  show "(gd_eligibility g = GE_ELIGIBLE_FOR_SHADOW) = (
      de_tenant_id envelope = tenant_id \<and> de_project_id envelope = project_id \<and>
      er_tenant_id request = tenant_id \<and> er_project_id request = project_id \<and>
      ad_envelope_id authority = de_envelope_id envelope \<and> er_envelope_id request = de_envelope_id envelope \<and>
      er_authority_decision_id request = ad_authority_decision_id authority \<and>
      ad_authorization_state authority = AS_AUTHORIZED \<and> ad_verification_state authority = VS_VERIFIED \<and>
      ad_executability_state authority = XS_NOT_EXECUTABLE \<and> ad_execution_state authority = ES_NOT_EXECUTED \<and>
      action_hash H (er_requested_action request) = action_hash H (de_proposed_action envelope) \<and>
      er_action_hash request = action_hash H (de_proposed_action envelope))"
    by (cases "ad_authorization_state authority")
      (auto simp: g_def gateway_evaluate_def gateway_reasons_def Let_def)
qed (simp_all add: g_def gateway_evaluate_def Let_def)

text \<open>C16: A simulation claims nothing: it is only made of an eligible plan, its receipt says that nothing was executed,
  no connector was invoked and there was no side effect, and so does the signed plan inside, whose signature
  verifies.\<close>

theorem simulation_claims_no_execution:
  assumes "gateway_simulate mac signer i now envelope authority request gateway = Inr receipt"
    and "list_all (\<lambda>s. is_ascii (mac (rs_key s) (receipt_canonical (gateway_plan envelope authority request gateway))))
           (case signer of None \<Rightarrow> [] | Some s \<Rightarrow> [s])"
  shows "gd_eligibility gateway = GE_ELIGIBLE_FOR_SHADOW \<and>
    \<not> rc_executed receipt \<and> \<not> rc_external_side_effects receipt \<and> \<not> rc_connector_invoked receipt \<and>
    dget (rc_normalized_plan receipt) ''executed'' = JBool False \<and>
    dget (rc_normalized_plan receipt) ''connector_invoked'' = JBool False \<and>
    dget (rc_normalized_plan receipt) ''external_side_effects'' = JBool False \<and>
    dget (rc_normalized_plan receipt) ''execution_state'' = JStr ''NOT_EXECUTED'' \<and>
    (\<exists>s. signer = Some s \<and> receipt_verify mac s (rc_normalized_plan receipt) = Inr True)"
proof -
  obtain s where s: "signer = Some s" and e: "gd_eligibility gateway = GE_ELIGIBLE_FOR_SHADOW"
    and n: "rc_normalized_plan receipt = receipt_sign mac s (gateway_plan envelope authority request gateway)"
    and f: "\<not> rc_executed receipt" "\<not> rc_external_side_effects receipt" "\<not> rc_connector_invoked receipt"
    using assms(1) by (cases signer) (auto simp: gateway_simulate_def bindE_unit_iff)
  have "receipt_verify mac s (rc_normalized_plan receipt) = Inr True"
    unfolding n using assms(2) s by (intro receipt_sign_verify) simp
  moreover have "dget (rc_normalized_plan receipt) ''executed'' = JBool False"
    "dget (rc_normalized_plan receipt) ''connector_invoked'' = JBool False"
    "dget (rc_normalized_plan receipt) ''external_side_effects'' = JBool False"
    "dget (rc_normalized_plan receipt) ''execution_state'' = JStr ''NOT_EXECUTED''"
    unfolding n by (simp_all add: receipt_sign_def dget_def gateway_plan_def Let_def)
  ultimately show ?thesis using s e f by blast
qed

definition demo_request :: execution_request where
  "demo_request = \<lparr>er_plan_id = ''p1'', er_envelope_id = ''e1'', er_authority_decision_id = ''a1'', er_tenant_id = ''t'',
     er_project_id = ''p'', er_requested_by = ''eve'', er_requested_action = [(''type'', JStr ''pay'')],
     er_action_hash = action_hash demo_hash [(''type'', JStr ''pay'')], er_expected_effects = [''paid''],
     er_rollback_strategy = [], er_created_at = ''t2'', er_version = GRDI_VERSION\<rparr>"

definition demo_gateway :: gateway_decision where
  "demo_gateway = gateway_evaluate demo_hash ''g1'' ''t3'' demo_decision demo_authority demo_request ''t'' ''p''"

definition demo_receipt :: shadow_receipt where
  "demo_receipt = (case gateway_simulate demo_mac (Some demo_signer) ''r1'' ''t4'' demo_decision demo_authority demo_request
     demo_gateway of Inr r \<Rightarrow> r)"

lemma demo_receipt_eq:
  "gateway_simulate demo_mac (Some demo_signer) ''r1'' ''t4'' demo_decision demo_authority demo_request demo_gateway
     = Inr demo_receipt"
  unfolding demo_receipt_def demo_gateway_def demo_authority_def by code_simp

lemma simulation_claims_no_execution_witness:
  "\<not> rc_executed demo_receipt \<and> receipt_verify demo_mac demo_signer (rc_normalized_plan demo_receipt) = Inr True"
proof -
  have "list_all (\<lambda>s. is_ascii (demo_mac (rs_key s) (receipt_canonical (gateway_plan demo_decision demo_authority
      demo_request demo_gateway)))) (case Some demo_signer of None \<Rightarrow> [] | Some s \<Rightarrow> [s])"
    unfolding demo_gateway_def demo_authority_def by code_simp
  from simulation_claims_no_execution [OF demo_receipt_eq this] show ?thesis by blast
qed

section \<open>Outcomes\<close>

text \<open>An outcome is consistent exactly when there are expected effects, each is assessed once and nothing else is
  assessed, and every assessment is a match; it deviates exactly when such a complete assessment has a deviation and
  nothing left unevaluated; everything else is not evaluated.\<close>

theorem outcome_state_iff:
  "(aggregate_outcome_state expected xs = SO_CONSISTENT \<longleftrightarrow>
      expected \<noteq> [] \<and> distinct (map ea_expected_effect xs) \<and> set (map ea_expected_effect xs) = set expected \<and>
      list_all (\<lambda>x. ea_state x = EA_MATCHED) xs) \<and>
   (aggregate_outcome_state expected xs = SO_DEVIATED \<longleftrightarrow>
      expected \<noteq> [] \<and> distinct (map ea_expected_effect xs) \<and> set (map ea_expected_effect xs) = set expected \<and>
      list_all (\<lambda>x. ea_state x \<noteq> EA_NOT_EVALUATED) xs \<and> list_ex (\<lambda>x. ea_state x = EA_DEVIATED) xs)"
proof -
  let ?ne = "list_ex (\<lambda>x. ea_state x = EA_NOT_EVALUATED) xs" and ?de = "list_ex (\<lambda>x. ea_state x = EA_DEVIATED) xs"
  let ?effects = "map ea_expected_effect xs"
  have d: "length ?effects \<noteq> length (remdups ?effects) \<longleftrightarrow> \<not> distinct ?effects"
    using length_remdups_eq [of ?effects] remdups_id_iff_distinct [of ?effects] by (metis (no_types))
  have ne: "list_all (\<lambda>x. ea_state x \<noteq> EA_NOT_EVALUATED) xs \<longleftrightarrow> \<not> ?ne"
    by (simp add: list_all_iff list_ex_iff)
  have "a = EA_MATCHED \<longleftrightarrow> a \<noteq> EA_NOT_EVALUATED \<and> a \<noteq> EA_DEVIATED" for a by (cases a) simp_all
  then have m: "list_all (\<lambda>x. ea_state x = EA_MATCHED) xs \<longleftrightarrow> \<not> ?ne \<and> \<not> ?de"
    by (auto simp: list_all_iff list_ex_iff)
  show ?thesis
    unfolding aggregate_outcome_state_def Let_def d ne m
    by (cases "expected = []"; cases "distinct ?effects"; cases "set ?effects = set expected"; cases ?ne; cases ?de)
      (simp_all del: set_map)
qed

lemma validate_effects_from_iff:
  "validate_effects_from seen xs = Inr () \<longleftrightarrow>
     list_all (\<lambda>x. \<not> blank (ea_expected_effect x) \<and> \<not> blank (ea_simulated_observation x)) xs \<and>
     distinct (map (\<lambda>x. strip (ea_expected_effect x)) xs) \<and> set (map (\<lambda>x. strip (ea_expected_effect x)) xs) \<inter> set seen = {}"
  by (induction seen xs rule: validate_effects_from.induct) (auto simp: Let_def blank_def)

text \<open>The assessments of an outcome are accepted exactly when none is blank and no two name the same effect, blanks
  around its name aside.\<close>

theorem assessments_accepted_iff:
  "validate_effect_assessments xs = Inr () \<longleftrightarrow>
     list_all (\<lambda>x. \<not> blank (ea_expected_effect x) \<and> \<not> blank (ea_simulated_observation x)) xs \<and>
     distinct (map (\<lambda>x. strip (ea_expected_effect x)) xs)"
  by (simp add: validate_effect_assessments_def validate_effects_from_iff)

section \<open>Projection\<close>

lemma foldl_simulated:
  "foldl (\<lambda>st event. if P event then SS_SIMULATED else st) st events = (if list_ex P events then SS_SIMULATED else st)"
  by (induction events arbitrary: st) auto

lemma sort_events_set: "sort_events events = Inr es \<Longrightarrow> set es = set events"
proof -
  assume "sort_events events = Inr es"
  then obtain keys where keys: "mapE event_sort_key events = Inr keys"
    and s: "es = map snd (sort_key fst (zip keys events))" by (auto simp: sort_events_def bindE_Inr_iff)
  from keys have "length keys = length events" by (simp add: mapE_Inr_iff list_all2_lengthD)
  then have "map snd (zip keys events) = events" by simp
  then show ?thesis unfolding s by (metis list.set_map set_sort)
qed

text \<open>The state a plan is shown in is a function of its immutable decision and of the set of its events: it is
  simulated exactly when some event records a simulation, in whatever order the events come, and its execution
  state and eligibility are those of the signed decision.\<close>

theorem projection_from_events:
  assumes "project_gateway_state g events = Inr st"
  shows "(dget st ''simulation_state'' = JStr ''SIMULATED'' \<longleftrightarrow>
      list_ex (\<lambda>e. dget e ''event_type'' = JStr ''SIMULATION_RECORDED'') events) \<and>
    dget st ''execution_state'' = JStr (execution_state_value (gd_execution_state g)) \<and>
    dget st ''eligibility'' = JStr (gateway_eligibility_value (gd_eligibility g))"
proof -
  from assms obtain es where es: "sort_events events = Inr es" by (auto simp: project_gateway_state_def bindE_Inr_iff)
  show ?thesis
    using assms sort_events_set [OF es]
    by (cases "list_ex (\<lambda>e. dget e ''event_type'' = JStr ''SIMULATION_RECORDED'') events")
      (auto simp: project_gateway_state_def es foldl_simulated list_ex_iff dget_def [of "(''simulation_state'', _) # _"]
        dget_def [of "_ # (''execution_state'', _) # _"])
qed

definition demo_event :: pdict where
  "demo_event = build_gateway_decision_event_record demo_hash ''t'' ''p'' ''p1'' ''g1'' ''SIMULATION_RECORDED'' ''t4'' ''r1'' ''r1''"

lemma projection_from_events_witness:
  "\<exists>st. project_gateway_state demo_gateway [demo_event] = Inr st \<and> dget st ''simulation_state'' = JStr ''SIMULATED''"
proof -
  have "event_sort_key demo_event = Inr (''t4'', demo_hash ''t/p/p1:SIMULATION_RECORDED'')"
    by (simp add: event_sort_key_def demo_event_def build_gateway_decision_event_record_def dget_or_def
        deterministic_event_id_def)
  then obtain st where st: "project_gateway_state demo_gateway [demo_event] = Inr st"
    by (simp add: project_gateway_state_def sort_events_def)
  from projection_from_events [OF st] st show ?thesis
    by (simp add: demo_event_def build_gateway_decision_event_record_def dget_def)
qed

end
