(* ===== verification/Scope_Steps.thy ===== *)
theory Scope_Steps
  imports Store_Ops
begin

text \<open>
  Steps of the engine that work in one scope: what a program of a service may do, and that it leaves everything another
  scope reads as it was, to the letter when nothing is in a transaction.
\<close>

section \<open>Steps of one scope\<close>

inductive scope_call :: "(string \<Rightarrow> string) \<Rightarrow> string \<Rightarrow> string \<Rightarrow> engine \<Rightarrow> engine \<Rightarrow> bool" for H t p where
  append: "nulfree t \<Longrightarrow> nulfree p \<Longrightarrow> dwf rcd
    \<Longrightarrow> engine_append_scoped H clk c rcd k t p eng = (r, eng') \<Longrightarrow> scope_call H t p eng eng'"

inductive scope_step :: "(string \<Rightarrow> string) \<Rightarrow> string \<Rightarrow> string \<Rightarrow> engine \<Rightarrow> engine \<Rightarrow> bool" for H t p where
  transaction: "(\<And>e. (scope_call H t p)\<^sup>*\<^sup>* e (snd (fn e))) \<Longrightarrow> run_scoped_transaction t p refs fn eng = ((r :: unit res), eng')
    \<Longrightarrow> scope_step H t p eng eng'"

inductive_cases scope_callE: "scope_call H t p eng eng'"
inductive_cases scope_stepE: "scope_step H t p eng eng'"

lemma scope_call_engine: "scope_call H t p eng eng' \<Longrightarrow> engine_call H eng eng'"
  by (erule scope_callE) (rule engine_call.append)

lemma scope_calls_engine: "(scope_call H t p)\<^sup>*\<^sup>* eng eng' \<Longrightarrow> (engine_call H)\<^sup>*\<^sup>* eng eng'"
  by (induction rule: rtranclp_induct) (auto dest: scope_call_engine)

lemma scope_step_engine: "scope_step H t p eng eng' \<Longrightarrow> engine_step H eng eng'"
  by (erule scope_stepE) (rule engine_step.transaction, auto simp: scoped_program_def intro: scope_calls_engine)

lemma scope_steps_engine: "(scope_step H t p)\<^sup>*\<^sup>* eng eng' \<Longrightarrow> (engine_step H)\<^sup>*\<^sup>* eng eng'"
  by (induction rule: rtranclp_induct) (auto dest: scope_step_engine)

section \<open>What other scopes read\<close>

definition unseen :: "string \<Rightarrow> string \<Rightarrow> engine \<Rightarrow> engine \<Rightarrow> bool" where
  "unseen t p eng eng' \<longleftrightarrow> (\<forall>t' p' c k l n. nulfree t' \<longrightarrow> nulfree p' \<longrightarrow> (t', p') \<noteq> (t, p) \<longrightarrow>
     same_read (engine_get_scoped c k t' p' eng') (engine_get_scoped c k t' p' eng) \<and>
     same_reads (engine_list_scoped c t' p' l n eng') (engine_list_scoped c t' p' l n eng))"

lemma unseen_refl [simp]: "unseen t p eng eng"
  by (simp add: unseen_def)

lemma unseen_trans: "unseen t p a b \<Longrightarrow> unseen t p b c \<Longrightarrow> unseen t p a c"
  unfolding unseen_def same_read_def same_reads_def by simp

lemma scope_call_unseen: "scope_call H t p eng eng' \<Longrightarrow> engine_ok H eng \<Longrightarrow> unseen t p eng eng'"
  unfolding unseen_def
  by (erule scope_callE) (auto intro: append_other_get append_isolated_list)

lemma scope_calls_unseen:
  assumes "(scope_call H t p)\<^sup>*\<^sup>* eng eng'" "engine_ok H eng"
  shows "unseen t p eng eng'"
  using assms(1)
proof (induction rule: rtranclp_induct)
  case (step b c)
  have "engine_ok H b" using engine_calls_ok [OF scope_calls_engine [OF step(1)] assms(2)] .
  from unseen_trans [OF step(3) scope_call_unseen [OF step(2) this]] show ?case .
qed simp

text \<open>Engines that read the same store read the same rows.\<close>

lemma unseen_state:
  assumes "current_state eng' = Inr st'" "current_state eng = Inr st" "norm_state st' = norm_state st"
    "eng_multiprocess eng' = eng_multiprocess eng"
  shows "unseen t p eng eng'"
proof -
  have "same_read (get_scoped_state c k t p st') (get_scoped_state c k t p st)" for c k t p
    using get_scoped_norm [of c k t p st'] get_scoped_norm [of c k t p st] assms(3) by (simp add: same_read_def)
  moreover have "map canon_dict (list_scoped_state c t p l n st') = map canon_dict (list_scoped_state c t p l n st)" for c t p l n
    using list_scoped_norm [of c t p l n st'] list_scoped_norm [of c t p l n st] assms(3) by simp
  ultimately show ?thesis
    unfolding unseen_def using assms(1,2,4)
    by (auto intro: engine_get_cong engine_list_cong)
qed

section \<open>Canonical stores\<close>

text \<open>Outside a transaction the store is what the file holds, and that has sorted keys.\<close>

definition at_rest :: "engine \<Rightarrow> bool" where
  "at_rest eng \<longleftrightarrow> eng_idle eng \<and> (\<forall>st. read_json_state eng = Inr st \<longrightarrow> norm_state st = st)"

lemma at_rest_fresh: "at_rest fresh_engine"
  by (simp add: at_rest_def fresh_engine_def eng_idle_def read_json_state_def norm_state_def empty_store_def)

lemma at_rest_current: "at_rest eng \<Longrightarrow> current_state eng = read_json_state eng"
  by (simp add: at_rest_def eng_idle_def current_state_def)

lemma commit_at_rest:
  assumes "store_ok H st" "active_state eng = Some st"
  shows "read_json_state (leave_transaction (commit (Inr x) eng)) = Inr (norm_state st)"
  using read_write_json_state [OF store_ok_keys [OF assms(1)]] assms(2) by (simp add: commit_def leave_transaction_def)

lemma norm_state_idem [simp]: "norm_state (norm_state st) = norm_state st"
  by (simp add: norm_state_def comp_def case_prod_beta)

lemma scope_step_isolated:
  assumes "scope_step H t p eng eng'" "engine_ok H eng" "at_rest eng"
  shows "engine_ok H eng' \<and> at_rest eng' \<and> unseen t p eng eng'"
  using assms(1)
proof (cases rule: scope_step.cases)
  case (transaction fn refs r)
  have ok': "engine_ok H eng'" by (rule engine_step_ok [OF scope_step_engine [OF assms(1)] assms(2)])
  from transaction(2) show ?thesis
  proof (cases rule: run_scoped_transaction_cases)
    case (unreadable e)
    with assms(2) show ?thesis by (auto simp: engine_ok_def)
  next
    case (run st eng2)
    let ?in = "enter_transaction refs st eng"
    have rest: "read_json_state eng = Inr st" "current_state eng = Inr st"
      using run(4) at_rest_current [OF assms(3)] by simp_all
    have inn: "engine_ok H ?in" using assms(2) run(4) by (intro engine_ok_enter) (auto simp: engine_ok_def)
    have calls: "(scope_call H t p)\<^sup>*\<^sup>* ?in eng2" using transaction(1) [of ?in] run(5) by simp
    note frame = engine_calls_frame [OF scope_calls_engine [OF calls]] engine_calls_ok [OF scope_calls_engine [OF calls] inn]
    obtain st2 where st2: "active_state eng2 = Some st2" "store_ok H st2" "tx_depth eng2 = 1" "eng_multiprocess eng2 = eng_multiprocess eng"
        "eng_disk eng2 = eng_disk eng"
      using frame by (auto simp: tx_frame_def enter_transaction_def engine_ok_def split: option.splits)
    have enter: "unseen t p eng ?in"
      by (rule unseen_state [where st = st]) (simp_all add: rest, simp_all add: enter_transaction_def current_state_def)
    have within: "unseen t p ?in eng2" by (rule scope_calls_unseen [OF calls inn])
    show ?thesis
    proof (cases r)
      case (Inl e)
      have disk: "read_json_state eng' = read_json_state eng"
        using run(6) Inl st2(5) by (simp add: commit_def leave_transaction_def read_json_state_def)
      then have "at_rest eng'" using assms(3) run(6) by (simp add: at_rest_def)
      moreover have "unseen t p eng eng'"
        using disk rest at_rest_current [OF \<open>at_rest eng'\<close>] run(6) Inl st2(4)
        by (intro unseen_state [where st = st]) (simp_all add: commit_def leave_transaction_def)
      ultimately show ?thesis using ok' by simp
    next
      case (Inr x)
      have disk: "read_json_state eng' = Inr (norm_state st2)"
        using commit_at_rest [OF st2(2,1)] run(6) Inr by simp
      then have "at_rest eng'" using run(6) by (simp add: at_rest_def)
      moreover have "unseen t p eng2 eng'"
        using disk at_rest_current [OF \<open>at_rest eng'\<close>] run(6) Inr st2
        by (intro unseen_state [where st = st2 and st' = "norm_state st2"])
            (simp_all add: current_state_def [of eng2], simp_all add: commit_def leave_transaction_def)
      ultimately show ?thesis using ok' unseen_trans [OF unseen_trans [OF enter within]] by simp
    qed
  qed (use assms ok' in simp)
qed

lemma scope_steps_isolated:
  assumes "(scope_step H t p)\<^sup>*\<^sup>* eng eng'" "engine_ok H eng" "at_rest eng"
  shows "engine_ok H eng' \<and> at_rest eng' \<and> unseen t p eng eng'"
  using assms(1)
proof (induction rule: rtranclp_induct)
  case (step b c)
  with scope_step_isolated [of H t p b c] show ?case by (auto intro: unseen_trans)
qed (use assms in simp)

section \<open>Reads at rest\<close>

lemma at_rest_get: "at_rest eng \<Longrightarrow> map_sum id canon_dict (engine_get_scoped c k t p eng) = engine_get_scoped c k t p eng"
proof -
  assume rest: "at_rest eng"
  have "map_sum id canon_dict (get_scoped_state c k t p st) = get_scoped_state c k t p st" if st: "norm_state st = st" for st
  proof (cases "map_of (st_records st) (scoped_key t p c k)")
    case (Some r)
    have "map_of (st_records (norm_state st)) (scoped_key t p c k) = Some (norm_row r)" by (simp add: map_of_norm Some)
    with Some have "norm_row r = r" by (simp add: st)
    then have "canon_dict (sr_payload r) = sr_payload r" by (metis norm_row_sel(6))
    with Some show ?thesis by (simp add: get_scoped_state_def to_public_def)
  qed (simp add: get_scoped_state_def)
  with rest at_rest_current [OF rest] show ?thesis
    by (cases "validate_collection c False False True"; cases "read_json_state eng"; cases "eng_multiprocess eng")
      (auto simp: engine_get_scoped_def read_state_def at_rest_def ensure_multiprocess_json_allowed_def raise_if_def)
qed

lemma at_rest_list: "at_rest eng \<Longrightarrow> map_sum id (map canon_dict) (engine_list_scoped c t p l n eng) = engine_list_scoped c t p l n eng"
proof -
  assume rest: "at_rest eng"
  have "map canon_dict (list_scoped_state c t p l n st) = list_scoped_state c t p l n st" if st: "norm_state st = st" for st
    using list_scoped_norm [of c t p l n st] st by simp
  with rest at_rest_current [OF rest] show ?thesis
    by (cases "validate_collection c False False True"; cases "check_page l n"; cases "read_json_state eng"; cases "eng_multiprocess eng")
      (auto simp: engine_list_scoped_def read_state_def at_rest_def ensure_multiprocess_json_allowed_def raise_if_def)
qed

text \<open>Between steps, another scope reads the same rows, to the letter.\<close>

lemma unseen_at_rest:
  assumes "unseen t p eng eng'" "at_rest eng" "at_rest eng'" "nulfree t'" "nulfree p'" "(t', p') \<noteq> (t, p)"
  shows "engine_get_scoped c k t' p' eng' = engine_get_scoped c k t' p' eng"
    "engine_list_scoped c t' p' l n eng' = engine_list_scoped c t' p' l n eng"
proof -
  from assms(1,4-6) have same: "same_read (engine_get_scoped c k t' p' eng') (engine_get_scoped c k t' p' eng)"
    "same_reads (engine_list_scoped c t' p' l n eng') (engine_list_scoped c t' p' l n eng)" unfolding unseen_def by auto
  from same(1) show "engine_get_scoped c k t' p' eng' = engine_get_scoped c k t' p' eng"
    by (simp add: same_read_def at_rest_get assms)
  from same(2) show "engine_list_scoped c t' p' l n eng' = engine_list_scoped c t' p' l n eng"
    by (simp add: same_reads_def at_rest_list assms)
qed

end
