(* ===== verification/Grdi_Service_Facts.thy ===== *)
theory Grdi_Service_Facts
  imports Grdi_Service Grdi_Rows Grdi_Policy_Properties Scope_Steps
begin

text \<open>
  The handlers of the service as programs over the engine: \<open>moves\<close> is what a handler has to show to be a
  sequence of engine steps with a postcondition, and its rules follow the sequencing combinators, so that
  the proof for a handler is its text read once.
\<close>

section \<open>Programs\<close>

definition moves ::
  "(string \<Rightarrow> string) \<Rightarrow> (engine \<Rightarrow> engine \<Rightarrow> bool) \<Rightarrow> ('a \<Rightarrow> bool) \<Rightarrow> (engine, 'a) act \<Rightarrow> bool" where
  "moves H R P m \<longleftrightarrow> (\<forall>eng r eng'. engine_ok H eng \<longrightarrow> m eng = (r, eng') \<longrightarrow>
     R\<^sup>*\<^sup>* eng eng' \<and> engine_ok H eng' \<and> (\<forall>x. r = Inr x \<longrightarrow> P x))"

lemma movesD:
  "moves H R P m \<Longrightarrow> engine_ok H eng \<Longrightarrow> m eng = (r, eng') \<Longrightarrow> R\<^sup>*\<^sup>* eng eng' \<and> engine_ok H eng' \<and> (\<forall>x. r = Inr x \<longrightarrow> P x)"
  by (auto simp: moves_def)

lemma moves_weaken: "moves H R P m \<Longrightarrow> (\<And>x. P x \<Longrightarrow> Q x) \<Longrightarrow> moves H R Q m"
  by (fastforce simp: moves_def)

lemma moves_ret: "P x \<Longrightarrow> moves H R P (retS x)"
  by (simp add: moves_def retS_def)

lemma moves_fail: "moves H R P (failS e)"
  by (simp add: moves_def failS_def)

lemma moves_lift: "(\<And>x. m = Inr x \<Longrightarrow> P x) \<Longrightarrow> moves H R P (liftS m)"
  by (simp add: moves_def liftS_def)

lemma moves_read: "(\<And>eng x. engine_ok H eng \<Longrightarrow> f eng = Inr x \<Longrightarrow> P x) \<Longrightarrow> moves H R P (readS f)"
  by (simp add: moves_def readS_def)

lemma moves_bind:
  assumes "moves H R P m" "\<And>x. P x \<Longrightarrow> moves H R Q (f x)"
  shows "moves H R Q (bindS m f)"
  unfolding moves_def
proof (intro allI impI)
  fix eng r eng' assume ok: "engine_ok H eng" and run: "bindS m f eng = (r, eng')"
  obtain z eng1 where z: "m eng = (z, eng1)" by (cases "m eng")
  note first = movesD [OF assms(1) ok z]
  show "R\<^sup>*\<^sup>* eng eng' \<and> engine_ok H eng' \<and> (\<forall>x. r = Inr x \<longrightarrow> Q x)"
  proof (cases z)
    case (Inl e)
    with run z first show ?thesis by (auto simp: bindS_def)
  next
    case (Inr x)
    with run z have g: "f x eng1 = (r, eng')" by (simp add: bindS_def)
    from first Inr have p: "P x" "engine_ok H eng1" "R\<^sup>*\<^sup>* eng eng1" by auto
    from movesD [OF assms(2) [OF p(1)] p(2) g] p(3) show ?thesis by (auto intro: rtranclp_trans)
  qed
qed

lemma moves_lift_bind: "(\<And>x. m = Inr x \<Longrightarrow> moves H R Q (f x)) \<Longrightarrow> moves H R Q (bindS (liftS m) f)"
  by (rule moves_bind [where P = "\<lambda>x. m = Inr x"]) (auto intro: moves_lift)

lemma moves_try:
  assumes "moves H R P m" "\<And>e. moves H R P (h e)"
  shows "moves H R P (tryS m h)"
  unfolding moves_def
proof (intro allI impI)
  fix eng r eng' assume ok: "engine_ok H eng" and run: "tryS m h eng = (r, eng')"
  obtain z eng1 where z: "m eng = (z, eng1)" by (cases "m eng")
  note first = movesD [OF assms(1) ok z]
  show "R\<^sup>*\<^sup>* eng eng' \<and> engine_ok H eng' \<and> (\<forall>x. r = Inr x \<longrightarrow> P x)"
  proof (cases z)
    case (Inl e)
    with run z have g: "h e eng1 = (r, eng')" by (simp add: tryS_def)
    from first have p: "engine_ok H eng1" "R\<^sup>*\<^sup>* eng eng1" by auto
    from movesD [OF assms(2) p(1) g] p(2) show ?thesis by (auto intro: rtranclp_trans)
  next
    case (Inr x)
    with run z first show ?thesis by (auto simp: tryS_def)
  qed
qed

lemma moves_if_not_found:
  assumes "moves H R P body" "moves H R P rest"
  shows "moves H R P (if_not_found body rest)"
proof -
  have "moves H R P (case e of ScopedRecordNotFound m \<Rightarrow> rest | _ \<Rightarrow> failS e)" for e
    using assms(2) by (cases e) (simp_all add: moves_fail)
  then show ?thesis unfolding if_not_found_def by (intro moves_try assms)
qed

section \<open>Scoped operations\<close>

lemma current_rows_wf: "engine_ok H eng \<Longrightarrow> current_state eng = Inr st \<Longrightarrow> row \<in> set (rows_of st) \<Longrightarrow> dwf (sr_payload row)"
  using current_state_ok [of H eng] by (auto simp: store_ok_def row_ok_def)

lemma rows_of_lookup: "map_of (st_records st) k = Some row \<Longrightarrow> row \<in> set (rows_of st)"
  by (force simp: rows_of_def dest: map_of_SomeD)

lemma get_row_wf: "engine_ok H eng \<Longrightarrow> engine_get_scoped c k t p eng = Inr row \<Longrightarrow> dwf row"
  by (auto simp: engine_get_scoped_def bindE_Inr_iff read_state_def get_scoped_state_def to_public_def
      split: option.splits intro: current_rows_wf rows_of_lookup)

lemma append_row_wf:
  assumes ok: "engine_ok H eng" and n: "nulfree t" "nulfree p" and wf: "dwf rcd"
    and run: "engine_append_scoped H clk c rcd k t p eng = (Inr (row, created), eng')"
  shows "dwf row"
  using ok n wf run
proof (cases rule: engine_append_run)
  case (run st st' st2)
  from append_state_found [OF run(5)] obtain r where
    "map_of (st_records st') (scoped_key t p c k) = Some r" "sr_payload r = row" by blast
  moreover have "store_ok H st'"
    by (rule json_append_state_ok [OF run(4) n append_collection_nulfree [OF run(1)] wf run(5)])
  ultimately show ?thesis by (auto simp: store_ok_def row_ok_def dest!: rows_of_lookup)
qed simp

lemma moves_append:
  assumes "nulfree t" "nulfree p" "dwf rcd"
  shows "moves H (scope_call H t p) (\<lambda>(row, created). dwf row) (engine_append_scoped H clk c rcd k t p)"
  unfolding moves_def
proof (intro allI impI)
  fix eng r eng' assume ok: "engine_ok H eng" and run: "engine_append_scoped H clk c rcd k t p eng = (r, eng')"
  have "scope_call H t p eng eng'" by (rule scope_call.append [OF assms run])
  moreover have "engine_ok H eng'" by (rule engine_append_ok [OF ok assms run])
  ultimately show "(scope_call H t p)\<^sup>*\<^sup>* eng eng' \<and> engine_ok H eng' \<and>
      (\<forall>x. r = Inr x \<longrightarrow> (case x of (row, created) \<Rightarrow> dwf row))"
    using append_row_wf [OF ok assms] run by (cases r) auto
qed

lemma moves_session_append:
  "nulfree t \<Longrightarrow> nulfree p \<Longrightarrow> dwf rcd \<Longrightarrow> moves H (scope_call H t p) dwf (session_append_scoped H clk t p c rcd k)"
  unfolding session_append_scoped_def by (rule moves_bind [OF moves_append]) (auto intro: moves_ret)

lemma moves_session_once:
  "nulfree t \<Longrightarrow> nulfree p \<Longrightarrow> dwf rcd \<Longrightarrow>
   moves H (scope_call H t p) (\<lambda>(row, created). dwf row) (session_append_scoped_once H clk t p c rcd k)"
  unfolding session_append_scoped_once_def by (rule moves_append)

lemma moves_session_get: "moves H R dwf (session_get_scoped t p c k)"
  unfolding session_get_scoped_def by (rule moves_read) (rule get_row_wf)

section \<open>Transactions\<close>

lemma moves_transaction:
  assumes fn: "moves H (scope_call H t p) P fn"
  shows "moves H (scope_step H t p) P (run_scoped_transaction t p refs fn)"
  unfolding moves_def
proof (intro allI impI)
  fix eng r eng' assume ok: "engine_ok H eng" and run: "run_scoped_transaction t p refs fn eng = (r, eng')"
  define gn where "gn e = (if engine_ok H e then (map_sum id (\<lambda>_. ()) (fst (fn e)), snd (fn e)) else (Inr (), e))" for e
  have prog: "(scope_call H t p)\<^sup>*\<^sup>* e (snd (gn e))" for e
    using fn by (auto simp: gn_def moves_def) (metis prod.collapse)
  have enter: "engine_ok H (enter_transaction refs st eng)" if "read_json_state eng = Inr st" for st
    using ok that by (intro engine_ok_enter) (auto simp: engine_ok_def)
  have leave: "leave_transaction (commit (map_sum id (\<lambda>_. ()) z) e) = leave_transaction (commit z e)" for z :: "'b res" and e
    by (cases z) (simp_all add: commit_def)
  have same: "run_scoped_transaction t p refs gn eng = (map_sum id (\<lambda>_. ()) r, eng')"
    using run enter unfolding run_scoped_transaction_unfold
    by (auto simp: gn_def leave split: sum.splits if_splits prod.splits)
  have step: "scope_step H t p eng eng'" by (rule scope_step.transaction [OF prog same])
  have "P x" if "r = Inr x" for x
    using run
  proof (cases rule: run_scoped_transaction_cases)
    case (run st eng2)
    with that movesD [OF fn enter [OF run(4)] run(5)] show ?thesis by blast
  qed (use that in simp_all)
  with step engine_step_ok [OF scope_step_engine [OF step] ok] show "(scope_step H t p)\<^sup>*\<^sup>* eng eng' \<and> engine_ok H eng' \<and> (\<forall>x. r = Inr x \<longrightarrow> P x)"
    by auto
qed

text \<open>A program of one scope is a sequence of engine steps, and what other scopes read stays as it was.\<close>

lemma scope_movesD:
  assumes "moves H (scope_step H t p) P m" "engine_ok H eng" "m eng = (r, eng')"
  shows "(engine_step H)\<^sup>*\<^sup>* eng eng' \<and> engine_ok H eng'" "at_rest eng \<Longrightarrow> at_rest eng' \<and> unseen t p eng eng'"
  using movesD [OF assms] scope_steps_engine scope_steps_isolated [of H t p eng eng'] assms(2) by auto

section \<open>What the handlers write\<close>

lemma jwf_effects [simp]: "jwf (effects_json xs)"
  by (simp add: effects_json_def list_all_iff effect_assessment_to_dict_def)

lemma strip_scoped_wf [simp]: "dwf row \<Longrightarrow> dwf (strip_scoped row)"
  unfolding strip_scoped_def by (auto simp: dwf_def distinct_map_filter)

lemma authority_evaluate_approvals:
  assumes "authority_evaluate mac s i now e subj role aps = Inr d"
  shows "ad_approvals d = map (\<lambda>a. JObj (approval_to_dict a)) aps"
proof -
  from assms obtain v a reasons where r: "authority_receipt mac s e = Inr (v, a, reasons)"
    by (auto simp: authority_evaluate_def bindE_Inr_iff)
  show ?thesis
    using assms by (cases "authority_grant e subj role aps reasons") (auto simp: authority_evaluate_def r split: if_splits)
qed

lemma authority_evaluate_wf: "authority_evaluate mac s i now e subj role aps = Inr d \<Longrightarrow> dwf (authority_decision_to_dict d)"
  by (simp add: authority_decision_to_dict_def authority_evaluate_approvals approval_to_dict_def list_all_iff)

lemma gateway_evaluate_wf: "dwf (gateway_decision_to_dict (gateway_evaluate H i now e a r t p))"
  by (simp add: gateway_decision_to_dict_def)

lemma event_wf: "dwf (build_gateway_decision_event_record u t p pl g ty at src rc)"
  by (simp add: build_gateway_decision_event_record_def)

lemma receipt_sign_wf: "dwf r \<Longrightarrow> dwf (receipt_sign mac s r)"
  by (simp add: receipt_sign_def Let_def)

lemma dwf_field: "dwf d \<Longrightarrow> json_dict (dget d k) = Inr x \<Longrightarrow> dwf x"
  by (cases "map_of d k") (auto simp: dget_def dest: dwf_map_of elim: json_dict.elims)

lemma dwf_field_or: "dwf d \<Longrightarrow> jwf v \<Longrightarrow> json_dict (dget_or d k v) = Inr x \<Longrightarrow> dwf x"
  by (cases "map_of d k") (auto simp: dget_or_def dest: dwf_map_of elim: json_dict.elims)

lemma execution_request_row_wf:
  assumes "execution_request_from_row H now row = Inr r" "dwf row"
  shows "dwf (er_requested_action r)" "dwf (er_rollback_strategy r)"
  using assms dwf_field [OF strip_scoped_wf [OF assms(2)]] dwf_field_or [OF strip_scoped_wf [OF assms(2)], of "JObj []"]
  by (auto simp: execution_request_from_row_def execution_request_init_def bindE_Inr_iff Let_def)

lemma new_request_wf:
  "new_request w e a t p by act effs rb = Inr r \<Longrightarrow> dwf act \<Longrightarrow> dwf (case rb of None \<Rightarrow> [] | Some d \<Rightarrow> d) \<Longrightarrow>
   dwf (execution_request_to_dict r)"
  by (auto simp: new_request_def execution_request_init_def bindE_Inr_iff execution_request_to_dict_def)

lemma gateway_simulate_wf:
  "gateway_simulate mac s i now e a r g = Inr receipt \<Longrightarrow> dwf (er_requested_action r) \<Longrightarrow> dwf (er_rollback_strategy r)
   \<Longrightarrow> dwf (shadow_receipt_to_dict receipt)"
  by (auto simp: gateway_simulate_def bindE_Inr_iff shadow_receipt_to_dict_def gateway_plan_def
      intro!: receipt_sign_wf split: option.splits)

lemma outcome_wf:
  "dwf (case metrics of None \<Rightarrow> [] | Some m \<Rightarrow> m) \<Longrightarrow>
   dwf (shadow_outcome_to_dict ((draft_outcome w r rc pl t p by xs metrics lims)\<lparr>so_signed_outcome :=
     receipt_sign mac s (outcome_body (draft_outcome w r rc pl t p by xs metrics lims))\<rparr>))"
  by (auto simp: shadow_outcome_to_dict_def outcome_body_def draft_outcome_def intro!: receipt_sign_wf)

section \<open>The handlers\<close>

lemma moves_any: "moves H R (\<lambda>_. True) (readS f)"
  by (rule moves_read) simp

lemma moves_register_envelope:
  assumes "nulfree (de_tenant_id e)" "nulfree (de_project_id e)" "dwf (decision_envelope_to_dict e)"
  shows "moves (wd_hash w) (scope_step (wd_hash w) (de_tenant_id e) (de_project_id e)) (\<lambda>x. x = e) (register_envelope w e)"
  unfolding register_envelope_def Let_def
  by (intro moves_lift_bind moves_transaction moves_bind [OF moves_session_once] assms moves_ret) simp

lemma moves_authorize:
  assumes "nulfree t" "nulfree p"
  shows "moves (wd_hash w) (scope_step (wd_hash w) t p) (\<lambda>_. True) (authorize w i t p subj role aps)"
  unfolding authorize_def
  by (intro moves_bind [OF moves_any] moves_lift_bind moves_transaction moves_bind [OF moves_session_get]
      moves_bind [OF moves_session_append] assms authority_evaluate_wf moves_ret TrueI)

lemma moves_commit_plan:
  assumes "nulfree t" "nulfree p" "dwf (execution_request_to_dict r)" "dwf (gateway_decision_to_dict g)"
  shows "moves (wd_hash w) (scope_call (wd_hash w) t p) (\<lambda>_. True) (commit_plan w t p r g a)"
  unfolding commit_plan_def Let_def
  by (intro moves_bind [OF moves_session_get] moves_bind [OF moves_session_append] moves_bind [OF moves_session_once]
      moves_lift_bind assms event_wf moves_lift TrueI)

lemma moves_create_execution_plan:
  assumes "nulfree t" "nulfree p" "dwf act" "dwf (case rb of None \<Rightarrow> [] | Some d \<Rightarrow> d)"
  shows "moves (wd_hash w) (scope_step (wd_hash w) t p) (\<lambda>_. True) (create_execution_plan w e a t p by act effs rb)"
  unfolding create_execution_plan_def Let_def
  by (intro moves_bind [OF moves_any] moves_lift_bind moves_transaction moves_commit_plan assms(1,2) gateway_evaluate_wf)
    (rule new_request_wf [OF _ assms(3,4)])

lemma moves_ensure_event:
  "nulfree t \<Longrightarrow> nulfree p \<Longrightarrow> moves (wd_hash w) (scope_call (wd_hash w) t p) (\<lambda>_. True) (ensure_simulation_event w n t p pl g rc)"
  unfolding ensure_simulation_event_def Let_def
  by (intro moves_lift_bind moves_bind [OF moves_session_once] event_wf moves_ret TrueI)

lemma moves_new_simulation:
  assumes "nulfree t" "nulfree p" "dwf (er_requested_action r)" "dwf (er_rollback_strategy r)"
  shows "moves (wd_hash w) (scope_call (wd_hash w) t p) (\<lambda>_. True) (new_simulation w t p pl r g)"
  unfolding new_simulation_def Let_def case_prod_beta
  by (intro moves_bind [OF moves_session_get] moves_lift_bind moves_bind [OF moves_session_once]
      moves_bind [OF moves_ensure_event] gateway_simulate_wf [OF _ assms(3,4)] assms(1,2) moves_ret TrueI)

lemma moves_commit_simulation:
  assumes "nulfree t" "nulfree p"
  shows "moves (wd_hash w) (scope_call (wd_hash w) t p) (\<lambda>_. True) (commit_simulation w t p pl)"
  unfolding commit_simulation_def
  by (intro moves_bind [OF moves_session_get] moves_lift_bind moves_if_not_found moves_bind [OF moves_ensure_event]
      moves_new_simulation assms moves_ret TrueI) (auto intro: execution_request_row_wf)

lemma moves_simulate:
  assumes "nulfree t" "nulfree p"
  shows "moves (wd_hash w) (scope_step (wd_hash w) t p) (\<lambda>_. True) (simulate_execution_plan w pl t p)"
  unfolding simulate_execution_plan_def
  by (intro moves_bind [OF moves_any] moves_lift_bind moves_any
      moves_bind [OF moves_transaction [OF moves_commit_simulation]] assms)

lemma moves_commit_outcome:
  assumes "nulfree t" "nulfree p" "dwf (case metrics of None \<Rightarrow> [] | Some m \<Rightarrow> m)"
  shows "moves (wd_hash w) (scope_call (wd_hash w) t p) (\<lambda>_. True) (commit_outcome w r rc pl t p by xs metrics lims)"
  unfolding commit_outcome_def Let_def case_prod_beta
  by (intro moves_if_not_found moves_bind [OF moves_session_get] moves_lift_bind moves_bind [OF moves_session_once]
      outcome_wf assms moves_ret TrueI)

lemma moves_record_outcome:
  assumes "nulfree t" "nulfree p" "dwf (case metrics of None \<Rightarrow> [] | Some m \<Rightarrow> m)"
  shows "moves (wd_hash w) (scope_step (wd_hash w) t p) (\<lambda>_. True) (record_shadow_outcome w pl t p by xs metrics lims)"
  unfolding record_shadow_outcome_def
  by (intro moves_bind [OF moves_any] moves_lift_bind moves_transaction moves_commit_outcome assms)

end
