(* ===== verification/Grdi_Lock_Facts.thy ===== *)
theory Grdi_Lock_Facts
  imports Grdi_Service_Facts
begin

text \<open>
  The locks a handler of the service declares are the locks its transaction needs: no handler can end in
  \<open>UndeclaredLockRef\<close>. A computation that never gives that exception is \<open>plain\<close>; a program that never gives it
  inside a transaction with given locks is \<open>declared\<close>; both have a rule per combinator.
\<close>

section \<open>Computations that take no lock\<close>

definition plain :: "'a res \<Rightarrow> bool" where
  "plain m \<longleftrightarrow> (\<forall>msg. m \<noteq> Inl (UndeclaredLockRef msg))"

named_theorems plain_intros \<open>computations that never raise UndeclaredLockRef\<close>

lemma plain_simps [simp]: "plain (Inr x)" "plain (Inl e) \<longleftrightarrow> (\<forall>msg. e \<noteq> UndeclaredLockRef msg)"
  by (auto simp: plain_def)

lemma plain_bindE [plain_intros]: "plain m \<Longrightarrow> (\<And>x. plain (f x)) \<Longrightarrow> plain (bindE m f)"
  by (cases m) auto

lemma plain_raise_if [plain_intros]: "plain (Inl e :: unit res) \<Longrightarrow> plain (raise_if c e)"
  by (simp add: raise_if_def)

lemma plain_mapE [plain_intros]: "(\<And>x. plain (f x)) \<Longrightarrow> plain (mapE f xs)"
  by (induction xs) (auto intro!: plain_bindE)

lemma plain_typed [plain_intros]:
  "plain (json_str v)" "plain (json_int v)" "plain (json_bool v)" "plain (json_dict v)" "plain (json_list v)"
  "plain (as_dict v)" "plain (hashable v)"
  by (simp_all add: hashable_def split: json.split) (cases v; simp)+

lemma plain_index [plain_intros]: "plain (dindex d k)"
  by (simp add: dindex_def split: option.split)

lemma plain_digest [plain_intros]: "plain (compare_digest a b)"
  by (simp add: compare_digest_def)

lemma plain_json_strs [plain_intros]: "plain (json_strs v)"
  by (cases v) (auto intro: plain_intros)

lemma plain_parse [plain_intros]: "plain (parse_enum cls value members v)"
  by (simp add: parse_enum_def split: option.split)

lemmas parse_defs = parse_verification_state_def parse_authorization_state_def parse_executability_state_def
  parse_execution_state_def parse_gateway_eligibility_def parse_simulation_state_def parse_effect_state_def
  parse_outcome_state_def

lemma plain_ctor [plain_intros]: "plain (ctor_check cls required optional d)"
  by (simp add: ctor_check_def split: list.split)

lemma plain_required [plain_intros]: "plain (check_required xs)"
  by (simp add: check_required_def Let_def plain_raise_if)

lemma plain_rows [plain_intros]:
  "plain (decision_envelope_from_row now row)" "plain (authority_decision_from_row now row)"
  "plain (execution_request_from_row H now row)" "plain (gateway_decision_from_row now row)"
  "plain (shadow_receipt_from_row now row)"
  unfolding decision_envelope_from_row_def authority_decision_from_row_def execution_request_from_row_def
    gateway_decision_from_row_def shadow_receipt_from_row_def parse_defs Let_def decision_envelope_init_def
    execution_request_init_def
  by (intro plain_intros plain_simps; simp)+

lemma plain_effects [plain_intros]: "plain (effects_from_json v)"
  unfolding effects_from_json_def effect_assessment_from_dict_def parse_defs by (intro plain_intros plain_simps)

lemma plain_outcome_row [plain_intros]: "plain (shadow_outcome_from_dict now row)"
  unfolding shadow_outcome_from_dict_def parse_defs Let_def by (intro plain_intros plain_simps)

lemma plain_with_signer [plain_intros]: "(\<And>s. plain (f s)) \<Longrightarrow> plain (with_signer w f)"
  by (simp add: with_signer_def split: option.split)

lemma plain_verify [plain_intros]: "plain (receipt_verify mac s r)"
  unfolding receipt_verify_def by (auto intro!: plain_intros)

lemma plain_checks [plain_intros]: "plain (check_signature w signed error)" "plain (require_match a b error)"
  unfolding check_signature_def require_match_def by (intro plain_intros; simp)+

lemma plain_receipt_check [plain_intros]: "plain (validate_shadow_receipt w receipt request)"
  unfolding validate_shadow_receipt_def Let_def by (intro plain_intros plain_simps; simp)

lemma plain_outcome_check [plain_intros]: "plain (validate_shadow_outcome w rcd request receipt)"
  unfolding validate_shadow_outcome_def validate_outcome_identity_def validate_outcome_assessments_def
    validate_outcome_claims_def Let_def by (intro plain_intros plain_simps; simp)

lemma plain_effects_valid [plain_intros]: "plain (validate_effect_assessments xs)"
proof -
  have "plain (validate_effects_from seen xs)" for seen
    by (induction seen xs rule: validate_effects_from.induct) (auto simp: Let_def)
  then show ?thesis by (simp add: validate_effect_assessments_def)
qed

lemma plain_projection [plain_intros]: "plain (plan_projection_payload r g a evs rc)"
  unfolding plan_projection_payload_def build_plan_projection_def project_gateway_state_def sort_events_def
    event_sort_key_def Let_def by (intro plain_intros plain_simps)

lemma plain_simulate [plain_intros]: "plain (gateway_simulate mac s i now e a r g)"
  unfolding gateway_simulate_def by (intro plain_intros; simp split: option.split)

section \<open>Programs inside a transaction\<close>

definition declared :: "lock_ref list \<Rightarrow> (engine, 'a) act \<Rightarrow> bool" where
  "declared ls m \<longleftrightarrow> (\<forall>eng r eng'. eng_lock_context eng = Some (build_lock_context ls) \<longrightarrow> in_transaction eng \<longrightarrow>
     m eng = (r, eng') \<longrightarrow> plain r \<and> eng_lock_context eng' = eng_lock_context eng \<and> in_transaction eng')"

lemma declaredD:
  "declared ls m \<Longrightarrow> eng_lock_context eng = Some (build_lock_context ls) \<Longrightarrow> in_transaction eng \<Longrightarrow> m eng = (r, eng')
   \<Longrightarrow> plain r \<and> eng_lock_context eng' = eng_lock_context eng \<and> in_transaction eng'"
  unfolding declared_def by blast

lemma declared_ret: "declared ls (retS x)"
  by (simp add: declared_def retS_def)

lemma declared_fail: "plain (Inl e :: 'a res) \<Longrightarrow> declared ls (failS e :: (engine, 'a) act)"
  by (simp add: declared_def failS_def)

lemma declared_lift: "plain m \<Longrightarrow> declared ls (liftS m)"
  by (simp add: declared_def liftS_def)

lemma declared_bind:
  assumes "declared ls m" "\<And>x. declared ls (f x)"
  shows "declared ls (bindS m f)"
  unfolding declared_def
proof (intro allI impI)
  fix eng r eng' assume c: "eng_lock_context eng = Some (build_lock_context ls)" "in_transaction eng"
    and run: "bindS m f eng = (r, eng')"
  obtain z eng1 where z: "m eng = (z, eng1)" by (cases "m eng")
  note first = declaredD [OF assms(1) c z]
  show "plain r \<and> eng_lock_context eng' = eng_lock_context eng \<and> in_transaction eng'"
  proof (cases z)
    case (Inl e)
    with run z first show ?thesis by (auto simp: bindS_def)
  next
    case (Inr x)
    with run z have g: "f x eng1 = (r, eng')" by (simp add: bindS_def)
    from declaredD [OF assms(2) _ _ g] first c show ?thesis by simp
  qed
qed

lemma declared_if_not_found:
  assumes "declared ls body" "declared ls rest"
  shows "declared ls (if_not_found body rest)"
  unfolding declared_def
proof (intro allI impI)
  fix eng r eng' assume c: "eng_lock_context eng = Some (build_lock_context ls)" "in_transaction eng"
    and run: "if_not_found body rest eng = (r, eng')"
  obtain z eng1 where z: "body eng = (z, eng1)" by (cases "body eng")
  note first = declaredD [OF assms(1) c z]
  show "plain r \<and> eng_lock_context eng' = eng_lock_context eng \<and> in_transaction eng'"
  proof (cases z)
    case (Inl e)
    with run z have g: "(case e of ScopedRecordNotFound m \<Rightarrow> rest | _ \<Rightarrow> failS e) eng1 = (r, eng')"
      by (simp add: if_not_found_def tryS_def)
    show ?thesis
    proof (cases "\<exists>m. e = ScopedRecordNotFound m")
      case True
      with g have "rest eng1 = (r, eng')" by auto
      from declaredD [OF assms(2) _ _ this] first c show ?thesis by simp
    next
      case False
      then have "(case e of ScopedRecordNotFound m \<Rightarrow> rest | _ \<Rightarrow> failS e) = failS e" by (cases e) auto
      with g first Inl show ?thesis by (auto simp: failS_def)
    qed
  next
    case (Inr x)
    with run z first show ?thesis by (auto simp: if_not_found_def tryS_def)
  qed
qed

lemma plain_get: "in_transaction eng \<Longrightarrow> plain (engine_get_scoped c k t p eng)"
  by (auto simp: engine_get_scoped_def read_state_def in_transaction_def current_state_def get_scoped_state_def
      validate_collection_def ensure_multiprocess_json_allowed_def raise_if_def Let_def split: option.split)

lemma declared_get: "declared ls (session_get_scoped t p c k)"
  by (auto simp: declared_def session_get_scoped_def readS_def plain_get)

lemma plain_extract: "plain (extract_record_id c rcd rid)"
  by (auto simp: extract_record_id_def Let_def split: option.splits)

lemma declared_append:
  assumes "covers ls c k"
  shows "declared ls (engine_append_scoped H clk c rcd k t p)"
  unfolding declared_def
proof (intro allI impI)
  fix eng r eng' assume c: "eng_lock_context eng = Some (build_lock_context ls)" "in_transaction eng"
    and run: "engine_append_scoped H clk c rcd k t p eng = (r, eng')"
  have "plain r"
  proof (cases "validate_collection c False True False = Inr () \<and> \<not> eng_multiprocess eng")
    case True
    then have "engine_append_scoped H clk c rcd k t p eng =
        on_state snd (json_append_state H clk c rcd k t p (is_chain_linked_collection c)) eng"
      using assms c(1) by (intro engine_append_eq) (simp_all add: covers_def)
    moreover obtain st where "current_state eng = Inr st" using c(2) by (auto simp: in_transaction_def current_state_def)
    moreover obtain z st' where z: "json_append_state H clk c rcd k t p (is_chain_linked_collection c) st = (z, st')"
      by fastforce
    moreover have "plain z"
      using z by (rule append_state_cases) (use plain_extract [of c rcd None] in auto)
    ultimately show ?thesis using run by (auto simp: on_state_def split: sum.splits)
  next
    case False
    then show ?thesis
      using run by (auto simp: engine_append_scoped_def validate_collection_def ensure_multiprocess_json_allowed_def Let_def
          raise_if_def bindS_def liftS_def split: if_splits)
  qed
  moreover have "tx_frame eng eng'" by (rule engine_append_frame [OF run])
  ultimately show "plain r \<and> eng_lock_context eng' = eng_lock_context eng \<and> in_transaction eng'"
    using c(2) by (auto simp: tx_frame_def in_transaction_def)
qed

lemma declared_session:
  "covers ls c k \<Longrightarrow> declared ls (session_append_scoped H clk t p c rcd k)"
  "covers ls c k \<Longrightarrow> declared ls (session_append_scoped_once H clk t p c rcd k)"
  unfolding session_append_scoped_def session_append_scoped_once_def case_prod_beta
  by (intro declared_bind declared_append declared_ret; assumption)+

lemma plain_scope_check: "plain (validate_lock_refs_scope ls t p)"
proof -
  have "(\<And>x. plain (f x)) \<Longrightarrow> plain (allE f xs)" for f :: "lock_ref \<Rightarrow> unit res" and xs
    by (induction xs) (auto intro!: plain_bindE)
  then show ?thesis unfolding validate_lock_refs_scope_def by (simp add: plain_raise_if)
qed

lemma declared_transaction:
  assumes "declared ls fn" "plain (read_json_state eng)" "run_scoped_transaction t p ls fn eng = (r, eng')"
  shows "plain r"
proof (cases "read_json_state eng")
  case (Inr st)
  obtain z eng2 where z: "fn (enter_transaction ls st eng) = (z, eng2)" by fastforce
  have "plain z \<and> eng_lock_context eng2 = eng_lock_context (enter_transaction ls st eng) \<and> in_transaction eng2"
    by (rule declaredD [OF assms(1) _ _ z]) (simp_all add: enter_transaction_def in_transaction_def)
  with assms(3) z Inr plain_scope_check [of ls t p] show ?thesis
    by (auto simp: run_scoped_transaction_unfold split: sum.splits if_splits)
next
  case (Inl e)
  with assms(2,3) plain_scope_check [of ls t p] show ?thesis
    by (auto simp: run_scoped_transaction_unfold split: sum.splits if_splits)
qed

section \<open>Reading the store\<close>

lemma plain_ostr [plain_intros]: "plain (json_ostr v)"
  by (cases v) simp_all

lemma plain_row_from_json [plain_intros]: "plain (row_from_json item)" "plain (head_from_json item)"
  unfolding row_from_json_def head_from_json_def by (intro plain_intros plain_simps)+

lemma plain_read [plain_intros]: "plain (read_json_state eng)"
  unfolding read_json_state_def state_from_json_def by (auto intro!: plain_intros split: option.split)

lemma plain_current [plain_intros]: "plain (current_state eng)"
  by (simp add: current_state_def plain_read)

lemma plain_page [plain_intros]: "plain (check_page limit offset)"
  unfolding check_page_def by (auto intro!: plain_intros)

lemma plain_allowed [plain_intros]:
  "plain (ensure_multiprocess_json_allowed eng)" "plain (validate_collection c a b d)"
  unfolding ensure_multiprocess_json_allowed_def validate_collection_def Let_def by (auto intro!: plain_intros)

lemma plain_engine_get [plain_intros]: "plain (engine_get_scoped c k t p eng)"
  unfolding engine_get_scoped_def read_state_def get_scoped_state_def
  by (intro plain_intros) (simp split: option.split)

lemma plain_engine_list [plain_intros]: "plain (engine_list_scoped c t p limit offset eng)"
  unfolding engine_list_scoped_def read_state_def by (intro plain_intros plain_simps)

lemma plain_scoped_get [plain_intros]: "plain (scoped_get c k t p error eng)"
  using plain_engine_get [of c k t p eng] by (auto simp: scoped_get_def split: sum.split err.split)

lemma plain_getters [plain_intros]:
  "plain (get_envelope w i t p eng)" "plain (get_authority_decision w i t p eng)"
  "plain (get_execution_request w i t p eng)" "plain (get_gateway_decision w i t p eng)"
  "plain (get_shadow_receipt w i t p eng)" "plain (list_gateway_events i t p eng)"
  "plain (load_validated_shadow_receipt w r t p eng)"
  unfolding get_envelope_def get_authority_decision_def get_execution_request_def get_gateway_decision_def
    get_shadow_receipt_def list_gateway_events_def load_validated_shadow_receipt_def
  by (intro plain_intros plain_simps)+

lemma plain_execution_plan [plain_intros]: "plain (get_execution_plan w pl t p eng)"
  unfolding get_execution_plan_def
proof (intro plain_intros)
  fix r show "plain (case load_validated_shadow_receipt w r t p eng of Inl (KeyError m) \<Rightarrow> Inr None | Inl e \<Rightarrow> Inl e
      | Inr receipt \<Rightarrow> Inr (Some (shadow_receipt_to_dict receipt)))"
    using plain_getters(7) [of w r t p eng] by (auto split: sum.split err.split)
qed

lemma plain_result [plain_intros]: "plain (simulation_result w pl t p rc eng)"
  unfolding simulation_result_def by (intro plain_intros plain_simps)

lemma plain_authority [plain_intros]: "plain (authority_evaluate mac s i now e subj role aps)"
  unfolding authority_evaluate_def authority_receipt_def authority_verdict_def Let_def case_prod_beta
  by (auto intro!: plain_intros split: option.split)

lemma plain_locks [plain_intros]:
  "plain (envelope_locks t p e)" "plain (authority_locks t p e a)" "plain (execution_plan_locks t p e a pl)"
  "plain (simulation_locks t p pl a)" "plain (outcome_locks t p pl rc)"
proof -
  have "plain (LockRef t p c k key)" for c k key by (simp add: LockRef_def)
  then show "plain (envelope_locks t p e)" "plain (authority_locks t p e a)" "plain (execution_plan_locks t p e a pl)"
    "plain (simulation_locks t p pl a)" "plain (outcome_locks t p pl rc)"
    unfolding envelope_locks_def authority_locks_def execution_plan_locks_def simulation_locks_def outcome_locks_def
      locks_of_def chain_lock_def canonical_lock_def
    by (auto intro!: plain_intros)
qed

section \<open>Handlers\<close>

definition never :: "(engine, 'a) act \<Rightarrow> bool" where
  "never m \<longleftrightarrow> (\<forall>eng. plain (fst (m eng)))"

lemma never_lift_bind: "plain m \<Longrightarrow> (\<And>x. m = Inr x \<Longrightarrow> never (f x)) \<Longrightarrow> never (bindS (liftS m) f)"
  by (cases m) (simp_all add: never_def bindS_def liftS_def)

lemma never_read_bind: "(\<And>eng. plain (g eng)) \<Longrightarrow> (\<And>x. never (f x)) \<Longrightarrow> never (bindS (readS g) f)"
  unfolding never_def by (auto simp: bindS_def readS_def plain_def split: sum.split)

lemma never_bind: "never m \<Longrightarrow> (\<And>x. never (f x)) \<Longrightarrow> never (bindS m f)"
  unfolding never_def
proof
  fix eng assume m: "\<forall>eng. plain (fst (m eng))" and f: "\<And>x. \<forall>eng. plain (fst (f x eng))"
  obtain z eng1 where z: "m eng = (z, eng1)" by (cases "m eng")
  have "plain z" using m z by (metis fst_conv)
  then show "plain (fst (bindS m f eng))" using f z by (cases z) (simp_all add: bindS_def)
qed

lemma never_read: "(\<And>eng. plain (g eng)) \<Longrightarrow> never (readS g)"
  by (simp add: never_def readS_def)

lemma never_transaction: "declared ls fn \<Longrightarrow> never (run_scoped_transaction t p ls fn)"
  unfolding never_def by (metis declared_transaction plain_read prod.collapse)

lemma declared_lift_bind: "plain m \<Longrightarrow> (\<And>x. m = Inr x \<Longrightarrow> declared ls (f x)) \<Longrightarrow> declared ls (bindS (liftS m) f)"
proof (cases m)
  case (Inl e)
  assume "plain m"
  have "bindS (liftS m) f = failS e" by (rule ext) (simp add: Inl bindS_def liftS_def failS_def)
  then show "plain m \<Longrightarrow> declared ls (bindS (liftS m) f)" using Inl by (simp add: declared_fail)
qed (simp add: bindS_lift_Inr)

lemma plain_new_request [plain_intros]: "plain (new_request w e a t p requester act effs rb)"
  unfolding new_request_def execution_request_init_def by (auto intro!: plain_intros)

lemma never_register_envelope: "never (register_envelope w e)"
  unfolding register_envelope_def Let_def
  by (intro never_lift_bind plain_intros never_transaction declared_bind declared_session declared_ret)
    (simp add: envelope_locks_cover)

lemma never_authorize: "never (authorize w i t p subj role aps)"
  unfolding authorize_def
  by (intro never_read_bind never_lift_bind plain_intros never_transaction declared_bind declared_get declared_session
      declared_ret) (simp add: authority_locks_cover)

lemma event_key_eq: "gateway_event_canonical_key pl ty = Inr k \<Longrightarrow> k = pl @ '':'' @ ty"
  by (simp add: gateway_event_canonical_key_def split: if_splits)

lemma never_create_execution_plan: "never (create_execution_plan w e a t p requester act effs rb)"
  unfolding create_execution_plan_def Let_def
proof (intro never_read_bind never_lift_bind plain_intros never_transaction)
  fix y and request :: execution_request and locks
  assume "execution_plan_locks t p e a (er_plan_id request) = Inr locks"
  note cover = execution_plan_locks_cover [OF this]
  show "declared locks (commit_plan w t p request g y)" for g
    unfolding commit_plan_def Let_def
    by (intro declared_bind declared_lift_bind declared_get declared_session declared_lift plain_intros)
      (use cover in \<open>simp_all add: event_key_eq\<close>)
qed

lemma declared_ensure_event:
  "covers ls ''gateway_decision_events'' (pl @ '':SIMULATION_RECORDED'') \<Longrightarrow> declared ls (ensure_simulation_event w n t p pl g rc)"
  unfolding ensure_simulation_event_def Let_def
  by (intro declared_lift_bind declared_bind declared_session declared_ret) (simp_all add: event_key_eq)

lemma never_simulate: "never (simulate_execution_plan w pl t p)"
  unfolding simulate_execution_plan_def
proof (intro never_read_bind never_lift_bind plain_intros never_bind never_transaction never_read)
  fix request :: execution_request and locks
  assume "simulation_locks t p pl (er_authority_decision_id request) = Inr locks"
  note cover = simulation_locks_cover [OF this]
  show "declared locks (commit_simulation w t p pl)"
    unfolding commit_simulation_def new_simulation_def Let_def case_prod_beta
    by (intro declared_bind declared_if_not_found declared_lift_bind declared_get declared_session declared_ret
        declared_ensure_event plain_intros) (use cover in simp_all)
qed

lemma never_record_outcome: "never (record_shadow_outcome w pl t p recorder xs metrics lims)"
  unfolding record_shadow_outcome_def
proof (intro never_read_bind never_lift_bind plain_intros never_transaction)
  fix request and receipt :: shadow_receipt and locks
  assume "outcome_locks t p pl (rc_receipt_id receipt) = Inr locks"
  note cover = outcome_locks_cover [OF this]
  show "declared locks (commit_outcome w request receipt pl t p recorder xs metrics lims)"
    unfolding commit_outcome_def Let_def case_prod_beta
    by (intro declared_bind declared_if_not_found declared_lift_bind declared_get declared_session declared_ret
        plain_intros) (use cover in simp_all)
next
  show "plain (project_gateway_state g evs)" for g evs
    unfolding project_gateway_state_def sort_events_def event_sort_key_def Let_def by (intro plain_intros plain_simps)
qed simp_all

end
