(* ===== verification/Grdi_Frame.thy ===== *)
theory Grdi_Frame
  imports Grdi_Service_Facts
begin

text \<open>
  What a program of the service leaves alone: \<open>framed\<close> programs keep the file and the frame of the transaction
  they run in, so that a transaction that fails leaves what a reader sees unchanged. With it, what is read
  inside a transaction, right before it and right after it is related.
\<close>

section \<open>Frames\<close>

definition framed :: "(engine, 'a) act \<Rightarrow> bool" where
  "framed m \<longleftrightarrow> (\<forall>eng. tx_frame eng (snd (m eng)))"

lemma framedD: "framed m \<Longrightarrow> m eng = (r, eng') \<Longrightarrow> tx_frame eng eng'"
  unfolding framed_def by (metis snd_conv)

lemma framed_basic: "framed (retS x)" "framed (failS e)" "framed (liftS m)" "framed (readS f)"
  by (simp_all add: framed_def retS_def failS_def liftS_def readS_def)

lemma framed_bind: "framed m \<Longrightarrow> (\<And>x. framed (f x)) \<Longrightarrow> framed (bindS m f)"
  unfolding framed_def bindS_def by (auto split: prod.split sum.split) (metis snd_conv tx_frame_trans)+

lemma framed_try: "framed m \<Longrightarrow> (\<And>e. framed (h e)) \<Longrightarrow> framed (tryS m h)"
  unfolding framed_def tryS_def by (auto split: prod.split sum.split) (metis snd_conv tx_frame_trans)+

lemma framed_if_not_found:
  assumes "framed body" "framed rest"
  shows "framed (if_not_found body rest)"
proof -
  have "framed (case e of ScopedRecordNotFound m \<Rightarrow> rest | _ \<Rightarrow> failS e)" for e
    using assms(2) by (cases e) (simp_all add: framed_basic)
  then show ?thesis unfolding if_not_found_def by (intro framed_try assms)
qed

lemma framed_append: "framed (engine_append_scoped H clk c rcd k t p)"
  unfolding framed_def by (metis engine_append_frame prod.collapse)

lemma framed_session:
  "framed (session_append_scoped H clk t p c rcd k)" "framed (session_append_scoped_once H clk t p c rcd k)"
  "framed (session_get_scoped t p c k)"
  unfolding session_append_scoped_def session_append_scoped_once_def session_get_scoped_def
  by (intro framed_bind framed_append framed_basic | simp add: case_prod_beta framed_basic)+

lemmas framed_intros = framed_bind framed_if_not_found framed_session framed_append framed_basic

lemma framed_handlers:
  "framed (commit_plan w t p r g a)" "framed (commit_simulation w t p pl)"
  "framed (commit_outcome w r rc pl t p recorder xs metrics lims)"
  unfolding commit_plan_def commit_simulation_def new_simulation_def ensure_simulation_event_def commit_outcome_def
    Let_def case_prod_beta
  by (intro framed_intros)+

section \<open>Runs\<close>

lemma session_get_Inr: "session_get_scoped t p c k eng = (Inr row, eng') \<longleftrightarrow> engine_get_scoped c k t p eng = Inr row \<and> eng' = eng"
  by (auto simp: session_get_scoped_def readS_def)

lemma bindS_lift_run: "bindS (liftS m) f s = (Inr y, s') \<longleftrightarrow> (\<exists>x. m = Inr x \<and> f x s = (Inr y, s'))"
  by (cases m) (simp_all add: bindS_def liftS_def)

lemma bindS_get_run:
  "bindS (session_get_scoped t p c k) f s = (Inr y, s') \<longleftrightarrow> (\<exists>row. engine_get_scoped c k t p s = Inr row \<and> f row s = (Inr y, s'))"
  by (cases "engine_get_scoped c k t p s") (simp_all add: bindS_def session_get_scoped_def readS_def)

lemma bindS_read_run: "bindS (readS g) f s = (Inr y, s') \<longleftrightarrow> (\<exists>x. g s = Inr x \<and> f x s = (Inr y, s'))"
  by (cases "g s") (simp_all add: bindS_def readS_def)

lemmas run_simps = bindS_lift_run bindS_get_run bindS_read_run

lemma missing_receipt:
  "engine_get_scoped c k t p s = Inl (ScopedRecordNotFound m) \<Longrightarrow>
   if_not_found (bindS (session_get_scoped t p c k) f) rest s = rest s"
  by (simp add: if_not_found_def tryS_def session_get_scoped_def readS_def bindS_def)

lemma if_not_found_run:
  assumes "if_not_found body rest s = (Inr y, s')"
  shows "body s = (Inr y, s') \<or> (\<exists>m s1. body s = (Inl (ScopedRecordNotFound m), s1) \<and> rest s1 = (Inr y, s'))"
  using assms
  by (cases "body s"; cases "fst (body s)")
    (auto simp: if_not_found_def tryS_def failS_def split: err.splits)

section \<open>Reads around a transaction\<close>

lemma engine_get_enter:
  "tx_depth eng = 0 \<Longrightarrow> read_json_state eng = Inr st \<Longrightarrow>
   engine_get_scoped c k t p (enter_transaction ls st eng) = engine_get_scoped c k t p eng"
  by (simp add: engine_get_scoped_def read_state_def enter_transaction_def current_state_def ensure_multiprocess_json_allowed_def)

lemma engine_list_enter:
  "tx_depth eng = 0 \<Longrightarrow> read_json_state eng = Inr st \<Longrightarrow>
   engine_list_scoped c t p l off (enter_transaction ls st eng) = engine_list_scoped c t p l off eng"
  by (simp add: engine_list_scoped_def read_state_def enter_transaction_def current_state_def ensure_multiprocess_json_allowed_def)

lemma idle_get:
  "tx_depth eng = 0 \<Longrightarrow> tx_depth eng' = 0 \<Longrightarrow> eng_disk eng' = eng_disk eng \<Longrightarrow> eng_multiprocess eng' = eng_multiprocess eng
   \<Longrightarrow> engine_get_scoped c k t p eng' = engine_get_scoped c k t p eng"
  by (simp add: engine_get_scoped_def read_state_def current_state_def ensure_multiprocess_json_allowed_def read_json_state_def)

lemma scoped_get_Inr: "engine_get_scoped c k t p eng = Inr row \<Longrightarrow> scoped_get c k t p error eng = Inr row"
  by (simp add: scoped_get_def)

text \<open>A read after a transaction that raised finds what a read before it would, or nothing at all.\<close>

lemma failed_transaction_get:
  assumes "eng_idle eng" "framed fn" "run_scoped_transaction t p ls fn eng = (Inl e, eng')" "engine_get_scoped c k t' p' eng' = Inr row"
  shows "engine_get_scoped c k t' p' eng = Inr row"
  using assms(3)
proof (cases rule: run_scoped_transaction_cases)
  case stop
  with assms(4) show ?thesis by simp
next
  case (unreadable e')
  with assms(1,4) show ?thesis
    by (auto simp: engine_get_scoped_def read_state_def current_state_def bindE_Inr_iff eng_idle_def)
next
  case (run st eng2)
  have "tx_frame (enter_transaction ls st eng) eng2" by (rule framedD [OF assms(2) run(5)])
  then have "engine_get_scoped c k t' p' eng' = engine_get_scoped c k t' p' eng"
    using run(3,6) by (intro idle_get) (simp_all add: tx_frame_def enter_transaction_def leave_transaction_def commit_def)
  with assms(4) show ?thesis by simp
qed

end
