(* ===== verification/Grdi_Replay.thy ===== *)
theory Grdi_Replay
  imports Grdi_Service
begin

text \<open>
  Model of \<^verbatim>\<open>src/src/phigraph/grdi/replay.py\<close>: what a replay of a plan reads from the ledger, the manifest of hashes it
  takes, the state it finds, the signed report, the checks of a stored report against itself and against the ledger, and the
  comparison of two reports. Inside a session and outside the engine reads the same state, so that one
  definition serves for both; the verifier always reads the file.
\<close>

section \<open>Versions and labels\<close>

definition CORE_VERSION :: string where "CORE_VERSION = ''4.1.0-rc.8''"
definition PROTOCOL_VERSION :: string where "PROTOCOL_VERSION = ''2.0.0''"
definition HAV_POLICY_VERSION :: string where "HAV_POLICY_VERSION = ''1.0.0''"
definition GRDI_OUTCOME_LEDGER_PROTOCOL_VERSION :: string where "GRDI_OUTCOME_LEDGER_PROTOCOL_VERSION = ''0.1.0''"
definition GRDI_OUTCOME_POLICY_VERSION :: string where "GRDI_OUTCOME_POLICY_VERSION = ''1.0.0''"
definition GRDI_REPLAY_AUDIT_PROTOCOL_VERSION :: string where "GRDI_REPLAY_AUDIT_PROTOCOL_VERSION = ''0.1.0''"
definition GRDI_REPLAY_POLICY_ID :: string where "GRDI_REPLAY_POLICY_ID = ''PHIGRAPH_GRDI_REPLAY_AUDIT_V1''"
definition GRDI_REPLAY_POLICY_VERSION :: string where "GRDI_REPLAY_POLICY_VERSION = ''1.0.0''"

definition GRDI_CHAIN_COLLECTIONS :: "string list" where
  "GRDI_CHAIN_COLLECTIONS = [''decision_envelopes'', ''authority_decisions'', ''execution_requests'', ''gateway_decisions'',
     ''shadow_execution_receipts'', ''shadow_outcomes'']"

definition RECORD_HASH_KEYS :: "(string \<times> string) list" where
  "RECORD_HASH_KEYS = [
     (''decision_envelope'', ''decision_envelopes''),
     (''authority_decision'', ''authority_decisions''),
     (''execution_request'', ''execution_requests''),
     (''gateway_decision'', ''gateway_decisions''),
     (''shadow_execution_receipt'', ''shadow_execution_receipts''),
     (''shadow_outcome'', ''shadow_outcomes'')]"

section \<open>Hashes\<close>

definition canonical_record :: "pdict \<Rightarrow> pdict" where
  "canonical_record row = dremove row ''_chain''"

definition record_hash :: "(string \<Rightarrow> string) \<Rightarrow> pdict \<Rightarrow> string" where
  "record_hash H row = hash_payload H (JObj (canonical_record row))"

definition manifest_snapshot_payload :: "replay_manifest \<Rightarrow> pdict" where
  "manifest_snapshot_payload manifest = dremove (replay_manifest_to_dict manifest) ''source_chain_heads''"

definition manifest_hash :: "(string \<Rightarrow> string) \<Rightarrow> replay_manifest \<Rightarrow> string" where
  "manifest_hash H manifest = hash_payload H (JObj (manifest_snapshot_payload manifest))"

definition comparison_key :: "(string \<Rightarrow> string) \<Rightarrow> string \<Rightarrow> string \<Rightarrow> string" where
  "comparison_key H baseline_replay_id candidate_replay_id = hash_payload H (JObj [
     (''baseline_replay_id'', JStr baseline_replay_id),
     (''candidate_replay_id'', JStr candidate_replay_id),
     (''policy_version'', JStr GRDI_REPLAY_POLICY_VERSION)])"

section \<open>The rows of a plan\<close>

text \<open>\<open>_find_row\<close>: by canonical key where the field is the canonical one of the collection, else the first row listed. A
  canonical key that is not a string is outside the model.\<close>

definition find_row :: "string \<Rightarrow> string \<Rightarrow> json \<Rightarrow> string \<Rightarrow> string \<Rightarrow> engine \<Rightarrow> pdict option res" where
  "find_row collection key v tenant_id project_id eng =
     (if map_of LEGACY_CANONICAL_KEY_FIELDS collection = Some key
      then bindE (json_str v) (\<lambda>canonical_key.
        case engine_get_scoped collection canonical_key tenant_id project_id eng of
          Inl (ScopedRecordNotFound m) \<Rightarrow> Inr None
        | Inl e \<Rightarrow> Inl e
        | Inr row \<Rightarrow> Inr (Some row))
      else bindE (engine_list_scoped collection tenant_id project_id MAX_LIST_LIMIT 0 eng) (\<lambda>matches.
        Inr (find (\<lambda>item. py_eq (dget item key) v) matches)))"

record chain_rows =
  cr_execution_request :: "pdict option"
  cr_gateway_decision :: "pdict option"
  cr_decision_envelope :: "pdict option"
  cr_authority_decision :: "pdict option"
  cr_shadow_execution_receipt :: "pdict option"
  cr_shadow_outcome :: "pdict option"

definition no_chain_rows :: chain_rows where
  "no_chain_rows = \<lparr>cr_execution_request = None, cr_gateway_decision = None, cr_decision_envelope = None,
     cr_authority_decision = None, cr_shadow_execution_receipt = None, cr_shadow_outcome = None\<rparr>"

text \<open>The entries of the dictionary, in its order.\<close>

definition chain_row_items :: "chain_rows \<Rightarrow> (string \<times> pdict option) list" where
  "chain_row_items rows = [
     (''execution_request'', cr_execution_request rows),
     (''gateway_decision'', cr_gateway_decision rows),
     (''decision_envelope'', cr_decision_envelope rows),
     (''authority_decision'', cr_authority_decision rows),
     (''shadow_execution_receipt'', cr_shadow_execution_receipt rows),
     (''shadow_outcome'', cr_shadow_outcome rows)]"

definition chain_row :: "chain_rows \<Rightarrow> string \<Rightarrow> pdict option" where
  "chain_row rows label = (case map_of (chain_row_items rows) label of None \<Rightarrow> None | Some row \<Rightarrow> row)"

text \<open>\<open>except KeyError\<close> around the first search: not found, or a ledger file that lacks a key.\<close>

definition find_request :: "string \<Rightarrow> string \<Rightarrow> string \<Rightarrow> engine \<Rightarrow> pdict option res" where
  "find_request plan_id t p eng = (case find_row ''execution_requests'' ''plan_id'' (JStr plan_id) t p eng of
     Inl (KeyError m) \<Rightarrow> Inr None
   | Inl e \<Rightarrow> Inl e
   | Inr found \<Rightarrow> Inr found)"

definition load_chain_rows :: "string \<Rightarrow> string \<Rightarrow> string \<Rightarrow> engine \<Rightarrow> chain_rows res" where
  "load_chain_rows plan_id t p eng =
     bindE (find_request plan_id t p eng) (\<lambda>found.
     case found of None \<Rightarrow> Inr no_chain_rows
     | Some request \<Rightarrow>
       bindE (find_row ''gateway_decisions'' ''plan_id'' (JStr plan_id) t p eng) (\<lambda>gateway.
       bindE (dindex request ''envelope_id'') (\<lambda>envelope_id.
       bindE (find_row ''decision_envelopes'' ''envelope_id'' envelope_id t p eng) (\<lambda>envelope.
       bindE (dindex request ''authority_decision_id'') (\<lambda>authority_id.
       bindE (find_row ''authority_decisions'' ''authority_decision_id'' authority_id t p eng) (\<lambda>authority.
       bindE (find_row ''shadow_execution_receipts'' ''plan_id'' (JStr plan_id) t p eng) (\<lambda>receipt.
       bindE (case receipt of
           Some r \<Rightarrow> bindE (dindex r ''receipt_id'') (\<lambda>receipt_id.
             find_row ''shadow_outcomes'' ''shadow_receipt_id'' receipt_id t p eng)
         | None \<Rightarrow> find_row ''shadow_outcomes'' ''plan_id'' (JStr plan_id) t p eng) (\<lambda>outcome.
       Inr \<lparr>cr_execution_request = Some request, cr_gateway_decision = gateway, cr_decision_envelope = envelope,
            cr_authority_decision = authority, cr_shadow_execution_receipt = receipt, cr_shadow_outcome = outcome\<rparr>))))))))"

section \<open>The chain\<close>

text \<open>\<open>verify_scoped_chain\<close> with its \<open>LedgerIntegrityError\<close> caught: the heads, or the reason.\<close>

datatype replay_chain = ChainHeads "(string \<times> string option) list" | ChainBroken string

definition replay_chain_of :: "(string \<Rightarrow> string) \<Rightarrow> string \<Rightarrow> string \<Rightarrow> engine \<Rightarrow> replay_chain res" where
  "replay_chain_of H tenant_id project_id eng =
     (case engine_verify_scoped_chain H (Some tenant_id) (Some project_id) None eng of
        Inl (LedgerIntegrityError m) \<Rightarrow> Inr (ChainBroken m)
      | Inl e \<Rightarrow> Inl e
      | Inr report \<Rightarrow> Inr (ChainHeads (rep_heads report)))"

definition chain_heads :: "replay_chain \<Rightarrow> (string \<times> string option) list" where
  "chain_heads chain = (case chain of ChainHeads heads \<Rightarrow> heads | ChainBroken m \<Rightarrow> [])"

definition head_of :: "(string \<times> string option) list \<Rightarrow> string \<Rightarrow> string \<Rightarrow> string \<Rightarrow> json" where
  "head_of heads tenant_id project_id collection =
     (case map_of heads (chain_scope_label tenant_id project_id collection) of None \<Rightarrow> JNull | Some h \<Rightarrow> ostr h)"

section \<open>Invalid reasons\<close>

definition invalid_reason :: "string \<Rightarrow> string \<Rightarrow> json" where
  "invalid_reason check reason = JObj [(''check'', JStr check), (''status'', JStr ''invalid''), (''reason'', JStr reason)]"

definition reason_if :: "bool \<Rightarrow> string \<Rightarrow> string \<Rightarrow> json list" where
  "reason_if c check reason = (if c then [invalid_reason check reason] else [])"

text \<open>\<open>except ValueError\<close> and \<open>except (KeyError, TypeError)\<close> around a check: the exception becomes a reason.\<close>

fun caught :: "string \<Rightarrow> 'a res \<Rightarrow> json list res" where
  "caught check (Inr x) = Inr []"
| "caught check (Inl (ValueError m)) = Inr [invalid_reason check (err_text (ValueError m))]"
| "caught check (Inl (KeyError m)) = Inr [invalid_reason check (err_text (KeyError m))]"
| "caught check (Inl (TypeError m)) = Inr [invalid_reason check (err_text (TypeError m))]"
| "caught check (Inl e) = Inl e"

definition hav_reasons :: "world \<Rightarrow> string \<Rightarrow> string \<Rightarrow> pdict \<Rightarrow> json list res" where
  "hav_reasons w tenant_id project_id envelope =
     (case wd_signer w of
        None \<Rightarrow> Inr [invalid_reason ''hav_receipt'' ''receipt_signer_not_configured'']
      | Some s \<Rightarrow>
          bindE (as_dict (dget_or envelope ''hav_receipt'' (JObj []))) (\<lambda>receipt.
          bindE (receipt_verify (wd_mac w) s receipt) (\<lambda>ok.
          Inr (if \<not> ok then [invalid_reason ''hav_receipt'' ''invalid_hav_receipt_signature'']
               else reason_if (dget envelope ''tenant_id'' \<noteq> JStr tenant_id \<or> dget envelope ''project_id'' \<noteq> JStr project_id)
                 ''hav_receipt'' ''envelope_scope_mismatch''))))"

text \<open>\<open>a.get(k) != b.get(k)\<close> for two rows that are there.\<close>

definition link_reason :: "pdict option \<Rightarrow> pdict option \<Rightarrow> string \<Rightarrow> string \<Rightarrow> string \<Rightarrow> json list" where
  "link_reason a b key key' reason = (case (a, b) of
     (Some row, Some row') \<Rightarrow> reason_if (\<not> py_eq (dget row key) (dget row' key')) ''link'' reason
   | _ \<Rightarrow> [])"

definition checked_receipt_row :: "world \<Rightarrow> pdict \<Rightarrow> pdict \<Rightarrow> shadow_receipt res" where
  "checked_receipt_row w request receipt =
     bindE (execution_request_from_row (wd_hash w) (wd_now w 0) request) (\<lambda>execution_request.
     bindE (shadow_receipt_from_row (wd_now w 0) receipt) (\<lambda>shadow_receipt.
     validate_shadow_receipt w shadow_receipt execution_request))"

definition checked_outcome_row :: "world \<Rightarrow> pdict \<Rightarrow> pdict \<Rightarrow> pdict \<Rightarrow> shadow_outcome res" where
  "checked_outcome_row w request receipt outcome =
     bindE (execution_request_from_row (wd_hash w) (wd_now w 0) request) (\<lambda>execution_request.
     bindE (shadow_receipt_from_row (wd_now w 0) receipt) (\<lambda>shadow_receipt.
     bindE (shadow_outcome_from_dict (wd_now w 0) outcome) (\<lambda>shadow_outcome.
     validate_shadow_outcome w shadow_outcome execution_request shadow_receipt)))"

definition collect_invalid_reasons :: "world \<Rightarrow> string \<Rightarrow> string \<Rightarrow> chain_rows \<Rightarrow> json list res" where
  "collect_invalid_reasons w tenant_id project_id rows =
     (let envelope = cr_decision_envelope rows; authority = cr_authority_decision rows;
          gateway = cr_gateway_decision rows; receipt = cr_shadow_execution_receipt rows;
          outcome = cr_shadow_outcome rows
      in case cr_execution_request rows of None \<Rightarrow> Inr []
      | Some request \<Rightarrow>
        bindE (case envelope of None \<Rightarrow> Inr [] | Some e \<Rightarrow> hav_reasons w tenant_id project_id e) (\<lambda>hav.
        bindE (case receipt of None \<Rightarrow> Inr []
          | Some r \<Rightarrow> caught ''shadow_receipt'' (checked_receipt_row w request r)) (\<lambda>receipt_reasons.
        bindE (case (receipt, outcome) of
            (Some r, Some out) \<Rightarrow> caught ''shadow_outcome'' (checked_outcome_row w request r out)
          | _ \<Rightarrow> Inr []) (\<lambda>outcome_reasons.
        Inr (hav
          @ link_reason authority (Some request) ''envelope_id'' ''envelope_id'' ''authority_envelope_mismatch''
          @ link_reason gateway (Some request) ''plan_id'' ''plan_id'' ''gateway_plan_mismatch''
          @ receipt_reasons @ outcome_reasons
          @ link_reason (Some request) envelope ''envelope_id'' ''envelope_id'' ''request_envelope_mismatch''
          @ link_reason (Some request) authority ''authority_decision_id'' ''authority_decision_id'' ''request_authority_mismatch''
          @ link_reason outcome receipt ''shadow_receipt_id'' ''receipt_id'' ''outcome_receipt_mismatch''
          @ link_reason outcome (Some request) ''plan_id'' ''plan_id'' ''outcome_plan_mismatch''
          @ reason_if (dget request ''tenant_id'' \<noteq> JStr tenant_id) ''scope'' ''request_tenant_mismatch''
          @ reason_if (dget request ''project_id'' \<noteq> JStr project_id) ''scope'' ''request_project_mismatch'')))))"

section \<open>The manifest\<close>

definition extract_decision_identity :: "pdict \<Rightarrow> pdict" where
  "extract_decision_identity envelope = [
     (''subject'', JStr (py_str (dget_or envelope ''subject'' (JStr [])))),
     (''domain'', JStr (py_str (dget_or envelope ''domain'' (JStr [])))),
     (''decision_type'', JStr (py_str (dget_or envelope ''decision_type'' (JStr []))))]"

definition extract_outcome_snapshot :: "pdict \<Rightarrow> pdict" where
  "extract_outcome_snapshot outcome = [(''outcome_state'', dget_or outcome ''outcome_state'' (JStr []))]"

definition or_empty :: "pdict option \<Rightarrow> pdict" where
  "or_empty row = (case row of None \<Rightarrow> [] | Some d \<Rightarrow> d)"

definition record_hashes :: "(string \<Rightarrow> string) \<Rightarrow> chain_rows \<Rightarrow> pdict" where
  "record_hashes H rows = concat (map (\<lambda>(label, collection).
     case chain_row rows label of None \<Rightarrow> [] | Some row \<Rightarrow> [(label, JStr (record_hash H row))]) RECORD_HASH_KEYS)"

definition build_manifest :: "(string \<Rightarrow> string) \<Rightarrow> string \<Rightarrow> string \<Rightarrow> chain_rows \<Rightarrow> replay_chain \<Rightarrow> replay_manifest" where
  "build_manifest H tenant_id project_id rows chain =
     (let request = or_empty (cr_execution_request rows); envelope = or_empty (cr_decision_envelope rows);
          authority = or_empty (cr_authority_decision rows); gateway = or_empty (cr_gateway_decision rows);
          receipt = or_empty (cr_shadow_execution_receipt rows); outcome = or_empty (cr_shadow_outcome rows)
      in \<lparr>rm_envelope_id = py_str (dget_or envelope ''envelope_id'' (dget_or request ''envelope_id'' (JStr []))),
          rm_authority_decision_id = py_str (dget_or authority ''authority_decision_id''
            (dget_or request ''authority_decision_id'' (JStr []))),
          rm_plan_id = py_str (dget_or request ''plan_id'' (JStr [])),
          rm_gateway_decision_id = py_str (dget_or gateway ''gateway_decision_id'' (JStr [])),
          rm_shadow_receipt_id = py_str (dget_or receipt ''receipt_id'' (JStr [])),
          rm_outcome_id = py_str (dget_or outcome ''outcome_id'' (JStr [])),
          rm_tenant_id = tenant_id, rm_project_id = project_id,
          rm_record_hashes = record_hashes H rows,
          rm_policy_versions = [
            (''hav'', JStr HAV_POLICY_VERSION),
            (''grdi_authority'', dget_or authority ''policy_version'' (JStr GRDI_POLICY_VERSION)),
            (''grdi_gateway'', dget_or gateway ''policy_version'' (JStr GRDI_GATEWAY_POLICY_VERSION)),
            (''grdi_outcome'', JStr GRDI_OUTCOME_POLICY_VERSION)],
          rm_protocol_versions = [
            (''core'', JStr CORE_VERSION),
            (''grdi'', JStr GRDI_VERSION),
            (''protocol'', JStr PROTOCOL_VERSION),
            (''outcome_ledger'', JStr GRDI_OUTCOME_LEDGER_PROTOCOL_VERSION),
            (''replay_audit'', JStr GRDI_REPLAY_AUDIT_PROTOCOL_VERSION)],
          rm_decision_identity = (if envelope = [] then empty_identity else extract_decision_identity envelope),
          rm_outcome_snapshot = (if outcome = [] then [] else extract_outcome_snapshot outcome),
          rm_source_chain_heads = map (\<lambda>c. (c, head_of (chain_heads chain) tenant_id project_id c)) GRDI_CHAIN_COLLECTIONS\<rparr>)"

section \<open>Checking a stored report\<close>

definition claims_execution :: "replay_report \<Rightarrow> pdict \<Rightarrow> bool" where
  "claims_execution report signed \<longleftrightarrow>
     rr_replay_executed report \<or> truthy (dget signed ''replay_executed'') \<or>
     rr_action_executed report \<or> truthy (dget signed ''action_executed'') \<or>
     rr_simulation_rerun report \<or> truthy (dget signed ''simulation_rerun'') \<or>
     rr_connector_invoked report \<or> truthy (dget signed ''connector_invoked'') \<or>
     rr_external_side_effects report \<or> truthy (dget signed ''external_side_effects'')"

definition require_execution_invariants :: "replay_report \<Rightarrow> pdict \<Rightarrow> unit res" where
  "require_execution_invariants report signed =
     bindE (raise_if (claims_execution report signed) (ValueError ''replay_execution_claim_invalid'')) (\<lambda>_.
     bindE (raise_if (rr_execution_state report \<noteq> ES_NOT_EXECUTED) (ValueError ''replay_execution_state_invalid'')) (\<lambda>_.
     raise_if (dget signed ''execution_state'' \<noteq> JStr (execution_state_value ES_NOT_EXECUTED))
       (ValueError ''replay_signed_execution_state_invalid'')))"

definition validate_report_historical :: "world \<Rightarrow> replay_report \<Rightarrow> unit res" where
  "validate_report_historical w report =
     (let signed = rr_signed_replay report in
     bindE (check_signature w signed ''invalid_replay_signature'') (\<lambda>_.
     bindE (require_match (JStr (rr_replay_id report)) (dget signed ''replay_id'') ''replay_id_mismatch'') (\<lambda>_.
     bindE (require_match (JStr (rr_plan_id report)) (dget signed ''plan_id'') ''replay_plan_mismatch'') (\<lambda>_.
     bindE (require_match (JStr (rr_outcome_id report)) (dget signed ''outcome_id'') ''replay_outcome_mismatch'') (\<lambda>_.
     bindE (require_match (JStr (rr_tenant_id report)) (dget signed ''tenant_id'') ''replay_tenant_mismatch'') (\<lambda>_.
     bindE (require_match (JStr (rr_project_id report)) (dget signed ''project_id'') ''replay_project_mismatch'') (\<lambda>_.
     bindE (require_match (JStr (rr_requested_by report)) (dget signed ''requested_by'') ''replay_requested_by_mismatch'') (\<lambda>_.
     bindE (require_match (JStr (rr_manifest_hash report)) (dget signed ''manifest_hash'') ''replay_manifest_hash_mismatch'') (\<lambda>_.
     bindE (require_match (JObj (replay_manifest_to_dict (rr_manifest report))) (dget signed ''manifest'') ''replay_manifest_mismatch'') (\<lambda>_.
     bindE (require_match (JStr (replay_state_value (rr_replay_state report))) (dget signed ''replay_state'') ''replay_state_mismatch'') (\<lambda>_.
     bindE (require_match (JArr (rr_validation_results report)) (dget_or signed ''validation_results'' (JArr []))
       ''replay_validation_results_mismatch'') (\<lambda>_.
     bindE (require_match (jstrs (rr_drift_reasons report)) (dget_or signed ''drift_reasons'' (JArr []))
       ''replay_drift_reasons_mismatch'') (\<lambda>_.
     bindE (require_match (JStr (rr_created_at report)) (dget signed ''created_at'') ''replay_created_at_mismatch'') (\<lambda>_.
     bindE (require_match (JStr (rr_version report)) (dget signed ''version'') ''replay_version_mismatch'') (\<lambda>_.
     bindE (require_execution_invariants report signed) (\<lambda>_.
     raise_if (manifest_hash (wd_hash w) (rr_manifest report) \<noteq> rr_manifest_hash report)
       (ValueError ''replay_manifest_hash_recompute_mismatch'')))))))))))))))))"

section \<open>Drift against the ledger\<close>

definition hash_drifts :: "(string \<Rightarrow> string) \<Rightarrow> replay_manifest \<Rightarrow> chain_rows \<Rightarrow> string list" where
  "hash_drifts H manifest rows = concat (map (\<lambda>(label, collection).
     let expected = dget (rm_record_hashes manifest) label in
     case chain_row rows label of
       None \<Rightarrow> if expected = JNull then [] else [''source_missing:'' @ label]
     | Some row \<Rightarrow> if expected \<noteq> JStr (record_hash H row) then [''source_hash_mismatch:'' @ label] else []) RECORD_HASH_KEYS)"

definition head_drifts :: "replay_report \<Rightarrow> (string \<times> string option) list \<Rightarrow> string list" where
  "head_drifts report heads = concat (map (\<lambda>(collection, head).
     if \<not> py_eq head (head_of heads (rr_tenant_id report) (rr_project_id report) collection)
     then [''chain_head_changed:'' @ collection] else []) (rm_source_chain_heads (rr_manifest report)))"

definition content_drifts :: "replay_manifest \<Rightarrow> chain_rows \<Rightarrow> string list" where
  "content_drifts manifest rows =
     (let envelope = or_empty (cr_decision_envelope rows); outcome = or_empty (cr_shadow_outcome rows) in
      (if envelope \<noteq> [] \<and> rm_decision_identity manifest \<noteq> []
          \<and> \<not> py_eq (JObj (extract_decision_identity envelope)) (JObj (rm_decision_identity manifest))
       then [''source_identity_mismatch''] else [])
    @ (if outcome \<noteq> [] \<and> rm_outcome_snapshot manifest \<noteq> []
          \<and> \<not> py_eq (JObj (extract_outcome_snapshot outcome)) (JObj (rm_outcome_snapshot manifest))
       then [''source_outcome_snapshot_mismatch''] else []))"

definition validate_report_against_sources :: "world \<Rightarrow> replay_report \<Rightarrow> engine \<Rightarrow> string list res" where
  "validate_report_against_sources w report eng =
     bindE (load_chain_rows (rr_plan_id report) (rr_tenant_id report) (rr_project_id report) eng) (\<lambda>rows.
     let drifts = hash_drifts (wd_hash w) (rr_manifest report) rows in
     bindE (replay_chain_of (wd_hash w) (rr_tenant_id report) (rr_project_id report) eng) (\<lambda>chain.
     Inr (case chain of
         ChainBroken m \<Rightarrow> drifts @ [''source_chain_invalid:'' @ m]
       | ChainHeads heads \<Rightarrow> drifts @ head_drifts report heads @ content_drifts (rr_manifest report) rows)))"

definition validate_report :: "world \<Rightarrow> bool \<Rightarrow> replay_report \<Rightarrow> engine \<Rightarrow> replay_report res" where
  "validate_report w verify_sources report eng =
     bindE (validate_report_historical w report) (\<lambda>_.
     if verify_sources
     then bindE (validate_report_against_sources w report eng) (\<lambda>drifts.
          bindE (raise_if (drifts \<noteq> []) (ValueError (''replay_source_drift:'' @ join '';'' drifts))) (\<lambda>_. Inr report))
     else Inr report)"

section \<open>The state of a replay\<close>

definition list_prior_reports :: "string \<Rightarrow> string \<Rightarrow> string \<Rightarrow> engine \<Rightarrow> pdict list res" where
  "list_prior_reports plan_id tenant_id project_id eng =
     bindE (engine_list_scoped ''replay_reports'' tenant_id project_id MAX_LIST_LIMIT 0 eng) (\<lambda>rows.
     Inr (filter (\<lambda>row. dget row ''plan_id'' = JStr plan_id) rows))"

definition read_prior_report :: "world \<Rightarrow> pdict \<Rightarrow> replay_report res" where
  "read_prior_report w row =
     bindE (replay_report_from_dict (wd_now w 0) row) (\<lambda>report.
     bindE (validate_report_historical w report) (\<lambda>_. Inr report))"

definition skipped_text :: "pdict \<Rightarrow> err \<Rightarrow> string" where
  "skipped_text row e = ''prior_replay_invalid:'' @ py_str (dget row ''replay_id'') @ '':'' @ err_text e"

definition value_key_or_type_error :: "err \<Rightarrow> bool" where
  "value_key_or_type_error e \<longleftrightarrow> (case e of ValueError m \<Rightarrow> True | KeyError m \<Rightarrow> True | TypeError m \<Rightarrow> True | _ \<Rightarrow> False)"

text \<open>The loop with \<open>except (ValueError, KeyError, TypeError)\<close>: the reports that pass, and a text for each that does not.\<close>

fun sort_prior_reports :: "world \<Rightarrow> pdict list \<Rightarrow> (replay_report list \<times> string list) res" where
  "sort_prior_reports w [] = Inr ([], [])"
| "sort_prior_reports w (row # rows) = (case read_prior_report w row of
     Inr report \<Rightarrow> bindE (sort_prior_reports w rows) (\<lambda>(valid, skipped). Inr (report # valid, skipped))
   | Inl e \<Rightarrow> (if value_key_or_type_error e
       then bindE (sort_prior_reports w rows) (\<lambda>(valid, skipped). Inr (valid, skipped_text row e # skipped))
       else Inl e))"

definition validated_prior_reports :: "world \<Rightarrow> string \<Rightarrow> string \<Rightarrow> string \<Rightarrow> engine \<Rightarrow> (replay_report list \<times> string list) res" where
  "validated_prior_reports w plan_id tenant_id project_id eng =
     bindE (list_prior_reports plan_id tenant_id project_id eng) (sort_prior_reports w)"

text \<open>One loop over the items of a dictionary of the manifest, against the one of the reference.\<close>

definition changed_entries :: "string \<Rightarrow> pdict \<Rightarrow> pdict \<Rightarrow> string list" where
  "changed_entries label current reference = concat (map (\<lambda>(key, v).
     if \<not> py_eq (dget reference key) v then [label @ '':'' @ key] else []) current)"

definition manifest_drifts :: "replay_manifest \<Rightarrow> replay_manifest \<Rightarrow> string list" where
  "manifest_drifts manifest reference =
     changed_entries ''record_hash_changed'' (rm_record_hashes manifest) (rm_record_hashes reference)
   @ changed_entries ''policy_version_changed'' (rm_policy_versions manifest) (rm_policy_versions reference)
   @ changed_entries ''protocol_version_changed'' (rm_protocol_versions manifest) (rm_protocol_versions reference)
   @ changed_entries ''decision_identity_changed'' (rm_decision_identity manifest) (rm_decision_identity reference)
   @ changed_entries ''outcome_snapshot_changed'' (rm_outcome_snapshot manifest) (rm_outcome_snapshot reference)"

definition has_status :: "string \<Rightarrow> json \<Rightarrow> bool" where
  "has_status status item = (case item of JObj d \<Rightarrow> dget d ''status'' = JStr status | _ \<Rightarrow> False)"

definition determine_replay_state ::
  "world \<Rightarrow> string \<Rightarrow> string \<Rightarrow> string \<Rightarrow> replay_manifest \<Rightarrow> string \<Rightarrow> json list \<Rightarrow> engine \<Rightarrow> (replay_state \<times> string list) res" where
  "determine_replay_state w plan_id tenant_id project_id manifest manifest_hash_value validation_results eng =
     (if list_ex (has_status ''invalid'') validation_results then Inr (RS_INVALID, [])
      else if list_ex (has_status ''incomplete'') validation_results then Inr (RS_INCOMPLETE, [])
      else bindE (validated_prior_reports w plan_id tenant_id project_id eng) (\<lambda>(prior_valid, skipped).
        if list_ex (\<lambda>item. rr_manifest_hash item = manifest_hash_value) prior_valid then Inr (RS_REPRODUCED, skipped)
        else if prior_valid \<noteq> []
        then (let drift_reasons = skipped @ manifest_drifts manifest (rr_manifest (last prior_valid))
              in Inr (if drift_reasons \<noteq> [] then RS_DRIFTED else RS_REPRODUCED, drift_reasons))
        else Inr (RS_REPRODUCED, skipped)))"

section \<open>Building a report\<close>

definition chain_results :: "replay_chain \<Rightarrow> json list" where
  "chain_results chain = (case chain of ChainHeads heads \<Rightarrow> []
   | ChainBroken m \<Rightarrow> [JObj [(''check'', JStr ''ledger_chain''), (''status'', JStr ''invalid''), (''reason'', JStr m),
       (''collection'', JNull)]])"

definition missing_results :: "chain_rows \<Rightarrow> json list" where
  "missing_results rows = (let missing = map fst (filter (\<lambda>(name, row). row = None) (chain_row_items rows)) in
     if missing = [] then [] else [JObj [(''check'', JStr ''chain_components''), (''status'', JStr ''incomplete''),
       (''missing'', jstrs missing)]])"

definition signed_replay_body :: "replay_report \<Rightarrow> pdict" where
  "signed_replay_body report = [
     (''replay_id'', JStr (rr_replay_id report)),
     (''plan_id'', JStr (rr_plan_id report)),
     (''outcome_id'', JStr (rr_outcome_id report)),
     (''tenant_id'', JStr (rr_tenant_id report)),
     (''project_id'', JStr (rr_project_id report)),
     (''requested_by'', JStr (rr_requested_by report)),
     (''manifest'', JObj (replay_manifest_to_dict (rr_manifest report))),
     (''manifest_hash'', JStr (rr_manifest_hash report)),
     (''replay_state'', JStr (replay_state_value (rr_replay_state report))),
     (''validation_results'', JArr (rr_validation_results report)),
     (''drift_reasons'', jstrs (rr_drift_reasons report)),
     (''replay_executed'', JBool False),
     (''action_executed'', JBool False),
     (''simulation_rerun'', JBool False),
     (''connector_invoked'', JBool False),
     (''external_side_effects'', JBool False),
     (''execution_state'', JStr (execution_state_value ES_NOT_EXECUTED)),
     (''policy_id'', JStr GRDI_REPLAY_POLICY_ID),
     (''policy_version'', JStr GRDI_REPLAY_POLICY_VERSION),
     (''created_at'', JStr (rr_created_at report)),
     (''version'', JStr (rr_version report))]"

definition draft_report ::
  "string \<Rightarrow> string \<Rightarrow> string \<Rightarrow> string \<Rightarrow> string \<Rightarrow> string \<Rightarrow> replay_manifest \<Rightarrow> string \<Rightarrow> replay_state \<Rightarrow> json list \<Rightarrow> string list
   \<Rightarrow> replay_report" where
  "draft_report replay_id created_at plan_id tenant_id project_id requested_by manifest computed_hash state results drifts =
     \<lparr>rr_replay_id = replay_id, rr_plan_id = plan_id, rr_outcome_id = rm_outcome_id manifest, rr_tenant_id = tenant_id,
      rr_project_id = project_id, rr_requested_by = requested_by, rr_manifest = manifest, rr_manifest_hash = computed_hash,
      rr_replay_state = state, rr_validation_results = results, rr_drift_reasons = drifts, rr_replay_executed = False,
      rr_action_executed = False, rr_simulation_rerun = False, rr_connector_invoked = False,
      rr_external_side_effects = False, rr_execution_state = ES_NOT_EXECUTED, rr_signed_replay = [],
      rr_created_at = created_at, rr_version = GRDI_VERSION\<rparr>"

text \<open>\<open>n\<close> counts the reports built in one call of the service.\<close>

definition build_report ::
  "world \<Rightarrow> nat \<Rightarrow> string \<Rightarrow> string \<Rightarrow> string \<Rightarrow> string \<Rightarrow> engine \<Rightarrow> replay_report res" where
  "build_report w n plan_id tenant_id project_id requested_by eng =
     bindE (load_chain_rows plan_id tenant_id project_id eng) (\<lambda>rows.
     bindE (replay_chain_of (wd_hash w) tenant_id project_id eng) (\<lambda>chain.
     bindE (collect_invalid_reasons w tenant_id project_id rows) (\<lambda>invalid_reasons.
     let validation_results = chain_results chain @ missing_results rows @ invalid_reasons;
         manifest = build_manifest (wd_hash w) tenant_id project_id rows chain;
         computed_hash = manifest_hash (wd_hash w) manifest in
     bindE (determine_replay_state w plan_id tenant_id project_id manifest computed_hash validation_results eng)
       (\<lambda>(replay_state, drift_reasons).
     let draft = draft_report (wd_id w n) (wd_now w (n + 1)) plan_id tenant_id project_id requested_by manifest computed_hash
           replay_state validation_results drift_reasons in
     with_signer w (\<lambda>s. Inr (draft\<lparr>rr_signed_replay := receipt_sign (wd_mac w) s (signed_replay_body draft)\<rparr>))))))"

section \<open>Comparing two reports\<close>

definition identity_of :: "replay_manifest \<Rightarrow> json list" where
  "identity_of manifest = map (\<lambda>k. dget_or (rm_decision_identity manifest) k (JStr [])) [''subject'', ''domain'', ''decision_type'']"

definition difference :: "string \<Rightarrow> json \<Rightarrow> json \<Rightarrow> json list" where
  "difference path baseline candidate = (if \<not> py_eq baseline candidate
     then [JObj [(''path'', JStr path), (''baseline'', baseline), (''candidate'', candidate)]] else [])"

text \<open>The loop over \<open>sorted(set(a) | set(b))\<close>.\<close>

definition dict_differences :: "string \<Rightarrow> pdict \<Rightarrow> pdict \<Rightarrow> json list" where
  "dict_differences path baseline candidate = concat (map (\<lambda>key.
     difference (path @ key) (dget baseline key) (dget candidate key)) (sort (remdups (dkeys baseline @ dkeys candidate))))"

definition manifest_ids :: "replay_manifest \<Rightarrow> (string \<times> string) list" where
  "manifest_ids m = [
     (''envelope_id'', rm_envelope_id m), (''authority_decision_id'', rm_authority_decision_id m),
     (''plan_id'', rm_plan_id m), (''gateway_decision_id'', rm_gateway_decision_id m),
     (''shadow_receipt_id'', rm_shadow_receipt_id m), (''outcome_id'', rm_outcome_id m)]"

record pair_comparison =
  pc_state :: comparison_state
  pc_structural :: "json list"
  pc_hashes :: "json list"
  pc_policies :: "json list"
  pc_outcomes :: "json list"

definition only_state :: "comparison_state \<Rightarrow> pair_comparison" where
  "only_state s = \<lparr>pc_state = s, pc_structural = [], pc_hashes = [], pc_policies = [], pc_outcomes = []\<rparr>"

definition compare_pair :: "replay_report \<Rightarrow> replay_report \<Rightarrow> pair_comparison" where
  "compare_pair baseline candidate =
     (let bm = rr_manifest baseline; cm = rr_manifest candidate in
      if rr_replay_state baseline \<in> {RS_INVALID, RS_INCOMPLETE} \<or> rr_replay_state candidate \<in> {RS_INVALID, RS_INCOMPLETE}
      then only_state CS_INVALID
      else if rr_tenant_id baseline \<noteq> rr_tenant_id candidate \<or> rr_project_id baseline \<noteq> rr_project_id candidate
      then only_state CS_INVALID
      else if \<not> py_eq (JArr (identity_of bm)) (JArr (identity_of cm)) then only_state CS_NOT_COMPARABLE
      else if rr_manifest_hash baseline = rr_manifest_hash candidate then only_state CS_EQUIVALENT
      else \<lparr>pc_state = CS_DIFFERENT,
        pc_structural = concat (map (\<lambda>((field, a), (field', b)). difference (''manifest.'' @ field) (JStr a) (JStr b))
            (zip (manifest_ids bm) (manifest_ids cm)))
          @ difference ''replay_state'' (JStr (replay_state_value (rr_replay_state baseline)))
              (JStr (replay_state_value (rr_replay_state candidate))),
        pc_hashes = dict_differences ''manifest.record_hashes.'' (rm_record_hashes bm) (rm_record_hashes cm),
        pc_policies = dict_differences ''manifest.policy_versions.'' (rm_policy_versions bm) (rm_policy_versions cm),
        pc_outcomes = dict_differences ''outcome.'' (rm_outcome_snapshot bm) (rm_outcome_snapshot cm)\<rparr>)"

definition signed_comparison_body :: "historical_comparison \<Rightarrow> pdict" where
  "signed_comparison_body c = [
     (''comparison_id'', JStr (hc_comparison_id c)),
     (''baseline_replay_id'', JStr (hc_baseline_replay_id c)),
     (''candidate_replay_id'', JStr (hc_candidate_replay_id c)),
     (''tenant_id'', JStr (hc_tenant_id c)),
     (''project_id'', JStr (hc_project_id c)),
     (''requested_by'', JStr (hc_requested_by c)),
     (''comparison_state'', JStr (comparison_state_value (hc_comparison_state c))),
     (''structural_differences'', JArr (hc_structural_differences c)),
     (''hash_differences'', JArr (hc_hash_differences c)),
     (''policy_differences'', JArr (hc_policy_differences c)),
     (''outcome_differences'', JArr (hc_outcome_differences c)),
     (''comparison_key'', JStr (hc_comparison_key c)),
     (''policy_id'', JStr GRDI_REPLAY_POLICY_ID),
     (''policy_version'', JStr GRDI_REPLAY_POLICY_VERSION),
     (''created_at'', JStr (hc_created_at c)),
     (''version'', JStr (hc_version c))]"

definition draft_comparison :: "world \<Rightarrow> replay_report \<Rightarrow> replay_report \<Rightarrow> string \<Rightarrow> historical_comparison" where
  "draft_comparison w baseline candidate requested_by =
     (let pair = compare_pair baseline candidate in
      \<lparr>hc_comparison_id = wd_id w 0, hc_baseline_replay_id = rr_replay_id baseline,
       hc_candidate_replay_id = rr_replay_id candidate, hc_tenant_id = rr_tenant_id baseline,
       hc_project_id = rr_project_id baseline, hc_requested_by = requested_by, hc_comparison_state = pc_state pair,
       hc_structural_differences = pc_structural pair, hc_hash_differences = pc_hashes pair,
       hc_policy_differences = pc_policies pair, hc_outcome_differences = pc_outcomes pair,
       hc_comparison_key = comparison_key (wd_hash w) (rr_replay_id baseline) (rr_replay_id candidate),
       hc_signed_comparison = [], hc_created_at = wd_now w 1, hc_version = GRDI_VERSION\<rparr>)"

definition compare_reports :: "world \<Rightarrow> replay_report \<Rightarrow> replay_report \<Rightarrow> string \<Rightarrow> engine \<Rightarrow> historical_comparison res" where
  "compare_reports w baseline candidate requested_by eng =
     bindE (validate_report w False baseline eng) (\<lambda>_.
     bindE (validate_report w False candidate eng) (\<lambda>_.
     let draft = draft_comparison w baseline candidate requested_by in
     with_signer w (\<lambda>s. Inr (draft\<lparr>hc_signed_comparison := receipt_sign (wd_mac w) s (signed_comparison_body draft)\<rparr>))))"

definition validate_comparison :: "world \<Rightarrow> historical_comparison \<Rightarrow> historical_comparison res" where
  "validate_comparison w c =
     (let signed = hc_signed_comparison c in
     bindE (check_signature w signed ''invalid_comparison_signature'') (\<lambda>_.
     bindE (require_match (JStr (hc_comparison_id c)) (dget signed ''comparison_id'') ''comparison_id_mismatch'') (\<lambda>_.
     bindE (require_match (JStr (hc_baseline_replay_id c)) (dget signed ''baseline_replay_id'') ''comparison_baseline_mismatch'') (\<lambda>_.
     bindE (require_match (JStr (hc_candidate_replay_id c)) (dget signed ''candidate_replay_id'') ''comparison_candidate_mismatch'') (\<lambda>_.
     bindE (require_match (JStr (hc_tenant_id c)) (dget signed ''tenant_id'') ''comparison_tenant_mismatch'') (\<lambda>_.
     bindE (require_match (JStr (hc_project_id c)) (dget signed ''project_id'') ''comparison_project_mismatch'') (\<lambda>_.
     bindE (require_match (JStr (hc_requested_by c)) (dget signed ''requested_by'') ''comparison_requested_by_mismatch'') (\<lambda>_.
     bindE (require_match (JStr (comparison_state_value (hc_comparison_state c))) (dget signed ''comparison_state'')
       ''comparison_state_mismatch'') (\<lambda>_.
     bindE (require_match (JArr (hc_structural_differences c)) (dget_or signed ''structural_differences'' (JArr []))
       ''comparison_structural_differences_mismatch'') (\<lambda>_.
     bindE (require_match (JArr (hc_hash_differences c)) (dget_or signed ''hash_differences'' (JArr []))
       ''comparison_hash_differences_mismatch'') (\<lambda>_.
     bindE (require_match (JArr (hc_policy_differences c)) (dget_or signed ''policy_differences'' (JArr []))
       ''comparison_policy_differences_mismatch'') (\<lambda>_.
     bindE (require_match (JArr (hc_outcome_differences c)) (dget_or signed ''outcome_differences'' (JArr []))
       ''comparison_outcome_differences_mismatch'') (\<lambda>_.
     bindE (require_match (JStr (hc_created_at c)) (dget signed ''created_at'') ''comparison_created_at_mismatch'') (\<lambda>_.
     bindE (require_match (JStr (hc_version c)) (dget signed ''version'') ''comparison_version_mismatch'') (\<lambda>_.
     bindE (require_match (JStr (hc_comparison_key c)) (dget signed ''comparison_key'') ''comparison_key_mismatch'') (\<lambda>_.
     bindE (raise_if (hc_comparison_key c \<noteq> comparison_key (wd_hash w) (hc_baseline_replay_id c) (hc_candidate_replay_id c))
       (ValueError ''comparison_key_recompute_mismatch'')) (\<lambda>_.
     Inr c)))))))))))))))))"

end
