(* ===== verification/Grdi_Replay_Service.thy ===== *)
theory Grdi_Replay_Service
  imports Grdi_Replay
begin

text \<open>
  The replay handlers of \<^verbatim>\<open>src/src/phigraph/grdi/service.py\<close>. Creating a report and comparing two run two
  transactions: one takes the snapshot, whose hashes name the locks of the other, which takes it again, refuses when it
  changed in between, and stores it unless it is stored already.
\<close>

section \<open>Reports\<close>

definition stored_report :: "world \<Rightarrow> pdict \<Rightarrow> engine \<Rightarrow> pdict res" where
  "stored_report w row eng =
     bindE (replay_report_from_dict (wd_now w 0) row) (\<lambda>report.
     bindE (validate_report w False report eng) (\<lambda>checked. Inr (replay_report_to_dict checked)))"

definition commit_replay :: "world \<Rightarrow> string \<Rightarrow> string \<Rightarrow> string \<Rightarrow> string \<Rightarrow> replay_report \<Rightarrow> (engine, pdict) act" where
  "commit_replay w plan_id tenant_id project_id requested_by report =
     bindS (readS (build_report w 1 plan_id tenant_id project_id requested_by)) (\<lambda>rebuilt.
     bindS (liftS (raise_if (rr_manifest_hash rebuilt \<noteq> rr_manifest_hash report)
       (ValueError ''replay_snapshot_changed_during_persist''))) (\<lambda>_.
     if_not_found
       (bindS (session_get_scoped tenant_id project_id ''replay_reports'' (rr_manifest_hash rebuilt)) (\<lambda>existing.
        readS (stored_report w existing)))
       (bindS (session_append_scoped_once (wd_hash w) (wd_clk w 0) tenant_id project_id ''replay_reports''
          (replay_report_to_dict rebuilt) (rr_manifest_hash rebuilt)) (\<lambda>(row, created).
        readS (stored_report w row)))))"

definition create_replay_report :: "world \<Rightarrow> string \<Rightarrow> string \<Rightarrow> string \<Rightarrow> string \<Rightarrow> (engine, pdict) act" where
  "create_replay_report w plan_id tenant_id project_id requested_by =
     bindS (readS (get_execution_request w plan_id tenant_id project_id)) (\<lambda>_.
     bindS (liftS (replay_snapshot_locks tenant_id project_id plan_id)) (\<lambda>snapshot_locks.
     bindS (run_scoped_transaction tenant_id project_id snapshot_locks
       (readS (build_report w 0 plan_id tenant_id project_id requested_by))) (\<lambda>report.
     bindS (liftS (replay_locks tenant_id project_id plan_id (rr_manifest_hash report))) (\<lambda>persist.
     run_scoped_transaction tenant_id project_id (snapshot_locks @ persist)
       (commit_replay w plan_id tenant_id project_id requested_by report)))))"

definition get_replay_report :: "world \<Rightarrow> string \<Rightarrow> string \<Rightarrow> string \<Rightarrow> engine \<Rightarrow> pdict res" where
  "get_replay_report w replay_id tenant_id project_id eng =
     bindE (find_scoped_row ''replay_reports'' ''replay_id'' replay_id tenant_id project_id
       ''replay_report_not_found_in_scope'' eng) (\<lambda>row.
     bindE (replay_report_from_dict (wd_now w 0) row) (\<lambda>report.
     bindE (validate_report w True report eng) (\<lambda>checked. Inr (replay_report_to_dict checked))))"

definition list_replays_for_plan :: "world \<Rightarrow> string \<Rightarrow> string \<Rightarrow> string \<Rightarrow> engine \<Rightarrow> pdict list res" where
  "list_replays_for_plan w plan_id tenant_id project_id eng =
     bindE (engine_list_scoped ''replay_reports'' tenant_id project_id MAX_LIST_LIMIT 0 eng) (\<lambda>rows.
     mapE (\<lambda>row.
       bindE (replay_report_from_dict (wd_now w 0) row) (\<lambda>report.
       bindE (validate_report w True report eng) (\<lambda>checked. Inr (replay_report_to_dict checked))))
       (filter (\<lambda>row. dget (strip_scoped row) ''plan_id'' = JStr plan_id) rows))"

section \<open>Comparisons\<close>

definition load_pair :: "world \<Rightarrow> string \<Rightarrow> string \<Rightarrow> string \<Rightarrow> string \<Rightarrow> engine \<Rightarrow> (replay_report \<times> replay_report) res" where
  "load_pair w baseline_replay_id candidate_replay_id tenant_id project_id eng =
     bindE (find_scoped_row ''replay_reports'' ''replay_id'' baseline_replay_id tenant_id project_id
       ''replay_report_not_found_in_scope'' eng) (\<lambda>baseline_row.
     bindE (find_scoped_row ''replay_reports'' ''replay_id'' candidate_replay_id tenant_id project_id
       ''replay_report_not_found_in_scope'' eng) (\<lambda>candidate_row.
     bindE (replay_report_from_dict (wd_now w 0) baseline_row) (\<lambda>baseline.
     bindE (replay_report_from_dict (wd_now w 0) candidate_row) (\<lambda>candidate. Inr (baseline, candidate)))))"

definition stored_comparison :: "world \<Rightarrow> pdict \<Rightarrow> pdict res" where
  "stored_comparison w row =
     bindE (historical_comparison_from_dict (wd_now w 0) row) (\<lambda>c.
     bindE (validate_comparison w c) (\<lambda>checked. Inr (historical_comparison_to_dict checked)))"

definition commit_comparison ::
  "world \<Rightarrow> string \<Rightarrow> string \<Rightarrow> string \<Rightarrow> string \<Rightarrow> string \<Rightarrow> replay_report \<Rightarrow> replay_report \<Rightarrow> (engine, pdict) act" where
  "commit_comparison w baseline_replay_id candidate_replay_id tenant_id project_id requested_by baseline candidate =
     bindS (readS (load_pair w baseline_replay_id candidate_replay_id tenant_id project_id)) (\<lambda>(baseline_fresh, candidate_fresh).
     bindS (liftS (raise_if (rr_manifest_hash baseline_fresh \<noteq> rr_manifest_hash baseline)
       (ValueError ''comparison_baseline_changed_during_persist''))) (\<lambda>_.
     bindS (liftS (raise_if (rr_manifest_hash candidate_fresh \<noteq> rr_manifest_hash candidate)
       (ValueError ''comparison_candidate_changed_during_persist''))) (\<lambda>_.
     bindS (readS (compare_reports w baseline_fresh candidate_fresh requested_by)) (\<lambda>c.
     if_not_found
       (bindS (session_get_scoped tenant_id project_id ''historical_comparisons'' (hc_comparison_key c)) (\<lambda>existing.
        liftS (stored_comparison w existing)))
       (bindS (session_append_scoped_once (wd_hash w) (wd_clk w 0) tenant_id project_id ''historical_comparisons''
          (historical_comparison_to_dict c) (hc_comparison_key c)) (\<lambda>(row, created).
        liftS (stored_comparison w row)))))))"

definition compare_replays ::
  "world \<Rightarrow> string \<Rightarrow> string \<Rightarrow> string \<Rightarrow> string \<Rightarrow> string \<Rightarrow> (engine, pdict) act" where
  "compare_replays w baseline_replay_id candidate_replay_id tenant_id project_id requested_by =
     bindS (liftS (comparison_snapshot_locks tenant_id project_id)) (\<lambda>snapshot_locks.
     bindS (run_scoped_transaction tenant_id project_id snapshot_locks
       (readS (load_pair w baseline_replay_id candidate_replay_id tenant_id project_id))) (\<lambda>(baseline, candidate).
     bindS (liftS (comparison_locks tenant_id project_id (rr_manifest_hash baseline) (rr_manifest_hash candidate)
       (comparison_key (wd_hash w) baseline_replay_id candidate_replay_id))) (\<lambda>persist.
     run_scoped_transaction tenant_id project_id (snapshot_locks @ persist)
       (commit_comparison w baseline_replay_id candidate_replay_id tenant_id project_id requested_by baseline candidate))))"

definition get_historical_comparison :: "world \<Rightarrow> string \<Rightarrow> string \<Rightarrow> string \<Rightarrow> engine \<Rightarrow> pdict res" where
  "get_historical_comparison w comparison_id tenant_id project_id eng =
     bindE (find_scoped_row ''historical_comparisons'' ''comparison_id'' comparison_id tenant_id project_id
       ''historical_comparison_not_found_in_scope'' eng) (stored_comparison w)"

end
