(* ===== verification/Grdi_Replay_Facts.thy ===== *)
theory Grdi_Replay_Facts
  imports Grdi_Lock_Facts Grdi_Frame Grdi_Replay_Service
begin

text \<open>
  The replay handlers in the program logics of the service: what they read and store is well formed (\<open>moves\<close>), the
  locks they declare cover what they append (\<open>never\<close>), and they keep the frame of a transaction (\<open>framed\<close>).
\<close>

section \<open>Well-formed rows\<close>

definition rows_wf :: "chain_rows \<Rightarrow> bool" where
  "rows_wf rows \<longleftrightarrow> list_all (\<lambda>(label, row). list_all dwf (case row of None \<Rightarrow> [] | Some d \<Rightarrow> [d])) (chain_row_items rows)"

lemma rows_wf_simps:
  "rows_wf rows \<longleftrightarrow> list_all (\<lambda>row. \<forall>d. row = Some d \<longrightarrow> dwf d) [cr_execution_request rows, cr_gateway_decision rows,
     cr_decision_envelope rows, cr_authority_decision rows, cr_shadow_execution_receipt rows, cr_shadow_outcome rows]"
  by (simp add: rows_wf_def chain_row_items_def split: option.split)

lemma list_rows_wf:
  "engine_ok H eng \<Longrightarrow> engine_list_scoped c t p l off eng = Inr rows \<Longrightarrow> row \<in> set rows \<Longrightarrow> dwf row"
proof -
  assume ok: "engine_ok H eng" and run: "engine_list_scoped c t p l off eng = Inr rows" and row: "row \<in> set rows"
  then obtain st where st: "current_state eng = Inr st" "rows = list_scoped_state c t p l off st"
    by (auto simp: engine_list_scoped_def bindE_Inr_iff read_state_def)
  with row obtain r where "r \<in> set (rows_of st)" "row = sr_payload r"
    by (auto simp: list_scoped_state_def slice_def to_public_def dest!: in_set_takeD in_set_dropD)
  with current_rows_wf [OF ok st(1)] show ?thesis by blast
qed

lemma find_row_wf:
  assumes ok: "engine_ok H eng" and run: "find_row c k v t p eng = Inr (Some row)"
  shows "dwf row"
proof (cases "map_of LEGACY_CANONICAL_KEY_FIELDS c = Some k")
  case True
  with run obtain key where key: "(case engine_get_scoped c key t p eng of Inl (ScopedRecordNotFound m) \<Rightarrow> Inr None
      | Inl e \<Rightarrow> Inl e | Inr r \<Rightarrow> Inr (Some r)) = Inr (Some row)"
    by (auto simp: find_row_def bindE_Inr_iff)
  then have "engine_get_scoped c key t p eng = Inr row"
  proof (cases "engine_get_scoped c key t p eng")
    case (Inl e)
    with key show ?thesis by (cases e) simp_all
  qed simp
  with ok show ?thesis by (rule get_row_wf)
next
  case False
  with run obtain rows where rows: "engine_list_scoped c t p MAX_LIST_LIMIT 0 eng = Inr rows"
      "find (\<lambda>item. py_eq (dget item k) v) rows = Some row"
    by (auto simp: find_row_def bindE_Inr_iff)
  from rows(2) have "row \<in> set rows" by (auto simp: find_Some_iff)
  with list_rows_wf [OF ok rows(1)] show ?thesis by blast
qed

lemma find_request_Inr: "find_request pl t p eng = Inr (Some row) \<longleftrightarrow>
    find_row ''execution_requests'' ''plan_id'' (JStr pl) t p eng = Inr (Some row)"
  by (auto simp: find_request_def split: sum.split err.split)

lemma load_chain_rows_wf:
  assumes "engine_ok H eng" "load_chain_rows pl t p eng = Inr rows"
  shows "rows_wf rows"
  using assms(2) unfolding load_chain_rows_def rows_wf_simps
  by (auto simp: bindE_Inr_iff no_chain_rows_def find_request_Inr split: option.splits) (erule find_row_wf [OF assms(1)])+

section \<open>What a replay stores\<close>

lemma jwf_dget: "dwf d \<Longrightarrow> jwf (dget d k)" "dwf d \<Longrightarrow> jwf v \<Longrightarrow> jwf (dget_or d k v)"
  by (auto simp: dget_def dget_or_def split: option.split dest: dwf_map_of)

lemma or_empty_wf: "rows_wf rows \<Longrightarrow> dwf (or_empty (cr_authority_decision rows))"
  "rows_wf rows \<Longrightarrow> dwf (or_empty (cr_gateway_decision rows))" "rows_wf rows \<Longrightarrow> dwf (or_empty (cr_shadow_outcome rows))"
  by (auto simp: rows_wf_simps or_empty_def split: option.split)

lemma record_hashes_wf: "dwf (record_hashes H rows)"
  unfolding record_hashes_def RECORD_HASH_KEYS_def by (simp split: option.split)

lemma head_of_wf: "jwf (head_of heads t p c)"
  by (simp add: head_of_def split: option.split)

lemma manifest_wf:
  "rows_wf rows \<Longrightarrow> dwf (replay_manifest_to_dict (build_manifest H t p rows chain))"
  unfolding replay_manifest_to_dict_def build_manifest_def Let_def
  by (simp add: record_hashes_wf or_empty_wf jwf_dget head_of_wf GRDI_CHAIN_COLLECTIONS_def empty_identity_def
      extract_decision_identity_def extract_outcome_snapshot_def)

lemma reason_wf: "x \<in> set (reason_if c check reason) \<Longrightarrow> jwf x" "x \<in> set (link_reason a b k k' r) \<Longrightarrow> jwf x"
  by (auto simp: reason_if_def link_reason_def invalid_reason_def split: if_splits option.splits)

lemma caught_wf: "caught check m = Inr xs \<Longrightarrow> x \<in> set xs \<Longrightarrow> jwf x"
  by (cases "(check, m)" rule: caught.cases) (auto simp: invalid_reason_def)

lemma hav_reasons_wf: "hav_reasons w t p e = Inr xs \<Longrightarrow> x \<in> set xs \<Longrightarrow> jwf x"
  by (auto simp: hav_reasons_def bindE_Inr_iff invalid_reason_def split: option.splits if_splits dest: reason_wf)

lemma invalid_reasons_wf: "collect_invalid_reasons w t p rows = Inr xs \<Longrightarrow> x \<in> set xs \<Longrightarrow> jwf x"
  unfolding collect_invalid_reasons_def Let_def
  by (auto simp: bindE_Inr_iff split: option.splits dest: reason_wf caught_wf hav_reasons_wf)

lemma results_wf: "x \<in> set (chain_results chain) \<Longrightarrow> jwf x" "x \<in> set (missing_results rows) \<Longrightarrow> jwf x"
  by (auto simp: chain_results_def missing_results_def Let_def split: replay_chain.splits if_splits)

lemma build_report_run:
  assumes "build_report w n pl t p requester eng = Inr r"
  obtains rows chain reasons state drifts s draft where "load_chain_rows pl t p eng = Inr rows"
    "replay_chain_of (wd_hash w) t p eng = Inr chain" "collect_invalid_reasons w t p rows = Inr reasons"
    "determine_replay_state w pl t p (build_manifest (wd_hash w) t p rows chain)
       (manifest_hash (wd_hash w) (build_manifest (wd_hash w) t p rows chain))
       (chain_results chain @ missing_results rows @ reasons) eng = Inr (state, drifts)"
    "wd_signer w = Some s"
    "draft = draft_report (wd_id w n) (wd_now w (n + 1)) pl t p requester (build_manifest (wd_hash w) t p rows chain)
       (manifest_hash (wd_hash w) (build_manifest (wd_hash w) t p rows chain)) state
       (chain_results chain @ missing_results rows @ reasons) drifts"
    "r = draft\<lparr>rr_signed_replay := receipt_sign (wd_mac w) s (signed_replay_body draft)\<rparr>"
  using assms by (auto simp: build_report_def bindE_Inr_iff Let_def with_signer_def split: option.splits intro: that)

lemma build_report_wf:
  assumes "engine_ok H eng" "build_report w n pl t p requester eng = Inr r"
  shows "dwf (replay_report_to_dict r)"
  using assms(2)
proof (rule build_report_run)
  fix rows chain reasons state drifts s draft
  assume rows: "load_chain_rows pl t p eng = Inr rows" and reasons: "collect_invalid_reasons w t p rows = Inr reasons"
    and draft: "draft = draft_report (wd_id w n) (wd_now w (n + 1)) pl t p requester (build_manifest (wd_hash w) t p rows chain)
       (manifest_hash (wd_hash w) (build_manifest (wd_hash w) t p rows chain)) state
       (chain_results chain @ missing_results rows @ reasons) drifts"
    and r: "r = draft\<lparr>rr_signed_replay := receipt_sign (wd_mac w) s (signed_replay_body draft)\<rparr>"
  have m: "dwf (replay_manifest_to_dict (rr_manifest draft))"
    unfolding draft draft_report_def by simp (rule manifest_wf [OF load_chain_rows_wf [OF assms(1) rows]])
  have v: "\<forall>x \<in> set (rr_validation_results draft). jwf x"
    unfolding draft draft_report_def by (auto dest: results_wf invalid_reasons_wf [OF reasons])
  have "dwf (signed_replay_body draft)" using m v by (simp add: signed_replay_body_def)
  with m v show ?thesis unfolding r by (simp add: replay_report_to_dict_def receipt_sign_wf)
qed

section \<open>What a comparison stores\<close>

lemma manifest_read_wf:
  assumes "replay_manifest_from_dict d = Inr m" "dwf d"
  shows "dwf (rm_record_hashes m) \<and> dwf (rm_policy_versions m) \<and> dwf (rm_outcome_snapshot m)"
proof -
  have "dwf (manifest_defaults d)"
    using assms(2) by (simp add: manifest_defaults_def set_default_def empty_identity_def)
  from dwf_field [OF this] show ?thesis
    using assms(1) unfolding replay_manifest_from_dict_def Let_def by (auto simp: bindE_Inr_iff)
qed

lemma report_read_wf:
  assumes "replay_report_from_dict now row = Inr r" "dwf row"
  shows "dwf (rm_record_hashes (rr_manifest r)) \<and> dwf (rm_policy_versions (rr_manifest r)) \<and> dwf (rm_outcome_snapshot (rr_manifest r))"
proof -
  from assms(1) obtain v where v: "dindex (strip_scoped row) ''manifest'' = Inr v" "manifest_from_json v = Inr (rr_manifest r)"
    unfolding replay_report_from_dict_def Let_def by (auto simp: bindE_Inr_iff)
  from v(1) assms(2) have "jwf v" by (auto simp: dindex_Inr_iff dest: dwf_map_of)
  with v(2) show ?thesis by (cases v) (auto simp: manifest_from_json_def dest: manifest_read_wf)
qed

lemma difference_wf: "jwf a \<Longrightarrow> jwf b \<Longrightarrow> x \<in> set (difference path a b) \<Longrightarrow> jwf x"
  by (auto simp: difference_def split: if_splits)

lemma dict_differences_wf: "dwf a \<Longrightarrow> dwf b \<Longrightarrow> x \<in> set (dict_differences path a b) \<Longrightarrow> jwf x"
  unfolding dict_differences_def by (auto intro: difference_wf jwf_dget)

lemma compare_pair_wf:
  assumes "replay_report_from_dict now row = Inr b" "dwf row" "replay_report_from_dict now row' = Inr c" "dwf row'"
  shows "x \<in> set (pc_structural (compare_pair b c)) \<union> set (pc_hashes (compare_pair b c)) \<union> set (pc_policies (compare_pair b c))
     \<union> set (pc_outcomes (compare_pair b c)) \<Longrightarrow> jwf x"
  using report_read_wf [OF assms(1,2)] report_read_wf [OF assms(3,4)]
  by (auto simp: compare_pair_def Let_def only_state_def dest!: set_zip_leftD split: if_splits
      dest: dict_differences_wf difference_wf [rotated 2])

definition pair_wf :: "replay_report \<times> replay_report \<Rightarrow> bool" where
  "pair_wf x = (let pc = compare_pair (fst x) (snd x) in
     \<forall>v \<in> set (pc_structural pc) \<union> set (pc_hashes pc) \<union> set (pc_policies pc) \<union> set (pc_outcomes pc). jwf v)"

lemma find_scoped_row_wf:
  assumes "engine_ok H eng" "find_scoped_row c k v t p e eng = Inr row"
  shows "dwf row"
proof -
  from assms(2) obtain rows item where "engine_list_scoped c t p MAX_LIST_LIMIT 0 eng = Inr rows"
      "find (\<lambda>item. dget item k = JStr v) rows = Some item" "row = strip_scoped item"
    by (auto simp: find_scoped_row_def bindE_Inr_iff split: option.splits)
  moreover from this have "item \<in> set rows" by (auto simp: find_Some_iff)
  ultimately show ?thesis using list_rows_wf [OF assms(1)] by simp
qed

lemma load_pair_wf:
  assumes ok: "engine_ok H eng" and run: "load_pair w bi ci t p eng = Inr x"
  shows "pair_wf x"
proof -
  from run obtain row row' b c where
    rows: "find_scoped_row ''replay_reports'' ''replay_id'' bi t p ''replay_report_not_found_in_scope'' eng = Inr row"
      "find_scoped_row ''replay_reports'' ''replay_id'' ci t p ''replay_report_not_found_in_scope'' eng = Inr row'"
    and read: "replay_report_from_dict (wd_now w 0) row = Inr b" "replay_report_from_dict (wd_now w 0) row' = Inr c" "x = (b, c)"
    by (auto simp: load_pair_def bindE_Inr_iff)
  show ?thesis
    using compare_pair_wf [OF read(1) find_scoped_row_wf [OF ok rows(1)] read(2) find_scoped_row_wf [OF ok rows(2)]]
    by (simp add: pair_wf_def read(3) Let_def)
qed

lemma compare_reports_wf:
  assumes "compare_reports w b c requester eng = Inr hc" "pair_wf (b, c)"
  shows "dwf (historical_comparison_to_dict hc)"
proof -
  define draft where "draft = draft_comparison w b c requester"
  obtain s where hc: "hc = draft\<lparr>hc_signed_comparison := receipt_sign (wd_mac w) s (signed_comparison_body draft)\<rparr>"
    using assms(1) by (auto simp: compare_reports_def bindE_Inr_iff Let_def with_signer_def draft_def split: option.splits)
  from assms(2) have v: "\<forall>v \<in> set (hc_structural_differences draft) \<union> set (hc_hash_differences draft)
      \<union> set (hc_policy_differences draft) \<union> set (hc_outcome_differences draft). jwf v"
    by (simp add: pair_wf_def Let_def draft_def draft_comparison_def)
  then have "dwf (signed_comparison_body draft)" by (simp add: signed_comparison_body_def)
  with v show ?thesis unfolding hc by (simp add: historical_comparison_to_dict_def receipt_sign_wf)
qed

section \<open>The handlers as programs\<close>

lemma moves_commit_replay:
  assumes "nulfree t" "nulfree p"
  shows "moves (wd_hash w) (scope_call (wd_hash w) t p) (\<lambda>_. True) (commit_replay w pl t p requester report)"
  unfolding commit_replay_def case_prod_beta
  by (intro moves_bind [OF moves_read [where P = "\<lambda>r. dwf (replay_report_to_dict r)"]] moves_lift_bind moves_if_not_found
      moves_bind [OF moves_session_get] moves_bind [OF moves_session_once] moves_any assms) (rule build_report_wf)

lemma moves_create_replay:
  assumes "nulfree t" "nulfree p"
  shows "moves (wd_hash w) (scope_step (wd_hash w) t p) (\<lambda>_. True) (create_replay_report w pl t p requester)"
  unfolding create_replay_report_def
  by (intro moves_bind [OF moves_any] moves_lift_bind moves_bind [OF moves_transaction [OF moves_any]] moves_transaction
      moves_commit_replay assms)

lemma moves_commit_comparison:
  assumes "nulfree t" "nulfree p"
  shows "moves (wd_hash w) (scope_call (wd_hash w) t p) (\<lambda>_. True) (commit_comparison w bi ci t p requester b c)"
  unfolding commit_comparison_def case_prod_beta
proof (rule moves_bind [OF moves_read [where P = pair_wf]], rule load_pair_wf, assumption, assumption, intro moves_lift_bind)
  fix x assume "pair_wf x"
  then show "moves (wd_hash w) (scope_call (wd_hash w) t p) (\<lambda>_. True)
      (bindS (readS (compare_reports w (fst x) (snd x) requester)) (\<lambda>c.
        if_not_found (bindS (session_get_scoped t p ''historical_comparisons'' (hc_comparison_key c))
          (\<lambda>existing. liftS (stored_comparison w existing)))
        (bindS (session_append_scoped_once (wd_hash w) (wd_clk w 0) t p ''historical_comparisons'' (historical_comparison_to_dict c)
          (hc_comparison_key c)) (\<lambda>x. liftS (stored_comparison w (fst x))))))"
    by (intro moves_bind [OF moves_read [where P = "\<lambda>c. dwf (historical_comparison_to_dict c)"]] moves_if_not_found
        moves_bind [OF moves_session_get] moves_bind [OF moves_session_once] moves_lift TrueI assms)
      (auto elim: compare_reports_wf)
qed

lemma moves_compare_replays:
  assumes "nulfree t" "nulfree p"
  shows "moves (wd_hash w) (scope_step (wd_hash w) t p) (\<lambda>_. True) (compare_replays w bi ci t p requester)"
  unfolding compare_replays_def case_prod_beta
  by (intro moves_lift_bind moves_bind [OF moves_transaction [OF moves_any]] moves_transaction moves_commit_comparison assms)

lemma framed_replay:
  "framed (commit_replay w pl t p requester report)" "framed (commit_comparison w bi ci t p requester b c)"
  unfolding commit_replay_def commit_comparison_def case_prod_beta
  by (intro framed_intros)+

section \<open>Their locks\<close>

lemma plain_replay_rows [plain_intros]:
  "plain (replay_report_from_dict now row)" "plain (historical_comparison_from_dict now row)"
  unfolding replay_report_from_dict_def historical_comparison_from_dict_def manifest_from_json_def replay_manifest_from_dict_def
    parse_defs parse_replay_state_def parse_comparison_state_def Let_def
  by (intro plain_intros plain_simps; simp)+

lemma plain_historical [plain_intros]: "plain (validate_report_historical w report)" "plain (validate_comparison w c)"
  unfolding validate_report_historical_def require_execution_invariants_def validate_comparison_def Let_def
  by (intro plain_intros plain_simps; simp)+

lemma plain_list_reports [plain_intros]: "plain (list_prior_reports pl t p eng)"
  unfolding list_prior_reports_def by (intro plain_intros plain_simps)

lemma plain_find_row [plain_intros]: "plain (find_row c k v t p eng)"
proof -
  have "plain (case engine_get_scoped c key t p eng of Inl (ScopedRecordNotFound m) \<Rightarrow> Inr None | Inl e \<Rightarrow> Inl e
      | Inr r \<Rightarrow> Inr (Some r))" for key
    using plain_engine_get [of c key t p eng] by (auto split: sum.split err.split)
  then show ?thesis unfolding find_row_def by (auto intro!: plain_intros)
qed

lemma plain_find_request [plain_intros]: "plain (find_request pl t p eng)"
  using plain_find_row [of "''execution_requests''" "''plan_id''" "JStr pl" t p eng]
  by (auto simp: find_request_def split: sum.split err.split)

lemma plain_load_rows [plain_intros]: "plain (load_chain_rows pl t p eng)"
  unfolding load_chain_rows_def
  by (intro plain_intros plain_simps; auto intro!: plain_intros split: option.split)

end
