(* ===== verification/Grdi_Replay_Locks.thy ===== *)
theory Grdi_Replay_Locks
  imports Grdi_Replay_Facts
begin

text \<open>
  The replay handlers never lack a lock: the hash of the snapshot, which names the lock of the report, is compared again inside
  the second transaction, and the key of a comparison is made of the identifiers both reports were found by.
\<close>

section \<open>Computations\<close>

lemma plain_if [plain_intros]: "(c \<Longrightarrow> plain a) \<Longrightarrow> (\<not> c \<Longrightarrow> plain b) \<Longrightarrow> plain (if c then a else b)"
  by simp

lemma plain_option [plain_intros]:
  "(x = None \<Longrightarrow> plain a) \<Longrightarrow> (\<And>y. x = Some y \<Longrightarrow> plain (f y)) \<Longrightarrow> plain (case x of None \<Rightarrow> a | Some y \<Rightarrow> f y)"
  by (cases x) simp_all

lemma plain_allE [plain_intros]: "(\<And>x. plain (f x)) \<Longrightarrow> plain (allE f xs)"
  by (induction xs) (simp_all add: plain_bindE)

lemma integrity_other [simp]: "integrity c m \<noteq> UndeclaredLockRef msg" "integrity_at c m x \<noteq> UndeclaredLockRef msg"
  by (simp_all add: integrity_def integrity_at_def)

lemma plain_steps: "plain (bindE (raise_if c e) f)" if "plain (Inl e :: unit res)" "\<not> c \<Longrightarrow> plain (f ())"
  using that by (simp add: raise_if_def)

lemma plain_check_gaps [plain_intros]: "plain (check_gaps scope ns)"
proof (induction ns)
  case (Cons m ns)
  then show ?case by (cases ns) (simp_all add: plain_bindE plain_raise_if)
qed simp

lemma plain_check_links [plain_intros]: "plain (check_links H scope prev rs)"
  by (induction rs arbitrary: prev) (auto intro!: plain_steps)

lemma plain_chain_group [plain_intros]: "plain (validate_linked_chain_group H t p c rows head)"
  unfolding validate_linked_chain_group_def validate_chain_metadata_def Let_def
  by (intro plain_intros; simp)

lemma plain_check_standalone [plain_intros]: "plain (check_standalone H t p c rows n)"
proof (induction rows arbitrary: n)
  case (Cons row rows)
  have "plain (validate_standalone_row H (row_view row))"
    unfolding validate_standalone_row_def Let_def by (intro plain_intros; simp)
  with Cons show ?case by (simp add: plain_bindE)
qed simp

lemma plain_check_groups: "plain (check_groups H st gs n hs seen)"
proof (induction gs arbitrary: n hs seen)
  case (Cons g gs)
  then show ?case by (cases g) (auto simp: Let_def intro!: plain_bindE plain_intros)
qed simp

lemma plain_chain [plain_intros]: "plain (replay_chain_of H t p eng)"
proof -
  have "plain (check_groups H st gs n hs seen)" for st gs n hs seen by (rule plain_check_groups)
  moreover have "plain (check_orphans t p c seen hs)" for t p c seen hs
    unfolding check_orphans_def by (intro plain_intros; simp)
  ultimately have "plain (engine_verify_scoped_chain H t p c eng)" for t p c
    unfolding engine_verify_scoped_chain_def verify_json_state_def Let_def case_prod_beta
    by (intro plain_intros plain_simps)
  from this [of "Some t" "Some p" None] show ?thesis
    by (auto simp: replay_chain_of_def split: sum.split err.split)
qed

lemma plain_caught: "plain m \<Longrightarrow> plain (caught check m)"
  by (cases "(check, m)" rule: caught.cases) auto

lemma plain_reasons [plain_intros]: "plain (collect_invalid_reasons w t p rows)"
proof -
  have "plain (hav_reasons w t p e)" for e
    unfolding hav_reasons_def by (auto intro!: plain_intros split: option.split)
  moreover have "plain (caught c (checked_receipt_row w r rc))" for c r rc
    unfolding checked_receipt_row_def by (intro plain_caught plain_intros)
  moreover have "plain (caught c (checked_outcome_row w r rc out))" for c r rc out
    unfolding checked_outcome_row_def by (intro plain_caught plain_intros)
  ultimately show ?thesis
    unfolding collect_invalid_reasons_def Let_def by (auto intro!: plain_intros split: option.split prod.split)
qed

lemma plain_prior [plain_intros]: "plain (sort_prior_reports w rows)"
proof (induction rows)
  case (Cons row rows)
  have "plain (read_prior_report w row)" unfolding read_prior_report_def by (intro plain_intros plain_simps)
  then show ?case
    by (cases "read_prior_report w row") (auto intro!: plain_bindE Cons)
qed simp

lemma plain_state [plain_intros]: "plain (determine_replay_state w pl t p m h results eng)"
  unfolding determine_replay_state_def validated_prior_reports_def Let_def
  by (auto intro!: plain_intros split: prod.split)

lemma plain_build [plain_intros]: "plain (build_report w n pl t p requester eng)"
  unfolding build_report_def Let_def case_prod_beta by (intro plain_intros plain_simps)

lemma plain_validate [plain_intros]: "plain (validate_report w v report eng)"
proof -
  have "plain (validate_report_against_sources w report eng)"
    unfolding validate_report_against_sources_def Let_def by (intro plain_intros plain_simps)
  then show ?thesis unfolding validate_report_def by (auto intro!: plain_intros)
qed

lemma plain_stored [plain_intros]: "plain (stored_report w row eng)" "plain (stored_comparison w row)"
  unfolding stored_report_def stored_comparison_def by (intro plain_intros plain_simps)+

lemma plain_find_scoped [plain_intros]: "plain (Inl (KeyError e) :: unit res) \<Longrightarrow> plain (find_scoped_row c f v t p e eng)"
  unfolding find_scoped_row_def by (auto intro!: plain_intros split: option.split)

lemma plain_pair [plain_intros]: "plain (load_pair w bi ci t p eng)"
  unfolding load_pair_def by (auto intro!: plain_intros)

lemma plain_compare [plain_intros]: "plain (compare_reports w b c requester eng)"
  unfolding compare_reports_def Let_def by (intro plain_intros plain_simps)

lemma plain_replay_locks [plain_intros]:
  "plain (replay_snapshot_locks t p pl)" "plain (comparison_snapshot_locks t p)" "plain (replay_locks t p pl h)"
  "plain (comparison_locks t p b c k)"
proof -
  have "plain (LockRef t p c k key)" for c k key by (simp add: LockRef_def)
  then show "plain (replay_snapshot_locks t p pl)" "plain (comparison_snapshot_locks t p)" "plain (replay_locks t p pl h)"
    "plain (comparison_locks t p b c k)"
    unfolding replay_snapshot_locks_def comparison_snapshot_locks_def replay_locks_def comparison_locks_def
      locks_of_def chain_lock_def canonical_lock_def
    by (auto intro!: plain_intros)
qed

section \<open>Handlers\<close>

lemma declared_read: "(\<And>eng. plain (f eng)) \<Longrightarrow> declared ls (readS f)"
  by (simp add: declared_def readS_def)

lemma declared_read_bind:
  "(\<And>eng. plain (f eng)) \<Longrightarrow> (\<And>eng x. f eng = Inr x \<Longrightarrow> declared ls (g x)) \<Longrightarrow> declared ls (bindS (readS f) g)"
proof -
  assume f: "\<And>eng. plain (f eng)" and g: "\<And>eng x. f eng = Inr x \<Longrightarrow> declared ls (g x)"
  show ?thesis
    unfolding declared_def
  proof (intro allI impI)
    fix eng r eng' assume c: "eng_lock_context eng = Some (build_lock_context ls)" "in_transaction eng"
      and run: "bindS (readS f) g eng = (r, eng')"
    show "plain r \<and> eng_lock_context eng' = eng_lock_context eng \<and> in_transaction eng'"
    proof (cases "f eng")
      case (Inl e)
      with run f [of eng] c show ?thesis by (auto simp: bindS_def readS_def)
    next
      case (Inr x)
      with run have "g x eng = (r, eng')" by (simp add: bindS_def readS_def)
      from declaredD [OF g [OF Inr] c this] show ?thesis .
    qed
  qed
qed

lemma declared_guard_bind: "(\<not> c \<Longrightarrow> declared ls m) \<Longrightarrow> plain (Inl e :: unit res) \<Longrightarrow> declared ls (bindS (liftS (raise_if c e)) (\<lambda>_. m))"
  by (intro declared_lift_bind plain_intros) (auto simp: raise_if_def split: if_splits)

lemma covers_append: "covers ls c k \<Longrightarrow> covers (ls' @ ls) c k"
  unfolding covers_iff by auto

lemma never_create_replay: "never (create_replay_report w pl t p requester)"
  unfolding create_replay_report_def
proof (intro never_read_bind never_lift_bind never_bind plain_intros never_transaction declared_read)
  fix ls persist and report :: replay_report
  assume "replay_locks t p pl (rr_manifest_hash report) = Inr persist"
  then have "covers (ls @ persist) ''replay_reports'' (rr_manifest_hash report)"
    by (intro covers_append) (simp add: replay_locks_cover)
  then show "declared (ls @ persist) (commit_replay w pl t p requester report)"
    unfolding commit_replay_def case_prod_beta
    by (intro declared_read_bind declared_guard_bind declared_if_not_found declared_bind declared_get declared_session declared_read
        plain_intros) simp_all
qed

lemma find_scoped_row_field:
  assumes "find_scoped_row c k v t p e eng = Inr row" "k \<noteq> ''_chain''" "k \<noteq> ''scope''"
  shows "dget row k = JStr v"
proof -
  from assms(1) obtain rows item where "find (\<lambda>item. dget item k = JStr v) rows = Some item" "row = strip_scoped item"
    by (auto simp: find_scoped_row_def bindE_Inr_iff split: option.splits)
  then have "dget item k = JStr v" "row = strip_scoped item" by (auto simp: find_Some_iff)
  with assms(2,3) show ?thesis by (simp add: dget_def)
qed

lemma report_read_id: "replay_report_from_dict now row = Inr r \<Longrightarrow> dget (strip_scoped row) ''replay_id'' = JStr (rr_replay_id r)"
  unfolding replay_report_from_dict_def Let_def
  by (auto simp: bindE_Inr_iff elim!: json_str.elims)

lemma load_pair_ids:
  assumes "load_pair w bi ci t p eng = Inr (b, c)"
  shows "rr_replay_id b = bi \<and> rr_replay_id c = ci"
  using assms
  by (auto simp: load_pair_def bindE_Inr_iff dest!: find_scoped_row_field report_read_id) (simp_all add: dget_def)

lemma compare_reports_key:
  "compare_reports w b c requester eng = Inr hc \<Longrightarrow> hc_comparison_key hc = comparison_key (wd_hash w) (rr_replay_id b) (rr_replay_id c)"
  by (auto simp: compare_reports_def bindE_Inr_iff Let_def with_signer_def draft_comparison_def split: option.splits)

lemma never_compare_replays: "never (compare_replays w bi ci t p requester)"
  unfolding compare_replays_def case_prod_beta
proof (intro never_read_bind never_lift_bind never_bind plain_intros never_transaction declared_read)
  fix ls and x :: "replay_report \<times> replay_report" and persist
  assume "comparison_locks t p (rr_manifest_hash (fst x)) (rr_manifest_hash (snd x)) (comparison_key (wd_hash w) bi ci) = Inr persist"
  then have cover: "covers (ls @ persist) ''historical_comparisons'' (comparison_key (wd_hash w) bi ci)"
    by (intro covers_append) (simp add: comparison_locks_cover)
  show "declared (ls @ persist) (commit_comparison w bi ci t p requester (fst x) (snd x))"
    unfolding commit_comparison_def case_prod_beta
    by (intro declared_read_bind declared_guard_bind declared_if_not_found declared_bind declared_get declared_session declared_lift
        plain_intros) (use cover in \<open>auto dest!: load_pair_ids compare_reports_key\<close>)
qed

end
