(* ===== verification/Scoped_Postgres.thy ===== *)
theory Scoped_Postgres
  imports Scoped_Sqlite "HOL-Library.Word"
begin

text \<open>
  Model of \<^verbatim>\<open>src/src/phigraph/core_v3/postgres_advisory.py\<close> and \<^verbatim>\<open>postgres_scoped.py\<close>: the keys of the advisory locks and
  the PostgreSQL backend of the scoped ledger. The tables are those of \<^verbatim>\<open>sql/postgresql\<close>, which have the columns, the
  primary keys, the unique record id and the partial unique index of the SQLite tables, so the model shares their type and
  the statements that are the same. A \<open>jsonb\<close> column keeps no order of keys: a payload is stored with its keys sorted. The order
  of texts is that of the collation of the database, an argument. The operations are the executions that get their locks;
  waiting for a lock is modelled in the theory \<open>Lock_Waits\<close>.
\<close>

section \<open>Advisory locks\<close>

definition LOCK_NAMESPACE :: string where
  "LOCK_NAMESPACE = ''phigraph:scoped-lock:v1''"

fun lock_kind_value :: "lock_kind \<Rightarrow> string" where
  "lock_kind_value CHAIN = ''chain''"
| "lock_kind_value CANONICAL = ''canonical''"

definition lock_ref_encoding :: "lock_ref \<Rightarrow> string" where
  "lock_ref_encoding ref = join [CHR 0x1F] [LOCK_NAMESPACE, lr_tenant ref, lr_project ref, lr_collection ref,
     lock_kind_value (lr_kind ref), (if lr_kind ref = CANONICAL then lr_key ref else [])]"

text \<open>\<open>int.from_bytes(bytes, 'big', signed=True)\<close> of four bytes; the digest of the encoded text is an argument.\<close>

definition from_bytes_signed :: "8 word list \<Rightarrow> int" where
  "from_bytes_signed bs = sint (word_rcat bs :: 32 word)"

definition lock_ref_advisory_keys :: "(string \<Rightarrow> 8 word list) \<Rightarrow> lock_ref \<Rightarrow> int \<times> int" where
  "lock_ref_advisory_keys sha256 ref = (let digest = sha256 (lock_ref_encoding ref)
     in (from_bytes_signed (take 4 digest), from_bytes_signed (take 4 (drop 4 digest))))"

text \<open>The keys that are locked, one statement after the other.\<close>

definition acquire_advisory_locks :: "(string \<Rightarrow> 8 word list) \<Rightarrow> lock_ref list \<Rightarrow> (int \<times> int) list" where
  "acquire_advisory_locks sha256 lock_refs = map (lock_ref_advisory_keys sha256) (normalize_lock_refs lock_refs)"

definition implicit_write_lock_refs :: "string \<Rightarrow> string \<Rightarrow> string \<Rightarrow> string \<Rightarrow> bool \<Rightarrow> lock_ref list res" where
  "implicit_write_lock_refs tenant_id project_id collection canonical_key chain_linked =
     bindE (if chain_linked then bindE (LockRef tenant_id project_id collection CHAIN []) (\<lambda>ref. Inr [ref]) else Inr []) (\<lambda>refs.
     bindE (LockRef tenant_id project_id collection CANONICAL canonical_key) (\<lambda>ref.
     Inr (normalize_lock_refs (refs @ [ref]))))"

section \<open>Append\<close>

definition duplicate_key :: "string \<Rightarrow> string \<Rightarrow> err" where
  "duplicate_key collection canonical_key = DuplicateCanonicalKey (''Duplicate canonical key '' @ canonical_key @ '' in ''
     @ collection @ '' with different payload'')"

definition existing_canonical_result ::
  "string \<Rightarrow> string \<Rightarrow> string \<Rightarrow> string \<Rightarrow> string \<Rightarrow> scoped_db \<Rightarrow> (pdict \<times> bool) res" where
  "existing_canonical_result tenant_id project_id collection canonical_key incoming_hash db =
     (case select_row tenant_id project_id collection canonical_key db of
        None \<Rightarrow> Inl (DuplicateCanonicalKey (''Concurrent insert conflict for '' @ collection @ ''/'' @ canonical_key))
      | Some row \<Rightarrow> if q_payload_hash row = incoming_hash then Inr (q_payload row, False)
          else Inl (duplicate_key collection canonical_key))"

text \<open>A unique constraint other than the primary key was violated: which one, and by which row?\<close>

definition resolve_non_canonical_unique_violation ::
  "string \<Rightarrow> string \<Rightarrow> string \<Rightarrow> string \<Rightarrow> string \<Rightarrow> int \<Rightarrow> string \<Rightarrow> scoped_db \<Rightarrow> (pdict \<times> bool) res" where
  "resolve_non_canonical_unique_violation tenant_id project_id collection canonical_key record_id chain_sequence incoming_hash db =
     (let in_scope = (\<lambda>r. q_scope tenant_id project_id collection r);
          by_record = find (\<lambda>r. in_scope r \<and> q_record_id r = record_id) (db_rows db);
          by_sequence = find (\<lambda>r. in_scope r \<and> q_chain_sequence r = chain_sequence) (db_rows db)
      in case map_option q_canonical_key by_record of
        Some other \<Rightarrow> if other \<noteq> canonical_key
          then Inl (DuplicateCanonicalKey (''record_id '' @ record_id @ '' already used by canonical key '' @ other))
          else (case by_sequence of
              Some row \<Rightarrow> if q_canonical_key row = canonical_key \<and> q_payload_hash row = incoming_hash
                then Inr (q_payload row, False)
                else Inl (DuplicateCanonicalKey (''chain_sequence '' @ show_int chain_sequence @ '' already assigned in '' @ collection))
            | None \<Rightarrow> existing_canonical_result tenant_id project_id collection canonical_key incoming_hash db)
      | None \<Rightarrow> (case by_sequence of
              Some row \<Rightarrow> if q_canonical_key row = canonical_key \<and> q_payload_hash row = incoming_hash
                then Inr (q_payload row, False)
                else Inl (DuplicateCanonicalKey (''chain_sequence '' @ show_int chain_sequence @ '' already assigned in '' @ collection))
            | None \<Rightarrow> existing_canonical_result tenant_id project_id collection canonical_key incoming_hash db))"

text \<open>\<open>INSERT ... ON CONFLICT (primary key) DO NOTHING RETURNING\<close>: a row, no row, or \<open>UniqueViolation\<close>.\<close>

datatype insert_outcome = RowInserted | NoRow | UniqueViolation

definition insert_on_conflict :: "sql_row \<Rightarrow> scoped_db \<Rightarrow> insert_outcome \<times> scoped_db" where
  "insert_on_conflict r db =
     (if select_row (q_tenant_id r) (q_project_id r) (q_collection r) (q_canonical_key r) db \<noteq> None then (NoRow, db)
      else if unique_violated r db then (UniqueViolation, db)
      else (RowInserted, db\<lparr>db_rows := db_rows db @ [r]\<rparr>))"

text \<open>Rolling back to the savepoint undoes the insert only: the new chain head stays in the transaction.\<close>

definition postgres_append ::
  "(string \<Rightarrow> string) \<Rightarrow> (nat \<Rightarrow> string) \<Rightarrow> string \<Rightarrow> pdict \<Rightarrow> string \<Rightarrow> string \<Rightarrow> string \<Rightarrow> bool
   \<Rightarrow> (scoped_db, pdict \<times> bool) act" where
  "postgres_append H clk collection record canonical_key tenant_id project_id chain_linked db =
     (let incoming_hash = canonical_scoped_payload_hash H (with_scope record tenant_id project_id)
      in case select_row tenant_id project_id collection canonical_key db of
        Some existing \<Rightarrow>
          if q_payload_hash existing = incoming_hash then (Inr (q_payload existing, False), db)
          else (Inl (duplicate_key collection canonical_key), db)
      | None \<Rightarrow>
          bindS (sqlite_take_number (clk 0) tenant_id project_id collection chain_linked) (\<lambda>(next_sequence, chain_prev).
          bindS (liftS (build_row H (clk 1) collection record canonical_key tenant_id project_id chain_prev
                   next_sequence 1 None None (Some chain_linked))) (\<lambda>stored db1.
          case insert_on_conflict (sql_row_of stored) db1 of
            (UniqueViolation, db2) \<Rightarrow> (resolve_non_canonical_unique_violation tenant_id project_id collection canonical_key
                (sr_record_id stored) next_sequence incoming_hash db2, db2)
          | (NoRow, db2) \<Rightarrow> (existing_canonical_result tenant_id project_id collection canonical_key incoming_hash db2, db2)
          | (RowInserted, db2) \<Rightarrow> (Inr (to_public stored, True),
              if chain_linked then update_head tenant_id project_id collection next_sequence
                (sr_chain_hash stored) (clk 2) db2 else db2))) db)"

section \<open>Compare and set\<close>

definition postgres_cas ::
  "(string \<Rightarrow> string) \<Rightarrow> (nat \<Rightarrow> string) \<Rightarrow> string \<Rightarrow> pdict \<Rightarrow> string \<Rightarrow> string \<Rightarrow> string \<Rightarrow> int option \<Rightarrow> string option
   \<Rightarrow> (scoped_db, pdict \<times> pdict) act" where
  "postgres_cas H clk collection record canonical_key tenant_id project_id expected_row_version expected_payload_hash db =
     (case select_row tenant_id project_id collection canonical_key db of
        None \<Rightarrow> (Inl (ScopedRecordNotFound (''scoped record not found: '' @ collection @ ''/'' @ canonical_key)), db)
      | Some row \<Rightarrow>
          bindS (liftS (raise_if (expected_row_version \<noteq> None \<and> Some (q_row_version row) \<noteq> expected_row_version)
            (VersionConflict ''expected row_version mismatch''))) (\<lambda>_.
          bindS (liftS (raise_if (expected_payload_hash \<noteq> None \<and> Some (q_payload_hash row) \<noteq> expected_payload_hash)
            (VersionConflict ''expected payload_hash mismatch''))) (\<lambda>_.
          bindS (liftS (build_row H (clk 0) collection record canonical_key tenant_id project_id None
            (q_chain_sequence row) (q_row_version row + 1) None None (Some False))) (\<lambda>built db.
          let updated = with_scope record tenant_id project_id;
              payload_hash = canonical_scoped_payload_hash H updated;
              chain_hash = sr_chain_hash built;
              updated_payload = dset updated ''_chain'' (chain_value None chain_hash (q_chain_sequence row) False);
              hit = (\<lambda>r. q_key tenant_id project_id collection canonical_key r \<and> q_row_version r = q_row_version row)
          in if length (filter hit (db_rows db)) \<noteq> 1
             then (Inl (VersionConflict ''concurrent compare-and-set lost''), db)
             else (Inr (updated_payload, q_payload row), db\<lparr>db_rows := map (\<lambda>r. if hit r
               then r\<lparr>q_payload := canon_dict updated_payload, q_payload_hash := payload_hash, q_chain_prev := None,
                      q_chain_hash := chain_hash, q_row_version := q_row_version r + 1, q_updated_at := clk 1\<rparr>
               else r) (db_rows db)\<rparr>)))) db)"

section \<open>Reading\<close>

definition postgres_get :: "string \<Rightarrow> string \<Rightarrow> string \<Rightarrow> string \<Rightarrow> scoped_db \<Rightarrow> pdict res" where
  "postgres_get collection canonical_key tenant_id project_id db =
     (case select_row tenant_id project_id collection canonical_key db of
        None \<Rightarrow> Inl (ScopedRecordNotFound (''scoped record not found: '' @ collection @ ''/'' @ canonical_key))
      | Some row \<Rightarrow> Inr (q_payload row))"

text \<open>\<open>collate\<close> is the sort key of a text in the collation of the database.\<close>

definition postgres_list ::
  "(string \<Rightarrow> string) \<Rightarrow> string \<Rightarrow> string \<Rightarrow> string \<Rightarrow> int \<Rightarrow> int \<Rightarrow> scoped_db \<Rightarrow> pdict list" where
  "postgres_list collate collection tenant_id project_id limit offset db =
     map q_payload (Scoped_Store.slice offset limit
       (sort_key (\<lambda>r. (q_chain_sequence r, collate (q_record_id r)))
         (filter (q_scope tenant_id project_id collection) (db_rows db))))"

definition postgres_admin_list ::
  "(string \<Rightarrow> string) \<Rightarrow> string \<Rightarrow> string option \<Rightarrow> string option \<Rightarrow> int \<Rightarrow> int \<Rightarrow> scoped_db \<Rightarrow> pdict list" where
  "postgres_admin_list collate collection tenant_id project_id limit offset db =
     map q_payload (Scoped_Store.slice offset limit
       (sort_key (\<lambda>r. (collate (q_tenant_id r), collate (q_project_id r), q_chain_sequence r, collate (q_record_id r)))
         (filter (\<lambda>r. q_collection r = collection
             \<and> (tenant_id = None \<or> Some (q_tenant_id r) = tenant_id)
             \<and> (project_id = None \<or> Some (q_project_id r) = project_id)) (db_rows db))))"

section \<open>Verifying\<close>

text \<open>The queries of \<open>_verify_conn\<close> are those of the SQLite verifier, so are the loops over their rows.\<close>

definition verify_postgres ::
  "(string \<Rightarrow> string) \<Rightarrow> string option \<Rightarrow> string option \<Rightarrow> string option \<Rightarrow> scoped_db \<Rightarrow> chain_report res" where
  "verify_postgres H tenant_id project_id collection db =
     (let linked = sqlite_linked_collections collection;
          groups = sqlite_groups (sqlite_group_rows tenant_id project_id collection db)
      in bindE (sqlite_check_groups H db groups 0 []) (\<lambda>(checked, heads).
         bindE (sqlite_check_orphans tenant_id project_id linked (map fst groups) db) (\<lambda>_.
         let rows = sqlite_standalone_rows tenant_id project_id collection db
         in bindE (allE (\<lambda>r. validate_standalone_row H (sqlite_view False r)) rows) (\<lambda>_.
            Inr \<lparr>rep_checked = checked + length rows, rep_heads = heads\<rparr>))))"

section \<open>Connections\<close>

text \<open>
  What is committed and the transaction of the thread, with the type of the SQLite engine. \<open>_acquire_write_locks\<close>: in a
  transaction the declared locks must cover the write, and they are locked again; outside, the locks of the write
  are made and locked.
\<close>

definition acquire_write_locks ::
  "string \<Rightarrow> string \<Rightarrow> string \<Rightarrow> string \<Rightarrow> bool \<Rightarrow> sqlite_engine \<Rightarrow> unit res" where
  "acquire_write_locks tenant_id project_id collection canonical_key chain_linked eng =
     (case sqlite_locks eng of
        Some ctx \<Rightarrow> require_write_locks (Some ctx) collection canonical_key chain_linked
      | None \<Rightarrow> bindE (implicit_write_lock_refs tenant_id project_id collection canonical_key chain_linked) (\<lambda>_. Inr ()))"

text \<open>The engine checks the collection and the locks before it hands over to the backend, which checks them again.\<close>

definition postgres_append_scoped ::
  "(string \<Rightarrow> string) \<Rightarrow> (nat \<Rightarrow> string) \<Rightarrow> string \<Rightarrow> pdict \<Rightarrow> string \<Rightarrow> string \<Rightarrow> string
   \<Rightarrow> (sqlite_engine, pdict \<times> bool) act" where
  "postgres_append_scoped H clk collection record canonical_key tenant_id project_id eng =
     bindS (liftS (validate_collection collection False True False)) (\<lambda>_.
     let linked = is_chain_linked_collection collection in
     bindS (liftS (require_write_locks (sqlite_locks eng) collection canonical_key linked)) (\<lambda>_.
     bindS (liftS (validate_collection collection False True False)) (\<lambda>_.
     bindS (liftS (acquire_write_locks tenant_id project_id collection canonical_key linked eng)) (\<lambda>_.
     with_connection (postgres_append H clk collection record canonical_key tenant_id project_id linked))))) eng"

definition postgres_compare_and_set_scoped ::
  "(string \<Rightarrow> string) \<Rightarrow> (nat \<Rightarrow> string) \<Rightarrow> string \<Rightarrow> pdict \<Rightarrow> string \<Rightarrow> string \<Rightarrow> string \<Rightarrow> int option \<Rightarrow> string option
   \<Rightarrow> (sqlite_engine, pdict \<times> pdict) act" where
  "postgres_compare_and_set_scoped H clk collection record canonical_key tenant_id project_id
       expected_version expected_payload_hash eng =
     bindS (liftS (validate_collection collection True False False)) (\<lambda>_.
     bindS (liftS (raise_if (is_chain_linked_collection collection)
        (TransactionUnavailable ''CAS is not supported on chain-linked scoped collections''))) (\<lambda>_.
     bindS (liftS (raise_if (expected_version = None \<and> expected_payload_hash = None)
        (ValueError ''expected_version or expected_payload_hash is required''))) (\<lambda>_.
     bindS (liftS (require_write_locks (sqlite_locks eng) collection canonical_key False)) (\<lambda>_.
     bindS (liftS (validate_collection collection False True False)) (\<lambda>_.
     bindS (liftS (raise_if (is_chain_linked_collection collection)
        (TransactionUnavailable ''CAS is not supported on chain-linked scoped collections''))) (\<lambda>_.
     bindS (liftS (acquire_write_locks tenant_id project_id collection canonical_key False eng)) (\<lambda>_.
     with_connection (postgres_cas H clk collection record canonical_key tenant_id project_id
        expected_version expected_payload_hash)))))))) eng"

definition postgres_get_scoped :: "string \<Rightarrow> string \<Rightarrow> string \<Rightarrow> string \<Rightarrow> sqlite_engine \<Rightarrow> pdict res" where
  "postgres_get_scoped collection canonical_key tenant_id project_id eng =
     bindE (validate_collection collection False False True) (\<lambda>_.
     postgres_get collection canonical_key tenant_id project_id (sqlite_read eng))"

definition postgres_list_scoped ::
  "(string \<Rightarrow> string) \<Rightarrow> string \<Rightarrow> string \<Rightarrow> string \<Rightarrow> int \<Rightarrow> int \<Rightarrow> sqlite_engine \<Rightarrow> pdict list res" where
  "postgres_list_scoped collate collection tenant_id project_id limit offset eng =
     bindE (validate_collection collection False False True) (\<lambda>_.
     bindE (check_page limit offset) (\<lambda>_.
     Inr (postgres_list collate collection tenant_id project_id limit offset (sqlite_read eng))))"

definition postgres_admin_list_scoped ::
  "(string \<Rightarrow> string) \<Rightarrow> string \<Rightarrow> string option \<Rightarrow> string option \<Rightarrow> int \<Rightarrow> int \<Rightarrow> sqlite_engine \<Rightarrow> pdict list res" where
  "postgres_admin_list_scoped collate collection tenant_id project_id limit offset eng =
     (case (tenant_id, project_id) of
        (Some t, Some p) \<Rightarrow> postgres_list_scoped collate collection t p limit offset eng
      | _ \<Rightarrow>
          bindE (validate_collection collection False False True) (\<lambda>_.
          bindE (check_page limit offset) (\<lambda>_.
          Inr (postgres_admin_list collate collection tenant_id project_id limit offset (sqlite_read eng)))))"

definition postgres_verify_scoped_chain ::
  "(string \<Rightarrow> string) \<Rightarrow> string option \<Rightarrow> string option \<Rightarrow> string option \<Rightarrow> sqlite_engine \<Rightarrow> chain_report res" where
  "postgres_verify_scoped_chain H tenant_id project_id collection eng =
     verify_postgres H tenant_id project_id collection (sq_committed eng)"

definition postgres_run_scoped_transaction ::
  "string \<Rightarrow> string \<Rightarrow> lock_ref list \<Rightarrow> (sqlite_engine, 'a) act \<Rightarrow> (sqlite_engine, 'a) act" where
  "postgres_run_scoped_transaction tenant_id project_id lock_refs fn eng =
     (case validate_lock_refs_scope lock_refs tenant_id project_id of Inl e \<Rightarrow> (Inl e, eng) | Inr _ \<Rightarrow>
      if sq_tx eng \<noteq> None
      then (Inl (TransactionUnavailable ''nested scoped transactions are not supported''), eng)
      else
        (let ordered = normalize_lock_refs (normalize_lock_refs lock_refs)
         in case fn (eng\<lparr>sq_tx := Some (sq_committed eng, build_lock_context ordered)\<rparr>) of
              (Inl e, eng') \<Rightarrow> (Inl e, eng'\<lparr>sq_tx := None\<rparr>)
            | (Inr x, eng') \<Rightarrow> (Inr x, eng'\<lparr>sq_committed := sqlite_read eng', sq_tx := None\<rparr>)))"

end
