(* ===== verification/Grdi_Migration.thy ===== *)
theory Grdi_Migration
  imports Grdi_Service Scoped_Postgres
begin

text \<open>
  Model of \<^verbatim>\<open>src/src/phigraph/grdi/migration.py\<close> and of the three \<open>migrate_legacy_scoped\<close> functions of
  \<^verbatim>\<open>src/src/phigraph/core_v3/scoped_ledger.py\<close> and \<^verbatim>\<open>postgres_scoped.py\<close>: the rows of the collection ledger are copied into
  the scoped ledger, then the gateway events of the copied plans are made. The collections are a frozen set: the
  order in which the code visits them is the argument \<open>collections\<close>.
\<close>

section \<open>Copying rows\<close>

record migration_stats =
  ms_inserted :: int
  ms_skipped :: int
  ms_collections :: "(string \<times> int) list"

definition no_migration :: migration_stats where
  "no_migration = \<lparr>ms_inserted = 0, ms_skipped = 0, ms_collections = []\<rparr>"

type_synonym dedupe = "((string \<times> string \<times> string) \<times> string) list"

text \<open>The key of a row: its scope, by default \<open>default\<close>, and the text of its canonical field.\<close>

definition legacy_key :: "string \<Rightarrow> pdict \<Rightarrow> (string \<times> string \<times> string) res" where
  "legacy_key canonical_field row =
     bindE (as_dict (dget_or row ''scope'' (JObj []))) (\<lambda>scope.
     bindE (dindex row canonical_field) (\<lambda>v.
     bindE (json_str (dget_or scope ''tenant_id'' (JStr ''default''))) (\<lambda>t_id.
     bindE (json_str (dget_or scope ''project_id'' (JStr ''default''))) (\<lambda>p_id.
     Inr (t_id, p_id, py_str v)))))"

text \<open>
  One row, the same on every backend: \<open>stored_hash\<close> looks up the payload hash stored under a key, \<open>put_new\<close> adds the record. A
  row whose key was seen, or is stored, is skipped, and has to have the same hash.
\<close>

definition migrate_row ::
  "(string \<Rightarrow> string) \<Rightarrow> (string \<Rightarrow> string \<Rightarrow> string \<Rightarrow> string \<Rightarrow> 's \<Rightarrow> string option)
   \<Rightarrow> (string \<Rightarrow> string \<Rightarrow> string \<Rightarrow> string \<Rightarrow> pdict \<Rightarrow> ('s, unit) act) \<Rightarrow> string \<Rightarrow> string \<Rightarrow> pdict
   \<Rightarrow> dedupe \<times> migration_stats \<Rightarrow> ('s, dedupe \<times> migration_stats) act" where
  "migrate_row H stored_hash put_new coll canonical_field row acc =
     (case acc of (seen, stats) \<Rightarrow>
     bindS (liftS (legacy_key canonical_field row)) (\<lambda>(t_id, p_id, canonical_key).
     let dedupe_key = (t_id, p_id, canonical_key);
         payload_hash = canonical_scoped_payload_hash H row;
         skipped = stats\<lparr>ms_skipped := ms_skipped stats + 1\<rparr>
     in case map_of seen dedupe_key of
          Some h \<Rightarrow> if h \<noteq> payload_hash
            then failS (DuplicateCanonicalKey (''Migration duplicate with conflicting hash: '' @ coll @ ''/'' @ canonical_key))
            else retS (seen, skipped)
        | None \<Rightarrow> (\<lambda>s. case stored_hash t_id p_id coll canonical_key s of
            Some h \<Rightarrow> if h \<noteq> payload_hash
              then failS (DuplicateCanonicalKey (''Scoped row exists with different hash: '' @ coll @ ''/'' @ canonical_key)) s
              else retS (dset seen dedupe_key payload_hash, skipped) s
          | None \<Rightarrow> bindS (put_new t_id p_id coll canonical_key row) (\<lambda>_.
              retS (dset seen dedupe_key payload_hash, stats\<lparr>ms_inserted := ms_inserted stats + 1\<rparr>)) s)))"

fun migrate_rows ::
  "(pdict \<Rightarrow> dedupe \<times> migration_stats \<Rightarrow> ('s, dedupe \<times> migration_stats) act) \<Rightarrow> pdict list
   \<Rightarrow> dedupe \<times> migration_stats \<Rightarrow> ('s, dedupe \<times> migration_stats) act" where
  "migrate_rows step [] acc = retS acc"
| "migrate_rows step (row # rows) acc = bindS (step row acc) (migrate_rows step rows)"

text \<open>\<open>LEGACY_CANONICAL_KEY_FIELDS[coll]\<close>, which has every collection that is migrated.\<close>

definition canonical_field_of :: "string \<Rightarrow> string res" where
  "canonical_field_of coll = (case map_of LEGACY_CANONICAL_KEY_FIELDS coll of
     None \<Rightarrow> Inl (KeyError coll) | Some f \<Rightarrow> Inr f)"

fun migrate_collections ::
  "(string \<Rightarrow> string) \<Rightarrow> (string \<Rightarrow> string \<Rightarrow> string \<Rightarrow> string \<Rightarrow> 's \<Rightarrow> string option)
   \<Rightarrow> (string \<Rightarrow> string \<Rightarrow> string \<Rightarrow> string \<Rightarrow> pdict \<Rightarrow> ('s, unit) act) \<Rightarrow> (string \<Rightarrow> pdict list)
   \<Rightarrow> string list \<Rightarrow> migration_stats \<Rightarrow> ('s, migration_stats) act" where
  "migrate_collections H stored_hash put_new rows_of_coll [] stats = retS stats"
| "migrate_collections H stored_hash put_new rows_of_coll (coll # colls) stats =
     bindS (liftS (canonical_field_of coll)) (\<lambda>canonical_field.
     bindS (migrate_rows (migrate_row H stored_hash put_new coll canonical_field) (rows_of_coll coll) ([], stats)) (\<lambda>(seen, stats').
     migrate_collections H stored_hash put_new rows_of_coll colls
       (stats'\<lparr>ms_collections := dset (ms_collections stats') coll (int (length (rows_of_coll coll)))\<rparr>)))"

section \<open>The backends\<close>

text \<open>JSON: the state of the sidecar file, written once at the end, if nothing was raised. Clock 0 is that of the row, 1 of the head.\<close>

definition json_stored_hash :: "string \<Rightarrow> string \<Rightarrow> string \<Rightarrow> string \<Rightarrow> store_state \<Rightarrow> string option" where
  "json_stored_hash t_id p_id coll canonical_key st =
     map_option sr_payload_hash (map_of (st_records st) (scoped_key t_id p_id coll canonical_key))"

definition json_migrate_insert ::
  "(string \<Rightarrow> string) \<Rightarrow> (nat \<Rightarrow> string) \<Rightarrow> string \<Rightarrow> string \<Rightarrow> string \<Rightarrow> string \<Rightarrow> pdict \<Rightarrow> (store_state, unit) act" where
  "json_migrate_insert H clk t_id p_id coll canonical_key row st =
     (let hk = head_key t_id p_id coll;
          (last_sequence, chain_prev) = (case map_of (st_heads st) hk of
              Some h \<Rightarrow> (ch_last_sequence h, ch_last_chain_hash h) | None \<Rightarrow> (0, None));
          next_sequence = last_sequence + 1
      in case build_row H (clk 0) coll (dremove row ''_chain'') canonical_key t_id p_id chain_prev next_sequence 1
              None None (Some True) of
           Inl e \<Rightarrow> (Inl e, st)
         | Inr stored \<Rightarrow> (Inr (), \<lparr>
             st_records = dset (st_records st) (scoped_key t_id p_id coll canonical_key) stored,
             st_heads = dset (st_heads st) hk \<lparr>ch_tenant_id = t_id, ch_project_id = p_id, ch_collection = coll,
               ch_last_sequence = next_sequence, ch_last_chain_hash = Some (sr_chain_hash stored), ch_updated_at = clk 1\<rparr>\<rparr>))"

definition rows_in :: "ledger_rows \<Rightarrow> string \<Rightarrow> pdict list" where
  "rows_in payload coll = (case map_of payload coll of None \<Rightarrow> [] | Some rows \<Rightarrow> rows)"

definition migrate_legacy_scoped_json ::
  "(string \<Rightarrow> string) \<Rightarrow> (nat \<Rightarrow> string) \<Rightarrow> string list \<Rightarrow> json \<Rightarrow> (engine, migration_stats) act" where
  "migrate_legacy_scoped_json H clk collections file eng =
     (case bindE (json_read_all file) (\<lambda>payload. bindE (read_json_state eng) (\<lambda>st. Inr (payload, st))) of
        Inl e \<Rightarrow> (Inl e, eng)
      | Inr (payload, st) \<Rightarrow>
          (case migrate_collections H json_stored_hash (json_migrate_insert H clk) (rows_in payload) collections no_migration st of
             (Inl e, st') \<Rightarrow> (Inl e, eng)
           | (Inr stats, st') \<Rightarrow> (Inr stats, write_json_state st' eng)))"

text \<open>SQLite: statements on one connection, rolled back when something was raised. Texts of times stay, others are outside the model.\<close>

definition table_rows_of :: "ledger_table \<Rightarrow> string \<Rightarrow> pdict list" where
  "table_rows_of table coll = map (snd \<circ> snd) (filter (\<lambda>r. fst r = coll) table)"

definition sqlite_stored_hash :: "string \<Rightarrow> string \<Rightarrow> string \<Rightarrow> string \<Rightarrow> scoped_db \<Rightarrow> string option" where
  "sqlite_stored_hash t_id p_id coll canonical_key db =
     map_option q_payload_hash (select_row t_id p_id coll canonical_key db)"

definition time_of :: "pdict \<Rightarrow> string \<Rightarrow> string option res" where
  "time_of row field = (if truthy (dget row field) then map_sum id Some (json_str (dget row field)) else Inr None)"

definition sqlite_migrate_insert ::
  "(string \<Rightarrow> string) \<Rightarrow> (nat \<Rightarrow> string) \<Rightarrow> string \<Rightarrow> string \<Rightarrow> string \<Rightarrow> string \<Rightarrow> pdict \<Rightarrow> (scoped_db, unit) act" where
  "sqlite_migrate_insert H clk t_id p_id coll canonical_key row =
     bindS (sqlite_take_number (clk 0) t_id p_id coll True) (\<lambda>(next_sequence, chain_prev).
     bindS (liftS (time_of row ''created_at'')) (\<lambda>created_at.
     bindS (liftS (time_of row ''updated_at'')) (\<lambda>updated_at.
     bindS (liftS (build_row H (clk 3) coll (dremove row ''_chain'') canonical_key t_id p_id chain_prev next_sequence 1
       (Some (or_now created_at (clk 1))) (Some (or_now updated_at (clk 2))) (Some True))) (\<lambda>stored.
     bindS (insert_row (sql_row_of stored)) (\<lambda>_ db.
     (Inr (), update_head t_id p_id coll next_sequence (sr_chain_hash stored) (clk 4) db))))))"

definition migrate_legacy_scoped_sqlite ::
  "(string \<Rightarrow> string) \<Rightarrow> (nat \<Rightarrow> string) \<Rightarrow> string list \<Rightarrow> ledger_table \<Rightarrow> (scoped_db, migration_stats) act" where
  "migrate_legacy_scoped_sqlite H clk collections table db =
     (case migrate_collections H sqlite_stored_hash (sqlite_migrate_insert H clk) (table_rows_of table) collections no_migration db of
        (Inl e, db') \<Rightarrow> (Inl e, db)
      | (Inr stats, db') \<Rightarrow> (Inr stats, db'))"

text \<open>PostgreSQL: an append of the backend under the locks of the write, on the connection of the migration.\<close>

definition postgres_migrate_insert ::
  "(string \<Rightarrow> string) \<Rightarrow> (nat \<Rightarrow> string) \<Rightarrow> string \<Rightarrow> string \<Rightarrow> string \<Rightarrow> string \<Rightarrow> pdict \<Rightarrow> (scoped_db, unit) act" where
  "postgres_migrate_insert H clk t_id p_id coll canonical_key row =
     bindS (liftS (implicit_write_lock_refs t_id p_id coll canonical_key (is_chain_linked_collection coll))) (\<lambda>_.
     bindS (postgres_append H clk coll (dremove row ''_chain'') canonical_key t_id p_id True) (\<lambda>_. retS ()))"

definition migrate_legacy_scoped_postgres ::
  "(string \<Rightarrow> string) \<Rightarrow> (nat \<Rightarrow> string) \<Rightarrow> string list \<Rightarrow> (string \<Rightarrow> pdict list) \<Rightarrow> (scoped_db, migration_stats) act" where
  "migrate_legacy_scoped_postgres H clk collections legacy_rows db =
     (case migrate_collections H sqlite_stored_hash (postgres_migrate_insert H clk) legacy_rows collections no_migration db of
        (Inl e, db') \<Rightarrow> (Inl e, db)
      | (Inr stats, db') \<Rightarrow> (Inr stats, db'))"

section \<open>Events of the copied plans\<close>

definition gateway_from_scoped_row :: "string \<Rightarrow> pdict \<Rightarrow> gateway_decision res" where
  "gateway_from_scoped_row now row = gateway_decision_from_row now
     (set_default (set_default row ''simulation_state'' (JStr ''NOT_SIMULATED'')) ''execution_state'' (JStr ''NOT_EXECUTED''))"

definition or_scope :: "pdict \<Rightarrow> string \<Rightarrow> string res" where
  "or_scope row field = (if truthy (dget row field) then Inr (py_str (dget row field))
     else bindE (as_dict (dget_or row ''scope'' (JObj []))) (\<lambda>scope. Inr (py_str (dget_or scope field (JStr ''default'')))))"

definition scope_from_row :: "pdict \<Rightarrow> (string \<times> string) res" where
  "scope_from_row row = bindE (or_scope row ''tenant_id'') (\<lambda>tenant_id.
     bindE (or_scope row ''project_id'') (\<lambda>project_id. Inr (tenant_id, project_id)))"

text \<open>Events made, events found, simulations without a receipt.\<close>

type_synonym backfill_counts = "int \<times> int \<times> int"

definition add_counts :: "backfill_counts \<Rightarrow> backfill_counts \<Rightarrow> backfill_counts" where
  "add_counts a b = (case (a, b) of ((c, s, n), (c', s', n')) \<Rightarrow> (c + c', s + s', n + n'))"

definition append_event ::
  "world \<Rightarrow> nat \<Rightarrow> string \<Rightarrow> string \<Rightarrow> string \<Rightarrow> string \<Rightarrow> pdict \<Rightarrow> (engine, backfill_counts) act" where
  "append_event w n tenant_id project_id plan_id event_type event =
     bindS (liftS (gateway_event_canonical_key plan_id event_type)) (\<lambda>key.
     bindS (session_append_scoped_once (wd_hash w) (wd_clk w n) tenant_id project_id ''gateway_decision_events'' event key)
       (\<lambda>(stored, created). retS (if created then (1, 0, 0) else (0, 1, 0))))"

definition commit_backfill :: "world \<Rightarrow> string \<Rightarrow> string \<Rightarrow> gateway_decision \<Rightarrow> pdict \<Rightarrow> (engine, backfill_counts) act" where
  "commit_backfill w tenant_id project_id gateway row =
     (let plan_id = gd_plan_id gateway;
          created_event = build_gateway_decision_event_record (wd_uuid5 w) tenant_id project_id plan_id
            (gd_gateway_decision_id gateway) ''GATEWAY_DECISION_CREATED'' (gd_decided_at gateway)
            (gd_gateway_decision_id gateway) []
      in bindS (append_event w 0 tenant_id project_id plan_id ''GATEWAY_DECISION_CREATED'' created_event) (\<lambda>local.
         if py_str (dget_or row ''simulation_state'' (JStr [])) \<noteq> ''SIMULATED'' then retS local
         else bindS (tryS (bindS (session_get_scoped tenant_id project_id ''shadow_execution_receipts'' plan_id) (\<lambda>r. retS (Some r)))
             (\<lambda>e. case e of ScopedRecordNotFound m \<Rightarrow> retS None | _ \<Rightarrow> failS e)) (\<lambda>found.
           case found of
             None \<Rightarrow> retS (add_counts local (0, 0, 1))
           | Some receipt \<Rightarrow>
               (let simulated_at = py_str (dget_or receipt ''simulated_at'' (JStr []));
                    receipt_id = py_str (dget_or receipt ''receipt_id'' (JStr []));
                    simulation_event = build_gateway_decision_event_record (wd_uuid5 w) tenant_id project_id plan_id
                      (gd_gateway_decision_id gateway) ''SIMULATION_RECORDED'' simulated_at receipt_id receipt_id
                in if simulated_at = [] then retS (add_counts local (0, 0, 1))
                   else bindS (append_event w 1 tenant_id project_id plan_id ''SIMULATION_RECORDED'' simulation_event)
                     (\<lambda>more. retS (add_counts local more))))))"

text \<open>One plan in one transaction; a conflict is raised again with the plan in its message.\<close>

definition backfill_plan_events :: "world \<Rightarrow> pdict \<Rightarrow> (engine, backfill_counts) act" where
  "backfill_plan_events w row =
     bindS (liftS (gateway_from_scoped_row (wd_now w 0) row)) (\<lambda>gateway.
     bindS (liftS (scope_from_row row)) (\<lambda>(tenant_id, project_id).
     bindS (liftS (backfill_locks tenant_id project_id (gd_plan_id gateway))) (\<lambda>locks.
     tryS (run_scoped_transaction tenant_id project_id locks (commit_backfill w tenant_id project_id gateway row))
       (\<lambda>e. case e of
          DuplicateCanonicalKey m \<Rightarrow> failS (DuplicateCanonicalKey
            (''Gateway event backfill conflict for plan '' @ gd_plan_id gateway @ '': '' @ m))
        | _ \<Rightarrow> failS e))))"

record backfill_stats =
  bs_created_events :: int
  bs_skipped_events :: int
  bs_simulation_not_evaluated :: int
  bs_plans_processed :: int

fun backfill_rows ::
  "world \<Rightarrow> string option \<Rightarrow> string option \<Rightarrow> pdict list \<Rightarrow> backfill_stats \<Rightarrow> (engine, backfill_stats) act" where
  "backfill_rows w tenant_id project_id [] stats = retS stats"
| "backfill_rows w tenant_id project_id (row # rows) stats =
     bindS (liftS (scope_from_row row)) (\<lambda>(row_tenant_id, row_project_id).
     if tenant_id \<noteq> None \<and> Some row_tenant_id \<noteq> tenant_id \<or> project_id \<noteq> None \<and> Some row_project_id \<noteq> project_id
     then backfill_rows w tenant_id project_id rows stats
     else bindS (backfill_plan_events w row) (\<lambda>(created, skipped, missing).
       backfill_rows w tenant_id project_id rows
         \<lparr>bs_created_events = bs_created_events stats + created,
          bs_skipped_events = bs_skipped_events stats + skipped,
          bs_simulation_not_evaluated = bs_simulation_not_evaluated stats + missing,
          bs_plans_processed = bs_plans_processed stats + 1\<rparr>))"

definition backfill_gateway_decision_events ::
  "world \<Rightarrow> string option \<Rightarrow> string option \<Rightarrow> (engine, backfill_stats) act" where
  "backfill_gateway_decision_events w tenant_id project_id =
     bindS (readS (engine_admin_list_scoped ''gateway_decisions'' tenant_id project_id MAX_LIST_LIMIT 0)) (\<lambda>rows.
     bindS (backfill_rows w tenant_id project_id rows
       \<lparr>bs_created_events = 0, bs_skipped_events = 0, bs_simulation_not_evaluated = 0, bs_plans_processed = 0\<rparr>) (\<lambda>stats.
     bindS (readS (engine_verify_scoped_chain (wd_hash w) tenant_id project_id None)) (\<lambda>_.
     retS stats)))"

text \<open>The cutover over the JSON backend.\<close>

definition cutover_grdi_scoped_ledger ::
  "world \<Rightarrow> string list \<Rightarrow> json \<Rightarrow> (engine, migration_stats \<times> backfill_stats) act" where
  "cutover_grdi_scoped_ledger w collections file =
     bindS (migrate_legacy_scoped_json (wd_hash w) (wd_clk w 0) collections file) (\<lambda>legacy.
     bindS (backfill_gateway_decision_events w None None) (\<lambda>events.
     retS (legacy, events)))"

end
