(* ===== verification/Backfill_Facts.thy ===== *)
theory Backfill_Facts
  imports Grdi_Migration Grdi_Replay_Locks
begin

text \<open>
  Making the events of copied plans: the transaction of a plan over the state it works on, that a second run of it finds what the
  first left, that it is a sequence of steps of the engine and that it declares its locks.
\<close>

section \<open>Writing what was read\<close>

lemma canon_entries: "map (map_prod id canon) d = map (map_prod id canon) d' \<Longrightarrow> canon (JObj d) = canon (JObj d')"
  by (metis canon_JObj canon_dict_def sort_fst_map_prod)

lemma canon_payload: "canon (JObj (canon_dict d)) = canon (JObj d)"
  by (metis canon_JObj canon_idem)

lemma canon_row_norm: "canon (row_to_json (norm_row r)) = canon (row_to_json r)"
  unfolding row_to_json_def norm_row_sel by (rule canon_entries) (simp only: list.map map_prod_simp canon_payload)

lemma write_norm: "write_json_state (norm_state st) eng = write_json_state st eng"
  unfolding write_json_state_def norm_state_def
  by (rule arg_cong [where f = "\<lambda>d. eng\<lparr>eng_disk := Some d\<rparr>"], rule canon_entries)
    (simp add: case_prod_beta comp_def canon_row_norm)

lemma write_write [simp]: "write_json_state st (write_json_state st' eng) = write_json_state st eng"
  by (simp add: write_json_state_def)

section \<open>Inside a transaction\<close>

definition inside :: "lock_ref list \<Rightarrow> store_state \<Rightarrow> engine \<Rightarrow> bool" where
  "inside ls st e \<longleftrightarrow> tx_depth e = 1 \<and> active_state e = Some st \<and> \<not> eng_multiprocess e \<and>
     eng_lock_context e = Some (build_lock_context ls)"

lemma inside_set: "inside ls st e \<Longrightarrow> inside ls st' (e\<lparr>active_state := Some st'\<rparr>)"
  by (simp add: inside_def)

lemma inside_same: "inside ls st e \<Longrightarrow> e\<lparr>active_state := Some st\<rparr> = e"
  by (cases e) (simp add: inside_def)

lemma inside_append:
  assumes "inside ls st e" "covers ls c k" "validate_collection c False True False = Inr ()"
  shows "engine_append_scoped H clk c rcd k t p e =
    (case json_append_state H clk c rcd k t p (is_chain_linked_collection c) st of (r, st') \<Rightarrow> (r, e\<lparr>active_state := Some st'\<rparr>))"
proof -
  have "engine_append_scoped H clk c rcd k t p e =
      on_state snd (json_append_state H clk c rcd k t p (is_chain_linked_collection c)) e"
    using assms by (intro engine_append_eq) (simp_all add: inside_def covers_def)
  then show ?thesis
    using assms(1) by (auto simp: on_state_def inside_def current_state_def in_transaction_def Let_def split: prod.split sum.split)
qed

lemma inside_get:
  "inside ls st e \<Longrightarrow> validate_collection c False False True = Inr () \<Longrightarrow> engine_get_scoped c k t p e = get_scoped_state c k t p st"
  by (simp add: engine_get_scoped_def read_state_def ensure_multiprocess_json_allowed_def current_state_def inside_def)

section \<open>One event\<close>

abbreviation event_key :: "string \<Rightarrow> string \<Rightarrow> string \<Rightarrow> string \<Rightarrow> string" where
  "event_key t p pl ty \<equiv> scoped_key t p ''gateway_decision_events'' (pl @ '':'' @ ty)"

lemma events_allowed [simp]: "validate_collection ''gateway_decision_events'' False True False = Inr ()"
  "validate_collection ''shadow_execution_receipts'' False False True = Inr ()"
  by code_simp+

lemma append_event_unfold:
  assumes "inside ls st e" "ty \<in> set GATEWAY_DECISION_EVENT_TYPES" "covers ls ''gateway_decision_events'' (pl @ '':'' @ ty)"
  shows "append_event w n t p pl ty ev e =
    (case json_append_state (wd_hash w) (wd_clk w n) ''gateway_decision_events'' ev (pl @ '':'' @ ty) t p True st of
       (Inl x, st') \<Rightarrow> (Inl x, e\<lparr>active_state := Some st'\<rparr>)
     | (Inr (q, created), st') \<Rightarrow> (Inr (if created then (1, 0, 0) else (0, 1, 0)), e\<lparr>active_state := Some st'\<rparr>))"
  using assms inside_append [OF assms(1,3) events_allowed(1)]
  by (auto simp: append_event_def gateway_event_canonical_key_def bindS_def liftS_def retS_def session_append_scoped_once_def
      split: prod.split sum.split)

lemma append_event_run:
  assumes "inside ls st e" "ty \<in> set GATEWAY_DECISION_EVENT_TYPES" "covers ls ''gateway_decision_events'' (pl @ '':'' @ ty)"
    and "append_event w n t p pl ty ev e = (Inr x, e1)"
  obtains st1 row where "e1 = e\<lparr>active_state := Some st1\<rparr>" "map_of (st_records st1) (event_key t p pl ty) = Some row"
    "sr_payload_hash row = canonical_scoped_payload_hash (wd_hash w) (with_scope ev t p)"
    "\<And>k. k \<noteq> event_key t p pl ty \<Longrightarrow> map_of (st_records st1) k = map_of (st_records st) k"
    "x = (1, 0, 0) \<or> x = (0, 1, 0)"
proof -
  from assms(4) obtain q created st1 where
    app: "json_append_state (wd_hash w) (wd_clk w n) ''gateway_decision_events'' ev (pl @ '':'' @ ty) t p True st = (Inr (q, created), st1)"
    and e1: "e1 = e\<lparr>active_state := Some st1\<rparr>" "x = (if created then (1, 0, 0) else (0, 1, 0))"
    unfolding append_event_unfold [OF assms(1-3)] by (auto split: prod.splits sum.splits)
  from append_state_found [OF app] that e1 append_state_other [OF app] show thesis by auto
qed

lemma append_event_again:
  assumes "inside ls st e" "ty \<in> set GATEWAY_DECISION_EVENT_TYPES" "covers ls ''gateway_decision_events'' (pl @ '':'' @ ty)"
    and "map_of (st_records st) (event_key t p pl ty) = Some row"
    and "sr_payload_hash row = canonical_scoped_payload_hash (wd_hash w) (with_scope ev t p)"
  shows "append_event w n t p pl ty ev e = (Inr (0, 1, 0), e)"
  using assms(4,5) inside_same [OF assms(1)] by (simp add: append_event_unfold [OF assms(1-3)] json_append_state_unfold)

section \<open>The events of a plan\<close>

lemma read_receipt:
  assumes "inside ls st e"
  shows "tryS (bindS (session_get_scoped t p ''shadow_execution_receipts'' pl) (\<lambda>r. retS (Some r)))
      (\<lambda>e. case e of ScopedRecordNotFound m \<Rightarrow> retS None | _ \<Rightarrow> failS e) e =
    (Inr (map_option sr_payload (map_of (st_records st) (scoped_key t p ''shadow_execution_receipts'' pl))), e)"
  by (simp add: tryS_def bindS_def session_get_scoped_def readS_def inside_get [OF assms] get_scoped_state_def retS_def
      to_public_def split: option.split)

definition simulation_seen :: "pdict \<Rightarrow> bool" where
  "simulation_seen row \<longleftrightarrow> py_str (dget_or row ''simulation_state'' (JStr [])) = ''SIMULATED''"

definition created_event :: "world \<Rightarrow> string \<Rightarrow> string \<Rightarrow> gateway_decision \<Rightarrow> pdict" where
  "created_event w t p g = build_gateway_decision_event_record (wd_uuid5 w) t p (gd_plan_id g)
     (gd_gateway_decision_id g) ''GATEWAY_DECISION_CREATED'' (gd_decided_at g) (gd_gateway_decision_id g) []"

definition simulation_event :: "world \<Rightarrow> string \<Rightarrow> string \<Rightarrow> gateway_decision \<Rightarrow> pdict \<Rightarrow> pdict" where
  "simulation_event w t p g receipt = (let receipt_id = py_str (dget_or receipt ''receipt_id'' (JStr [])) in
     build_gateway_decision_event_record (wd_uuid5 w) t p (gd_plan_id g) (gd_gateway_decision_id g) ''SIMULATION_RECORDED''
       (py_str (dget_or receipt ''simulated_at'' (JStr []))) receipt_id receipt_id)"

text \<open>The rest of the transaction, after the first event.\<close>

definition second_event :: "world \<Rightarrow> string \<Rightarrow> string \<Rightarrow> gateway_decision \<Rightarrow> pdict option \<Rightarrow> backfill_counts \<Rightarrow> (engine, backfill_counts) act" where
  "second_event w t p g found local = (case found of
     None \<Rightarrow> retS (add_counts local (0, 0, 1))
   | Some receipt \<Rightarrow> if py_str (dget_or receipt ''simulated_at'' (JStr [])) = [] then retS (add_counts local (0, 0, 1))
       else bindS (append_event w 1 t p (gd_plan_id g) ''SIMULATION_RECORDED'' (simulation_event w t p g receipt))
         (\<lambda>more. retS (add_counts local more)))"

lemma commit_backfill_unfold:
  "commit_backfill w t p g row =
     bindS (append_event w 0 t p (gd_plan_id g) ''GATEWAY_DECISION_CREATED'' (created_event w t p g)) (\<lambda>local.
     if \<not> simulation_seen row then retS local
     else bindS (tryS (bindS (session_get_scoped t p ''shadow_execution_receipts'' (gd_plan_id g)) (\<lambda>r. retS (Some r)))
         (\<lambda>e. case e of ScopedRecordNotFound m \<Rightarrow> retS None | _ \<Rightarrow> failS e)) (\<lambda>found. second_event w t p g found local))"
  unfolding commit_backfill_def Let_def created_event_def simulation_event_def second_event_def simulation_seen_def by simp

lemma event_types: "''GATEWAY_DECISION_CREATED'' \<in> set GATEWAY_DECISION_EVENT_TYPES" "''SIMULATION_RECORDED'' \<in> set GATEWAY_DECISION_EVENT_TYPES"
  by (simp_all add: GATEWAY_DECISION_EVENT_TYPES_def)

lemma event_keys_differ:
  "event_key t p pl ''GATEWAY_DECISION_CREATED'' \<noteq> event_key t p pl ''SIMULATION_RECORDED''"
  "nulfree t \<Longrightarrow> nulfree p \<Longrightarrow> scoped_key t p ''shadow_execution_receipts'' k \<noteq> event_key t p pl ty"
proof -
  show "event_key t p pl ''GATEWAY_DECISION_CREATED'' \<noteq> event_key t p pl ''SIMULATION_RECORDED''"
    by (simp add: scoped_key_def)
  have "nulfree ''shadow_execution_receipts''" "nulfree ''gateway_decision_events''" by code_simp+
  then show "nulfree t \<Longrightarrow> nulfree p \<Longrightarrow> scoped_key t p ''shadow_execution_receipts'' k \<noteq> event_key t p pl ty"
    using scoped_key_inj by blast
qed

lemma map_of_norm_hash:
  "map_of (st_records st) k = Some r \<Longrightarrow> \<exists>r'. map_of (st_records (norm_state st)) k = Some r' \<and> sr_payload_hash r' = sr_payload_hash r"
  by (simp add: map_of_norm norm_row_def)

text \<open>
  The second run of the transaction, on the state that the file gives back after the first. The receipt it reads is one the first
  run read from a file, so it is the same.
\<close>

lemma commit_backfill_again:
  assumes e: "inside ls st e" and norm: "norm_state st = st" and n: "nulfree t" "nulfree p"
    and ls: "covers ls ''gateway_decision_events'' (gd_plan_id g @ '':GATEWAY_DECISION_CREATED'')"
      "covers ls ''gateway_decision_events'' (gd_plan_id g @ '':SIMULATION_RECORDED'')"
    and run: "commit_backfill w t p g row e = (Inr (c, s, m), e2)"
    and w2: "wd_hash w2 = wd_hash w" "wd_uuid5 w2 = wd_uuid5 w"
  shows "\<exists>st2. e2 = e\<lparr>active_state := Some st2\<rparr> \<and>
    (\<forall>e3. inside ls (norm_state st2) e3 \<longrightarrow> commit_backfill w2 t p g row e3 = (Inr (0, c + s, m), e3))"
proof -
  let ?pl = "gd_plan_id g"
  let ?r = "scoped_key t p ''shadow_execution_receipts'' ?pl"
  let ?h = "\<lambda>ev. canonical_scoped_payload_hash (wd_hash w) (with_scope ev t p)"
  have ls': "covers ls ''gateway_decision_events'' (?pl @ '':'' @ ''GATEWAY_DECISION_CREATED'')"
    "covers ls ''gateway_decision_events'' (?pl @ '':'' @ ''SIMULATION_RECORDED'')" using ls by simp_all
  have same: "created_event w2 t p g = created_event w t p g" "simulation_event w2 t p g = simulation_event w t p g"
    by (simp_all add: created_event_def simulation_event_def w2 fun_eq_iff)
  from run obtain local e1 where
    one: "append_event w 0 t p ?pl ''GATEWAY_DECISION_CREATED'' (created_event w t p g) e = (Inr local, e1)"
    and rest: "(if \<not> simulation_seen row then retS local
      else bindS (tryS (bindS (session_get_scoped t p ''shadow_execution_receipts'' ?pl) (\<lambda>r. retS (Some r)))
         (\<lambda>e. case e of ScopedRecordNotFound m \<Rightarrow> retS None | _ \<Rightarrow> failS e)) (\<lambda>found. second_event w t p g found local)) e1 =
      (Inr (c, s, m), e2)"
    unfolding commit_backfill_unfold by (auto elim!: bindS_InrE)
  from append_event_run [OF e event_types(1) ls'(1) one] obtain st1 row1 where
    e1: "e1 = e\<lparr>active_state := Some st1\<rparr>"
    and row1: "map_of (st_records st1) (event_key t p ?pl ''GATEWAY_DECISION_CREATED'') = Some row1"
      "sr_payload_hash row1 = ?h (created_event w t p g)"
    and keep1: "\<And>k. k \<noteq> event_key t p ?pl ''GATEWAY_DECISION_CREATED'' \<Longrightarrow> map_of (st_records st1) k = map_of (st_records st) k"
    and local: "local = (1, 0, 0) \<or> local = (0, 1, 0)" by blast
  have in1: "inside ls st1 e1" using inside_set [OF e] by (simp add: e1)
  have again1: "append_event w2 0 t p ?pl ''GATEWAY_DECISION_CREATED'' (created_event w2 t p g) e3 = (Inr (0, 1, 0), e3)"
    if "inside ls st3 e3" "map_of (st_records st3) (event_key t p ?pl ''GATEWAY_DECISION_CREATED'') = Some r3"
      "sr_payload_hash r3 = ?h (created_event w t p g)" for st3 e3 r3
    using append_event_again [OF that(1) event_types(1) ls'(1) that(2)] that(3) by (simp add: same w2)
  show ?thesis
  proof (cases "simulation_seen row")
    case False
    with rest have "local = (c, s, m)" "e2 = e1" by (auto simp: retS_def)
    moreover have "commit_backfill w2 t p g row e3 = (Inr (0, 1, 0), e3)" if "inside ls (norm_state st1) e3" for e3
      using again1 [OF that] map_of_norm_hash [OF row1(1)] row1(2) False by (auto simp: commit_backfill_unfold bindS_def retS_def)
    ultimately show ?thesis using local e1 by auto
  next
    case True
    define found where "found = map_option sr_payload (map_of (st_records st) ?r)"
    have found1: "map_option sr_payload (map_of (st_records st1) ?r) = found"
      using keep1 [OF event_keys_differ(2) [OF n]] by (simp add: found_def)
    from rest True read_receipt [OF in1] found1 have second: "second_event w t p g found local e1 = (Inr (c, s, m), e2)"
      by (simp add: bindS_def)
    have norm_found: "map_option sr_payload (map_of (st_records (norm_state st2)) ?r) = found"
      if "map_of (st_records st2) ?r = map_of (st_records st) ?r" for st2
    proof -
      have "map_of (st_records (norm_state st2)) ?r = map_of (st_records (norm_state st)) ?r" by (simp add: map_of_norm that)
      then show ?thesis by (simp add: norm found_def)
    qed
    have go: "commit_backfill w2 t p g row e3 = second_event w2 t p g found (0, 1, 0) e3"
      if "inside ls (norm_state st2) e3" "map_of (st_records st2) ?r = map_of (st_records st) ?r"
        "map_of (st_records st2) (event_key t p ?pl ''GATEWAY_DECISION_CREATED'') = Some row1" for st2 e3
      using again1 [OF that(1)] map_of_norm_hash [OF that(3)] row1(2) True read_receipt [OF that(1)] norm_found [OF that(2)]
      by (auto simp: commit_backfill_unfold bindS_def)
    show ?thesis
    proof (cases "\<exists>receipt. found = Some receipt \<and> py_str (dget_or receipt ''simulated_at'' (JStr [])) \<noteq> []")
      case False
      then have none: "second_event w' t p g found l = retS (add_counts l (0, 0, 1))" for w' l
        by (auto simp: second_event_def split: option.split)
      with second have "add_counts local (0, 0, 1) = (c, s, m)" "e2 = e1" by (auto simp: retS_def)
      moreover have "commit_backfill w2 t p g row e3 = (Inr (0, 1, 1), e3)" if "inside ls (norm_state st1) e3" for e3
        using go [OF that _ row1(1)] keep1 [OF event_keys_differ(2) [OF n]] none by (simp add: retS_def add_counts_def)
      ultimately show ?thesis using local e1 by (auto simp: add_counts_def)
    next
      case True
      then obtain receipt where found: "found = Some receipt" "py_str (dget_or receipt ''simulated_at'' (JStr [])) \<noteq> []" by blast
      let ?ev = "simulation_event w t p g receipt"
      from second found obtain more where
        two: "append_event w 1 t p ?pl ''SIMULATION_RECORDED'' ?ev e1 = (Inr more, e2)" and sum: "add_counts local more = (c, s, m)"
        by (auto simp: second_event_def retS_def elim!: bindS_InrE)
      from append_event_run [OF in1 event_types(2) ls'(2) two] obtain st2 row2 where
        e2: "e2 = e1\<lparr>active_state := Some st2\<rparr>"
        and row2: "map_of (st_records st2) (event_key t p ?pl ''SIMULATION_RECORDED'') = Some row2" "sr_payload_hash row2 = ?h ?ev"
        and keep2: "\<And>k. k \<noteq> event_key t p ?pl ''SIMULATION_RECORDED'' \<Longrightarrow> map_of (st_records st2) k = map_of (st_records st1) k"
        and more: "more = (1, 0, 0) \<or> more = (0, 1, 0)" by blast
      have r2: "map_of (st_records st2) ?r = map_of (st_records st) ?r"
        using keep1 keep2 event_keys_differ(2) [OF n] by simp
      have k2: "map_of (st_records st2) (event_key t p ?pl ''GATEWAY_DECISION_CREATED'') = Some row1"
        using keep2 [OF event_keys_differ(1)] row1(1) by simp
      have "commit_backfill w2 t p g row e3 = (Inr (0, 2, 0), e3)" if i: "inside ls (norm_state st2) e3" for e3
      proof -
        from map_of_norm_hash [OF row2(1)] row2(2) obtain r3 where
          r3: "map_of (st_records (norm_state st2)) (event_key t p ?pl ''SIMULATION_RECORDED'') = Some r3" "sr_payload_hash r3 = ?h ?ev" by auto
        have "append_event w2 1 t p ?pl ''SIMULATION_RECORDED'' (simulation_event w2 t p g receipt) e3 = (Inr (0, 1, 0), e3)"
          using append_event_again [OF i event_types(2) ls'(2) r3(1)] r3(2) by (simp add: same w2)
        with go [OF i r2 k2] found show ?thesis by (simp add: second_event_def bindS_def retS_def add_counts_def)
      qed
      moreover have "(0, c + s, m) = (0, 2, 0)" using local more sum by (auto simp: add_counts_def)
      ultimately show ?thesis using e1 e2 by auto
    qed
  qed
qed

end
