(* ===== verification/Backfill_Steps.thy ===== *)
theory Backfill_Steps
  imports Backfill_Facts Grdi_Frame
begin

text \<open>
  The backfill of a plan as a step of the engine: a sequence of scoped operations in one transaction that declares its locks, and that leaves the
  store as it was when it raises.
\<close>

section \<open>As operations of the engine\<close>

lemma moves_append_event:
  assumes "nulfree t" "nulfree p" "dwf ev"
  shows "moves (wd_hash w) (scope_call (wd_hash w) t p) (\<lambda>_. True) (append_event w n t p pl ty ev)"
  unfolding append_event_def case_prod_beta
  by (intro moves_lift_bind moves_bind [OF moves_session_once] assms moves_ret TrueI)

lemma moves_caught:
  assumes "moves H R P m"
  shows "moves H R (\<lambda>_. True) (tryS (bindS m (\<lambda>r. retS (Some r))) (\<lambda>e. case e of ScopedRecordNotFound m \<Rightarrow> retS None | _ \<Rightarrow> failS e))"
proof -
  have "moves H R (\<lambda>_. True) (case e of ScopedRecordNotFound m \<Rightarrow> retS None | _ \<Rightarrow> failS e)" for e
    by (cases e) (simp_all add: moves_fail moves_ret)
  then show ?thesis by (intro moves_try moves_bind [OF assms] moves_ret TrueI)
qed

lemma moves_second_event:
  assumes "nulfree t" "nulfree p"
  shows "moves (wd_hash w) (scope_call (wd_hash w) t p) (\<lambda>_. True) (second_event w t p g found local)"
  unfolding second_event_def simulation_event_def Let_def
  by (cases found) (auto intro!: moves_bind [OF moves_append_event] assms event_wf moves_ret)

lemma moves_commit_backfill:
  assumes "nulfree t" "nulfree p"
  shows "moves (wd_hash w) (scope_call (wd_hash w) t p) (\<lambda>_. True) (commit_backfill w t p g row)"
proof -
  have "dwf (created_event w t p g)" by (simp add: created_event_def event_wf)
  then show ?thesis
    unfolding commit_backfill_unfold
    by (auto intro!: moves_bind [OF moves_append_event] moves_bind [OF moves_caught [OF moves_session_get]] assms
        moves_second_event moves_ret)
qed

lemma moves_backfill_plan:
  assumes "scope_from_row row = Inr (t, p)" "nulfree t" "nulfree p"
  shows "moves (wd_hash w) (scope_step (wd_hash w) t p) (\<lambda>_. True) (backfill_plan_events w row)"
proof -
  have "moves H R (\<lambda>_. True) (case e of DuplicateCanonicalKey m \<Rightarrow> failS (f m) | _ \<Rightarrow> failS e)" for H R e and f :: "string \<Rightarrow> err"
    by (cases e) (simp_all add: moves_fail)
  then show ?thesis
    unfolding backfill_plan_events_def assms(1) bindS_lift_Inr prod.case
    by (intro moves_lift_bind moves_try moves_transaction moves_commit_backfill assms)
qed

section \<open>Its frame\<close>

lemma framed_append_event: "framed (append_event w n t p pl ty ev)"
  unfolding append_event_def case_prod_beta by (intro framed_intros)

lemma framed_caught: "framed m \<Longrightarrow> framed (tryS m (\<lambda>e. case e of ScopedRecordNotFound m \<Rightarrow> retS None | _ \<Rightarrow> failS e))"
proof -
  have "framed (case e of ScopedRecordNotFound m \<Rightarrow> retS None | _ \<Rightarrow> failS e)" for e
    by (cases e) (simp_all add: framed_basic)
  then show "framed m \<Longrightarrow> ?thesis" by (intro framed_try)
qed

lemma framed_commit_backfill: "framed (commit_backfill w t p g row)"
  unfolding commit_backfill_unfold second_event_def
  by (auto intro!: framed_bind framed_append_event framed_caught framed_session framed_basic split: option.split)

section \<open>Its locks\<close>

lemma declared_append_event:
  assumes "covers ls ''gateway_decision_events'' (pl @ '':'' @ ty)"
  shows "declared ls (append_event w n t p pl ty ev)"
  unfolding append_event_def case_prod_beta
proof (intro declared_lift_bind declared_bind declared_ret)
  show "plain (gateway_event_canonical_key pl ty)" by (simp add: gateway_event_canonical_key_def)
  show "declared ls (session_append_scoped_once (wd_hash w) (wd_clk w n) t p ''gateway_decision_events'' ev k)"
    if "gateway_event_canonical_key pl ty = Inr k" for k
    using assms event_key_eq [OF that] by (intro declared_session) simp_all
qed

lemma declared_caught:
  assumes "declared ls m"
  shows "declared ls (tryS m (\<lambda>e. case e of ScopedRecordNotFound m \<Rightarrow> retS None | _ \<Rightarrow> failS e))"
  unfolding declared_def
proof (intro allI impI)
  fix eng r eng'
  assume c: "eng_lock_context eng = Some (build_lock_context ls)" "in_transaction eng"
    and run: "tryS m (\<lambda>e. case e of ScopedRecordNotFound m \<Rightarrow> retS None | _ \<Rightarrow> failS e) eng = (r, eng')"
  obtain z eng1 where z: "m eng = (z, eng1)" by (cases "m eng")
  from declaredD [OF assms c z] run z show "plain r \<and> eng_lock_context eng' = eng_lock_context eng \<and> in_transaction eng'"
    by (cases z) (auto simp: tryS_def retS_def failS_def split: err.splits)
qed

lemma declared_commit_backfill:
  assumes "backfill_locks t p (gd_plan_id g) = Inr ls"
  shows "declared ls (commit_backfill w t p g row)"
proof -
  from backfill_locks_cover [OF assms] have
    c: "covers ls ''gateway_decision_events'' (gd_plan_id g @ '':'' @ ''GATEWAY_DECISION_CREATED'')"
      "covers ls ''gateway_decision_events'' (gd_plan_id g @ '':'' @ ''SIMULATION_RECORDED'')" by simp_all
  have "declared ls (second_event w t p g found local)" for found local
    unfolding second_event_def
    by (cases found) (auto intro!: declared_bind declared_append_event declared_ret simp: c [simplified])
  then show ?thesis
    unfolding commit_backfill_unfold
    by (auto intro!: declared_bind declared_append_event declared_ret declared_caught declared_get simp: c [simplified])
qed

lemma plain_backfill [plain_intros]: "plain (gateway_from_scoped_row now row)" "plain (scope_from_row row)"
  unfolding gateway_from_scoped_row_def scope_from_row_def or_scope_def by (auto intro!: plain_intros)

lemma plain_backfill_locks [plain_intros]: "plain (backfill_locks t p pl)"
proof -
  have "plain (LockRef t p c k key)" for c k key by (simp add: LockRef_def)
  then show ?thesis
    unfolding backfill_locks_def locks_of_def chain_lock_def canonical_lock_def gateway_event_canonical_key_def
    by (auto intro!: plain_intros)
qed

lemma never_backfill_plan: "never (backfill_plan_events w row)"
proof -
  have tr: "never (tryS m (\<lambda>e. case e of DuplicateCanonicalKey m \<Rightarrow> failS (DuplicateCanonicalKey (f m)) | _ \<Rightarrow> failS e))"
    if "never m" for f and m :: "(engine, backfill_counts) act"
    unfolding never_def
  proof
    fix eng
    obtain z eng1 where z: "m eng = (z, eng1)" by (cases "m eng")
    with that have "plain z" unfolding never_def by (metis fst_conv)
    with z show "plain (fst (tryS m (\<lambda>e. case e of DuplicateCanonicalKey m \<Rightarrow> failS (DuplicateCanonicalKey (f m)) | _ \<Rightarrow> failS e) eng))"
      by (cases z) (auto simp: tryS_def failS_def split: err.splits)
  qed
  show ?thesis
    unfolding backfill_plan_events_def case_prod_beta
    by (intro never_lift_bind tr never_transaction declared_commit_backfill plain_intros)
qed

section \<open>A second run\<close>

lemma settled_enter:
  assumes "eng_idle eng" "\<not> eng_multiprocess eng"
  shows "inside ls st (enter_transaction ls st eng)"
  using assms by (simp add: inside_def enter_transaction_def)

lemma leave_commit:
  assumes "eng_idle e"
  shows "leave_transaction (commit (Inr x) (enter_transaction ls b e\<lparr>active_state := Some a\<rparr>)) = write_json_state a e"
  using assms by (cases e) (simp add: commit_def leave_transaction_def enter_transaction_def eng_idle_def write_json_state_def)

lemma enter_same: "enter_transaction ls b e\<lparr>active_state := Some b\<rparr> = enter_transaction ls b e"
  by (simp add: enter_transaction_def)

lemma failed_commit_keeps:
  assumes "eng_idle eng" "framed fn" "read_json_state eng = Inr st" "run_scoped_transaction t p ls fn eng = (Inl e, eng')"
  shows "eng' = eng"
  using assms(4)
proof (cases rule: run_scoped_transaction_cases)
  case (run st eng2)
  have "tx_frame (enter_transaction ls st eng) eng2" by (rule framedD [OF assms(2) run(5)])
  with run(6) assms(1) show ?thesis
    by (cases eng; cases eng2) (auto simp: tx_frame_def eng_idle_def enter_transaction_def leave_transaction_def commit_def)
qed (use assms in simp_all)

text \<open>What a run of the transaction leaves: the file with the state it ended in.\<close>

lemma backfill_transaction_run:
  assumes ok: "engine_ok (wd_hash w) eng" and idle: "eng_idle eng" and n: "nulfree t" "nulfree p"
    and ls: "backfill_locks t p (gd_plan_id g) = Inr ls" and settled: "\<And>st. read_json_state eng = Inr st \<Longrightarrow> norm_state st = st"
    and run: "run_scoped_transaction t p ls (commit_backfill w t p g row) eng = (Inr (c, s, m), eng')"
    and w2: "wd_hash w2 = wd_hash w" "wd_uuid5 w2 = wd_uuid5 w"
  shows "run_scoped_transaction t p ls (commit_backfill w2 t p g row) eng' = (Inr (0, c + s, m), eng')"
  using run
proof (cases rule: run_scoped_transaction_cases)
  case (run st eng2)
  let ?in = "enter_transaction ls st eng"
  have "store_ok (wd_hash w) st" using ok run(4) by (auto simp: engine_ok_def)
  then have inn: "engine_ok (wd_hash w) ?in" by (rule engine_ok_enter [OF ok])
  from backfill_locks_cover [OF ls] have cov: "covers ls ''gateway_decision_events'' (gd_plan_id g @ '':GATEWAY_DECISION_CREATED'')"
    "covers ls ''gateway_decision_events'' (gd_plan_id g @ '':SIMULATION_RECORDED'')" by simp_all
  from commit_backfill_again [OF settled_enter [OF idle run(2)] settled [OF run(4)] n cov run(5) w2] obtain st2 where
    eng2: "eng2 = ?in\<lparr>active_state := Some st2\<rparr>"
    and again: "\<And>e. inside ls (norm_state st2) e \<Longrightarrow> commit_backfill w2 t p g row e = (Inr (0, c + s, m), e)" by blast
  have "store_ok (wd_hash w) st2"
    using movesD [OF moves_commit_backfill [OF n] inn run(5)] by (simp add: engine_ok_def eng2)
  then have read: "read_json_state (write_json_state st2 e) = Inr (norm_state st2)" for e
    by (rule read_write_json_state [OF store_ok_keys])
  have eng': "eng' = write_json_state st2 eng"
    using run(6) leave_commit [OF idle, of "(c, s, m)" st2 ls st] by (simp add: eng2)
  have idle': "eng_idle eng'" "\<not> eng_multiprocess eng'" using idle run(2) by (simp_all add: eng' eng_idle_def)
  have "leave_transaction (commit (Inr x) (enter_transaction ls (norm_state st2) eng')) = eng'" for x :: backfill_counts
    using leave_commit [OF idle'(1), of x "norm_state st2" ls "norm_state st2"] by (simp add: enter_same write_norm eng')
  with again [OF settled_enter [OF idle']] run(1) idle' read show ?thesis
    by (simp add: run_scoped_transaction_unfold eng_idle_def eng' del: write_json_state_simps)
qed (use assms in simp_all)

end
