(* ===== verification/Grdi_Steps.thy ===== *)
theory Grdi_Steps
  imports Grdi_Replay_Locks Backfill_Steps
begin

text \<open>
  The service as a transition system: one step is one call of a handler that writes, whatever its outcome. Each is a
  sequence of engine steps, so that every fact on reachable engines holds after any sequence of service calls.
\<close>

section \<open>Service steps\<close>

text \<open>
  One call of the service, whatever its outcome. The dictionaries a client passes have distinct keys, and
  tenant and project names have no NUL; identifiers and times are whatever the world gives.
\<close>

inductive grdi_step :: "(string \<Rightarrow> string) \<Rightarrow> engine \<Rightarrow> engine \<Rightarrow> bool" for H where
  register: "wd_hash w = H \<Longrightarrow> nulfree (de_tenant_id e) \<Longrightarrow> nulfree (de_project_id e) \<Longrightarrow> dwf (decision_envelope_to_dict e)
    \<Longrightarrow> register_envelope w e eng = (r, eng') \<Longrightarrow> grdi_step H eng eng'"
| authorize: "wd_hash w = H \<Longrightarrow> nulfree t \<Longrightarrow> nulfree p
    \<Longrightarrow> authorize w i t p subj role aps eng = (r, eng') \<Longrightarrow> grdi_step H eng eng'"
| plan: "wd_hash w = H \<Longrightarrow> nulfree t \<Longrightarrow> nulfree p \<Longrightarrow> dwf act \<Longrightarrow> dwf (case rb of None \<Rightarrow> [] | Some d \<Rightarrow> d)
    \<Longrightarrow> create_execution_plan w e a t p by act effs rb eng = (r, eng') \<Longrightarrow> grdi_step H eng eng'"
| simulate: "wd_hash w = H \<Longrightarrow> nulfree t \<Longrightarrow> nulfree p
    \<Longrightarrow> simulate_execution_plan w pl t p eng = (r, eng') \<Longrightarrow> grdi_step H eng eng'"
| outcome: "wd_hash w = H \<Longrightarrow> nulfree t \<Longrightarrow> nulfree p \<Longrightarrow> dwf (case metrics of None \<Rightarrow> [] | Some m \<Rightarrow> m)
    \<Longrightarrow> record_shadow_outcome w pl t p by xs metrics lims eng = (r, eng') \<Longrightarrow> grdi_step H eng eng'"
| replay: "wd_hash w = H \<Longrightarrow> nulfree t \<Longrightarrow> nulfree p
    \<Longrightarrow> create_replay_report w pl t p requester eng = (r, eng') \<Longrightarrow> grdi_step H eng eng'"
| compare: "wd_hash w = H \<Longrightarrow> nulfree t \<Longrightarrow> nulfree p
    \<Longrightarrow> compare_replays w bi ci t p requester eng = (r, eng') \<Longrightarrow> grdi_step H eng eng'"
| backfill: "wd_hash w = H \<Longrightarrow> scope_from_row row = Inr (t, p) \<Longrightarrow> nulfree t \<Longrightarrow> nulfree p
    \<Longrightarrow> backfill_plan_events w row eng = (r, eng') \<Longrightarrow> grdi_step H eng eng'"

inductive_cases grdi_stepE: "grdi_step H eng eng'"

lemma grdi_step_engine:
  assumes "grdi_step H eng eng'" "engine_ok H eng"
  shows "(engine_step H)\<^sup>*\<^sup>* eng eng' \<and> engine_ok H eng'"
  using assms(1)
proof (cases rule: grdi_step.cases)
  case (register w e r)
  show ?thesis using scope_movesD(1) [OF moves_register_envelope [OF register(2-4)] _ register(5)] register(1) assms(2) by simp
next
  case (authorize w t p i subj role aps r)
  show ?thesis using scope_movesD(1) [OF moves_authorize [OF authorize(2,3)] _ authorize(4)] authorize(1) assms(2) by simp
next
  case (plan w t p act rb e a requester effs r)
  show ?thesis using scope_movesD(1) [OF moves_create_execution_plan [OF plan(2-5)] _ plan(6)] plan(1) assms(2) by simp
next
  case (simulate w t p pl r)
  show ?thesis using scope_movesD(1) [OF moves_simulate [OF simulate(2,3)] _ simulate(4)] simulate(1) assms(2) by simp
next
  case (outcome w t p metrics pl recorder xs lims r)
  show ?thesis using scope_movesD(1) [OF moves_record_outcome [OF outcome(2-4)] _ outcome(5)] outcome(1) assms(2) by simp
next
  case (replay w t p pl requester r)
  show ?thesis using scope_movesD(1) [OF moves_create_replay [OF replay(2,3)] _ replay(4)] replay(1) assms(2) by simp
next
  case (compare w t p bi ci requester r)
  show ?thesis using scope_movesD(1) [OF moves_compare_replays [OF compare(2,3)] _ compare(4)] compare(1) assms(2) by simp
next
  case (backfill w row t p r)
  show ?thesis using scope_movesD(1) [OF moves_backfill_plan [OF backfill(2-4)] _ backfill(5)] backfill(1) assms(2) by simp
qed

lemma grdi_steps_engine: "(grdi_step H)\<^sup>*\<^sup>* eng eng' \<Longrightarrow> engine_ok H eng \<Longrightarrow> (engine_step H)\<^sup>*\<^sup>* eng eng' \<and> engine_ok H eng'"
  by (induction rule: rtranclp_induct) (auto dest: grdi_step_engine intro: rtranclp_trans)

end
