(* ===== verification/Grdi_Demo.thy ===== *)
theory Grdi_Demo
  imports Grdi_Frame
begin

text \<open>
  A concrete plan, on which the properties of the service are applied: the ledger \<open>sim_engine\<close> holds an envelope
  with a passing receipt, its authority decision, a plan for it and the gateway's decision, and simulating the
  plan leaves a receipt. The hash and the HMAC are constant functions, so that the whole call is evaluated in the
  kernel; the file is never evaluated, \<open>read_write_json_state\<close> says what is read from it.
\<close>

definition sim_world :: world where
  "sim_world = \<lparr>wd_hash = (\<lambda>s. ''h''), wd_mac = (\<lambda>k s. ''m''), wd_uuid5 = (\<lambda>s. ''u''),
     wd_id = (\<lambda>n. if n = 0 then ''i'' else ''j''), wd_now = (\<lambda>n. ''now''), wd_clk = (\<lambda>i n. ''clk''),
     wd_signer = Some \<lparr>rs_key = ''k'', rs_key_id = ''kid''\<rparr>\<rparr>"

definition sim_envelope :: decision_envelope where
  "sim_envelope = demo_decision\<lparr>de_hav_receipt := receipt_sign (wd_mac sim_world) \<lparr>rs_key = ''k'', rs_key_id = ''kid''\<rparr>
     [(''verdict'', JStr ''PASS''), (''governance'', JObj [(''tenant_id'', JStr ''t''), (''project_id'', JStr ''p'')])]\<rparr>"

definition sim_authority :: authority_decision where
  "sim_authority = (case authority_evaluate (wd_mac sim_world) (wd_signer sim_world) ''a1'' ''now'' sim_envelope ''eve''
     ''admin'' [] of Inr d \<Rightarrow> d)"

definition sim_request :: execution_request where
  "sim_request = demo_request\<lparr>er_action_hash := ''h''\<rparr>"

definition sim_gateway :: gateway_decision where
  "sim_gateway = gateway_evaluate (wd_hash sim_world) ''g1'' ''now'' sim_envelope sim_authority sim_request ''t'' ''p''"

definition sim_row :: "string \<Rightarrow> string \<Rightarrow> pdict \<Rightarrow> string \<times> stored_row" where
  "sim_row c k d = (scoped_key ''t'' ''p'' c k, \<lparr>sr_tenant_id = ''t'', sr_project_id = ''p'', sr_collection = c,
     sr_canonical_key = k, sr_record_id = k, sr_payload = with_scope d ''t'' ''p'', sr_payload_hash = ''h'', sr_chain_prev = None,
     sr_chain_hash = ''h'', sr_chain_sequence = 1, sr_row_version = 1, sr_created_at = ''now'', sr_updated_at = ''now'',
     sr_chain_linked = False\<rparr>)"

definition sim_store :: store_state where
  "sim_store = \<lparr>st_records = [sim_row ''decision_envelopes'' ''e1'' (decision_envelope_to_dict sim_envelope),
     sim_row ''authority_decisions'' ''a1'' (authority_decision_to_dict sim_authority),
     sim_row ''execution_requests'' ''p1'' (execution_request_to_dict sim_request),
     sim_row ''gateway_decisions'' ''p1'' (gateway_decision_to_dict sim_gateway)], st_heads = []\<rparr>"

definition sim_locks :: "lock_ref list" where
  "sim_locks = (case simulation_locks ''t'' ''p'' ''p1'' ''a1'' of Inr ls \<Rightarrow> ls)"

definition sim_inside :: "json option \<Rightarrow> engine" where
  "sim_inside d = enter_transaction sim_locks (norm_state sim_store) (fresh_engine\<lparr>eng_disk := d\<rparr>)"

lemma sim_keys: "keys_ok sim_store"
  by code_simp

lemma sim_request_found:
  "case engine_get_scoped ''execution_requests'' ''p1'' ''t'' ''p'' (sim_inside d) of
     Inl e \<Rightarrow> False | Inr row \<Rightarrow> (case execution_request_from_row (wd_hash sim_world) (wd_now sim_world 0) row of Inl e \<Rightarrow> False
      | Inr r \<Rightarrow> simulation_locks ''t'' ''p'' ''p1'' (er_authority_decision_id r) = Inr sim_locks)"
  by code_simp

lemma sim_receipt_missing:
  "engine_get_scoped ''shadow_execution_receipts'' ''p1'' ''t'' ''p'' (sim_inside d) = Inl (ScopedRecordNotFound ''scoped record not found: shadow_execution_receipts/p1'')"
  by code_simp

lemma sim_scope: "validate_lock_refs_scope sim_locks ''t'' ''p'' = Inr ()"
  by code_simp

definition sim_result_ok :: "shadow_receipt res \<times> engine \<Rightarrow> bool" where
  "sim_result_ok x = (\<not> isl (fst x) \<and> active_state (snd x) \<noteq> None \<and>
     (let st = the (active_state (snd x)) in keys_ok st \<and>
       \<not> isl (get_scoped_state ''shadow_execution_receipts'' ''p1'' ''t'' ''p'' st)))"

lemma sim_run: "sim_result_ok (commit_simulation sim_world ''t'' ''p'' ''p1'' (sim_inside d))"
  by code_simp

definition sim_engine :: engine where
  "sim_engine = write_json_state sim_store fresh_engine"

lemma sim_read: "read_json_state sim_engine = Inr (norm_state sim_store)"
  unfolding sim_engine_def by (rule read_write_json_state) (rule sim_keys)

lemma sim_enter: "enter_transaction sim_locks (norm_state sim_store) sim_engine = sim_inside (eng_disk sim_engine)"
  by (simp add: sim_inside_def sim_engine_def write_json_state_def fresh_engine_def enter_transaction_def)

lemma sim_idle: "eng_idle sim_engine" "\<not> eng_multiprocess sim_engine"
  by (simp_all add: sim_engine_def eng_idle_def fresh_engine_def)

lemma sim_get: "engine_get_scoped c k t p sim_engine = engine_get_scoped c k t p (sim_inside (eng_disk sim_engine))"
  using engine_get_enter [OF _ sim_read, of c k t p sim_locks] sim_idle by (simp add: eng_idle_def sim_enter)

lemma sim_receipt_written:
  "\<exists>row. engine_get_scoped ''shadow_execution_receipts'' ''p1'' ''t'' ''p''
     (snd (simulate_execution_plan sim_world ''p1'' ''t'' ''p'' sim_engine)) = Inr row"
proof -
  obtain receipt e st where run: "commit_simulation sim_world ''t'' ''p'' ''p1'' (sim_inside (eng_disk sim_engine)) = (Inr receipt, e)"
      "active_state e = Some st" "keys_ok st" and row: "\<not> isl (get_scoped_state ''shadow_execution_receipts'' ''p1'' ''t'' ''p'' st)"
  proof -
    obtain z e where z: "commit_simulation sim_world ''t'' ''p'' ''p1'' (sim_inside (eng_disk sim_engine)) = (z, e)" by fastforce
    with sim_run [of "eng_disk sim_engine"] that show thesis by (cases z) (auto simp: sim_result_ok_def Let_def)
  qed
  have frame: "tx_frame (sim_inside (eng_disk sim_engine)) e" by (rule framedD [OF framed_handlers(2) run(1)])
  let ?left = "leave_transaction (commit (Inr receipt :: shadow_receipt res) e)"
  have tx: "run_scoped_transaction ''t'' ''p'' sim_locks (commit_simulation sim_world ''t'' ''p'' ''p1'') sim_engine
      = (Inr receipt, ?left)"
    using sim_idle sim_scope sim_read run(1) by (simp add: run_scoped_transaction_unfold eng_idle_def sim_enter)
  obtain row request where request: "engine_get_scoped ''execution_requests'' ''p1'' ''t'' ''p'' sim_engine = Inr row"
      "execution_request_from_row (wd_hash sim_world) (wd_now sim_world 0) row = Inr request"
      "simulation_locks ''t'' ''p'' ''p1'' (er_authority_decision_id request) = Inr sim_locks"
    using sim_request_found [of "eng_disk sim_engine"] by (auto simp: sim_get split: sum.splits)
  then have "snd (simulate_execution_plan sim_world ''p1'' ''t'' ''p'' sim_engine) = ?left"
    by (simp add: simulate_execution_plan_def get_execution_request_def scoped_get_Inr bindS_def readS_def liftS_def tx split: sum.split)
  moreover have "current_state ?left = Inr (norm_state st)"
    using read_write_json_state [OF run(3)] run(2) by (simp add: commit_def leave_transaction_def current_state_def)
  moreover obtain row where "get_scoped_state ''shadow_execution_receipts'' ''p1'' ''t'' ''p'' (norm_state st) = Inr row"
    using get_scoped_norm [of "''shadow_execution_receipts''" "''p1''" "''t''" "''p''" st] row
    by (cases "get_scoped_state ''shadow_execution_receipts'' ''p1'' ''t'' ''p'' st";
        cases "get_scoped_state ''shadow_execution_receipts'' ''p1'' ''t'' ''p'' (norm_state st)")
      (auto simp: same_read_def)
  moreover have "validate_collection ''shadow_execution_receipts'' False False True = Inr ()" by code_simp
  moreover have "\<not> eng_multiprocess ?left"
    using frame run(2) by (simp add: tx_frame_def commit_def leave_transaction_def sim_inside_def fresh_engine_def enter_transaction_def)
  ultimately show ?thesis
    by (simp add: engine_get_scoped_def read_state_def ensure_multiprocess_json_allowed_def raise_if_def)
qed

end
