(* ===== verification/Grdi_Service_Properties.thy ===== *)
theory Grdi_Service_Properties
  imports Grdi_Steps Grdi_Demo
begin

text \<open>
  The properties of the service: what any sequence of its calls leaves in the ledger, when a plan can be
  simulated and an outcome recorded, and that the locks each handler declares are those it needs.
\<close>

section \<open>Concrete calls\<close>

definition demo_world :: world where
  "demo_world = \<lparr>wd_hash = demo_hash, wd_mac = demo_mac, wd_uuid5 = demo_hash, wd_id = (\<lambda>n. ''id'' @ show_nat n),
     wd_now = demo_clock, wd_clk = (\<lambda>i. demo_clock), wd_signer = Some demo_signer\<rparr>"

definition demo_registered :: engine where
  "demo_registered = snd (register_envelope demo_world demo_decision fresh_engine)"

lemma demo_decision_wf [simp]: "dwf (decision_envelope_to_dict demo_decision)"
  by (simp add: decision_envelope_to_dict_def demo_decision_def demo_hav_def receipt_sign_def Let_def)

lemma demo_registered_step: "grdi_step demo_hash fresh_engine demo_registered"
  by (rule grdi_step.register [of demo_world demo_hash demo_decision _ "fst (register_envelope demo_world demo_decision fresh_engine)"])
    (simp_all add: demo_registered_def demo_world_def, simp_all add: demo_decision_def)

section \<open>The ledger under the service\<close>

text \<open>Whatever sequence of service calls is made on an empty ledger, calls that raise included, the hash chains
  verify under every filter, and every record that was there at some point is still there afterwards, unchanged and
  at its place in its chain.\<close>

theorem service_ledger_verifies:
  assumes "(grdi_step H)\<^sup>*\<^sup>* fresh_engine eng" "(grdi_step H)\<^sup>*\<^sup>* eng eng'" "current_state eng = Inr st"
  shows "(\<exists>rep. engine_verify_scoped_chain H t p c eng' = Inr rep) \<and>
    (\<exists>st'. current_state eng' = Inr st' \<and> extends st st')"
proof -
  have ok: "engine_ok H eng" using grdi_steps_engine [OF assms(1) engine_ok_fresh] by simp
  from grdi_steps_engine [OF assms(2) ok] have s: "(engine_step H)\<^sup>*\<^sup>* eng eng'" "engine_ok H eng'" by auto
  from engine_ok_verifies [OF s(2)] engine_steps_grow [OF s(1) ok] assms(3) show ?thesis
    by (simp add: grows_def)
qed

lemma service_ledger_verifies_witness:
  "\<exists>rep. engine_verify_scoped_chain demo_hash None None None demo_registered = Inr rep"
proof -
  have "current_state fresh_engine = Inr empty_store"
    by (simp add: current_state_def fresh_engine_def read_json_state_def)
  from service_ledger_verifies [OF rtranclp.rtrancl_refl r_into_rtranclp [where r = "grdi_step demo_hash", OF demo_registered_step] this]
  show ?thesis by blast
qed

text \<open>C18: The locks a handler declares are the locks its writes need: no call of the service ends in
  \<open>UndeclaredLockRef\<close>, on any engine and with any arguments.\<close>

theorem service_locks_suffice:
  "fst (register_envelope w e eng) \<noteq> Inl (UndeclaredLockRef m) \<and>
   fst (authorize w i t p subj role aps eng) \<noteq> Inl (UndeclaredLockRef m) \<and>
   fst (create_execution_plan w i a t p requester act effs rb eng) \<noteq> Inl (UndeclaredLockRef m) \<and>
   fst (simulate_execution_plan w pl t p eng) \<noteq> Inl (UndeclaredLockRef m) \<and>
   fst (record_shadow_outcome w pl t p recorder xs metrics lims eng) \<noteq> Inl (UndeclaredLockRef m) \<and>
   fst (create_replay_report w pl t p requester eng) \<noteq> Inl (UndeclaredLockRef m) \<and>
   fst (compare_replays w baseline candidate t p requester eng) \<noteq> Inl (UndeclaredLockRef m) \<and>
   fst (backfill_plan_events w row eng) \<noteq> Inl (UndeclaredLockRef m)"
  using never_register_envelope [of w e] never_authorize [of w i t p subj role aps]
    never_create_execution_plan [of w i a t p requester act effs rb] never_simulate [of w pl t p]
    never_record_outcome [of w pl t p recorder xs metrics lims] never_create_replay [of w pl t p requester]
    never_compare_replays [of w baseline candidate t p requester] never_backfill_plan [of w row]
  by (simp add: never_def plain_def)

section \<open>Nothing is simulated without authority\<close>

lemma scoped_commit_simulation:
  assumes "commit_simulation w t p pl (enter_transaction locks st eng) = (Inr receipt, eng2)"
    and "read_json_state eng = Inr st" "tx_depth eng = 0"
    and "engine_get_scoped ''shadow_execution_receipts'' pl t p eng = Inl (ScopedRecordNotFound m)"
  obtains request authority envelope where "get_execution_request w pl t p eng = Inr request"
    "get_authority_decision w (er_authority_decision_id request) t p eng = Inr authority"
    "get_envelope w (er_envelope_id request) t p eng = Inr envelope"
    "gd_eligibility (gateway_evaluate (wd_hash w) (wd_id w 0) (wd_now w 1) envelope authority request t p)
      = GE_ELIGIBLE_FOR_SHADOW"
proof -
  note get = engine_get_enter [OF assms(3,2), of _ _ t p locks]
  from assms(1) obtain request_row request stored_gateway where
    request: "engine_get_scoped ''execution_requests'' pl t p eng = Inr request_row"
      "execution_request_from_row (wd_hash w) (wd_now w 0) request_row = Inr request"
    and sim: "new_simulation w t p pl request stored_gateway (enter_transaction locks st eng) = (Inr receipt, eng2)"
    by (auto simp: commit_simulation_def run_simps get missing_receipt [OF get [THEN trans, OF assms(4)]])
  from sim obtain authority_row authority envelope_row envelope where
    authority: "engine_get_scoped ''authority_decisions'' (er_authority_decision_id request) t p eng = Inr authority_row"
      "authority_decision_from_row (wd_now w 0) authority_row = Inr authority"
    and envelope: "engine_get_scoped ''decision_envelopes'' (er_envelope_id request) t p eng = Inr envelope_row"
      "decision_envelope_from_row (wd_now w 0) envelope_row = Inr envelope"
    and eligible: "gd_eligibility (gateway_evaluate (wd_hash w) (wd_id w 0) (wd_now w 1) envelope authority request t p)
      = GE_ELIGIBLE_FOR_SHADOW"
    unfolding new_simulation_def Let_def by (auto simp: run_simps get)
  show thesis
    by (rule that [of request authority envelope])
      (use request authority envelope eligible in
        \<open>simp_all add: get_execution_request_def get_authority_decision_def get_envelope_def scoped_get_Inr\<close>)
qed

text \<open>C19: Nothing is simulated without authority: if a call of \<open>simulate_execution_plan\<close>, whatever its result,
  leaves a receipt for a plan that had none, then the ledger held, when the call began, the plan's request, its
  envelope and its authority decision, all of the caller's scope; the decision is about that envelope, is authorised
  and verified and claims no execution; and the requested action hashes to the proposed one.\<close>

theorem simulation_needs_authorization:
  assumes "simulate_execution_plan w pl t p eng = (r, eng')" "eng_idle eng"
    and "engine_get_scoped ''shadow_execution_receipts'' pl t p eng = Inl (ScopedRecordNotFound m)"
    and "engine_get_scoped ''shadow_execution_receipts'' pl t p eng' = Inr row"
  shows "\<exists>request authority envelope.
    get_execution_request w pl t p eng = Inr request \<and>
    get_authority_decision w (er_authority_decision_id request) t p eng = Inr authority \<and>
    get_envelope w (er_envelope_id request) t p eng = Inr envelope \<and>
    de_tenant_id envelope = t \<and> de_project_id envelope = p \<and> er_tenant_id request = t \<and> er_project_id request = p \<and>
    ad_envelope_id authority = de_envelope_id envelope \<and>
    ad_authorization_state authority = AS_AUTHORIZED \<and> ad_verification_state authority = VS_VERIFIED \<and>
    ad_execution_state authority = ES_NOT_EXECUTED \<and>
    action_hash (wd_hash w) (er_requested_action request) = action_hash (wd_hash w) (de_proposed_action envelope)"
proof -
  have fresh: "eng' \<noteq> eng" using assms(3,4) by auto
  obtain locks receipt where run: "run_scoped_transaction t p locks (commit_simulation w t p pl) eng = (Inr receipt, eng')"
  proof -
    from assms(1) fresh obtain locks z where
      z: "run_scoped_transaction t p locks (commit_simulation w t p pl) eng = (z, eng')"
      by (auto simp: simulate_execution_plan_def bindS_def readS_def liftS_def split: sum.splits prod.splits)
    moreover have "\<exists>x. z = Inr x"
      using failed_transaction_get [OF assms(2) framed_handlers(2), of t p locks w t p pl] z assms(3,4) by (cases z) auto
    ultimately show thesis using that by blast
  qed
  from run obtain st eng2 where st: "read_json_state eng = Inr st" "tx_depth eng = 0"
      "commit_simulation w t p pl (enter_transaction locks st eng) = (Inr receipt, eng2)"
    by (cases rule: run_scoped_transaction_cases) auto
  from scoped_commit_simulation [OF st(3,1,2) assms(3)] obtain request authority envelope where
    found: "get_execution_request w pl t p eng = Inr request"
      "get_authority_decision w (er_authority_decision_id request) t p eng = Inr authority"
      "get_envelope w (er_envelope_id request) t p eng = Inr envelope"
      and eligible: "gd_eligibility (gateway_evaluate (wd_hash w) (wd_id w 0) (wd_now w 1) envelope authority request t p)
        = GE_ELIGIBLE_FOR_SHADOW" .
  from eligible show ?thesis
    by (intro exI [of _ request] exI [of _ authority] exI [of _ envelope])
      (auto simp: found gateway_evaluate_def gateway_reasons_def Let_def split: if_splits)
qed

lemma simulation_needs_authorization_witness:
  "\<exists>request authority. get_execution_request sim_world ''p1'' ''t'' ''p'' sim_engine = Inr request \<and>
     get_authority_decision sim_world (er_authority_decision_id request) ''t'' ''p'' sim_engine = Inr authority \<and>
     ad_authorization_state authority = AS_AUTHORIZED"
proof -
  obtain r eng' where run: "simulate_execution_plan sim_world ''p1'' ''t'' ''p'' sim_engine = (r, eng')" by fastforce
  with sim_receipt_written obtain row where
    "engine_get_scoped ''shadow_execution_receipts'' ''p1'' ''t'' ''p'' eng' = Inr row" by auto
  from simulation_needs_authorization [OF run sim_idle(1) trans [OF sim_get sim_receipt_missing] this]
  show ?thesis by blast
qed

section \<open>Registering an envelope\<close>

lemma committed_get:
  assumes "engine_ok H eng" "active_state eng = Some st"
  shows "engine_get_scoped c k t p (leave_transaction (commit (Inr x) eng)) = map_sum id canon_dict (engine_get_scoped c k t p eng)"
proof -
  let ?left = "leave_transaction (commit (Inr x) eng)"
  have ok: "store_ok H st" and d: "tx_depth eng = 1" using assms by (auto simp: engine_ok_def)
  have "current_state eng = Inr st" using assms d by (simp add: current_state_def)
  moreover have "current_state ?left = Inr (norm_state st)"
    using assms read_write_json_state [OF store_ok_keys [OF ok]]
    by (simp add: commit_def leave_transaction_def current_state_def)
  moreover have "eng_multiprocess ?left = eng_multiprocess eng" by (simp add: commit_def leave_transaction_def assms)
  moreover have "get_scoped_state c k t p (norm_state st) = map_sum id canon_dict (get_scoped_state c k t p st)"
    by (simp add: get_scoped_state_def map_of_norm to_public_def split: option.split)
  ultimately show ?thesis
    by (cases "validate_collection c False False True"; cases "eng_multiprocess eng")
      (auto simp: engine_get_scoped_def ensure_multiprocess_json_allowed_def read_state_def raise_if_def)
qed

text \<open>With an injective hash, what is stored under a key is what was appended there, however often.\<close>

lemma appended_row:
  assumes "inj H" and ok: "engine_ok H eng" and n: "nulfree t" "nulfree p" and wf: "dwf rcd"
    and call: "engine_append_scoped H clk c rcd k t p eng = (Inr (payload, created), eng')"
  obtains row where "engine_get_scoped c k t p eng' = Inr row" "dwf row"
    "canon_dict (dremove row ''_chain'') = canon_dict (dremove (with_scope rcd t p) ''_chain'')"
  using ok n wf call
proof (cases rule: engine_append_run)
  case (run st st' st2)
  from append_state_found [OF run(5)] obtain r where
    r: "map_of (st_records st') (scoped_key t p c k) = Some r" "sr_payload r = payload"
       "sr_payload_hash r = canonical_scoped_payload_hash H (with_scope rcd t p)" by blast
  have "store_ok H st'" by (rule json_append_state_ok [OF run(4) n append_collection_nulfree [OF run(1)] wf run(5)])
  with r have rok: "row_ok H r" by (auto simp: store_ok_def dest!: rows_of_lookup)
  with r \<open>inj H\<close> have same: "canon_dict (dremove payload ''_chain'') = canon_dict (dremove (with_scope rcd t p) ''_chain'')"
  proof -
    have "H (dumps (JObj (dremove payload ''_chain''))) = H (dumps (JObj (dremove (with_scope rcd t p) ''_chain'')))"
      using rok r(2,3) unfolding row_ok_def canonical_scoped_payload_hash_def by metis
    with \<open>inj H\<close> have "dumps (JObj (dremove payload ''_chain'')) = dumps (JObj (dremove (with_scope rcd t p) ''_chain''))"
      by (simp only: inj_eq)
    then show ?thesis by (simp only: dumps_eq_iff canon_JObj json.inject)
  qed
  from get_after_append [OF ok n wf call] obtain row where
    row: "engine_get_scoped c k t p eng' = Inr row" "canon_dict row = canon_dict payload"
    by (cases "engine_get_scoped c k t p eng'") (auto simp: same_read_def)
  have ok': "engine_ok H eng'" by (rule engine_append_ok [OF ok n wf call])
  have d: "dwf row" by (rule get_row_wf [OF ok' row(1)])
  have "canon_dict (dremove row ''_chain'') = canon_dict (dremove (canon_dict row) ''_chain'')"
    using canon_dict_dremove [of row "''_chain''"] d by (simp add: dwf_def)
  also have "\<dots> = canon_dict (dremove payload ''_chain'')"
    using canon_dict_dremove [of payload "''_chain''"] rok r(2) by (simp add: row(2) row_ok_def dwf_def)
  finally show thesis using that [OF row(1) d] same by simp
qed simp

lemma stored_strip:
  assumes "canon_dict (dremove row ''_chain'') = canon_dict (dremove (with_scope rcd t p) ''_chain'')" "dwf row" "dwf rcd"
  shows "map_of (strip_scoped (canon_dict row)) = map_of (map (map_prod id canon) (strip_scoped rcd))"
proof
  fix k
  have "map_of (canon_dict (dremove row ''_chain'')) k = map_of (canon_dict (dremove (with_scope rcd t p) ''_chain'')) k"
    by (simp add: assms(1))
  moreover have "ddistinct row" "ddistinct (with_scope rcd t p)" using assms(2,3) by (simp_all add: dwf_def with_scope_def)
  ultimately show "map_of (strip_scoped (canon_dict row)) k = map_of (map (map_prod id canon) (strip_scoped rcd)) k"
    by (auto simp: map_of_canon_dict map_of_map_prod_canon map_of_dremove with_scope_def split: if_splits)
qed

lemma register_run:
  assumes "register_envelope w e eng = (Inr x, eng')"
  obtains locks st payload created eng2 where "read_json_state eng = Inr st" "x = e"
    "engine_append_scoped (wd_hash w) (wd_clk w 0) ''decision_envelopes'' (decision_envelope_to_dict e) (de_envelope_id e)
      (de_tenant_id e) (de_project_id e) (enter_transaction locks st eng) = (Inr (payload, created), eng2)"
    "eng' = leave_transaction (commit (Inr x) eng2)"
proof -
  from assms obtain locks where "run_scoped_transaction (de_tenant_id e) (de_project_id e) locks
      (bindS (session_append_scoped_once (wd_hash w) (wd_clk w 0) (de_tenant_id e) (de_project_id e) ''decision_envelopes''
          (decision_envelope_to_dict e) (de_envelope_id e)) (\<lambda>_. retS e)) eng = (Inr x, eng')"
    by (auto simp: register_envelope_def Let_def run_simps)
  then show thesis
    by (cases rule: run_scoped_transaction_cases)
      (auto simp: session_append_scoped_once_def retS_def elim!: bindS_InrE intro: that)
qed

lemma init_canon: "decision_envelope_init e = Inr e \<Longrightarrow> decision_envelope_init (decision_envelope_canon e) = Inr (decision_envelope_canon e)"
proof -
  have nil: "canon_dict d = [] \<longleftrightarrow> d = []" for d by (metis length_0_conv length_canon_dict)
  assume "decision_envelope_init e = Inr e"
  then show ?thesis
    by (simp add: decision_envelope_init_def decision_envelope_canon_def bindE_Inr_iff nil)
qed

text \<open>A registered envelope is read back: after a successful \<open>register_envelope\<close>, on whatever ledger the service
  left and also when the envelope had been registered before, \<open>get_envelope\<close> in its scope gives the envelope, with
  the keys of its dictionaries sorted (with an injective hash: the store compares an envelope already stored
  by its hash).\<close>

theorem registered_envelope_reads_back:
  assumes "(grdi_step H)\<^sup>*\<^sup>* fresh_engine eng" "wd_hash w = H" "inj H"
    and "nulfree (de_tenant_id e)" "nulfree (de_project_id e)" "dwf (decision_envelope_to_dict e)"
    and "decision_envelope_init e = Inr e" "register_envelope w e eng = (Inr x, eng')"
  shows "x = e \<and> get_envelope w (de_envelope_id e) (de_tenant_id e) (de_project_id e) eng' = Inr (decision_envelope_canon e)"
  using assms(8)
proof (rule register_run)
  fix locks st payload created eng2
  let ?get = "engine_get_scoped ''decision_envelopes'' (de_envelope_id e) (de_tenant_id e) (de_project_id e)"
  assume st: "read_json_state eng = Inr st" "x = e" and left: "eng' = leave_transaction (commit (Inr x) eng2)"
    and call: "engine_append_scoped (wd_hash w) (wd_clk w 0) ''decision_envelopes'' (decision_envelope_to_dict e) (de_envelope_id e)
      (de_tenant_id e) (de_project_id e) (enter_transaction locks st eng) = (Inr (payload, created), eng2)"
  have ok: "engine_ok H eng" using grdi_steps_engine [OF assms(1) engine_ok_fresh] by simp
  then have inside: "engine_ok H (enter_transaction locks st eng)"
    using st(1) by (intro engine_ok_enter) (auto simp: engine_ok_def)
  obtain row where row: "?get eng2 = Inr row" "dwf row"
    "canon_dict (dremove row ''_chain'') = canon_dict (dremove (with_scope (decision_envelope_to_dict e) (de_tenant_id e) (de_project_id e)) ''_chain'')"
    using appended_row [OF assms(3) inside assms(4,5,6) call [unfolded assms(2)]] by blast
  obtain st2 where "active_state eng2 = Some st2"
    using engine_append_frame [OF call] by (auto simp: tx_frame_def enter_transaction_def)
  with engine_append_ok [OF inside assms(4,5,6) call [unfolded assms(2)]] row(1) have "?get eng' = Inr (canon_dict row)"
    by (simp add: left committed_get)
  moreover have "decision_envelope_from_row (wd_now w 0) (canon_dict row) = decision_envelope_init (decision_envelope_canon e)"
    using stored_strip [OF row(3,2) assms(6)]
    by (intro decision_envelope_read_canon) (simp add: strip_scoped_def decision_envelope_to_dict_def)
  ultimately show ?thesis
    using init_canon [OF assms(7)] st(2) by (simp add: get_envelope_def scoped_get_Inr)
qed

definition demo_locks :: "lock_ref list" where
  "demo_locks = (case envelope_locks ''t'' ''p'' ''e1'' of Inr ls \<Rightarrow> ls)"

lemma demo_locks_eq: "envelope_locks ''t'' ''p'' ''e1'' = Inr demo_locks" "validate_lock_refs_scope demo_locks ''t'' ''p'' = Inr ()"
  by code_simp+

lemma demo_register_inside:
  "\<not> isl (fst (engine_append_scoped demo_hash demo_clock ''decision_envelopes'' (decision_envelope_to_dict demo_decision) ''e1''
     ''t'' ''p'' (enter_transaction demo_locks empty_store fresh_engine)))"
  by code_simp

lemma demo_register_run: "register_envelope demo_world demo_decision fresh_engine = (Inr demo_decision, demo_registered)"
proof -
  let ?append = "engine_append_scoped demo_hash demo_clock ''decision_envelopes'' (decision_envelope_to_dict demo_decision) ''e1''
     ''t'' ''p'' (enter_transaction demo_locks empty_store fresh_engine)"
  have scope: "de_tenant_id demo_decision = ''t''" "de_project_id demo_decision = ''p''" "de_envelope_id demo_decision = ''e1''"
    "wd_hash demo_world = demo_hash" "wd_clk demo_world 0 = demo_clock"
    by (simp_all add: demo_decision_def demo_world_def)
  obtain y eng2 where "?append = (Inr y, eng2)"
    using demo_register_inside by (cases "?append"; cases "fst ?append") auto
  moreover have "read_json_state fresh_engine = Inr empty_store" by (simp add: fresh_engine_def read_json_state_def)
  moreover have "\<not> eng_multiprocess fresh_engine" "tx_depth fresh_engine = 0" by (simp_all add: fresh_engine_def)
  ultimately have "fst (register_envelope demo_world demo_decision fresh_engine) = Inr demo_decision"
    by (simp add: register_envelope_def Let_def scope demo_locks_eq bindS_lift_Inr run_scoped_transaction_unfold
        session_append_scoped_once_def bindS_def retS_def)
  then show ?thesis by (simp add: demo_registered_def prod_eq_iff)
qed

lemma demo_decision_init: "decision_envelope_init demo_decision = Inr demo_decision"
  by code_simp

lemma registered_envelope_reads_back_witness:
  "get_envelope demo_world ''e1'' ''t'' ''p'' demo_registered = Inr (decision_envelope_canon demo_decision)"
proof -
  have scope: "de_tenant_id demo_decision = ''t''" "de_project_id demo_decision = ''p''" "de_envelope_id demo_decision = ''e1''"
    "wd_hash demo_world = demo_hash"
    by (simp_all add: demo_decision_def demo_world_def)
  from registered_envelope_reads_back [OF rtranclp.rtrancl_refl scope(4) demo_hash_inj _ _ demo_decision_wf demo_decision_init demo_register_run]
  show ?thesis by (simp add: scope)
qed

end
