(* ===== verification/Grdi_Outcome_Properties.thy ===== *)
theory Grdi_Outcome_Properties
  imports Grdi_Demo
begin

text \<open>
  The outcomes of simulations: what the checks of a stored or new outcome establish, and that an outcome is only
  ever returned for a plan that was simulated.
\<close>

section \<open>What the checks establish\<close>

lemma identity_checked:
  "validate_outcome_identity rcd request receipt = Inr u \<Longrightarrow>
   so_plan_id rcd = er_plan_id request \<and> so_shadow_receipt_id rcd = rc_receipt_id receipt \<and>
   so_envelope_id rcd = er_envelope_id request \<and> so_authority_decision_id rcd = er_authority_decision_id request \<and>
   so_tenant_id rcd = er_tenant_id request \<and> so_project_id rcd = er_project_id request"
  by (simp add: validate_outcome_identity_def Let_def bindE_Inr_iff)

lemma outcome_checked:
  assumes "validate_shadow_outcome w rcd request receipt = Inr x"
  shows "(\<exists>s. wd_signer w = Some s \<and> receipt_verify (wd_mac w) s (so_signed_outcome rcd) = Inr True) \<and>
    so_source_receipt_hash rcd = source_receipt_hash w receipt \<and>
    (so_plan_id rcd = er_plan_id request \<and> so_shadow_receipt_id rcd = rc_receipt_id receipt \<and>
     so_envelope_id rcd = er_envelope_id request \<and> so_authority_decision_id rcd = er_authority_decision_id request \<and>
     so_tenant_id rcd = er_tenant_id request \<and> so_project_id rcd = er_project_id request) \<and>
    so_outcome_state rcd = aggregate_outcome_state (er_expected_effects request) (so_effect_assessments rcd) \<and>
    \<not> so_executed rcd \<and> \<not> so_external_side_effects rcd \<and> \<not> so_connector_invoked rcd \<and>
    so_execution_state rcd = ES_NOT_EXECUTED"
proof -
  from assms have parts: "check_signature w (so_signed_outcome rcd) ''invalid_shadow_outcome_signature'' = Inr ()"
    "so_source_receipt_hash rcd = source_receipt_hash w receipt"
    "validate_outcome_identity rcd request receipt = Inr ()"
    "validate_outcome_assessments rcd request = Inr ()" "validate_outcome_claims rcd = Inr ()"
    by (auto simp: validate_shadow_outcome_def Let_def bindE_Inr_iff)
  show ?thesis
    using identity_checked [OF parts(3)] parts
    by (auto simp: check_signature_def with_signer_def validate_outcome_assessments_def validate_outcome_claims_def
        bindE_Inr_iff Let_def split: option.splits)
qed

lemma committed_outcome:
  assumes "commit_outcome w request receipt pl t p recorder xs metrics lims eng = (Inr result, eng')"
  shows "\<exists>rcd x. result = shadow_outcome_to_dict rcd \<and> validate_shadow_outcome w rcd request receipt = Inr x"
  using if_not_found_run [OF assms [unfolded commit_outcome_def]]
  by (auto simp: run_simps Let_def case_prod_beta retS_def liftS_apply elim!: bindS_InrE)

lemma simulated_event:
  assumes "project_gateway_state g events = Inr st" "dget st ''simulation_state'' = JStr (simulation_state_value SS_SIMULATED)"
  shows "\<exists>e \<in> set events. dget e ''event_type'' = JStr ''SIMULATION_RECORDED''"
proof -
  from assms(1) obtain es where es: "sort_events events = Inr es" by (auto simp: project_gateway_state_def bindE_Inr_iff)
  from assms have "list_ex (\<lambda>e. dget e ''event_type'' = JStr ''SIMULATION_RECORDED'') es"
    by (auto simp: project_gateway_state_def es foldl_simulated dget_def split: if_splits)
  then show ?thesis using sort_events_set [OF es] by (auto simp: list_ex_iff)
qed

section \<open>Outcomes\<close>

text \<open>C20: An outcome rests on a simulation: if \<open>record_shadow_outcome\<close> returns, whether it stored a new outcome or
  found one, then an event of the plan's scope records a simulation of the plan, the plan has a receipt that passed its
  checks, and what is returned is a signed record about that plan and receipt, with the hash of the receipt, whose
  state is the aggregate of its assessments over the effects the plan expected, and that claims no execution.\<close>

theorem outcome_rests_on_simulation:
  assumes "record_shadow_outcome w pl t p recorder xs metrics lims eng = (Inr result, eng')"
  shows "\<exists>request receipt events rcd. get_execution_request w pl t p eng = Inr request \<and>
    list_gateway_events pl t p eng = Inr events \<and>
    (\<exists>e \<in> set events. dget e ''event_type'' = JStr ''SIMULATION_RECORDED'') \<and>
    load_validated_shadow_receipt w request t p eng = Inr receipt \<and>
    result = shadow_outcome_to_dict rcd \<and>
    (\<exists>s. wd_signer w = Some s \<and> receipt_verify (wd_mac w) s (so_signed_outcome rcd) = Inr True) \<and>
    so_source_receipt_hash rcd = source_receipt_hash w receipt \<and>
    so_plan_id rcd = er_plan_id request \<and> so_shadow_receipt_id rcd = rc_receipt_id receipt \<and>
    so_tenant_id rcd = er_tenant_id request \<and> so_project_id rcd = er_project_id request \<and>
    so_outcome_state rcd = aggregate_outcome_state (er_expected_effects request) (so_effect_assessments rcd) \<and>
    \<not> so_executed rcd \<and> \<not> so_external_side_effects rcd \<and> \<not> so_connector_invoked rcd \<and>
    so_execution_state rcd = ES_NOT_EXECUTED"
proof -
  from assms obtain request gateway events st receipt locks where
    found: "get_execution_request w pl t p eng = Inr request" "list_gateway_events pl t p eng = Inr events"
      "project_gateway_state gateway events = Inr st" "dget st ''simulation_state'' = JStr (simulation_state_value SS_SIMULATED)"
      "load_validated_shadow_receipt w request t p eng = Inr receipt"
    and run: "run_scoped_transaction t p locks (commit_outcome w request receipt pl t p recorder xs metrics lims) eng
      = (Inr result, eng')"
    unfolding record_shadow_outcome_def by (auto simp: run_simps)
  from run obtain s s' where "commit_outcome w request receipt pl t p recorder xs metrics lims s = (Inr result, s')"
    by (cases rule: run_scoped_transaction_cases) auto
  then obtain rcd x where rcd: "result = shadow_outcome_to_dict rcd" "validate_shadow_outcome w rcd request receipt = Inr x"
    by (blast dest: committed_outcome)
  from outcome_checked [OF rcd(2)] found rcd(1) simulated_event [OF found(3,4)] show ?thesis by blast
qed

section \<open>A concrete outcome\<close>

definition out_receipt :: shadow_receipt where
  "out_receipt = (case gateway_simulate (wd_mac sim_world) (wd_signer sim_world) ''r1'' ''now'' sim_envelope sim_authority
     sim_request sim_gateway of Inr r \<Rightarrow> r)"

definition out_store :: store_state where
  "out_store = sim_store\<lparr>st_records := st_records sim_store @
     [sim_row ''shadow_execution_receipts'' ''p1'' (shadow_receipt_to_dict out_receipt),
      sim_row ''gateway_decision_events'' ''p1:SIMULATION_RECORDED'' (build_gateway_decision_event_record (wd_uuid5 sim_world)
        ''t'' ''p'' ''p1'' ''g1'' ''SIMULATION_RECORDED'' ''now'' ''r1'' ''r1'')]\<rparr>"

definition out_engine :: engine where
  "out_engine = write_json_state out_store fresh_engine"

definition out_inside :: "lock_ref list \<Rightarrow> json option \<Rightarrow> engine" where
  "out_inside ls d = enter_transaction ls (norm_state out_store) (fresh_engine\<lparr>eng_disk := d\<rparr>)"

definition out_assessments :: "effect_assessment list" where
  "out_assessments = [\<lparr>ea_expected_effect = ''paid'', ea_simulated_observation = ''paid'', ea_state = EA_MATCHED,
     ea_evidence_refs = [], ea_rationale = []\<rparr>]"

text \<open>What the handler reads before its transaction.\<close>

definition out_found :: "engine \<Rightarrow> (execution_request \<times> shadow_receipt \<times> lock_ref list) res" where
  "out_found eng =
     bindE (get_execution_request sim_world ''p1'' ''t'' ''p'' eng) (\<lambda>request.
     bindE (get_gateway_decision sim_world ''p1'' ''t'' ''p'' eng) (\<lambda>gateway.
     bindE (list_gateway_events ''p1'' ''t'' ''p'' eng) (\<lambda>events.
     bindE (project_gateway_state gateway events) (\<lambda>st.
     bindE (raise_if (dget st ''simulation_state'' \<noteq> JStr (simulation_state_value SS_SIMULATED))
       (ValueError ''plan_not_simulated'')) (\<lambda>_.
     bindE (raise_if (gd_execution_state gateway \<noteq> ES_NOT_EXECUTED) (ValueError ''plan_execution_state_invalid'')) (\<lambda>_.
     bindE (load_validated_shadow_receipt sim_world request ''t'' ''p'' eng) (\<lambda>receipt.
     bindE (outcome_locks ''t'' ''p'' ''p1'' (rc_receipt_id receipt)) (\<lambda>locks.
     Inr (request, receipt, locks)))))))))"

definition out_ok :: "json option \<Rightarrow> bool" where
  "out_ok d = (case out_found (out_inside [] d) of Inl e \<Rightarrow> False | Inr (request, receipt, locks) \<Rightarrow>
     validate_lock_refs_scope locks ''t'' ''p'' = Inr () \<and>
     \<not> isl (fst (commit_outcome sim_world request receipt ''p1'' ''t'' ''p'' ''rec'' out_assessments None []
       (out_inside locks d))))"

lemma out_keys: "keys_ok out_store"
  by code_simp

lemma out_checked: "out_ok d"
  by code_simp

lemma out_read: "read_json_state out_engine = Inr (norm_state out_store)"
  unfolding out_engine_def by (rule read_write_json_state) (rule out_keys)

lemma out_idle: "tx_depth out_engine = 0" "\<not> eng_multiprocess out_engine"
  by (simp_all add: out_engine_def fresh_engine_def)

lemma out_enter: "enter_transaction ls (norm_state out_store) out_engine = out_inside ls (eng_disk out_engine)"
  by (simp add: out_inside_def out_engine_def write_json_state_def fresh_engine_def enter_transaction_def)

lemma out_reads: "out_found out_engine = out_found (out_inside [] (eng_disk out_engine))"
proof -
  have "engine_get_scoped c k t p (out_inside [] (eng_disk out_engine)) = engine_get_scoped c k t p out_engine" for c k t p
    using engine_get_enter [OF out_idle(1) out_read] by (simp add: out_enter)
  moreover have "engine_list_scoped c t p l off (out_inside [] (eng_disk out_engine)) = engine_list_scoped c t p l off out_engine" for c t p l off
    using engine_list_enter [OF out_idle(1) out_read] by (simp add: out_enter)
  ultimately show ?thesis
    by (simp add: out_found_def get_execution_request_def get_gateway_decision_def list_gateway_events_def
        load_validated_shadow_receipt_def get_shadow_receipt_def scoped_get_def)
qed

lemma outcome_rests_on_simulation_witness:
  "\<exists>events. list_gateway_events ''p1'' ''t'' ''p'' out_engine = Inr events \<and>
     (\<exists>e \<in> set events. dget e ''event_type'' = JStr ''SIMULATION_RECORDED'')"
proof -
  obtain request receipt locks where found: "out_found out_engine = Inr (request, receipt, locks)"
      "validate_lock_refs_scope locks ''t'' ''p'' = Inr ()"
    and ok: "\<not> isl (fst (commit_outcome sim_world request receipt ''p1'' ''t'' ''p'' ''rec'' out_assessments None []
      (out_inside locks (eng_disk out_engine))))"
    using out_checked [of "eng_disk out_engine"] by (auto simp: out_ok_def out_reads split: sum.splits)
  from ok obtain result eng2 where run: "commit_outcome sim_world request receipt ''p1'' ''t'' ''p'' ''rec'' out_assessments None []
      (out_inside locks (eng_disk out_engine)) = (Inr result, eng2)"
    by (metis prod.collapse sum.collapse(2))
  have "run_scoped_transaction ''t'' ''p'' locks (commit_outcome sim_world request receipt ''p1'' ''t'' ''p'' ''rec''
      out_assessments None []) out_engine = (Inr result, leave_transaction (commit (Inr result) eng2))"
    by (simp add: run_scoped_transaction_unfold found(2) out_idle out_read out_enter run)
  with found(1) have "record_shadow_outcome sim_world ''p1'' ''t'' ''p'' ''rec'' out_assessments None [] out_engine
      = (Inr result, leave_transaction (commit (Inr result) eng2))"
    by (auto simp: out_found_def bindE_Inr_iff record_shadow_outcome_def run_simps)
  from outcome_rests_on_simulation [OF this] show ?thesis by blast
qed

end
