(* ===== verification/Grdi_Replay_Properties.thy ===== *)
theory Grdi_Replay_Properties
  imports Grdi_Steps Grdi_Demo
begin

text \<open>
  The properties of replays: when a report has which state, that a report passes its own checks, what a report that
  reads back says of the ledger, and what a comparison of two reports lists.
\<close>

section \<open>The state of a report\<close>

lemma has_status_reasons [simp]:
  "has_status s (invalid_reason c r) \<longleftrightarrow> s = ''invalid''"
  by (auto simp: has_status_def invalid_reason_def dget_def)

lemma reasons_invalid:
  "x \<in> set (reason_if c check reason) \<Longrightarrow> has_status ''invalid'' x"
  "x \<in> set (link_reason a b k k' r) \<Longrightarrow> has_status ''invalid'' x"
  by (auto simp: reason_if_def link_reason_def split: if_splits option.splits)

lemma caught_invalid: "caught check m = Inr xs \<Longrightarrow> x \<in> set xs \<Longrightarrow> has_status ''invalid'' x"
  by (cases "(check, m)" rule: caught.cases) auto

lemma hav_invalid: "hav_reasons w t p e = Inr xs \<Longrightarrow> x \<in> set xs \<Longrightarrow> has_status ''invalid'' x"
  by (auto simp: hav_reasons_def bindE_Inr_iff split: option.splits if_splits dest: reasons_invalid)

lemma collected_invalid: "collect_invalid_reasons w t p rows = Inr xs \<Longrightarrow> x \<in> set xs \<Longrightarrow> has_status ''invalid'' x"
  unfolding collect_invalid_reasons_def Let_def
  by (auto simp: bindE_Inr_iff split: option.splits dest: reasons_invalid caught_invalid hav_invalid)

lemma results_invalid_iff:
  assumes "collect_invalid_reasons w t p rows = Inr reasons"
  shows "list_ex (has_status ''invalid'') (chain_results chain @ missing_results rows @ reasons) \<longleftrightarrow>
    (\<exists>m. chain = ChainBroken m) \<or> reasons \<noteq> []"
proof -
  have "list_ex (has_status ''invalid'') reasons \<longleftrightarrow> reasons \<noteq> []"
    using collected_invalid [OF assms] by (cases reasons) (auto simp: list_ex_iff)
  moreover have "list_ex (has_status ''invalid'') (chain_results chain) \<longleftrightarrow> (\<exists>m. chain = ChainBroken m)"
    by (cases chain) (simp_all add: chain_results_def has_status_def dget_def)
  moreover have "\<not> list_ex (has_status ''invalid'') (missing_results rows)"
    by (simp add: missing_results_def Let_def has_status_def dget_def)
  ultimately show ?thesis by auto
qed

lemma results_incomplete_iff:
  assumes "collect_invalid_reasons w t p rows = Inr []"
  shows "list_ex (has_status ''incomplete'') (chain_results (ChainHeads heads) @ missing_results rows @ []) \<longleftrightarrow>
    (\<exists>(label, row) \<in> set (chain_row_items rows). row = None)"
  by (auto simp: chain_results_def missing_results_def Let_def has_status_def dget_def filter_empty_conv)

text \<open>What is left when neither applies: the prior reports that pass their checks decide.\<close>

lemma determined_state:
  assumes "determine_replay_state w pl t p m h results eng = Inr (state, drifts)"
  shows "state = RS_INVALID \<longleftrightarrow> list_ex (has_status ''invalid'') results"
    and "state = RS_INCOMPLETE \<longleftrightarrow> \<not> list_ex (has_status ''invalid'') results \<and> list_ex (has_status ''incomplete'') results"
    and "state = RS_DRIFTED \<Longrightarrow> \<exists>valid skipped. validated_prior_reports w pl t p eng = Inr (valid, skipped) \<and> valid \<noteq> [] \<and>
      (\<forall>r \<in> set valid. rr_manifest_hash r \<noteq> h) \<and> drifts = skipped @ manifest_drifts m (rr_manifest (last valid)) \<and> drifts \<noteq> []"
    and "state = RS_REPRODUCED \<Longrightarrow> \<exists>valid skipped. validated_prior_reports w pl t p eng = Inr (valid, skipped) \<and>
      (valid = [] \<or> (\<exists>r \<in> set valid. rr_manifest_hash r = h) \<or> manifest_drifts m (rr_manifest (last valid)) = [])"
  using assms by (auto simp: determine_replay_state_def bindE_Inr_iff Let_def list_ex_iff split: if_splits)

text \<open>C21: The state of a replay report says what was found: it is INVALID exactly when the ledger's chains do not
  verify or a check of the plan's records failed, INCOMPLETE exactly when neither holds and one of the six records of the
  plan is missing; DRIFTED means that earlier valid reports exist, that none has the manifest's hash and that the
  manifest differs from the last of them or some earlier report is invalid; REPRODUCED, that there is no earlier valid report, or one
  has the same manifest, or the last has nothing that changed.\<close>

theorem replay_state_reasons:
  assumes "build_report w n pl t p requester eng = Inr r"
  shows "\<exists>rows chain reasons. load_chain_rows pl t p eng = Inr rows \<and> replay_chain_of (wd_hash w) t p eng = Inr chain \<and>
    collect_invalid_reasons w t p rows = Inr reasons \<and>
    (rr_replay_state r = RS_INVALID \<longleftrightarrow> (\<exists>m. chain = ChainBroken m) \<or> reasons \<noteq> []) \<and>
    (rr_replay_state r = RS_INCOMPLETE \<longleftrightarrow>
      (\<exists>heads. chain = ChainHeads heads) \<and> reasons = [] \<and> (\<exists>(label, row) \<in> set (chain_row_items rows). row = None)) \<and>
    (rr_replay_state r = RS_DRIFTED \<longrightarrow> (\<exists>valid skipped. validated_prior_reports w pl t p eng = Inr (valid, skipped) \<and> valid \<noteq> [] \<and>
      (\<forall>x \<in> set valid. rr_manifest_hash x \<noteq> rr_manifest_hash r) \<and>
      rr_drift_reasons r = skipped @ manifest_drifts (rr_manifest r) (rr_manifest (last valid)) \<and> rr_drift_reasons r \<noteq> [])) \<and>
    (rr_replay_state r = RS_REPRODUCED \<longrightarrow> (\<exists>valid skipped. validated_prior_reports w pl t p eng = Inr (valid, skipped) \<and>
      (valid = [] \<or> (\<exists>x \<in> set valid. rr_manifest_hash x = rr_manifest_hash r) \<or>
       manifest_drifts (rr_manifest r) (rr_manifest (last valid)) = [])))"
  using assms
proof (rule build_report_run)
  fix rows chain reasons state drifts s draft
  let ?m = "build_manifest (wd_hash w) t p rows chain"
  assume found: "load_chain_rows pl t p eng = Inr rows" "replay_chain_of (wd_hash w) t p eng = Inr chain"
      "collect_invalid_reasons w t p rows = Inr reasons"
    and run: "determine_replay_state w pl t p ?m (manifest_hash (wd_hash w) ?m)
       (chain_results chain @ missing_results rows @ reasons) eng = Inr (state, drifts)"
    and draft: "draft = draft_report (wd_id w n) (wd_now w (n + 1)) pl t p requester ?m (manifest_hash (wd_hash w) ?m) state
       (chain_results chain @ missing_results rows @ reasons) drifts"
    and r: "r = draft\<lparr>rr_signed_replay := receipt_sign (wd_mac w) s (signed_replay_body draft)\<rparr>"
  have fields: "rr_replay_state r = state" "rr_manifest r = ?m" "rr_manifest_hash r = manifest_hash (wd_hash w) ?m"
      "rr_drift_reasons r = drifts"
    by (simp_all add: r draft draft_report_def)
  note invalid = results_invalid_iff [OF found(3), of chain]
  have incomplete: "list_ex (has_status ''incomplete'') (chain_results chain @ missing_results rows @ reasons)
      \<longleftrightarrow> (\<exists>(label, row) \<in> set (chain_row_items rows). row = None)" if "\<not> (\<exists>m. chain = ChainBroken m)" "reasons = []"
  proof (cases chain)
    case (ChainHeads heads)
    with results_incomplete_iff [of w t p rows heads] found(3) that show ?thesis by simp
  qed (use that in simp)
  have heads: "\<not> (\<exists>m. chain = ChainBroken m) \<longleftrightarrow> (\<exists>heads. chain = ChainHeads heads)" by (cases chain) auto
  have state: "state = RS_INVALID \<longleftrightarrow> (\<exists>m. chain = ChainBroken m) \<or> reasons \<noteq> []"
      "state = RS_INCOMPLETE \<longleftrightarrow> (\<exists>heads. chain = ChainHeads heads) \<and> reasons = [] \<and>
        (\<exists>(label, row) \<in> set (chain_row_items rows). row = None)"
    using determined_state(1,2) [OF run] invalid incomplete heads by blast+
  show ?thesis
    unfolding fields
    by (intro exI [of _ rows] exI [of _ chain] exI [of _ reasons] conjI impI found state;
        drule determined_state(3) [OF run, rotated] determined_state(4) [OF run, rotated]; assumption)
qed

section \<open>A report passes its own checks\<close>

lemma dget_sign: "k \<noteq> ''signature'' \<Longrightarrow> dget (receipt_sign mac s d) k = dget d k" "k \<noteq> ''signature'' \<Longrightarrow> dget_or (receipt_sign mac s d) k v = dget_or d k v"
  by (simp_all add: receipt_sign_def Let_def dget_def dget_or_def)

lemma signed_checks:
  "wd_signer w = Some s \<Longrightarrow> ascii_mac (wd_mac w) \<Longrightarrow> check_signature w (receipt_sign (wd_mac w) s d) e = Inr ()"
  by (simp add: check_signature_def with_signer_def receipt_sign_verify ascii_mac_def)

lemma py_eq_refls: "dwf d \<Longrightarrow> py_eq_items d d" "list_all jwf xs \<Longrightarrow> py_eq_list xs xs" "py_eq (jstrs ys) (jstrs ys)"
  using py_eq_refl [of "JObj d"] py_eq_refl [of "JArr xs"] py_eq_refl [OF jwf_jstrs [of ys]] by (simp_all add: list_all_iff)

lemma report_fields_wf:
  assumes "dwf (replay_report_to_dict r)"
  shows "dwf (replay_manifest_to_dict (rr_manifest r))" "list_all jwf (rr_validation_results r)"
  using assms by (simp_all add: replay_report_to_dict_def list_all_iff)

lemma fresh_report_checks:
  assumes "wd_signer w = Some s" "ascii_mac (wd_mac w)" "dwf (replay_report_to_dict r)"
    and "rr_signed_replay r = receipt_sign (wd_mac w) s (signed_replay_body r)" "rr_manifest_hash r = manifest_hash (wd_hash w) (rr_manifest r)"
    and "\<not> rr_replay_executed r" "\<not> rr_action_executed r" "\<not> rr_simulation_rerun r" "\<not> rr_connector_invoked r"
    and "\<not> rr_external_side_effects r" "rr_execution_state r = ES_NOT_EXECUTED"
  shows "validate_report_historical w r = Inr ()"
proof -
  note fields = report_fields_wf [OF assms(3)]
  have get: "dget (signed_replay_body r) ''replay_id'' = JStr (rr_replay_id r)" "dget (signed_replay_body r) ''plan_id'' = JStr (rr_plan_id r)"
    "dget (signed_replay_body r) ''outcome_id'' = JStr (rr_outcome_id r)" "dget (signed_replay_body r) ''tenant_id'' = JStr (rr_tenant_id r)"
    "dget (signed_replay_body r) ''project_id'' = JStr (rr_project_id r)" "dget (signed_replay_body r) ''requested_by'' = JStr (rr_requested_by r)"
    "dget (signed_replay_body r) ''manifest'' = JObj (replay_manifest_to_dict (rr_manifest r))"
    "dget (signed_replay_body r) ''manifest_hash'' = JStr (rr_manifest_hash r)"
    "dget (signed_replay_body r) ''replay_state'' = JStr (replay_state_value (rr_replay_state r))"
    "dget_or (signed_replay_body r) ''validation_results'' (JArr []) = JArr (rr_validation_results r)"
    "dget_or (signed_replay_body r) ''drift_reasons'' (JArr []) = jstrs (rr_drift_reasons r)"
    "dget (signed_replay_body r) ''created_at'' = JStr (rr_created_at r)" "dget (signed_replay_body r) ''version'' = JStr (rr_version r)"
    "dget (signed_replay_body r) ''execution_state'' = JStr (execution_state_value ES_NOT_EXECUTED)"
    by (simp_all add: signed_replay_body_def dget_def dget_or_def)
  have "\<not> claims_execution r (rr_signed_replay r)"
    by (simp add: claims_execution_def assms dget_sign) (simp add: signed_replay_body_def dget_def)
  then show ?thesis
    by (simp add: validate_report_historical_def Let_def require_match_def require_execution_invariants_def assms(5,11))
      (simp add: assms(4) dget_sign get signed_checks [OF assms(1,2)] py_eq_refls fields assms(5))
qed

text \<open>C22: A replay report passes its own checks: a report built on a ledger the service left is well signed, its manifest
  has the hash it names, it claims no execution, and from any row that stores it the reader gives the report back and
  the validator accepts it, wherever it runs (with an HMAC whose digests are ASCII).\<close>

theorem built_report_checks:
  assumes "(grdi_step H)\<^sup>*\<^sup>* fresh_engine eng" "wd_hash w = H" "ascii_mac (wd_mac w)"
    and "build_report w n pl t p requester eng = Inr r" "map_of (strip_scoped row) = map_of (replay_report_to_dict r)"
  shows "(\<exists>s. wd_signer w = Some s \<and> receipt_verify (wd_mac w) s (rr_signed_replay r) = Inr True) \<and>
    rr_manifest_hash r = manifest_hash H (rr_manifest r) \<and> \<not> claims_execution r (rr_signed_replay r) \<and>
    replay_report_from_dict now row = Inr r \<and> stored_report w row eng' = Inr (replay_report_to_dict r)"
proof -
  have "engine_ok H eng" using grdi_steps_engine [OF assms(1) engine_ok_fresh] by simp
  then have wf: "dwf (replay_report_to_dict r)" using build_report_wf [of "wd_hash w" eng w] assms(2,4) by simp
  from assms(4) obtain s where r: "wd_signer w = Some s" "rr_signed_replay r = receipt_sign (wd_mac w) s (signed_replay_body r)"
      "rr_manifest_hash r = manifest_hash (wd_hash w) (rr_manifest r)" "\<not> rr_replay_executed r" "\<not> rr_action_executed r"
      "\<not> rr_simulation_rerun r" "\<not> rr_connector_invoked r" "\<not> rr_external_side_effects r" "rr_execution_state r = ES_NOT_EXECUTED"
    by (rule build_report_run) (simp add: draft_report_def signed_replay_body_def)
  have ok: "validate_report_historical w r = Inr ()" by (rule fresh_report_checks [OF r(1) assms(3) wf r(2-9)])
  moreover from ok have "\<not> claims_execution r (rr_signed_replay r)"
    by (simp add: validate_report_historical_def Let_def bindE_Inr_iff require_execution_invariants_def)
  ultimately show ?thesis
    using r(1-3) assms(2,3) replay_report_read [OF assms(5)]
    by (simp add: stored_report_def validate_report_def receipt_sign_verify ascii_mac_def)
qed

section \<open>What a report that reads back says\<close>

lemma concat_map_Nil: "concat (map f xs) = [] \<longleftrightarrow> (\<forall>x \<in> set xs. f x = [])"
  by (induction xs) auto

lemma no_hash_drift:
  "hash_drifts H m rows = [] \<longleftrightarrow> (\<forall>(label, c) \<in> set RECORD_HASH_KEYS.
     dget (rm_record_hashes m) label = (case chain_row rows label of None \<Rightarrow> JNull | Some row \<Rightarrow> JStr (record_hash H row)))"
  unfolding hash_drifts_def concat_map_Nil by (auto simp: Let_def split: option.splits if_splits)

lemma no_head_drift:
  "head_drifts report heads = [] \<longleftrightarrow> (\<forall>(c, h) \<in> set (rm_source_chain_heads (rr_manifest report)).
     py_eq h (head_of heads (rr_tenant_id report) (rr_project_id report) c))"
  unfolding head_drifts_def concat_map_Nil by (auto split: if_splits)

lemma historical_checked:
  assumes "validate_report_historical w r = Inr ()"
  shows "(\<exists>s. wd_signer w = Some s \<and> receipt_verify (wd_mac w) s (rr_signed_replay r) = Inr True) \<and>
    rr_manifest_hash r = manifest_hash (wd_hash w) (rr_manifest r) \<and> \<not> claims_execution r (rr_signed_replay r)"
  using assms
  by (auto simp: validate_report_historical_def Let_def bindE_Inr_iff require_execution_invariants_def check_signature_def
      with_signer_def split: option.splits)

lemma sources_current:
  assumes "validate_report_against_sources w report eng = Inr []"
  obtains rows heads where "load_chain_rows (rr_plan_id report) (rr_tenant_id report) (rr_project_id report) eng = Inr rows"
    "replay_chain_of (wd_hash w) (rr_tenant_id report) (rr_project_id report) eng = Inr (ChainHeads heads)"
    "hash_drifts (wd_hash w) (rr_manifest report) rows = []" "head_drifts report heads = []"
proof -
  from assms obtain rows chain where run: "load_chain_rows (rr_plan_id report) (rr_tenant_id report) (rr_project_id report) eng = Inr rows"
    "replay_chain_of (wd_hash w) (rr_tenant_id report) (rr_project_id report) eng = Inr chain"
    "(case chain of ChainBroken m \<Rightarrow> hash_drifts (wd_hash w) (rr_manifest report) rows @ [''source_chain_invalid:'' @ m]
      | ChainHeads heads \<Rightarrow> hash_drifts (wd_hash w) (rr_manifest report) rows @ head_drifts report heads
          @ content_drifts (rr_manifest report) rows) = []"
    by (auto simp: validate_report_against_sources_def Let_def bindE_Inr_iff)
  then show thesis using that by (cases chain) auto
qed

text \<open>C23: A replay report that reads back is current: if \<open>get_replay_report\<close> returns, then what it returns is the
  report asked for, well signed, with the hash of its manifest, claiming no execution; and at that moment the chains of
  its scope verify, every record of the plan that is there hashes to what the manifest says and none that the manifest
  names is missing, and the heads of the chains are those of the manifest.\<close>

theorem read_replay_is_current:
  assumes "get_replay_report w i t p eng = Inr d"
  shows "\<exists>report rows heads. d = replay_report_to_dict report \<and> rr_replay_id report = i \<and>
    (\<exists>s. wd_signer w = Some s \<and> receipt_verify (wd_mac w) s (rr_signed_replay report) = Inr True) \<and>
    rr_manifest_hash report = manifest_hash (wd_hash w) (rr_manifest report) \<and>
    \<not> claims_execution report (rr_signed_replay report) \<and>
    load_chain_rows (rr_plan_id report) (rr_tenant_id report) (rr_project_id report) eng = Inr rows \<and>
    replay_chain_of (wd_hash w) (rr_tenant_id report) (rr_project_id report) eng = Inr (ChainHeads heads) \<and>
    (\<forall>(label, c) \<in> set RECORD_HASH_KEYS. dget (rm_record_hashes (rr_manifest report)) label =
      (case chain_row rows label of None \<Rightarrow> JNull | Some row \<Rightarrow> JStr (record_hash (wd_hash w) row))) \<and>
    (\<forall>(c, h) \<in> set (rm_source_chain_heads (rr_manifest report)).
      py_eq h (head_of heads (rr_tenant_id report) (rr_project_id report) c))"
proof -
  from assms obtain row report where
    found: "find_scoped_row ''replay_reports'' ''replay_id'' i t p ''replay_report_not_found_in_scope'' eng = Inr row"
    and read: "replay_report_from_dict (wd_now w 0) row = Inr report" "d = replay_report_to_dict report"
    and old: "validate_report_historical w report = Inr ()"
    and now: "validate_report_against_sources w report eng = Inr []"
    by (auto simp: get_replay_report_def validate_report_def bindE_Inr_iff)
  have "rr_replay_id report = i"
    using report_read_id [OF read(1)] find_scoped_row_field [OF found] by (simp add: dget_def)
  moreover from now obtain rows heads where
    "load_chain_rows (rr_plan_id report) (rr_tenant_id report) (rr_project_id report) eng = Inr rows"
    "replay_chain_of (wd_hash w) (rr_tenant_id report) (rr_project_id report) eng = Inr (ChainHeads heads)"
    "hash_drifts (wd_hash w) (rr_manifest report) rows = []" "head_drifts report heads = []"
    by (rule sources_current)
  ultimately show ?thesis
    using historical_checked [OF old] read(2) unfolding no_hash_drift no_head_drift by blast
qed

section \<open>What a comparison lists\<close>

definition entry :: "string \<Rightarrow> json \<Rightarrow> json \<Rightarrow> json" where
  "entry path a b = JObj [(''path'', JStr path), (''baseline'', a), (''candidate'', b)]"

lemma difference_entry: "difference path a b = (if py_eq a b then [] else [entry path a b])"
  by (simp add: difference_def entry_def)

text \<open>The keys two dictionaries differ at, a missing key having the value \<open>JNull\<close>.\<close>

definition differing :: "pdict \<Rightarrow> pdict \<Rightarrow> string set" where
  "differing a b = {k. \<not> py_eq (dget a k) (dget b k)}"

lemma differing_keys: "differing a b \<subseteq> set (dkeys a @ dkeys b)"
proof
  fix k assume k: "k \<in> differing a b"
  show "k \<in> set (dkeys a @ dkeys b)"
  proof (rule ccontr)
    assume "k \<notin> set (dkeys a @ dkeys b)"
    then have "map_of a k = None" "map_of b k = None" by (auto simp: map_of_eq_None_iff)
    with k show False by (simp add: differing_def dget_def)
  qed
qed

lemma concat_difference:
  "concat (map (\<lambda>k. difference (f k) (g k) (h k)) ks) = map (\<lambda>k. entry (f k) (g k) (h k)) (filter (\<lambda>k. \<not> py_eq (g k) (h k)) ks)"
  by (induction ks) (simp_all add: difference_entry)

text \<open>Every key the dictionaries differ at is listed, once, with both values, in the order of the keys, and nothing else is.\<close>

lemma dict_differences_entries:
  "dict_differences path a b = map (\<lambda>k. entry (path @ k) (dget a k) (dget b k)) (sorted_list_of_set (differing a b))"
proof -
  let ?ks = "filter (\<lambda>k. \<not> py_eq (dget a k) (dget b k)) (sort (remdups (dkeys a @ dkeys b)))"
  have "set ?ks = differing a b" using differing_keys [of a b] by (auto simp: differing_def)
  moreover have "sorted ?ks" "distinct ?ks" by (simp_all add: sorted_filter [where f = "\<lambda>x. x", simplified])
  ultimately have "?ks = sorted_list_of_set (differing a b)" by (metis sorted_list_of_set.idem_if_sorted_distinct)
  then show ?thesis unfolding dict_differences_def concat_difference by simp
qed

definition same_scope :: "replay_report \<Rightarrow> replay_report \<Rightarrow> bool" where
  "same_scope b c \<longleftrightarrow> rr_tenant_id b = rr_tenant_id c \<and> rr_project_id b = rr_project_id c"

definition conclusive :: "replay_report \<Rightarrow> bool" where
  "conclusive r \<longleftrightarrow> rr_replay_state r \<noteq> RS_INVALID \<and> rr_replay_state r \<noteq> RS_INCOMPLETE"

text \<open>What a list of differences between two dictionaries has to be.\<close>

definition lists_differences :: "string \<Rightarrow> pdict \<Rightarrow> pdict \<Rightarrow> json list \<Rightarrow> bool" where
  "lists_differences path a b xs \<longleftrightarrow>
     xs = map (\<lambda>k. entry (path @ k) (dget a k) (dget b k)) (sorted_list_of_set (differing a b)) \<and>
     set xs = {entry (path @ k) (dget a k) (dget b k) | k. \<not> py_eq (dget a k) (dget b k)} \<and> distinct xs"

lemma dict_differences_lists: "lists_differences path a b (dict_differences path a b)"
proof -
  have fin: "finite (differing a b)" using finite_subset [OF differing_keys] by blast
  have "inj (\<lambda>k. entry (path @ k) (dget a k) (dget b k))" by (rule injI) (simp add: entry_def)
  then show ?thesis
    unfolding lists_differences_def dict_differences_entries using fin
    by (auto simp: differing_def distinct_map intro: inj_on_subset)
qed

definition structural_differences :: "replay_report \<Rightarrow> replay_report \<Rightarrow> json set" where
  "structural_differences b c =
     {entry (''manifest.'' @ f) (JStr x) (JStr y) | f x y.
        map_of (manifest_ids (rr_manifest b)) f = Some x \<and> map_of (manifest_ids (rr_manifest c)) f = Some y \<and> x \<noteq> y} \<union>
     {entry ''replay_state'' (JStr (replay_state_value x)) (JStr (replay_state_value y)) | x y.
        x = rr_replay_state b \<and> y = rr_replay_state c \<and> x \<noteq> y}"

lemma replay_state_value_inj: "replay_state_value x = replay_state_value y \<longleftrightarrow> x = y"
  by (cases x; cases y) simp_all

lemma zip_map_of:
  "map fst as = map fst bs \<Longrightarrow> distinct (map fst as) \<Longrightarrow>
    ((f, x), (f', y)) \<in> set (zip as bs) \<longleftrightarrow> f' = f \<and> map_of as f = Some x \<and> map_of bs f = Some y"
proof (induction as arbitrary: bs)
  case (Cons a as)
  from Cons.prems(1) obtain b cs where bs: "bs = b # cs" "fst b = fst a" "map fst as = map fst cs" by (cases bs) auto
  note IH = Cons.IH [OF bs(3)]
  show ?case
  proof (cases "f = fst a")
    case True
    then have "map_of as f = None" using Cons.prems(2) by (simp add: map_of_eq_None_iff)
    with True IH Cons.prems(2) bs show ?thesis by (cases a; cases b) auto
  next
    case False
    with IH Cons.prems(2) bs show ?thesis by (cases a; cases b) auto
  qed
qed simp

lemma zip_ids: "((f, x), (f', y)) \<in> set (zip (manifest_ids m) (manifest_ids n)) \<longleftrightarrow>
    f' = f \<and> map_of (manifest_ids m) f = Some x \<and> map_of (manifest_ids n) f = Some y"
  by (rule zip_map_of) (simp_all add: manifest_ids_def)

lemma structural_lists:
  assumes "pc_state (compare_pair b c) = CS_DIFFERENT"
  shows "set (pc_structural (compare_pair b c)) = structural_differences b c \<and> distinct (pc_structural (compare_pair b c))"
proof -
  let ?zs = "zip (manifest_ids (rr_manifest b)) (manifest_ids (rr_manifest c))"
  let ?e = "\<lambda>((f, x), (f', y)). entry (''manifest.'' @ f) (JStr x) (JStr y)"
  let ?differ = "\<lambda>((f, x), (f', y)). x \<noteq> y"
  let ?last = "if rr_replay_state b = rr_replay_state c then []
    else [entry ''replay_state'' (JStr (replay_state_value (rr_replay_state b))) (JStr (replay_state_value (rr_replay_state c)))]"
  have "concat (map (\<lambda>((field, a), (field', b)). difference (''manifest.'' @ field) (JStr a) (JStr b)) zs) = map ?e (filter ?differ zs)"
    for zs :: "((string \<times> string) \<times> (string \<times> string)) list"
    by (induction zs) (auto simp: difference_entry)
  with assms have l: "pc_structural (compare_pair b c) = map ?e (filter ?differ ?zs) @ ?last"
    by (simp add: compare_pair_def Let_def only_state_def difference_entry replay_state_value_inj split: if_splits)
  have S: "set (map ?e (filter ?differ ?zs)) = {entry (''manifest.'' @ f) (JStr x) (JStr y) | f x y.
        map_of (manifest_ids (rr_manifest b)) f = Some x \<and> map_of (manifest_ids (rr_manifest c)) f = Some y \<and> x \<noteq> y}"
    (is "_ = ?S")
  proof (rule set_eqI)
    fix v
    show "v \<in> set (map ?e (filter ?differ ?zs)) \<longleftrightarrow> v \<in> ?S"
    proof
      assume "v \<in> set (map ?e (filter ?differ ?zs))"
      then obtain f x f' y where "((f, x), (f', y)) \<in> set ?zs" "x \<noteq> y" "v = entry (''manifest.'' @ f) (JStr x) (JStr y)" by auto
      then show "v \<in> ?S" unfolding zip_ids by blast
    next
      assume "v \<in> ?S"
      then obtain f x y where v: "map_of (manifest_ids (rr_manifest b)) f = Some x" "map_of (manifest_ids (rr_manifest c)) f = Some y"
        "x \<noteq> y" "v = entry (''manifest.'' @ f) (JStr x) (JStr y)" by blast
      then have "((f, x), (f, y)) \<in> set (filter ?differ ?zs)" using zip_ids [of f x f y] by simp
      from imageI [OF this, of ?e] show "v \<in> set (map ?e (filter ?differ ?zs))" by (simp add: v(4))
    qed
  qed
  have D: "distinct (map ?e (filter ?differ ?zs))"
  proof -
    have keys: "distinct (map (fst \<circ> fst) ?zs)" by (simp add: manifest_ids_def)
    have "inj_on ?e (set ?zs)"
    proof (rule inj_onI)
      fix u v assume u: "u \<in> set ?zs" and v: "v \<in> set ?zs" and e: "?e u = ?e v"
      from e have "fst (fst u) = fst (fst v)" by (simp add: entry_def case_prod_beta)
      with u v keys show "u = v" unfolding distinct_map comp_def by (meson inj_onD)
    qed
    moreover have "distinct ?zs" using keys by (simp add: distinct_map)
    ultimately show ?thesis by (simp add: distinct_map inj_on_subset)
  qed
  have N: "set (map ?e (filter ?differ ?zs)) \<inter> set ?last = {}" by (auto simp: entry_def)
  have L: "set ?last = {entry ''replay_state'' (JStr (replay_state_value x)) (JStr (replay_state_value y)) | x y.
      x = rr_replay_state b \<and> y = rr_replay_state c \<and> x \<noteq> y}" by auto
  have "distinct ?last" by simp
  with D N show ?thesis unfolding l set_append distinct_append structural_differences_def S L by blast
qed

text \<open>C24: A comparison's state is a decision on four questions in order: can both reports be used and are they of one
  scope, are they about one subject, domain and type of decision, have their manifests one hash. When the answer is
  DIFFERENT, each of the four lists is complete for its part of the manifests and lists nothing else: the hashes of the records, the policy
  versions and the outcome, key by key in order, each key at which they differ once with both values; and the identifiers and the state of the
  reports. Other parts of a manifest, the protocol versions among them, are in no list: \<open>protocol_change_unlisted\<close> has reports
  that are DIFFERENT with all lists empty.\<close>

theorem comparison_lists_differences:
  shows "pc_state (compare_pair b c) = (if \<not> conclusive b \<or> \<not> conclusive c \<or> \<not> same_scope b c then CS_INVALID
      else if \<not> py_eq (JArr (identity_of (rr_manifest b))) (JArr (identity_of (rr_manifest c))) then CS_NOT_COMPARABLE
      else if rr_manifest_hash b = rr_manifest_hash c then CS_EQUIVALENT else CS_DIFFERENT) \<and>
    (pc_state (compare_pair b c) = CS_DIFFERENT \<longrightarrow>
      set (pc_structural (compare_pair b c)) = structural_differences b c \<and> distinct (pc_structural (compare_pair b c)) \<and>
      lists_differences ''manifest.record_hashes.'' (rm_record_hashes (rr_manifest b)) (rm_record_hashes (rr_manifest c))
        (pc_hashes (compare_pair b c)) \<and>
      lists_differences ''manifest.policy_versions.'' (rm_policy_versions (rr_manifest b)) (rm_policy_versions (rr_manifest c))
        (pc_policies (compare_pair b c)) \<and>
      lists_differences ''outcome.'' (rm_outcome_snapshot (rr_manifest b)) (rm_outcome_snapshot (rr_manifest c))
        (pc_outcomes (compare_pair b c)))"
proof (intro conjI impI)
  show "pc_state (compare_pair b c) = (if \<not> conclusive b \<or> \<not> conclusive c \<or> \<not> same_scope b c then CS_INVALID
      else if \<not> py_eq (JArr (identity_of (rr_manifest b))) (JArr (identity_of (rr_manifest c))) then CS_NOT_COMPARABLE
      else if rr_manifest_hash b = rr_manifest_hash c then CS_EQUIVALENT else CS_DIFFERENT)"
    by (simp add: compare_pair_def Let_def only_state_def same_scope_def conclusive_def)
next
  assume d: "pc_state (compare_pair b c) = CS_DIFFERENT"
  show "set (pc_structural (compare_pair b c)) = structural_differences b c" "distinct (pc_structural (compare_pair b c))"
    using structural_lists [OF d] by blast+
qed (simp_all add: compare_pair_def Let_def only_state_def dict_differences_lists split: if_splits)

text \<open>Two reports of one plan, made by different versions of the package: DIFFERENT, and no list says why.\<close>

definition demo_report :: "(string \<Rightarrow> string) \<Rightarrow> string \<Rightarrow> replay_report" where
  "demo_report H v = (let m = (build_manifest H ''t'' ''p'' no_chain_rows (ChainHeads []))\<lparr>rm_protocol_versions := [(''core'', JStr v)]\<rparr> in
     draft_report ''i'' ''now'' ''p1'' ''t'' ''p'' ''eve'' m (manifest_hash H m) RS_REPRODUCED [] [])"

definition demo_pair :: pair_comparison where
  "demo_pair = compare_pair (demo_report demo_hash ''4.1.0-rc.7'') (demo_report demo_hash ''4.1.0-rc.8'')"

lemma protocol_change_unlisted:
  "pc_state demo_pair = CS_DIFFERENT \<and> pc_structural demo_pair = [] \<and> pc_hashes demo_pair = [] \<and> pc_policies demo_pair = [] \<and>
   pc_outcomes demo_pair = []"
  by code_simp

lemma comparison_lists_differences_witness:
  "set (pc_structural demo_pair) = structural_differences (demo_report demo_hash ''4.1.0-rc.7'') (demo_report demo_hash ''4.1.0-rc.8'') \<and>
   structural_differences (demo_report demo_hash ''4.1.0-rc.7'') (demo_report demo_hash ''4.1.0-rc.8'') = {}"
proof -
  have "pc_state (compare_pair (demo_report demo_hash ''4.1.0-rc.7'') (demo_report demo_hash ''4.1.0-rc.8'')) = CS_DIFFERENT"
      "pc_structural (compare_pair (demo_report demo_hash ''4.1.0-rc.7'') (demo_report demo_hash ''4.1.0-rc.8'')) = []"
    using protocol_change_unlisted by (simp_all add: demo_pair_def)
  with comparison_lists_differences [of "demo_report demo_hash ''4.1.0-rc.7''" "demo_report demo_hash ''4.1.0-rc.8''"] show ?thesis
    unfolding demo_pair_def by auto
qed

section \<open>A concrete report\<close>

text \<open>The report of a plan the ledger knows nothing of: INCOMPLETE, and still a report that reads back.\<close>

definition rp_manifest :: replay_manifest where
  "rp_manifest = build_manifest (wd_hash sim_world) ''t'' ''p'' no_chain_rows (ChainHeads [])"

definition rp_draft :: replay_report where
  "rp_draft = draft_report ''i'' ''now'' ''p1'' ''t'' ''p'' ''eve'' rp_manifest ''h'' RS_INCOMPLETE (missing_results no_chain_rows) []"

definition rp_report :: replay_report where
  "rp_report = rp_draft\<lparr>rr_signed_replay := signed_replay_body rp_draft @ [(''signature'', JObj [(''alg'', JStr ''hmac-sha256''),
     (''key_id'', JStr ''kid''), (''value'', JStr ''m'')])]\<rparr>"

lemma rp_built: "build_report sim_world 0 ''p1'' ''t'' ''p'' ''eve'' fresh_engine = Inr rp_report"
  by code_simp

lemma replay_state_reasons_witness:
  "\<exists>rows. load_chain_rows ''p1'' ''t'' ''p'' fresh_engine = Inr rows \<and>
     (rr_replay_state rp_report = RS_INCOMPLETE \<longrightarrow> (\<exists>(label, row) \<in> set (chain_row_items rows). row = None))"
  using replay_state_reasons [OF rp_built] by blast

lemma built_report_checks_witness:
  "stored_report sim_world (replay_report_to_dict rp_report) fresh_engine = Inr (replay_report_to_dict rp_report)"
proof -
  have "map_of (strip_scoped (replay_report_to_dict rp_report)) = map_of (replay_report_to_dict rp_report)"
    by (simp add: strip_scoped_def replay_report_to_dict_def)
  moreover have "ascii_mac (wd_mac sim_world)" by (simp add: ascii_mac_def sim_world_def is_ascii_def)
  ultimately show ?thesis
    using built_report_checks [OF rtranclp.rtrancl_refl refl _ rp_built] by blast
qed

definition rp_row :: stored_row where
  "rp_row = \<lparr>sr_tenant_id = ''t'', sr_project_id = ''p'', sr_collection = ''replay_reports'', sr_canonical_key = ''h'',
     sr_record_id = ''i'', sr_payload = dset (with_scope (replay_report_to_dict rp_report) ''t'' ''p'') ''_chain''
       (chain_value None ''h'' 1 True),
     sr_payload_hash = ''h'', sr_chain_prev = None, sr_chain_hash = ''h'', sr_chain_sequence = 1, sr_row_version = 1,
     sr_created_at = ''clk'', sr_updated_at = ''clk'', sr_chain_linked = True\<rparr>"

definition rp_engine :: engine where
  "rp_engine = fresh_engine\<lparr>eng_disk := Some (JObj [
     (''records'', JArr [row_to_json rp_row]),
     (''heads'', JArr [head_to_json \<lparr>ch_tenant_id = ''t'', ch_project_id = ''p'', ch_collection = ''replay_reports'',
        ch_last_sequence = 1, ch_last_chain_hash = Some ''h'', ch_updated_at = ''clk''\<rparr>])])\<rparr>"

lemma rp_reads: "\<not> isl (get_replay_report sim_world ''i'' ''t'' ''p'' rp_engine)"
  by code_simp

lemma read_replay_is_current_witness:
  "\<exists>(report :: replay_report) rows heads. rr_replay_id report = ''i'' \<and>
     load_chain_rows (rr_plan_id report) (rr_tenant_id report) (rr_project_id report) rp_engine = Inr rows \<and>
     replay_chain_of (wd_hash sim_world) (rr_tenant_id report) (rr_project_id report) rp_engine = Inr (ChainHeads heads)"
proof -
  obtain d where "get_replay_report sim_world ''i'' ''t'' ''p'' rp_engine = Inr d" using rp_reads by (metis sum.collapse(2))
  from read_replay_is_current [OF this] show ?thesis
    by blast
qed

end
