(* ===== verification/Core_Identity.thy ===== *)
theory Core_Identity
  imports Grdi_Models Complex_Main
begin

text \<open>
  Model of \<^verbatim>\<open>src/src/phigraph/core_v3/security.py\<close>, \<^verbatim>\<open>api_key_identity.py\<close> and \<^verbatim>\<open>auth.py\<close>: roles and their
  permissions, principals, the validators of bearer tokens and the cache of signing keys. Base64, JSON text, SHA-256 and the
  PyJWT package are arguments, the clock is an argument.
\<close>

text \<open>Times are rational numbers of seconds; \<open>int(x)\<close> of one rounds towards zero.\<close>

definition int_of_number :: "rat \<Rightarrow> int" where
  "int_of_number x = (if x < 0 then \<lceil>x\<rceil> else \<lfloor>x\<rfloor>)"

section \<open>Roles\<close>

datatype role = VIEWER | OPERATOR | VERIFIER | ADMIN

fun role_value :: "role \<Rightarrow> string" where
  "role_value VIEWER = ''viewer''"
| "role_value OPERATOR = ''operator''"
| "role_value VERIFIER = ''verifier''"
| "role_value ADMIN = ''admin''"

definition parse_role :: "json \<Rightarrow> role res" where
  "parse_role = parse_enum ''Role'' role_value [VIEWER, OPERATOR, VERIFIER, ADMIN]"

fun permissions :: "role \<Rightarrow> string list" where
  "permissions VIEWER = [''read'']"
| "permissions OPERATOR = [''read'', ''claim:create'', ''evidence:create'', ''runtime:run'', ''grdi:create'', ''grdi:plan'']"
| "permissions VERIFIER = [''read'', ''claim:create'', ''evidence:create'', ''verification:create'', ''hav:verify'',
     ''runtime:run'', ''grdi:create'', ''grdi:authorize'', ''grdi:plan'', ''grdi:simulate'', ''grdi:record_outcome'',
     ''grdi:replay'', ''grdi:compare'']"
| "permissions ADMIN = [''*'']"

record principal =
  pr_subject :: string
  pr_role :: role
  pr_tenant_id :: string
  pr_project_id :: string
  pr_issuer :: string

definition allows :: "principal \<Rightarrow> string \<Rightarrow> bool" where
  "allows p permission = (let ps = permissions (pr_role p) in ''*'' \<in> set ps \<or> permission \<in> set ps)"

text \<open>The two identities of the server, \<open>ApiKeyIdentity\<close> and \<open>DevIdentity\<close>, with their defaults.\<close>

record server_identity =
  si_subject :: string
  si_role :: role
  si_tenant_id :: string
  si_project_id :: string
  si_issuer :: string

definition ApiKeyIdentity :: server_identity where
  "ApiKeyIdentity = \<lparr>si_subject = ''api-key-client'', si_role = OPERATOR, si_tenant_id = ''default'',
     si_project_id = ''default'', si_issuer = ''api-key''\<rparr>"

definition DevIdentity :: server_identity where
  "DevIdentity = \<lparr>si_subject = ''dev-client'', si_role = VERIFIER, si_tenant_id = ''default'',
     si_project_id = ''default'', si_issuer = ''development''\<rparr>"

definition to_principal :: "server_identity \<Rightarrow> principal" where
  "to_principal i = \<lparr>pr_subject = si_subject i, pr_role = si_role i, pr_tenant_id = si_tenant_id i,
     pr_project_id = si_project_id i, pr_issuer = si_issuer i\<rparr>"

section \<open>Claims\<close>

text \<open>\<open>v in (None, "")\<close>.\<close>

definition none_or_empty :: "json \<Rightarrow> bool" where
  "none_or_empty v \<longleftrightarrow> v = JNull \<or> v = JStr []"

definition resolve_scope ::
  "bool \<Rightarrow> json \<Rightarrow> json \<Rightarrow> string option \<Rightarrow> string option \<Rightarrow> (json \<times> json) res" where
  "resolve_scope allow_header_fallback claim_tenant claim_project tenant_id project_id =
     (if allow_header_fallback
      then Inr (if \<not> none_or_empty claim_tenant then claim_tenant else ostr tenant_id,
                if \<not> none_or_empty claim_project then claim_project else ostr project_id)
      else bindE (raise_if (none_or_empty claim_tenant) (ValueError ''missing_tenant_id_claim'')) (\<lambda>_.
           bindE (raise_if (none_or_empty claim_project) (ValueError ''missing_project_id_claim'')) (\<lambda>_.
           Inr (JStr (py_str claim_tenant), JStr (py_str claim_project)))))"

definition principal_from_claims :: "pdict \<Rightarrow> string option \<Rightarrow> string option \<Rightarrow> bool \<Rightarrow> principal res" where
  "principal_from_claims claims tenant_id project_id allow_header_fallback =
     bindE (resolve_scope allow_header_fallback (dget claims ''tenant_id'') (dget claims ''project_id'') tenant_id project_id)
       (\<lambda>(resolved_tenant, resolved_project).
     bindE (raise_if (\<not> truthy resolved_tenant \<or> \<not> truthy resolved_project) (ValueError ''missing_scope_claim'')) (\<lambda>_.
     bindE (case parse_role (dget_or claims ''role'' (JStr ''viewer'')) of
         Inl (ValueError m) \<Rightarrow> Inl (ValueError ''invalid_role'') | Inl e \<Rightarrow> Inl e | Inr r \<Rightarrow> Inr r) (\<lambda>r.
     Inr \<lparr>pr_subject = py_str (dget_or claims ''sub'' (JStr ''unknown'')), pr_role = r,
          pr_tenant_id = py_str resolved_tenant, pr_project_id = py_str resolved_project,
          pr_issuer = py_str (dget_or claims ''iss'' (JStr ''jwt''))\<rparr>)))"

section \<open>Tokens signed with a shared secret\<close>

text \<open>\<open>s.split(c)\<close>, and \<open>int(v)\<close> of a JSON value (an optional sign and digits, underscores between them allowed).\<close>

fun split_on :: "char \<Rightarrow> string \<Rightarrow> string list" where
  "split_on c [] = [[]]"
| "split_on c (x # xs) = (if x = c then [] # split_on c xs
     else (case split_on c xs of [] \<Rightarrow> [[x]] | w # ws \<Rightarrow> (x # w) # ws))"

fun digit_groups :: "bool \<Rightarrow> nat \<Rightarrow> string \<Rightarrow> nat option" where
  "digit_groups ready acc [] = (if ready then Some acc else None)"
| "digit_groups ready acc (c # cs) =
     (if is_digit c then digit_groups True (acc * 10 + digit_val c) cs
      else if c = CHR ''_'' \<and> ready then digit_groups False acc cs else None)"

definition int_of_text :: "string \<Rightarrow> int option" where
  "int_of_text s = (case strip s of
     [] \<Rightarrow> None
   | c # cs \<Rightarrow> if c = CHR ''-'' then map_option (\<lambda>n. - int n) (digit_groups False 0 cs)
       else if c = CHR ''+'' then map_option int (digit_groups False 0 cs)
       else map_option int (digit_groups False 0 (c # cs)))"

fun py_int :: "json \<Rightarrow> int res" where
  "py_int (JInt n) = Inr n"
| "py_int (JBool b) = Inr (if b then 1 else 0)"
| "py_int (JStr s) = (case int_of_text s of Some n \<Rightarrow> Inr n
     | None \<Rightarrow> Inl (ValueError (''invalid literal for int() with base 10: '' @ repr_str s)))"
| "py_int v = Inl (TypeError ''int() argument must be a string, a bytes-like object or a real number'')"

text \<open>
  The standard library as the validator uses it: base64 to bytes, the text of a segment to its JSON value (\<open>None\<close> is
  any exception), and the HMAC as bytes.
\<close>

record token_lib =
  tl_b64decode :: "string \<Rightarrow> string option"
  tl_json :: "string \<Rightarrow> json option"
  tl_hmac :: "string \<Rightarrow> string \<Rightarrow> string"

record jwt_validator =
  jv_secret :: string
  jv_issuer :: "string option"
  jv_audience :: "string option"
  jv_leeway_seconds :: int

text \<open>\<open>if self.issuer and ...\<close>: an empty string counts as none.\<close>

definition given :: "string option \<Rightarrow> bool" where
  "given x \<longleftrightarrow> x \<noteq> None \<and> x \<noteq> Some []"

definition audience_matches :: "json \<Rightarrow> string \<Rightarrow> bool" where
  "audience_matches aud audience \<longleftrightarrow> aud = JStr audience \<or> (case aud of JArr xs \<Rightarrow> JStr audience \<in> set xs | _ \<Rightarrow> False)"

definition check_claims :: "jwt_validator \<Rightarrow> int \<Rightarrow> pdict \<Rightarrow> pdict res" where
  "check_claims v now payload =
     bindE (if dget payload ''exp'' = JNull then Inr ()
       else bindE (py_int (dget payload ''exp'')) (\<lambda>n. raise_if (now > n + jv_leeway_seconds v) (ValueError ''jwt_expired''))) (\<lambda>_.
     bindE (if dget payload ''nbf'' = JNull then Inr ()
       else bindE (py_int (dget payload ''nbf'')) (\<lambda>n. raise_if (now + jv_leeway_seconds v < n) (ValueError ''jwt_not_yet_valid''))) (\<lambda>_.
     bindE (raise_if (given (jv_issuer v) \<and> dget payload ''iss'' \<noteq> ostr (jv_issuer v)) (ValueError ''invalid_jwt_issuer'')) (\<lambda>_.
     bindE (raise_if (given (jv_audience v) \<and> \<not> audience_matches (dget payload ''aud'') (the (jv_audience v)))
       (ValueError ''invalid_jwt_audience'')) (\<lambda>_.
     Inr payload))))"

definition token_part :: "token_lib \<Rightarrow> string \<Rightarrow> json res" where
  "token_part lib part = (case tl_b64decode lib part of
     None \<Rightarrow> Inl (ValueError ''invalid_jwt_format'')
   | Some raw \<Rightarrow> (case tl_json lib raw of None \<Rightarrow> Inl (ValueError ''invalid_jwt_format'') | Some v \<Rightarrow> Inr v))"

definition jwt_validate :: "token_lib \<Rightarrow> jwt_validator \<Rightarrow> rat \<Rightarrow> string \<Rightarrow> pdict res" where
  "jwt_validate lib v now token = (case split_on (CHR ''.'') token of
     [h, p, s] \<Rightarrow>
       bindE (token_part lib h) (\<lambda>header.
       bindE (token_part lib p) (\<lambda>payload.
       bindE (as_dict header) (\<lambda>header.
       bindE (raise_if (dget header ''alg'' \<noteq> JStr ''HS256'') (ValueError ''unsupported_jwt_algorithm'')) (\<lambda>_.
       bindE (case tl_b64decode lib s of None \<Rightarrow> Inl (ValueError ''Incorrect padding'') | Some sig \<Rightarrow> Inr sig) (\<lambda>sig.
       bindE (raise_if (tl_hmac lib (jv_secret v) (h @ ''.'' @ p) \<noteq> sig) (ValueError ''invalid_jwt_signature'')) (\<lambda>_.
       bindE (as_dict payload) (check_claims v (int_of_number now))))))))
   | _ \<Rightarrow> Inl (ValueError ''invalid_jwt_format''))"

definition jwt_principal ::
  "token_lib \<Rightarrow> jwt_validator \<Rightarrow> rat \<Rightarrow> string \<Rightarrow> string option \<Rightarrow> string option \<Rightarrow> bool \<Rightarrow> principal res" where
  "jwt_principal lib v now token tenant_id project_id allow_header_fallback =
     bindE (jwt_validate lib v now token) (\<lambda>claims.
     principal_from_claims claims tenant_id project_id allow_header_fallback)"

section \<open>Tokens signed with published keys\<close>

text \<open>
  The key documents by URL with the time they were fetched. Fetching is an argument: the documents the
  configured fetcher or the HTTP client returns.
\<close>

type_synonym jwks_items = "(string \<times> (rat \<times> pdict)) list"

definition valid_document :: "json \<Rightarrow> bool" where
  "valid_document v \<longleftrightarrow> (case v of JObj d \<Rightarrow> (case dget d ''keys'' of JArr ks \<Rightarrow> True | _ \<Rightarrow> False) | _ \<Rightarrow> False)"

definition fresh_document :: "int \<Rightarrow> rat \<Rightarrow> string \<Rightarrow> bool \<Rightarrow> jwks_items \<Rightarrow> pdict option" where
  "fresh_document ttl_seconds now url force_refresh items = (case map_of items url of
     Some (fetched, payload) \<Rightarrow> if \<not> force_refresh \<and> now - fetched < of_int ttl_seconds then Some payload else None
   | None \<Rightarrow> None)"

definition jwks_get :: "int \<Rightarrow> (string \<Rightarrow> json res) \<Rightarrow> rat \<Rightarrow> string \<Rightarrow> bool \<Rightarrow> (jwks_items, pdict) act" where
  "jwks_get ttl_seconds fetcher now url force_refresh items =
     (case fresh_document ttl_seconds now url force_refresh items of
        Some payload \<Rightarrow> (Inr payload, items)
      | None \<Rightarrow> (case fetcher url of
          Inl e \<Rightarrow> (Inl e, items)
        | Inr v \<Rightarrow> (if \<not> valid_document v then (Inl (ValueError ''invalid_jwks_document''), items)
            else (case v of JObj payload \<Rightarrow> (Inr payload, dset items url (now, payload))))))"

text \<open>
  PyJWT as the validator uses it: whether it is installed, the unverified header of a token (\<open>None\<close> is any exception), and what
  making a key of an entry and decoding with it gives: the claims, or which exception. \<open>OtherError\<close> is one that is no
  \<open>InvalidTokenError\<close>, such as the errors of \<open>PyJWK.from_dict\<close>; no handler catches it, and it is raised as it is.
\<close>

datatype jwt_error = ExpiredSignature | InvalidIssuer | InvalidAudience | InvalidToken | OtherError err

record jwt_lib =
  jl_installed :: bool
  jl_header :: "string \<Rightarrow> pdict option"
  jl_decode :: "string \<Rightarrow> pdict \<Rightarrow> string list \<Rightarrow> string \<Rightarrow> string \<Rightarrow> int \<Rightarrow> jwt_error + pdict"

fun jwt_error_raised :: "jwt_error \<Rightarrow> err" where
  "jwt_error_raised ExpiredSignature = ValueError ''jwt_expired''"
| "jwt_error_raised InvalidIssuer = ValueError ''invalid_jwt_issuer''"
| "jwt_error_raised InvalidAudience = ValueError ''invalid_jwt_audience''"
| "jwt_error_raised InvalidToken = ValueError ''invalid_jwt_signature''"
| "jwt_error_raised (OtherError e) = e"

record oidc_validator =
  ov_jwks_url :: string
  ov_issuer :: string
  ov_audience :: string
  ov_algorithms :: "string list"
  ov_leeway_seconds :: int
  ov_ttl_seconds :: int

text \<open>The first key of the document with the token's \<open>kid\<close>; an entry that is not a dictionary has no \<open>get\<close>.\<close>

fun find_key :: "json \<Rightarrow> json list \<Rightarrow> pdict option res" where
  "find_key kid [] = Inr None"
| "find_key kid (item # items) = bindE (as_dict item) (\<lambda>d.
     if py_eq (dget d ''kid'') kid then Inr (Some d) else find_key kid items)"

definition document_keys :: "pdict \<Rightarrow> json list" where
  "document_keys document = (case dget document ''keys'' of JArr ks \<Rightarrow> ks | _ \<Rightarrow> [])"

definition checked_header :: "jwt_lib \<Rightarrow> oidc_validator \<Rightarrow> string \<Rightarrow> json res" where
  "checked_header lib v token = (case jl_header lib token of
     None \<Rightarrow> Inl (ValueError ''invalid_jwt_format'')
   | Some header \<Rightarrow>
       bindE (raise_if (dget header ''alg'' \<notin> JStr ` set (ov_algorithms v)) (ValueError ''unsupported_jwt_algorithm'')) (\<lambda>_.
       bindE (raise_if (\<not> truthy (dget header ''kid'')) (ValueError ''missing_jwt_kid'')) (\<lambda>_.
       Inr (dget header ''kid''))))"

text \<open>\<open>_decode\<close> calls itself once with \<open>refresh\<close> when the cached document lacks the key.\<close>

function oidc_decode ::
  "jwt_lib \<Rightarrow> oidc_validator \<Rightarrow> (string \<Rightarrow> json res) \<Rightarrow> rat \<Rightarrow> string \<Rightarrow> bool \<Rightarrow> (jwks_items, pdict) act" where
  "oidc_decode lib v fetcher now token refresh =
     bindS (liftS (raise_if (\<not> jl_installed lib)
       (RuntimeError (''OIDC validation requires optional dependency '' @ repr_str ''PyJWT[crypto]'')))) (\<lambda>_.
     bindS (liftS (checked_header lib v token)) (\<lambda>kid.
     bindS (jwks_get (ov_ttl_seconds v) fetcher now (ov_jwks_url v) refresh) (\<lambda>document.
     bindS (liftS (find_key kid (document_keys document))) (\<lambda>key_data.
     case key_data of
       None \<Rightarrow> (if \<not> refresh then oidc_decode lib v fetcher now token True
         else failS (ValueError ''jwt_kid_not_found''))
     | Some key \<Rightarrow> (case jl_decode lib token key (ov_algorithms v) (ov_issuer v) (ov_audience v) (ov_leeway_seconds v) of
         Inl e \<Rightarrow> failS (jwt_error_raised e)
       | Inr claims \<Rightarrow> retS claims)))))"
  by pat_completeness auto

termination by (relation "measure (\<lambda>(lib, v, fetcher, now, token, refresh). if refresh then 0 else 1)") auto

declare oidc_decode.simps [simp del]

definition oidc_principal ::
  "jwt_lib \<Rightarrow> oidc_validator \<Rightarrow> (string \<Rightarrow> json res) \<Rightarrow> rat \<Rightarrow> string \<Rightarrow> string option \<Rightarrow> string option \<Rightarrow> bool
   \<Rightarrow> (jwks_items, principal) act" where
  "oidc_principal lib v fetcher now token tenant_id project_id allow_header_fallback =
     bindS (oidc_decode lib v fetcher now token False) (\<lambda>claims.
     liftS (principal_from_claims claims tenant_id project_id allow_header_fallback))"

end
