(* ===== verification/Core_Guards.thy ===== *)
theory Core_Guards
  imports Core_Identity "HOL-Library.While_Combinator"
begin

text \<open>
  Model of \<^verbatim>\<open>src/src/phigraph/core_v3/rate_limit.py\<close>, \<^verbatim>\<open>idempotency.py\<close>, \<^verbatim>\<open>metrics.py\<close> and \<^verbatim>\<open>auth_deps.py\<close>: the sliding
  window limiter, the store of idempotent responses, the counters, and the dependencies that turn the headers of a request
  into a principal, a permission and a response. Times are rational numbers of seconds.
\<close>

section \<open>Rate limits\<close>

record rate_limiter =
  rl_limit :: int
  rl_window_seconds :: int
  rl_events :: "(string \<times> rat list) list"

text \<open>The loop that pops events from the front of the deque; no result stands for a loop that does not end.\<close>

definition expire :: "rat \<Rightarrow> rat list \<Rightarrow> rat list option" where
  "expire cutoff events = while_option (\<lambda>es. es \<noteq> [] \<and> hd es \<le> cutoff) tl events"

definition events_of :: "string \<Rightarrow> (string \<times> rat list) list \<Rightarrow> rat list" where
  "events_of key d = (case map_of d key of None \<Rightarrow> [] | Some es \<Rightarrow> es)"

definition rate_check :: "string \<Rightarrow> rat \<Rightarrow> rate_limiter \<Rightarrow> ((bool \<times> int \<times> int) res \<times> rate_limiter) option" where
  "rate_check key timestamp lm = (case expire (timestamp - of_int (rl_window_seconds lm)) (events_of key (rl_events lm)) of
     None \<Rightarrow> None
   | Some events \<Rightarrow> Some (
       if int (length events) \<ge> rl_limit lm
       then (if events = [] then Inl (IndexError ''deque index out of range'')
             else Inr (False, 0, max 1 (int_of_number (of_int (rl_window_seconds lm) - (timestamp - hd events)))),
             lm\<lparr>rl_events := dset (rl_events lm) key events\<rparr>)
       else (Inr (True, rl_limit lm - int (length events) - 1, 0),
             lm\<lparr>rl_events := dset (rl_events lm) key (events @ [timestamp])\<rparr>)))"

section \<open>Idempotent responses\<close>

definition idempotency_key :: "string \<Rightarrow> string \<Rightarrow> string \<Rightarrow> string \<Rightarrow> string" where
  "idempotency_key operation_name tenant_id project_id external_key =
     operation_name @ '':'' @ tenant_id @ '':'' @ project_id @ '':'' @ external_key"

definition request_hash :: "(string \<Rightarrow> string) \<Rightarrow> json \<Rightarrow> string" where
  "request_hash H payload = H (dumps payload)"

definition stored_response :: "json \<Rightarrow> string \<Rightarrow> json res" where
  "stored_response row digest =
     bindE (as_dict row) (\<lambda>d.
     bindE (dindex d ''request_hash'') (\<lambda>h.
     bindE (raise_if (h \<noteq> JStr digest) (ValueError ''idempotency_key_reused_with_different_payload'')) (\<lambda>_.
     dindex d ''response'')))"

definition idempotency_get :: "string \<Rightarrow> string \<Rightarrow> pdict \<Rightarrow> json res" where
  "idempotency_get key digest rows = (case dget rows key of JNull \<Rightarrow> Inr JNull | row \<Rightarrow> stored_response row digest)"

definition response_row :: "string \<Rightarrow> json \<Rightarrow> json" where
  "response_row digest response = JObj [(''request_hash'', JStr digest), (''response'', response)]"

text \<open>The file is written with sorted keys, so that is what the next read finds.\<close>

definition idempotency_put :: "string \<Rightarrow> string \<Rightarrow> json \<Rightarrow> pdict \<Rightarrow> pdict" where
  "idempotency_put key digest response rows = canon_dict (dset rows key (response_row digest response))"

text \<open>\<open>run\<close>: the rows of the file and the state the operation works on.\<close>

definition idempotency_run :: "string \<Rightarrow> string \<Rightarrow> ('s, json) act \<Rightarrow> (pdict \<times> 's, json) act" where
  "idempotency_run key digest operation st = (case st of (rows, s) \<Rightarrow>
     (case dget rows key of
        JNull \<Rightarrow> (case operation s of
            (Inl e, s') \<Rightarrow> (Inl e, (rows, s'))
          | (Inr response, s') \<Rightarrow> (Inr response, (idempotency_put key digest response rows, s')))
      | row \<Rightarrow> (stored_response row digest, (rows, s))))"

section \<open>Counters\<close>

type_synonym counters = "(string \<times> int) list"

definition inc :: "string \<Rightarrow> int \<Rightarrow> counters \<Rightarrow> counters" where
  "inc name n c = dset c name ((case map_of c name of None \<Rightarrow> 0 | Some m \<Rightarrow> m) + n)"

definition snapshot :: "counters \<Rightarrow> counters" where
  "snapshot c = sort c"

definition safe_name :: "string \<Rightarrow> string" where
  "safe_name name = map (\<lambda>c. if c = CHR ''.'' \<or> c = CHR ''-'' then CHR ''_'' else c) name"

definition prometheus :: "counters \<Rightarrow> string" where
  "prometheus c = join [CHR 0x0A] (''# TYPE phigraph_core_counter counter'' #
     map (\<lambda>(name, v). ''phigraph_core_'' @ safe_name name @ '' '' @ show_int v) (sort c)) @ [CHR 0x0A]"

section \<open>The dependencies of a request\<close>

record auth_config =
  ac_api_key :: "string option"
  ac_trusted_identity_headers :: bool
  ac_jwt :: "(token_lib \<times> jwt_validator) option"
  ac_oidc :: "(jwt_lib \<times> oidc_validator \<times> (string \<Rightarrow> json res)) option"
  ac_dev_api_key :: "string option"
  ac_environment :: string
  ac_allow_unauthenticated_dev :: bool
  ac_api_key_identity :: server_identity
  ac_dev_identity :: server_identity

record request_headers =
  rq_tenant_id :: string
  rq_project_id :: string
  rq_api_key :: "string option"
  rq_subject :: string
  rq_role :: string
  rq_issuer :: string
  rq_authorization :: "string option"

record auth_state =
  as_counters :: counters
  as_limiter :: rate_limiter
  as_jwks :: jwks_items

definition deny :: "string \<Rightarrow> int \<Rightarrow> string \<Rightarrow> (auth_state, 'a) act" where
  "deny counter status detail st =
     (Inl (HTTPException status detail), st\<lparr>as_counters := inc counter 1 (as_counters st)\<rparr>)"

definition lower_char :: "char \<Rightarrow> char" where
  "lower_char c = (let n = of_char c :: nat in
     if 65 \<le> n \<and> n \<le> 90 \<or> 192 \<le> n \<and> n \<le> 222 \<and> n \<noteq> 215 then char_of (n + 32) else c)"

definition starts_bearer :: "string \<Rightarrow> bool" where
  "starts_bearer s \<longleftrightarrow> take 7 (map lower_char s) = ''bearer ''"

text \<open>\<open>authorization.split(None, 1)[1]\<close>.\<close>

definition second_word :: "string \<Rightarrow> string res" where
  "second_word s = (let rest = dropWhile is_space (dropWhile (\<lambda>c. \<not> is_space c) (dropWhile is_space s))
     in if rest = [] then Inl (IndexError ''list index out of range'') else Inr rest)"

definition header_principal :: "request_headers \<Rightarrow> principal res" where
  "header_principal rq = (case parse_role (JStr (rq_role rq)) of
     Inl (ValueError m) \<Rightarrow> Inl (HTTPException 403 ''invalid_role'')
   | Inl e \<Rightarrow> Inl e
   | Inr r \<Rightarrow> Inr \<lparr>pr_subject = rq_subject rq, pr_role = r, pr_tenant_id = rq_tenant_id rq,
       pr_project_id = rq_project_id rq, pr_issuer = rq_issuer rq\<rparr>)"

text \<open>The identity of a key or of the development mode: that of the headers where they are trusted, else the server's.\<close>

definition server_principal :: "auth_config \<Rightarrow> request_headers \<Rightarrow> server_identity \<Rightarrow> principal res" where
  "server_principal cfg rq identity =
     (if ac_trusted_identity_headers cfg then header_principal rq else Inr (to_principal identity))"

definition bearer_principal :: "auth_config \<Rightarrow> rat \<Rightarrow> request_headers \<Rightarrow> string \<Rightarrow> (auth_state, principal) act" where
  "bearer_principal cfg now rq authorization =
     (let trusted = ac_trusted_identity_headers cfg;
          tenant = (if trusted then Some (rq_tenant_id rq) else None);
          project = (if trusted then Some (rq_project_id rq) else None)
      in bindS (liftS (second_word authorization)) (\<lambda>token st.
         case ac_oidc cfg of
           Some (lib, v, fetcher) \<Rightarrow> (case oidc_principal lib v fetcher now token tenant project trusted (as_jwks st) of
               (r, items) \<Rightarrow> (r, st\<lparr>as_jwks := items\<rparr>))
         | None \<Rightarrow> (case ac_jwt cfg of
               Some (lib, v) \<Rightarrow> (jwt_principal lib v now token tenant project trusted, st)
             | None \<Rightarrow> deny ''auth.denied'' 503 ''core_auth_misconfigured'' st)))"

definition bearer_auth_configured :: "auth_config \<Rightarrow> bool" where
  "bearer_auth_configured cfg \<longleftrightarrow> ac_jwt cfg \<noteq> None \<or> ac_oidc cfg \<noteq> None"

definition core_auth_configured :: "auth_config \<Rightarrow> bool" where
  "core_auth_configured cfg \<longleftrightarrow> bearer_auth_configured cfg \<or> ac_api_key cfg \<noteq> None"

definition principal_of_request :: "auth_config \<Rightarrow> rat \<Rightarrow> request_headers \<Rightarrow> (auth_state, principal) act" where
  "principal_of_request cfg now rq st =
     (if ac_environment cfg \<in> {''production'', ''staging''} \<and> \<not> core_auth_configured cfg
      then deny ''auth.denied'' 503 ''core_auth_required'' st
      else if bearer_auth_configured cfg
      then (case rq_authorization rq of
          None \<Rightarrow> deny ''auth.denied'' 401 ''authorization_required'' st
        | Some authorization \<Rightarrow>
            if \<not> starts_bearer authorization then deny ''auth.denied'' 401 ''authorization_required'' st
            else tryS (bearer_principal cfg now rq authorization) (\<lambda>e. case e of
                ValueError m \<Rightarrow> deny ''auth.denied'' 401 m
              | _ \<Rightarrow> failS e) st)
      else if ac_api_key cfg \<noteq> None
      then (if rq_api_key rq \<noteq> ac_api_key cfg then deny ''auth.denied'' 401 ''invalid_api_key'' st
            else (server_principal cfg rq (ac_api_key_identity cfg), st))
      else if ac_dev_api_key cfg \<noteq> None \<and> rq_api_key rq = ac_dev_api_key cfg
      then (server_principal cfg rq (ac_dev_identity cfg), st)
      else if ac_allow_unauthenticated_dev cfg
      then (server_principal cfg rq (ac_dev_identity cfg), st)
      else if ac_dev_api_key cfg \<noteq> None \<and> rq_api_key rq \<noteq> None
      then deny ''auth.denied'' 401 ''invalid_hav_dev_api_key'' st
      else deny ''auth.denied'' 401 ''authentication_required'' st)"

text \<open>The answer of the limiter; a loop that does not end has none, and is kept as \<open>None\<close> here too.\<close>

definition enforce_rate :: "rat \<Rightarrow> principal \<Rightarrow> auth_state \<Rightarrow> (principal res \<times> auth_state) option" where
  "enforce_rate timestamp identity st =
     (case rate_check (pr_tenant_id identity @ '':'' @ pr_subject identity) timestamp (as_limiter st) of
        None \<Rightarrow> None
      | Some (Inl e, lm) \<Rightarrow> Some (Inl e, st\<lparr>as_limiter := lm\<rparr>)
      | Some (Inr (allowed, remaining, retry_after), lm) \<Rightarrow> Some (
          if allowed then (Inr identity, st\<lparr>as_limiter := lm\<rparr>)
          else deny ''rate_limit.denied'' 429 ''rate_limit_exceeded'' (st\<lparr>as_limiter := lm\<rparr>)))"

definition require_permission :: "string \<Rightarrow> principal \<Rightarrow> (auth_state, principal) act" where
  "require_permission permission p = (if allows p permission then retS p
     else deny ''rbac.denied'' 403 (''missing_permission:'' @ permission))"

text \<open>\<open>Depends(require(permission))\<close>: the three dependencies in their order.\<close>

definition guarded :: "auth_config \<Rightarrow> rat \<Rightarrow> rat \<Rightarrow> string \<Rightarrow> request_headers \<Rightarrow> auth_state \<Rightarrow> (principal res \<times> auth_state) option" where
  "guarded cfg now timestamp permission rq st = (case principal_of_request cfg now rq st of
     (Inl e, st1) \<Rightarrow> Some (Inl e, st1)
   | (Inr identity, st1) \<Rightarrow> (case enforce_rate timestamp identity st1 of
       None \<Rightarrow> None
     | Some (Inl e, st2) \<Rightarrow> Some (Inl e, st2)
     | Some (Inr p, st2) \<Rightarrow> Some (require_permission permission p st2)))"

text \<open>\<open>idempotent\<close>: every \<open>ValueError\<close> of the run, of the store or of the operation, becomes a conflict.\<close>

definition idempotent ::
  "(string \<Rightarrow> string) \<Rightarrow> string option \<Rightarrow> json \<Rightarrow> ('s, json) act \<Rightarrow> string \<Rightarrow> string \<Rightarrow> string
   \<Rightarrow> (counters \<times> pdict \<times> 's, json) act" where
  "idempotent H external_key payload operation operation_name tenant_id project_id st = (case st of (c, rows, s) \<Rightarrow>
     (if \<not> given external_key then (case operation s of (r, s') \<Rightarrow> (r, (c, rows, s')))
      else (case idempotency_run (idempotency_key operation_name tenant_id project_id (the external_key)) (request_hash H payload)
          operation (rows, s) of
        (Inl (ValueError m), st') \<Rightarrow> (Inl (HTTPException 409 m), (inc ''idempotency.conflict'' 1 c, st'))
      | (r, st') \<Rightarrow> (r, (c, st')))))"

end
