(* ===== verification/Guard_Properties.thy ===== *)
theory Guard_Properties
  imports Core_Guards
begin

text \<open>
  The properties of the guards in front of the service: the rate limiter ends and bounds what it lets through in any
  window, a response is computed once per key, and a request only gets past with credentials and a permission.
\<close>

section \<open>The rate limiter\<close>

lemma expire_dropWhile: "expire cutoff es = Some (dropWhile (\<lambda>e. e \<le> cutoff) es)"
  unfolding expire_def by (induction es) (simp_all add: while_option_unfold)

text \<open>The check without its loop.\<close>

definition rate_answer :: "rate_limiter \<Rightarrow> rat \<Rightarrow> rat list \<Rightarrow> (bool \<times> int \<times> int) res" where
  "rate_answer lm t es = (if int (length es) < rl_limit lm then Inr (True, rl_limit lm - int (length es) - 1, 0)
     else if es = [] then Inl (IndexError ''deque index out of range'')
     else Inr (False, 0, max 1 (int_of_number (of_int (rl_window_seconds lm) - (t - hd es)))))"

definition live_events :: "rate_limiter \<Rightarrow> string \<Rightarrow> rat \<Rightarrow> rat list" where
  "live_events lm key t = dropWhile (\<lambda>e. e \<le> t - of_int (rl_window_seconds lm)) (events_of key (rl_events lm))"

text \<open>Every check returns: the loop drops the events up to the first one inside the window and keeps the rest.\<close>

lemma rate_check_Some:
  "rate_check key t lm = Some (rate_answer lm t (live_events lm key t), lm\<lparr>rl_events := dset (rl_events lm) key
     (if int (length (live_events lm key t)) < rl_limit lm then live_events lm key t @ [t] else live_events lm key t)\<rparr>)"
  by (simp add: rate_check_def expire_dropWhile rate_answer_def live_events_def Let_def)

text \<open>A run of calls, each a key and a time, with the calls that are let through.\<close>

definition let_through :: "(bool \<times> int \<times> int) res \<Rightarrow> bool" where
  "let_through r = (case r of Inl e \<Rightarrow> False | Inr (allowed, remaining, retry_after) \<Rightarrow> allowed)"

fun serve :: "rate_limiter \<Rightarrow> (string \<times> rat) list \<Rightarrow> ((string \<times> rat) list \<times> rate_limiter) option" where
  "serve lm [] = Some ([], lm)"
| "serve lm ((key, t) # calls) = (case rate_check key t lm of
     None \<Rightarrow> None
   | Some (r, lm') \<Rightarrow> (case serve lm' calls of
       None \<Rightarrow> None
     | Some (passed, lm2) \<Rightarrow> Some (if let_through r then (key, t) # passed else passed, lm2)))"

definition new_limiter :: "int \<Rightarrow> int \<Rightarrow> rate_limiter" where
  "new_limiter limit window_seconds = \<lparr>rl_limit = limit, rl_window_seconds = window_seconds, rl_events = []\<rparr>"

definition times_of :: "string \<Rightarrow> (string \<times> rat) list \<Rightarrow> rat list" where
  "times_of key calls = map snd (filter (\<lambda>x. fst x = key) calls)"

definition in_window :: "rat \<Rightarrow> int \<Rightarrow> rat list \<Rightarrow> nat" where
  "in_window a w ts = length (filter (\<lambda>t. a < t \<and> t \<le> a + of_int w) ts)"

lemma times_simps [simp]: "times_of key [] = []" "times_of key (xs @ [(k, t)]) = times_of key xs @ (if k = key then [t] else [])"
  by (simp_all add: times_of_def)

lemma let_through_answer [simp]: "let_through (rate_answer lm t es) \<longleftrightarrow> int (length es) < rl_limit lm"
  by (simp add: let_through_def rate_answer_def)

lemma dropWhile_sorted:
  "sorted ts \<Longrightarrow> c \<le> c' \<Longrightarrow> dropWhile (\<lambda>e. e \<le> c') (filter (\<lambda>e. c < e) ts) = filter (\<lambda>e. c' < e) ts"
  for c :: rat
proof (induction ts)
  case (Cons t ts)
  show ?case
  proof (cases "t \<le> c'")
    case False
    then have "filter (\<lambda>e. c' < e) (t # ts) = t # ts" "filter (\<lambda>e. c < e) (t # ts) = t # ts"
      using Cons.prems by (auto simp: filter_id_conv)
    with False show ?thesis by simp
  next
    case True
    with Cons show ?thesis by simp
  qed
qed simp

text \<open>What holds between calls: \<open>passed\<close> were let through so far, the last call was at \<open>now\<close>.\<close>

definition limiter_inv :: "(string \<times> rat) list \<Rightarrow> rat \<Rightarrow> rate_limiter \<Rightarrow> bool" where
  "limiter_inv passed now lm \<longleftrightarrow> (\<forall>key. sorted (times_of key passed) \<and> (\<forall>t \<in> set (times_of key passed). t \<le> now) \<and>
     (\<exists>c \<le> now - of_int (rl_window_seconds lm). events_of key (rl_events lm) = filter (\<lambda>t. c < t) (times_of key passed)) \<and>
     (\<forall>a. in_window a (rl_window_seconds lm) (times_of key passed) \<le> nat (rl_limit lm)))"

lemma limiter_inv_new: "limiter_inv [] now (new_limiter limit window)"
  by (auto simp: limiter_inv_def new_limiter_def events_of_def in_window_def)

lemma in_window_snoc:
  assumes "length (filter (\<lambda>e. t - of_int w < e) ts) < n" "\<forall>x \<in> set ts. x \<le> t" "in_window a w ts \<le> n"
  shows "in_window a w (ts @ [t]) \<le> n"
proof (cases "a < t \<and> t \<le> a + of_int w")
  case True
  have "in_window a w ts \<le> length (filter (\<lambda>e. t - of_int w < e) ts)"
  proof -
    have "filter (\<lambda>e. a < e \<and> e \<le> a + of_int w) ts = filter (\<lambda>e. a < e \<and> e \<le> a + of_int w) (filter (\<lambda>e. t - of_int w < e) ts)"
      using True by (auto simp: filter_filter intro!: filter_cong)
    then show ?thesis unfolding in_window_def by (metis length_filter_le)
  qed
  with assms(1) True show ?thesis by (simp add: in_window_def)
next
  case False
  with assms(3) show ?thesis by (auto simp: in_window_def)
qed

lemma limiter_inv_step:
  assumes inv: "limiter_inv passed now lm" and t: "now \<le> t" and w: "0 < rl_window_seconds lm"
    and call: "rate_check key t lm = Some (r, lm')"
  shows "limiter_inv (passed @ (if let_through r then [(key, t)] else [])) t lm' \<and>
    rl_window_seconds lm' = rl_window_seconds lm \<and> rl_limit lm' = rl_limit lm"
proof -
  let ?w = "of_int (rl_window_seconds lm) :: rat"
  let ?es = "live_events lm key t"
  from call have r: "r = rate_answer lm t ?es"
    and lm': "lm' = lm\<lparr>rl_events := dset (rl_events lm) key (if int (length ?es) < rl_limit lm then ?es @ [t] else ?es)\<rparr>"
    by (auto simp: rate_check_Some)
  have hist: "sorted (times_of k passed)" "\<forall>x \<in> set (times_of k passed). x \<le> now"
    "in_window a (rl_window_seconds lm) (times_of k passed) \<le> nat (rl_limit lm)" for k a
    using inv by (auto simp: limiter_inv_def)
  obtain c where c: "c \<le> now - ?w" "events_of key (rl_events lm) = filter (\<lambda>x. c < x) (times_of key passed)"
    using inv unfolding limiter_inv_def by blast
  have es: "?es = filter (\<lambda>x. t - ?w < x) (times_of key passed)"
    unfolding live_events_def c(2) by (rule dropWhile_sorted [OF hist(1)]) (use c(1) t in simp)
  have "sorted (times_of k (passed @ (if let_through r then [(key, t)] else [])))
      \<and> (\<forall>x \<in> set (times_of k (passed @ (if let_through r then [(key, t)] else []))). x \<le> t)" for k
    using hist t by (force simp: sorted_append)
  moreover have "in_window a (rl_window_seconds lm) (times_of k (passed @ (if let_through r then [(key, t)] else []))) \<le> nat (rl_limit lm)" for k a
  proof (cases "let_through r \<and> k = key")
    case True
    then have "length (filter (\<lambda>x. t - ?w < x) (times_of key passed)) < nat (rl_limit lm)" by (simp add: r es zless_nat_eq_int_zless)
    from in_window_snoc [OF this _ hist(3)] hist(2) t True show ?thesis by force
  qed (use hist in auto)
  moreover have "\<exists>c \<le> t - ?w. events_of k (rl_events lm') =
      filter (\<lambda>x. c < x) (times_of k (passed @ (if let_through r then [(key, t)] else [])))" for k
  proof (cases "k = key")
    case True
    show ?thesis
      by (rule exI [of _ "t - ?w"]) (use w in \<open>simp add: True lm' r events_of_def es\<close>)
  next
    case False
    from inv obtain c' where "c' \<le> now - ?w" "events_of k (rl_events lm) = filter (\<lambda>x. c' < x) (times_of k passed)"
      unfolding limiter_inv_def by blast
    with False t show ?thesis by (intro exI [of _ c']) (auto simp: lm' events_of_def)
  qed
  ultimately show ?thesis unfolding limiter_inv_def by (simp add: lm')
qed

lemma serve_inv:
  assumes "limiter_inv passed now lm" "0 < rl_window_seconds lm" "sorted (map snd calls)" "\<forall>x \<in> set calls. now \<le> snd x"
    and "serve lm calls = Some (extra, lm')"
  shows "\<exists>now'. limiter_inv (passed @ extra) now' lm' \<and> rl_window_seconds lm' = rl_window_seconds lm \<and> rl_limit lm' = rl_limit lm"
  using assms
proof (induction calls arbitrary: passed now lm extra)
  case (Cons x calls)
  obtain key t where x: "x = (key, t)" by (cases x)
  obtain r lm1 where r: "rate_check key t lm = Some (r, lm1)" by (simp add: rate_check_Some)
  from Cons.prems(5) r obtain extra' where extra: "serve lm1 calls = Some (extra', lm')"
      "extra = (if let_through r then [(key, t)] else []) @ extra'"
    by (auto simp: x split: option.splits)
  have step: "limiter_inv (passed @ (if let_through r then [(key, t)] else [])) t lm1"
      "rl_window_seconds lm1 = rl_window_seconds lm" "rl_limit lm1 = rl_limit lm"
    using limiter_inv_step [OF Cons.prems(1) _ Cons.prems(2) r] Cons.prems(4) by (auto simp: x)
  from Cons.IH [OF step(1) _ _ _ extra(1)] Cons.prems(2-4) step(2,3) show ?case by (simp add: extra(2) x)
qed auto

text \<open>C26: The rate limit bounds every window: whatever calls are made in whatever order of keys, at times that do not go
  back, every one is answered, and for each key no interval of the length of the window holds more calls let
  through than the limit.\<close>

theorem rate_limit_bounds_windows:
  assumes "0 < window" "sorted (map snd calls)"
  shows "\<exists>passed lm. serve (new_limiter limit window) calls = Some (passed, lm) \<and>
    in_window a window (times_of key passed) \<le> nat limit"
proof -
  have total: "\<exists>passed lm'. serve lm calls = Some (passed, lm')" for lm calls
  proof (induction calls arbitrary: lm)
    case (Cons x calls)
    obtain key t where x: "x = (key, t)" by (cases x)
    obtain r lm1 where r: "rate_check key t lm = Some (r, lm1)" by (simp add: rate_check_Some)
    from Cons.IH [of lm1] show ?case by (auto simp: x r)
  qed simp
  from total [of "new_limiter limit window" calls] obtain passed lm where
    run: "serve (new_limiter limit window) calls = Some (passed, lm)" by blast
  define start where "start = (case calls of [] \<Rightarrow> 0 | x # _ \<Rightarrow> snd x)"
  have "\<forall>x \<in> set calls. start \<le> snd x" using assms(2) by (cases calls) (force simp: start_def)+
  from serve_inv [OF limiter_inv_new _ assms(2) this run] assms(1) obtain now where
    "limiter_inv passed now lm" "rl_window_seconds lm = window" "rl_limit lm = limit" by (auto simp: new_limiter_def)
  with run show ?thesis by (auto simp: limiter_inv_def)
qed

lemma rate_limit_bounds_windows_witness:
  "\<exists>passed lm. serve (new_limiter 1 60) [(''k'', 0), (''k'', 30), (''j'', 30), (''k'', 60)] = Some (passed, lm) \<and>
     in_window 0 60 (times_of ''k'' passed) \<le> nat 1"
  by (rule rate_limit_bounds_windows) simp_all

text \<open>The wait a refused caller is told can be too short: after it, the call is refused again.\<close>

lemma retry_after_too_short:
  "\<exists>lm1 lm2 lm3. rate_check ''k'' 0 (new_limiter 1 60) = Some (Inr (True, 0, 0), lm1) \<and>
     rate_check ''k'' (117 / 2) lm1 = Some (Inr (False, 0, 1), lm2) \<and>
     rate_check ''k'' (117 / 2 + 1) lm2 = Some (Inr (False, 0, 1), lm3)"
  by (simp add: rate_check_Some live_events_def rate_answer_def new_limiter_def events_of_def int_of_number_def)

section \<open>Idempotent responses\<close>

lemma put_lookup:
  assumes "ddistinct rows"
  shows "dget (idempotency_put key digest response rows) key = response_row digest (canon response)"
    and "key' \<noteq> key \<Longrightarrow> dget (idempotency_put key digest response rows) key' = canon (dget rows key')"
proof -
  have row: "canon (response_row digest response) = response_row digest (canon response)"
    by (simp add: response_row_def canon_dict_def sort_key_def)
  have "dget (idempotency_put key digest response rows) k = canon (dget (dset rows key (response_row digest response)) k)" for k
    unfolding idempotency_put_def by (rule dget_canon_dict) (simp add: assms)
  then show "dget (idempotency_put key digest response rows) key = response_row digest (canon response)"
    and "key' \<noteq> key \<Longrightarrow> dget (idempotency_put key digest response rows) key' = canon (dget rows key')"
    by (simp_all add: dget_def row)
qed

text \<open>A response is computed once per key: after a run that returned a response, whether it computed it or found it, the same
  key and digest give that response back, up to the order of keys, without running the operation, whatever operation it is and whatever the state
  has become; another digest under the key is refused; and neither changes the file. A run that raises has not
  changed the file, and no run changes the rows of other keys.\<close>

theorem idempotent_once:
  assumes "ddistinct rows" "idempotency_run key digest operation (rows, s) = (r, (rows', s'))"
  shows "case r of Inl e \<Rightarrow> rows' = rows
    | Inr response \<Rightarrow>
        (\<exists>again. canon again = canon response \<and>
          idempotency_run key digest operation' (rows', s2) = (Inr again, (rows', s2))) \<and>
        (digest' \<noteq> digest \<longrightarrow> idempotency_run key digest' operation' (rows', s2) =
          (Inl (ValueError ''idempotency_key_reused_with_different_payload''), (rows', s2))) \<and>
        (\<forall>key'. key' \<noteq> key \<longrightarrow> canon (dget rows' key') = canon (dget rows key'))"
proof (cases "dget rows key = JNull")
  case True
  obtain z s1 where z: "operation s = (z, s1)" by fastforce
  show ?thesis
  proof (cases z)
    case (Inl e)
    with True assms(2) z show ?thesis by (auto simp: idempotency_run_def)
  next
    case (Inr response)
    with True assms(2) z have "r = Inr response" "rows' = idempotency_put key digest response rows"
      by (auto simp: idempotency_run_def)
    with put_lookup [OF assms(1), where key = key and digest = digest and response = response] show ?thesis
      by (auto simp: idempotency_run_def response_row_def stored_response_def dindex_def dget_def raise_if_def)
  qed
next
  case False
  with assms(2) have same: "rows' = rows" "r = stored_response (dget rows key) digest"
    by (auto simp: idempotency_run_def split: json.splits)
  show ?thesis
  proof (cases r)
    case (Inr response)
    with same have "stored_response (dget rows key) digest = Inr response" by simp
    then obtain d where "dget rows key = JObj d" "dindex d ''request_hash'' = Inr (JStr digest)"
      by (cases "dget rows key") (auto simp: stored_response_def bindE_Inr_iff)
    moreover from calculation have "dindex d ''response'' = Inr response"
      using same Inr by (simp add: stored_response_def raise_if_def)
    ultimately show ?thesis
      by (auto simp: Inr same(1) idempotency_run_def stored_response_def raise_if_def)
  qed (use same in simp)
qed

lemma idempotent_once_witness:
  "idempotency_run ''k'' ''h'' (failS (ValueError [])) (idempotency_put ''k'' ''h'' (JInt 7) [], ()) =
     (Inr (JInt 7), (idempotency_put ''k'' ''h'' (JInt 7) [], ()))"
proof -
  have "idempotency_run ''k'' ''h'' (retS (JInt 7)) ([], ()) = (Inr (JInt 7), (idempotency_put ''k'' ''h'' (JInt 7) [], ()))"
    by (simp add: idempotency_run_def retS_def dget_def)
  from idempotent_once [OF _ this, of "failS (ValueError [])" "()" "''i''"] obtain again where
    again: "canon again = JInt 7" "idempotency_run ''k'' ''h'' (failS (ValueError [])) (idempotency_put ''k'' ''h'' (JInt 7) [], ()) =
      (Inr again, (idempotency_put ''k'' ''h'' (JInt 7) [], ()))" by auto
  from again(1) have "again = JInt 7" by (cases again) simp_all
  with again(2) show ?thesis by simp
qed

text \<open>The parts of a scoped key are joined by a colon, which they may contain: two tenants can share a key.\<close>

lemma scoped_keys_collide: "idempotency_key ''grdi'' ''a:b'' ''c'' ''k'' = idempotency_key ''grdi'' ''a'' ''b:c'' ''k''"
  by (simp add: idempotency_key_def)

section \<open>Credentials\<close>

definition claimed_principal :: "auth_config \<Rightarrow> request_headers \<Rightarrow> pdict \<Rightarrow> principal res" where
  "claimed_principal cfg rq claims = principal_from_claims claims
     (if ac_trusted_identity_headers cfg then Some (rq_tenant_id rq) else None)
     (if ac_trusted_identity_headers cfg then Some (rq_project_id rq) else None) (ac_trusted_identity_headers cfg)"

text \<open>What a configuration asks of a request before it becomes the principal \<open>p\<close>.\<close>

definition credentials :: "auth_config \<Rightarrow> rat \<Rightarrow> request_headers \<Rightarrow> jwks_items \<Rightarrow> principal \<Rightarrow> bool" where
  "credentials cfg now rq items p \<longleftrightarrow>
     (if bearer_auth_configured cfg
      then (\<exists>authorization token claims. rq_authorization rq = Some authorization \<and> starts_bearer authorization \<and>
        second_word authorization = Inr token \<and> claimed_principal cfg rq claims = Inr p \<and>
        (case ac_oidc cfg of
           Some (lib, v, fetcher) \<Rightarrow> fst (oidc_decode lib v fetcher now token False items) = Inr claims
         | None \<Rightarrow> (case ac_jwt cfg of Some (lib, v) \<Rightarrow> jwt_validate lib v now token = Inr claims | None \<Rightarrow> False)))
      else if ac_api_key cfg \<noteq> None
      then rq_api_key rq = ac_api_key cfg \<and> server_principal cfg rq (ac_api_key_identity cfg) = Inr p
      else ac_environment cfg \<notin> {''production'', ''staging''} \<and>
        (ac_dev_api_key cfg \<noteq> None \<and> rq_api_key rq = ac_dev_api_key cfg \<or> ac_allow_unauthenticated_dev cfg) \<and>
        server_principal cfg rq (ac_dev_identity cfg) = Inr p)"

lemma bearer_run:
  assumes "bearer_principal cfg now rq authorization st = (Inr p, st')"
  shows "\<exists>token claims. second_word authorization = Inr token \<and> claimed_principal cfg rq claims = Inr p \<and>
    (case ac_oidc cfg of
       Some (lib, v, fetcher) \<Rightarrow> fst (oidc_decode lib v fetcher now token False (as_jwks st)) = Inr claims
     | None \<Rightarrow> (case ac_jwt cfg of Some (lib, v) \<Rightarrow> jwt_validate lib v now token = Inr claims | None \<Rightarrow> False))"
proof -
  from assms obtain token where token: "second_word authorization = Inr token"
    by (cases "second_word authorization") (auto simp: bearer_principal_def Let_def bindS_def liftS_def)
  show ?thesis
  proof (cases "ac_oidc cfg")
    case None
    with assms token show ?thesis
      by (cases "ac_jwt cfg")
        (auto simp: bearer_principal_def Let_def bindS_def liftS_def deny_def jwt_principal_def bindE_Inr_iff claimed_principal_def)
  next
    case (Some x)
    obtain lib v fetcher where x: "x = (lib, v, fetcher)" by (cases x)
    obtain z items where z: "oidc_decode lib v fetcher now token False (as_jwks st) = (z, items)" by fastforce
    with assms token Some x show ?thesis
      by (cases z)
        (auto simp: bearer_principal_def Let_def bindS_def liftS_def oidc_principal_def claimed_principal_def split: prod.splits)
  qed
qed

lemma request_run:
  assumes "principal_of_request cfg now rq st = (Inr p, st')"
  shows "credentials cfg now rq (as_jwks st) p"
proof (cases "bearer_auth_configured cfg")
  case True
  with assms obtain authorization where a: "rq_authorization rq = Some authorization" "starts_bearer authorization"
    by (auto simp: principal_of_request_def core_auth_configured_def deny_def split: option.splits if_splits)
  obtain z st1 where z: "bearer_principal cfg now rq authorization st = (z, st1)" by fastforce
  have "z = Inr p"
  proof (cases z)
    case (Inl e)
    with assms True a z show ?thesis
      by (cases e) (auto simp: principal_of_request_def core_auth_configured_def tryS_def deny_def failS_def)
  next
    case (Inr y)
    with assms True a z show ?thesis by (auto simp: principal_of_request_def core_auth_configured_def tryS_def)
  qed
  with bearer_run z True a show ?thesis by (auto simp: credentials_def)
next
  case False
  with assms show ?thesis
    by (auto simp: principal_of_request_def core_auth_configured_def credentials_def deny_def split: if_splits)
qed

text \<open>C25: Nothing passes the guards without credentials and permission: a request that gets through a dependency on a
  permission is the principal of a valid token where bearer tokens are configured, of the right key where only a key is, and
  otherwise, outside production and staging, of the development key or mode; that principal's role has
  the permission; and unless identity headers are trusted, every request with the same credentials gets the same answer, whatever it
  claims in its headers.\<close>

theorem guards_need_credentials:
  assumes "guarded cfg now timestamp permission rq st = Some (Inr p, st')"
  shows "credentials cfg now rq (as_jwks st) p \<and> allows p permission \<and>
    (\<not> ac_trusted_identity_headers cfg \<and> rq_api_key rq' = rq_api_key rq \<and> rq_authorization rq' = rq_authorization rq
      \<longrightarrow> guarded cfg now timestamp permission rq' st = Some (Inr p, st'))"
proof -
  from assms obtain identity st1 st2 where run: "principal_of_request cfg now rq st = (Inr identity, st1)"
      "enforce_rate timestamp identity st1 = Some (Inr p, st2)" "require_permission permission p st2 = (Inr p, st')"
    by (auto simp: guarded_def require_permission_def retS_def deny_def split: prod.splits sum.splits option.splits if_splits)
  have "p = identity"
    using run(2) by (auto simp: enforce_rate_def deny_def split: option.splits sum.splits prod.splits if_splits)
  moreover have "allows p permission" using run(3) by (auto simp: require_permission_def deny_def split: if_splits)
  moreover have "principal_of_request cfg now rq' st = principal_of_request cfg now rq st"
    if "\<not> ac_trusted_identity_headers cfg" "rq_api_key rq' = rq_api_key rq" "rq_authorization rq' = rq_authorization rq"
  proof -
    have "bearer_principal cfg now rq' = bearer_principal cfg now rq" "server_principal cfg rq' = server_principal cfg rq"
      using that(1) by (simp_all add: bearer_principal_def server_principal_def fun_eq_iff)
    then show ?thesis by (simp only: principal_of_request_def that(2,3))
  qed
  ultimately show ?thesis using request_run [OF run(1)] assms by (auto simp: guarded_def)
qed

definition demo_config :: auth_config where
  "demo_config = \<lparr>ac_api_key = Some ''secret'', ac_trusted_identity_headers = False, ac_jwt = None, ac_oidc = None,
     ac_dev_api_key = None, ac_environment = ''production'', ac_allow_unauthenticated_dev = False,
     ac_api_key_identity = ApiKeyIdentity, ac_dev_identity = DevIdentity\<rparr>"

definition guard_request :: "string \<Rightarrow> request_headers" where
  "guard_request claimed_role = \<lparr>rq_tenant_id = ''x'', rq_project_id = ''y'', rq_api_key = Some ''secret'', rq_subject = ''eve'',
     rq_role = claimed_role, rq_issuer = ''z'', rq_authorization = None\<rparr>"

definition demo_auth :: auth_state where
  "demo_auth = \<lparr>as_counters = [], as_limiter = new_limiter 5 60, as_jwks = []\<rparr>"

lemma guards_need_credentials_witness:
  "allows (to_principal ApiKeyIdentity) ''grdi:plan'' \<and>
   (\<exists>st'. guarded demo_config 0 0 ''grdi:plan'' (guard_request ''admin'') demo_auth = Some (Inr (to_principal ApiKeyIdentity), st'))"
proof -
  have "\<exists>st'. guarded demo_config 0 0 ''grdi:plan'' (guard_request ''viewer'') demo_auth = Some (Inr (to_principal ApiKeyIdentity), st')"
    by (simp add: guarded_def principal_of_request_def demo_config_def guard_request_def core_auth_configured_def
        bearer_auth_configured_def server_principal_def enforce_rate_def rate_check_Some live_events_def rate_answer_def
        demo_auth_def new_limiter_def events_of_def require_permission_def allows_def to_principal_def ApiKeyIdentity_def retS_def)
  then obtain st' where "guarded demo_config 0 0 ''grdi:plan'' (guard_request ''viewer'') demo_auth =
    Some (Inr (to_principal ApiKeyIdentity), st')" by blast
  from guards_need_credentials [OF this, of "guard_request ''admin''"] show ?thesis
    by (simp add: demo_config_def guard_request_def)
qed

end
