(* ===== verification/Postgres_Refinement.thy ===== *)
theory Postgres_Refinement
  imports Scoped_Postgres Ledger_Contract
begin

text \<open>
  The PostgreSQL backend against the SQLite backend and the JSON store: an append is the append of SQLite with the violation
  of a constraint turned into \<open>DuplicateCanonicalKey\<close>, a compare-and-set is that of the JSON store for records that have their
  id, and so the engine keeps the invariant and the contract of the scoped ledger.
\<close>

section \<open>Append\<close>

lemma take_number_rows:
  "sqlite_take_number now t p c linked db = (r, db') \<Longrightarrow> (\<exists>x. r = Inr x) \<and> db_rows db' = db_rows db"
  by (auto simp: sqlite_take_number_def insert_head_def bindS_def retS_def select_head_def split: if_splits option.splits)

lemma build_row_error: "build_row H now c record k t p prev num v ca ua l \<noteq> Inl (IntegrityError m)"
proof
  assume "build_row H now c record k t p prev num v ca ua l = Inl (IntegrityError m)"
  then have "extract_record_id c record None = Inl (IntegrityError m)"
    by (cases "extract_record_id c record None") (auto simp: build_row_def Let_def)
  then show False by (auto simp: extract_record_id_def raise_if_def split: option.splits if_splits)
qed

lemma build_row_key:
  assumes "build_row H now c record k t p prev num v ca ua l = Inr row"
  shows "q_tenant_id (sql_row_of row) = t \<and> q_project_id (sql_row_of row) = p \<and> q_collection (sql_row_of row) = c \<and>
    q_canonical_key (sql_row_of row) = k \<and> sr_chain_sequence row = num"
  using assms by (auto simp: build_row_def Let_def sql_row_of_def bindE_Inr_iff)

lemma find_Some_in: "find P xs = Some x \<Longrightarrow> x \<in> set xs \<and> P x"
  by (induction xs) (auto split: if_splits)

text \<open>A violated constraint that is not the primary key is always reported as a duplicate key.\<close>

lemma resolve_violation_duplicate:
  assumes none: "select_row t p c k db = None"
    and violated: "\<exists>r \<in> set (db_rows db). q_scope t p c r \<and> (q_record_id r = rid \<or> q_chain_sequence r = num)"
  shows "\<exists>m. resolve_non_canonical_unique_violation t p c k rid num h db = Inl (DuplicateCanonicalKey m)"
proof -
  have other: "q_canonical_key r \<noteq> k" if "r \<in> set (db_rows db)" "q_scope t p c r" for r
    using none that by (auto simp: select_row_def find_None_iff q_key_def)
  show ?thesis
  proof (cases "find (\<lambda>r. q_scope t p c r \<and> q_record_id r = rid) (db_rows db)")
    case (Some r)
    then have "q_canonical_key r \<noteq> k" using other find_Some_in by fastforce
    with Some show ?thesis by (auto simp: resolve_non_canonical_unique_violation_def)
  next
    case None
    then obtain r where "find (\<lambda>r. q_scope t p c r \<and> q_chain_sequence r = num) (db_rows db) = Some r"
      using violated by (cases "find (\<lambda>r. q_scope t p c r \<and> q_chain_sequence r = num) (db_rows db)")
        (auto simp: find_None_iff)
    moreover from this have "q_canonical_key r \<noteq> k" using other find_Some_in by fastforce
    ultimately show ?thesis using None by (auto simp: resolve_non_canonical_unique_violation_def)
  qed
qed

lemma postgres_append_sqlite:
  "\<exists>m. postgres_append H clk c record k t p linked db =
     (case sqlite_append H clk c record k t p linked db of
        (Inl (IntegrityError _), db') \<Rightarrow> (Inl (DuplicateCanonicalKey m), db')
      | x \<Rightarrow> x)"
proof (cases "select_row t p c k db")
  case (Some row)
  then show ?thesis by (simp add: postgres_append_def sqlite_append_def Let_def duplicate_key_def)
next
  case None
  obtain num prev db1 where take: "sqlite_take_number (clk 0) t p c linked db = (Inr (num, prev), db1)"
      and rows: "db_rows db1 = db_rows db"
    using take_number_rows by (metis surj_pair)
  have none: "select_row t p c k db1 = None" using None rows by (simp add: select_row_def)
  show ?thesis
  proof (cases "build_row H (clk 1) c record k t p prev num 1 None None (Some linked)")
    case (Inl e)
    with None take build_row_error [of H "clk 1" c "record" k t p prev num 1 None None "Some linked"] show ?thesis
      by (cases e) (simp_all add: postgres_append_def sqlite_append_def Let_def bindS_def liftS_def)
  next
    case (Inr row)
    note key = build_row_key [OF Inr]
    show ?thesis
    proof (cases "unique_violated (sql_row_of row) db1")
      case False
      with None take Inr key none show ?thesis
        by (simp add: postgres_append_def sqlite_append_def Let_def bindS_def liftS_def insert_row_def insert_on_conflict_def)
    next
      case True
      have "\<exists>r \<in> set (db_rows db1). q_scope t p c r \<and> (q_record_id r = sr_record_id row \<or> q_chain_sequence r = num)"
        using True key none by (auto simp: unique_violated_def select_row_def find_None_iff q_key_def)
      from resolve_violation_duplicate [OF none this] obtain m where
        "resolve_non_canonical_unique_violation t p c k (sr_record_id row) num
           (canonical_scoped_payload_hash H (with_scope record t p)) db1 = Inl (DuplicateCanonicalKey m)" by blast
      with None take Inr key none True show ?thesis
        by (simp add: postgres_append_def sqlite_append_def Let_def bindS_def liftS_def insert_row_def insert_on_conflict_def)
    qed
  qed
qed

theorem postgres_append_refines:
  assumes "sql_rel H db st" "nulfree t" "nulfree p" "nulfree c" "dwf record"
    and "json_append_state H clk c record k t p (is_chain_linked_collection c) st = (r, st')"
    and "postgres_append H clk c record k t p (is_chain_linked_collection c) db = (r2, db')"
  shows "if map_of (st_records st) (scoped_key t p c k) = None \<and> repeats_id c record t p st
    then (\<exists>m. r2 = Inl (DuplicateCanonicalKey m)) \<and> sqlite_ok H db'
    else same_append r2 r \<and> sql_rel H db' st'"
proof -
  obtain r3 db3 where sql: "sqlite_append H clk c record k t p (is_chain_linked_collection c) db = (r3, db3)" by fastforce
  note ref = sqlite_append_refines [OF assms(1-6) sql]
  from postgres_append_sqlite [of H clk c "record" k t p "is_chain_linked_collection c" db] obtain m where
    pg: "(r2, db') = (case (r3, db3) of (Inl (IntegrityError _), db') \<Rightarrow> (Inl (DuplicateCanonicalKey m), db') | x \<Rightarrow> x)"
    using sql assms(7) by auto
  have json_error: "r \<noteq> Inl (IntegrityError msg)" for msg
    using assms(6) build_row_error
    by (auto simp: json_append_state_def Let_def bindS_def liftS_def split: option.splits if_splits sum.splits prod.splits)
  show ?thesis
  proof (cases "\<exists>msg. r3 = Inl (IntegrityError msg)")
    case True
    moreover from this have "map_of (st_records st) (scoped_key t p c k) = None \<and> repeats_id c record t p st"
      using ref json_error by (auto simp: same_append_def split: if_splits) (cases r; auto)+
    ultimately show ?thesis using ref pg by auto
  next
    case False
    then have "r2 = r3" "db' = db3" using pg by (auto split: sum.splits err.splits)
    with ref False show ?thesis by (auto split: if_splits)
  qed
qed

section \<open>Compare and set\<close>

lemma select_row_unique:
  assumes rel: "sql_rel H db st" and n: "nulfree t" "nulfree p" "nulfree c"
    and r: "r \<in> set (db_rows db)" "q_key t p c k r"
  shows "select_row t p c k db = Some r \<and> (\<not> is_chain_linked_collection c \<longrightarrow> q_chain_prev r = None)"
proof -
  have ok: "store_ok H st" using rel by (simp add: sql_rel_def)
  from r(1) rel obtain k' s where s: "(k', s) \<in> set (st_records st)" "r = sql_row_of s"
    by (auto simp: sql_rel_def rows_of_def)
  from store_ok_entry [OF ok s(1)] r(2) have key: "k' = scoped_key t p c k" "row_ok H s" "sr_collection s = c"
    by (auto simp: s(2) q_key_def in_scope_def row_key_def)
  have "ddistinct (st_records st)" using ok by (simp add: store_ok_def keys_ok_def)
  with s(1) key(1) have "map_of (st_records st) (scoped_key t p c k) = Some s" by simp
  with select_row_rel [OF rel n, of k] key s(2) show ?thesis by (auto simp: row_ok_def)
qed

lemma select_row_in: "select_row t p c k db = Some row \<Longrightarrow> row \<in> set (db_rows db) \<and> q_key t p c k row"
  unfolding select_row_def by (rule find_Some_in)

lemma cas_update_same:
  "q_chain_prev r = None \<Longrightarrow> q_row_version r = v \<Longrightarrow>
   r\<lparr>q_payload := a, q_payload_hash := b, q_chain_prev := None, q_chain_hash := h, q_row_version := q_row_version r + 1, q_updated_at := u\<rparr> =
   r\<lparr>q_payload := a, q_payload_hash := b, q_row_version := v + 1, q_chain_hash := h, q_updated_at := u\<rparr>"
  by (cases r) simp

text \<open>The same guards in the same order, but for the record id, which only this backend reads again.\<close>

lemma postgres_cas_sqlite:
  assumes rel: "sql_rel H db st" and n: "nulfree t" "nulfree p" "nulfree c" and c: "\<not> is_chain_linked_collection c"
    and sql: "sqlite_cas H (clk 1) c record k t p ev eh db = (r, db')"
    and pg: "postgres_cas H clk c record k t p ev eh db = (r2, db2)"
  shows "r2 = r \<and> db2 = db' \<or>
    db2 = db \<and> ((\<exists>m m'. r = Inl (VersionConflict m) \<and> r2 = Inl (VersionConflict m')) \<or>
                (\<exists>e. extract_record_id c record None = Inl e \<and> r2 = Inl e))"
proof (cases "select_row t p c k db")
  case None
  with sql pg show ?thesis by (simp add: sqlite_cas_def postgres_cas_def)
next
  case (Some row)
  from select_row_in [OF Some] have row: "row \<in> set (db_rows db)" "q_key t p c k row" by auto
  have same: "r = row \<and> q_chain_prev r = None" if "r \<in> set (db_rows db)" "q_key t p c k r" for r
    using select_row_unique [OF rel n that] Some c by auto
  obtain e where e: "row = sql_row_of e" "row_ok H e" "\<not> sr_chain_linked e"
  proof -
    from row(1) rel obtain k' e where "(k', e) \<in> set (st_records st)" "row = sql_row_of e"
      by (auto simp: sql_rel_def rows_of_def)
    moreover from this have "row_ok H e" using store_ok_entry rel by (auto simp: sql_rel_def)
    ultimately show thesis using that row(2) c by (auto simp: q_key_def in_scope_def row_ok_def)
  qed
  obtain chain where ch: "dget_or (q_payload row) ''_chain'' (JObj []) = JObj chain" "dget chain ''linked'' \<noteq> JBool True"
    using row_ok_linked_entry [OF e(2)] e by auto
  show ?thesis
  proof (cases "(ev \<noteq> None \<and> Some (q_row_version row) \<noteq> ev) \<or> (eh \<noteq> None \<and> Some (q_payload_hash row) \<noteq> eh)")
    case True
    with sql pg Some c ch show ?thesis
      by (auto simp: sqlite_cas_def postgres_cas_def bindS_def liftS_def raise_if_def split: if_splits)
  next
    case False
    show ?thesis
    proof (cases "extract_record_id c record None")
      case (Inl x)
      with pg Some False show ?thesis
        by (auto simp: postgres_cas_def bindS_def liftS_def raise_if_def build_row_def split: if_splits)
    next
      case (Inr rid)
      let ?hit = "\<lambda>r. q_key t p c k r \<and> q_row_version r = q_row_version row"
      let ?hit2 = "\<lambda>r. q_key t p c k r \<and> q_row_version r = q_row_version row \<and> q_payload_hash r = q_payload_hash row"
      have hits: "filter ?hit (db_rows db) = filter ?hit2 (db_rows db)"
        by (rule filter_cong [OF refl]) (use same in blast)
      have maps: "map (\<lambda>r. if ?hit r then r\<lparr>q_payload := a, q_payload_hash := b, q_chain_prev := None, q_chain_hash := h,
            q_row_version := q_row_version r + 1, q_updated_at := u\<rparr> else r) (db_rows db) =
          map (\<lambda>r. if ?hit2 r then r\<lparr>q_payload := a, q_payload_hash := b, q_row_version := q_row_version row + 1,
            q_chain_hash := h, q_updated_at := u\<rparr> else r) (db_rows db)" for a b h u
      proof (rule map_cong [OF refl])
        fix r assume "r \<in> set (db_rows db)"
        from same [OF this] have "?hit r = ?hit2 r \<and> (?hit2 r \<longrightarrow> q_row_version r = q_row_version row \<and> q_chain_prev r = None)"
          by metis
        then show "(if ?hit r then r\<lparr>q_payload := a, q_payload_hash := b, q_chain_prev := None, q_chain_hash := h,
            q_row_version := q_row_version r + 1, q_updated_at := u\<rparr> else r) =
          (if ?hit2 r then r\<lparr>q_payload := a, q_payload_hash := b, q_row_version := q_row_version row + 1,
            q_chain_hash := h, q_updated_at := u\<rparr> else r)"
          using cas_update_same [where r = r and v = "q_row_version row"] by presburger
      qed
      have no: "(ev \<noteq> None \<and> Some (q_row_version row) \<noteq> ev) = False" "(eh \<noteq> None \<and> Some (q_payload_hash row) \<noteq> eh) = False"
        using False by blast+
      let ?h = "standalone_row_hash H c (with_scope record t p)"
      let ?new = "dset (with_scope record t p) ''_chain'' (chain_value None ?h (q_chain_sequence row) False)"
      have "postgres_cas H clk c record k t p ev eh db =
        (if length (filter ?hit (db_rows db)) \<noteq> 1 then (Inl (VersionConflict ''concurrent compare-and-set lost''), db)
         else (Inr (?new, q_payload row), db\<lparr>db_rows := map (\<lambda>r. if ?hit r then r\<lparr>q_payload := canon_dict ?new,
           q_payload_hash := canonical_scoped_payload_hash H (with_scope record t p), q_chain_prev := None, q_chain_hash := ?h,
           q_row_version := q_row_version r + 1, q_updated_at := clk 1\<rparr> else r) (db_rows db)\<rparr>))"
        unfolding postgres_cas_def Some option.case no
        by (simp only: raise_if_simps liftS_apply bindS_def build_row_def Inr Let_def bindE.simps prod.case sum.case option.case
            stored_row.simps if_False if_True)
      moreover have "sqlite_cas H (clk 1) c record k t p ev eh db =
        (if length (filter ?hit2 (db_rows db)) \<noteq> 1 then (Inl (VersionConflict ''concurrent compare-and-set lost''), db)
         else (Inr (?new, q_payload row), db\<lparr>db_rows := map (\<lambda>r. if ?hit2 r then r\<lparr>q_payload := canon_dict ?new,
           q_payload_hash := canonical_scoped_payload_hash H (with_scope record t p), q_row_version := q_row_version row + 1,
           q_chain_hash := ?h, q_updated_at := clk 1\<rparr> else r) (db_rows db)\<rparr>))"
        unfolding sqlite_cas_def Some option.case ch(1) no
        by (simp only: as_dict.simps ch(2) c simp_thms raise_if_simps liftS_apply bindS_def Let_def prod.case sum.case if_False if_True)
      ultimately show ?thesis using sql pg unfolding hits maps by simp
    qed
  qed
qed

section \<open>The engine\<close>

text \<open>Every call does what the SQLite engine does, or raises and leaves the engine alone.\<close>

lemma with_connection_same:
  assumes "with_connection f eng = (r, eng')" "f (sqlite_read eng) = (a, db')" "g (sqlite_read eng) = (b, db')"
    and "a = b \<or> (\<exists>e e'. a = Inl e \<and> b = Inl e')"
  shows "with_connection g eng = (b, eng') \<and> r = a"
  using assms by (auto simp: with_connection_def sqlite_read_def split: option.splits prod.splits sum.splits)

lemma with_connection_stop:
  assumes "with_connection f eng = (r, eng')" "f (sqlite_read eng) = (a, sqlite_read eng)" "a = Inl e"
  shows "eng' = eng"
  using assms by (auto simp: with_connection_def sqlite_read_def split: option.splits prod.splits)

lemma postgres_outcome:
  assumes "z = (case (a, db') of (Inl (IntegrityError _), db') \<Rightarrow> (Inl (DuplicateCanonicalKey m), db') | x \<Rightarrow> x)"
  obtains b where "z = (b, db')" "a = b \<or> (\<exists>e e'. a = Inl e \<and> b = Inl e')"
proof (cases a)
  case (Inl e)
  with assms that show thesis by (cases e) auto
qed (use assms that in auto)

lemma postgres_append_Inr:
  assumes "postgres_append H clk c record k t p linked db = (Inr x, db')"
  shows "sqlite_append H clk c record k t p linked db = (Inr x, db')"
proof -
  obtain a db1 where sql: "sqlite_append H clk c record k t p linked db = (a, db1)" by fastforce
  from postgres_append_sqlite [of H clk c "record" k t p linked db] obtain m where
    "(Inr x, db') = (case (a, db1) of (Inl (IntegrityError _), db') \<Rightarrow> (Inl (DuplicateCanonicalKey m), db') | x \<Rightarrow> x)"
    unfolding sql assms by blast
  then obtain b where "(Inr x, db') = (b, db1)" "a = b \<or> (\<exists>e e'. a = Inl e \<and> b = Inl e')" by (rule postgres_outcome)
  with sql show ?thesis by auto
qed

lemma postgres_append_engine:
  assumes "postgres_append_scoped H clk c record k t p eng = (r, eng')"
  obtains (stop) e where "r = Inl e" "eng' = eng"
  | (run) r2 where "sqlite_append_scoped H clk c record k t p eng = (r2, eng')"
      "r2 = r \<or> (\<exists>e e'. r2 = Inl e \<and> r = Inl e')"
proof -
  let ?l = "is_chain_linked_collection c"
  consider (early) e where "r = Inl e" "eng' = eng"
    | (conn) "validate_collection c False True False = Inr ()" "require_write_locks (sqlite_locks eng) c k ?l = Inr ()"
        "with_connection (postgres_append H clk c record k t p ?l) eng = (r, eng')"
    using assms unfolding postgres_append_scoped_def Let_def by (auto dest!: liftS_bind_run)
  then show thesis
  proof cases
    case early
    then show thesis by (rule stop)
  next
    case conn
    obtain a db' where sql: "sqlite_append H clk c record k t p ?l (sqlite_read eng) = (a, db')" by fastforce
    from postgres_append_sqlite [of H clk c "record" k t p ?l "sqlite_read eng"] obtain m where
      "postgres_append H clk c record k t p ?l (sqlite_read eng) =
         (case (a, db') of (Inl (IntegrityError _), db') \<Rightarrow> (Inl (DuplicateCanonicalKey m), db') | x \<Rightarrow> x)"
      unfolding sql by blast
    then obtain b where pg: "postgres_append H clk c record k t p ?l (sqlite_read eng) = (b, db')"
        "a = b \<or> (\<exists>e e'. a = Inl e \<and> b = Inl e')"
      by (rule postgres_outcome)
    from with_connection_same [where g = "sqlite_append H clk c record k t p ?l", OF conn(3) pg(1) sql] pg(2) have "with_connection (sqlite_append H clk c record k t p ?l) eng = (a, eng')" "r = b"
      by auto
    with conn pg(2) run show thesis by (auto simp: sqlite_append_scoped_def Let_def bindS_def liftS_def)
  qed
qed

lemma postgres_get_scoped_sqlite: "postgres_get_scoped c k t p eng = sqlite_get_scoped c k t p eng"
  by (simp add: postgres_get_scoped_def sqlite_get_scoped_def postgres_get_def sqlite_get_def)

lemma postgres_append_ok:
  assumes "sqlite_engine_ok H eng" "nulfree t" "nulfree p" "dwf record"
    and "postgres_append_scoped H clk c record k t p eng = (r, eng')"
  shows "sqlite_engine_ok H eng'"
  using assms(5)
proof (cases rule: postgres_append_engine)
  case run
  from sqlite_append_ok [OF assms(1-4) run(1)] show ?thesis .
qed (use assms in simp)

lemma postgres_append_fetch:
  assumes "sqlite_engine_ok H eng" "nulfree t" "nulfree p" "dwf record"
    and "postgres_append_scoped H clk c record k t p eng = (Inr (payload, created), eng')"
  shows "same_read (postgres_get_scoped c k t p eng') (Inr payload)"
  using assms(5)
proof (cases rule: postgres_append_engine)
  case (run r2)
  then have "sqlite_append_scoped H clk c record k t p eng = (Inr (payload, created), eng')" by auto
  from sqlite_append_fetch [OF assms(1-4) this] show ?thesis by (simp add: postgres_get_scoped_sqlite)
qed simp

lemma postgres_append_frame:
  assumes "sqlite_engine_ok H eng" "nulfree t" "nulfree p" "nulfree t'" "nulfree p'" "dwf record"
    and "postgres_append_scoped H clk c record k t p eng = (r, eng')"
    and "(t', p', c', k') \<noteq> (t, p, c, k) \<or> (\<exists>e. r = Inl e)"
  shows "same_read (postgres_get_scoped c' k' t' p' eng') (postgres_get_scoped c' k' t' p' eng)"
  using assms(7)
proof (cases rule: postgres_append_engine)
  case (run r2)
  from run(2) assms(8) have "(t', p', c', k') \<noteq> (t, p, c, k) \<or> (\<exists>e. r2 = Inl e)" by auto
  from sqlite_append_frame [OF assms(1-6) run(1) this] show ?thesis by (simp add: postgres_get_scoped_sqlite)
qed simp

interpretation postgres_ledger: scoped_ledger "sqlite_engine_ok H" "postgres_append_scoped H clk" postgres_get_scoped for H clk
  by unfold_locales (fact postgres_append_ok postgres_append_fetch postgres_append_frame)+

section \<open>Steps of the engine\<close>

inductive postgres_call :: "(string \<Rightarrow> string) \<Rightarrow> sqlite_engine \<Rightarrow> sqlite_engine \<Rightarrow> bool" for H where
  append: "nulfree t \<Longrightarrow> nulfree p \<Longrightarrow> dwf rcd
    \<Longrightarrow> postgres_append_scoped H clk c rcd k t p eng = (r, eng') \<Longrightarrow> postgres_call H eng eng'"
| cas: "nulfree t \<Longrightarrow> nulfree p \<Longrightarrow> dwf rcd
    \<Longrightarrow> postgres_compare_and_set_scoped H clk c rcd k t p ev eh eng = (r, eng') \<Longrightarrow> postgres_call H eng eng'"

definition postgres_program :: "(string \<Rightarrow> string) \<Rightarrow> (sqlite_engine, 'a) act \<Rightarrow> bool" where
  "postgres_program H fn \<longleftrightarrow> (\<forall>eng. (postgres_call H)\<^sup>*\<^sup>* eng (snd (fn eng)))"

inductive postgres_step :: "(string \<Rightarrow> string) \<Rightarrow> sqlite_engine \<Rightarrow> sqlite_engine \<Rightarrow> bool" for H where
  call: "postgres_call H eng eng' \<Longrightarrow> postgres_step H eng eng'"
| transaction: "postgres_program H fn \<Longrightarrow> postgres_run_scoped_transaction t p refs fn eng = ((r :: unit res), eng')
    \<Longrightarrow> postgres_step H eng eng'"

lemma postgres_cas_ok:
  assumes ok: "sqlite_engine_ok H eng" and n: "nulfree t" "nulfree p" and wf: "dwf record"
    and call: "postgres_compare_and_set_scoped H clk c record k t p ev eh eng = (r, eng')"
  shows "sqlite_engine_ok H eng'"
proof -
  consider (early) "eng' = eng"
    | (conn) "c \<in> set CAS_ALLOWED_COLLECTIONS" "with_connection (postgres_cas H clk c record k t p ev eh) eng = (r, eng')"
    using call unfolding postgres_compare_and_set_scoped_def
    by (auto simp: validate_collection_def Let_def dest!: liftS_bind_run)
  then show ?thesis
  proof cases
    case conn
    have c: "nulfree c" "\<not> is_chain_linked_collection c" using conn(1) cas_nulfree collections_disjoint by auto
    have "sqlite_ok H db'" if "sqlite_ok H db" "postgres_cas H clk c record k t p ev eh db = (r, db')" for db r db'
    proof -
      from that(1) obtain st where st: "sql_rel H db st" by (auto simp: sqlite_ok_def)
      obtain r1 st' where json: "json_cas_state H (clk 1) c record k t p ev eh st = (r1, st')" by fastforce
      obtain r3 db3 where sql: "sqlite_cas H (clk 1) c record k t p ev eh db = (r3, db3)" by fastforce
      from postgres_cas_sqlite [OF st n c sql that(2)] sqlite_cas_refines [OF st n c(1) wf c(2) json sql] that(1) show ?thesis
        by (auto simp: sqlite_ok_def)
    qed
    then show ?thesis by (rule with_connection_ok [OF ok conn(2)])
  qed (use ok in simp)
qed

lemma postgres_call_ok: "postgres_call H eng eng' \<Longrightarrow> sqlite_engine_ok H eng \<Longrightarrow> sqlite_engine_ok H eng'"
  by (induction rule: postgres_call.induct) (rule postgres_append_ok postgres_cas_ok; assumption)+

lemma postgres_calls_ok: "(postgres_call H)\<^sup>*\<^sup>* eng eng' \<Longrightarrow> sqlite_engine_ok H eng \<Longrightarrow> sqlite_engine_ok H eng'"
  by (induction rule: rtranclp_induct) (auto intro: postgres_call_ok)

lemma postgres_transaction_sqlite: "postgres_run_scoped_transaction t p refs fn eng = sqlite_run_scoped_transaction t p refs fn eng"
  unfolding postgres_run_scoped_transaction_def sqlite_run_scoped_transaction_def normalize_idem ..

lemma postgres_reachable_ok: "(postgres_step H)\<^sup>*\<^sup>* fresh_sqlite eng \<Longrightarrow> sqlite_engine_ok H eng"
proof (induction rule: rtranclp_induct)
  case base
  show ?case by (rule sqlite_reachable_ok) simp
next
  case (step eng eng')
  from step.hyps(2) show ?case
  proof (cases rule: postgres_step.cases)
    case call
    from postgres_call_ok [OF call step.IH] show ?thesis .
  next
    case (transaction fn t p refs r)
    have "sqlite_engine_ok H eng2" if "sqlite_engine_ok H eng1" "fn eng1 = (x, eng2)" for eng1 x eng2
      using postgres_calls_ok that transaction(1) unfolding postgres_program_def by (metis snd_conv)
    from sqlite_transaction_keeps [OF step.IH this transaction(2) [unfolded postgres_transaction_sqlite]] show ?thesis .
  qed
qed

end
