(* ===== verification/Lock_Waits.thy ===== *)
theory Lock_Waits
  imports Scoped_Postgres
begin

text \<open>
  Transactions that wait for each other's advisory locks. A transaction of \<^verbatim>\<open>postgres_scoped.py\<close> locks its keys one by one,
  all of them again before each of its writes, and gives them up when it ends. \<open>pg_advisory_xact_lock\<close> is taken as
  documented: a key is held by one transaction at a time, a transaction may lock a key it holds again, and the end of the
  transaction releases its keys.
\<close>

record waiter =
  w_todo :: "(int \<times> int) list"
  w_held :: "(int \<times> int) list"
  w_ended :: bool

text \<open>The lock statements of a transaction with \<open>n\<close> writes; a single write outside a transaction is the case of none.\<close>

definition lock_statements :: "(string \<Rightarrow> 8 word list) \<Rightarrow> lock_ref list \<Rightarrow> nat \<Rightarrow> (int \<times> int) list" where
  "lock_statements sha256 refs n = concat (replicate (Suc n) (acquire_advisory_locks sha256 refs))"

definition new_waiter :: "(string \<Rightarrow> 8 word list) \<Rightarrow> lock_ref list \<times> nat \<Rightarrow> waiter" where
  "new_waiter sha256 x = (case x of (refs, n) \<Rightarrow> \<lparr>w_todo = lock_statements sha256 refs n, w_held = [], w_ended = False\<rparr>)"

inductive wait_step :: "waiter list \<Rightarrow> waiter list \<Rightarrow> bool" where
  lock: "i < length ws \<Longrightarrow> w_todo (ws ! i) = key # keys \<Longrightarrow> \<forall>j < length ws. j \<noteq> i \<longrightarrow> key \<notin> set (w_held (ws ! j)) \<Longrightarrow>
    wait_step ws (ws[i := (ws ! i)\<lparr>w_todo := keys, w_held := key # w_held (ws ! i)\<rparr>])"
| commit: "i < length ws \<Longrightarrow> w_todo (ws ! i) = [] \<Longrightarrow> \<not> w_ended (ws ! i) \<Longrightarrow>
    wait_step ws (ws[i := (ws ! i)\<lparr>w_held := [], w_ended := True\<rparr>])"

section \<open>What a transaction holds\<close>

text \<open>\<open>all\<close>: its statements. Those done are held until it ends.\<close>

definition waiter_ok :: "(int \<times> int) list \<Rightarrow> waiter \<Rightarrow> bool" where
  "waiter_ok all w \<longleftrightarrow> (if w_ended w then w_todo w = [] \<and> w_held w = []
     else (\<exists>past. past @ w_todo w = all \<and> set (w_held w) = set past))"

definition waits_ok :: "(int \<times> int) list list \<Rightarrow> waiter list \<Rightarrow> bool" where
  "waits_ok alls ws \<longleftrightarrow> list_all2 waiter_ok alls ws \<and>
     (\<forall>i < length ws. \<forall>j < length ws. i \<noteq> j \<longrightarrow> set (w_held (ws ! i)) \<inter> set (w_held (ws ! j)) = {})"

lemma waits_ok_start: "waits_ok (map (\<lambda>(refs, n). lock_statements sha refs n) xs) (map (new_waiter sha) xs)"
  by (auto simp: waits_ok_def list_all2_map1 list_all2_map2 waiter_ok_def new_waiter_def list_all2_same split: prod.splits)

lemma waiter_lock:
  assumes "waiter_ok all w" "w_todo w = key # keys"
  shows "waiter_ok all (w\<lparr>w_todo := keys, w_held := key # w_held w\<rparr>)"
proof -
  from assms obtain past where p: "past @ key # keys = all" "set (w_held w) = set past" "\<not> w_ended w"
    by (auto simp: waiter_ok_def split: if_splits)
  then have "(past @ [key]) @ keys = all" "set (key # w_held w) = set (past @ [key])" by auto
  then have "\<exists>past. past @ keys = all \<and> set (key # w_held w) = set past" by blast
  with p(3) show ?thesis by (simp add: waiter_ok_def)
qed

lemma waits_ok_step:
  assumes "wait_step ws ws'" "waits_ok alls ws"
  shows "waits_ok alls ws'"
  using assms
proof (induction rule: wait_step.induct)
  case (lock i ws key keys)
  then have len: "length alls = length ws" and i: "waiter_ok (alls ! i) (ws ! i)"
    by (auto simp: waits_ok_def list_all2_conv_all_nth)
  from waiter_lock [OF i lock.hyps(2)] lock len show ?case
    by (auto simp: waits_ok_def list_all2_conv_all_nth nth_list_update)
next
  case (commit i ws)
  then show ?case by (auto simp: waits_ok_def list_all2_conv_all_nth nth_list_update waiter_ok_def)
qed

lemma waits_ok_run: "wait_step\<^sup>*\<^sup>* ws ws' \<Longrightarrow> waits_ok alls ws \<Longrightarrow> waits_ok alls ws'"
  by (induction rule: rtranclp_induct) (auto intro: waits_ok_step)

text \<open>Every statement is either for a key already held, or for a key after all those held.\<close>

lemma next_key_is_new:
  assumes "sorted_wrt (\<lambda>a b. f a < f b) ks" "past @ key # keys = concat (replicate (Suc n) ks)"
  shows "key \<in> set past \<or> (\<forall>h \<in> set past. (f h :: 'a :: linorder) < f key)"
proof (cases "length past < length ks")
  case True
  have eq: "past @ key # keys = ks @ concat (replicate n ks)" using assms(2) by simp
  from arg_cong [OF eq, of "take (length past)"] True have past: "past = take (length past) ks" by simp
  from arg_cong [OF eq, of "\<lambda>xs. xs ! length past"] True have key: "key = ks ! length past" by (simp add: nth_append)
  have "f h < f key" if h: "h \<in> set past" for h
  proof -
    from h past obtain i where "i < length past" "h = ks ! i" using True by (metis in_set_conv_nth length_take min.absorb4 nth_take)
    with sorted_wrt_nth_less [OF assms(1)] True show ?thesis by (simp add: key)
  qed
  then show ?thesis by blast
next
  case False
  have "past @ key # keys = ks @ concat (replicate n ks)" using assms(2) by simp
  with False have "take (length ks) past = ks" by (metis append_eq_append_conv_if append_take_drop_id linorder_not_less)
  then have "set ks \<subseteq> set past" by (metis set_take_subset)
  moreover have "key \<in> set (concat (replicate (Suc n) ks))" by (metis assms(2) in_set_conv_decomp)
  ultimately show ?thesis by auto
qed

section \<open>No deadlock\<close>

text \<open>
  The keys are in the order of the references when they tell the references apart: then there is a rank that all
  transactions follow, and the transaction that waits for the key of the greatest rank waits for one that does not wait.
\<close>

lemma no_deadlock:
  assumes ok: "waits_ok alls ws"
    and order: "\<forall>all \<in> set alls. \<exists>ks n. all = concat (replicate (Suc n) ks) \<and> sorted_wrt (\<lambda>a b. (f a :: 'a :: linorder) < f b) ks"
    and busy: "\<exists>w \<in> set ws. \<not> w_ended w"
  shows "\<exists>ws'. wait_step ws ws'"
proof (rule ccontr)
  assume stuck: "\<nexists>ws'. wait_step ws ws'"
  let ?S = "{i. i < length ws \<and> \<not> w_ended (ws ! i)}"
  have len: "length alls = length ws" and each: "\<And>i. i < length ws \<Longrightarrow> waiter_ok (alls ! i) (ws ! i)"
    and excl: "\<And>i j. i < length ws \<Longrightarrow> j < length ws \<Longrightarrow> i \<noteq> j \<Longrightarrow> set (w_held (ws ! i)) \<inter> set (w_held (ws ! j)) = {}"
    using ok by (auto simp: waits_ok_def list_all2_conv_all_nth)
  have todo: "w_todo (ws ! i) \<noteq> []" if "i \<in> ?S" for i
    using stuck wait_step.commit [of i ws] that by auto
  have blocked: "\<exists>j \<in> ?S. j \<noteq> i \<and> hd (w_todo (ws ! i)) \<in> set (w_held (ws ! j))" if i: "i \<in> ?S" for i
  proof -
    from todo [OF i] have "w_todo (ws ! i) = hd (w_todo (ws ! i)) # tl (w_todo (ws ! i))" by simp
    from stuck wait_step.lock [OF _ this] i obtain j where
      j: "j < length ws" "j \<noteq> i" "hd (w_todo (ws ! i)) \<in> set (w_held (ws ! j))" by auto
    with each [OF j(1)] have "\<not> w_ended (ws ! j)" by (auto simp: waiter_ok_def)
    with j show ?thesis by auto
  qed
  have "?S \<noteq> {}" "finite ?S" using busy by (auto simp: in_set_conv_nth)
  then obtain i where i: "i \<in> ?S" and greatest: "\<And>j. j \<in> ?S \<Longrightarrow> f (hd (w_todo (ws ! j))) \<le> f (hd (w_todo (ws ! i)))"
  proof -
    let ?r = "\<lambda>j. f (hd (w_todo (ws ! j)))"
    from \<open>?S \<noteq> {}\<close> \<open>finite ?S\<close> have "Max (?r ` ?S) \<in> ?r ` ?S" by (intro Max_in) auto
    then obtain i where "i \<in> ?S" "?r i = Max (?r ` ?S)" by auto
    with \<open>finite ?S\<close> show thesis by (intro that [of i]) auto
  qed
  from blocked [OF i] obtain j where j: "j \<in> ?S" "j \<noteq> i" "hd (w_todo (ws ! i)) \<in> set (w_held (ws ! j))" by blast
  from blocked [OF j(1)] obtain l where l: "l \<in> ?S" "l \<noteq> j" "hd (w_todo (ws ! j)) \<in> set (w_held (ws ! l))" by blast
  with excl [of l j] j have free: "hd (w_todo (ws ! j)) \<notin> set (w_held (ws ! j))" by auto
  from each [of j] j(1) todo [OF j(1)] obtain past where
    past: "past @ hd (w_todo (ws ! j)) # tl (w_todo (ws ! j)) = alls ! j" "set (w_held (ws ! j)) = set past"
    by (auto simp: waiter_ok_def)
  from j(1) len have "alls ! j \<in> set alls" by simp
  with order obtain ks n where ks: "alls ! j = concat (replicate (Suc n) ks)" "sorted_wrt (\<lambda>a b. f a < f b) ks" by blast
  from next_key_is_new [OF ks(2) past(1) [unfolded ks(1)]] free past(2) j(3)
  have "f (hd (w_todo (ws ! i))) < f (hd (w_todo (ws ! j)))" by auto
  with greatest [OF j(1)] show False by simp
qed

lemma acquired_sorted:
  assumes "inj_on (lock_ref_advisory_keys sha) R" "set refs \<subseteq> R"
  shows "sorted_wrt (\<lambda>a b. lock_sort_key (inv_into R (lock_ref_advisory_keys sha) a) <
    lock_sort_key (inv_into R (lock_ref_advisory_keys sha) b)) (acquire_advisory_locks sha refs)"
proof -
  have "inv_into R (lock_ref_advisory_keys sha) (lock_ref_advisory_keys sha r) = r" if "r \<in> set refs" for r
    using assms that by (meson inv_into_f_f subsetD)
  then show ?thesis
    unfolding acquire_advisory_locks_def sorted_wrt_map
    by (intro sorted_wrt_mono_rel [OF _ strict_sorted_normalize]) auto
qed

text \<open>Each step uses up a statement or ends a transaction.\<close>

definition work_left :: "waiter list \<Rightarrow> nat" where
  "work_left ws = sum_list (map (\<lambda>w. length (w_todo w) + (if w_ended w then 0 else 1)) ws)"

lemma sum_list_update:
  "i < length xs \<Longrightarrow> (f :: 'a \<Rightarrow> nat) y + 1 = f (xs ! i) \<Longrightarrow> sum_list (map f (xs[i := y])) + 1 = sum_list (map f xs)"
proof (induction xs arbitrary: i)
  case (Cons x xs)
  then show ?case by (cases i) auto
qed simp

lemma work_step: "wait_step ws ws' \<Longrightarrow> work_left ws' + 1 = work_left ws"
  unfolding work_left_def by (induction rule: wait_step.induct) (rule sum_list_update; simp)+

lemma work_run: "(wait_step ^^ n) ws ws' \<Longrightarrow> work_left ws' + n = work_left ws"
proof (induction n arbitrary: ws')
  case (Suc n)
  then obtain ws1 where "(wait_step ^^ n) ws ws1" "wait_step ws1 ws'" by auto
  with Suc.IH work_step show ?case by fastforce
qed simp

end
