(* ===== verification/Migration_Facts.thy ===== *)
theory Migration_Facts
  imports Grdi_Migration Postgres_Refinement Store_Ops
begin

text \<open>
  Copying rows into the scoped ledger: the locale \<open>migration_target\<close> is what the migration needs of a backend, with what it
  gives: a second run finds everything copied. All three backends are interpretations.
\<close>

section \<open>Rows with their scope\<close>

text \<open>A row as the service writes it: its scope is an entry of the row.\<close>

definition legacy_row_ok :: "string \<Rightarrow> pdict \<Rightarrow> bool" where
  "legacy_row_ok field row \<longleftrightarrow> dwf row \<and> (case legacy_key field row of Inl e \<Rightarrow> True
     | Inr (t, p, k) \<Rightarrow> nulfree t \<and> nulfree p \<and> map_of row ''scope'' = Some (scope_value t p))"

definition legacy_rows_ok :: "(string \<Rightarrow> pdict list) \<Rightarrow> string list \<Rightarrow> bool" where
  "legacy_rows_ok rows_of_coll colls \<longleftrightarrow> list_all (\<lambda>coll. is_chain_linked_collection coll \<and>
     (case canonical_field_of coll of Inl e \<Rightarrow> True | Inr f \<Rightarrow> list_all (legacy_row_ok f) (rows_of_coll coll))) colls"

lemma dset_same: "ddistinct d \<Longrightarrow> map_of d k = Some v \<Longrightarrow> dset d k v = d"
  by (induction d) (auto split: if_splits)

lemma dremove_again: "dremove (dremove d k) k = dremove d k"
  by (simp add: dremove_def)

lemma migrated_hash:
  assumes "dwf row" "map_of row ''scope'' = Some (scope_value t p)"
  shows "canonical_scoped_payload_hash H (with_scope (dremove row ''_chain'') t p) = canonical_scoped_payload_hash H row"
proof -
  have "with_scope (dremove row ''_chain'') t p = dremove row ''_chain''"
    unfolding with_scope_def using assms by (intro dset_same) (simp_all add: dwf_def map_of_dremove)
  then show ?thesis by (simp add: canonical_scoped_payload_hash_def dremove_again)
qed

section \<open>The contract\<close>

locale migration_target =
  fixes H :: "string \<Rightarrow> string" and inv :: "'s \<Rightarrow> bool"
    and stored_hash :: "string \<Rightarrow> string \<Rightarrow> string \<Rightarrow> string \<Rightarrow> 's \<Rightarrow> string option"
    and put_new :: "string \<Rightarrow> string \<Rightarrow> string \<Rightarrow> string \<Rightarrow> pdict \<Rightarrow> ('s, unit) act"
  assumes put_new: "inv s \<Longrightarrow> nulfree t \<Longrightarrow> nulfree p \<Longrightarrow> is_chain_linked_collection c \<Longrightarrow> dwf row
      \<Longrightarrow> stored_hash t p c k s = None \<Longrightarrow> put_new t p c k row s = (Inr (), s')
      \<Longrightarrow> inv s' \<and> stored_hash t p c k s' = Some (canonical_scoped_payload_hash H (with_scope (dremove row ''_chain'') t p))"
    and put_other: "inv s \<Longrightarrow> nulfree t \<Longrightarrow> nulfree p \<Longrightarrow> is_chain_linked_collection c \<Longrightarrow> nulfree t' \<Longrightarrow> nulfree p'
      \<Longrightarrow> is_chain_linked_collection c' \<Longrightarrow> stored_hash t p c k s = None \<Longrightarrow> put_new t p c k row s = (Inr (), s')
      \<Longrightarrow> (t', p', c', k') \<noteq> (t, p, c, k) \<Longrightarrow> stored_hash t' p' c' k' s' = stored_hash t' p' c' k' s"
begin

definition keeps_hashes :: "'s \<Rightarrow> 's \<Rightarrow> bool" where
  "keeps_hashes s s' \<longleftrightarrow> (\<forall>t p c k h. nulfree t \<longrightarrow> nulfree p \<longrightarrow> is_chain_linked_collection c \<longrightarrow>
     stored_hash t p c k s = Some h \<longrightarrow> stored_hash t p c k s' = Some h)"

definition copied :: "string \<Rightarrow> string \<Rightarrow> pdict \<Rightarrow> 's \<Rightarrow> bool" where
  "copied coll f row s \<longleftrightarrow> (\<exists>t p k. legacy_key f row = Inr (t, p, k) \<and>
     stored_hash t p coll k s = Some (canonical_scoped_payload_hash H row))"

definition seen_ok :: "string \<Rightarrow> dedupe \<Rightarrow> 's \<Rightarrow> bool" where
  "seen_ok coll seen s \<longleftrightarrow> (\<forall>t p k h. map_of seen (t, p, k) = Some h \<longrightarrow>
     nulfree t \<and> nulfree p \<and> stored_hash t p coll k s = Some h)"

lemma keeps_refl: "keeps_hashes s s"
  by (simp add: keeps_hashes_def)

lemma keeps_trans: "keeps_hashes a b \<Longrightarrow> keeps_hashes b c \<Longrightarrow> keeps_hashes a c"
  by (auto simp: keeps_hashes_def)

lemma copied_keeps:
  "copied coll f row s \<Longrightarrow> keeps_hashes s s' \<Longrightarrow> legacy_row_ok f row \<Longrightarrow> is_chain_linked_collection coll \<Longrightarrow> copied coll f row s'"
  by (fastforce simp: copied_def keeps_hashes_def legacy_row_ok_def)

lemma row_run:
  assumes inv: "inv s" and row: "legacy_row_ok f row" and coll: "is_chain_linked_collection coll" and seen: "seen_ok coll seen s"
    and run: "migrate_row H stored_hash put_new coll f row (seen, stats) s = (Inr (seen', stats'), s')"
  shows "inv s' \<and> keeps_hashes s s' \<and> copied coll f row s' \<and> seen_ok coll seen' s'"
proof -
  let ?h = "canonical_scoped_payload_hash H row"
  from run obtain t p k where key: "legacy_key f row = Inr (t, p, k)"
    by (cases "legacy_key f row") (auto simp: migrate_row_def bindS_def liftS_def)
  with row have ok: "dwf row" "nulfree t" "nulfree p" "map_of row ''scope'' = Some (scope_value t p)"
    by (auto simp: legacy_row_ok_def)
  show ?thesis
  proof (cases "map_of seen (t, p, k)")
    case (Some h)
    with run key have "h = ?h" "seen' = seen" "s' = s"
      by (auto simp: migrate_row_def bindS_def liftS_def failS_def retS_def Let_def split: if_splits)
    with seen Some key inv show ?thesis by (auto simp: copied_def seen_ok_def keeps_refl)
  next
    case unseen: None
    show ?thesis
    proof (cases "stored_hash t p coll k s")
      case (Some h)
      with run key unseen have "h = ?h" "seen' = dset seen (t, p, k) ?h" "s' = s"
        by (auto simp: migrate_row_def bindS_def liftS_def failS_def retS_def Let_def split: if_splits)
      with seen Some key inv ok show ?thesis by (auto simp: copied_def seen_ok_def keeps_refl)
    next
      case None
      with run key unseen have put: "put_new t p coll k row s = (Inr (), s')" and seen': "seen' = dset seen (t, p, k) ?h"
        by (auto simp: migrate_row_def bindS_def liftS_def retS_def Let_def split: prod.splits sum.splits)
      from put_new [OF inv ok(2,3) coll ok(1) None put] migrated_hash [OF ok(1,4)]
      have new: "inv s'" "stored_hash t p coll k s' = Some ?h" by auto
      have keep: "keeps_hashes s s'"
        unfolding keeps_hashes_def
      proof (intro allI impI)
        fix t' p' c' k' h assume a: "nulfree t'" "nulfree p'" "is_chain_linked_collection c'" "stored_hash t' p' c' k' s = Some h"
        with None have "(t', p', c', k') \<noteq> (t, p, coll, k)" by auto
        from put_other [OF inv ok(2,3) coll a(1-3) None put this] a(4) show "stored_hash t' p' c' k' s' = Some h" by simp
      qed
      have "seen_ok coll seen' s'"
        using seen keep new ok coll by (auto simp: seen_ok_def seen' keeps_hashes_def)
      with new keep key show ?thesis by (auto simp: copied_def)
    qed
  qed
qed

lemma rows_run:
  "inv s \<Longrightarrow> list_all (legacy_row_ok f) rows \<Longrightarrow> is_chain_linked_collection coll \<Longrightarrow> seen_ok coll seen s
   \<Longrightarrow> migrate_rows (migrate_row H stored_hash put_new coll f) rows (seen, stats) s = (Inr (seen', stats'), s')
   \<Longrightarrow> inv s' \<and> keeps_hashes s s' \<and> list_all (\<lambda>row. copied coll f row s') rows"
proof (induction rows arbitrary: s seen stats)
  case Nil
  then show ?case by (simp add: retS_def keeps_refl)
next
  case (Cons row rows)
  from Cons.prems(5) obtain seen1 stats1 s1 where
    step: "migrate_row H stored_hash put_new coll f row (seen, stats) s = (Inr (seen1, stats1), s1)"
    and rest: "migrate_rows (migrate_row H stored_hash put_new coll f) rows (seen1, stats1) s1 = (Inr (seen', stats'), s')"
    by (auto elim!: bindS_InrE)
  from row_run [OF Cons.prems(1) _ Cons.prems(3,4) step] Cons.prems(2) have
    one: "inv s1" "keeps_hashes s s1" "copied coll f row s1" "seen_ok coll seen1 s1" by auto
  from Cons.IH [OF one(1) _ Cons.prems(3) one(4) rest] Cons.prems(2) have
    more: "inv s'" "keeps_hashes s1 s'" "list_all (\<lambda>row. copied coll f row s') rows" by auto
  have "copied coll f row s'" using copied_keeps [OF one(3) more(2) _ Cons.prems(3)] Cons.prems(2) by simp
  with more keeps_trans [OF one(2) more(2)] show ?case by simp
qed

lemma row_again:
  assumes copied: "copied coll f row s" and row: "legacy_row_ok f row" and seen: "seen_ok coll seen s"
  shows "\<exists>seen'. migrate_row H stored_hash put_new coll f row (seen, stats) s =
    (Inr (seen', stats\<lparr>ms_skipped := ms_skipped stats + 1\<rparr>), s) \<and> seen_ok coll seen' s"
proof -
  from copied obtain t p k where key: "legacy_key f row = Inr (t, p, k)"
    "stored_hash t p coll k s = Some (canonical_scoped_payload_hash H row)" by (auto simp: copied_def)
  with row have ok: "nulfree t" "nulfree p" by (auto simp: legacy_row_ok_def)
  show ?thesis
  proof (cases "map_of seen (t, p, k)")
    case (Some h)
    with seen key have "h = canonical_scoped_payload_hash H row" by (auto simp: seen_ok_def)
    with Some key seen show ?thesis by (auto simp: migrate_row_def bindS_def liftS_def retS_def Let_def)
  next
    case None
    with key seen ok show ?thesis by (auto simp: migrate_row_def bindS_def liftS_def retS_def Let_def seen_ok_def)
  qed
qed

lemma rows_again:
  "list_all (\<lambda>row. copied coll f row s) rows \<Longrightarrow> list_all (legacy_row_ok f) rows \<Longrightarrow> seen_ok coll seen s
   \<Longrightarrow> \<exists>seen' stats'. migrate_rows (migrate_row H stored_hash put_new coll f) rows (seen, stats) s = (Inr (seen', stats'), s) \<and>
     ms_inserted stats' = ms_inserted stats"
proof (induction rows arbitrary: seen stats)
  case (Cons row rows)
  from row_again [of coll f row s seen stats] Cons.prems obtain seen1 where
    one: "migrate_row H stored_hash put_new coll f row (seen, stats) s =
      (Inr (seen1, stats\<lparr>ms_skipped := ms_skipped stats + 1\<rparr>), s)" "seen_ok coll seen1 s" by auto
  from Cons.IH [OF _ _ one(2), of "stats\<lparr>ms_skipped := ms_skipped stats + 1\<rparr>"] Cons.prems one(1) show ?case
    by (auto simp: bindS_def)
qed (simp add: retS_def)

lemma collections_run:
  "inv s \<Longrightarrow> legacy_rows_ok rows_of_coll colls
   \<Longrightarrow> migrate_collections H stored_hash put_new rows_of_coll colls stats s = (Inr stats', s')
   \<Longrightarrow> inv s' \<and> keeps_hashes s s' \<and>
     list_all (\<lambda>coll. \<exists>f. canonical_field_of coll = Inr f \<and> list_all (\<lambda>row. copied coll f row s') (rows_of_coll coll)) colls"
proof (induction colls arbitrary: s stats)
  case Nil
  then show ?case by (simp add: retS_def keeps_refl)
next
  case (Cons coll colls)
  from Cons.prems(3) obtain f seen1 stats1 s1 where f: "canonical_field_of coll = Inr f"
    and rows: "migrate_rows (migrate_row H stored_hash put_new coll f) (rows_of_coll coll) ([], stats) s = (Inr (seen1, stats1), s1)"
    and rest: "migrate_collections H stored_hash put_new rows_of_coll colls
      (stats1\<lparr>ms_collections := dset (ms_collections stats1) coll (int (length (rows_of_coll coll)))\<rparr>) s1 = (Inr stats', s')"
    by (cases "canonical_field_of coll") (auto simp: liftS_def bindS_def split: prod.splits sum.splits)
  from Cons.prems(2) f have ok: "is_chain_linked_collection coll" "list_all (legacy_row_ok f) (rows_of_coll coll)"
    "legacy_rows_ok rows_of_coll colls" by (auto simp: legacy_rows_ok_def)
  have "seen_ok coll [] s" by (simp add: seen_ok_def)
  from rows_run [OF Cons.prems(1) ok(2,1) this rows] have
    one: "inv s1" "keeps_hashes s s1" "list_all (\<lambda>row. copied coll f row s1) (rows_of_coll coll)" by auto
  from Cons.IH [OF one(1) ok(3) rest] have more: "inv s'" "keeps_hashes s1 s'"
    "list_all (\<lambda>coll. \<exists>f. canonical_field_of coll = Inr f \<and> list_all (\<lambda>row. copied coll f row s') (rows_of_coll coll)) colls" by auto
  have "list_all (\<lambda>row. copied coll f row s') (rows_of_coll coll)"
    using one(3) ok(1,2) copied_keeps [OF _ more(2)] by (auto simp: list_all_iff)
  with f one(2) more keeps_trans show ?case by auto
qed

lemma collections_again:
  "legacy_rows_ok rows_of_coll colls
   \<Longrightarrow> list_all (\<lambda>coll. \<exists>f. canonical_field_of coll = Inr f \<and> list_all (\<lambda>row. copied coll f row s) (rows_of_coll coll)) colls
   \<Longrightarrow> \<exists>stats'. migrate_collections H stored_hash put_new rows_of_coll colls stats s = (Inr stats', s) \<and>
     ms_inserted stats' = ms_inserted stats"
proof (induction colls arbitrary: stats)
  case (Cons coll colls)
  from Cons.prems obtain f where f: "canonical_field_of coll = Inr f" "list_all (\<lambda>row. copied coll f row s) (rows_of_coll coll)"
    "list_all (legacy_row_ok f) (rows_of_coll coll)" "legacy_rows_ok rows_of_coll colls"
    by (auto simp: legacy_rows_ok_def)
  have "seen_ok coll [] s" by (simp add: seen_ok_def)
  from rows_again [OF f(2,3) this, of stats] obtain seen1 stats1 where
    one: "migrate_rows (migrate_row H stored_hash put_new coll f) (rows_of_coll coll) ([], stats) s = (Inr (seen1, stats1), s)"
      "ms_inserted stats1 = ms_inserted stats" by blast
  from Cons.IH [OF f(4), of "stats1\<lparr>ms_collections := dset (ms_collections stats1) coll (int (length (rows_of_coll coll)))\<rparr>"]
    Cons.prems(2) one f(1) show ?case by (auto simp: bindS_def liftS_def)
qed (simp add: retS_def)

end

section \<open>The JSON store\<close>

lemma json_migrate_append:
  assumes ok: "store_ok H st" and n: "nulfree t" "nulfree p"
    and new: "map_of (st_records st) (scoped_key t p c k) = None"
    and run: "json_migrate_insert H clk t p c k row st = (Inr (), st')"
  shows "\<exists>payload. json_append_state H (\<lambda>i. if i = 1 then clk 0 else clk 1) c (dremove row ''_chain'') k t p True st =
    (Inr (payload, True), st')"
proof -
  let ?clk = "\<lambda>i :: nat. if i = 1 then clk 0 else clk 1"
  let ?h = "found_head (clk 1) t p c st"
  have keys: "keys_ok st" using ok by (rule store_ok_keys)
  have head: "(case map_of (st_heads st) (head_key t p c) of Some h \<Rightarrow> (ch_last_sequence h, ch_last_chain_hash h) | None \<Rightarrow> (0, None)) =
      (ch_last_sequence ?h, ch_last_chain_hash ?h)" by (simp add: found_head_def split: option.split)
  have scope: "ch_tenant_id ?h = t \<and> ch_project_id ?h = p \<and> ch_collection ?h = c" by (rule found_head_scope [OF keys n])
  from run obtain stored where b: "build_row H (clk 0) c (dremove row ''_chain'') k t p (ch_last_chain_hash ?h) (ch_last_sequence ?h + 1) 1
        None None (Some True) = Inr stored"
    and st': "st' = \<lparr>st_records = dset (st_records st) (scoped_key t p c k) stored, st_heads = dset (st_heads st) (head_key t p c)
        \<lparr>ch_tenant_id = t, ch_project_id = p, ch_collection = c, ch_last_sequence = ch_last_sequence ?h + 1,
         ch_last_chain_hash = Some (sr_chain_hash stored), ch_updated_at = clk 1\<rparr>\<rparr>"
    unfolding json_migrate_insert_def head Let_def by (auto split: sum.splits)
  have upd: "?h\<lparr>ch_last_sequence := n, ch_last_chain_hash := x, ch_updated_at := u\<rparr> = \<lparr>ch_tenant_id = t, ch_project_id = p,
      ch_collection = c, ch_last_sequence = n, ch_last_chain_hash = x, ch_updated_at = u\<rparr>" for n x u
    using scope by (cases ?h) simp
  have all: "st\<lparr>st_records := a, st_heads := b\<rparr> = \<lparr>st_records = a, st_heads = b\<rparr>" for a b by (cases st) simp
  show ?thesis using new b by (simp add: json_append_state_unfold st' upd all del: One_nat_def)
qed

interpretation json_migration: migration_target H "store_ok H" json_stored_hash "json_migrate_insert H clk" for H clk
proof unfold_locales
  fix s t p c row k s'
  assume ok: "store_ok H s" and n: "nulfree t" "nulfree p" and c: "is_chain_linked_collection c" and wf: "dwf row"
    and none: "json_stored_hash t p c k s = None" and run: "json_migrate_insert H clk t p c k row s = (Inr (), s')"
  from none have "map_of (st_records s) (scoped_key t p c k) = None" by (simp add: json_stored_hash_def)
  from json_migrate_append [OF ok n this run] c obtain payload clk' where
    app: "json_append_state H clk' c (dremove row ''_chain'') k t p (is_chain_linked_collection c) s = (Inr (payload, True), s')" by auto
  from json_append_state_ok [OF ok n linked_nulfree [OF c] dwf_dremove [OF wf] app] append_state_found [OF app]
  show "store_ok H s' \<and> json_stored_hash t p c k s' =
      Some (canonical_scoped_payload_hash H (with_scope (dremove row ''_chain'') t p))" by (auto simp: json_stored_hash_def)
next
  fix s t p c t' p' c' k row s' k'
  assume ok: "store_ok H s" and n: "nulfree t" "nulfree p" "nulfree t'" "nulfree p'"
    and c: "is_chain_linked_collection c" "is_chain_linked_collection c'"
    and none: "json_stored_hash t p c k s = None" and run: "json_migrate_insert H clk t p c k row s = (Inr (), s')"
    and other: "(t', p', c', k') \<noteq> (t, p, c, k)"
  from none have "map_of (st_records s) (scoped_key t p c k) = None" by (simp add: json_stored_hash_def)
  from json_migrate_append [OF ok n(1,2) this run] obtain payload clk' where
    app: "json_append_state H clk' c (dremove row ''_chain'') k t p True s = (Inr (payload, True), s')" by auto
  have "scoped_key t' p' c' k' \<noteq> scoped_key t p c k"
    using other scoped_key_inj n linked_nulfree c by blast
  from append_state_other [OF app this] show "json_stored_hash t' p' c' k' s' = json_stored_hash t' p' c' k' s"
    by (simp add: json_stored_hash_def)
qed

section \<open>The SQL stores\<close>

lemma select_row_snoc:
  assumes "db_rows db' = db_rows db @ [r]"
  shows "select_row t p c k db' = (case select_row t p c k db of Some x \<Rightarrow> Some x | None \<Rightarrow> if q_key t p c k r then Some r else None)"
proof -
  have "find P (xs @ [r]) = (case find P xs of Some x \<Rightarrow> Some x | None \<Rightarrow> if P r then Some r else None)" for P and xs :: "sql_row list"
    by (induction xs) auto
  then show ?thesis by (simp add: select_row_def assms)
qed

lemma stored_hash_snoc:
  assumes "sqlite_stored_hash t p c k db = None" "db_rows db' = db_rows db @ [sql_row_of row]"
    and "build_row H now c record k t p prev num v ca ua l = Inr row"
  shows "sqlite_stored_hash t p c k db' = Some (canonical_scoped_payload_hash H (with_scope record t p))"
    and "(t', p', c', k') \<noteq> (t, p, c, k) \<Longrightarrow> sqlite_stored_hash t' p' c' k' db' = sqlite_stored_hash t' p' c' k' db"
proof -
  have hash: "sr_payload_hash row = canonical_scoped_payload_hash H (with_scope record t p)"
    using assms(3) by (auto simp: build_row_def Let_def bindE_Inr_iff)
  have key: "q_key t' p' c' k' (sql_row_of row) \<longleftrightarrow> (t', p', c', k') = (t, p, c, k)" for t' p' c' k'
    using build_row_key [OF assms(3)] by (auto simp: q_key_def q_scope_def)
  show "sqlite_stored_hash t p c k db' = Some (canonical_scoped_payload_hash H (with_scope record t p))"
    using assms(1) hash key [of t p c k] by (simp add: sqlite_stored_hash_def select_row_snoc [OF assms(2)])
  show "(t', p', c', k') \<noteq> (t, p, c, k) \<Longrightarrow> sqlite_stored_hash t' p' c' k' db' = sqlite_stored_hash t' p' c' k' db"
    using key [of t' p' c' k'] by (simp add: sqlite_stored_hash_def select_row_snoc [OF assms(2)] split: option.split)
qed

lemma sqlite_migrate_row_added:
  assumes "sqlite_migrate_insert H clk t p c k row db = (Inr (), db')"
  obtains stored now prev num ca ua where "build_row H now c (dremove row ''_chain'') k t p prev num 1 ca ua (Some True) = Inr stored"
    "db_rows db' = db_rows db @ [sql_row_of stored]"
proof -
  from assms obtain num prev db1 ca ua stored db2 where
    take: "sqlite_take_number (clk 0) t p c True db = (Inr (num, prev), db1)"
    and b: "build_row H (clk 3) c (dremove row ''_chain'') k t p prev num 1 (Some (or_now ca (clk 1))) (Some (or_now ua (clk 2)))
      (Some True) = Inr stored"
    and ins: "insert_row (sql_row_of stored) db1 = (Inr (), db2)"
    and upd: "db' = update_head t p c num (sr_chain_hash stored) (clk 4) db2"
    by (auto simp: sqlite_migrate_insert_def liftS_def elim!: bindS_InrE)
  have "db_rows db' = db_rows db @ [sql_row_of stored]"
    using take_number_rows [OF take] ins by (auto simp: upd update_head_def insert_row_def split: if_splits)
  from that [OF b this] show thesis .
qed

interpretation sqlite_migration: migration_target H "\<lambda>_. True" sqlite_stored_hash "sqlite_migrate_insert H clk" for H clk
proof unfold_locales
  fix s t p c row k s'
  assume none: "sqlite_stored_hash t p c k s = None" and run: "sqlite_migrate_insert H clk t p c k row s = (Inr (), s')"
  from run show "True \<and> sqlite_stored_hash t p c k s' = Some (canonical_scoped_payload_hash H (with_scope (dremove row ''_chain'') t p))"
    by (rule sqlite_migrate_row_added) (use stored_hash_snoc(1) [OF none] in blast)
next
  fix s t p c t' p' c' k row s' k'
  assume none: "sqlite_stored_hash t p c k s = None" and run: "sqlite_migrate_insert H clk t p c k row s = (Inr (), s')"
    and other: "(t', p', c', k') \<noteq> (t, p, c, k)"
  from run show "sqlite_stored_hash t' p' c' k' s' = sqlite_stored_hash t' p' c' k' s"
    by (rule sqlite_migrate_row_added) (rule stored_hash_snoc(2) [OF none _ _ other])
qed

lemma postgres_migrate_row_added:
  assumes run: "postgres_migrate_insert H clk t p c k row db = (Inr (), db')" and none: "sqlite_stored_hash t p c k db = None"
  obtains stored now prev num ca ua where "build_row H now c (dremove row ''_chain'') k t p prev num 1 ca ua (Some True) = Inr stored"
    "db_rows db' = db_rows db @ [sql_row_of stored]"
    "\<exists>x. postgres_append H clk c (dremove row ''_chain'') k t p True db = (Inr x, db')"
proof -
  from run obtain x where app: "postgres_append H clk c (dremove row ''_chain'') k t p True db = (Inr x, db')"
    by (auto simp: postgres_migrate_insert_def bindS_def liftS_def retS_def split: sum.splits prod.splits)
  obtain num prev db1 where take: "sqlite_take_number (clk 0) t p c True db = (Inr (num, prev), db1)" "db_rows db1 = db_rows db"
    using take_number_rows by (metis surj_pair)
  have sel: "select_row t p c k db = None" using none by (simp add: sqlite_stored_hash_def)
  note sql = postgres_append_Inr [OF app]
  from sql take sel obtain stored where b: "build_row H (clk 1) c (dremove row ''_chain'') k t p prev num 1 None None (Some True) = Inr stored"
      "db_rows db' = db_rows db @ [sql_row_of stored]"
    by (auto simp: sqlite_append_def Let_def bindS_def liftS_def insert_row_def update_head_def split: sum.splits if_splits)
  show thesis by (rule that [OF b]) (use app in blast)
qed

interpretation postgres_migration: migration_target H "sqlite_ok H" sqlite_stored_hash "postgres_migrate_insert H clk" for H clk
proof unfold_locales
  fix s t p c row k s'
  assume ok: "sqlite_ok H s" and n: "nulfree t" "nulfree p" and c: "is_chain_linked_collection c" and wf: "dwf row"
    and none: "sqlite_stored_hash t p c k s = None" and run: "postgres_migrate_insert H clk t p c k row s = (Inr (), s')"
  from postgres_migrate_row_added [OF run none] obtain stored now prev num ca ua x where
    b: "build_row H now c (dremove row ''_chain'') k t p prev num 1 ca ua (Some True) = Inr stored"
      "db_rows s' = db_rows s @ [sql_row_of stored]"
    and app: "postgres_append H clk c (dremove row ''_chain'') k t p (is_chain_linked_collection c) s = (Inr x, s')"
    using c by (metis (full_types))
  from ok obtain st where st: "sql_rel H s st" by (auto simp: sqlite_ok_def)
  obtain r st' where json: "json_append_state H clk c (dremove row ''_chain'') k t p (is_chain_linked_collection c) st = (r, st')"
    by fastforce
  from postgres_append_refines [OF st n linked_nulfree [OF c] dwf_dremove [OF wf] json app] have "sqlite_ok H s'"
    by (auto simp: sqlite_ok_def split: if_splits)
  with stored_hash_snoc(1) [OF none b(2,1)]
  show "sqlite_ok H s' \<and> sqlite_stored_hash t p c k s' =
      Some (canonical_scoped_payload_hash H (with_scope (dremove row ''_chain'') t p))" by simp
next
  fix s t p c t' p' c' k row s' k'
  assume none: "sqlite_stored_hash t p c k s = None" and run: "postgres_migrate_insert H clk t p c k row s = (Inr (), s')"
    and other: "(t', p', c', k') \<noteq> (t, p, c, k)"
  from run none show "sqlite_stored_hash t' p' c' k' s' = sqlite_stored_hash t' p' c' k' s"
    by (rule postgres_migrate_row_added) (rule stored_hash_snoc(2) [OF none _ _ other])
qed

end
