(* ===== verification/Migration_Properties.thy ===== *)
theory Migration_Properties
  imports Migration_Facts Backfill_Steps Grdi_Demo
begin

text \<open>
  The properties of the migration: a run after a run changes nothing, neither for the copied rows on any of the three backends nor
  for the events of a copied plan.
\<close>

section \<open>Rows are copied once\<close>

lemma stored_hash_norm: "json_stored_hash t p c k (norm_state st) = json_stored_hash t p c k st"
  by (simp add: json_stored_hash_def map_of_norm option.map_comp comp_def)

lemma json_migration_again:
  assumes "engine_ok H eng" "json_read_all file = Inr payload" "legacy_rows_ok (rows_in payload) colls"
    and "migrate_legacy_scoped_json H clk colls file eng = (Inr stats, eng')"
  shows "engine_ok H eng' \<and> (\<exists>stats'. migrate_legacy_scoped_json H clk' colls file eng' = (Inr stats', eng') \<and> ms_inserted stats' = 0)"
proof -
  let ?again = "migrate_collections H json_stored_hash (json_migrate_insert H clk') (rows_in payload) colls no_migration"
  from assms(1) obtain st where st: "read_json_state eng = Inr st" "store_ok H st" by (auto simp: engine_ok_def)
  from assms(2,4) st obtain st' where eng': "eng' = write_json_state st' eng"
    and run: "migrate_collections H json_stored_hash (json_migrate_insert H clk) (rows_in payload) colls no_migration st = (Inr stats, st')"
    by (auto simp: migrate_legacy_scoped_json_def split: prod.splits sum.splits)
  from json_migration.collections_run [OF st(2) assms(3) run] have ok: "store_ok H st'"
    and copied: "list_all (\<lambda>coll. \<exists>f. canonical_field_of coll = Inr f \<and>
      list_all (\<lambda>row. json_migration.copied H coll f row st') (rows_in payload coll)) colls" by auto
  have "list_all (\<lambda>coll. \<exists>f. canonical_field_of coll = Inr f \<and>
      list_all (\<lambda>row. json_migration.copied H coll f row (norm_state st')) (rows_in payload coll)) colls"
    using copied by (simp add: json_migration.copied_def stored_hash_norm)
  from json_migration.collections_again [OF assms(3) this, of clk' no_migration] obtain stats' where
    again: "?again (norm_state st') = (Inr stats', norm_state st')" "ms_inserted stats' = 0" by (auto simp: no_migration_def)
  have "read_json_state eng' = Inr (norm_state st')" using read_write_json_state [OF store_ok_keys [OF ok]] by (simp add: eng')
  with assms(2) again have "migrate_legacy_scoped_json H clk' colls file eng' = (Inr stats', eng')"
    by (simp add: migrate_legacy_scoped_json_def eng' write_norm)
  moreover have "engine_ok H eng'"
    using assms(1) ok read_write_json_state [OF store_ok_keys [OF ok]] store_ok_norm [OF ok] by (auto simp: engine_ok_def eng' split: option.splits)
  ultimately show ?thesis using again by simp
qed

lemma sqlite_migration_again:
  assumes "legacy_rows_ok (table_rows_of table) colls" "migrate_legacy_scoped_sqlite H clk colls table db = (Inr stats, db')"
  shows "\<exists>stats'. migrate_legacy_scoped_sqlite H clk' colls table db' = (Inr stats', db') \<and> ms_inserted stats' = 0"
proof -
  from assms(2) have run: "migrate_collections H sqlite_stored_hash (sqlite_migrate_insert H clk) (table_rows_of table) colls
      no_migration db = (Inr stats, db')" by (auto simp: migrate_legacy_scoped_sqlite_def split: prod.splits sum.splits)
  from sqlite_migration.collections_again [OF assms(1), of H db' clk' no_migration]
    sqlite_migration.collections_run [OF TrueI assms(1) run] show ?thesis
    by (auto simp: migrate_legacy_scoped_sqlite_def no_migration_def)
qed

lemma postgres_migration_again:
  assumes "sqlite_ok H db" "legacy_rows_ok rows colls" "migrate_legacy_scoped_postgres H clk colls rows db = (Inr stats, db')"
  shows "sqlite_ok H db' \<and> (\<exists>stats'. migrate_legacy_scoped_postgres H clk' colls rows db' = (Inr stats', db') \<and> ms_inserted stats' = 0)"
proof -
  from assms(3) have run: "migrate_collections H sqlite_stored_hash (postgres_migrate_insert H clk) rows colls
      no_migration db = (Inr stats, db')" by (auto simp: migrate_legacy_scoped_postgres_def split: prod.splits sum.splits)
  from postgres_migration.collections_again [OF assms(2), of H db' clk' no_migration]
    postgres_migration.collections_run [OF assms(1,2) run] show ?thesis
    by (auto simp: migrate_legacy_scoped_postgres_def no_migration_def)
qed

text \<open>C30: on every backend the migration of rows that carry their scope repeats nothing: a second run over the same rows, at
  any other time, ends without an error, inserts no row and leaves the store as it was; and the store the first run left still meets the
  invariant of the chains.\<close>

theorem migration_repeats_nothing:
  "(engine_ok H eng \<and> json_read_all file = Inr payload \<and> legacy_rows_ok (rows_in payload) colls \<and>
      migrate_legacy_scoped_json H clk colls file eng = (Inr stats, eng')
    \<longrightarrow> engine_ok H eng' \<and> (\<exists>stats'. migrate_legacy_scoped_json H clk' colls file eng' = (Inr stats', eng') \<and> ms_inserted stats' = 0)) \<and>
   (legacy_rows_ok (table_rows_of table) colls \<and> migrate_legacy_scoped_sqlite H clk colls table db = (Inr stats, db')
    \<longrightarrow> (\<exists>stats'. migrate_legacy_scoped_sqlite H clk' colls table db' = (Inr stats', db') \<and> ms_inserted stats' = 0)) \<and>
   (sqlite_ok H pg \<and> legacy_rows_ok rows colls \<and> migrate_legacy_scoped_postgres H clk colls rows pg = (Inr stats, pg')
    \<longrightarrow> sqlite_ok H pg' \<and> (\<exists>stats'. migrate_legacy_scoped_postgres H clk' colls rows pg' = (Inr stats', pg') \<and> ms_inserted stats' = 0))"
  using json_migration_again sqlite_migration_again postgres_migration_again by meson

text \<open>One decision envelope, copied on every backend.\<close>

definition old_envelope :: pdict where
  "old_envelope = [(''envelope_id'', JStr ''e1''), (''scope'', scope_value ''t'' ''p'')]"

definition old_file :: json where
  "old_file = JObj [(''decision_envelopes'', JArr [JObj old_envelope])]"

definition old_rows :: "string \<Rightarrow> pdict list" where
  "old_rows c = (if c = ''decision_envelopes'' then [old_envelope] else [])"

definition old_payload :: ledger_rows where
  "old_payload = set_defaults LEDGER_COLLECTIONS [(''decision_envelopes'', [old_envelope])]"

lemma old_envelope_ok: "legacy_row_ok ''envelope_id'' old_envelope"
  by (simp add: legacy_row_ok_def old_envelope_def legacy_key_def dget_or_def dindex_def scope_value_def)

lemma old_payload: "json_read_all old_file = Inr old_payload"
  by (simp add: json_read_all_def old_file_def collection_from_json_def old_payload_def)

lemma old_rows_of: "rows_in old_payload ''decision_envelopes'' = [old_envelope]"
  by code_simp

lemma old_linked: "is_chain_linked_collection ''decision_envelopes''" "canonical_field_of ''decision_envelopes'' = Inr ''envelope_id''"
  by code_simp+

lemma old_rows_ok: "rows_of_coll ''decision_envelopes'' = [old_envelope] \<Longrightarrow> legacy_rows_ok rows_of_coll [''decision_envelopes'']"
  by (simp add: legacy_rows_ok_def old_linked old_envelope_ok)

definition old_stats :: migration_stats where
  "old_stats = \<lparr>ms_inserted = 1, ms_skipped = 0, ms_collections = [(''decision_envelopes'', 1)]\<rparr>"

definition old_json :: "(engine, migration_stats) act" where
  "old_json = migrate_legacy_scoped_json demo_hash demo_clock [''decision_envelopes''] old_file"

definition old_sqlite :: "(scoped_db, migration_stats) act" where
  "old_sqlite = migrate_legacy_scoped_sqlite demo_hash demo_clock [''decision_envelopes''] [(''decision_envelopes'', ''e1'', old_envelope)]"

definition old_postgres :: "(scoped_db, migration_stats) act" where
  "old_postgres = migrate_legacy_scoped_postgres demo_hash demo_clock [''decision_envelopes''] old_rows"

lemma old_store_run: "fst (migrate_collections demo_hash json_stored_hash (json_migrate_insert demo_hash demo_clock)
    (rows_in old_payload) [''decision_envelopes''] no_migration empty_store) = Inr old_stats"
  by code_simp

lemma old_runs: "fst (old_json fresh_engine) = Inr old_stats" "fst (old_sqlite empty_db) = Inr old_stats"
  "fst (old_postgres empty_db) = Inr old_stats"
proof -
  have "read_json_state fresh_engine = Inr empty_store" by (simp add: read_json_state_def fresh_engine_def)
  then show "fst (old_json fresh_engine) = Inr old_stats"
    using old_store_run by (auto simp: old_json_def migrate_legacy_scoped_json_def old_payload simp del: migrate_collections.simps
        split: prod.split)
qed code_simp+

lemma run_pair: "fst x = y \<Longrightarrow> x = (y, snd x)"
  by (cases x) simp

theorem migration_repeats_nothing_witness:
  "engine_ok demo_hash (snd (old_json fresh_engine)) \<and> sqlite_ok demo_hash (snd (old_postgres empty_db)) \<and>
   (\<exists>stats'. old_json (snd (old_json fresh_engine)) = (Inr stats', snd (old_json fresh_engine)) \<and> ms_inserted stats' = 0) \<and>
   (\<exists>stats'. old_sqlite (snd (old_sqlite empty_db)) = (Inr stats', snd (old_sqlite empty_db)) \<and> ms_inserted stats' = 0) \<and>
   (\<exists>stats'. old_postgres (snd (old_postgres empty_db)) = (Inr stats', snd (old_postgres empty_db)) \<and> ms_inserted stats' = 0)"
proof -
  have "sqlite_ok demo_hash empty_db" using sql_rel_empty by (auto simp: sqlite_ok_def)
  moreover have "legacy_rows_ok (table_rows_of [(''decision_envelopes'', ''e1'', old_envelope)]) [''decision_envelopes'']"
    by (rule old_rows_ok) (simp add: table_rows_of_def)
  moreover have "legacy_rows_ok (rows_in old_payload) [''decision_envelopes'']" by (rule old_rows_ok) (rule old_rows_of)
  moreover have "legacy_rows_ok old_rows [''decision_envelopes'']" by (rule old_rows_ok) (simp add: old_rows_def)
  ultimately show ?thesis
    using migration_repeats_nothing [of demo_hash fresh_engine old_file old_payload "[''decision_envelopes'']" demo_clock old_stats
        "snd (old_json fresh_engine)" demo_clock "[(''decision_envelopes'', ''e1'', old_envelope)]" empty_db
        "snd (old_sqlite empty_db)" empty_db old_rows "snd (old_postgres empty_db)"]
      old_runs [THEN run_pair] engine_ok_fresh old_payload
    by (simp add: old_json_def [symmetric] old_sqlite_def [symmetric] old_postgres_def [symmetric])
qed

section \<open>Events are made once\<close>

text \<open>C31: the events of a copied plan are made once and together: a backfill that raises leaves the store as it was, and after one
  that returns a second one, at any later time, makes no event, finds all those the first made or found and leaves the store as it was. The row has to
  give the same decision at both times, which one with \<open>decided_at\<close> does, and the state has to be in the normal form that every write of the file
  leaves.\<close>

theorem backfill_plan_once:
  assumes "engine_ok (wd_hash w) eng" "eng_idle eng" "read_json_state eng = Inr st" "norm_state st = st"
    and "scope_from_row row = Inr (t, p)" "nulfree t" "nulfree p"
    and "gateway_from_scoped_row (wd_now w2 0) row = gateway_from_scoped_row (wd_now w 0) row"
    and "wd_hash w2 = wd_hash w" "wd_uuid5 w2 = wd_uuid5 w"
    and "backfill_plan_events w row eng = (r, eng')"
  shows "case r of Inl e \<Rightarrow> eng' = eng
    | Inr (created, skipped, missing) \<Rightarrow> backfill_plan_events w2 row eng' = (Inr (0, created + skipped, missing), eng')"
proof (cases "\<exists>g ls. gateway_from_scoped_row (wd_now w 0) row = Inr g \<and> backfill_locks t p (gd_plan_id g) = Inr ls")
  case False
  with assms(5,11) show ?thesis
    by (cases "gateway_from_scoped_row (wd_now w 0) row") (auto simp: backfill_plan_events_def bindS_def liftS_def split: sum.splits)
next
  case True
  then obtain g ls where g: "gateway_from_scoped_row (wd_now w 0) row = Inr g" and ls: "backfill_locks t p (gd_plan_id g) = Inr ls" by blast
  obtain z eng1 where tx: "run_scoped_transaction t p ls (commit_backfill w t p g row) eng = (z, eng1)" by fastforce
  show ?thesis
  proof (cases z)
    case (Inl e)
    from failed_commit_keeps [OF assms(2) framed_commit_backfill assms(3) tx [unfolded Inl]] have "eng1 = eng" .
    then have "eng' = eng \<and> (\<exists>e. r = Inl e)"
      using assms(5,11) g ls tx Inl by (cases e) (auto simp: backfill_plan_events_def bindS_def liftS_def tryS_def failS_def)
    then show ?thesis by auto
  next
    case (Inr counts)
    obtain c s m where counts: "counts = (c, s, m)" by (cases counts) auto
    have "r = Inr counts" "eng' = eng1"
      using assms(5,11) g ls tx Inr by (auto simp: backfill_plan_events_def bindS_def liftS_def tryS_def)
    moreover have "run_scoped_transaction t p ls (commit_backfill w2 t p g row) eng1 = (Inr (0, c + s, m), eng1)"
      using assms(3,4) tx Inr counts by (intro backfill_transaction_run [OF assms(1,2,6,7) ls _ _ assms(9,10)]) auto
    then have "backfill_plan_events w2 row eng1 = (Inr (0, c + s, m), eng1)"
      using assms(5,8) g ls by (simp add: backfill_plan_events_def bindS_def liftS_def tryS_def)
    ultimately show ?thesis by (simp add: counts)
  qed
qed

text \<open>A copied decision whose plan was simulated, without the receipt of the simulation.\<close>

definition old_gateway_row :: pdict where
  "old_gateway_row = dset (with_scope (gateway_decision_to_dict sim_gateway) ''t'' ''p'') ''simulation_state'' (JStr ''SIMULATED'')"

definition old_backfill :: "(engine, backfill_counts) act" where
  "old_backfill = backfill_plan_events sim_world old_gateway_row"

lemma old_gateway_read: "gateway_from_scoped_row now old_gateway_row = Inr (sim_gateway\<lparr>gd_simulation_state := SS_SIMULATED\<rparr>)"
  "scope_from_row old_gateway_row = Inr (''t'', ''p'')"
  by code_simp+

definition old_plan_locks :: "lock_ref list" where
  "old_plan_locks = (case backfill_locks ''t'' ''p'' ''p1'' of Inr ls \<Rightarrow> ls)"

lemma old_locks: "backfill_locks ''t'' ''p'' ''p1'' = Inr old_plan_locks" "gd_plan_id sim_gateway = ''p1''"
   "validate_lock_refs_scope old_plan_locks ''t'' ''p'' = Inr ()"
  by code_simp+

lemma old_commit: "fst (commit_backfill sim_world ''t'' ''p'' (sim_gateway\<lparr>gd_simulation_state := SS_SIMULATED\<rparr>) old_gateway_row
    (enter_transaction old_plan_locks empty_store fresh_engine)) = Inr (1, 0, 1)"
  by code_simp

lemma old_backfill_run: "fst (old_backfill fresh_engine) = Inr (1, 0, 1)"
proof -
  let ?in = "enter_transaction old_plan_locks empty_store fresh_engine"
  let ?fn = "commit_backfill sim_world ''t'' ''p'' (sim_gateway\<lparr>gd_simulation_state := SS_SIMULATED\<rparr>) old_gateway_row"
  obtain e where e: "?fn ?in = (Inr (1, 0, 1), e)" using run_pair [OF old_commit] by blast
  have "read_json_state fresh_engine = Inr empty_store" by (simp add: read_json_state_def fresh_engine_def)
  with e old_locks(3) have "fst (run_scoped_transaction ''t'' ''p'' old_plan_locks ?fn fresh_engine) = Inr (1, 0, 1)"
    by (simp add: run_scoped_transaction_unfold fresh_engine_def)
  then show ?thesis
    using old_locks by (auto simp: old_backfill_def backfill_plan_events_def old_gateway_read bindS_def liftS_def tryS_def
        split: prod.split)
qed

theorem backfill_plan_once_witness:
  "old_backfill (snd (old_backfill fresh_engine)) = (Inr (0, 1, 1), snd (old_backfill fresh_engine))"
proof -
  have "backfill_plan_events sim_world old_gateway_row fresh_engine = (Inr (1, 0, 1), snd (old_backfill fresh_engine))"
    using old_backfill_run by (cases "old_backfill fresh_engine") (simp add: old_backfill_def)
  from backfill_plan_once [OF engine_ok_fresh _ _ _ old_gateway_read(2) _ _ _ _ _ this, of empty_store sim_world]
  show ?thesis
    by (simp add: old_backfill_def old_gateway_read eng_idle_def fresh_engine_def read_json_state_def norm_state_def empty_store_def)
qed

end
