(* ===== verification/Hav_Core.thy ===== *)
theory Hav_Core
  imports Grdi_Replay Core_Guards
begin

text \<open>
  Model of \<^verbatim>\<open>src/src/phigraph/hav\<close>: \<^verbatim>\<open>models.py\<close>, \<^verbatim>\<open>policy.py\<close>, \<^verbatim>\<open>verifier.py\<close>, \<^verbatim>\<open>engine.py\<close>, \<^verbatim>\<open>governance.py\<close> and
  \<^verbatim>\<open>adapters.py\<close>. The engine checks the claims of a text against facts of an authoritative source and decides a verdict. The extractor, which the
  engine is given, is an argument: a function from texts to claims. Values and confidences are JSON values, so not floating-point numbers;
  identifiers and times are arguments.
\<close>

section \<open>Models\<close>

definition HAV_VERSION :: string where "HAV_VERSION = ''0.2.0''"
definition HAV_POLICY_ID :: string where "HAV_POLICY_ID = ''PHIGRAPH_HAV_FAIL_CLOSED_V1''"
definition HAV_VERIFIER_ID :: string where "HAV_VERIFIER_ID = ''phigraph-hav-v0.2''"
definition HAV_ALGORITHM_ID :: string where "HAV_ALGORITHM_ID = ''structured_claim_verification_v2''"

datatype verdict = V_PASS | V_WARN | V_REJECT | V_HUMAN_REVIEW | V_SOURCE_UNAVAILABLE

fun verdict_value :: "verdict \<Rightarrow> string" where
  "verdict_value V_PASS = ''PASS''"
| "verdict_value V_WARN = ''WARN''"
| "verdict_value V_REJECT = ''REJECT''"
| "verdict_value V_HUMAN_REVIEW = ''HUMAN_REVIEW''"
| "verdict_value V_SOURCE_UNAVAILABLE = ''SOURCE_UNAVAILABLE''"

datatype hav_status = HS_SUPPORTED | HS_PARTIALLY_SUPPORTED | HS_CONTRADICTED | HS_UNSUPPORTED | HS_INSUFFICIENT_EVIDENCE

fun hav_status_value :: "hav_status \<Rightarrow> string" where
  "hav_status_value HS_SUPPORTED = ''SUPPORTED''"
| "hav_status_value HS_PARTIALLY_SUPPORTED = ''PARTIALLY_SUPPORTED''"
| "hav_status_value HS_CONTRADICTED = ''CONTRADICTED''"
| "hav_status_value HS_UNSUPPORTED = ''UNSUPPORTED''"
| "hav_status_value HS_INSUFFICIENT_EVIDENCE = ''INSUFFICIENT_EVIDENCE''"

record evidence_fact =
  hf_evidence_id :: string
  hf_source :: string
  hf_subject :: string
  hf_predicate :: string
  hf_value :: json
  hf_observed_at :: string
  hf_confidence :: json
  hf_scope :: string
  hf_metadata :: pdict

text \<open>\<open>__post_init__\<close>: a comparison of another type than a number raises \<open>TypeError\<close>.\<close>

definition check_confidence :: "json \<Rightarrow> unit res" where
  "check_confidence c = (case c of
     JInt n \<Rightarrow> raise_if (\<not> (0 \<le> n \<and> n \<le> 1)) (ValueError ''confidence must be within [0, 1]'')
   | JBool b \<Rightarrow> Inr ()
   | _ \<Rightarrow> Inl (TypeError ''not supported between instances''))"

definition evidence_fact_create ::
  "string \<times> string \<Rightarrow> string \<Rightarrow> string \<Rightarrow> string \<Rightarrow> json \<Rightarrow> json \<Rightarrow> string \<Rightarrow> pdict \<Rightarrow> evidence_fact res" where
  "evidence_fact_create fresh source subject predicate v confidence scope metadata =
     bindE (check_confidence confidence) (\<lambda>_. Inr \<lparr>hf_evidence_id = ''hav_ev_'' @ fst fresh, hf_source = source,
       hf_subject = subject, hf_predicate = predicate, hf_value = v, hf_observed_at = snd fresh, hf_confidence = confidence,
       hf_scope = scope, hf_metadata = metadata\<rparr>)"

record authoritative_state =
  hs_state_id :: string
  hs_source_system :: string
  hs_evidence :: "evidence_fact list"
  hs_observed_at :: string
  hs_available :: bool
  hs_metadata :: pdict

definition authoritative_state_create :: "string \<times> string \<Rightarrow> string \<Rightarrow> evidence_fact list \<Rightarrow> authoritative_state" where
  "authoritative_state_create fresh source_system facts = \<lparr>hs_state_id = ''hav_state_'' @ fst fresh,
     hs_source_system = source_system, hs_evidence = facts, hs_observed_at = snd fresh, hs_available = True, hs_metadata = []\<rparr>"

definition authoritative_state_unavailable :: "string \<times> string \<Rightarrow> string \<Rightarrow> string \<Rightarrow> authoritative_state" where
  "authoritative_state_unavailable fresh source_system reason = \<lparr>hs_state_id = ''hav_state_'' @ fst fresh,
     hs_source_system = source_system, hs_evidence = [], hs_observed_at = snd fresh, hs_available = False,
     hs_metadata = [(''reason'', JStr reason)]\<rparr>"

text \<open>\<open>index.setdefault((subject, predicate), []).append(item)\<close>\<close>

definition fact_index :: "evidence_fact list \<Rightarrow> ((string \<times> string) \<times> evidence_fact list) list" where
  "fact_index facts = foldl (\<lambda>index item. let key = (hf_subject item, hf_predicate item) in
     dset index key ((case map_of index key of None \<Rightarrow> [] | Some items \<Rightarrow> items) @ [item])) [] facts"

record hav_claim =
  hv_claim_id :: string
  hv_subject :: string
  hv_predicate :: string
  hv_value :: json
  hv_text :: string
  hv_critical :: bool
  hv_confidence :: json
  hv_modality :: string
  hv_metadata :: pdict

definition hav_claim_to_dict :: "hav_claim \<Rightarrow> pdict" where
  "hav_claim_to_dict c = [
     (''claim_id'', JStr (hv_claim_id c)), (''subject'', JStr (hv_subject c)), (''predicate'', JStr (hv_predicate c)),
     (''value'', hv_value c), (''text'', JStr (hv_text c)), (''critical'', JBool (hv_critical c)),
     (''confidence'', hv_confidence c), (''modality'', JStr (hv_modality c)), (''metadata'', JObj (hv_metadata c))]"

record claim_evaluation =
  he_claim :: hav_claim
  he_status :: hav_status
  he_supporting :: "string list"
  he_contradicting :: "string list"
  he_reason :: string

definition claim_evaluation_to_dict :: "claim_evaluation \<Rightarrow> pdict" where
  "claim_evaluation_to_dict e = [
     (''claim'', JObj (hav_claim_to_dict (he_claim e))), (''status'', JStr (hav_status_value (he_status e))),
     (''supporting_evidence_ids'', jstrs (he_supporting e)), (''contradicting_evidence_ids'', jstrs (he_contradicting e)),
     (''reason'', JStr (he_reason e))]"

record hav_receipt =
  hr_receipt_id :: string
  hr_state_id :: string
  hr_verdict :: verdict
  hr_evaluations :: "claim_evaluation list"
  hr_policy_decisions :: "pdict list"
  hr_output_hash :: string
  hr_created_at :: string
  hr_version :: string

definition hav_receipt_create ::
  "(string \<Rightarrow> string) \<Rightarrow> string \<times> string \<Rightarrow> string \<Rightarrow> verdict \<Rightarrow> claim_evaluation list \<Rightarrow> pdict list \<Rightarrow> string \<Rightarrow> hav_receipt" where
  "hav_receipt_create H fresh state_id v evaluations policy_decisions candidate_output =
     \<lparr>hr_receipt_id = ''hav_receipt_'' @ fst fresh, hr_state_id = state_id, hr_verdict = v, hr_evaluations = evaluations,
      hr_policy_decisions = policy_decisions, hr_output_hash = H candidate_output, hr_created_at = snd fresh,
      hr_version = HAV_VERSION\<rparr>"

definition hav_receipt_to_dict :: "hav_receipt \<Rightarrow> pdict" where
  "hav_receipt_to_dict r = [
     (''receipt_id'', JStr (hr_receipt_id r)), (''state_id'', JStr (hr_state_id r)),
     (''verdict'', JStr (verdict_value (hr_verdict r))),
     (''evaluations'', JArr (map (JObj \<circ> claim_evaluation_to_dict) (hr_evaluations r))),
     (''policy_decisions'', JArr (map JObj (hr_policy_decisions r))), (''output_hash'', JStr (hr_output_hash r)),
     (''created_at'', JStr (hr_created_at r)), (''version'', JStr (hr_version r))]"

section \<open>The verifier\<close>

text \<open>\<open>str(v).strip().lower()\<close>; the comparison of floating-point numbers with a tolerance has no case here.\<close>

definition folded :: "json \<Rightarrow> string" where
  "folded v = map lower_char (strip (py_str v))"

definition equivalent :: "json \<Rightarrow> json \<Rightarrow> bool" where
  "equivalent left right \<longleftrightarrow> folded left = folded right"

definition evaluation :: "hav_claim \<Rightarrow> hav_status \<Rightarrow> string list \<Rightarrow> string list \<Rightarrow> string \<Rightarrow> claim_evaluation" where
  "evaluation claim status supporting contradicting reason = \<lparr>he_claim = claim, he_status = status, he_supporting = supporting,
     he_contradicting = contradicting, he_reason = reason\<rparr>"

definition compare_claim :: "hav_claim \<Rightarrow> evidence_fact list \<Rightarrow> claim_evaluation" where
  "compare_claim claim facts =
     (let supporting = filter (\<lambda>fact. equivalent (hv_value claim) (hf_value fact)) facts
      in if supporting \<noteq> []
         then evaluation claim HS_SUPPORTED (map hf_evidence_id supporting) [] ''Claim matches authoritative evidence.''
         else evaluation claim HS_CONTRADICTED [] (map hf_evidence_id facts) ''Claim conflicts with authoritative evidence.'')"

definition ends_with :: "string \<Rightarrow> string \<Rightarrow> bool" where
  "ends_with suffix s \<longleftrightarrow> length suffix \<le> length s \<and> drop (length s - length suffix) s = suffix"

definition required_checks :: "evidence_fact list \<Rightarrow> evidence_fact list" where
  "required_checks facts = filter (\<lambda>fact. hf_subject fact = ''repository'' \<and> ends_with ''_status'' (hf_predicate fact) \<and>
     dget (hf_metadata fact) ''required'' = JBool True) facts"

definition failed_checks :: "evidence_fact list \<Rightarrow> evidence_fact list" where
  "failed_checks facts = filter (\<lambda>fact. map lower_char (py_str (hf_value fact)) \<noteq> ''passed'') (required_checks facts)"

definition release_gate :: "evidence_fact list \<Rightarrow> evidence_fact list" where
  "release_gate facts = filter (\<lambda>fact. hf_subject fact = ''repository'' \<and> hf_predicate fact = ''release_gate_status'') facts"

definition derived :: "hav_claim \<Rightarrow> authoritative_state \<Rightarrow> claim_evaluation option" where
  "derived claim state =
     (if hv_subject claim = ''repository'' \<and> hv_predicate claim = ''all_required_checks_passed'' then Some
        (let required = required_checks (hs_evidence state); failed = failed_checks (hs_evidence state)
         in if required = []
            then evaluation claim HS_INSUFFICIENT_EVIDENCE [] [] ''No required-check baseline is available.''
            else if failed \<noteq> []
            then evaluation claim HS_CONTRADICTED [] (map hf_evidence_id failed) ''At least one required check is not passed.''
            else evaluation claim HS_SUPPORTED (map hf_evidence_id required) [] ''All configured required checks are passed.'')
      else if hv_subject claim = ''repository'' \<and> hv_predicate claim = ''production_ready'' then Some
        (let gate = release_gate (hs_evidence state)
         in if gate = []
            then evaluation claim HS_INSUFFICIENT_EVIDENCE [] [] ''No authoritative release-gate decision is available.''
            else compare_claim \<lparr>hv_claim_id = hv_claim_id claim, hv_subject = hv_subject claim,
              hv_predicate = ''release_gate_status'', hv_value = JStr ''passed'', hv_text = hv_text claim, hv_critical = True,
              hv_confidence = JInt 1, hv_modality = ''asserted'', hv_metadata = []\<rparr> gate)
      else None)"

definition direct_facts :: "authoritative_state \<Rightarrow> hav_claim \<Rightarrow> evidence_fact list" where
  "direct_facts state claim =
     (case map_of (fact_index (hs_evidence state)) (hv_subject claim, hv_predicate claim) of None \<Rightarrow> [] | Some facts \<Rightarrow> facts)"

definition verify_claim :: "authoritative_state \<Rightarrow> hav_claim \<Rightarrow> claim_evaluation" where
  "verify_claim state claim =
     (let direct = direct_facts state claim
      in if direct \<noteq> [] then compare_claim claim direct
         else (case derived claim state of
           Some e \<Rightarrow> e
         | None \<Rightarrow> evaluation claim (if hv_critical claim then HS_INSUFFICIENT_EVIDENCE else HS_UNSUPPORTED) [] []
             ''No authoritative evidence found for this claim.''))"

definition verify_claims :: "hav_claim list \<Rightarrow> authoritative_state \<Rightarrow> claim_evaluation list" where
  "verify_claims claims state =
     (if \<not> hs_available state
      then map (\<lambda>claim. evaluation claim HS_INSUFFICIENT_EVIDENCE [] [] ''Authoritative state source is unavailable.'') claims
      else map (verify_claim state) claims)"

section \<open>The policy and the engine\<close>

record hav_policy_decision =
  hp_policy_id :: string
  hp_verdict :: verdict
  hp_reason :: string
  hp_metadata :: pdict

definition claim_ids_of :: "claim_evaluation list \<Rightarrow> pdict" where
  "claim_ids_of es = [(''claim_ids'', jstrs (map (hv_claim_id \<circ> he_claim) es))]"

definition hav_decide :: "bool \<Rightarrow> claim_evaluation list \<Rightarrow> hav_policy_decision" where
  "hav_decide state_available evaluations =
     (let critical_contradictions = filter (\<lambda>e. hv_critical (he_claim e) \<and> he_status e = HS_CONTRADICTED) evaluations;
          critical_unknown = filter (\<lambda>e. hv_critical (he_claim e) \<and>
            he_status e \<in> {HS_UNSUPPORTED, HS_INSUFFICIENT_EVIDENCE}) evaluations;
          warnings = filter (\<lambda>e. he_status e \<noteq> HS_SUPPORTED) evaluations
      in if \<not> state_available
         then \<lparr>hp_policy_id = HAV_POLICY_ID, hp_verdict = V_SOURCE_UNAVAILABLE,
               hp_reason = ''Authoritative state is unavailable; verification is blocked.'', hp_metadata = []\<rparr>
         else if critical_contradictions \<noteq> []
         then \<lparr>hp_policy_id = HAV_POLICY_ID, hp_verdict = V_REJECT,
               hp_reason = ''A critical claim contradicts authoritative evidence.'',
               hp_metadata = claim_ids_of critical_contradictions\<rparr>
         else if critical_unknown \<noteq> []
         then \<lparr>hp_policy_id = HAV_POLICY_ID, hp_verdict = V_HUMAN_REVIEW,
               hp_reason = ''A critical claim lacks sufficient evidence.'', hp_metadata = claim_ids_of critical_unknown\<rparr>
         else if warnings \<noteq> []
         then \<lparr>hp_policy_id = HAV_POLICY_ID, hp_verdict = V_WARN,
               hp_reason = ''No critical contradiction was found, but some claims are not supported.'',
               hp_metadata = claim_ids_of warnings\<rparr>
         else \<lparr>hp_policy_id = HAV_POLICY_ID, hp_verdict = V_PASS, hp_reason = ''All extracted claims are supported.'',
               hp_metadata = []\<rparr>)"

definition hav_verify ::
  "(string \<Rightarrow> string) \<Rightarrow> string \<times> string \<Rightarrow> (string \<Rightarrow> hav_claim list) \<Rightarrow> string \<Rightarrow> authoritative_state \<Rightarrow> hav_receipt" where
  "hav_verify H fresh extractor candidate_output state =
     (let claims = extractor candidate_output;
          evaluations = verify_claims claims state;
          decision = hav_decide (hs_available state) evaluations
      in hav_receipt_create H fresh (hs_state_id state) (hp_verdict decision) evaluations
           [[(''policy_id'', JStr (hp_policy_id decision)), (''verdict'', JStr (verdict_value (hp_verdict decision))),
             (''reason'', JStr (hp_reason decision)), (''metadata'', JObj (hp_metadata decision))]] candidate_output)"

section \<open>Governance\<close>

definition policy_hash :: "(string \<Rightarrow> string) \<Rightarrow> string" where
  "policy_hash H = H (dumps (JObj [
     (''policy_id'', JStr HAV_POLICY_ID), (''policy_version'', JStr HAV_POLICY_VERSION),
     (''fail_closed'', JBool True), (''pass_does_not_execute'', JBool True)]))"

definition enrich_receipt :: "(string \<Rightarrow> string) \<Rightarrow> pdict \<Rightarrow> string \<Rightarrow> string \<Rightarrow> string \<Rightarrow> string \<Rightarrow> pdict" where
  "enrich_receipt H receipt tenant_id project_id issuer verifier_subject =
     dset (dset receipt ''governance'' (JObj [
       (''core_version'', JStr CORE_VERSION), (''protocol_version'', JStr PROTOCOL_VERSION),
       (''hav_version'', JStr HAV_VERSION), (''policy_id'', JStr HAV_POLICY_ID), (''policy_version'', JStr HAV_POLICY_VERSION),
       (''policy_hash'', JStr (policy_hash H)), (''verifier_id'', JStr HAV_VERIFIER_ID),
       (''algorithm_id'', JStr HAV_ALGORITHM_ID), (''tenant_id'', JStr tenant_id), (''project_id'', JStr project_id),
       (''issuer'', JStr issuer), (''verifier_subject'', JStr verifier_subject), (''execution_authorized'', JBool False),
       (''limitations'', jstrs [''PASS does not authorize external execution.'',
         ''Verification depends on authoritative source availability and evidence quality.'',
         ''Model consensus is not treated as authoritative truth.''])]))
     ''grdi_boundary'' (JObj [
       (''stage'', JStr ''verification_only''), (''produces'', JStr ''verification_receipt''),
       (''consumers'', jstrs [''decision_envelope'', ''authority_engine'', ''execution_gateway'', ''outcome_ledger'']),
       (''note'', JStr ''GRDI Foundation is not implemented; HAV output is advisory input for later authority stages.'')])"

section \<open>The state of a repository\<close>

definition repository_fact :: "string \<times> string \<Rightarrow> string \<Rightarrow> string \<Rightarrow> json \<Rightarrow> pdict \<Rightarrow> evidence_fact res" where
  "repository_fact fresh source predicate v metadata =
     evidence_fact_create fresh source ''repository'' predicate v (JInt 1) ''current'' metadata"

definition repository_state ::
  "(nat \<Rightarrow> string \<times> string) \<Rightarrow> int \<Rightarrow> int \<Rightarrow> string \<Rightarrow> string \<Rightarrow> string \<Rightarrow> string \<Rightarrow> string \<Rightarrow> string \<Rightarrow> authoritative_state res" where
  "repository_state fresh tests_passed tests_total ci_status codeql_status package_status docker_status release_gate_status
     source_system =
     (let required = [(''required'', JBool True)] in
     bindE (mapE (\<lambda>(n, predicate, v, metadata). repository_fact (fresh n) source_system predicate v metadata) [
       (0, ''tests_passed'', JInt tests_passed, []), (1, ''tests_total'', JInt tests_total, []),
       (2, ''ci_status'', JStr ci_status, required), (3, ''codeql_status'', JStr codeql_status, required),
       (4, ''package_status'', JStr package_status, required), (5, ''docker_status'', JStr docker_status, required),
       (6, ''release_gate_status'', JStr release_gate_status, required)]) (\<lambda>facts.
     Inr (authoritative_state_create (fresh 7) source_system facts)))"

end
