(* ===== verification/Hav_Service.thy ===== *)
theory Hav_Service
  imports Hav_Core Legacy_Ledger Receipts
begin

text \<open>
  Model of \<^verbatim>\<open>src/src/phigraph/hav/integration.py\<close>: a verification is recorded in the collection ledger, its facts as evidence, its
  claims with their verifications, then an action to accept the text, a policy decision on it and the signed receipt. The ledger
  is reached through \<open>rd\<close> and \<open>wr\<close>, as in \<open>Legacy_Ledger\<close>; \<open>fresh kind n\<close> is the identifier, without its prefix, and the time of
  the \<open>n\<close>-th record of a kind.
\<close>

type_synonym fresh_ids = "string \<Rightarrow> nat \<Rightarrow> string \<times> string"

definition new_id :: "fresh_ids \<Rightarrow> string \<Rightarrow> nat \<Rightarrow> string" where
  "new_id fresh kind n = kind @ ''_'' @ fst (fresh kind n)"

text \<open>\<open>{**a, **b}\<close>\<close>

definition dict_union :: "pdict \<Rightarrow> pdict \<Rightarrow> pdict" where
  "dict_union a b = foldl (\<lambda>d (k, v). dset d k v) a b"

definition fact_evidence :: "fresh_ids \<Rightarrow> nat \<Rightarrow> string \<Rightarrow> evidence_fact \<Rightarrow> evidence" where
  "fact_evidence fresh n state_id item = \<lparr>ev_id = new_id fresh ''ev'' n, ev_kind = ''hav_authoritative_fact'',
     ev_source = hf_source item,
     ev_payload = [(''hav_evidence_id'', JStr (hf_evidence_id item)), (''state_id'', JStr state_id),
       (''subject'', JStr (hf_subject item)), (''predicate'', JStr (hf_predicate item)), (''value'', hf_value item),
       (''confidence'', hf_confidence item), (''scope'', JStr (hf_scope item)), (''observed_at'', JStr (hf_observed_at item))],
     ev_status = VALID, ev_content_hash = None, ev_observed_at = snd (fresh ''ev'' n),
     ev_metadata = dict_union [(''hav'', JBool True)] (hf_metadata item)\<rparr>"

text \<open>The map from the identifiers of the facts to those of their evidence, and the latter in order.\<close>

type_synonym evidence_ids = "(string \<times> string) list \<times> string list"

fun record_facts ::
  "('b \<Rightarrow> ledger_rows res) \<Rightarrow> (ledger_rows \<Rightarrow> ('b, unit) act) \<Rightarrow> (string \<Rightarrow> string) \<Rightarrow> (string \<Rightarrow> string \<Rightarrow> string)
   \<Rightarrow> string option \<Rightarrow> fresh_ids \<Rightarrow> string \<Rightarrow> string \<Rightarrow> string \<Rightarrow> nat \<Rightarrow> evidence_fact list \<Rightarrow> evidence_ids \<Rightarrow> ('b, evidence_ids) act" where
  "record_facts rd wr H mac key fresh state_id t p n [] ids = retS ids"
| "record_facts rd wr H mac key fresh state_id t p n (item # facts) (id_map, evidence_ids) =
     bindS (register_evidence rd wr H mac key (fact_evidence fresh n state_id item) t p) (\<lambda>registered.
     record_facts rd wr H mac key fresh state_id t p (n + 1) facts
       (dset id_map (hf_evidence_id item) (ev_id registered), evidence_ids @ [ev_id registered]))"

definition core_claim :: "fresh_ids \<Rightarrow> nat \<Rightarrow> string \<Rightarrow> string \<Rightarrow> hav_claim \<Rightarrow> claim" where
  "core_claim fresh n issuer verifier_subject c = \<lparr>cl_id = new_id fresh ''cl'' n, cl_statement = hv_text c,
     cl_claim_type = ''hav:'' @ hv_predicate c, cl_subject = hv_subject c, cl_issuer = issuer, cl_status = PROPOSED,
     cl_confidence = hv_confidence c, cl_evidence_ids = [], cl_created_at = snd (fresh ''cl'' n), cl_supersedes = None,
     cl_metadata = [(''hav'', JBool True), (''hav_claim_id'', JStr (hv_claim_id c)), (''predicate'', JStr (hv_predicate c)),
       (''value'', hv_value c), (''critical'', JBool (hv_critical c)), (''modality'', JStr (hv_modality c)),
       (''verifier_subject'', JStr verifier_subject)]\<rparr>"

fun map_claim_status :: "hav_status \<Rightarrow> claim_status" where
  "map_claim_status HS_SUPPORTED = VERIFIED"
| "map_claim_status HS_PARTIALLY_SUPPORTED = PARTIALLY_VERIFIED"
| "map_claim_status HS_CONTRADICTED = REFUTED"
| "map_claim_status HS_UNSUPPORTED = UNVERIFIED"
| "map_claim_status HS_INSUFFICIENT_EVIDENCE = UNVERIFIED"

definition core_verification ::
  "fresh_ids \<Rightarrow> nat \<Rightarrow> string \<Rightarrow> string \<Rightarrow> string \<Rightarrow> (string \<times> string) list \<Rightarrow> string \<Rightarrow> claim_evaluation \<Rightarrow> verification" where
  "core_verification fresh n issuer verifier_subject receipt_id id_map claim_id e = \<lparr>vr_id = new_id fresh ''vr'' n,
     vr_claim_id = claim_id, vr_verifier = HAV_VERIFIER_ID, vr_method = ''structured_claim_verification'',
     vr_result = map_claim_status (he_status e),
     vr_evidence_ids = List.map_filter (map_of id_map) (he_supporting e @ he_contradicting e),
     vr_rationale = he_reason e, vr_verified_at = snd (fresh ''vr'' n),
     vr_metadata = [(''hav'', JBool True), (''hav_status'', JStr (hav_status_value (he_status e))),
       (''hav_receipt_id'', JStr receipt_id), (''verifier_subject'', JStr verifier_subject), (''issuer'', JStr issuer)]\<rparr>"

fun record_evaluations ::
  "('b \<Rightarrow> ledger_rows res) \<Rightarrow> (ledger_rows \<Rightarrow> ('b, unit) act) \<Rightarrow> (string \<Rightarrow> string) \<Rightarrow> fresh_ids \<Rightarrow> string \<Rightarrow> string
   \<Rightarrow> string \<Rightarrow> (string \<times> string) list \<Rightarrow> string \<Rightarrow> string \<Rightarrow> nat \<Rightarrow> claim_evaluation list \<Rightarrow> string list \<Rightarrow> ('b, string list) act" where
  "record_evaluations rd wr H fresh issuer verifier_subject receipt_id id_map t p n [] claim_ids = retS claim_ids"
| "record_evaluations rd wr H fresh issuer verifier_subject receipt_id id_map t p n (e # es) claim_ids =
     bindS (register_claim rd wr H (core_claim fresh n issuer verifier_subject (he_claim e)) t p) (\<lambda>registered.
     bindS (record_verification rd wr H
       (core_verification fresh n issuer verifier_subject receipt_id id_map (cl_id registered) e) t p) (\<lambda>_.
     record_evaluations rd wr H fresh issuer verifier_subject receipt_id id_map t p (n + 1) es
       (claim_ids @ [cl_id registered])))"

definition accept_action :: "fresh_ids \<Rightarrow> hav_receipt \<Rightarrow> string list \<Rightarrow> action_proposal" where
  "accept_action fresh receipt claim_ids = \<lparr>ac_id = new_id fresh ''ac'' 0, ac_action_type = ''accept_ai_output'',
     ac_target = hr_output_hash receipt, ac_proposed_by = HAV_VERIFIER_ID,
     ac_parameters = [(''receipt_id'', JStr (hr_receipt_id receipt)), (''state_id'', JStr (hr_state_id receipt)),
       (''verdict'', JStr (verdict_value (hr_verdict receipt))), (''execution_authorized'', JBool False)],
     ac_rationale_claim_ids = claim_ids, ac_reversible = True,
     ac_risk_level = (if hr_verdict receipt \<in> {V_REJECT, V_SOURCE_UNAVAILABLE} then ''high'' else ''medium''),
     ac_created_at = snd (fresh ''ac'' 0)\<rparr>"

fun map_effect :: "verdict \<Rightarrow> decision_effect" where
  "map_effect V_PASS = ALLOW"
| "map_effect V_WARN = WARN"
| "map_effect V_REJECT = BLOCK"
| "map_effect V_HUMAN_REVIEW = REQUIRE_APPROVAL"
| "map_effect V_SOURCE_UNAVAILABLE = BLOCK"

text \<open>\<open>item["reason"]\<close> of the decisions that the engine put into the receipt.\<close>

definition decision_reasons :: "hav_receipt \<Rightarrow> string list res" where
  "decision_reasons receipt = mapE (\<lambda>item. bindE (dindex item ''reason'') json_str) (hr_policy_decisions receipt)"

definition accept_decision :: "(string \<Rightarrow> string) \<Rightarrow> fresh_ids \<Rightarrow> hav_receipt \<Rightarrow> string \<Rightarrow> policy_decision res" where
  "accept_decision H fresh receipt action_id = bindE (decision_reasons receipt) (\<lambda>reasons.
     Inr \<lparr>pd_id = new_id fresh ''pd'' 0, pd_action_id = action_id, pd_effect = map_effect (hr_verdict receipt),
       pd_policy_ids = [HAV_POLICY_ID],
       pd_reasons = reasons @ [''policy_version='' @ HAV_POLICY_VERSION, ''policy_hash='' @ policy_hash H],
       pd_required_approvals = (if hr_verdict receipt = V_HUMAN_REVIEW then [''human-reviewer''] else []),
       pd_decided_at = snd (fresh ''pd'' 0)\<rparr>)"

definition receipt_evidence :: "fresh_ids \<Rightarrow> nat \<Rightarrow> hav_receipt \<Rightarrow> pdict \<Rightarrow> evidence" where
  "receipt_evidence fresh n receipt signed_receipt = \<lparr>ev_id = new_id fresh ''ev'' n, ev_kind = ''hav_verification_receipt'',
     ev_source = HAV_VERIFIER_ID, ev_payload = signed_receipt, ev_status = VALID, ev_content_hash = None,
     ev_observed_at = snd (fresh ''ev'' n),
     ev_metadata = [(''hav'', JBool True), (''receipt_id'', JStr (hr_receipt_id receipt)),
       (''verdict'', JStr (verdict_value (hr_verdict receipt))), (''output_hash'', JStr (hr_output_hash receipt)),
       (''policy_version'', JStr HAV_POLICY_VERSION)]\<rparr>"

record hav_result =
  hx_receipt :: hav_receipt
  hx_signed_receipt :: pdict
  hx_claim_ids :: "string list"
  hx_evidence_ids :: "string list"
  hx_action_id :: string
  hx_policy_decision_id :: string

definition verify_and_record ::
  "('b \<Rightarrow> ledger_rows res) \<Rightarrow> (ledger_rows \<Rightarrow> ('b, unit) act) \<Rightarrow> (string \<Rightarrow> string) \<Rightarrow> (string \<Rightarrow> string \<Rightarrow> string)
   \<Rightarrow> string option \<Rightarrow> receipt_signer option \<Rightarrow> (string \<Rightarrow> hav_claim list) \<Rightarrow> fresh_ids \<Rightarrow> string \<Rightarrow> authoritative_state
   \<Rightarrow> string \<Rightarrow> string \<Rightarrow> string \<Rightarrow> string \<Rightarrow> ('b, hav_result) act" where
  "verify_and_record rd wr H mac key signer extractor fresh candidate_output state issuer t p verifier_subject =
     (let receipt = hav_verify H (fresh ''hav_receipt'' 0) extractor candidate_output state in
     bindS (record_facts rd wr H mac key fresh (hs_state_id state) t p 0 (hs_evidence state) ([], [])) (\<lambda>(id_map, evidence_ids).
     bindS (record_evaluations rd wr H fresh issuer verifier_subject (hr_receipt_id receipt) id_map t p 0
       (hr_evaluations receipt) []) (\<lambda>claim_ids.
     let action = accept_action fresh receipt claim_ids in
     bindS (register_action rd wr H action t p) (\<lambda>_.
     bindS (liftS (accept_decision H fresh receipt (ac_id action))) (\<lambda>policy_decision.
     bindS (record_policy_decision rd wr H policy_decision t p) (\<lambda>_.
     let payload = enrich_receipt H (hav_receipt_to_dict receipt) t p issuer verifier_subject;
         signed_receipt = (case signer of None \<Rightarrow> payload | Some s \<Rightarrow> receipt_sign mac s payload)
     in bindS (register_evidence rd wr H mac key
          (receipt_evidence fresh (length (hs_evidence state)) receipt signed_receipt) t p) (\<lambda>registered.
     retS \<lparr>hx_receipt = receipt, hx_signed_receipt = signed_receipt, hx_claim_ids = claim_ids,
       hx_evidence_ids = evidence_ids @ [ev_id registered], hx_action_id = ac_id action,
       hx_policy_decision_id = pd_id policy_decision\<rparr>)))))))"

end
