(* ===== verification/Hav_Properties.thy ===== *)
theory Hav_Properties
  imports Hav_Service Legacy_Backends
begin

text \<open>
  The properties of the verification of texts: what each verdict means in terms of the facts, and what recording a verification
  leaves in the collection ledger.
\<close>

section \<open>The index of the facts\<close>

definition about :: "hav_claim \<Rightarrow> evidence_fact \<Rightarrow> bool" where
  "about c f \<longleftrightarrow> hf_subject f = hv_subject c \<and> hf_predicate f = hv_predicate c"

lemma fact_index_foldl:
  "map_of (foldl (\<lambda>index item. let key = (hf_subject item, hf_predicate item) in
      dset index key ((case map_of index key of None \<Rightarrow> [] | Some items \<Rightarrow> items) @ [item])) d facts) k =
   (let found = filter (\<lambda>f. (hf_subject f, hf_predicate f) = k) facts
    in if found = [] then map_of d k else Some ((case map_of d k of None \<Rightarrow> [] | Some items \<Rightarrow> items) @ found))"
  by (induction facts arbitrary: d) (auto simp: Let_def)

lemma direct_facts_eq: "direct_facts state c = filter (about c) (hs_evidence state)"
  unfolding direct_facts_def fact_index_def fact_index_foldl by (auto simp: Let_def about_def [abs_def])

section \<open>What the facts say of a claim\<close>

datatype finding = Holds | Refuted | Unknown

definition is_passed :: "evidence_fact \<Rightarrow> bool" where
  "is_passed f \<longleftrightarrow> map lower_char (py_str (hf_value f)) = ''passed''"

definition all_checks_claim :: "hav_claim \<Rightarrow> bool" where
  "all_checks_claim c \<longleftrightarrow> hv_subject c = ''repository'' \<and> hv_predicate c = ''all_required_checks_passed''"

definition readiness_claim :: "hav_claim \<Rightarrow> bool" where
  "readiness_claim c \<longleftrightarrow> hv_subject c = ''repository'' \<and> hv_predicate c = ''production_ready''"

definition finding_of :: "evidence_fact list \<Rightarrow> hav_claim \<Rightarrow> finding" where
  "finding_of facts c =
     (let direct = filter (about c) facts; required = required_checks facts; gate = release_gate facts
      in if direct \<noteq> [] then (if list_ex (\<lambda>f. equivalent (hv_value c) (hf_value f)) direct then Holds else Refuted)
         else if all_checks_claim c
         then (if required = [] then Unknown else if list_all is_passed required then Holds else Refuted)
         else if readiness_claim c
         then (if gate = [] then Unknown
               else if list_ex (\<lambda>f. equivalent (JStr ''passed'') (hf_value f)) gate then Holds else Refuted)
         else Unknown)"

definition escalates :: "evidence_fact list \<Rightarrow> hav_claim \<Rightarrow> bool" where
  "escalates facts c \<longleftrightarrow> hv_critical c \<or>
     filter (about c) facts = [] \<and> readiness_claim c \<and> release_gate facts \<noteq> []"

lemma compare_status:
  "he_status (compare_claim c facts) = (if list_ex (\<lambda>f. equivalent (hv_value c) (hf_value f)) facts then HS_SUPPORTED else HS_CONTRADICTED)"
  by (auto simp: compare_claim_def evaluation_def Let_def list_ex_iff filter_empty_conv)

lemma compare_of_claim: "he_claim (compare_claim c facts) = c"
  by (simp add: compare_claim_def evaluation_def Let_def)

lemma failed_checks_Nil: "failed_checks facts = [] \<longleftrightarrow> list_all is_passed (required_checks facts)"
  by (simp add: failed_checks_def filter_empty_conv list_all_iff is_passed_def)

lemma verify_claim_finding:
  "he_status (verify_claim state c) = HS_SUPPORTED \<longleftrightarrow> finding_of (hs_evidence state) c = Holds"
  "he_status (verify_claim state c) = HS_CONTRADICTED \<longleftrightarrow> finding_of (hs_evidence state) c = Refuted"
  "he_status (verify_claim state c) \<in> {HS_UNSUPPORTED, HS_INSUFFICIENT_EVIDENCE} \<longleftrightarrow> finding_of (hs_evidence state) c = Unknown"
  "hv_critical (he_claim (verify_claim state c)) \<longleftrightarrow> escalates (hs_evidence state) c"
  by (auto simp: verify_claim_def direct_facts_eq derived_def finding_of_def escalates_def Let_def all_checks_claim_def
      readiness_claim_def compare_status compare_of_claim failed_checks_Nil evaluation_def split: if_splits)

text \<open>
  The decision tree of \<^verbatim>\<open>docs/governance/HAV_POLICY_MODEL.md\<close>, for which the two derived predicates are always critical. The code
  takes a claim on them to be as critical as its extractor says, except for a claim of readiness that a release gate decides.
\<close>

definition documented_critical :: "hav_claim \<Rightarrow> bool" where
  "documented_critical c \<longleftrightarrow> hv_critical c \<or> all_checks_claim c \<or> readiness_claim c"

definition documented_verdict :: "authoritative_state \<Rightarrow> hav_claim list \<Rightarrow> verdict" where
  "documented_verdict state claims =
     (let facts = hs_evidence state
      in if \<not> hs_available state then V_SOURCE_UNAVAILABLE
         else if list_ex (\<lambda>c. documented_critical c \<and> finding_of facts c = Refuted) claims then V_REJECT
         else if list_ex (\<lambda>c. documented_critical c \<and> finding_of facts c = Unknown) claims then V_HUMAN_REVIEW
         else if list_ex (\<lambda>c. finding_of facts c \<noteq> Holds) claims then V_WARN
         else V_PASS)"

lemma verdict_eq:
  "hr_verdict (hav_verify H fresh extractor candidate state) =
    (let facts = hs_evidence state; claims = extractor candidate
     in if \<not> hs_available state then V_SOURCE_UNAVAILABLE
        else if list_ex (\<lambda>c. escalates facts c \<and> finding_of facts c = Refuted) claims then V_REJECT
        else if list_ex (\<lambda>c. escalates facts c \<and> finding_of facts c = Unknown) claims then V_HUMAN_REVIEW
        else if list_ex (\<lambda>c. finding_of facts c \<noteq> Holds) claims then V_WARN
        else V_PASS)"
proof -
  have "filter P (map f xs) = [] \<longleftrightarrow> \<not> list_ex (\<lambda>x. P (f x)) xs" for P and f :: "hav_claim \<Rightarrow> claim_evaluation" and xs
    by (simp add: filter_empty_conv list_ex_iff)
  then show ?thesis
    by (simp add: hav_verify_def Let_def hav_receipt_create_def hav_decide_def verify_claims_def verify_claim_finding
        del: insert_iff)
qed

text \<open>C32: the verdict on a text is decided by what the facts say of its claims: without the source it is \<open>SOURCE_UNAVAILABLE\<close>; else
  a critical claim that a fact refutes gives \<open>REJECT\<close>, else a critical one that nothing decides gives \<open>HUMAN_REVIEW\<close>, else any claim
  that does not hold gives \<open>WARN\<close>; \<open>PASS\<close> is left for texts all of whose claims hold. A claim holds if some fact on its subject and
  predicate agrees with it; where there is none, the claim that all checks passed holds if there are required checks and all of them
  passed, and the claim of readiness if the release gate passed. This is the verdict of the documented decision tree for every extractor that
  marks claims on the derived predicates critical, as \<^verbatim>\<open>RuleBasedClaimExtractor\<close> does; for others the code is more lenient than the
  document (\<open>derived_claim_warns\<close>).\<close>

theorem hav_verdict_iff:
  "hr_verdict (hav_verify H fresh extractor candidate state) =
    (let facts = hs_evidence state; claims = extractor candidate
     in if \<not> hs_available state then V_SOURCE_UNAVAILABLE
        else if list_ex (\<lambda>c. escalates facts c \<and> finding_of facts c = Refuted) claims then V_REJECT
        else if list_ex (\<lambda>c. escalates facts c \<and> finding_of facts c = Unknown) claims then V_HUMAN_REVIEW
        else if list_ex (\<lambda>c. finding_of facts c \<noteq> Holds) claims then V_WARN
        else V_PASS) \<and>
   ((\<forall>c \<in> set (extractor candidate). all_checks_claim c \<or> readiness_claim c \<longrightarrow> hv_critical c) \<longrightarrow>
      hr_verdict (hav_verify H fresh extractor candidate state) = documented_verdict state (extractor candidate))"
proof (intro conjI impI, rule verdict_eq)
  assume marked: "\<forall>c \<in> set (extractor candidate). all_checks_claim c \<or> readiness_claim c \<longrightarrow> hv_critical c"
  have "list_ex (\<lambda>c. escalates (hs_evidence state) c \<and> P c) (extractor candidate) \<longleftrightarrow>
      list_ex (\<lambda>c. documented_critical c \<and> P c) (extractor candidate)" for P
    unfolding list_ex_iff escalates_def documented_critical_def using marked by blast
  then show "hr_verdict (hav_verify H fresh extractor candidate state) = documented_verdict state (extractor candidate)"
    by (simp add: verdict_eq documented_verdict_def Let_def)
qed

text \<open>A required check failed, and a text claims that all checks passed.\<close>

definition failed_check :: evidence_fact where
  "failed_check = \<lparr>hf_evidence_id = ''e'', hf_source = ''ci'', hf_subject = ''repository'', hf_predicate = ''ci_status'',
     hf_value = JStr ''failed'', hf_observed_at = ''now'', hf_confidence = JInt 1, hf_scope = ''s'', hf_metadata = [(''required'', JBool True)]\<rparr>"

definition checks_claim :: "bool \<Rightarrow> hav_claim" where
  "checks_claim critical = \<lparr>hv_claim_id = ''c'', hv_subject = ''repository'', hv_predicate = ''all_required_checks_passed'',
     hv_value = JBool True, hv_text = ''all checks passed'', hv_critical = critical, hv_confidence = JInt 1,
     hv_modality = ''asserted'', hv_metadata = []\<rparr>"

definition failed_state :: authoritative_state where
  "failed_state = authoritative_state_create (''s'', ''now'') ''ci'' [failed_check]"

lemma failed_documented:
  "documented_verdict failed_state [checks_claim True] = V_REJECT" "documented_verdict failed_state [checks_claim False] = V_REJECT"
  by code_simp+

lemma hav_verdict_iff_witness:
  "hr_verdict (hav_verify demo_hash (''r'', ''now'') (\<lambda>_. [checks_claim True]) ''all checks passed'' failed_state) = V_REJECT"
proof -
  have "\<forall>c \<in> set [checks_claim True]. all_checks_claim c \<or> readiness_claim c \<longrightarrow> hv_critical c"
    by (simp add: checks_claim_def)
  from mp [OF conjunct2 [OF hav_verdict_iff [of demo_hash "(''r'', ''now'')" "\<lambda>_. [checks_claim True]" "''all checks passed''" failed_state]] this]
  show ?thesis by (simp only: failed_documented)
qed

text \<open>The same claim not marked critical: the document says \<open>REJECT\<close>, the code \<open>WARN\<close>.\<close>

lemma derived_claim_warns:
  "hr_verdict (hav_verify demo_hash (''r'', ''now'') (\<lambda>_. [checks_claim False]) ''all checks passed'' failed_state) = V_WARN \<and>
   documented_verdict failed_state [checks_claim False] = V_REJECT"
proof -
  have "finding_of (hs_evidence failed_state) (checks_claim False) = Refuted" "\<not> escalates (hs_evidence failed_state) (checks_claim False)"
      "hs_available failed_state" by code_simp+
  then show ?thesis by (simp add: verdict_eq Let_def failed_documented)
qed

section \<open>Recording a verification\<close>

text \<open>The values and the metadata of the facts and of the claims have distinct keys, as every Python dictionary has.\<close>

definition fact_wf :: "evidence_fact \<Rightarrow> bool" where
  "fact_wf f \<longleftrightarrow> jwf (hf_value f) \<and> jwf (hf_confidence f) \<and> dwf (hf_metadata f)"

definition hav_claim_wf :: "hav_claim \<Rightarrow> bool" where
  "hav_claim_wf c \<longleftrightarrow> jwf (hv_value c) \<and> jwf (hv_confidence c) \<and> dwf (hv_metadata c)"

lemma dict_union_wf: "dwf a \<Longrightarrow> dwf b \<Longrightarrow> dwf (dict_union a b)"
  unfolding dict_union_def by (induction b arbitrary: a) auto

lemma fact_evidence_wf: "fact_wf f \<Longrightarrow> op_wf (AddEvidence (fact_evidence fresh n i f))"
  by (simp add: fact_wf_def fact_evidence_def dict_union_wf)

lemma core_claim_wf: "hav_claim_wf c \<Longrightarrow> op_wf (AddClaim (core_claim fresh n i v c))"
  by (simp add: hav_claim_wf_def core_claim_def)

lemma core_verification_wf: "dwf (vr_metadata (core_verification fresh n i v r m c e))"
  by (simp add: core_verification_def)

lemma hav_claim_dict_wf: "hav_claim_wf c \<Longrightarrow> dwf (hav_claim_to_dict c)"
  by (simp add: hav_claim_wf_def hav_claim_to_dict_def)

lemma compare_claim_wf: "hav_claim_wf c \<Longrightarrow> hav_claim_wf (he_claim (compare_claim c fs))"
  by (simp add: compare_of_claim)

lemma verify_claim_wf: "hav_claim_wf c \<Longrightarrow> hav_claim_wf (he_claim (verify_claim state c))"
  by (auto simp: verify_claim_def derived_def Let_def evaluation_def compare_of_claim hav_claim_wf_def)

lemma verify_claims_wf:
  "list_all hav_claim_wf claims \<Longrightarrow> list_all (\<lambda>e. hav_claim_wf (he_claim e)) (verify_claims claims state)"
  by (auto simp: verify_claims_def list_all_iff verify_claim_wf) (simp add: evaluation_def)

lemma hav_evaluations: "hr_evaluations (hav_verify H fresh extractor candidate state) = verify_claims (extractor candidate) state"
  by (simp add: hav_verify_def hav_receipt_create_def Let_def)

lemma hav_receipt_dict_wf:
  assumes "list_all (\<lambda>e. hav_claim_wf (he_claim e)) (hr_evaluations r)" "list_all dwf (hr_policy_decisions r)"
  shows "dwf (hav_receipt_to_dict r)"
  using assms by (auto simp: hav_receipt_to_dict_def list_all_iff claim_evaluation_to_dict_def hav_claim_dict_wf)

lemma hav_verify_dict_wf:
  assumes "list_all hav_claim_wf (extractor candidate)"
  shows "dwf (hav_receipt_to_dict (hav_verify H fresh extractor candidate state))"
proof (rule hav_receipt_dict_wf)
  show "list_all dwf (hr_policy_decisions (hav_verify H fresh extractor candidate state))"
    by (simp add: hav_verify_def hav_receipt_create_def Let_def hav_decide_def claim_ids_of_def)
qed (simp add: hav_evaluations verify_claims_wf assms)

context ledger_backend
begin

lemma keeps_evidence: "op_wf (AddEvidence e) \<Longrightarrow> keeps H (register_evidence rd wr H mac key e t p)"
  unfolding register_evidence_def Let_def
  by (intro keeps_bind keeps_append keeps_ret evidence_row_wf) (simp add: LEDGER_COLLECTIONS_def)

lemma keeps_claim: "op_wf (AddClaim c) \<Longrightarrow> keeps H (register_claim rd wr H c t p)"
  unfolding register_claim_def Let_def
  by (intro keeps_bind keeps_append keeps_ret claim_row_wf) (simp_all add: LEDGER_COLLECTIONS_def)

lemma keeps_action: "dwf (ac_parameters a) \<Longrightarrow> keeps H (register_action rd wr H a t p)"
  unfolding register_action_def
  by (intro keeps_bind keeps_append keeps_ret with_scope_field_wf plain_rows_wf) (simp_all add: LEDGER_COLLECTIONS_def)

lemma keeps_decision: "keeps H (record_policy_decision rd wr H d t p)"
  unfolding record_policy_decision_def
  by (intro keeps_bind keeps_append keeps_ret with_scope_field_wf plain_rows_wf) (simp_all add: LEDGER_COLLECTIONS_def)

lemma keeps_facts:
  "list_all fact_wf fs \<Longrightarrow> keeps H (record_facts rd wr H mac key fresh i t p n fs ids)"
  by (induction fs arbitrary: n ids) (auto intro!: keeps_bind keeps_evidence keeps_ret fact_evidence_wf)

lemma keeps_evaluations:
  "list_all (\<lambda>e. hav_claim_wf (he_claim e)) es \<Longrightarrow> keeps H (record_evaluations rd wr H fresh i v r m t p n es ids)"
  by (induction es arbitrary: n ids)
    (auto intro!: keeps_bind keeps_claim keeps_record_verification keeps_ret core_claim_wf core_verification_wf)

lemma keeps_verify_and_record:
  assumes "list_all fact_wf (hs_evidence state)" "list_all hav_claim_wf (extractor candidate)"
  shows "keeps H (verify_and_record rd wr H mac key signer extractor fresh candidate state issuer t p v)"
proof -
  let ?r = "hav_verify H (fresh ''hav_receipt'' 0) extractor candidate state"
  have "dwf (enrich_receipt H (hav_receipt_to_dict ?r) t p issuer v)"
    unfolding enrich_receipt_def by (intro dwf_dset hav_verify_dict_wf assms) simp_all
  then have "op_wf (AddEvidence (receipt_evidence fresh n ?r
      (case signer of None \<Rightarrow> enrich_receipt H (hav_receipt_to_dict ?r) t p issuer v
       | Some s \<Rightarrow> receipt_sign mac s (enrich_receipt H (hav_receipt_to_dict ?r) t p issuer v))))" for n
    by (simp add: receipt_evidence_def receipt_sign_def Let_def split: option.split)
  then show ?thesis
    using assms unfolding verify_and_record_def Let_def
    by (intro keeps_bind keeps_lift) (auto intro!: keeps_facts keeps_evaluations keeps_bind keeps_lift keeps_action keeps_decision
        keeps_evidence keeps_ret simp: hav_evaluations verify_claims_wf accept_action_def split: prod.split)
qed

end

section \<open>What the ledger holds\<close>

text \<open>Some row of a collection has a text in each of two fields.\<close>

definition holds_row :: "ledger_rows \<Rightarrow> string \<Rightarrow> (string \<times> string) list \<Rightarrow> bool" where
  "holds_row p c fs \<longleftrightarrow> (\<exists>rows row. map_of p c = Some rows \<and> row \<in> set rows \<and> (\<forall>(k, v) \<in> set fs. dget row k = JStr v))"

lemma canon_field: "ddistinct d \<Longrightarrow> dget (canon_dict d) k = JStr v \<longleftrightarrow> dget d k = JStr v"
  by (simp add: dget_canon_dict py_str_canon_str)

lemma holds_row_same:
  assumes same: "same_rows q p" and c: "c \<in> set LEDGER_COLLECTIONS" and wf: "payload_wf p" "payload_wf q" and holds: "holds_row p c fs"
  shows "holds_row q c fs"
proof -
  from holds obtain rows row where row: "map_of p c = Some rows" "row \<in> set rows" "\<forall>(k, v) \<in> set fs. dget row k = JStr v"
    by (auto simp: holds_row_def)
  from same c row(1) obtain rows' where rows': "map_of q c = Some rows'" "map canon_dict rows' = map canon_dict rows"
    unfolding same_rows_def by (metis (no_types, lifting) map_option_eq_Some option.simps(9))
  from rows'(2) row(2) obtain row' where row': "row' \<in> set rows'" "canon_dict row' = canon_dict row"
    by (metis (no_types, lifting) imageE image_eqI list.set_map)
  have "ddistinct row" "ddistinct row'"
    using payload_wf_row [OF row(2,1) wf(1)] payload_wf_row [OF row'(1) rows'(1) wf(2)] by (simp_all add: dwf_def)
  then have "dget row' k = JStr v \<longleftrightarrow> dget row k = JStr v" for k v
    using row'(2) canon_field by metis
  then have "\<forall>(k, v) \<in> set fs. dget row' k = JStr v" using row(3) by auto
  with rows'(1) row'(1) show ?thesis unfolding holds_row_def by blast
qed

lemma holds_row_dset:
  "holds_row p c fs \<Longrightarrow> map_of p c' = Some rows \<Longrightarrow> holds_row (dset p c' (rows @ new)) c fs"
  by (auto simp: holds_row_def)

lemma holds_row_new:
  "\<forall>(k, v) \<in> set fs. dget row k = JStr v \<Longrightarrow> holds_row (dset p c (rows @ [row])) c fs"
  by (auto simp: holds_row_def)

context ledger_backend
begin

definition holds :: "'b \<Rightarrow> string \<Rightarrow> (string \<times> string) list \<Rightarrow> bool" where
  "holds s c fs \<longleftrightarrow> (\<exists>p. rd s = Inr p \<and> holds_row p c fs)"

lemma append_writes:
  assumes v: "valid H s" and wf: "dwf row" and c: "c \<in> set LEDGER_COLLECTIONS" and run: "legacy_append rd wr H c row k s = (Inr x, s')"
  obtains p rows stored q where "rd s = Inr p" "payload_wf p" "map_of p c = Some rows" "rd s' = Inr q" "payload_wf q"
    "same_rows q (dset p c (rows @ [stored]))" "payload_wf (dset p c (rows @ [stored]))"
    "\<And>f. f \<noteq> ''_chain'' \<Longrightarrow> dget stored f = dget row f"
proof -
  from read_step [OF v run [unfolded legacy_append_def]] obtain p where p: "rd s = Inr p" "payload_wf p" "payload_chain H p"
    and f: "bindS (liftS (collection_rows p c)) (\<lambda>rows. bindS (liftS (key_exists k row rows)) (\<lambda>dup.
       if dup then failS (ValueError (''Duplicate '' @ k @ '': '' @ py_str (dget row k)))
       else add_row wr H p c rows row)) s = (Inr x, s')" by blast
  from f obtain rows where rows: "map_of p c = Some rows" and add: "add_row wr H p c rows row s = (Inr x, s')"
    by (auto simp: liftS_def collection_rows_Inr failS_def split: if_splits elim!: bindS_InrE)
  have ch: "rows_chain H c JNull rows" using p(3) c rows by (simp add: payload_chain_def)
  let ?prev = "chain_end H c JNull rows"
  let ?stored = "chained_row H ?prev c row"
  have leaf: "leaf ?prev" by (simp add: chain_end_leaf)
  have w: "payload_wf (dset p c (rows @ [?stored]))"
    using payload_wf_rows [OF p(2) rows] wf leaf p(2)
    by (intro payload_wf_dset) (auto simp: chained_row_def legacy_chain_value_def leaf_def)
  from add obtain u where wr: "wr (dset p c (rows @ [?stored])) s = (Inr u, s')"
    by (auto simp: add_row_def last_chain_hash_chain [OF ch] bindS_lift_Inr Let_def retS_def elim!: bindS_InrE)
  from write_ok [OF w wr] obtain q where q: "inv s'" "rd s' = Inr q" "same_rows q (dset p c (rows @ [?stored]))" by blast
  have "payload_wf q" using read_ok [OF q(1)] q(2) by auto
  from that [OF p(1,2) rows q(2) this q(3) w] show thesis by (auto simp: chained_row_def dget_def)
qed

lemma append_holds:
  assumes "valid H s" "dwf row" "c \<in> set LEDGER_COLLECTIONS" "legacy_append rd wr H c row k s = (Inr x, s')"
    and "\<forall>(f, v) \<in> set fs. f \<noteq> ''_chain'' \<and> dget row f = JStr v"
  shows "holds s' c fs"
proof -
  from assms(1-4) obtain p rows stored q where a: "rd s' = Inr q" "payload_wf q" "same_rows q (dset p c (rows @ [stored]))"
    "payload_wf (dset p c (rows @ [stored]))" "\<And>f. f \<noteq> ''_chain'' \<Longrightarrow> dget stored f = dget row f" by (rule append_writes) blast
  have "holds_row (dset p c (rows @ [stored])) c fs" using assms(5) a(5) by (intro holds_row_new) auto
  from holds_row_same [OF a(3) assms(3) a(4,2) this] a(1) show ?thesis by (simp add: holds_def)
qed

lemma append_keeps_row:
  assumes "valid H s" "dwf row" "c' \<in> set LEDGER_COLLECTIONS" "legacy_append rd wr H c' row k s = (Inr x, s')"
    and "c \<in> set LEDGER_COLLECTIONS" "holds s c fs"
  shows "holds s' c fs"
proof -
  from assms(1-4) obtain p rows stored q where a: "rd s = Inr p" "map_of p c' = Some rows" "rd s' = Inr q" "payload_wf q"
    "same_rows q (dset p c' (rows @ [stored]))" "payload_wf (dset p c' (rows @ [stored]))" by (rule append_writes) blast
  have "holds_row (dset p c' (rows @ [stored])) c fs" using assms(6) a(1,2) by (intro holds_row_dset) (auto simp: holds_def)
  from holds_row_same [OF a(5) assms(5) a(6,4) this] a(3) show ?thesis by (simp add: holds_def)
qed

end

section \<open>A recorded verification\<close>

context ledger_backend
begin

lemma record_run:
  assumes v: "valid H s" and wf: "list_all fact_wf (hs_evidence state)" "list_all hav_claim_wf (extractor candidate)"
    and run: "verify_and_record rd wr H mac key signer extractor fresh candidate state issuer t p vs s = (Inr x, s')"
    and receipt: "receipt = hav_verify H (fresh ''hav_receipt'' 0) extractor candidate state"
    and payload: "payload = enrich_receipt H (hav_receipt_to_dict receipt) t p issuer vs"
  shows "hx_receipt x = receipt \<and> hx_signed_receipt x = (case signer of None \<Rightarrow> payload | Some s \<Rightarrow> receipt_sign mac s payload) \<and>
    holds s' ''policy_decisions'' [(''decision_id'', hx_policy_decision_id x), (''action_id'', hx_action_id x),
      (''effect'', decision_effect_value (map_effect (hr_verdict receipt)))]"
proof -
  let ?signed = "case signer of None \<Rightarrow> payload | Some s \<Rightarrow> receipt_sign mac s payload"
  let ?ev = "receipt_evidence fresh (length (hs_evidence state)) receipt ?signed"
  from run [unfolded verify_and_record_def Let_def, folded receipt, folded payload] obtain idm eids claim_ids d a1 a2 a3 a4 u1 u2 reg where
    facts: "record_facts rd wr H mac key fresh (hs_state_id state) t p 0 (hs_evidence state) ([], []) s = (Inr (idm, eids), a1)"
    and evs: "record_evaluations rd wr H fresh issuer vs (hr_receipt_id receipt) idm t p 0 (hr_evaluations receipt) [] a1 = (Inr claim_ids, a2)"
    and act: "register_action rd wr H (accept_action fresh receipt claim_ids) t p a2 = (Inr u1, a3)"
    and d: "accept_decision H fresh receipt (ac_id (accept_action fresh receipt claim_ids)) = Inr d"
    and dec: "record_policy_decision rd wr H d t p a3 = (Inr u2, a4)"
    and ev: "register_evidence rd wr H mac key ?ev t p a4 = (Inr reg, s')"
    and x: "x = \<lparr>hx_receipt = receipt, hx_signed_receipt = ?signed, hx_claim_ids = claim_ids, hx_evidence_ids = eids @ [ev_id reg],
       hx_action_id = ac_id (accept_action fresh receipt claim_ids), hx_policy_decision_id = pd_id d\<rparr>"
    by (auto simp: liftS_def retS_def elim!: bindS_InrE)
  have wfe: "list_all (\<lambda>e. hav_claim_wf (he_claim e)) (hr_evaluations receipt)"
    by (simp add: receipt hav_evaluations verify_claims_wf wf(2))
  have v1: "valid H a1" using keepsD [OF keeps_facts [OF wf(1)] v facts] .
  have v2: "valid H a2" using keepsD [OF keeps_evaluations [OF wfe] v1 evs] .
  have v3: "valid H a3" using keepsD [OF keeps_action v2 act] by (simp add: accept_action_def)
  have v4: "valid H a4" using keepsD [OF keeps_decision v3 dec] .
  have dfields: "pd_action_id d = ac_id (accept_action fresh receipt claim_ids)" "pd_effect d = map_effect (hr_verdict receipt)"
    using d by (auto simp: accept_decision_def bindE_Inr_iff)
  let ?fs = "[(''decision_id'', pd_id d), (''action_id'', pd_action_id d), (''effect'', decision_effect_value (pd_effect d))]"
  from dec obtain u where app: "legacy_append rd wr H ''policy_decisions'' (with_scope_field (policy_decision_to_dict d) t p) ''decision_id'' a3 = (Inr u, a4)"
    by (auto simp: record_policy_decision_def retS_def elim!: bindS_InrE)
  have "holds a4 ''policy_decisions'' ?fs"
    by (rule append_holds [OF v3 with_scope_field_wf [OF plain_rows_wf(2)] _ app])
      (simp_all add: LEDGER_COLLECTIONS_def with_scope_field_def policy_decision_to_dict_def dget_def)
  moreover have "dwf payload"
    using hav_receipt_dict_wf [OF wfe] by (simp add: payload enrich_receipt_def receipt hav_verify_def hav_receipt_create_def
        Let_def hav_decide_def claim_ids_of_def)
  then have evwf: "dwf (evidence_to_dict (signed_evidence H mac key ?ev t p))"
    by (intro evidence_row_wf) (simp add: receipt_evidence_def receipt_sign_def Let_def split: option.split)
  from ev obtain u' where app': "legacy_append rd wr H ''evidence'' (evidence_to_dict (signed_evidence H mac key ?ev t p)) ''evidence_id'' a4 = (Inr u', s')"
    by (auto simp: register_evidence_def Let_def retS_def elim!: bindS_InrE)
  ultimately have "holds s' ''policy_decisions'' ?fs"
    by (intro append_keeps_row [OF v4 evwf _ app']) (simp_all add: LEDGER_COLLECTIONS_def)
  then show ?thesis by (simp add: x dfields)
qed

end

text \<open>C33: recording a verification in a JSON ledger, whatever was recorded before, leaves chains that verify, also when it raises in the middle.
  Where it returns, the ledger holds the policy decision on the text with the effect of the verdict, so \<open>allow\<close> for \<open>PASS\<close> only; and the
  receipt it returns names the caller's tenant and project, authorises no execution, and carries a signature that verifies where the service has a
  signer.\<close>

theorem hav_recording_governed:
  assumes "list_all (\<lambda>(t, p, op). op_wf op) ops" "s = run_ops json_read_all json_write_all H mac key ops (JObj [])"
    and "list_all fact_wf (hs_evidence state)" "list_all hav_claim_wf (extractor candidate)" "ascii_mac mac"
    and "verify_and_record json_read_all json_write_all H mac key signer extractor fresh candidate state issuer t p subject s = (r, s')"
  shows "(\<exists>n heads. verify_chain json_read_all H s' = Inr (ChainValid n heads)) \<and>
    (case r of Inl e \<Rightarrow> True | Inr x \<Rightarrow>
      let verdict = hr_verdict (hav_verify H (fresh ''hav_receipt'' 0) extractor candidate state) in
      (\<exists>rows. json_read_all s' = Inr rows \<and> holds_row rows ''policy_decisions'' [(''decision_id'', hx_policy_decision_id x),
         (''action_id'', hx_action_id x), (''effect'', decision_effect_value (map_effect verdict))]) \<and>
      (decision_effect_value (map_effect verdict) = ''allow'' \<longrightarrow> verdict = V_PASS) \<and>
      (\<exists>g. map_of (hx_signed_receipt x) ''governance'' = Some (JObj g) \<and> dget g ''execution_authorized'' = JBool False \<and>
         dget g ''tenant_id'' = JStr t \<and> dget g ''project_id'' = JStr p) \<and>
      (\<forall>sg. signer = Some sg \<longrightarrow> receipt_verify mac sg (hx_signed_receipt x) = Inr True))"
proof -
  have v: "json_rows.valid H s" unfolding assms(2) by (rule json_rows.run_ops_valid [OF assms(1) json_empty_valid])
  have v': "json_rows.valid H s'"
    by (rule json_rows.keepsD [OF json_rows.keeps_verify_and_record [where extractor = extractor and candidate = candidate, OF assms(3,4)] v assms(6)])
  define receipt where "receipt = hav_verify H (fresh ''hav_receipt'' 0) extractor candidate state"
  define payload where "payload = enrich_receipt H (hav_receipt_to_dict receipt) t p issuer subject"
  have effect: "decision_effect_value (map_effect w) = ''allow'' \<Longrightarrow> w = V_PASS" for w by (cases w) simp_all
  have governed: "\<exists>g. map_of (case signer of None \<Rightarrow> payload | Some sg \<Rightarrow> receipt_sign mac sg payload) ''governance'' = Some (JObj g) \<and>
      dget g ''execution_authorized'' = JBool False \<and> dget g ''tenant_id'' = JStr t \<and> dget g ''project_id'' = JStr p"
    by (cases signer) (simp_all add: payload_def enrich_receipt_def receipt_sign_def Let_def dget_def)
  have signed: "receipt_verify mac sg (receipt_sign mac sg payload) = Inr True" for sg
    using assms(5) by (intro receipt_sign_verify) (simp add: ascii_mac_def)
  show ?thesis
  proof (cases r)
    case (Inl e)
    with json_rows.valid_verifies [OF v'] show ?thesis by simp
  next
    case (Inr x)
    from json_rows.record_run [where extractor = extractor and candidate = candidate, OF v assms(3,4) assms(6) [unfolded Inr] receipt_def payload_def]
    show ?thesis
      using Inr json_rows.valid_verifies [OF v'] effect governed signed
      by (auto simp: json_rows.holds_def receipt_def [symmetric] Let_def)
  qed
qed

text \<open>A text without claims: every collection it writes to is empty.\<close>

definition demo_hav_run :: "(json, hav_result) act" where
  "demo_hav_run = verify_and_record json_read_all json_write_all demo_hash (\<lambda>k s. ''m'') None (Some \<lparr>rs_key = ''k'', rs_key_id = ''kid''\<rparr>)
     (\<lambda>_. []) (\<lambda>k n. (k, ''now'')) ''hello'' (authoritative_state_create (''s'', ''now'') ''ci'' []) ''agent'' ''t'' ''p'' ''eve''"

lemma json_append_first:
  assumes v: "json_rows.valid H s" and p: "json_read_all s = Inr rows" "map_of rows c = Some []"
    and row: "dwf row" and c: "c \<in> set LEDGER_COLLECTIONS"
  obtains x s' rows' where "legacy_append json_read_all json_write_all H c row k s = (Inr x, s')" "json_rows.valid H s'"
    "json_read_all s' = Inr rows'"
    "\<And>c'. c' \<in> set LEDGER_COLLECTIONS \<Longrightarrow> c' \<noteq> c \<Longrightarrow> map_of rows c' = Some [] \<Longrightarrow> map_of rows' c' = Some []"
proof -
  have "\<exists>x s'. legacy_append json_read_all json_write_all H c row k s = (Inr x, s')"
    using p by (simp add: legacy_append_def bindS_def readS_def liftS_def retS_def collection_rows_def add_row_def
        last_chain_hash_def json_write_all_def Let_def del: canon.simps)
  then obtain x s' where run: "legacy_append json_read_all json_write_all H c row k s = (Inr x, s')" by blast
  from json_rows.append_writes [OF v row c run] p obtain stored rows' where
    q: "json_read_all s' = Inr rows'" "same_rows rows' (dset rows c [stored])" by (metis append_Nil option.inject sum.inject(2))
  have "map_of rows' c' = Some []" if "c' \<in> set LEDGER_COLLECTIONS" "c' \<noteq> c" "map_of rows c' = Some []" for c'
    using q(2) that unfolding same_rows_def by (fastforce dest: bspec)
  from that [OF run json_rows.append_valid [OF v row c run] q(1) this] show thesis .
qed

lemma demo_hav_returns: "\<not> isl (fst (demo_hav_run (JObj [])))"
proof -
  let ?r = "hav_verify demo_hash (''hav_receipt'', ''now'') (\<lambda>_. []) ''hello'' (authoritative_state_create (''s'', ''now'') ''ci'' [])"
  let ?a = "accept_action (\<lambda>k n. (k, ''now'')) ?r []"
  have none: "verify_claims [] st = []" for st by (simp add: verify_claims_def)
  have e: "hr_evaluations ?r = []" by (simp add: hav_evaluations none)
  obtain d where d: "accept_decision demo_hash (\<lambda>k n. (k, ''now'')) ?r (ac_id ?a) = Inr d"
    by (simp add: accept_decision_def decision_reasons_def hav_verify_def hav_receipt_create_def Let_def dindex_def)
  let ?payload = "enrich_receipt demo_hash (hav_receipt_to_dict ?r) ''t'' ''p'' ''agent'' ''eve''"
  let ?ev = "receipt_evidence (\<lambda>k n. (k, ''now'')) 0 ?r (receipt_sign (\<lambda>k s. ''m'') \<lparr>rs_key = ''k'', rs_key_id = ''kid''\<rparr> ?payload)"
  have wf: "dwf ?payload"
    unfolding enrich_receipt_def by (intro dwf_dset hav_verify_dict_wf) (simp_all add: jstrs_def)
  have evwf: "dwf (evidence_to_dict (signed_evidence demo_hash (\<lambda>k s. ''m'') None ?ev ''t'' ''p''))"
    using wf by (intro evidence_row_wf) (simp add: receipt_evidence_def receipt_sign_def Let_def)
  have cs: "''actions'' \<in> set LEDGER_COLLECTIONS" "''policy_decisions'' \<in> set LEDGER_COLLECTIONS" "''evidence'' \<in> set LEDGER_COLLECTIONS"
    by (simp_all add: LEDGER_COLLECTIONS_def)
  have start: "json_read_all (JObj []) = Inr (set_defaults LEDGER_COLLECTIONS [])" by (simp add: json_read_all_def)
  have empty: "c \<in> set LEDGER_COLLECTIONS \<Longrightarrow> map_of (set_defaults LEDGER_COLLECTIONS []) c = Some []" for c
    by (simp add: map_of_set_defaults)
  have awf: "dwf (with_scope_field (action_to_dict ?a) ''t'' ''p'')"
    by (intro with_scope_field_wf plain_rows_wf) (simp add: accept_action_def)
  have dwf': "dwf (with_scope_field (policy_decision_to_dict d) ''t'' ''p'')"
    by (intro with_scope_field_wf plain_rows_wf)
  obtain x1 s1 p1 where
    one: "legacy_append json_read_all json_write_all demo_hash ''actions'' (with_scope_field (action_to_dict ?a) ''t'' ''p'') ''action_id'' (JObj []) = (Inr x1, s1)"
      "json_rows.valid demo_hash s1" "json_read_all s1 = Inr p1"
      and keep1: "\<And>c'. c' \<in> set LEDGER_COLLECTIONS \<Longrightarrow> c' \<noteq> ''actions'' \<Longrightarrow> map_of (set_defaults LEDGER_COLLECTIONS []) c' = Some [] \<Longrightarrow> map_of p1 c' = Some []"
    by (rule json_append_first [where k = "''action_id''", OF json_empty_valid start empty [OF cs(1)] awf cs(1)]) (rule that)
  have p1: "map_of p1 ''policy_decisions'' = Some []" "map_of p1 ''evidence'' = Some []"
    by (rule keep1; simp add: cs empty)+
  obtain x2 s2 p2 where
    two: "legacy_append json_read_all json_write_all demo_hash ''policy_decisions'' (with_scope_field (policy_decision_to_dict d) ''t'' ''p'') ''decision_id'' s1 = (Inr x2, s2)"
      "json_rows.valid demo_hash s2" "json_read_all s2 = Inr p2"
      and keep2: "\<And>c'. c' \<in> set LEDGER_COLLECTIONS \<Longrightarrow> c' \<noteq> ''policy_decisions'' \<Longrightarrow> map_of p1 c' = Some [] \<Longrightarrow> map_of p2 c' = Some []"
    by (rule json_append_first [where k = "''decision_id''", OF one(2,3) p1(1) dwf' cs(2)]) (rule that)
  have p2: "map_of p2 ''evidence'' = Some []"
    by (rule keep2) (simp_all add: cs p1)
  obtain x3 s3 where
    three: "legacy_append json_read_all json_write_all demo_hash ''evidence'' (evidence_to_dict (signed_evidence demo_hash (\<lambda>k s. ''m'') None ?ev ''t'' ''p'')) ''evidence_id'' s2 = (Inr x3, s3)"
    by (rule json_append_first [where k = "''evidence_id''", OF two(2,3) p2 evwf cs(3)]) (rule that)
  have act: "register_action json_read_all json_write_all demo_hash ?a ''t'' ''p'' (JObj []) = (Inr ?a, s1)"
    unfolding register_action_def bindS_def using one(1) by (simp add: retS_def)
  have dec: "record_policy_decision json_read_all json_write_all demo_hash d ''t'' ''p'' s1 = (Inr d, s2)"
    unfolding record_policy_decision_def bindS_def using two(1) by (simp add: retS_def)
  have ev: "fst (register_evidence json_read_all json_write_all demo_hash (\<lambda>k s. ''m'') None ?ev ''t'' ''p'' s2) \<noteq> Inl e" for e
    unfolding register_evidence_def bindS_def Let_def using three by (simp add: retS_def)
  have facts: "hs_evidence (authoritative_state_create (''s'', ''now'') ''ci'' []) = []" by (simp add: authoritative_state_create_def)
  obtain reg s3 where ev: "register_evidence json_read_all json_write_all demo_hash (\<lambda>k s. ''m'') None ?ev ''t'' ''p'' s2 = (Inr reg, s3)"
    using ev by (metis sum.exhaust surj_pair fst_conv)
  show ?thesis
    unfolding demo_hav_run_def verify_and_record_def Let_def e facts record_facts.simps record_evaluations.simps list.size
    by (simp add: bindS_def retS_def liftS_def act dec d ev)
qed

text \<open>The recording of a text without claims in an empty ledger returns, and what the ledger then holds.\<close>

theorem hav_recording_governed_witness:
  "\<exists>x s'. demo_hav_run (JObj []) = (Inr x, s') \<and> receipt_verify (\<lambda>k s. ''m'') \<lparr>rs_key = ''k'', rs_key_id = ''kid''\<rparr> (hx_signed_receipt x) = Inr True"
proof -
  obtain x s' where run: "demo_hav_run (JObj []) = (Inr x, s')"
    using demo_hav_returns by (cases "demo_hav_run (JObj [])"; cases "fst (demo_hav_run (JObj []))") auto
  have start: "JObj [] = run_ops json_read_all json_write_all demo_hash (\<lambda>k s. ''m'') None [] (JObj [])" by simp
  have wf: "list_all fact_wf (hs_evidence (authoritative_state_create (''s'', ''now'') ''ci'' []))" "list_all hav_claim_wf []"
    by (simp_all add: authoritative_state_create_def)
  have mac: "ascii_mac (\<lambda>k s. ''m'')" by (simp add: ascii_mac_def is_ascii_def)
  have no_ops: "list_all (\<lambda>(t, p, op). op_wf op) []" by simp
  from hav_recording_governed [OF no_ops start wf mac run [unfolded demo_hav_run_def]] run show ?thesis
    by (auto simp: Let_def)
qed

end
