(* ===== verification/Grdi_Api.thy ===== *)
theory Grdi_Api
  imports Grdi_Replay_Service Core_Guards
begin

text \<open>
  Model of \<^verbatim>\<open>src/src/phigraph/grdi/api.py\<close>: the routes of \<^verbatim>\<open>/v4/grdi\<close>. A request is a call with its parsed
  body and its idempotency key, if any; it passes the guards, then its handler calls the service and turns exceptions
  into HTTP errors. Parsing of paths and bodies, with the length constraints of the fields, is the framework's: the model begins with
  parsed bodies. The state is that of the guards, the file of responses and the engine. Index 9 of the world is the
  identifier and the time of what a handler itself makes.
\<close>

section \<open>Bodies\<close>

record decision_envelope_request =
  qe_domain :: string
  qe_decision_type :: string
  qe_subject :: string
  qe_proposed_action :: pdict
  qe_hav_receipt :: pdict
  qe_required_authority :: string
  qe_risk_level :: string
  qe_graph_context :: pdict
  qe_claim_ids :: "string list"
  qe_evidence_ids :: "string list"

record authorization_request =
  qa_approved :: "bool option"
  qa_rationale :: string

record execution_plan_request =
  qp_envelope_id :: string
  qp_authority_decision_id :: string
  qp_requested_action :: pdict
  qp_expected_effects :: "string list"
  qp_rollback_strategy :: pdict

record effect_assessment_request =
  qf_expected_effect :: string
  qf_simulated_observation :: string
  qf_state :: effect_state
  qf_evidence_refs :: "string list"
  qf_rationale :: string

record shadow_outcome_request =
  qo_effect_assessments :: "effect_assessment_request list"
  qo_metrics :: pdict
  qo_limitations :: "string list"

record replay_comparison_request =
  qr_baseline_replay_id :: string
  qr_candidate_replay_id :: string

section \<open>Exceptions as responses\<close>

text \<open>\<open>str(exc)\<close> of a \<open>KeyError\<close> is the \<open>repr\<close> of its key.\<close>

fun not_found :: "err \<Rightarrow> err" where
  "not_found (KeyError m) = HTTPException 404 (repr_str m)"
| "not_found e = e"

fun not_found_or :: "(string \<Rightarrow> int) \<Rightarrow> err \<Rightarrow> err" where
  "not_found_or status (KeyError m) = HTTPException 404 (repr_str m)"
| "not_found_or status (ValueError m) = HTTPException (status m) m"
| "not_found_or status e = e"

definition outcome_status :: "string \<Rightarrow> int" where
  "outcome_status detail = (if detail \<in> {''expected_effect_required'', ''simulated_observation_required'',
     ''duplicate_expected_effect''} then 422 else 409)"

definition with_errors :: "(err \<Rightarrow> err) \<Rightarrow> ('s, 'a) act \<Rightarrow> ('s, 'a) act" where
  "with_errors f m = tryS m (\<lambda>e. failS (f e))"

definition as_object :: "('s, pdict) act \<Rightarrow> ('s, json) act" where
  "as_object m = bindS m (\<lambda>d. retS (JObj d))"

section \<open>State\<close>

record api =
  ap_auth :: auth_state
  ap_responses :: pdict
  ap_engine :: engine

text \<open>A handler that only reads the engine, and one that runs under an idempotency key.\<close>

definition on_engine :: "(engine \<Rightarrow> 'a res) \<Rightarrow> (api, 'a) act" where
  "on_engine f = readS (\<lambda>st. f (ap_engine st))"

definition keyed ::
  "world \<Rightarrow> principal \<Rightarrow> string option \<Rightarrow> pdict \<Rightarrow> (engine, json) act \<Rightarrow> string \<Rightarrow> (api, json) act" where
  "keyed w identity idem_key payload operation operation_name st =
     (case idempotent (wd_hash w) idem_key (JObj payload) operation operation_name (pr_tenant_id identity)
        (pr_project_id identity) (as_counters (ap_auth st), ap_responses st, ap_engine st) of
      (r, (c, rows, eng)) \<Rightarrow> (r, st\<lparr>ap_auth := (ap_auth st)\<lparr>as_counters := c\<rparr>, ap_responses := rows, ap_engine := eng\<rparr>))"

section \<open>Routes\<close>

definition health :: "principal \<Rightarrow> pdict" where
  "health identity = [
     (''status'', JStr ''ok''), (''component'', JStr ''grdi-foundation''), (''grdi_version'', JStr GRDI_VERSION),
     (''core_version'', JStr CORE_VERSION), (''protocol_version'', JStr PROTOCOL_VERSION),
     (''tenant_id'', JStr (pr_tenant_id identity)), (''project_id'', JStr (pr_project_id identity)),
     (''execution_gateway'', JStr ''shadow_v0.1''), (''outcome_ledger'', JStr ''shadow_v0.1''),
     (''outcome_ledger_protocol'', JStr GRDI_OUTCOME_LEDGER_PROTOCOL_VERSION), (''replay_audit'', JStr ''v0.1''),
     (''replay_audit_protocol'', JStr GRDI_REPLAY_AUDIT_PROTOCOL_VERSION)]"

definition envelope_request_dump :: "decision_envelope_request \<Rightarrow> pdict" where
  "envelope_request_dump body = [
     (''domain'', JStr (qe_domain body)), (''decision_type'', JStr (qe_decision_type body)),
     (''subject'', JStr (qe_subject body)), (''proposed_action'', JObj (qe_proposed_action body)),
     (''hav_receipt'', JObj (qe_hav_receipt body)), (''required_authority'', JStr (qe_required_authority body)),
     (''risk_level'', JStr (qe_risk_level body)), (''graph_context'', JObj (qe_graph_context body)),
     (''claim_ids'', jstrs (qe_claim_ids body)), (''evidence_ids'', jstrs (qe_evidence_ids body))]"

definition requested_envelope :: "world \<Rightarrow> principal \<Rightarrow> decision_envelope_request \<Rightarrow> decision_envelope res" where
  "requested_envelope w identity body = decision_envelope_init
     \<lparr>de_envelope_id = wd_id w 9, de_tenant_id = pr_tenant_id identity, de_project_id = pr_project_id identity,
      de_domain = qe_domain body, de_decision_type = qe_decision_type body, de_subject = qe_subject body,
      de_proposed_by = pr_subject identity, de_proposed_action = qe_proposed_action body,
      de_hav_receipt = qe_hav_receipt body, de_required_authority = qe_required_authority body,
      de_risk_level = qe_risk_level body, de_graph_context = qe_graph_context body, de_claim_ids = qe_claim_ids body,
      de_evidence_ids = qe_evidence_ids body, de_verification_state = VS_NOT_VERIFIED, de_authorization_state = AS_NOT_AUTHORIZED,
      de_executability_state = XS_NOT_EXECUTABLE, de_execution_state = ES_NOT_EXECUTED, de_created_at = wd_now w 9,
      de_version = GRDI_VERSION\<rparr>"

definition create_envelope ::
  "world \<Rightarrow> principal \<Rightarrow> decision_envelope_request \<Rightarrow> string option \<Rightarrow> (api, json) act" where
  "create_envelope w identity body idem_key = keyed w identity idem_key
     (envelope_request_dump body @ [(''tenant_id'', JStr (pr_tenant_id identity)),
       (''project_id'', JStr (pr_project_id identity)), (''proposed_by'', JStr (pr_subject identity))])
     (bindS (with_errors (\<lambda>e. case e of ValueError m \<Rightarrow> HTTPException 422 m | _ \<Rightarrow> e)
        (liftS (requested_envelope w identity body))) (\<lambda>envelope.
      bindS (register_envelope w envelope) (\<lambda>registered. retS (JObj (decision_envelope_to_dict registered)))))
     ''grdi.envelope.create''"

definition route_get_envelope :: "world \<Rightarrow> principal \<Rightarrow> string \<Rightarrow> (api, json) act" where
  "route_get_envelope w identity envelope_id = with_errors not_found
     (bindS (on_engine (get_envelope w envelope_id (pr_tenant_id identity) (pr_project_id identity))) (\<lambda>envelope.
      retS (JObj (decision_envelope_to_dict envelope))))"

definition request_approvals :: "world \<Rightarrow> principal \<Rightarrow> authorization_request \<Rightarrow> approval list" where
  "request_approvals w identity body = (case qa_approved body of None \<Rightarrow> []
     | Some approved \<Rightarrow> [\<lparr>ap_approver = pr_subject identity, ap_role = role_value (pr_role identity), ap_approved = approved,
         ap_approved_at = wd_now w 9, ap_rationale = qa_rationale body\<rparr>])"

definition route_authorize ::
  "world \<Rightarrow> principal \<Rightarrow> string \<Rightarrow> authorization_request \<Rightarrow> string option \<Rightarrow> (api, json) act" where
  "route_authorize w identity envelope_id body idem_key = keyed w identity idem_key
     [(''envelope_id'', JStr envelope_id),
      (''approved'', case qa_approved body of None \<Rightarrow> JNull | Some b \<Rightarrow> JBool b),
      (''rationale'', JStr (qa_rationale body)), (''authority_subject'', JStr (pr_subject identity)),
      (''authority_role'', JStr (role_value (pr_role identity))), (''tenant_id'', JStr (pr_tenant_id identity)),
      (''project_id'', JStr (pr_project_id identity))]
     (with_errors not_found
       (bindS (authorize w envelope_id (pr_tenant_id identity) (pr_project_id identity) (pr_subject identity)
          (role_value (pr_role identity)) (request_approvals w identity body)) (\<lambda>decision.
        retS (JObj (authority_decision_to_dict decision)))))
     ''grdi.envelope.authorize''"

definition route_create_plan ::
  "world \<Rightarrow> principal \<Rightarrow> execution_plan_request \<Rightarrow> string option \<Rightarrow> (api, json) act" where
  "route_create_plan w identity body idem_key = keyed w identity idem_key
     [(''envelope_id'', JStr (qp_envelope_id body)), (''authority_decision_id'', JStr (qp_authority_decision_id body)),
      (''requested_action'', JObj (qp_requested_action body)), (''expected_effects'', jstrs (qp_expected_effects body)),
      (''rollback_strategy'', JObj (qp_rollback_strategy body)), (''tenant_id'', JStr (pr_tenant_id identity)),
      (''project_id'', JStr (pr_project_id identity)), (''requested_by'', JStr (pr_subject identity))]
     (with_errors (not_found_or (\<lambda>_. 422)) (as_object
       (create_execution_plan w (qp_envelope_id body) (qp_authority_decision_id body) (pr_tenant_id identity)
          (pr_project_id identity) (pr_subject identity) (qp_requested_action body) (qp_expected_effects body)
          (Some (qp_rollback_strategy body)))))
     ''grdi.execution_plan.create''"

definition route_simulate :: "world \<Rightarrow> principal \<Rightarrow> string \<Rightarrow> string option \<Rightarrow> (api, json) act" where
  "route_simulate w identity plan_id idem_key = keyed w identity idem_key
     [(''plan_id'', JStr plan_id), (''tenant_id'', JStr (pr_tenant_id identity)),
      (''project_id'', JStr (pr_project_id identity))]
     (with_errors (not_found_or (\<lambda>_. 409)) (as_object
       (simulate_execution_plan w plan_id (pr_tenant_id identity) (pr_project_id identity))))
     ''grdi.execution_plan.simulate''"

definition request_assessment :: "effect_assessment_request \<Rightarrow> effect_assessment" where
  "request_assessment item = \<lparr>ea_expected_effect = qf_expected_effect item,
     ea_simulated_observation = qf_simulated_observation item, ea_state = qf_state item,
     ea_evidence_refs = qf_evidence_refs item, ea_rationale = qf_rationale item\<rparr>"

definition assessment_request_dump :: "effect_assessment_request \<Rightarrow> pdict" where
  "assessment_request_dump item = [
     (''expected_effect'', JStr (qf_expected_effect item)),
     (''simulated_observation'', JStr (qf_simulated_observation item)),
     (''state'', JStr (effect_state_value (qf_state item))), (''evidence_refs'', jstrs (qf_evidence_refs item)),
     (''rationale'', JStr (qf_rationale item))]"

definition route_record_outcome ::
  "world \<Rightarrow> principal \<Rightarrow> string \<Rightarrow> shadow_outcome_request \<Rightarrow> string option \<Rightarrow> (api, json) act" where
  "route_record_outcome w identity plan_id body idem_key = keyed w identity idem_key
     [(''plan_id'', JStr plan_id),
      (''effect_assessments'', JArr (map (JObj \<circ> assessment_request_dump) (qo_effect_assessments body))),
      (''metrics'', JObj (qo_metrics body)), (''limitations'', jstrs (qo_limitations body)),
      (''tenant_id'', JStr (pr_tenant_id identity)), (''project_id'', JStr (pr_project_id identity)),
      (''recorded_by'', JStr (pr_subject identity))]
     (with_errors (not_found_or outcome_status) (as_object
       (record_shadow_outcome w plan_id (pr_tenant_id identity) (pr_project_id identity) (pr_subject identity)
          (map request_assessment (qo_effect_assessments body)) (Some (qo_metrics body)) (qo_limitations body))))
     ''grdi.shadow_outcome.record''"

definition route_create_replay :: "world \<Rightarrow> principal \<Rightarrow> string \<Rightarrow> string option \<Rightarrow> (api, json) act" where
  "route_create_replay w identity plan_id idem_key = keyed w identity idem_key
     [(''plan_id'', JStr plan_id), (''tenant_id'', JStr (pr_tenant_id identity)),
      (''project_id'', JStr (pr_project_id identity)), (''requested_by'', JStr (pr_subject identity))]
     (with_errors (not_found_or (\<lambda>_. 409)) (as_object
       (create_replay_report w plan_id (pr_tenant_id identity) (pr_project_id identity) (pr_subject identity))))
     ''grdi.replay.create''"

definition route_compare :: "world \<Rightarrow> principal \<Rightarrow> replay_comparison_request \<Rightarrow> string option \<Rightarrow> (api, json) act" where
  "route_compare w identity body idem_key = keyed w identity idem_key
     [(''baseline_replay_id'', JStr (qr_baseline_replay_id body)),
      (''candidate_replay_id'', JStr (qr_candidate_replay_id body)), (''tenant_id'', JStr (pr_tenant_id identity)),
      (''project_id'', JStr (pr_project_id identity)), (''requested_by'', JStr (pr_subject identity))]
     (with_errors (not_found_or (\<lambda>_. 409)) (as_object
       (compare_replays w (qr_baseline_replay_id body) (qr_candidate_replay_id body) (pr_tenant_id identity)
          (pr_project_id identity) (pr_subject identity))))
     ''grdi.replay.compare''"

text \<open>The routes that read: one row of the scope, by one of the readers of the service.\<close>

definition route_read ::
  "principal \<Rightarrow> (string \<Rightarrow> string \<Rightarrow> engine \<Rightarrow> pdict res) \<Rightarrow> (api, json) act" where
  "route_read identity reader = with_errors (not_found_or (\<lambda>_. 409)) (as_object
     (on_engine (reader (pr_tenant_id identity) (pr_project_id identity))))"

text \<open>The plan is looked up first, and only that is inside the \<open>try\<close>.\<close>

definition route_list_replays :: "world \<Rightarrow> principal \<Rightarrow> string \<Rightarrow> (api, json) act" where
  "route_list_replays w identity plan_id =
     bindS (with_errors (not_found_or (\<lambda>_. 409))
       (bindS (on_engine (get_execution_plan w plan_id (pr_tenant_id identity) (pr_project_id identity))) (\<lambda>self_check.
        liftS (dindex self_check ''plan_id'')))) (\<lambda>_.
     bindS (on_engine (list_replays_for_plan w plan_id (pr_tenant_id identity) (pr_project_id identity))) (\<lambda>rows.
     retS (JArr (map JObj rows))))"

section \<open>Requests\<close>

datatype grdi_call =
    GetHealth
  | PostEnvelope decision_envelope_request "string option"
  | GetEnvelope string
  | PostAuthorize string authorization_request "string option"
  | PostPlan execution_plan_request "string option"
  | GetPlan string
  | PostSimulate string "string option"
  | PostOutcome string shadow_outcome_request "string option"
  | GetOutcome string
  | GetPlanOutcome string
  | PostReplay string "string option"
  | GetReplay string
  | GetPlanReplays string
  | PostComparison replay_comparison_request "string option"
  | GetComparison string

fun call_permission :: "grdi_call \<Rightarrow> string" where
  "call_permission (PostEnvelope body key) = ''grdi:create''"
| "call_permission (PostAuthorize envelope_id body key) = ''grdi:authorize''"
| "call_permission (PostPlan body key) = ''grdi:plan''"
| "call_permission (PostSimulate plan_id key) = ''grdi:simulate''"
| "call_permission (PostOutcome plan_id body key) = ''grdi:record_outcome''"
| "call_permission (PostReplay plan_id key) = ''grdi:replay''"
| "call_permission (PostComparison body key) = ''grdi:compare''"
| "call_permission _ = ''read''"

fun grdi_handle :: "world \<Rightarrow> principal \<Rightarrow> grdi_call \<Rightarrow> (api, json) act" where
  "grdi_handle w identity GetHealth = retS (JObj (health identity))"
| "grdi_handle w identity (PostEnvelope body key) = create_envelope w identity body key"
| "grdi_handle w identity (GetEnvelope envelope_id) = route_get_envelope w identity envelope_id"
| "grdi_handle w identity (PostAuthorize envelope_id body key) = route_authorize w identity envelope_id body key"
| "grdi_handle w identity (PostPlan body key) = route_create_plan w identity body key"
| "grdi_handle w identity (GetPlan plan_id) = route_read identity (get_execution_plan w plan_id)"
| "grdi_handle w identity (PostSimulate plan_id key) = route_simulate w identity plan_id key"
| "grdi_handle w identity (PostOutcome plan_id body key) = route_record_outcome w identity plan_id body key"
| "grdi_handle w identity (GetOutcome outcome_id) = route_read identity (get_shadow_outcome w outcome_id)"
| "grdi_handle w identity (GetPlanOutcome plan_id) = route_read identity (get_outcome_for_plan w plan_id)"
| "grdi_handle w identity (PostReplay plan_id key) = route_create_replay w identity plan_id key"
| "grdi_handle w identity (GetReplay replay_id) = route_read identity (get_replay_report w replay_id)"
| "grdi_handle w identity (GetPlanReplays plan_id) = route_list_replays w identity plan_id"
| "grdi_handle w identity (PostComparison body key) = route_compare w identity body key"
| "grdi_handle w identity (GetComparison comparison_id) = route_read identity (get_historical_comparison w comparison_id)"

text \<open>The identity of a key where the router is given none.\<close>

definition grdi_key_identity :: "server_identity option \<Rightarrow> server_identity" where
  "grdi_key_identity given_identity = (case given_identity of Some i \<Rightarrow> i | None \<Rightarrow> ApiKeyIdentity\<lparr>si_role := VERIFIER\<rparr>)"

text \<open>One request; as for \<open>guarded\<close>, no result stands for a limiter whose loop does not end.\<close>

definition grdi_request ::
  "auth_config \<Rightarrow> rat \<Rightarrow> rat \<Rightarrow> world \<Rightarrow> request_headers \<Rightarrow> grdi_call \<Rightarrow> api \<Rightarrow> (json res \<times> api) option" where
  "grdi_request cfg now timestamp w rq call st =
     (case guarded cfg now timestamp (call_permission call) rq (ap_auth st) of
        None \<Rightarrow> None
      | Some (Inl e, a) \<Rightarrow> Some (Inl e, st\<lparr>ap_auth := a\<rparr>)
      | Some (Inr identity, a) \<Rightarrow> Some (grdi_handle w identity call (st\<lparr>ap_auth := a\<rparr>)))"

end
