(* ===== verification/Api_Properties.thy ===== *)
theory Api_Properties
  imports Grdi_Api Grdi_Service_Properties Guard_Properties
begin

text \<open>
  The properties of the routes: any sequence of requests leaves chains that verify, the requests of one tenant and project do not
  touch what another reads, and a repeated request is answered from the first one's response.
\<close>

section \<open>Handlers as programs of one scope\<close>

lemma moves_with_errors: "moves H R P m \<Longrightarrow> moves H R P (with_errors f m)"
  unfolding with_errors_def by (intro moves_try moves_fail)

lemma moves_as_object: "moves H R P m \<Longrightarrow> moves H R (\<lambda>_. True) (as_object m)"
  unfolding as_object_def by (rule moves_bind, assumption) (rule moves_ret, simp)

text \<open>A parsed body is a Python value: the keys of its dictionaries are distinct.\<close>

fun call_wf :: "grdi_call \<Rightarrow> bool" where
  "call_wf (PostEnvelope body key) \<longleftrightarrow> dwf (qe_proposed_action body) \<and> dwf (qe_hav_receipt body) \<and> dwf (qe_graph_context body)"
| "call_wf (PostPlan body key) \<longleftrightarrow> dwf (qp_requested_action body) \<and> dwf (qp_rollback_strategy body)"
| "call_wf (PostOutcome plan_id body key) \<longleftrightarrow> dwf (qo_metrics body)"
| "call_wf _ \<longleftrightarrow> True"

lemma requested_envelope_scope:
  assumes "requested_envelope w identity body = Inr e"
  shows "de_tenant_id e = pr_tenant_id identity" "de_project_id e = pr_project_id identity"
    "dwf (qe_proposed_action body) \<Longrightarrow> dwf (qe_hav_receipt body) \<Longrightarrow> dwf (qe_graph_context body) \<Longrightarrow> dwf (decision_envelope_to_dict e)"
  using assms by (auto simp: requested_envelope_def decision_envelope_init_def bindE_Inr_iff decision_envelope_to_dict_def)

lemma keyed_run:
  assumes "keyed w identity k payload operation name st = (r, st')"
  shows "(\<exists>r0. operation (ap_engine st) = (r0, ap_engine st')) \<or> ap_engine st' = ap_engine st"
  using assms
  by (auto simp: keyed_def idempotent_def idempotency_run_def split: prod.splits json.splits sum.splits err.splits if_splits)

text \<open>What a handler does to the engine is a program of the caller's scope.\<close>

definition scoped_effect :: "(string \<Rightarrow> string) \<Rightarrow> principal \<Rightarrow> engine \<Rightarrow> engine \<Rightarrow> bool" where
  "scoped_effect H identity eng eng' \<longleftrightarrow> (\<exists>(op :: (engine, json) act) r.
     moves H (scope_step H (pr_tenant_id identity) (pr_project_id identity)) (\<lambda>_. True) op \<and> op eng = (r, eng'))"

lemma scoped_effect_refl [simp]: "scoped_effect H identity eng eng"
  unfolding scoped_effect_def
  by (rule exI [of _ "retS JNull"]) (auto simp: retS_def [abs_def] moves_def)

lemma keyed_effect:
  assumes "keyed w identity k payload operation name st = (r, st')"
    and "moves (wd_hash w) (scope_step (wd_hash w) (pr_tenant_id identity) (pr_project_id identity)) (\<lambda>_. True) operation"
  shows "scoped_effect (wd_hash w) identity (ap_engine st) (ap_engine st')"
  using keyed_run [OF assms(1)]
proof
  assume "\<exists>r0. operation (ap_engine st) = (r0, ap_engine st')"
  with assms(2) show ?thesis unfolding scoped_effect_def by blast
qed simp

lemma reading_keeps:
  "route_get_envelope w identity i st = (r, st') \<Longrightarrow> st' = st"
  "route_read identity f st = (r, st') \<Longrightarrow> st' = st"
  "route_list_replays w identity i st = (r, st') \<Longrightarrow> st' = st"
  by (auto simp: route_get_envelope_def route_read_def route_list_replays_def with_errors_def tryS_def failS_def as_object_def
      bindS_def on_engine_def readS_def liftS_def retS_def split: sum.splits prod.splits)

lemma handle_effect:
  assumes run: "grdi_handle w identity call st = (r, st')" and wf: "call_wf call"
    and n: "nulfree (pr_tenant_id identity)" "nulfree (pr_project_id identity)"
  shows "scoped_effect (wd_hash w) identity (ap_engine st) (ap_engine st')"
proof (cases call)
  case (PostEnvelope body k)
  have "moves (wd_hash w) (scope_step (wd_hash w) (pr_tenant_id identity) (pr_project_id identity)) (\<lambda>_. True)
     (bindS (with_errors f (liftS (requested_envelope w identity body))) (\<lambda>envelope.
      bindS (register_envelope w envelope) (\<lambda>registered. retS (JObj (decision_envelope_to_dict registered)))))" for f
  proof (rule moves_bind [where P = "\<lambda>e. requested_envelope w identity body = Inr e"])
    fix e assume e: "requested_envelope w identity body = Inr e"
    have "moves (wd_hash w) (scope_step (wd_hash w) (de_tenant_id e) (de_project_id e)) (\<lambda>x. x = e) (register_envelope w e)"
      using wf n requested_envelope_scope [OF e] by (intro moves_register_envelope) (simp_all add: PostEnvelope)
    then show "moves (wd_hash w) (scope_step (wd_hash w) (pr_tenant_id identity) (pr_project_id identity)) (\<lambda>_. True)
        (bindS (register_envelope w e) (\<lambda>registered. retS (JObj (decision_envelope_to_dict registered))))"
      using requested_envelope_scope [OF e] by (auto intro: moves_bind moves_ret)
  qed (auto intro: moves_with_errors moves_lift)
  with run show ?thesis unfolding PostEnvelope grdi_handle.simps create_envelope_def by (rule keyed_effect)
next
  case (PostAuthorize i body k)
  show ?thesis
    by (rule keyed_effect [OF run [unfolded PostAuthorize grdi_handle.simps route_authorize_def]])
      (intro moves_with_errors moves_bind [OF moves_authorize] n moves_ret TrueI)
next
  case (PostPlan body k)
  show ?thesis
    by (rule keyed_effect [OF run [unfolded PostPlan grdi_handle.simps route_create_plan_def]])
      (intro moves_with_errors moves_as_object [OF moves_create_execution_plan] n, use wf PostPlan in simp_all)
next
  case (PostSimulate i k)
  show ?thesis
    by (rule keyed_effect [OF run [unfolded PostSimulate grdi_handle.simps route_simulate_def]])
      (intro moves_with_errors moves_as_object [OF moves_simulate] n)
next
  case (PostOutcome i body k)
  show ?thesis
    by (rule keyed_effect [OF run [unfolded PostOutcome grdi_handle.simps route_record_outcome_def]])
      (intro moves_with_errors moves_as_object [OF moves_record_outcome] n, use wf PostOutcome in simp)
next
  case (PostReplay i k)
  show ?thesis
    by (rule keyed_effect [OF run [unfolded PostReplay grdi_handle.simps route_create_replay_def]])
      (intro moves_with_errors moves_as_object [OF moves_create_replay] n)
next
  case (PostComparison body k)
  show ?thesis
    by (rule keyed_effect [OF run [unfolded PostComparison grdi_handle.simps route_compare_def]])
      (intro moves_with_errors moves_as_object [OF moves_compare_replays] n)
qed (use run in \<open>auto simp: retS_def dest: reading_keeps\<close>)

text \<open>The caller that the guards let through, if any.\<close>

definition caller_of :: "auth_config \<Rightarrow> rat \<Rightarrow> rat \<Rightarrow> request_headers \<Rightarrow> grdi_call \<Rightarrow> api \<Rightarrow> principal option" where
  "caller_of cfg now ts rq call st = (case guarded cfg now ts (call_permission call) rq (ap_auth st) of
     Some (Inr identity, a) \<Rightarrow> Some identity | _ \<Rightarrow> None)"

definition caller_nulfree :: "auth_config \<Rightarrow> rat \<Rightarrow> rat \<Rightarrow> request_headers \<Rightarrow> grdi_call \<Rightarrow> api \<Rightarrow> bool" where
  "caller_nulfree cfg now ts rq call st = (case caller_of cfg now ts rq call st of
     Some identity \<Rightarrow> nulfree (pr_tenant_id identity) \<and> nulfree (pr_project_id identity) | None \<Rightarrow> True)"

lemma request_effect:
  assumes "grdi_request cfg now ts w rq call st = Some (r, st')" "call_wf call"
    and "caller_nulfree cfg now ts rq call st"
  shows "ap_engine st' = ap_engine st \<or> (\<exists>identity. caller_of cfg now ts rq call st = Some identity \<and>
    scoped_effect (wd_hash w) identity (ap_engine st) (ap_engine st'))"
proof (cases "guarded cfg now ts (call_permission call) rq (ap_auth st)")
  case (Some z)
  obtain x a where z: "z = (x, a)" by (cases z)
  show ?thesis
  proof (cases x)
    case (Inr identity)
    with Some z assms have "grdi_handle w identity call (st\<lparr>ap_auth := a\<rparr>) = (r, st')"
      "nulfree (pr_tenant_id identity)" "nulfree (pr_project_id identity)" by (auto simp: grdi_request_def caller_nulfree_def caller_of_def)
    from handle_effect [OF this(1) assms(2) this(2,3)] Some z Inr show ?thesis by (auto simp: caller_of_def)
  qed (use assms(1) Some z in \<open>auto simp: grdi_request_def\<close>)
qed (use assms(1) in \<open>simp add: grdi_request_def\<close>)

lemma scoped_effect_engine:
  assumes "scoped_effect H identity eng eng'" "engine_ok H eng"
  shows "(engine_step H)\<^sup>*\<^sup>* eng eng' \<and> engine_ok H eng'"
    "at_rest eng \<Longrightarrow> at_rest eng' \<and> unseen (pr_tenant_id identity) (pr_project_id identity) eng eng'"
proof -
  from assms(1) obtain op :: "(engine, json) act" and r where
    op: "moves H (scope_step H (pr_tenant_id identity) (pr_project_id identity)) (\<lambda>_. True) op" "op eng = (r, eng')"
    unfolding scoped_effect_def by blast
  show "(engine_step H)\<^sup>*\<^sup>* eng eng' \<and> engine_ok H eng'" by (rule scope_movesD(1) [OF op(1) assms(2) op(2)])
  show "at_rest eng \<Longrightarrow> at_rest eng' \<and> unseen (pr_tenant_id identity) (pr_project_id identity) eng eng'"
    by (rule scope_movesD(2) [OF op(1) assms(2) op(2)])
qed

section \<open>Any sequence of requests\<close>

text \<open>One request, by anybody, with whatever headers, body and outcome, where tenants and projects have no NUL.\<close>

inductive api_step :: "(string \<Rightarrow> string) \<Rightarrow> auth_config \<Rightarrow> api \<Rightarrow> api \<Rightarrow> bool" for H cfg where
  request: "wd_hash w = H \<Longrightarrow> call_wf call
    \<Longrightarrow> caller_nulfree cfg now ts rq call st
    \<Longrightarrow> grdi_request cfg now ts w rq call st = Some (r, st') \<Longrightarrow> api_step H cfg st st'"

inductive_cases api_stepE: "api_step H cfg st st'"

text \<open>What holds between requests.\<close>

definition api_ok :: "(string \<Rightarrow> string) \<Rightarrow> api \<Rightarrow> bool" where
  "api_ok H st \<longleftrightarrow> engine_ok H (ap_engine st) \<and> at_rest (ap_engine st)"

lemma api_ok_fresh: "ap_engine st = fresh_engine \<Longrightarrow> api_ok H st"
  by (simp add: api_ok_def engine_ok_fresh at_rest_fresh)

lemma api_step_engine:
  assumes "api_step H cfg st st'" "api_ok H st"
  shows "(engine_step H)\<^sup>*\<^sup>* (ap_engine st) (ap_engine st') \<and> api_ok H st'"
  using assms(1)
proof (cases rule: api_step.cases)
  case (request w call now ts rq r)
  from request_effect [OF request(4,2,3)] request(1) assms(2) scoped_effect_engine [of H _ "ap_engine st" "ap_engine st'"]
  show ?thesis by (auto simp: api_ok_def)
qed

section \<open>What one tenant reads\<close>

text \<open>The calls that read records of the caller's scope. (The routes that read replay reports also verify chains.)\<close>

fun reads_records :: "grdi_call \<Rightarrow> bool" where
  "reads_records GetHealth = True"
| "reads_records (GetEnvelope i) = True"
| "reads_records (GetPlan i) = True"
| "reads_records (GetOutcome i) = True"
| "reads_records (GetPlanOutcome i) = True"
| "reads_records (GetComparison i) = True"
| "reads_records _ = False"

lemma readers_cong:
  assumes get: "\<And>c k. engine_get_scoped c k t p eng' = engine_get_scoped c k t p eng"
    and list: "\<And>c l n. engine_list_scoped c t p l n eng' = engine_list_scoped c t p l n eng"
  shows "get_envelope w i t p eng' = get_envelope w i t p eng" "get_execution_plan w i t p eng' = get_execution_plan w i t p eng"
    "get_shadow_outcome w i t p eng' = get_shadow_outcome w i t p eng" "get_outcome_for_plan w i t p eng' = get_outcome_for_plan w i t p eng"
    "get_historical_comparison w i t p eng' = get_historical_comparison w i t p eng"
  by (simp_all add: get_envelope_def get_execution_plan_def get_shadow_outcome_def get_outcome_for_plan_def get_historical_comparison_def
      get_execution_request_def get_gateway_decision_def get_authority_decision_def get_shadow_receipt_def list_gateway_events_def
      load_validated_shadow_receipt_def find_scoped_row_def checked_outcome_def scoped_get_def get list)

lemma handle_read_cong:
  assumes "reads_records call"
    and "\<And>c k. engine_get_scoped c k (pr_tenant_id b) (pr_project_id b) (ap_engine st') = engine_get_scoped c k (pr_tenant_id b) (pr_project_id b) (ap_engine st)"
    and "\<And>c l n. engine_list_scoped c (pr_tenant_id b) (pr_project_id b) l n (ap_engine st') = engine_list_scoped c (pr_tenant_id b) (pr_project_id b) l n (ap_engine st)"
  shows "fst (grdi_handle w b call st') = fst (grdi_handle w b call st)"
  using assms(1) readers_cong [OF assms(2,3)]
  by (cases call rule: reads_records.cases)
    (simp_all add: retS_def route_get_envelope_def route_read_def with_errors_def tryS_def failS_def as_object_def bindS_def on_engine_def
      readS_def split: sum.split)

lemma api_steps_engine:
  "(api_step H cfg)\<^sup>*\<^sup>* st st' \<Longrightarrow> api_ok H st \<Longrightarrow> (engine_step H)\<^sup>*\<^sup>* (ap_engine st) (ap_engine st') \<and> api_ok H st'"
  by (induction rule: rtranclp_induct) (auto dest: api_step_engine intro: rtranclp_trans)

section \<open>A concrete request\<close>

text \<open>A server that trusts the headers of its proxy, and a request to it that registers an envelope.\<close>

definition demo_proxy :: auth_config where
  "demo_proxy = \<lparr>ac_api_key = None, ac_trusted_identity_headers = True, ac_jwt = None, ac_oidc = None, ac_dev_api_key = None,
     ac_environment = ''development'', ac_allow_unauthenticated_dev = True, ac_api_key_identity = ApiKeyIdentity,
     ac_dev_identity = DevIdentity\<rparr>"

definition demo_headers :: request_headers where
  "demo_headers = \<lparr>rq_tenant_id = ''t'', rq_project_id = ''p'', rq_api_key = None, rq_subject = ''bob'', rq_role = ''verifier'',
     rq_issuer = ''proxy'', rq_authorization = None\<rparr>"

definition demo_caller :: principal where
  "demo_caller = \<lparr>pr_subject = ''bob'', pr_role = VERIFIER, pr_tenant_id = ''t'', pr_project_id = ''p'', pr_issuer = ''proxy''\<rparr>"

definition demo_body :: decision_envelope_request where
  "demo_body = \<lparr>qe_domain = ''d'', qe_decision_type = ''x'', qe_subject = ''s'', qe_proposed_action = [(''type'', JStr ''pay'')],
     qe_hav_receipt = demo_hav, qe_required_authority = ''verifier'', qe_risk_level = ''medium'', qe_graph_context = [],
     qe_claim_ids = [], qe_evidence_ids = []\<rparr>"

definition demo_call :: grdi_call where
  "demo_call = PostEnvelope demo_body (Some ''key'')"

definition api_world :: world where
  "api_world = demo_world\<lparr>wd_id := (\<lambda>n. ''e1''), wd_now := (\<lambda>n. ''t0'')\<rparr>"

definition demo_api :: api where
  "demo_api = \<lparr>ap_auth = \<lparr>as_counters = [], as_limiter = new_limiter 10 60, as_jwks = []\<rparr>, ap_responses = [],
     ap_engine = fresh_engine\<rparr>"

lemma live_events_length: "length (live_events lm key t) \<le> length (events_of key (rl_events lm))"
  by (simp add: live_events_def length_dropWhile_le)

lemma demo_guarded:
  assumes "rl_limit (as_limiter a) = 10" "length (events_of ''t:bob'' (rl_events (as_limiter a))) < 10"
  obtains a' where "guarded demo_proxy now ts (call_permission demo_call) demo_headers a = Some (Inr demo_caller, a')"
    "rl_limit (as_limiter a') = 10"
    "length (events_of ''t:bob'' (rl_events (as_limiter a'))) \<le> Suc (length (events_of ''t:bob'' (rl_events (as_limiter a))))"
proof -
  have "length (live_events (as_limiter a) ''t:bob'' ts) < 10"
    using assms(2) live_events_length [of "as_limiter a" "''t:bob''" ts] by simp
  with assms(1) live_events_length [of "as_limiter a" "''t:bob''" ts] show thesis
    by (intro that [of "a\<lparr>as_limiter := (as_limiter a)\<lparr>rl_events := dset (rl_events (as_limiter a)) ''t:bob''
          (live_events (as_limiter a) ''t:bob'' ts @ [ts])\<rparr>\<rparr>"])
      (auto simp: guarded_def principal_of_request_def demo_proxy_def bearer_auth_configured_def core_auth_configured_def
      server_principal_def header_principal_def demo_headers_def parse_role_def parse_enum_def enforce_rate_def rate_check_Some
      rate_answer_def require_permission_def allows_def demo_caller_def demo_call_def retS_def events_of_def)
qed

lemma demo_envelope_requested: "requested_envelope api_world demo_caller demo_body = Inr demo_decision"
  using demo_decision_init
  by (simp add: requested_envelope_def api_world_def demo_caller_def demo_body_def demo_decision_def)

lemma demo_register_api: "register_envelope api_world demo_decision fresh_engine = (Inr demo_decision, demo_registered)"
proof -
  have "register_envelope api_world demo_decision = register_envelope demo_world demo_decision"
    by (simp add: register_envelope_def api_world_def)
  then show ?thesis by (simp add: demo_register_run)
qed

lemma demo_handled:
  assumes "ap_engine st = fresh_engine" "ap_responses st = []"
  shows "\<exists>st'. grdi_handle api_world demo_caller demo_call st = (Inr (JObj (decision_envelope_to_dict demo_decision)), st') \<and>
    as_limiter (ap_auth st') = as_limiter (ap_auth st) \<and> ap_engine st' = demo_registered"
  using assms
  by (simp add: demo_call_def create_envelope_def keyed_def idempotent_def given_def idempotency_run_def demo_envelope_requested
      with_errors_def tryS_def bindS_def liftS_def demo_register_api retS_def dget_def)

lemma demo_request:
  obtains st' where
    "grdi_request demo_proxy 0 0 api_world demo_headers demo_call demo_api = Some (Inr (JObj (decision_envelope_to_dict demo_decision)), st')"
    "caller_of demo_proxy 0 0 demo_headers demo_call demo_api = Some demo_caller"
    "caller_of demo_proxy 1 1 demo_headers demo_call st' = Some demo_caller"
    "api_step demo_hash demo_proxy demo_api st'" "ap_engine st' = demo_registered"
proof -
  let ?a = "ap_auth demo_api"
  have start: "rl_limit (as_limiter ?a) = 10" "length (events_of ''t:bob'' (rl_events (as_limiter ?a))) < 10"
    "length (events_of ''t:bob'' (rl_events (as_limiter ?a))) = 0"
    by (simp_all add: demo_api_def new_limiter_def events_of_def)
  obtain a1 where a1: "guarded demo_proxy 0 0 (call_permission demo_call) demo_headers ?a = Some (Inr demo_caller, a1)"
    "rl_limit (as_limiter a1) = 10" "length (events_of ''t:bob'' (rl_events (as_limiter a1))) \<le> 1"
    using demo_guarded [OF start(1,2), of 0 0] start(3) by auto
  obtain st' where st': "grdi_handle api_world demo_caller demo_call (demo_api\<lparr>ap_auth := a1\<rparr>)
      = (Inr (JObj (decision_envelope_to_dict demo_decision)), st')" "as_limiter (ap_auth st') = as_limiter a1" "ap_engine st' = demo_registered"
    using demo_handled [of "demo_api\<lparr>ap_auth := a1\<rparr>"] by (auto simp: demo_api_def)
  have next_guard: "rl_limit (as_limiter (ap_auth st')) = 10" "length (events_of ''t:bob'' (rl_events (as_limiter (ap_auth st')))) < 10"
    using a1(2,3) by (simp_all add: st'(2))
  obtain a2 where a2: "guarded demo_proxy 1 1 (call_permission demo_call) demo_headers (ap_auth st') = Some (Inr demo_caller, a2)"
    using demo_guarded [OF next_guard, of 1 1] by blast
  have req: "grdi_request demo_proxy 0 0 api_world demo_headers demo_call demo_api = Some (Inr (JObj (decision_envelope_to_dict demo_decision)), st')"
    by (simp add: grdi_request_def a1 st')
  have who: "caller_of demo_proxy 0 0 demo_headers demo_call demo_api = Some demo_caller" by (simp add: caller_of_def a1)
  have "api_step demo_hash demo_proxy demo_api st'"
  proof (rule api_step.request [OF _ _ _ req])
    show "wd_hash api_world = demo_hash" by (simp add: api_world_def demo_world_def)
    show "call_wf demo_call"
      using demo_decision_wf by (simp add: demo_call_def demo_body_def decision_envelope_to_dict_def demo_decision_def)
    show "caller_nulfree demo_proxy 0 0 demo_headers demo_call demo_api"
      unfolding caller_nulfree_def who by (simp add: demo_caller_def)
  qed
  from that [OF req who _ this st'(3)] show thesis by (simp add: caller_of_def a2)
qed

text \<open>C34: Whatever requests are made to the routes on an empty ledger, with whatever headers, bodies, keys and outcomes, the chains of the
  ledger verify under every filter, and no record that was there at some point is lost or changed by later requests.\<close>

theorem api_ledger_verifies:
  assumes "ap_engine st0 = fresh_engine" "(api_step H cfg)\<^sup>*\<^sup>* st0 st" "(api_step H cfg)\<^sup>*\<^sup>* st st'"
    and "current_state (ap_engine st) = Inr store"
  shows "(\<exists>rep. engine_verify_scoped_chain H t p c (ap_engine st') = Inr rep) \<and>
    (\<exists>store'. current_state (ap_engine st') = Inr store' \<and> extends store store')"
proof -
  have ok: "api_ok H st" using api_steps_engine [OF assms(2) api_ok_fresh [OF assms(1)]] by simp
  from api_steps_engine [OF assms(3) ok] have s: "(engine_step H)\<^sup>*\<^sup>* (ap_engine st) (ap_engine st')" "engine_ok H (ap_engine st')"
    by (simp_all add: api_ok_def)
  from engine_ok_verifies [OF s(2)] engine_steps_grow [OF s(1)] ok assms(4) show ?thesis
    by (simp add: grows_def api_ok_def)
qed

theorem api_ledger_verifies_witness:
  "\<exists>st' rep. ap_engine st' = demo_registered \<and> (api_step demo_hash demo_proxy)\<^sup>*\<^sup>* demo_api st' \<and>
    engine_verify_scoped_chain demo_hash None None None (ap_engine st') = Inr rep"
proof -
  obtain st' where st': "api_step demo_hash demo_proxy demo_api st'" "ap_engine st' = demo_registered" by (rule demo_request)
  have start: "ap_engine demo_api = fresh_engine" "current_state (ap_engine demo_api) = Inr empty_store"
    by (simp_all add: demo_api_def current_state_def fresh_engine_def read_json_state_def)
  from api_ledger_verifies [OF start(1) rtranclp.rtrancl_refl r_into_rtranclp [where r = "api_step demo_hash demo_proxy", OF st'(1)] start(2)] st'
  show ?thesis by blast
qed

text \<open>C35: Tenants are isolated: whatever request a caller makes, whatever its outcome, a caller of another tenant or project gets from the
  routes that read records the answer he would have got before it, to the letter; a request that the guards refuse changes nothing for anybody.\<close>

theorem api_tenants_isolated:
  assumes "ap_engine st0 = fresh_engine" "(api_step H cfg)\<^sup>*\<^sup>* st0 st" "wd_hash w = H"
    and "call_wf call" "caller_nulfree cfg now ts rq call st" "grdi_request cfg now ts w rq call st = Some (r, st')"
    and "\<forall>a. caller_of cfg now ts rq call st = Some a \<longrightarrow> (pr_tenant_id b, pr_project_id b) \<noteq> (pr_tenant_id a, pr_project_id a)"
    and "nulfree (pr_tenant_id b)" "nulfree (pr_project_id b)" "reads_records call'"
  shows "fst (grdi_handle w' b call' st') = fst (grdi_handle w' b call' st)"
proof -
  have ok: "engine_ok H (ap_engine st)" "at_rest (ap_engine st)"
    using api_steps_engine [OF assms(2) api_ok_fresh [OF assms(1)]] by (simp_all add: api_ok_def)
  from request_effect [OF assms(6,4,5)] show ?thesis
  proof (elim disjE exE conjE)
    assume "ap_engine st' = ap_engine st"
    then show ?thesis using assms(10) by (intro handle_read_cong) simp_all
  next
    fix a assume a: "caller_of cfg now ts rq call st = Some a" "scoped_effect (wd_hash w) a (ap_engine st) (ap_engine st')"
    have "at_rest (ap_engine st') \<and> unseen (pr_tenant_id a) (pr_project_id a) (ap_engine st) (ap_engine st')"
      using scoped_effect_engine(2) [OF a(2) [unfolded assms(3)] ok] .
    then show ?thesis
      using a(1) assms(7-10) ok(2) by (intro handle_read_cong unseen_at_rest) auto
  qed
qed

theorem api_tenants_isolated_witness:
  "\<exists>response st'. grdi_request demo_proxy 0 0 api_world demo_headers demo_call demo_api = Some (Inr response, st') \<and>
    fst (grdi_handle api_world (demo_caller\<lparr>pr_tenant_id := ''u''\<rparr>) (GetEnvelope ''e1'') st') =
    fst (grdi_handle api_world (demo_caller\<lparr>pr_tenant_id := ''u''\<rparr>) (GetEnvelope ''e1'') demo_api)"
proof -
  obtain st' where req: "grdi_request demo_proxy 0 0 api_world demo_headers demo_call demo_api = Some (Inr (JObj (decision_envelope_to_dict demo_decision)), st')"
    and who: "caller_of demo_proxy 0 0 demo_headers demo_call demo_api = Some demo_caller" by (rule demo_request)
  have hash: "wd_hash api_world = demo_hash" by (simp add: api_world_def demo_world_def)
  have start: "ap_engine demo_api = fresh_engine" by (simp add: demo_api_def)
  have wf: "call_wf demo_call"
    using demo_decision_wf by (simp add: demo_call_def demo_body_def decision_envelope_to_dict_def demo_decision_def)
  have names: "caller_nulfree demo_proxy 0 0 demo_headers demo_call demo_api"
    unfolding caller_nulfree_def who by (simp add: demo_caller_def)
  from api_tenants_isolated [OF start rtranclp.rtrancl_refl hash wf names req, of "demo_caller\<lparr>pr_tenant_id := ''u''\<rparr>" "GetEnvelope ''e1''" api_world] req
  show ?thesis by (simp add: who demo_caller_def nulfree_def)
qed

section \<open>Repeated requests\<close>

definition responses_ok :: "pdict \<Rightarrow> bool" where
  "responses_ok rows \<longleftrightarrow> ddistinct rows \<and> canon_dict rows = rows"

text \<open>A stored response is never replaced.\<close>

definition keeps_responses :: "pdict \<Rightarrow> pdict \<Rightarrow> bool" where
  "keeps_responses rows rows' \<longleftrightarrow> (\<forall>k. dget rows k \<noteq> JNull \<longrightarrow> dget rows' k = dget rows k)"

lemma keeps_responses_refl [simp]: "keeps_responses rows rows"
  by (simp add: keeps_responses_def)

lemma keeps_responses_trans: "keeps_responses a b \<Longrightarrow> keeps_responses b c \<Longrightarrow> keeps_responses a c"
  unfolding keeps_responses_def by metis

lemma run_cases:
  assumes "idempotency_run key digest operation (rows, s) = (r, (rows', s'))"
  obtains (found) "dget rows key \<noteq> JNull" "r = stored_response (dget rows key) digest" "rows' = rows"
  | (failed) e where "dget rows key = JNull" "r = Inl e" "rows' = rows"
  | (computed) response where "dget rows key = JNull" "r = Inr response" "rows' = idempotency_put key digest response rows"
  using assms by (auto simp: idempotency_run_def split: json.splits prod.splits sum.splits)

lemma run_keeps:
  assumes "idempotency_run key digest operation (rows, s) = (r, (rows', s'))" "responses_ok rows"
  shows "responses_ok rows' \<and> keeps_responses rows rows'"
  using assms(1)
proof (cases rule: run_cases)
  case (computed response)
  have same: "canon (dget rows k) = dget rows k" for k
    using assms(2) dget_canon_dict [of rows k] by (simp add: responses_ok_def)
  have "ddistinct (dset rows key (response_row digest response))" using assms(2) by (simp add: responses_ok_def)
  then have "responses_ok rows'" by (simp add: computed responses_ok_def idempotency_put_def)
  moreover have "keeps_responses rows rows'"
    using put_lookup(2) [of rows] assms(2) same computed by (auto simp: keeps_responses_def responses_ok_def) metis
  ultimately show ?thesis by simp
qed (use assms in simp_all)

lemma run_stored:
  assumes "idempotency_run key digest operation (rows, s) = (Inr response, (rows', s'))" "responses_ok rows"
  shows "\<exists>again. canon again = canon response \<and> dget rows' key \<noteq> JNull \<and> stored_response (dget rows' key) digest = Inr again"
  using assms(1)
proof (cases rule: run_cases)
  case (computed x)
  with put_lookup(1) [of rows key digest x] assms(2) have "dget rows' key = response_row digest (canon x)"
    by (simp add: responses_ok_def)
  with computed show ?thesis
    by (auto simp: response_row_def stored_response_def dindex_def raise_if_def)
qed auto

lemma run_again:
  "dget rows key \<noteq> JNull \<Longrightarrow> stored_response (dget rows key) digest = Inr again
   \<Longrightarrow> idempotency_run key digest operation (rows, s) = (Inr again, (rows, s))"
  by (cases "dget rows key") (simp_all add: idempotency_run_def)

text \<open>The same through the routes.\<close>

lemma keyed_keeps:
  assumes "keyed w identity k payload operation name st = (r, st')" "responses_ok (ap_responses st)"
  shows "responses_ok (ap_responses st') \<and> keeps_responses (ap_responses st) (ap_responses st')"
proof (cases "given k")
  case True
  obtain z rows eng where run: "idempotency_run (idempotency_key name (pr_tenant_id identity) (pr_project_id identity) (the k))
      (request_hash (wd_hash w) (JObj payload)) operation (ap_responses st, ap_engine st) = (z, (rows, eng))"
    by (metis surj_pair)
  have "ap_responses st' = rows"
    using assms(1) True run by (auto simp: keyed_def idempotent_def split: sum.splits err.splits)
  with run_keeps [OF run assms(2)] show ?thesis by simp
qed (use assms in \<open>auto simp: keyed_def idempotent_def split: prod.splits\<close>)

text \<open>A call that writes runs under its key, with a payload and a name that depend on the caller and the call only.\<close>

fun call_key :: "grdi_call \<Rightarrow> string option" where
  "call_key (PostEnvelope body key) = key"
| "call_key (PostAuthorize i body key) = key"
| "call_key (PostPlan body key) = key"
| "call_key (PostSimulate i key) = key"
| "call_key (PostOutcome i body key) = key"
| "call_key (PostReplay i key) = key"
| "call_key (PostComparison body key) = key"
| "call_key _ = None"

lemma posts_keyed:
  assumes "given (call_key call)"
  obtains payload name where
    "\<And>w. \<exists>operation. grdi_handle w identity call = keyed w identity (call_key call) payload operation name"
proof -
  have "\<exists>payload name. \<forall>w. \<exists>operation. grdi_handle w identity call = keyed w identity (call_key call) payload operation name"
    using assms
    by (cases call)
      (auto simp: given_def create_envelope_def [abs_def] route_authorize_def [abs_def] route_create_plan_def [abs_def] route_simulate_def [abs_def]
        route_record_outcome_def [abs_def] route_create_replay_def [abs_def] route_compare_def [abs_def])
  with that show thesis by blast
qed

lemma handle_keeps:
  assumes "grdi_handle w identity call st = (r, st')" "responses_ok (ap_responses st)"
  shows "responses_ok (ap_responses st') \<and> keeps_responses (ap_responses st) (ap_responses st')"
  using assms
  by (cases call)
    (auto simp: retS_def create_envelope_def route_authorize_def route_create_plan_def route_simulate_def
      route_record_outcome_def route_create_replay_def route_compare_def dest: reading_keeps keyed_keeps)

lemma request_handled:
  assumes "grdi_request cfg now ts w rq call st = Some (r, st')"
  obtains (refused) e a where "caller_of cfg now ts rq call st = None" "r = Inl e" "st' = st\<lparr>ap_auth := a\<rparr>"
  | (handled) identity a where "caller_of cfg now ts rq call st = Some identity"
      "grdi_handle w identity call (st\<lparr>ap_auth := a\<rparr>) = (r, st')"
  using assms by (auto simp: grdi_request_def caller_of_def split: option.splits prod.splits sum.splits)

lemma request_caller:
  assumes "caller_of cfg now ts rq call st = Some identity"
  obtains a where "\<And>w. grdi_request cfg now ts w rq call st = Some (grdi_handle w identity call (st\<lparr>ap_auth := a\<rparr>))"
  using assms by (auto simp: grdi_request_def caller_of_def split: option.splits prod.splits sum.splits)

lemma request_keeps:
  assumes "grdi_request cfg now ts w rq call st = Some (r, st')" "responses_ok (ap_responses st)"
  shows "responses_ok (ap_responses st') \<and> keeps_responses (ap_responses st) (ap_responses st')"
  using assms(1) by (cases rule: request_handled) (use assms(2) handle_keeps in fastforce)+

lemma api_steps_keep:
  "(api_step H cfg)\<^sup>*\<^sup>* st st' \<Longrightarrow> responses_ok (ap_responses st)
   \<Longrightarrow> responses_ok (ap_responses st') \<and> keeps_responses (ap_responses st) (ap_responses st')"
  by (induction rule: rtranclp_induct) (auto elim!: api_stepE dest!: request_keeps intro: keeps_responses_trans)

lemma keyed_given:
  assumes "keyed w identity k payload operation name st = (Inr response, st')" "given k"
  shows "idempotency_run (idempotency_key name (pr_tenant_id identity) (pr_project_id identity) (the k))
    (request_hash (wd_hash w) (JObj payload)) operation (ap_responses st, ap_engine st)
    = (Inr response, (ap_responses st', ap_engine st'))"
  using assms by (auto simp: keyed_def idempotent_def split: prod.splits sum.splits err.splits)

lemma keyed_again:
  assumes "given k" and "dget (ap_responses st) (idempotency_key name (pr_tenant_id identity) (pr_project_id identity) (the k)) \<noteq> JNull"
    and "stored_response (dget (ap_responses st) (idempotency_key name (pr_tenant_id identity) (pr_project_id identity) (the k)))
      (request_hash (wd_hash w) (JObj payload)) = Inr again"
  shows "keyed w identity k payload operation name st = (Inr again, st)"
  using assms(1) run_again [OF assms(2,3), of operation "ap_engine st"] by (simp add: keyed_def idempotent_def)

text \<open>C36: A repeated request does nothing: once a call with an idempotency key has been answered for a caller, the same call by the same caller
  is answered with that response, up to the order of keys, whatever requests anybody has made in between and whatever identifiers and times the second
  one would have used; and it leaves the ledger and the stored responses as they are.\<close>

theorem api_repeats_nothing:
  assumes "ap_responses st0 = []" "(api_step H cfg)\<^sup>*\<^sup>* st0 st" "wd_hash w = H" "wd_hash w' = H"
    and "given (call_key call)" "caller_of cfg now ts rq call st = Some identity"
    and "grdi_request cfg now ts w rq call st = Some (Inr response, st1)" "(api_step H cfg)\<^sup>*\<^sup>* st1 st2"
    and "caller_of cfg now' ts' rq' call st2 = Some identity"
  shows "\<exists>again st3. grdi_request cfg now' ts' w' rq' call st2 = Some (Inr again, st3) \<and> canon again = canon response \<and>
    ap_engine st3 = ap_engine st2 \<and> ap_responses st3 = ap_responses st2"
proof -
  obtain payload name where post:
    "\<And>w. \<exists>operation. grdi_handle w identity call = keyed w identity (call_key call) payload operation name"
    using posts_keyed [OF assms(5)] by blast
  let ?key = "idempotency_key name (pr_tenant_id identity) (pr_project_id identity) (the (call_key call))"
  let ?digest = "request_hash H (JObj payload)"
  have ok: "responses_ok (ap_responses st)"
    using api_steps_keep [OF assms(2)] assms(1) by (simp add: responses_ok_def canon_dict_def)
  obtain operation where op: "grdi_handle w identity call = keyed w identity (call_key call) payload operation name"
    using post [of w] by blast
  obtain a where "grdi_request cfg now ts w rq call st = Some (grdi_handle w identity call (st\<lparr>ap_auth := a\<rparr>))"
    using request_caller [OF assms(6)] by blast
  with assms(7) op have "keyed w identity (call_key call) payload operation name (st\<lparr>ap_auth := a\<rparr>) = (Inr response, st1)"
    by simp
  note run = keyed_given [OF this assms(5), unfolded assms(3)]
  have "responses_ok (ap_responses (st\<lparr>ap_auth := a\<rparr>))" using ok by simp
  from run_stored [OF run this] obtain again where again: "canon again = canon response"
    "dget (ap_responses st1) ?key \<noteq> JNull" "stored_response (dget (ap_responses st1) ?key) ?digest = Inr again" by blast
  have "responses_ok (ap_responses st1)" using request_keeps [OF assms(7) ok] by simp
  from api_steps_keep [OF assms(8) this] again(2) have kept: "dget (ap_responses st2) ?key = dget (ap_responses st1) ?key"
    by (simp add: keeps_responses_def)
  obtain a' where req: "grdi_request cfg now' ts' w' rq' call st2 = Some (grdi_handle w' identity call (st2\<lparr>ap_auth := a'\<rparr>))"
    using request_caller [OF assms(9)] by blast
  obtain operation' where "grdi_handle w' identity call = keyed w' identity (call_key call) payload operation' name"
    using post [of w'] by blast
  then have "grdi_handle w' identity call (st2\<lparr>ap_auth := a'\<rparr>) = (Inr again, st2\<lparr>ap_auth := a'\<rparr>)"
    using keyed_again [OF assms(5), of "st2\<lparr>ap_auth := a'\<rparr>" name identity w' payload again operation'] again(2,3) kept assms(4)
    by simp
  with req again(1) show ?thesis by simp
qed

theorem api_repeats_nothing_witness:
  "\<exists>st1 again st2. grdi_request demo_proxy 0 0 api_world demo_headers demo_call demo_api =
      Some (Inr (JObj (decision_envelope_to_dict demo_decision)), st1) \<and>
    grdi_request demo_proxy 1 1 demo_world demo_headers demo_call st1 = Some (Inr again, st2) \<and>
    canon again = canon (JObj (decision_envelope_to_dict demo_decision)) \<and> ap_engine st2 = ap_engine st1"
proof -
  obtain st1 where req: "grdi_request demo_proxy 0 0 api_world demo_headers demo_call demo_api = Some (Inr (JObj (decision_envelope_to_dict demo_decision)), st1)"
    and who: "caller_of demo_proxy 0 0 demo_headers demo_call demo_api = Some demo_caller"
      "caller_of demo_proxy 1 1 demo_headers demo_call st1 = Some demo_caller" by (rule demo_request)
  have hash: "wd_hash api_world = demo_hash" "wd_hash demo_world = demo_hash" by (simp_all add: api_world_def demo_world_def)
  have start: "ap_responses demo_api = []" by (simp add: demo_api_def)
  have key: "given (call_key demo_call)" by (simp add: demo_call_def given_def)
  from api_repeats_nothing [OF start rtranclp.rtrancl_refl hash key who(1) req rtranclp.rtrancl_refl who(2)] req
  show ?thesis by blast
qed

section \<open>The file of responses\<close>

text \<open>Each row is an object with the hash of the request, a text, and the response.\<close>

fun response_typed :: "json \<Rightarrow> bool" where
  "response_typed (JObj [(k, JStr h), (k', v)]) \<longleftrightarrow> k = ''request_hash'' \<and> k' = ''response'' \<and> canon v = v"
| "response_typed row \<longleftrightarrow> False"

lemma response_typed_row: "response_typed row \<Longrightarrow> \<exists>h v. row = response_row h v \<and> canon v = v"
  by (cases row rule: response_typed.cases) (auto simp: response_row_def)

definition responses_typed :: "pdict \<Rightarrow> bool" where
  "responses_typed rows \<longleftrightarrow> responses_ok rows \<and> list_all (\<lambda>(k, v). response_typed v) rows"

lemma response_row_typed [simp]: "canon v = v \<Longrightarrow> response_typed (response_row h v)"
  by (simp add: response_row_def)

lemma typed_lookup: "responses_typed rows \<Longrightarrow> map_of rows k = Some v \<Longrightarrow> response_typed v"
  by (auto simp: responses_typed_def list_all_iff dest: map_of_SomeD)

lemma put_typed:
  assumes "responses_typed rows"
  shows "responses_typed (idempotency_put key digest response rows)"
proof -
  have ok: "responses_ok rows" using assms by (simp add: responses_typed_def)
  have d: "ddistinct (dset rows key (response_row digest response))" using ok by (simp add: responses_ok_def)
  have "response_typed v" if v: "(k, v) \<in> set (idempotency_put key digest response rows)" for k v
  proof -
    have "ddistinct (idempotency_put key digest response rows)" using d by (simp add: idempotency_put_def)
    with v have look: "map_of (idempotency_put key digest response rows) k = Some v" by simp
    then have get: "v = dget (idempotency_put key digest response rows) k" by (simp add: dget_def)
    show ?thesis
    proof (cases "k = key")
      case True
      with get put_lookup(1) [of rows key digest response] ok show ?thesis by (simp add: responses_ok_def)
    next
      case False
      from look False have "map_of rows k \<noteq> None"
        by (auto simp: idempotency_put_def map_of_canon_dict [OF d] split: if_splits)
      then obtain u where u: "map_of rows k = Some u" by blast
      have "canon (dget rows k) = dget rows k" using ok dget_canon_dict [of rows k] by (simp add: responses_ok_def)
      with False get put_lookup(2) [of rows k key digest response] ok u have "v = u" by (simp add: responses_ok_def dget_def)
      with typed_lookup [OF assms u] show ?thesis by simp
    qed
  qed
  moreover have "responses_ok (idempotency_put key digest response rows)"
    using d by (simp add: responses_ok_def idempotency_put_def)
  ultimately show ?thesis by (auto simp: responses_typed_def list_all_iff)
qed

lemma run_typed:
  assumes "idempotency_run key digest operation (rows, s) = (r, (rows', s'))" "responses_typed rows"
  shows "responses_typed rows'"
  using assms(1) by (cases rule: run_cases) (use assms(2) put_typed in simp_all)

lemma keyed_typed:
  assumes "keyed w identity k payload operation name st = (r, st')" "responses_typed (ap_responses st)"
  shows "responses_typed (ap_responses st')"
proof (cases "given k")
  case True
  obtain z rows eng where run: "idempotency_run (idempotency_key name (pr_tenant_id identity) (pr_project_id identity) (the k))
      (request_hash (wd_hash w) (JObj payload)) operation (ap_responses st, ap_engine st) = (z, (rows, eng))"
    by (metis surj_pair)
  have "ap_responses st' = rows"
    using assms(1) True run by (auto simp: keyed_def idempotent_def split: sum.splits err.splits)
  with run_typed [OF run assms(2)] show ?thesis by simp
qed (use assms in \<open>auto simp: keyed_def idempotent_def split: prod.splits\<close>)

lemma handle_typed:
  assumes "grdi_handle w identity call st = (r, st')" "responses_typed (ap_responses st)"
  shows "responses_typed (ap_responses st')"
  using assms
  by (cases call)
    (auto simp: retS_def create_envelope_def route_authorize_def route_create_plan_def route_simulate_def
      route_record_outcome_def route_create_replay_def route_compare_def dest: reading_keeps keyed_typed)

lemma api_steps_typed:
  "(api_step H cfg)\<^sup>*\<^sup>* st st' \<Longrightarrow> responses_typed (ap_responses st) \<Longrightarrow> responses_typed (ap_responses st')"
proof (induction rule: rtranclp_induct)
  case (step b c)
  from step(2) show ?case
  proof (cases rule: api_step.cases)
    case (request w call now ts rq r)
    from request(4) show ?thesis
      by (cases rule: request_handled) (use step handle_typed in fastforce)+
  qed
qed simp

text \<open>C37: The file of responses is well typed: after any requests, each of its rows is an object of the hash of a request, a text, and a response
  with sorted keys; so looking a key up either finds nothing, gives such a response or refuses another request under the key, and never fails
  on the row.\<close>

theorem api_responses_typed:
  assumes "ap_responses st0 = []" "(api_step H cfg)\<^sup>*\<^sup>* st0 st"
  shows "responses_typed (ap_responses st) \<and> (case idempotency_get key digest (ap_responses st) of
    Inl e \<Rightarrow> e = ValueError ''idempotency_key_reused_with_different_payload'' | Inr v \<Rightarrow> canon v = v)"
proof -
  have typed: "responses_typed (ap_responses st)"
    by (rule api_steps_typed [OF assms(2)]) (simp add: assms(1) responses_typed_def responses_ok_def canon_dict_def)
  show ?thesis
  proof (cases "map_of (ap_responses st) key")
    case None
    with typed show ?thesis by (simp add: idempotency_get_def dget_def)
  next
    case (Some v)
    from response_typed_row [OF typed_lookup [OF typed Some]] obtain h x where "v = JObj [(''request_hash'', JStr h), (''response'', x)]" "canon x = x"
      by (auto simp: response_row_def)
    with typed Some show ?thesis
      by (simp add: idempotency_get_def dget_def stored_response_def dindex_def raise_if_def)
  qed
qed

theorem api_responses_typed_witness:
  "\<exists>st'. api_step demo_hash demo_proxy demo_api st' \<and> responses_typed (ap_responses st')"
proof -
  obtain st' where st': "api_step demo_hash demo_proxy demo_api st'" by (rule demo_request)
  have start: "ap_responses demo_api = []" by (simp add: demo_api_def)
  from api_responses_typed [OF start r_into_rtranclp [where r = "api_step demo_hash demo_proxy", OF st']] st' show ?thesis by blast
qed

end
