(* ===== verification/Core_Runtime.thy ===== *)
theory Core_Runtime
  imports Hav_Service Scoped_Store
begin

text \<open>
  Model of \<^verbatim>\<open>src/src/phigraph/core_v3/runtime.py\<close> with the proposals of \<^verbatim>\<open>adapters.py\<close>: the runtime records the claims
  an agent proposes, has them verified, decides its actions by the policy engine, executes those that are allowed, and records every
  outcome. The adapter, the verifiers, the executor and the sink of events are given from outside: the executor acts on a world of its
  own, the sink on its own state, the others are functions that may raise. What an adapter proposes are JSON values.
\<close>

section \<open>Proposals\<close>

record agent_proposal =
  gp_claims :: "pdict list"
  gp_actions :: "pdict list"
  gp_raw :: "pdict option"

text \<open>
  \<open>Claim.create(**row)\<close> and \<open>ActionProposal.create(**row)\<close>. A status in a row is a text, and \<open>to_dict\<close>, which registering
  calls first, then fails on it.
\<close>

definition claim_from_row :: "string \<Rightarrow> string \<Rightarrow> pdict \<Rightarrow> claim res" where
  "claim_from_row claim_id now row =
     bindE (ctor_check ''Claim'' [''statement'', ''claim_type'', ''subject'', ''issuer'']
       [''status'', ''confidence'', ''evidence_ids'', ''created_at'', ''supersedes'', ''metadata''] row) (\<lambda>_.
     bindE (json_str (dget row ''statement'')) (\<lambda>statement.
     bindE (json_str (dget row ''claim_type'')) (\<lambda>claim_type.
     bindE (json_str (dget row ''subject'')) (\<lambda>subject.
     bindE (json_str (dget row ''issuer'')) (\<lambda>issuer.
     bindE (raise_if (map_of row ''status'' \<noteq> None) (AttributeError ''object has no attribute value'')) (\<lambda>_.
     bindE (json_strs (dget_or row ''evidence_ids'' (JArr []))) (\<lambda>evidence_ids.
     bindE (json_str (dget_or row ''created_at'' (JStr now))) (\<lambda>created_at.
     bindE (case dget row ''supersedes'' of JNull \<Rightarrow> Inr None | v \<Rightarrow> bindE (json_str v) (\<lambda>s. Inr (Some s))) (\<lambda>supersedes.
     bindE (json_dict (dget_or row ''metadata'' (JObj []))) (\<lambda>metadata.
     Inr \<lparr>cl_id = claim_id, cl_statement = statement, cl_claim_type = claim_type, cl_subject = subject, cl_issuer = issuer,
       cl_status = PROPOSED, cl_confidence = dget row ''confidence'', cl_evidence_ids = evidence_ids,
       cl_created_at = created_at, cl_supersedes = supersedes, cl_metadata = metadata\<rparr>))))))))))"

definition action_from_row :: "string \<Rightarrow> string \<Rightarrow> pdict \<Rightarrow> action_proposal res" where
  "action_from_row action_id now row =
     bindE (ctor_check ''ActionProposal'' [''action_type'', ''target'', ''proposed_by'']
       [''parameters'', ''rationale_claim_ids'', ''reversible'', ''risk_level'', ''created_at''] row) (\<lambda>_.
     bindE (json_str (dget row ''action_type'')) (\<lambda>action_type.
     bindE (json_str (dget row ''target'')) (\<lambda>target.
     bindE (json_str (dget row ''proposed_by'')) (\<lambda>proposed_by.
     bindE (json_dict (dget_or row ''parameters'' (JObj []))) (\<lambda>parameters.
     bindE (json_strs (dget_or row ''rationale_claim_ids'' (JArr []))) (\<lambda>rationale_claim_ids.
     bindE (json_bool (dget_or row ''reversible'' (JBool True))) (\<lambda>reversible.
     bindE (json_str (dget_or row ''risk_level'' (JStr ''low''))) (\<lambda>risk_level.
     bindE (json_str (dget_or row ''created_at'' (JStr now))) (\<lambda>created_at.
     Inr \<lparr>ac_id = action_id, ac_action_type = action_type, ac_target = target, ac_proposed_by = proposed_by,
       ac_parameters = parameters, ac_rationale_claim_ids = rationale_claim_ids, ac_reversible = reversible,
       ac_risk_level = risk_level, ac_created_at = created_at\<rparr>)))))))))"

section \<open>The runtime\<close>

fun runtime_mode_value :: "runtime_mode \<Rightarrow> string" where
  "runtime_mode_value REPLAY = ''replay''"
| "runtime_mode_value SHADOW = ''shadow''"
| "runtime_mode_value COPILOT = ''copilot''"
| "runtime_mode_value GUARDED_AUTO = ''guarded_auto''"

datatype runtime_event =
    PolicyDecided action_proposal policy_decision
  | OutcomeRecorded action_proposal policy_decision outcome

type_synonym verifier = "claim \<Rightarrow> pdict \<Rightarrow> (claim_status \<times> evidence list \<times> string) res"

text \<open>\<open>cr_verifiers\<close>: the verifiers by type of claim, each with its name; \<open>cr_read\<close> and \<open>cr_write\<close>: the backend of the ledger.\<close>

record ('b, 'e) core_runtime =
  cr_read :: "'b \<Rightarrow> ledger_rows res"
  cr_write :: "ledger_rows \<Rightarrow> ('b, unit) act"
  cr_hash :: "string \<Rightarrow> string"
  cr_mac :: "string \<Rightarrow> string \<Rightarrow> string"
  cr_signing_key :: "string option"
  cr_rules :: "policy_rule list"
  cr_verifiers :: "(string \<times> string \<times> verifier) list"
  cr_sink :: "(string \<Rightarrow> runtime_event \<Rightarrow> ('e, unit) act) option"
  cr_fresh :: fresh_ids

record ('b, 'x, 'e) run_state =
  rs_ledger :: 'b
  rs_world :: 'x
  rs_sink :: 'e

definition on_ledger :: "('b, 'a) act \<Rightarrow> (('b, 'x, 'e) run_state, 'a) act" where
  "on_ledger m st = (case m (rs_ledger st) of (r, b) \<Rightarrow> (r, st\<lparr>rs_ledger := b\<rparr>))"

definition on_world :: "('x, 'a) act \<Rightarrow> (('b, 'x, 'e) run_state, 'a) act" where
  "on_world m st = (case m (rs_world st) of (r, x) \<Rightarrow> (r, st\<lparr>rs_world := x\<rparr>))"

definition emit :: "('b, 'e) core_runtime \<Rightarrow> string \<Rightarrow> runtime_event \<Rightarrow> (('b, 'x, 'e) run_state, unit) act" where
  "emit rt event_type payload st = (case cr_sink rt of
     None \<Rightarrow> (Inr (), st)
   | Some sink \<Rightarrow> (case sink event_type payload (rs_sink st) of (r, e) \<Rightarrow> (r, st\<lparr>rs_sink := e\<rparr>)))"

section \<open>Claims\<close>

fun register_all ::
  "('b, 'e) core_runtime \<Rightarrow> string \<Rightarrow> string \<Rightarrow> evidence list \<Rightarrow> string list \<Rightarrow> ('b, string list) act" where
  "register_all rt t p [] ids = retS ids"
| "register_all rt t p (e # es) ids =
     bindS (register_evidence (cr_read rt) (cr_write rt) (cr_hash rt) (cr_mac rt) (cr_signing_key rt) e t p) (\<lambda>registered.
     register_all rt t p es (ids @ [ev_id registered]))"

definition verify_proposed ::
  "('b, 'e) core_runtime \<Rightarrow> pdict \<Rightarrow> string \<Rightarrow> string \<Rightarrow> nat \<Rightarrow> claim \<Rightarrow> ('b, unit) act" where
  "verify_proposed rt context t p n c = (case map_of (cr_verifiers rt) (cl_claim_type c) of
     None \<Rightarrow> retS ()
   | Some (name, verifier) \<Rightarrow>
       bindS (liftS (verifier c context)) (\<lambda>(result, evidence_rows, rationale).
       bindS (register_all rt t p evidence_rows []) (\<lambda>evidence_ids.
       bindS (record_verification (cr_read rt) (cr_write rt) (cr_hash rt)
         \<lparr>vr_id = new_id (cr_fresh rt) ''vr'' n, vr_claim_id = cl_id c, vr_verifier = name, vr_method = cl_claim_type c,
          vr_result = result, vr_evidence_ids = evidence_ids, vr_rationale = rationale,
          vr_verified_at = snd (cr_fresh rt ''vr'' n), vr_metadata = []\<rparr> t p) (\<lambda>_.
       retS ()))))"

definition run_claim ::
  "('b, 'e) core_runtime \<Rightarrow> pdict \<Rightarrow> string \<Rightarrow> string \<Rightarrow> nat \<Rightarrow> pdict \<Rightarrow> ('b, pdict) act" where
  "run_claim rt context t p n row =
     bindS (liftS (claim_from_row (new_id (cr_fresh rt) ''cl'' n) (snd (cr_fresh rt ''cl'' n)) row)) (\<lambda>c.
     bindS (register_claim (cr_read rt) (cr_write rt) (cr_hash rt) c t p) (\<lambda>_.
     bindS (verify_proposed rt context t p n c) (\<lambda>_.
     readS (get_record (cr_read rt) ''claims'' (cl_id c) ''claim_id''))))"

fun run_claims ::
  "('b, 'e) core_runtime \<Rightarrow> pdict \<Rightarrow> string \<Rightarrow> string \<Rightarrow> nat \<Rightarrow> pdict list \<Rightarrow> ('b, pdict list) act" where
  "run_claims rt context t p n [] = retS []"
| "run_claims rt context t p n (row # rows) =
     bindS (run_claim rt context t p n row) (\<lambda>c.
     bindS (run_claims rt context t p (n + 1) rows) (\<lambda>cs. retS (c # cs)))"

section \<open>Actions\<close>

type_synonym 'x executor = "(action_proposal \<Rightarrow> ('x, pdict) act) option"

definition can_execute :: "runtime_mode \<Rightarrow> policy_decision \<Rightarrow> bool" where
  "can_execute mode decision \<longleftrightarrow> decision_effect_value (pd_effect decision) = ''allow'' \<and> mode \<in> {COPILOT, GUARDED_AUTO}"

definition runtime_outcome :: "fresh_ids \<Rightarrow> nat \<Rightarrow> string \<Rightarrow> string \<Rightarrow> bool \<Rightarrow> pdict \<Rightarrow> outcome" where
  "runtime_outcome fresh n action_id status executed observed_effects = \<lparr>oc_id = new_id fresh ''out'' n,
     oc_action_id = action_id, oc_status = status, oc_executed = executed, oc_observed_effects = observed_effects,
     oc_evidence_ids = [], oc_observed_at = snd (fresh ''out'' n)\<rparr>"

definition perform ::
  "('b, 'e) core_runtime \<Rightarrow> runtime_mode \<Rightarrow> 'x executor \<Rightarrow> nat \<Rightarrow> action_proposal \<Rightarrow> policy_decision
   \<Rightarrow> (('b, 'x, 'e) run_state, outcome) act" where
  "perform rt mode executor n action decision =
     (case (can_execute mode decision, executor) of
        (True, Some f) \<Rightarrow>
          bindS (on_world (f action)) (\<lambda>result.
          bindS (liftS (json_str (dget_or result ''status'' (JStr ''completed'')))) (\<lambda>status.
          retS (runtime_outcome (cr_fresh rt) n (ac_id action) status True result)))
      | _ \<Rightarrow> retS (runtime_outcome (cr_fresh rt) n (ac_id action) ''simulated'' False
          [(''mode'', JStr (runtime_mode_value mode)),
           (''policy_effect'', JStr (decision_effect_value (pd_effect decision)))]))"

definition run_action ::
  "('b, 'e) core_runtime \<Rightarrow> runtime_mode \<Rightarrow> string list \<Rightarrow> 'x executor \<Rightarrow> string \<Rightarrow> string \<Rightarrow> nat \<Rightarrow> pdict
   \<Rightarrow> (('b, 'x, 'e) run_state, action_proposal \<times> policy_decision \<times> outcome) act" where
  "run_action rt mode approvals executor t p n row =
     bindS (liftS (action_from_row (new_id (cr_fresh rt) ''ac'' n) (snd (cr_fresh rt ''ac'' n)) row)) (\<lambda>action.
     bindS (on_ledger (register_action (cr_read rt) (cr_write rt) (cr_hash rt) action t p)) (\<lambda>_.
     let decision = evaluate (new_id (cr_fresh rt) ''pd'' n) (snd (cr_fresh rt ''pd'' n)) (cr_rules rt) action mode approvals in
     bindS (on_ledger (record_policy_decision (cr_read rt) (cr_write rt) (cr_hash rt) decision t p)) (\<lambda>_.
     bindS (emit rt ''policy_decision'' (PolicyDecided action decision)) (\<lambda>_.
     bindS (perform rt mode executor n action decision) (\<lambda>result.
     bindS (on_ledger (record_outcome (cr_read rt) (cr_write rt) (cr_hash rt) result t p)) (\<lambda>_.
     bindS (emit rt ''outcome'' (OutcomeRecorded action decision result)) (\<lambda>_.
     retS (action, decision, result))))))))"

fun run_actions ::
  "('b, 'e) core_runtime \<Rightarrow> runtime_mode \<Rightarrow> string list \<Rightarrow> 'x executor \<Rightarrow> string \<Rightarrow> string \<Rightarrow> nat \<Rightarrow> pdict list
   \<Rightarrow> (('b, 'x, 'e) run_state, (action_proposal \<times> policy_decision \<times> outcome) list) act" where
  "run_actions rt mode approvals executor t p n [] = retS []"
| "run_actions rt mode approvals executor t p n (row # rows) =
     bindS (run_action rt mode approvals executor t p n row) (\<lambda>x.
     bindS (run_actions rt mode approvals executor t p (n + 1) rows) (\<lambda>xs. retS (x # xs)))"

section \<open>A run\<close>

record runtime_report =
  rp_mode :: string
  rp_claims :: "pdict list"
  rp_actions :: "pdict list"
  rp_decisions :: "pdict list"
  rp_outcomes :: "pdict list"
  rp_executed_actions :: int

definition report_of ::
  "runtime_mode \<Rightarrow> pdict list \<Rightarrow> (action_proposal \<times> policy_decision \<times> outcome) list \<Rightarrow> runtime_report" where
  "report_of mode claims results = \<lparr>rp_mode = runtime_mode_value mode, rp_claims = claims,
     rp_actions = map (\<lambda>(a, d, r). action_to_dict a) results, rp_decisions = map (\<lambda>(a, d, r). policy_decision_to_dict d) results,
     rp_outcomes = map (\<lambda>(a, d, r). outcome_to_dict r) results,
     rp_executed_actions = int (length (filter (\<lambda>(a, d, r). oc_executed r) results))\<rparr>"

definition core_run ::
  "('b, 'e) core_runtime \<Rightarrow> (pdict \<Rightarrow> pdict \<Rightarrow> agent_proposal res) \<Rightarrow> pdict \<Rightarrow> pdict option \<Rightarrow> runtime_mode \<Rightarrow> string list
   \<Rightarrow> 'x executor \<Rightarrow> string \<Rightarrow> string \<Rightarrow> (('b, 'x, 'e) run_state, runtime_report) act" where
  "core_run rt propose request context0 mode approvals executor t p =
     (let context = (case context0 of None \<Rightarrow> [] | Some c \<Rightarrow> c) in
     bindS (liftS (propose request context)) (\<lambda>proposal.
     bindS (on_ledger (run_claims rt context t p 0 (gp_claims proposal))) (\<lambda>claims.
     bindS (run_actions rt mode approvals executor t p 0 (gp_actions proposal)) (\<lambda>results.
     retS (report_of mode claims results)))))"

end
