(* ===== verification/Runtime_Properties.thy ===== *)
theory Runtime_Properties
  imports Core_Runtime
begin

text \<open>
  The runtime touches the world outside only by executing actions that the policy allows, in a mode that allows execution:
  the logic \<open>performs\<close> follows the executed actions through a program, and the property is what it gives for a run.
\<close>

section \<open>What a run executes\<close>

text \<open>What the policy engine decides, read off the rules.\<close>

definition permitted :: "policy_rule list \<Rightarrow> action_proposal \<Rightarrow> runtime_mode \<Rightarrow> string list \<Rightarrow> bool" where
  "permitted rules a mode approvals =
     (let matching = filter (rule_applies a) (policy_rules rules)
      in matching \<noteq> [] \<and> list_all (rule_permits a mode) matching \<and>
         list_all (\<lambda>rule. set (pr_required_approvals rule) \<subseteq> set approvals) matching)"

definition may_execute :: "('b, 'e) core_runtime \<Rightarrow> runtime_mode \<Rightarrow> string list \<Rightarrow> 'x executor \<Rightarrow> action_proposal \<Rightarrow> bool" where
  "may_execute rt mode approvals executor a \<longleftrightarrow>
     executor \<noteq> None \<and> mode \<in> {COPILOT, GUARDED_AUTO} \<and> permitted (cr_rules rt) a mode approvals"

lemma can_execute_evaluate:
  "can_execute mode (evaluate i now rules a mode approvals) \<longleftrightarrow> mode \<in> {COPILOT, GUARDED_AUTO} \<and> permitted rules a mode approvals"
proof -
  have "decision_effect_value e = ''allow'' \<longleftrightarrow> e = ALLOW" for e by (cases e) simp_all
  then have "can_execute mode (evaluate i now rules a mode approvals) \<longleftrightarrow>
      mode \<in> {COPILOT, GUARDED_AUTO} \<and> pd_effect (evaluate i now rules a mode approvals) = ALLOW"
    unfolding can_execute_def by (simp only: conj_commute)
  then show ?thesis by (simp add: evaluate_effect permitted_def Let_def)
qed

text \<open>The world after executing some actions in order.\<close>

definition after_executing :: "'x executor \<Rightarrow> action_proposal list \<Rightarrow> 'x \<Rightarrow> 'x" where
  "after_executing executor as x = (case executor of None \<Rightarrow> x | Some f \<Rightarrow> foldl (\<lambda>x a. snd (f a x)) x as)"

lemma after_executing_simps [simp]:
  "after_executing executor [] x = x"
  "after_executing executor (as @ bs) x = after_executing executor bs (after_executing executor as x)"
  by (simp_all add: after_executing_def split: option.split)

definition performs ::
  "'x executor \<Rightarrow> (action_proposal \<Rightarrow> bool) \<Rightarrow> ('a \<Rightarrow> action_proposal list \<Rightarrow> bool) \<Rightarrow> (('b, 'x, 'e) run_state, 'a) act \<Rightarrow> bool" where
  "performs executor P Q m \<longleftrightarrow> (\<forall>st r st'. m st = (r, st') \<longrightarrow> (\<exists>as. rs_world st' = after_executing executor as (rs_world st) \<and>
     list_all P as \<and> (\<forall>x. r = Inr x \<longrightarrow> Q x as)))"

lemma performsD:
  "performs executor P Q m \<Longrightarrow> m st = (r, st') \<Longrightarrow> \<exists>as. rs_world st' = after_executing executor as (rs_world st) \<and> list_all P as \<and>
     (\<forall>x. r = Inr x \<longrightarrow> Q x as)"
  by (simp add: performs_def)

lemma performs_ret: "Q x [] \<Longrightarrow> performs executor P Q (retS x)"
  by (auto simp: performs_def retS_def intro!: exI [of _ "[]"])

lemma performs_lift: "(\<And>x. m = Inr x \<Longrightarrow> Q x []) \<Longrightarrow> performs executor P Q (liftS m)"
  by (auto simp: performs_def liftS_def intro!: exI [of _ "[]"])

lemma performs_ledger: "(\<And>x. Q x []) \<Longrightarrow> performs executor P Q (on_ledger m)"
  by (auto simp: performs_def on_ledger_def intro!: exI [of _ "[]"] split: prod.splits)

lemma performs_emit: "Q () [] \<Longrightarrow> performs executor P Q (emit rt k v)"
  by (auto simp: performs_def emit_def intro!: exI [of _ "[]"] split: prod.splits option.splits)

lemma performs_world: "P a \<Longrightarrow> (\<And>x. Q x [a]) \<Longrightarrow> performs (Some f) P Q (on_world (f a))"
  by (auto simp: performs_def on_world_def after_executing_def intro!: exI [of _ "[a]"] split: prod.splits)

lemma performs_bind:
  assumes "performs executor P Q m" "\<And>x as. Q x as \<Longrightarrow> performs executor P (\<lambda>y bs. R y (as @ bs)) (f x)"
  shows "performs executor P R (bindS m f)"
  unfolding performs_def
proof (intro allI impI)
  fix st r st' assume run: "bindS m f st = (r, st')"
  obtain z st1 where z: "m st = (z, st1)" by (cases "m st")
  from performsD [OF assms(1) z] obtain as where
    as: "rs_world st1 = after_executing executor as (rs_world st)" "list_all P as" "\<And>x. z = Inr x \<Longrightarrow> Q x as" by blast
  show "\<exists>as. rs_world st' = after_executing executor as (rs_world st) \<and> list_all P as \<and> (\<forall>x. r = Inr x \<longrightarrow> R x as)"
  proof (cases z)
    case (Inl e)
    with run z as show ?thesis by (auto simp: bindS_def)
  next
    case (Inr x)
    with run z have "f x st1 = (r, st')" by (simp add: bindS_def)
    from performsD [OF assms(2) [OF as(3) [OF Inr]] this] obtain bs where
      "rs_world st' = after_executing executor bs (rs_world st1)" "list_all P bs" "\<forall>y. r = Inr y \<longrightarrow> R y (as @ bs)" by blast
    with as(1,2) show ?thesis by (intro exI [of _ "as @ bs"]) simp
  qed
qed

lemma performs_perform:
  assumes "can_execute mode d \<Longrightarrow> executor \<noteq> None \<Longrightarrow> P a"
  shows "performs executor P (\<lambda>r as. as = (if can_execute mode d \<and> executor \<noteq> None then [a] else []) \<and>
    oc_executed r = (can_execute mode d \<and> executor \<noteq> None) \<and> oc_action_id r = ac_id a) (perform rt mode executor n a d)"
proof (cases "can_execute mode d \<and> executor \<noteq> None")
  case True
  then obtain f where f: "executor = Some f" by blast
  have "performs (Some f) P (\<lambda>r as. as = [a] \<and> oc_executed r \<and> oc_action_id r = ac_id a)
      (bindS (on_world (f a)) (\<lambda>result. bindS (liftS (json_str (dget_or result ''status'' (JStr ''completed''))))
        (\<lambda>status. retS (runtime_outcome (cr_fresh rt) n (ac_id a) status True result))))"
    using assms True
    by (intro performs_bind [OF performs_world [where Q = "\<lambda>_ as. as = [a]"]] performs_bind [OF performs_lift [where Q = "\<lambda>_ as. as = []"]] performs_ret)
      (auto simp: runtime_outcome_def)
  with True f show ?thesis by (simp add: perform_def)
next
  case False
  then have "perform rt mode executor n a d = retS (runtime_outcome (cr_fresh rt) n (ac_id a) ''simulated'' False
          [(''mode'', JStr (runtime_mode_value mode)), (''policy_effect'', JStr (decision_effect_value (pd_effect d)))])"
    by (cases executor) (simp_all add: perform_def split: bool.split)
  with False show ?thesis by (auto simp: runtime_outcome_def intro!: performs_ret)
qed

definition recorded :: "(action_proposal \<Rightarrow> bool) \<Rightarrow> action_proposal \<times> policy_decision \<times> outcome \<Rightarrow> action_proposal list \<Rightarrow> bool" where
  "recorded P x as \<longleftrightarrow> (case x of (a, d, r) \<Rightarrow> as = filter P [a] \<and> oc_executed r = P a \<and> oc_action_id r = ac_id a)"

lemma performs_action:
  "performs executor (may_execute rt mode approvals executor) (recorded (may_execute rt mode approvals executor))
     (run_action rt mode approvals executor t p n row)"
  unfolding run_action_def Let_def
  by (intro performs_bind [OF performs_lift [where Q = "\<lambda>_ as. as = []"]] performs_bind [OF performs_ledger [where Q = "\<lambda>_ as. as = []"]]
      performs_bind [OF performs_emit [where Q = "\<lambda>_ as. as = []"]] performs_bind [OF performs_perform] performs_ret)
    (auto simp: recorded_def can_execute_evaluate may_execute_def)

lemma performs_actions:
  "performs executor (may_execute rt mode approvals executor)
     (\<lambda>xs as. as = filter (may_execute rt mode approvals executor) (map fst xs) \<and>
        list_all (\<lambda>(a, d, r). oc_executed r = may_execute rt mode approvals executor a \<and> oc_action_id r = ac_id a) xs)
     (run_actions rt mode approvals executor t p n rows)"
proof (induction rows arbitrary: n)
  case (Cons row rows)
  show ?case
    by (simp, intro performs_bind [OF performs_action] performs_bind [OF Cons.IH] performs_ret) (auto simp: recorded_def)
qed (auto intro: performs_ret)

text \<open>C38: The world outside changes only by executing actions that may be executed, one after the other: an executor is given, the mode is
  \<open>copilot\<close> or \<open>guarded_auto\<close>, and every rule that applies to the action permits it, with all its approvals; in \<open>replay\<close> and
  \<open>shadow\<close> mode it does not change at all. That holds also for runs that raise. A run that returns has executed exactly those of the proposed
  actions that may be executed, in their order, and its report counts them and says so of their outcomes.\<close>

theorem runtime_executes_permitted:
  assumes "core_run rt propose request context mode approvals executor t p st = (r, st')"
  shows "\<exists>as. rs_world st' = after_executing executor as (rs_world st) \<and> list_all (may_execute rt mode approvals executor) as \<and>
    (mode \<in> {REPLAY, SHADOW} \<longrightarrow> rs_world st' = rs_world st) \<and>
    (\<forall>rep. r = Inr rep \<longrightarrow> rp_executed_actions rep = int (length as) \<and>
      (\<exists>actions. rp_actions rep = map action_to_dict actions \<and> as = filter (may_execute rt mode approvals executor) actions) \<and>
      map (\<lambda>row. dget row ''action_id'') (filter (\<lambda>row. dget row ''executed'' = JBool True) (rp_outcomes rep)) = map (JStr \<circ> ac_id) as)"
proof -
  let ?P = "may_execute rt mode approvals executor"
  let ?ok = "\<lambda>(a, d, r). oc_executed r = ?P a \<and> oc_action_id r = ac_id a"
  have "performs executor ?P (\<lambda>rep as. \<exists>claims xs. rep = report_of mode claims xs \<and> as = filter ?P (map fst xs) \<and> list_all ?ok xs)
      (core_run rt propose request context mode approvals executor t p)"
    unfolding core_run_def Let_def
    by (intro performs_bind [OF performs_lift [where Q = "\<lambda>_ as. as = []"]] performs_bind [OF performs_ledger [where Q = "\<lambda>_ as. as = []"]]
        performs_bind [OF performs_actions] performs_ret) auto
  from performsD [OF this assms] obtain as where
    as: "rs_world st' = after_executing executor as (rs_world st)" "list_all ?P as"
    and rep: "\<And>rep. r = Inr rep \<Longrightarrow> \<exists>claims xs. rep = report_of mode claims xs \<and> as = filter ?P (map fst xs) \<and> list_all ?ok xs" by blast
  have still: "rs_world st' = rs_world st" if "mode \<in> {REPLAY, SHADOW}"
    using as that by (cases as) (auto simp: may_execute_def)
  have counted: "int (length (filter (\<lambda>(a, d, r). oc_executed r) xs)) = int (length (filter ?P (map fst xs))) \<and>
      map (\<lambda>row. dget row ''action_id'') (filter (\<lambda>row. dget row ''executed'' = JBool True) (map (\<lambda>(a, d, r). outcome_to_dict r) xs))
        = map (JStr \<circ> ac_id) (filter ?P (map fst xs))" if "list_all ?ok xs" for xs
    using that by (induction xs) (auto simp: outcome_to_dict_def dget_def)
  have acts: "map (\<lambda>(a, d, r). action_to_dict a) xs = map action_to_dict (map fst xs)" for xs :: "(action_proposal \<times> policy_decision \<times> outcome) list"
    by auto
  have "rp_executed_actions rep = int (length as) \<and>
      (\<exists>actions. rp_actions rep = map action_to_dict actions \<and> as = filter ?P actions) \<and>
      map (\<lambda>row. dget row ''action_id'') (filter (\<lambda>row. dget row ''executed'' = JBool True) (rp_outcomes rep)) = map (JStr \<circ> ac_id) as"
    if r: "r = Inr rep" for rep
  proof -
    from rep [OF r] obtain claims xs where x: "rep = report_of mode claims xs" "as = filter ?P (map fst xs)" "list_all ?ok xs" by blast
    have "rp_executed_actions rep = int (length as)" using counted [OF x(3)] by (simp add: x(1,2) report_of_def)
    moreover have "rp_actions rep = map action_to_dict (map fst xs)" unfolding x(1) report_of_def by (simp only: runtime_report.simps acts)
    moreover have "map (\<lambda>row. dget row ''action_id'') (filter (\<lambda>row. dget row ''executed'' = JBool True) (rp_outcomes rep)) = map (JStr \<circ> ac_id) as"
      using counted [OF x(3)] unfolding x(1,2) report_of_def by (simp only: runtime_report.simps)
    ultimately show ?thesis using x(2) by blast
  qed
  with as still show ?thesis by blast
qed

text \<open>A run that executes one payment, on a ledger in memory; the world counts the payments.\<close>

definition demo_runtime :: "(ledger_rows, unit) core_runtime" where
  "demo_runtime = \<lparr>cr_read = Inr, cr_write = (\<lambda>rows s. (Inr (), rows)), cr_hash = (\<lambda>s. ''h''), cr_mac = (\<lambda>k s. ''m''),
     cr_signing_key = None, cr_rules = [\<lparr>pr_policy_id = ''r'', pr_action_types = [''*''], pr_max_risk = ''medium'',
       pr_allowed_modes = [COPILOT], pr_require_reversible = False, pr_required_approvals = []\<rparr>], cr_verifiers = [],
     cr_sink = None, cr_fresh = (\<lambda>k n. (k, ''now''))\<rparr>"

definition demo_proposal :: "pdict \<Rightarrow> pdict \<Rightarrow> agent_proposal res" where
  "demo_proposal request context = Inr \<lparr>gp_claims = [], gp_actions = [[(''action_type'', JStr ''pay''), (''target'', JStr ''x''),
     (''proposed_by'', JStr ''agent'')]], gp_raw = None\<rparr>"

definition demo_executor :: "nat executor" where
  "demo_executor = Some (\<lambda>a n. (Inr [], n + 1))"

definition demo_run :: "runtime_report res \<times> (ledger_rows, nat, unit) run_state" where
  "demo_run = core_run demo_runtime demo_proposal [] None COPILOT [] demo_executor ''t'' ''p''
     \<lparr>rs_ledger = set_defaults LEDGER_COLLECTIONS [], rs_world = 0, rs_sink = ()\<rparr>"

lemma demo_run_executes: "case demo_run of (Inl e, st') \<Rightarrow> False | (Inr rep, st') \<Rightarrow> rp_executed_actions rep = 1 \<and> rs_world st' = 1"
  by code_simp

theorem runtime_executes_permitted_witness:
  "\<exists>a r st'. demo_run = (r, st') \<and> rs_world st' = 1 \<and> rs_world st' = after_executing demo_executor [a] 0 \<and>
     may_execute demo_runtime COPILOT [] demo_executor a"
proof -
  obtain r st' where run: "demo_run = (r, st')" by fastforce
  from demo_run_executes [unfolded run] obtain rep where rep: "r = Inr rep" "rp_executed_actions rep = 1" "rs_world st' = 1"
    by (cases r) auto
  from runtime_executes_permitted [OF run [unfolded demo_run_def]] rep obtain as where
    as: "rs_world st' = after_executing demo_executor as 0" "list_all (may_execute demo_runtime COPILOT [] demo_executor) as" "length as = 1"
    by auto
  then obtain a where a: "as = [a]" by (cases as) auto
  have "may_execute demo_runtime COPILOT [] demo_executor a" using as(2) by (simp add: a)
  with run rep(3) as(1) show ?thesis unfolding a by blast
qed

end
