(* ===== verification/Core_Api.thy ===== *)
theory Core_Api
  imports Core_Runtime Core_Guards Grdi_Models
begin

text \<open>
  Model of the routes of \<^verbatim>\<open>src/src/phigraph/core_v3/api.py\<close> on the collection ledger: claims, evidence, verifications, runs of the
  runtime, receipts, queries, health and integrity, and \<open>snapshot\<close> of \<^verbatim>\<open>ledger.py\<close>. A request is a call with its parsed body
  and its idempotency key, if any; the length and range constraints of the fields are the framework's. Routes on code repositories, on GitHub, the sandbox and the traces
  are not modelled. Index 0 of the identifiers of a kind is what a handler makes itself.
\<close>

section \<open>Bodies\<close>

record claim_request =
  kc_statement :: string
  kc_claim_type :: string
  kc_subject :: string
  kc_issuer :: string
  kc_confidence :: json
  kc_metadata :: pdict

record evidence_request =
  ke_kind :: string
  ke_source :: string
  ke_payload :: pdict
  ke_status :: evidence_status
  ke_metadata :: pdict

record verification_request =
  kv_claim_id :: string
  kv_verifier :: string
  kv_method :: string
  kv_result :: claim_status
  kv_evidence_ids :: "string list"
  kv_rationale :: string
  kv_metadata :: pdict

record runtime_request =
  kr_request :: pdict
  kr_context :: pdict
  kr_claims :: "pdict list"
  kr_actions :: "pdict list"
  kr_mode :: runtime_mode
  kr_approvals :: "string list"

section \<open>Traces\<close>

text \<open>\<open>TraceContext\<close> of \<^verbatim>\<open>telemetry.py\<close>, which a header may continue. The spans it is recorded in are not modelled.\<close>

record trace_context =
  tc_trace_id :: string
  tc_parent_span_id :: "string option"
  tc_flags :: string

definition is_hex :: "string \<Rightarrow> bool" where
  "is_hex s \<longleftrightarrow> list_all (\<lambda>c. c \<in> set ''0123456789abcdef'') s"

definition traceparent_parts :: "string \<Rightarrow> (string \<times> string \<times> string) option" where
  "traceparent_parts s = (let trace = take 32 (drop 3 s); parent = take 16 (drop 36 s); flags = drop 53 s in
     if length s = 55 \<and> take 3 s = ''00-'' \<and> s ! 35 = CHR ''-'' \<and> s ! 52 = CHR ''-'' \<and> is_hex trace \<and> is_hex parent \<and> is_hex flags
     then Some (trace, parent, flags) else None)"

definition trace_parse :: "string option \<Rightarrow> trace_context option res" where
  "trace_parse value = (if \<not> given value then Inr None else
     (case traceparent_parts (map lower_char (strip (the value))) of
        None \<Rightarrow> Inl (ValueError ''invalid_traceparent'')
      | Some (trace, parent, flags) \<Rightarrow>
          if set trace = {CHR ''0''} \<or> set parent = {CHR ''0''} then Inl (ValueError ''invalid_traceparent'')
          else Inr (Some \<lparr>tc_trace_id = trace, tc_parent_span_id = Some parent, tc_flags = flags\<rparr>)))"

definition trace_header :: "trace_context \<Rightarrow> string \<Rightarrow> string" where
  "trace_header tc span_id = ''00-'' @ tc_trace_id tc @ ''-'' @ span_id @ ''-'' @ tc_flags tc"

section \<open>The service\<close>

record ('b, 'e) core_service =
  ks_runtime :: "('b, 'e) core_runtime"
  ks_signer :: "receipt_signer option"
  ks_backend :: string

record ('b, 'e) core_api =
  ka_auth :: auth_state
  ka_responses :: pdict
  ka_run :: "('b, unit, 'e) run_state"

definition count :: "string \<Rightarrow> (('b, 'e) core_api, unit) act" where
  "count name st = (Inr (), st\<lparr>ka_auth := (ka_auth st)\<lparr>as_counters := inc name 1 (as_counters (ka_auth st))\<rparr>\<rparr>)"

definition read_ledger :: "('b \<Rightarrow> 'a res) \<Rightarrow> (('b, 'e) core_api, 'a) act" where
  "read_ledger f = readS (\<lambda>st. f (rs_ledger (ka_run st)))"

text \<open>\<open>scoped_idempotent\<close>: the stored response first, then \<open>idempotent\<close>, which looks it up again.\<close>

definition core_idempotent ::
  "('b, 'e) core_service \<Rightarrow> principal \<Rightarrow> string option \<Rightarrow> pdict \<Rightarrow> (('b, unit, 'e) run_state, json) act \<Rightarrow> string
   \<Rightarrow> (('b, 'e) core_api, json) act" where
  "core_idempotent sv identity key payload operation operation_name st =
     (case idempotent (cr_hash (ks_runtime sv)) key (JObj payload) operation operation_name (pr_tenant_id identity)
        (pr_project_id identity) (as_counters (ka_auth st), ka_responses st, ka_run st) of
      (r, (c, rows, s)) \<Rightarrow> (r, st\<lparr>ka_auth := (ka_auth st)\<lparr>as_counters := c\<rparr>, ka_responses := rows, ka_run := s\<rparr>))"

definition scoped_idempotent ::
  "('b, 'e) core_service \<Rightarrow> principal \<Rightarrow> string option \<Rightarrow> pdict \<Rightarrow> (('b, unit, 'e) run_state, json) act \<Rightarrow> string
   \<Rightarrow> (('b, 'e) core_api, json) act" where
  "scoped_idempotent sv identity key payload operation operation_name st =
     (if given key
      then (case idempotency_get
              (idempotency_key operation_name (pr_tenant_id identity) (pr_project_id identity) (the key))
              (request_hash (cr_hash (ks_runtime sv)) (JObj payload)) (ka_responses st) of
          Inl (ValueError m) \<Rightarrow> bindS (count ''idempotency.conflict'') (\<lambda>_. failS (HTTPException 409 m)) st
        | Inl e \<Rightarrow> (Inl e, st)
        | Inr JNull \<Rightarrow> core_idempotent sv identity key payload operation operation_name st
        | Inr cached \<Rightarrow> bindS (count ''idempotency.hit'') (\<lambda>_. retS cached) st)
      else core_idempotent sv identity key payload operation operation_name st)"

definition counted :: "string \<Rightarrow> (('b, 'e) core_api, 'a) act \<Rightarrow> (('b, 'e) core_api, 'a) act" where
  "counted name m = bindS m (\<lambda>result. bindS (count name) (\<lambda>_. retS result))"

definition map_error :: "(err \<Rightarrow> err) \<Rightarrow> ('s, 'a) act \<Rightarrow> ('s, 'a) act" where
  "map_error f m = tryS m (\<lambda>e. failS (f e))"

fun key_error_404 :: "err \<Rightarrow> err" where
  "key_error_404 (KeyError m) = HTTPException 404 (repr_str m)"
| "key_error_404 e = e"

fun value_error_400 :: "err \<Rightarrow> err" where
  "value_error_400 (ValueError m) = HTTPException 400 m"
| "value_error_400 e = e"

section \<open>Snapshots\<close>

definition snapshot_rows ::
  "('b \<Rightarrow> ledger_rows res) \<Rightarrow> string option \<Rightarrow> string option \<Rightarrow> 'b \<Rightarrow> (string \<times> pdict list) list res" where
  "snapshot_rows rd tenant_id project_id s =
     mapE (\<lambda>key. bindE (ledger_query rd key tenant_id project_id None 100000 0 s) (\<lambda>rows. Inr (key, rows))) LEDGER_COLLECTIONS"

definition verified_claims :: "pdict list \<Rightarrow> int res" where
  "verified_claims claims = bindE (mapE (\<lambda>item. dindex item ''status'') claims) (\<lambda>states.
     Inr (int (length (filter (\<lambda>v. v = JStr (claim_status_value VERIFIED)) states))))"

definition snapshot_summary :: "(string \<times> pdict list) list \<Rightarrow> pdict res" where
  "snapshot_summary payload = bindE (verified_claims (case map_of payload ''claims'' of None \<Rightarrow> [] | Some rows \<Rightarrow> rows)) (\<lambda>n.
     Inr (map (\<lambda>(key, rows). (key, JInt (int (length rows)))) payload @ [(''verified_claims'', JInt n)]))"

definition ledger_snapshot ::
  "('b \<Rightarrow> ledger_rows res) \<Rightarrow> string option \<Rightarrow> string option \<Rightarrow> 'b \<Rightarrow> pdict res" where
  "ledger_snapshot rd tenant_id project_id s =
     bindE (snapshot_rows rd tenant_id project_id s) (\<lambda>payload. bindE (snapshot_summary payload) (\<lambda>summary.
     Inr (map (\<lambda>(key, rows). (key, JArr (map JObj rows))) payload @ [(''summary'', JObj summary)])))"

section \<open>Routes\<close>

definition PROTOCOL_LABEL :: string where "PROTOCOL_LABEL = ''phigraph-protocol-v'' @ PROTOCOL_VERSION"

definition liveness :: json where
  "liveness = JObj [(''status'', JStr ''alive''), (''version'', JStr CORE_VERSION)]"

text \<open>The name of an exception's class; \<open>NotTyped\<close> is none.\<close>

fun class_name :: "err \<Rightarrow> string option" where
  "class_name (ValueError m) = Some ''ValueError''"
| "class_name (KeyError m) = Some ''KeyError''"
| "class_name (TypeError m) = Some ''TypeError''"
| "class_name (AttributeError m) = Some ''AttributeError''"
| "class_name (DuplicateCanonicalKey m) = Some ''DuplicateCanonicalKey''"
| "class_name (ScopedRecordNotFound m) = Some ''ScopedRecordNotFound''"
| "class_name (VersionConflict m) = Some ''VersionConflict''"
| "class_name (TransactionUnavailable m) = Some ''TransactionUnavailable''"
| "class_name (LedgerIntegrityError m) = Some ''LedgerIntegrityError''"
| "class_name (UndeclaredLockRef m) = Some ''UndeclaredLockRef''"
| "class_name (IntegrityError m) = Some ''IntegrityError''"
| "class_name (IndexError m) = Some ''IndexError''"
| "class_name (RuntimeError m) = Some ''RuntimeError''"
| "class_name (HTTPException n m) = Some ''HTTPException''"
| "class_name (NotTyped m) = None"

definition readiness :: "('b, 'e) core_service \<Rightarrow> (('b, 'e) core_api, json) act" where
  "readiness sv = bindS (map_error (\<lambda>e. case class_name e of None \<Rightarrow> e | Some n \<Rightarrow> HTTPException 503 (''ledger_unavailable:'' @ n))
       (read_ledger (ledger_snapshot (cr_read (ks_runtime sv)) None None)))
     (\<lambda>_. retS (JObj [(''status'', JStr ''ready''), (''backend'', JStr (ks_backend sv))]))"

fun chain_status_json :: "chain_status \<Rightarrow> json" where
  "chain_status_json (ChainValid n heads) = JObj [(''valid'', JBool True), (''checked'', JInt (int n)), (''heads'', JObj heads)]"
| "chain_status_json (ChainInvalid n reason collection) = JObj [(''valid'', JBool False), (''checked'', JInt (int n)),
     (''reason'', JStr reason), (''collection'', JStr collection)]"

definition ledger_integrity :: "('b, 'e) core_service \<Rightarrow> (('b, 'e) core_api, json) act" where
  "ledger_integrity sv = (let rt = ks_runtime sv in
     bindS (read_ledger (verify_chain (cr_read rt) (cr_hash rt))) (\<lambda>st. retS (chain_status_json st)))"

definition core_status :: "('b, 'e) core_service \<Rightarrow> principal \<Rightarrow> (('b, 'e) core_api, json) act" where
  "core_status sv identity =
     bindS (count ''status.read'') (\<lambda>_.
     bindS (read_ledger (ledger_snapshot (cr_read (ks_runtime sv)) (Some (pr_tenant_id identity)) (Some (pr_project_id identity)))) (\<lambda>snap.
     bindS (liftS (dindex snap ''summary'')) (\<lambda>summary.
     retS (JObj [
       (''version'', JStr CORE_VERSION), (''protocol'', JStr PROTOCOL_LABEL),
       (''default_mode'', JStr (runtime_mode_value SHADOW)), (''execution_enabled'', JBool False),
       (''backend'', JStr (ks_backend sv)),
       (''principal'', JObj [(''subject'', JStr (pr_subject identity)), (''role'', JStr (role_value (pr_role identity))),
          (''issuer'', JStr (pr_issuer identity))]),
       (''scope'', JObj [(''tenant_id'', JStr (pr_tenant_id identity)), (''project_id'', JStr (pr_project_id identity))]),
       (''ledger'', summary)]))))"

definition claim_request_dump :: "claim_request \<Rightarrow> pdict" where
  "claim_request_dump body = [
     (''statement'', JStr (kc_statement body)), (''claim_type'', JStr (kc_claim_type body)),
     (''subject'', JStr (kc_subject body)), (''issuer'', JStr (kc_issuer body)), (''confidence'', kc_confidence body),
     (''metadata'', JObj (kc_metadata body))]"

definition requested_claim :: "fresh_ids \<Rightarrow> claim_request \<Rightarrow> claim" where
  "requested_claim fresh body = \<lparr>cl_id = new_id fresh ''cl'' 0, cl_statement = kc_statement body,
     cl_claim_type = kc_claim_type body, cl_subject = kc_subject body, cl_issuer = kc_issuer body, cl_status = PROPOSED,
     cl_confidence = kc_confidence body, cl_evidence_ids = [], cl_created_at = snd (fresh ''cl'' 0), cl_supersedes = None,
     cl_metadata = kc_metadata body\<rparr>"

definition create_claim ::
  "('b, 'e) core_service \<Rightarrow> principal \<Rightarrow> claim_request \<Rightarrow> string option \<Rightarrow> (('b, 'e) core_api, json) act" where
  "create_claim sv identity body key = (let rt = ks_runtime sv in counted ''claims.created'' (scoped_idempotent sv identity key
     (claim_request_dump body @ [(''tenant_id'', JStr (pr_tenant_id identity)), (''project_id'', JStr (pr_project_id identity)),
        (''op'', JStr ''claim'')])
     (on_ledger (bindS (register_claim (cr_read rt) (cr_write rt) (cr_hash rt) (requested_claim (cr_fresh rt) body)
        (pr_tenant_id identity) (pr_project_id identity)) (\<lambda>c. retS (JObj (claim_to_dict c)))))
     ''core.claim.create''))"

definition in_caller_scope :: "principal \<Rightarrow> pdict \<Rightarrow> bool res" where
  "in_caller_scope identity row = bindE (as_dict (dget_or row ''metadata'' (JObj []))) (\<lambda>metadata.
     Inr (dget metadata ''tenant_id'' = JStr (pr_tenant_id identity) \<and> dget metadata ''project_id'' = JStr (pr_project_id identity)))"

definition route_get_claim :: "('b, 'e) core_service \<Rightarrow> principal \<Rightarrow> string \<Rightarrow> (('b, 'e) core_api, json) act" where
  "route_get_claim sv identity claim_id =
     bindS (map_error key_error_404 (read_ledger (get_record (cr_read (ks_runtime sv)) ''claims'' claim_id ''claim_id''))) (\<lambda>row.
     bindS (liftS (in_caller_scope identity row)) (\<lambda>ok.
     if \<not> ok then failS (HTTPException 404 ''claim_not_found_in_scope'') else retS (JObj row)))"

definition evidence_request_dump :: "evidence_request \<Rightarrow> pdict" where
  "evidence_request_dump body = [
     (''kind'', JStr (ke_kind body)), (''source'', JStr (ke_source body)), (''payload'', JObj (ke_payload body)),
     (''status'', JStr (evidence_status_value (ke_status body))), (''metadata'', JObj (ke_metadata body))]"

definition requested_evidence :: "fresh_ids \<Rightarrow> evidence_request \<Rightarrow> evidence" where
  "requested_evidence fresh body = \<lparr>ev_id = new_id fresh ''ev'' 0, ev_kind = ke_kind body, ev_source = ke_source body,
     ev_payload = ke_payload body, ev_status = ke_status body, ev_content_hash = None, ev_observed_at = snd (fresh ''ev'' 0),
     ev_metadata = ke_metadata body\<rparr>"

definition create_evidence ::
  "('b, 'e) core_service \<Rightarrow> principal \<Rightarrow> evidence_request \<Rightarrow> string option \<Rightarrow> (('b, 'e) core_api, json) act" where
  "create_evidence sv identity body key = (let rt = ks_runtime sv in counted ''evidence.created'' (scoped_idempotent sv identity key
     (evidence_request_dump body @ [(''tenant_id'', JStr (pr_tenant_id identity)), (''project_id'', JStr (pr_project_id identity)),
        (''op'', JStr ''evidence'')])
     (on_ledger (bindS (register_evidence (cr_read rt) (cr_write rt) (cr_hash rt) (cr_mac rt) (cr_signing_key rt)
        (requested_evidence (cr_fresh rt) body) (pr_tenant_id identity) (pr_project_id identity))
        (\<lambda>e. retS (JObj (evidence_to_dict e)))))
     ''core.evidence.create''))"

definition evidence_integrity :: "('b, 'e) core_service \<Rightarrow> string \<Rightarrow> (('b, 'e) core_api, json) act" where
  "evidence_integrity sv evidence_id = (let rt = ks_runtime sv in
     bindS (map_error key_error_404 (read_ledger (verify_evidence_signature (cr_read rt) (cr_mac rt) (cr_signing_key rt) evidence_id)))
       (\<lambda>result. retS (JObj [(''evidence_id'', JStr evidence_id), (''signed'', JBool (result \<noteq> None)),
          (''valid'', case result of None \<Rightarrow> JNull | Some b \<Rightarrow> JBool b)])))"

definition verification_request_dump :: "verification_request \<Rightarrow> pdict" where
  "verification_request_dump body = [
     (''claim_id'', JStr (kv_claim_id body)), (''verifier'', JStr (kv_verifier body)), (''method'', JStr (kv_method body)),
     (''result'', JStr (claim_status_value (kv_result body))), (''evidence_ids'', jstrs (kv_evidence_ids body)),
     (''rationale'', JStr (kv_rationale body)), (''metadata'', JObj (kv_metadata body))]"

definition requested_verification :: "fresh_ids \<Rightarrow> verification_request \<Rightarrow> verification" where
  "requested_verification fresh body = \<lparr>vr_id = new_id fresh ''vr'' 0, vr_claim_id = kv_claim_id body,
     vr_verifier = kv_verifier body, vr_method = kv_method body, vr_result = kv_result body,
     vr_evidence_ids = kv_evidence_ids body, vr_rationale = kv_rationale body, vr_verified_at = snd (fresh ''vr'' 0),
     vr_metadata = kv_metadata body\<rparr>"

definition create_verification ::
  "('b, 'e) core_service \<Rightarrow> principal \<Rightarrow> verification_request \<Rightarrow> string option \<Rightarrow> (('b, 'e) core_api, json) act" where
  "create_verification sv identity body key = (let rt = ks_runtime sv; v = requested_verification (cr_fresh rt) body in
     counted ''verifications.created'' (scoped_idempotent sv identity key
       (verification_request_dump body @ [(''tenant_id'', JStr (pr_tenant_id identity)), (''project_id'', JStr (pr_project_id identity))])
       (on_ledger (bindS (map_error key_error_404 (record_verification (cr_read rt) (cr_write rt) (cr_hash rt) v
          (pr_tenant_id identity) (pr_project_id identity))) (\<lambda>_. retS (JObj (verification_to_dict v)))))
       ''core.verification.create''))"

definition runtime_request_dump :: "runtime_request \<Rightarrow> pdict" where
  "runtime_request_dump body = [
     (''request'', JObj (kr_request body)), (''context'', JObj (kr_context body)), (''claims'', JArr (map JObj (kr_claims body))),
     (''actions'', JArr (map JObj (kr_actions body))), (''mode'', JStr (runtime_mode_value (kr_mode body))),
     (''approvals'', jstrs (kr_approvals body))]"

definition report_to_dict :: "runtime_report \<Rightarrow> pdict" where
  "report_to_dict rep = [
     (''mode'', JStr (rp_mode rep)), (''claims'', JArr (map JObj (rp_claims rep))), (''actions'', JArr (map JObj (rp_actions rep))),
     (''decisions'', JArr (map JObj (rp_decisions rep))), (''outcomes'', JArr (map JObj (rp_outcomes rep))),
     (''executed_actions'', JInt (rp_executed_actions rep))]"

definition run_runtime ::
  "('b, 'e) core_service \<Rightarrow> principal \<Rightarrow> runtime_request \<Rightarrow> string option \<Rightarrow> string option \<Rightarrow> (('b, 'e) core_api, json) act" where
  "run_runtime sv identity body key traceparent = counted ''runtime.runs'' (scoped_idempotent sv identity key
     (runtime_request_dump body @ [(''tenant_id'', JStr (pr_tenant_id identity)), (''project_id'', JStr (pr_project_id identity))])
     (bindS (map_error value_error_400 (liftS (trace_parse traceparent))) (\<lambda>_.
      bindS (core_run (ks_runtime sv) (\<lambda>request context. Inr \<lparr>gp_claims = kr_claims body, gp_actions = kr_actions body,
          gp_raw = Some [(''source'', JStr ''api''), (''principal'', JStr (pr_subject identity))]\<rparr>)
        (kr_request body) (Some (kr_context body)) (kr_mode body) (kr_approvals body) None
        (pr_tenant_id identity) (pr_project_id identity)) (\<lambda>rep. retS (JObj (report_to_dict rep)))))
     ''core.runtime.run'')"

definition verify_receipt :: "('b, 'e) core_service \<Rightarrow> pdict \<Rightarrow> (('b, 'e) core_api, json) act" where
  "verify_receipt sv receipt = (case ks_signer sv of
     None \<Rightarrow> failS (HTTPException 409 ''receipt_signing_not_configured'')
   | Some s \<Rightarrow> bindS (liftS (receipt_verify (cr_mac (ks_runtime sv)) s receipt)) (\<lambda>ok. retS (JObj [(''valid'', JBool ok)])))"

definition query_ledger ::
  "('b, 'e) core_service \<Rightarrow> principal \<Rightarrow> string \<Rightarrow> string option \<Rightarrow> int \<Rightarrow> int \<Rightarrow> (('b, 'e) core_api, json) act" where
  "query_ledger sv identity collection status limit offset =
     bindS (map_error value_error_400 (read_ledger (ledger_query (cr_read (ks_runtime sv)) collection
       (Some (pr_tenant_id identity)) (Some (pr_project_id identity)) status limit offset))) (\<lambda>rows.
     retS (JObj [(''collection'', JStr collection), (''count'', JInt (int (length rows))), (''items'', JArr (map JObj rows))]))"

section \<open>Requests\<close>

text \<open>\<open>GetLedger\<close> is the path \<^verbatim>\<open>/ledger/{collection}\<close>: its route is declared before that of \<^verbatim>\<open>/ledger/snapshot\<close>, so it takes
  that path too. \<open>liveness\<close> has no guard.\<close>

datatype core_call =
    GetReady
  | GetIntegrity
  | GetStatus
  | PostClaim claim_request "string option"
  | GetClaim string
  | PostEvidence evidence_request "string option"
  | GetEvidenceIntegrity string
  | PostVerification verification_request "string option"
  | PostRun runtime_request "string option" "string option"
  | PostReceipt pdict
  | GetLedger string "string option" int int

fun core_permission :: "core_call \<Rightarrow> string" where
  "core_permission (PostClaim body key) = ''claim:create''"
| "core_permission (PostEvidence body key) = ''evidence:create''"
| "core_permission (PostVerification body key) = ''verification:create''"
| "core_permission (PostRun body key traceparent) = ''runtime:run''"
| "core_permission _ = ''read''"

fun core_handle :: "('b, 'e) core_service \<Rightarrow> principal \<Rightarrow> core_call \<Rightarrow> (('b, 'e) core_api, json) act" where
  "core_handle sv identity GetReady = readiness sv"
| "core_handle sv identity GetIntegrity = ledger_integrity sv"
| "core_handle sv identity GetStatus = core_status sv identity"
| "core_handle sv identity (PostClaim body key) = create_claim sv identity body key"
| "core_handle sv identity (GetClaim claim_id) = route_get_claim sv identity claim_id"
| "core_handle sv identity (PostEvidence body key) = create_evidence sv identity body key"
| "core_handle sv identity (GetEvidenceIntegrity evidence_id) = evidence_integrity sv evidence_id"
| "core_handle sv identity (PostVerification body key) = create_verification sv identity body key"
| "core_handle sv identity (PostRun body key traceparent) = run_runtime sv identity body key traceparent"
| "core_handle sv identity (PostReceipt receipt) = verify_receipt sv receipt"
| "core_handle sv identity (GetLedger collection status limit offset) = query_ledger sv identity collection status limit offset"

definition core_request ::
  "auth_config \<Rightarrow> rat \<Rightarrow> rat \<Rightarrow> ('b, 'e) core_service \<Rightarrow> request_headers \<Rightarrow> core_call \<Rightarrow> ('b, 'e) core_api
   \<Rightarrow> (json res \<times> ('b, 'e) core_api) option" where
  "core_request cfg now timestamp sv rq call st =
     (case guarded cfg now timestamp (core_permission call) rq (ka_auth st) of
        None \<Rightarrow> None
      | Some (Inl e, a) \<Rightarrow> Some (Inl e, st\<lparr>ka_auth := a\<rparr>)
      | Some (Inr identity, a) \<Rightarrow> Some (core_handle sv identity call (st\<lparr>ka_auth := a\<rparr>)))"

end
