(* ===== verification/Core_Api_Properties.thy ===== *)
theory Core_Api_Properties
  imports Core_Api Guard_Properties Hav_Properties
begin

text \<open>
  What the routes on the collection ledger keep and answer: the chains verify after any requests, over any backend that honours the
  contract \<open>ledger_backend\<close>; what a caller reads names the caller's tenant and project; and where tenants are not kept apart.
\<close>

section \<open>Programs that preserve a property of the state\<close>

definition preserves :: "('s \<Rightarrow> bool) \<Rightarrow> ('s, 'a) act \<Rightarrow> bool" where
  "preserves P m \<longleftrightarrow> (\<forall>s. P s \<longrightarrow> P (snd (m s)))"

lemma preservesD: "preserves P m \<Longrightarrow> P s \<Longrightarrow> m s = (r, s') \<Longrightarrow> P s'"
  by (fastforce simp: preserves_def)

lemma preservesI: "(\<And>s r s'. P s \<Longrightarrow> m s = (r, s') \<Longrightarrow> P s') \<Longrightarrow> preserves P m"
  unfolding preserves_def by (metis prod.collapse)

lemma preserves_basic:
  "preserves P (retS x)" "preserves P (failS e)" "preserves P (liftS z)" "preserves P (readS f)"
  by (simp_all add: preserves_def retS_def failS_def liftS_def readS_def)

lemma preserves_bind:
  assumes "preserves P m" "\<And>x. preserves P (f x)"
  shows "preserves P (bindS m f)"
proof (rule preservesI)
  fix s r s' assume p: "P s" and run: "bindS m f s = (r, s')"
  obtain z t where z: "m s = (z, t)" by (cases "m s")
  from preservesD [OF assms(1) p z] have "P t" .
  with run z preservesD [OF assms(2)] show "P s'" by (cases z) (auto simp: bindS_def)
qed

lemma preserves_bind_lift:
  assumes "\<And>x. z = Inr x \<Longrightarrow> preserves P (f x)"
  shows "preserves P (bindS (liftS z) f)"
  using assms by (cases z) (simp_all add: preserves_def bindS_def liftS_def)

lemma preserves_map_error:
  assumes "preserves P m"
  shows "preserves P (map_error f m)"
proof (rule preservesI)
  fix s r s' assume p: "P s" and run: "map_error f m s = (r, s')"
  obtain z t where z: "m s = (z, t)" by (cases "m s")
  have "s' = t" using run z by (cases z) (auto simp: map_error_def tryS_def failS_def)
  with preservesD [OF assms p z] show "P s'" by simp
qed

lemma preserves_on_ledger: "preserves P m \<Longrightarrow> preserves (\<lambda>st. P (rs_ledger st)) (on_ledger m)"
  by (simp add: preserves_def on_ledger_def split: prod.split) (metis snd_conv)

lemma preserves_emit: "preserves (\<lambda>st. P (rs_ledger st)) (emit rt k v)"
  by (simp add: preserves_def emit_def split: prod.split option.split)

lemma preserves_count: "preserves (\<lambda>st. P (ka_run st)) (count name)"
  by (simp add: preserves_def count_def)

lemma run_stored_state:
  assumes "preserves P m" "P s" "idempotency_run key digest m (rows, s) = (r, (rows', s'))"
  shows "P s'"
proof (cases "dget rows key = JNull")
  case True
  obtain z t where z: "m s = (z, t)" by (cases "m s")
  have "s' = t" using assms(3) True z by (cases z) (auto simp: idempotency_run_def)
  with preservesD [OF assms(1,2) z] show ?thesis by simp
next
  case False
  then show ?thesis using assms(2,3) by (cases "dget rows key") (auto simp: idempotency_run_def)
qed

lemma idempotent_state:
  assumes "preserves P m" "P s" "idempotent H key payload m name t p (c, rows, s) = (r, (c', rows', s'))"
  shows "P s'"
proof (cases "given key")
  case True
  obtain z rows1 s1 where z: "idempotency_run (idempotency_key name t p (the key)) (request_hash H payload) m (rows, s) = (z, (rows1, s1))"
    by (metis prod_cases3)
  have "s' = s1"
  proof (cases z)
    case (Inl e)
    then show ?thesis using assms(3) True z by (cases e) (auto simp: idempotent_def)
  qed (use assms(3) True z in \<open>auto simp: idempotent_def\<close>)
  with run_stored_state [OF assms(1,2) z] show ?thesis by simp
next
  case False
  then show ?thesis using assms preservesD [OF assms(1,2)] by (auto simp: idempotent_def split: prod.splits)
qed

lemma preserves_scoped:
  assumes "preserves P m"
  shows "preserves (\<lambda>st. P (ka_run st)) (scoped_idempotent sv identity key payload m name)"
proof (rule preservesI)
  fix st r st' assume p: "P (ka_run st)" and run: "scoped_idempotent sv identity key payload m name st = (r, st')"
  show "P (ka_run st')"
  proof (cases "core_idempotent sv identity key payload m name st = (r, st')")
    case True
    then show ?thesis using idempotent_state [OF assms p]
      by (auto simp: core_idempotent_def split: prod.splits)
  next
    case False
    with run have "ka_run st' = ka_run st"
      by (auto simp: scoped_idempotent_def count_def bindS_def failS_def retS_def split: sum.splits err.splits json.splits if_splits)
    with p show ?thesis by simp
  qed
qed

lemma preserves_counted: "preserves (\<lambda>st. P (ka_run st)) m \<Longrightarrow> preserves (\<lambda>st. P (ka_run st)) (counted name m)"
  unfolding counted_def by (intro preserves_bind preserves_basic preserves_count)

lemma preserves_read_ledger: "preserves P (read_ledger f)"
  unfolding read_ledger_def by (rule preserves_basic)

section \<open>Runs and routes keep the chains\<close>

text \<open>A parsed body is a Python value, and so is the evidence a verifier makes: the keys of dictionaries are distinct.\<close>

fun core_call_wf :: "core_call \<Rightarrow> bool" where
  "core_call_wf (PostClaim body key) \<longleftrightarrow> jwf (kc_confidence body) \<and> dwf (kc_metadata body)"
| "core_call_wf (PostEvidence body key) \<longleftrightarrow> dwf (ke_payload body) \<and> dwf (ke_metadata body)"
| "core_call_wf (PostVerification body key) \<longleftrightarrow> dwf (kv_metadata body)"
| "core_call_wf (PostRun body key traceparent) \<longleftrightarrow> list_all dwf (kr_claims body) \<and> list_all dwf (kr_actions body)"
| "core_call_wf _ \<longleftrightarrow> True"

definition evidence_wf :: "evidence \<Rightarrow> bool" where
  "evidence_wf e \<longleftrightarrow> dwf (ev_payload e) \<and> dwf (ev_metadata e)"

definition verifiers_wf :: "(string \<times> string \<times> verifier) list \<Rightarrow> bool" where
  "verifiers_wf vs \<longleftrightarrow> (\<forall>ty name v c ctx x es txt. map_of vs ty = Some (name, v) \<longrightarrow> v c ctx = Inr (x, es, txt) \<longrightarrow> list_all evidence_wf es)"

lemma dwf_read: "json_dict (dget_or d k (JObj [])) = Inr x \<Longrightarrow> dwf d \<Longrightarrow> dwf x"
  using jwf_dget_or [of d "JObj []" k] by (cases "dget_or d k (JObj [])") (auto simp: dwf_def)

lemma claim_from_row_wf:
  "claim_from_row i now row = Inr c \<Longrightarrow> dwf row \<Longrightarrow> jwf (cl_confidence c) \<and> dwf (cl_metadata c)"
  by (auto simp: claim_from_row_def bindE_Inr_iff dget_def intro: dwf_map_of dest: dwf_read split: option.split)

lemma action_from_row_wf: "action_from_row i now row = Inr a \<Longrightarrow> dwf row \<Longrightarrow> dwf (ac_parameters a)"
  by (auto simp: action_from_row_def bindE_Inr_iff dest: dwf_read)

context ledger_backend
begin

lemma keeps_preserves: "keeps H m \<Longrightarrow> preserves (valid H) m"
  by (auto intro: preservesI keepsD)

lemma keeps_outcome: "dwf (oc_observed_effects r) \<Longrightarrow> keeps H (record_outcome rd wr H r t p)"
  unfolding record_outcome_def
  by (intro keeps_bind keeps_append keeps_ret with_scope_field_wf plain_rows_wf) (simp_all add: LEDGER_COLLECTIONS_def)

definition on_backend :: "(string \<Rightarrow> string) \<Rightarrow> ('b, 'e) core_runtime \<Rightarrow> bool" where
  "on_backend H rt \<longleftrightarrow> cr_read rt = rd \<and> cr_write rt = wr \<and> cr_hash rt = H \<and> verifiers_wf (cr_verifiers rt)"

lemma on_backendD:
  assumes "on_backend H rt"
  shows "cr_read rt = rd" "cr_write rt = wr" "cr_hash rt = H" "verifiers_wf (cr_verifiers rt)"
  using assms by (simp_all add: on_backend_def)

lemma keeps_register_all:
  assumes "on_backend H rt"
  shows "list_all evidence_wf es \<Longrightarrow> keeps H (register_all rt t p es ids)"
  by (induction es arbitrary: ids)
    (auto simp: on_backendD [OF assms] evidence_wf_def intro!: keeps_bind keeps_evidence keeps_ret)

lemma keeps_verify_proposed:
  assumes "on_backend H rt"
  shows "keeps H (verify_proposed rt context t p n c)"
proof (cases "map_of (cr_verifiers rt) (cl_claim_type c)")
  case (Some x)
  obtain name v where x: "x = (name, v)" by (cases x)
  show ?thesis
    using on_backendD(4) [OF assms] Some unfolding verify_proposed_def x
    by (auto simp: on_backendD(1-3) [OF assms] verifiers_wf_def split: prod.split
        intro!: keeps_lift keeps_bind keeps_ret keeps_record_verification keeps_register_all [OF assms]) blast
qed (simp add: verify_proposed_def keeps_ret)

lemma keeps_run_claims:
  assumes "on_backend H rt"
  shows "list_all dwf rows \<Longrightarrow> keeps H (run_claims rt context t p n rows)"
proof (induction rows arbitrary: n)
  case (Cons row rows)
  have "keeps H (readS f)" for f :: "'b \<Rightarrow> pdict res" by (simp add: keeps_def readS_def)
  then have "keeps H (run_claim rt context t p n row)"
    using Cons.prems claim_from_row_wf [of _ _ row] unfolding run_claim_def
    by (intro keeps_lift keeps_bind keeps_verify_proposed [OF assms]) (auto simp: on_backendD(1-3) [OF assms] intro!: keeps_claim)
  with Cons show ?case by (auto intro!: keeps_bind keeps_ret)
qed (simp add: keeps_ret)

definition led_valid :: "(string \<Rightarrow> string) \<Rightarrow> ('b, 'x, 'e) run_state \<Rightarrow> bool" where
  "led_valid H st \<longleftrightarrow> valid H (rs_ledger st)"

lemma led_on_ledger: "keeps H m \<Longrightarrow> preserves (led_valid H) (on_ledger m)"
  using preserves_on_ledger [OF keeps_preserves] by (simp add: led_valid_def [abs_def])

lemma led_emit: "preserves (led_valid H) (emit rt k v)"
  using preserves_emit [of "valid H" rt k v] by (simp add: led_valid_def [abs_def])

text \<open>Without an executor the outcome is simulated.\<close>

lemma led_run_action:
  assumes "on_backend H rt" "dwf row"
  shows "preserves (led_valid H) (run_action rt mode approvals None t p n row)"
proof -
  have sim: "perform rt mode None n a d = retS (runtime_outcome (cr_fresh rt) n (ac_id a) ''simulated'' False
      [(''mode'', JStr (runtime_mode_value mode)), (''policy_effect'', JStr (decision_effect_value (pd_effect d)))])" for a d
    by (simp add: perform_def split: bool.split)
  from assms(2) show ?thesis
    unfolding run_action_def Let_def sim bindS_ret on_backendD(1-3) [OF assms(1)]
    by (intro preserves_bind_lift preserves_bind led_on_ledger led_emit preserves_basic)
      (auto intro!: keeps_action keeps_decision keeps_outcome action_from_row_wf simp: runtime_outcome_def)
qed

lemma led_run_actions:
  assumes "on_backend H rt"
  shows "list_all dwf rows \<Longrightarrow> preserves (led_valid H) (run_actions rt mode approvals None t p n rows)"
  by (induction rows arbitrary: n) (auto intro!: preserves_bind preserves_basic led_run_action [OF assms])

lemma led_core_run:
  assumes "on_backend H rt" "\<And>x. propose request (case context of None \<Rightarrow> [] | Some c \<Rightarrow> c) = Inr x \<Longrightarrow>
    list_all dwf (gp_claims x) \<and> list_all dwf (gp_actions x)"
  shows "preserves (led_valid H) (core_run rt propose request context mode approvals None t p)"
  unfolding core_run_def Let_def
  by (intro preserves_bind_lift preserves_bind led_on_ledger preserves_basic)
    (use assms in \<open>auto intro: keeps_run_claims led_run_actions\<close>)

definition api_valid :: "(string \<Rightarrow> string) \<Rightarrow> ('b, 'e) core_api \<Rightarrow> bool" where
  "api_valid H st \<longleftrightarrow> valid H (rs_ledger (ka_run st))"

lemma api_keyed:
  "preserves (led_valid H) m \<Longrightarrow> preserves (api_valid H) (counted name (scoped_idempotent sv identity key payload m op))"
  using preserves_counted [of "\<lambda>r. valid H (rs_ledger r)", OF preserves_scoped, of m]
  by (simp add: led_valid_def [abs_def] api_valid_def [abs_def])

lemma core_handle_keeps:
  assumes "on_backend H (ks_runtime sv)" "core_call_wf call"
  shows "preserves (api_valid H) (core_handle sv identity call)"
proof -
  note b = on_backendD(1-3) [OF assms(1)]
  have count: "preserves (api_valid H) (count name)" for name
    using preserves_count [of "\<lambda>r. valid H (rs_ledger r)"] by (simp add: api_valid_def [abs_def])
  show ?thesis
  proof (cases call)
    case (PostClaim body key)
    with assms(2) show ?thesis
      by (auto simp: b create_claim_def Let_def requested_claim_def intro!: api_keyed led_on_ledger keeps_bind keeps_claim keeps_ret)
  next
    case (PostEvidence body key)
    with assms(2) show ?thesis
      by (auto simp: b create_evidence_def Let_def requested_evidence_def intro!: api_keyed led_on_ledger keeps_bind keeps_evidence keeps_ret)
  next
    case (PostVerification body key)
    have e: "on_ledger (bindS (map_error f m) (\<lambda>_. retS x)) = bindS (map_error f (on_ledger m)) (\<lambda>_. retS x)"
      for f and m :: "('b, verification) act" and x :: json
      by (rule ext) (simp add: on_ledger_def bindS_def map_error_def tryS_def failS_def retS_def split: prod.split sum.split)
    show ?thesis
      using assms(2) unfolding PostVerification core_handle.simps create_verification_def Let_def e b
      by (intro api_keyed preserves_bind preserves_map_error led_on_ledger preserves_basic)
        (auto intro!: keeps_record_verification simp: requested_verification_def)
  next
    case (PostRun body key traceparent)
    with assms show ?thesis
      by (auto simp: run_runtime_def intro!: api_keyed preserves_bind preserves_map_error preserves_basic led_core_run)
  next
    case (PostReceipt receipt)
    then show ?thesis by (cases "ks_signer sv") (auto simp: verify_receipt_def intro!: preserves_bind preserves_basic)
  qed (auto simp: core_status_def readiness_def ledger_integrity_def route_get_claim_def evidence_integrity_def query_ledger_def Let_def
      intro!: count preserves_bind preserves_basic preserves_map_error preserves_read_ledger)
qed

end

section \<open>Requests\<close>

text \<open>One request to a service on the backend \<open>rd\<close>, \<open>wr\<close>, by anybody, with whatever outcome.\<close>

inductive core_step ::
  "('b \<Rightarrow> ledger_rows res) \<Rightarrow> (ledger_rows \<Rightarrow> ('b, unit) act) \<Rightarrow> (string \<Rightarrow> string) \<Rightarrow> auth_config \<Rightarrow> ('b, 'e) core_api \<Rightarrow> ('b, 'e) core_api \<Rightarrow> bool"
  for rd wr H cfg where
  request: "cr_read (ks_runtime sv) = rd \<Longrightarrow> cr_write (ks_runtime sv) = wr \<Longrightarrow> cr_hash (ks_runtime sv) = H
    \<Longrightarrow> verifiers_wf (cr_verifiers (ks_runtime sv)) \<Longrightarrow> core_call_wf call
    \<Longrightarrow> core_request cfg now ts sv rq call st = Some (r, st') \<Longrightarrow> core_step rd wr H cfg st st'"

text \<open>What the guards let through is handled, on the same ledger.\<close>

lemma core_request_cases:
  assumes "core_request cfg now ts sv rq call st = Some (r, st')"
  obtains (denied) e where "r = Inl e" "ka_run st' = ka_run st" "ka_responses st' = ka_responses st"
  | (handled) identity a where "guarded cfg now ts (core_permission call) rq (ka_auth st) = Some (Inr identity, a)"
      "core_handle sv identity call (st\<lparr>ka_auth := a\<rparr>) = (r, st')"
  using assms by (auto simp: core_request_def split: option.splits prod.splits sum.splits)

context ledger_backend
begin

lemma steps_keep: "(core_step rd wr H cfg)\<^sup>*\<^sup>* st st' \<Longrightarrow> api_valid H st \<Longrightarrow> api_valid H st'"
proof (induction rule: rtranclp_induct)
  case (step st1 st2)
  from step.hyps(2) step.IH [OF step.prems] show ?case
  proof (cases rule: core_step.cases)
    case (request sv call now ts rq r)
    have on: "on_backend H (ks_runtime sv)" using request by (simp add: on_backend_def)
    from request(6) show ?thesis
    proof (cases rule: core_request_cases)
      case (handled identity a)
      have "api_valid H (st1\<lparr>ka_auth := a\<rparr>)" using step.IH [OF step.prems] by (simp add: api_valid_def)
      from preservesD [OF core_handle_keeps [OF on request(5)] this handled(2)] show ?thesis .
    qed (use step.IH [OF step.prems] in \<open>simp add: api_valid_def\<close>)
  qed
qed

end

text \<open>C39: Whatever requests are made to the routes of the collection ledger on an empty file, with whatever headers, bodies and keys, claims and
  actions of agents included, and also where they raise in the middle: the chains verify, and the route that checks them says so.\<close>

theorem core_ledger_verifies:
  assumes "(core_step json_read_all json_write_all H cfg)\<^sup>*\<^sup>* st st'" "rs_ledger (ka_run st) = JObj []"
    and "cr_read (ks_runtime sv) = json_read_all" "cr_hash (ks_runtime sv) = H"
  shows "\<exists>n heads. verify_chain json_read_all H (rs_ledger (ka_run st')) = Inr (ChainValid n heads) \<and>
    core_handle sv identity GetIntegrity st' =
      (Inr (JObj [(''valid'', JBool True), (''checked'', JInt (int n)), (''heads'', JObj heads)]), st')"
proof -
  have "json_rows.api_valid H st" using json_empty_valid by (simp add: json_rows.api_valid_def assms(2))
  from json_rows.steps_keep [OF assms(1) this] obtain n heads where
    n: "verify_chain json_read_all H (rs_ledger (ka_run st')) = Inr (ChainValid n heads)"
    using json_rows.valid_verifies [of H "rs_ledger (ka_run st')"] by (auto simp: json_rows.api_valid_def)
  then show ?thesis
    by (auto simp: ledger_integrity_def read_ledger_def readS_def bindS_def retS_def assms(3,4))
qed

section \<open>What callers read\<close>

text \<open>A row of the caller's scope; rows keep it under \<open>scope\<close>, claims, evidence and verifications under \<open>metadata\<close>.\<close>

definition names_scope :: "pdict \<Rightarrow> string \<Rightarrow> principal \<Rightarrow> bool" where
  "names_scope row field identity \<longleftrightarrow> (\<exists>d. dget row field = JObj d \<and> dget d ''tenant_id'' = JStr (pr_tenant_id identity) \<and>
     dget d ''project_id'' = JStr (pr_project_id identity))"

lemma filterE_all: "filterE f xs = Inr ys \<Longrightarrow> x \<in> set ys \<Longrightarrow> x \<in> set xs \<and> f x = Inr True"
  by (induction xs arbitrary: ys) (auto simp: bindE_Inr_iff split: if_splits)

lemma py_slice_subset: "set (py_slice i j xs) \<subseteq> set xs"
  unfolding py_slice_def by (meson in_set_dropD in_set_takeD subsetI)

lemma as_dict_Inr_iff: "as_dict v = Inr d \<longleftrightarrow> v = JObj d"
  by (cases v) simp_all

lemma scope_of_dget_or:
  assumes "as_dict (dget_or row ''metadata'' (JObj [])) = Inr d" "dget d ''tenant_id'' = JStr t"
  shows "dget row ''metadata'' = JObj d"
  using assms by (cases "map_of row ''metadata''") (auto simp: dget_or_def dget_def as_dict_Inr_iff split: json.splits)

lemma query_matches_scope:
  assumes "query_matches (Some (pr_tenant_id identity)) (Some (pr_project_id identity)) status row = Inr True"
  shows "names_scope row ''scope'' identity \<or> names_scope row ''metadata'' identity"
  using assms scope_of_dget_or
  by (cases "truthy (dget row ''scope'')")
    (auto simp: query_matches_def Let_def bindE_Inr_iff names_scope_def as_dict_Inr_iff split: if_splits)

lemma find_index_hit: "find_index k (JStr i) n rows = Inr (Some m) \<Longrightarrow> dget (rows ! (m - n)) k = JStr i"
proof (induction rows arbitrary: n)
  case (Cons row rows)
  show ?case
  proof (cases "map_of row k = Some (JStr i)")
    case True
    then show ?thesis using Cons.prems by (simp add: dindex_def dget_def)
  next
    case False
    then have "find_index k (JStr i) (Suc n) rows = Inr (Some m)"
      using Cons.prems by (auto simp: dindex_def split: option.splits if_splits)
    moreover from this have "Suc n \<le> m" by (auto dest: find_index_bound)
    ultimately show ?thesis using Cons.IH [of "Suc n"] by (simp add: Suc_diff_Suc)
  qed
qed simp

lemma get_record_key: "get_record rd c i k s = Inr row \<Longrightarrow> dget row k = JStr i"
  using find_index_hit [of k i 0] by (fastforce simp: get_record_def bindE_Inr_iff split: option.splits)

lemma query_matches_status:
  assumes "query_matches t p status row = Inr True"
  shows "case status of None \<Rightarrow> True | Some x \<Rightarrow> dget row ''status'' = JStr x"
proof -
  have step: "bindE m (\<lambda>a. if \<not> a then Inr False else f) = Inr True \<Longrightarrow> f = Inr True" for m f
    by (cases m) (auto split: if_splits)
  from assms show ?thesis unfolding query_matches_def Let_def by (auto dest!: step)
qed

lemma claim_answer:
  assumes "route_get_claim sv identity claim_id st = (Inr v, st')"
  shows "ka_run st' = ka_run st \<and> (\<exists>row. v = JObj row \<and> dget row ''claim_id'' = JStr claim_id \<and> names_scope row ''metadata'' identity)"
proof -
  from assms obtain row where row: "get_record (cr_read (ks_runtime sv)) ''claims'' claim_id ''claim_id'' (rs_ledger (ka_run st)) = Inr row"
      "in_caller_scope identity row = Inr True" "v = JObj row" "st' = st"
    by (auto simp: route_get_claim_def map_error_def read_ledger_def readS_def tryS_def bindS_def liftS_def failS_def retS_def
        split: sum.splits if_splits)
  moreover have "names_scope row ''metadata'' identity"
    using row(2) scope_of_dget_or by (auto simp: in_caller_scope_def bindE_Inr_iff names_scope_def)
  ultimately show ?thesis using get_record_key by auto
qed

lemma listing_answer:
  assumes "query_ledger sv identity collection status limit offset st = (Inr v, st')"
  shows "ka_run st' = ka_run st \<and> collection \<in> set LEDGER_COLLECTIONS \<and>
    (\<exists>rows. v = JObj [(''collection'', JStr collection), (''count'', JInt (int (length rows))), (''items'', JArr (map JObj rows))] \<and>
       (0 \<le> offset \<longrightarrow> 0 \<le> limit \<longrightarrow> length rows \<le> 1000) \<and>
       (\<forall>row \<in> set rows. (names_scope row ''scope'' identity \<or> names_scope row ''metadata'' identity) \<and>
          (\<forall>x. status = Some x \<longrightarrow> dget row ''status'' = JStr x)))"
proof -
  from assms obtain rows where rows: "ledger_query (cr_read (ks_runtime sv)) collection (Some (pr_tenant_id identity))
      (Some (pr_project_id identity)) status limit offset (rs_ledger (ka_run st)) = Inr rows" "st' = st"
      "v = JObj [(''collection'', JStr collection), (''count'', JInt (int (length rows))), (''items'', JArr (map JObj rows))]"
    by (auto simp: query_ledger_def map_error_def read_ledger_def readS_def tryS_def bindS_def failS_def retS_def split: sum.splits)
  from rows(1) obtain hits all where hits: "filterE (query_matches (Some (pr_tenant_id identity)) (Some (pr_project_id identity)) status) all = Inr hits"
      "rows = py_slice offset (offset + min limit 1000) hits" "collection \<in> set LEDGER_COLLECTIONS"
    by (auto simp: ledger_query_def bindE_Inr_iff)
  have "length rows \<le> 1000" if "0 \<le> offset" "0 \<le> limit"
    using that unfolding hits(2) py_slice_def py_bound_def by auto
  moreover have "(names_scope row ''scope'' identity \<or> names_scope row ''metadata'' identity) \<and>
      (\<forall>x. status = Some x \<longrightarrow> dget row ''status'' = JStr x)" if "row \<in> set rows" for row
  proof -
    have "row \<in> set hits" by (rule subsetD [OF py_slice_subset that [unfolded hits(2)]])
    from conjunct2 [OF filterE_all [OF hits(1) this]]
    have m: "query_matches (Some (pr_tenant_id identity)) (Some (pr_project_id identity)) status row = Inr True" .
    then have "case status of None \<Rightarrow> True | Some x \<Rightarrow> dget row ''status'' = JStr x" by (rule query_matches_status)
    with query_matches_scope [OF m] show ?thesis by auto
  qed
  ultimately show ?thesis using rows(2,3) hits(3) by blast
qed

text \<open>C40: A caller reads rows of the caller's own scope only: a claim that the route of a claim answers has its id and names the caller's tenant and
  project, and so does every row of a listing, of which there are at most a thousand. Neither changes the ledger.\<close>

theorem core_reads_scoped:
  assumes "core_request cfg now ts sv rq call st = Some (Inr v, st')"
  shows "\<exists>identity a. guarded cfg now ts (core_permission call) rq (ka_auth st) = Some (Inr identity, a) \<and>
    (case call of
       GetClaim claim_id \<Rightarrow> ka_run st' = ka_run st \<and>
         (\<exists>row. v = JObj row \<and> dget row ''claim_id'' = JStr claim_id \<and> names_scope row ''metadata'' identity)
     | GetLedger collection status limit offset \<Rightarrow> ka_run st' = ka_run st \<and> collection \<in> set LEDGER_COLLECTIONS \<and>
         (\<exists>rows. v = JObj [(''collection'', JStr collection), (''count'', JInt (int (length rows))), (''items'', JArr (map JObj rows))] \<and>
            (0 \<le> offset \<longrightarrow> 0 \<le> limit \<longrightarrow> length rows \<le> 1000) \<and>
            (\<forall>row \<in> set rows. (names_scope row ''scope'' identity \<or> names_scope row ''metadata'' identity) \<and>
               (\<forall>x. status = Some x \<longrightarrow> dget row ''status'' = JStr x)))
     | _ \<Rightarrow> True)"
  using assms
proof (cases rule: core_request_cases)
  case (handled identity a)
  show ?thesis
  proof (intro exI [of _ identity] exI [of _ a] conjI)
    show "guarded cfg now ts (core_permission call) rq (ka_auth st) = Some (Inr identity, a)" by (rule handled(1))
    show "case call of
        GetClaim claim_id \<Rightarrow> ka_run st' = ka_run st \<and>
          (\<exists>row. v = JObj row \<and> dget row ''claim_id'' = JStr claim_id \<and> names_scope row ''metadata'' identity)
      | GetLedger collection status limit offset \<Rightarrow> ka_run st' = ka_run st \<and> collection \<in> set LEDGER_COLLECTIONS \<and>
          (\<exists>rows. v = JObj [(''collection'', JStr collection), (''count'', JInt (int (length rows))), (''items'', JArr (map JObj rows))] \<and>
             (0 \<le> offset \<longrightarrow> 0 \<le> limit \<longrightarrow> length rows \<le> 1000) \<and>
             (\<forall>row \<in> set rows. (names_scope row ''scope'' identity \<or> names_scope row ''metadata'' identity) \<and>
                (\<forall>x. status = Some x \<longrightarrow> dget row ''status'' = JStr x)))
      | _ \<Rightarrow> True"
      using handled(2) by (cases call) (auto dest!: claim_answer listing_answer)
  qed
qed simp

section \<open>A service and its callers\<close>

definition demo_service :: "('b \<Rightarrow> ledger_rows res) \<Rightarrow> (ledger_rows \<Rightarrow> ('b, unit) act) \<Rightarrow> ('b, unit) core_service" where
  "demo_service rd wr = \<lparr>ks_runtime = \<lparr>cr_read = rd, cr_write = wr, cr_hash = demo_hash, cr_mac = (\<lambda>k s. ''m''), cr_signing_key = None,
     cr_rules = [], cr_verifiers = [], cr_sink = None, cr_fresh = (\<lambda>k n. (k, ''now''))\<rparr>, ks_signer = None, ks_backend = ''json''\<rparr>"

definition demo_core :: "'b \<Rightarrow> ('b, unit) core_api" where
  "demo_core s = \<lparr>ka_auth = demo_auth, ka_responses = [], ka_run = \<lparr>rs_ledger = s, rs_world = (), rs_sink = ()\<rparr>\<rparr>"

definition demo_claim_body :: claim_request where
  "demo_claim_body = \<lparr>kc_statement = ''s'', kc_claim_type = ''t'', kc_subject = ''x'', kc_issuer = ''i'', kc_confidence = JNull, kc_metadata = []\<rparr>"

definition demo_verification_body :: verification_request where
  "demo_verification_body = \<lparr>kv_claim_id = ''cl_cl'', kv_verifier = ''v'', kv_method = ''m'', kv_result = VERIFIED, kv_evidence_ids = [],
     kv_rationale = [], kv_metadata = []\<rparr>"

abbreviation in_memory :: "(ledger_rows, unit) core_service" where
  "in_memory \<equiv> demo_service Inr (\<lambda>rows s. (Inr (), rows))"

abbreviation caller :: "string \<Rightarrow> principal" where
  "caller tenant \<equiv> (to_principal DevIdentity)\<lparr>pr_tenant_id := tenant\<rparr>"

text \<open>The routes do not keep tenants apart where they write: a verification is recorded by the id of its claim alone, so a caller of another tenant
  decides the status of a claim that it cannot read.\<close>

lemma verification_crosses_tenants:
  "let st0 = demo_core (set_defaults LEDGER_COLLECTIONS []);
       st1 = snd (core_handle in_memory (caller ''a'') (PostClaim demo_claim_body None) st0);
       st2 = snd (core_handle in_memory (caller ''b'') (PostVerification demo_verification_body None) st1)
   in fst (core_handle in_memory (caller ''b'') (GetClaim ''cl_cl'') st1) = Inl (HTTPException 404 ''claim_not_found_in_scope'') \<and>
      (case fst (core_handle in_memory (caller ''a'') (GetClaim ''cl_cl'') st2) of
         Inr (JObj row) \<Rightarrow> dget row ''status'' = JStr ''verified'' | _ \<Rightarrow> False)"
  by code_simp

text \<open>The path of the snapshot is answered by the route of a collection.\<close>

lemma snapshot_refused:
  "core_handle sv identity (GetLedger ''snapshot'' status limit offset) st = (Inl (HTTPException 400 ''Unknown collection: snapshot''), st)"
  by (simp add: query_ledger_def map_error_def read_ledger_def readS_def ledger_query_def LEDGER_COLLECTIONS_def raise_if_def tryS_def
      bindS_def failS_def)

lemma demo_let_in:
  assumes "permission \<in> {''read'', ''claim:create''}"
  obtains a where "guarded demo_config 0 0 permission (guard_request ''admin'') demo_auth = Some (Inr (to_principal ApiKeyIdentity), a)"
  using assms
  by (auto simp: guarded_def principal_of_request_def demo_config_def guard_request_def core_auth_configured_def
      bearer_auth_configured_def server_principal_def enforce_rate_def rate_check_Some live_events_def rate_answer_def
      demo_auth_def new_limiter_def events_of_def require_permission_def allows_def to_principal_def ApiKeyIdentity_def retS_def)

text \<open>A claim is posted to a service on an empty file.\<close>

lemma core_ledger_verifies_witness:
  "\<exists>v st' n heads. core_request demo_config 0 0 (demo_service json_read_all json_write_all) (guard_request ''admin'')
       (PostClaim demo_claim_body None) (demo_core (JObj [])) = Some (Inr v, st') \<and>
     verify_chain json_read_all demo_hash (rs_ledger (ka_run st')) = Inr (ChainValid n heads)"
proof -
  let ?sv = "demo_service json_read_all json_write_all" and ?st = "demo_core (JObj [])"
  obtain a where a: "guarded demo_config 0 0 ''claim:create'' (guard_request ''admin'') demo_auth = Some (Inr (to_principal ApiKeyIdentity), a)"
    by (rule demo_let_in [of "''claim:create''"]) auto
  let ?c = "(requested_claim (\<lambda>k n. (k, ''now'')) demo_claim_body)\<lparr>cl_metadata := scope_metadata [] ''default'' ''default''\<rparr>"
  have wf: "dwf (claim_to_dict ?c)"
    by (simp add: claim_to_dict_def requested_claim_def demo_claim_body_def jstrs_def)
  have c: "''claims'' \<in> set LEDGER_COLLECTIONS" by (simp add: LEDGER_COLLECTIONS_def)
  have start: "json_read_all (JObj []) = Inr (set_defaults LEDGER_COLLECTIONS [])" by (simp add: json_read_all_def)
  have none: "map_of (set_defaults LEDGER_COLLECTIONS []) ''claims'' = Some []" using c by (simp add: map_of_set_defaults)
  obtain x s' where x: "legacy_append json_read_all json_write_all demo_hash ''claims'' (claim_to_dict ?c) ''claim_id'' (JObj []) = (Inr x, s')"
    by (rule json_append_first [where k = "''claim_id''", OF json_empty_valid start none wf c]) (rule that)
  have "\<exists>v st'. core_request demo_config 0 0 ?sv (guard_request ''admin'') (PostClaim demo_claim_body None) ?st = Some (Inr v, st')"
    using a x
    by (simp add: core_request_def demo_core_def create_claim_def counted_def scoped_idempotent_def core_idempotent_def idempotent_def given_def
        demo_service_def on_ledger_def register_claim_def bindS_def retS_def count_def Let_def to_principal_def ApiKeyIdentity_def
        demo_claim_body_def requested_claim_def split: prod.split)
  then obtain v st' where run: "core_request demo_config 0 0 ?sv (guard_request ''admin'') (PostClaim demo_claim_body None) ?st = Some (Inr v, st')"
    by blast
  have "(core_step json_read_all json_write_all demo_hash demo_config)\<^sup>*\<^sup>* ?st st'"
    by (rule r_into_rtranclp, rule core_step.request [OF _ _ _ _ _ run]) (simp_all add: demo_service_def verifiers_wf_def demo_claim_body_def)
  from core_ledger_verifies [OF this, of ?sv "to_principal ApiKeyIdentity"]
  obtain n heads where "verify_chain json_read_all demo_hash (rs_ledger (ka_run st')) = Inr (ChainValid n heads)"
    by (auto simp: demo_core_def demo_service_def)
  with run show ?thesis by blast
qed

definition demo_ledger :: ledger_rows where
  "demo_ledger = dset (set_defaults LEDGER_COLLECTIONS []) ''claims''
     [[(''claim_id'', JStr ''c1''), (''status'', JStr ''proposed''),
       (''metadata'', JObj [(''tenant_id'', JStr ''default''), (''project_id'', JStr ''default'')])],
      [(''claim_id'', JStr ''c2''), (''status'', JStr ''proposed''),
       (''metadata'', JObj [(''tenant_id'', JStr ''other''), (''project_id'', JStr ''default'')])]]"

lemma demo_listing:
  "(case ledger_query Inr ''claims'' (Some ''default'') (Some ''default'') None 10 0 demo_ledger of
      Inr rows \<Rightarrow> map (\<lambda>row. dget row ''claim_id'') rows = [JStr ''c1''] | Inl e \<Rightarrow> False)"
  by code_simp

text \<open>A listing of two claims, one of another tenant.\<close>

lemma core_reads_scoped_witness:
  "\<exists>row st' identity. core_request demo_config 0 0 in_memory (guard_request ''admin'') (GetLedger ''claims'' None 10 0) (demo_core demo_ledger) =
     Some (Inr (JObj [(''collection'', JStr ''claims''), (''count'', JInt 1), (''items'', JArr [JObj row])]), st') \<and>
     dget row ''claim_id'' = JStr ''c1'' \<and> (names_scope row ''scope'' identity \<or> names_scope row ''metadata'' identity)"
proof -
  obtain a where a: "guarded demo_config 0 0 ''read'' (guard_request ''admin'') demo_auth = Some (Inr (to_principal ApiKeyIdentity), a)"
    by (rule demo_let_in [of "''read''"]) auto
  from demo_listing obtain row where row: "ledger_query Inr ''claims'' (Some ''default'') (Some ''default'') None 10 0 demo_ledger = Inr [row]"
      "dget row ''claim_id'' = JStr ''c1''"
    by (auto split: sum.splits)
  let ?v = "JObj [(''collection'', JStr ''claims''), (''count'', JInt 1), (''items'', JArr [JObj row])]"
  have "\<exists>st'. core_request demo_config 0 0 in_memory (guard_request ''admin'') (GetLedger ''claims'' None 10 0) (demo_core demo_ledger) =
      Some (Inr ?v, st')"
    using a row(1)
    by (simp add: core_request_def demo_core_def query_ledger_def map_error_def read_ledger_def readS_def tryS_def bindS_def retS_def
        demo_service_def to_principal_def ApiKeyIdentity_def)
  then obtain st' where run: "core_request demo_config 0 0 in_memory (guard_request ''admin'') (GetLedger ''claims'' None 10 0)
      (demo_core demo_ledger) = Some (Inr ?v, st')" by blast
  from core_reads_scoped [OF run] have "\<exists>identity. names_scope row ''scope'' identity \<or> names_scope row ''metadata'' identity" by auto
  with run row(2) show ?thesis by blast
qed

end
