(* ===== verification/Sqlite_Collisions.thy ===== *)
theory Sqlite_Collisions
  imports Legacy_Backends
begin

text \<open>
  The SQLite backend of the collection ledger takes the identifier of a row from its first key ending in \<open>_id\<close>, and reads rows back
  with sorted keys. A verification is written under its own identifier and read back under that of its claim, so two of one claim
  collide at the next write. The logic \<open>writes\<close> follows what an operation does to the verifications of the table.
\<close>

section \<open>Identifiers of rows\<close>

text \<open>The fields a row can be identified by, in their order; the first is taken.\<close>

definition id_fields :: "pdict \<Rightarrow> pdict" where
  "id_fields row = filter (\<lambda>x. ends_with_id (fst x)) row"

definition first_id :: "pdict \<Rightarrow> string option" where
  "first_id fs = (case fs of [] \<Rightarrow> None | (k, v) # _ \<Rightarrow> Some (py_str v))"

lemma table_record_id_fields: "table_record_id row = first_id (id_fields row)"
  unfolding table_record_id_def id_fields_def first_id_def by (induction row) (auto split: list.splits)

lemma id_fields_dremove [simp]: "\<not> ends_with_id k \<Longrightarrow> id_fields (dremove row k) = id_fields row"
  by (induction row) (auto simp: id_fields_def dremove_def)

lemma id_fields_dset [simp]: "\<not> ends_with_id k \<Longrightarrow> id_fields (dset row k v) = id_fields row"
  by (induction row) (auto simp: id_fields_def)

lemma id_fields_canon [simp]: "id_fields (canon_dict row) = canon_dict (id_fields row)"
proof -
  have "filter (\<lambda>x. ends_with_id (fst x)) (map (map_prod id canon) row) =
      map (map_prod id canon) (filter (\<lambda>x. ends_with_id (fst x)) row)"
    by (induction row) auto
  then show ?thesis by (simp add: id_fields_def canon_dict_def filter_sort)
qed

lemma not_id [simp]: "\<not> ends_with_id ''_chain''" "\<not> ends_with_id ''scope''"
  by (simp_all add: ends_with_id_def)

lemma id_fields_chained [simp]: "id_fields (chained_row H prev c row) = id_fields row"
  by (simp add: chained_row_def)

lemma id_fields_rechain: "map id_fields (rechain_rows H c prev rows) = map id_fields rows"
  by (induction H c prev rows rule: rechain_rows.induct) (simp_all add: Let_def)

section \<open>The verifications of a table\<close>

definition payload_ids :: "ledger_rows \<Rightarrow> pdict list" where
  "payload_ids p = map id_fields (case map_of p ''verifications'' of None \<Rightarrow> [] | Some rows \<Rightarrow> rows)"

definition table_ids :: "ledger_table \<Rightarrow> pdict list" where
  "table_ids s = map id_fields (table_rows ''verifications'' s)"

lemma payload_ids_member: "(''verifications'', rows) \<in> set p \<Longrightarrow> ddistinct p \<Longrightarrow> map id_fields rows = payload_ids p"
  by (simp add: payload_ids_def)

lemma payload_ids_read: "sqlite_read_all s = Inr p \<Longrightarrow> payload_ids p = table_ids s"
  by (simp add: payload_ids_def table_ids_def sqlite_read_map(1) LEDGER_COLLECTIONS_def)

lemma payload_ids_dset [simp]:
  "payload_ids (dset p c rows) = (if c = ''verifications'' then map id_fields rows else payload_ids p)"
  by (simp add: payload_ids_def)

lemma payload_ids_rechain [simp]: "payload_ids (rechain_payload H p) = payload_ids p"
proof -
  have "payload_ids (foldl (\<lambda>m c. dset m c (rechain_rows H c JNull (case map_of m c of None \<Rightarrow> [] | Some rows \<Rightarrow> rows))) p cs) =
      payload_ids p" for cs
  proof (induction cs arbitrary: p)
    case (Cons c cs)
    show ?case unfolding foldl_Cons Cons.IH by (auto simp: id_fields_rechain) (simp add: payload_ids_def)
  qed simp
  then show ?thesis by (simp add: rechain_payload_def)
qed

lemma ddistinct_rechain [simp]: "ddistinct p \<Longrightarrow> ddistinct (rechain_payload H p)"
proof -
  have "ddistinct p \<Longrightarrow> ddistinct (foldl (\<lambda>m c. dset m c (rechain_rows H c JNull (case map_of m c of None \<Rightarrow> [] | Some rows \<Rightarrow> rows))) p cs)" for cs
    by (induction cs arbitrary: p) simp_all
  then show "ddistinct p \<Longrightarrow> ddistinct (rechain_payload H p)" by (simp add: rechain_payload_def)
qed

text \<open>A write that succeeds had rows with identifiers of their own.\<close>

lemma insert_rows_distinct:
  "insert_rows c rows table = Inr table' \<Longrightarrow> distinct (map table_record_id rows) \<and>
     (\<forall>x \<in> set table. fst x = c \<longrightarrow> Some (fst (snd x)) \<notin> table_record_id ` set rows)"
proof (induction c rows table rule: insert_rows.induct)
  case (2 c row rows table)
  then obtain i where i: "table_record_id row = Some i" by (cases "table_record_id row") auto
  have free: "\<not> (\<exists>(c', rid', _) \<in> set table. c' = c \<and> rid' = i)"
    using 2(2) i by (auto split: if_splits)
  have run: "insert_rows c rows (table @ [(c, i, canon_dict row)]) = Inr table'"
    using 2(2) i free by (simp split: if_splits)
  from 2(1) [OF i free run] have IH: "distinct (map table_record_id rows)"
      "\<And>x. x \<in> set table \<Longrightarrow> fst x = c \<Longrightarrow> Some (fst (snd x)) \<notin> table_record_id ` set rows" "Some i \<notin> table_record_id ` set rows"
    by auto
  have "Some (fst (snd x)) \<noteq> Some i" if "x \<in> set table" "fst x = c" for x
    using free that by (cases x) auto
  with IH i show ?case by auto
qed simp

lemma insert_collections_distinct:
  "insert_collections p table = Inr table' \<Longrightarrow> ddistinct p \<Longrightarrow> map_of p c = Some rows \<Longrightarrow> distinct (map table_record_id rows)"
proof (induction p table rule: insert_collections.induct)
  case (2 c' rows' cs table)
  from 2(2) obtain t where t: "insert_rows c' rows' table = Inr t" "insert_collections cs t = Inr table'"
    by (cases "insert_rows c' rows' table") auto
  show ?case
  proof (cases "c' = c")
    case True
    with 2(4) insert_rows_distinct [OF t(1)] show ?thesis by simp
  next
    case False
    with 2 t show ?thesis by simp
  qed
qed simp

lemma sqlite_write_ids:
  assumes "sqlite_write_all p s = (Inr u, s')" "ddistinct p"
  shows "distinct (map first_id (payload_ids p))" "table_ids s' = map canon_dict (payload_ids p)"
proof -
  from assms(1) have i: "insert_collections p [] = Inr s'" by (auto simp: sqlite_write_all_def split: sum.splits)
  show "distinct (map first_id (payload_ids p))"
    using insert_collections_distinct [OF i assms(2)]
    by (auto simp: payload_ids_def comp_def table_record_id_fields [symmetric] split: option.split)
  show "table_ids s' = map canon_dict (payload_ids p)"
    using insert_collections_table [OF i assms(2), of "''verifications''"]
    by (auto simp: table_ids_def payload_ids_def table_rows_def split: option.splits)
qed

section \<open>What operations do to the verifications\<close>

text \<open>The table was written: verifications were appended, and no two had one identifier.\<close>

definition wrote :: "ledger_table \<Rightarrow> ledger_table \<Rightarrow> bool" where
  "wrote s s' \<longleftrightarrow> (\<exists>new. distinct (map first_id (table_ids s @ new)) \<and> table_ids s' = map canon_dict (table_ids s @ new))"

text \<open>From a table with the identifiers \<open>ids\<close> the program leaves the table alone or writes it; with \<open>must\<close> it returns only if it
  wrote.\<close>

definition writes :: "bool \<Rightarrow> pdict list \<Rightarrow> (ledger_table, 'a) act \<Rightarrow> bool" where
  "writes must ids m \<longleftrightarrow> (\<forall>s r s'. table_ids s = ids \<longrightarrow> m s = (r, s') \<longrightarrow>
     (s' = s \<or> wrote s s') \<and> (must \<and> \<not> isl r \<longrightarrow> wrote s s'))"

lemma writesD:
  "writes must ids m \<Longrightarrow> table_ids s = ids \<Longrightarrow> m s = (r, s') \<Longrightarrow> (s' = s \<or> wrote s s') \<and> (must \<and> \<not> isl r \<longrightarrow> wrote s s')"
  by (simp add: writes_def)

lemma writes_ret: "writes False ids (retS x)"
  by (simp add: writes_def retS_def)

lemma writes_fail: "writes must ids (failS e)"
  by (simp add: writes_def failS_def)

lemma writes_lift: "(\<And>x. z = Inr x \<Longrightarrow> writes must ids (f x)) \<Longrightarrow> writes must ids (bindS (liftS z) f)"
  by (cases z) (simp_all add: writes_def bindS_def liftS_def)

lemma writes_read:
  assumes "\<And>p. ddistinct p \<Longrightarrow> payload_ids p = ids \<Longrightarrow> writes must ids (f p)"
  shows "writes must ids (bindS (readS sqlite_read_all) f)"
  unfolding writes_def
proof (intro allI impI)
  fix s r s' assume s: "table_ids s = ids" and run: "bindS (readS sqlite_read_all) f s = (r, s')"
  obtain p where p: "sqlite_read_all s = Inr p" by (simp add: sqlite_read_all_def)
  have "f p s = (r, s')" using run p by (simp add: bindS_def readS_def)
  from writesD [OF assms [OF sqlite_read_map(2) [OF p]] s this] payload_ids_read [OF p] s
  show "(s' = s \<or> wrote s s') \<and> (must \<and> \<not> isl r \<longrightarrow> wrote s s')" by simp
qed

lemma writes_write:
  assumes "ddistinct p" "payload_ids p = ids @ new" "\<And>s. snd (f () s) = s"
  shows "writes must ids (bindS (sqlite_write_all p) f)"
  unfolding writes_def
proof (intro allI impI)
  fix s r s' assume s: "table_ids s = ids" and run: "bindS (sqlite_write_all p) f s = (r, s')"
  obtain z t where z: "sqlite_write_all p s = (z, t)" by (cases "sqlite_write_all p s")
  show "(s' = s \<or> wrote s s') \<and> (must \<and> \<not> isl r \<longrightarrow> wrote s s')"
  proof (cases z)
    case (Inl e)
    then have "t = s" using z by (auto simp: sqlite_write_all_def split: sum.splits)
    with Inl z run show ?thesis by (auto simp: bindS_def)
  next
    case (Inr u)
    with z run have "f u t = (r, s')" by (simp add: bindS_def)
    then have "s' = t" using assms(3) [of t] by simp
    with sqlite_write_ids [OF z [unfolded Inr] assms(1)] assms(2) s show ?thesis by (auto simp: wrote_def)
  qed
qed

lemma writes_then: "writes must ids m \<Longrightarrow> writes must ids (bindS m (\<lambda>x. retS (g x)))"
  unfolding writes_def by (fastforce simp: bindS_def retS_def split: prod.splits sum.splits)

lemma writes_add_row:
  assumes "ddistinct p" "payload_ids p = ids" "collection_rows p c = Inr rows"
  shows "writes must ids (add_row sqlite_write_all H p c rows row)"
  unfolding add_row_def Let_def
proof (intro writes_lift)
  fix prev
  let ?p = "dset p c (rows @ [chained_row H prev c row])"
  have "payload_ids ?p = ids @ (if c = ''verifications'' then [id_fields row] else [])"
    using assms(2,3) by (auto simp: payload_ids_def collection_rows_Inr)
  with assms(1) show "writes must ids (bindS (sqlite_write_all ?p) (\<lambda>_. retS (chained_row H prev c row)))"
    by (intro writes_write) (simp_all add: retS_def)
qed

lemma writes_append: "writes must ids (legacy_append sqlite_read_all sqlite_write_all H c row k)"
  unfolding legacy_append_def
  by (intro writes_read writes_lift) (auto intro: writes_fail writes_add_row)

lemma extension_not_verifications: "check_extension c = Inr u \<Longrightarrow> c \<noteq> ''verifications''"
  by (auto simp: check_extension_def EXTENSION_COLLECTIONS_def)

lemma writes_once: "writes False ids (register_scoped_record_once sqlite_read_all sqlite_write_all H c row k t pr)"
  unfolding register_scoped_record_once_def
proof (intro writes_lift writes_read)
  fix p rows found
  assume "ddistinct p" "payload_ids p = ids" "collection_rows p c = Inr rows"
  then show "writes False ids (case found of Some existing \<Rightarrow> retS (existing, False)
     | None \<Rightarrow> bindS (add_row sqlite_write_all H p c rows (with_scope_field row t pr)) (\<lambda>stored. retS (stored, True)))"
    by (cases found) (simp_all add: writes_ret writes_then writes_add_row)
qed

lemma writes_update: "writes must ids (update_scoped_record sqlite_read_all sqlite_write_all H c row k t pr)"
  unfolding update_scoped_record_def
proof (intro writes_lift writes_read)
  fix u p rows x
  assume c: "check_extension c = Inr u" and p: "ddistinct p" "payload_ids p = ids"
  show "writes must ids (case x of (i, scope) \<Rightarrow> let scoped = dset row ''scope'' scope
     in bindS (sqlite_write_all (rechain_payload H (dset p c (rows[i := scoped])))) (\<lambda>_. retS scoped))"
    unfolding Let_def case_prod_unfold
    by (rule writes_write [where new = "[]"]) (use p extension_not_verifications [OF c] in \<open>simp_all add: retS_def\<close>)
qed

text \<open>What recording a verification writes.\<close>

lemma verification_ids:
  "id_fields (verification_to_dict v) = [(''verification_id'', JStr (vr_id v)), (''claim_id'', JStr (vr_claim_id v))]"
  by (simp add: id_fields_def verification_to_dict_def ends_with_id_def)

definition verification_fields :: "verification \<Rightarrow> pdict" where
  "verification_fields v = [(''verification_id'', JStr (vr_id v)), (''claim_id'', JStr (vr_claim_id v))]"

text \<open>The program raises and leaves the table alone, or writes exactly the new verifications \<open>new\<close>.\<close>

definition writes_exactly :: "pdict list \<Rightarrow> pdict list \<Rightarrow> (ledger_table, 'a) act \<Rightarrow> bool" where
  "writes_exactly ids new m \<longleftrightarrow> (\<forall>s r s'. table_ids s = ids \<longrightarrow> m s = (r, s') \<longrightarrow> isl r \<and> s' = s \<or>
     distinct (map first_id (ids @ new)) \<and> table_ids s' = map canon_dict (ids @ new))"

lemma exactly_fail: "writes_exactly ids new (failS e)"
  by (simp add: writes_exactly_def failS_def)

lemma exactly_lift: "(\<And>x. z = Inr x \<Longrightarrow> writes_exactly ids new (f x)) \<Longrightarrow> writes_exactly ids new (bindS (liftS z) f)"
  by (cases z) (simp_all add: writes_exactly_def bindS_def liftS_def)

lemma exactly_read:
  assumes "\<And>p. ddistinct p \<Longrightarrow> payload_ids p = ids \<Longrightarrow> writes_exactly ids new (f p)"
  shows "writes_exactly ids new (bindS (readS sqlite_read_all) f)"
  unfolding writes_exactly_def
proof (intro allI impI)
  fix s r s' assume s: "table_ids s = ids" and run: "bindS (readS sqlite_read_all) f s = (r, s')"
  obtain p where p: "sqlite_read_all s = Inr p" by (simp add: sqlite_read_all_def)
  have "f p s = (r, s')" using run p by (simp add: bindS_def readS_def)
  with assms [OF sqlite_read_map(2) [OF p]] payload_ids_read [OF p] s
  show "isl r \<and> s' = s \<or> distinct (map first_id (ids @ new)) \<and> table_ids s' = map canon_dict (ids @ new)"
    unfolding writes_exactly_def by blast
qed

lemma exactly_write:
  assumes "ddistinct p" "payload_ids p = ids @ new"
  shows "writes_exactly ids new (bindS (sqlite_write_all p) (\<lambda>_. retS x))"
  unfolding writes_exactly_def
proof (intro allI impI)
  fix s r s' assume run: "bindS (sqlite_write_all p) (\<lambda>_. retS x) s = (r, s')"
  obtain z t where z: "sqlite_write_all p s = (z, t)" by (cases "sqlite_write_all p s")
  show "isl r \<and> s' = s \<or> distinct (map first_id (ids @ new)) \<and> table_ids s' = map canon_dict (ids @ new)"
  proof (cases z)
    case (Inl e)
    then have "t = s" using z by (auto simp: sqlite_write_all_def split: sum.splits)
    with Inl z run show ?thesis by (auto simp: bindS_def)
  next
    case (Inr u)
    with z run have "s' = t" by (auto simp: bindS_def retS_def)
    with sqlite_write_ids [OF z [unfolded Inr] assms(1)] assms(2) show ?thesis by simp
  qed
qed

lemma recording_writes:
  "writes_exactly ids [verification_fields v] (record_verification sqlite_read_all sqlite_write_all H v t pr)"
  unfolding record_verification_def Let_def
proof (intro exactly_lift exactly_read, goal_cases)
  case (1 p claims found)
  show ?case
  proof (cases found)
    case (Some i)
    with 1(1,2) show ?thesis
      by (auto intro!: exactly_lift exactly_fail exactly_write payload_ids_member
          simp: collection_rows_Inr verification_ids verification_fields_def)
  qed (simp add: exactly_fail)
qed

lemma exactly_writes: "writes_exactly ids new m \<Longrightarrow> writes must ids m"
  unfolding writes_exactly_def writes_def wrote_def by blast

lemma writes_repair: "writes must ids (repair_chain sqlite_read_all sqlite_write_all H)"
  unfolding repair_chain_def
  by (intro writes_read writes_write [where new = "[]"]) (simp_all add: readS_def)

lemma writes_op:
  assumes "\<And>c row k. must \<Longrightarrow> op \<noteq> AddRecordOnce c row k"
  shows "writes must ids (run_op sqlite_read_all sqlite_write_all H mac key t p op)"
proof (cases op)
  case (AddRecordOnce c row k)
  with assms have "\<not> must" by blast
  with AddRecordOnce show ?thesis by (simp add: done_with_def writes_then writes_once)
qed (auto simp: done_with_def register_evidence_def register_claim_def register_action_def record_policy_decision_def
    record_outcome_def register_scoped_record_def Let_def
    intro!: writes_then writes_append writes_update writes_repair writes_lift exactly_writes [OF recording_writes])

section \<open>Two verifications of a claim\<close>

lemma canon_verification_fields:
  "canon_dict (verification_fields v) = [(''claim_id'', JStr (vr_claim_id v)), (''verification_id'', JStr (vr_id v))]"
  by (simp add: verification_fields_def canon_dict_def sort_key_def)

text \<open>The table holds a verification of the claim, read back at least once.\<close>

definition holds_verification :: "string \<Rightarrow> ledger_table \<Rightarrow> bool" where
  "holds_verification i s \<longleftrightarrow> (\<exists>j. [(''claim_id'', JStr i), (''verification_id'', JStr j)] \<in> set (table_ids s))"

lemma canon_dict_again: "canon_dict [(''claim_id'', JStr i), (''verification_id'', JStr j)] = [(''claim_id'', JStr i), (''verification_id'', JStr j)]"
  by (simp add: canon_dict_def sort_key_def)

lemma canon_member:
  assumes "[(''claim_id'', JStr i), (''verification_id'', JStr j)] \<in> set xs"
  shows "[(''claim_id'', JStr i), (''verification_id'', JStr j)] \<in> set (map canon_dict xs)"
proof -
  from imageI [OF assms, of canon_dict] show ?thesis unfolding canon_dict_again set_map .
qed

lemma wrote_holds:
  assumes "wrote s s'" "holds_verification i s"
  shows "holds_verification i s'"
proof -
  from assms(1) obtain new where s': "table_ids s' = map canon_dict (table_ids s @ new)" unfolding wrote_def by blast
  from assms(2) obtain j where "[(''claim_id'', JStr i), (''verification_id'', JStr j)] \<in> set (table_ids s)"
    unfolding holds_verification_def by blast
  then have "[(''claim_id'', JStr i), (''verification_id'', JStr j)] \<in> set (table_ids s @ new)" by simp
  from canon_member [OF this] show ?thesis unfolding holds_verification_def s' by blast
qed

lemma op_holds:
  assumes "holds_verification i s"
  shows "holds_verification i (snd (run_op sqlite_read_all sqlite_write_all H mac key t p op s))"
proof -
  obtain r s' where r: "run_op sqlite_read_all sqlite_write_all H mac key t p op s = (r, s')" by fastforce
  from writesD [OF writes_op [of False] refl r] have "s' = s \<or> wrote s s'" by simp
  with assms wrote_holds show ?thesis by (auto simp: r)
qed

lemma ops_hold:
  "holds_verification i s \<Longrightarrow> holds_verification i (run_ops sqlite_read_all sqlite_write_all H mac key ops s)"
proof (induction ops arbitrary: s)
  case (Cons x ops)
  obtain t p op where x: "x = (t, p, op)" by (cases x)
  from Cons.IH [OF op_holds [OF Cons.prems, of H mac key t p op]] show ?case by (simp add: x)
qed simp

text \<open>Two rows have one identifier: nothing writes any more.\<close>

definition stuck :: "ledger_table \<Rightarrow> bool" where
  "stuck s \<longleftrightarrow> \<not> distinct (map first_id (table_ids s))"

lemma stuck_not_wrote: "stuck s \<Longrightarrow> \<not> wrote s s'"
  by (auto simp: stuck_def wrote_def)

lemma stuck_op:
  assumes "stuck s" "run_op sqlite_read_all sqlite_write_all H mac key t p op s = (r, s')"
  shows "s' = s" "r = Inr u \<Longrightarrow> \<exists>c row k. op = AddRecordOnce c row k"
proof -
  note no = stuck_not_wrote [OF assms(1)]
  from writesD [OF writes_op [of False] refl assms(2)] no show "s' = s" by auto
  assume "r = Inr u"
  then show "\<exists>c row k. op = AddRecordOnce c row k"
    using writesD [OF writes_op [of True op] refl assms(2)] no by auto
qed

lemma stuck_ops: "stuck s \<Longrightarrow> run_ops sqlite_read_all sqlite_write_all H mac key ops s = s"
proof (induction ops arbitrary: s)
  case (Cons x ops)
  obtain t p op where x: "x = (t, p, op)" by (cases x)
  obtain r s' where r: "run_op sqlite_read_all sqlite_write_all H mac key t p op s = (r, s')" by fastforce
  with stuck_op(1) [OF Cons.prems r] Cons show ?case by (simp add: x)
qed simp

text \<open>C13: Two verifications of one claim freeze a SQLite ledger. Whatever the table held, once two verifications of a claim have been
  recorded, with any operations between them, the two are rows of one identifier to the next write: no sequence of operations changes
  the table any more, and the only calls that still return are registrations that find their row already there.\<close>

theorem sqlite_verifications_collide:
  assumes "record_verification sqlite_read_all sqlite_write_all H v t p s1 = (Inr x, s2)"
    and "s3 = run_ops sqlite_read_all sqlite_write_all H mac key between s2"
    and "record_verification sqlite_read_all sqlite_write_all H v' t' p' s3 = (Inr x', s4)"
    and "vr_claim_id v' = vr_claim_id v"
  shows "run_ops sqlite_read_all sqlite_write_all H' mac' key' later s4 = s4 \<and>
    (\<forall>t p op. fst (run_op sqlite_read_all sqlite_write_all H' mac' key' t p op s4) = Inr () \<longrightarrow> (\<exists>c row k. op = AddRecordOnce c row k))"
proof -
  from recording_writes [of "table_ids s1" v H t p] assms(1)
  have "table_ids s2 = map canon_dict (table_ids s1 @ [verification_fields v])" unfolding writes_exactly_def by fastforce
  then have "holds_verification (vr_claim_id v) s2" by (auto simp: holds_verification_def canon_verification_fields)
  with ops_hold assms(2) have "holds_verification (vr_claim_id v) s3" by simp
  then obtain j where j: "[(''claim_id'', JStr (vr_claim_id v)), (''verification_id'', JStr j)] \<in> set (table_ids s3)"
    by (auto simp: holds_verification_def)
  from recording_writes [of "table_ids s3" v' H t' p'] assms(3)
  have s4: "table_ids s4 = map canon_dict (table_ids s3) @ [canon_dict (verification_fields v')]" unfolding writes_exactly_def by fastforce
  from j have "[(''claim_id'', JStr (vr_claim_id v)), (''verification_id'', JStr j)] \<in> set (map canon_dict (table_ids s3))"
    by (rule canon_member)
  from imageI [OF this, of first_id] have "first_id (canon_dict (verification_fields v')) \<in> set (map first_id (map canon_dict (table_ids s3)))"
    unfolding set_map by (simp only: canon_verification_fields assms(4) first_id_def list.case prod.case)
  then have "stuck s4" unfolding stuck_def s4 by simp
  with stuck_ops stuck_op(2) show ?thesis by (metis prod.collapse)
qed

definition demo_collision :: "string \<Rightarrow> verification" where
  "demo_collision i = \<lparr>vr_id = i, vr_claim_id = ''c1'', vr_verifier = ''v'', vr_method = ''m'', vr_result = VERIFIED,
     vr_evidence_ids = [], vr_rationale = [], vr_verified_at = ''now'', vr_metadata = []\<rparr>"

definition demo_claim_table :: ledger_table where
  "demo_claim_table = [(''claims'', ''c1'', [(''claim_id'', JStr ''c1''), (''evidence_ids'', JArr []), (''status'', JStr ''proposed'')])]"

definition demo_record :: "string \<Rightarrow> ledger_table \<Rightarrow> verification res \<times> ledger_table" where
  "demo_record i = record_verification sqlite_read_all sqlite_write_all (\<lambda>s. ''h'') (demo_collision i) ''t'' ''p''"

lemma demo_records:
  "\<not> isl (fst (demo_record ''v1'' demo_claim_table)) \<and> \<not> isl (fst (demo_record ''v2'' (snd (demo_record ''v1'' demo_claim_table))))"
  by code_simp

theorem sqlite_verifications_collide_witness:
  "\<exists>s2 s4 x x'. demo_record ''v1'' demo_claim_table = (Inr x, s2) \<and> demo_record ''v2'' s2 = (Inr x', s4) \<and>
     run_ops sqlite_read_all sqlite_write_all (\<lambda>s. ''h'') (\<lambda>k s. ''m'') None
       [(''t'', ''p'', AddVerification (demo_collision ''v3'')), (''t'', ''p'', Repair)] s4 = s4"
proof -
  from demo_records obtain x s2 where one: "demo_record ''v1'' demo_claim_table = (Inr x, s2)"
    by (cases "demo_record ''v1'' demo_claim_table"; cases "fst (demo_record ''v1'' demo_claim_table)") auto
  with demo_records obtain x' s4 where two: "demo_record ''v2'' s2 = (Inr x', s4)"
    by (cases "demo_record ''v2'' s2"; cases "fst (demo_record ''v2'' s2)") auto
  have none: "s2 = run_ops sqlite_read_all sqlite_write_all (\<lambda>s. ''h'') (\<lambda>k s. ''m'') None [] s2" by simp
  have "vr_claim_id (demo_collision ''v2'') = vr_claim_id (demo_collision ''v1'')" by (simp add: demo_collision_def)
  note frozen = conjunct1 [OF sqlite_verifications_collide [OF one [unfolded demo_record_def] none two [unfolded demo_record_def] this]]
  show ?thesis by (intro exI conjI, rule one, rule two, rule frozen)
qed

end
