(* ===== verification/Spec2Isabelle.thy ===== *)
theory Spec2Isabelle
  imports Backend_Properties Legacy_Backends Grdi_Service_Properties Grdi_Outcome_Properties Grdi_Replay_Properties Guard_Properties Postgres_Properties Migration_Properties Hav_Properties
    Api_Properties Runtime_Properties Core_Api_Properties Sqlite_Collisions
begin

text \<open>
  A verification development of \<^verbatim>\<open>phigraph\<close>: the governed decision path of the package under
  \<^verbatim>\<open>src/src/phigraph\<close>, from the hash-chained ledgers of \<^verbatim>\<open>core_v3\<close> up to the service of \<^verbatim>\<open>grdi\<close> and the verification of texts of
  \<^verbatim>\<open>hav\<close>.

  The program. A ledger keeps records of named collections. The \<^emph>\<open>scoped\<close> ledger keeps one row per tenant,
  project, collection and canonical key; rows of most collections are linked into a hash chain per scope whose
  head is stored apart, the others are standalone rows that a compare-and-set may replace. It has a JSON-file
  and a SQLite backend, transactions that declare the locks of the rows they will write, and a verifier. The older
  \<^emph>\<open>collection\<close> ledger keeps one list of rows per collection, chained as a list. On the scoped ledger the service
  registers decision envelopes with a signed receipt, has them authorised, makes execution plans that a gateway
  finds eligible or blocks, simulates eligible plans without executing anything, records the outcomes of
  simulations, replays the records of a plan into signed reports and compares reports. In front of it a request passes
  guards: credentials, rate limit, permission, and a store of responses for repeated requests. Beside it, texts are verified: their
  claims are checked against facts of an authoritative source, and the verdict is recorded in the collection ledger. The runtime
  records what an agent proposes in the same ledger, decides the proposed actions and executes those that are allowed. Routes of a web
  service expose the scoped and the collection ledger.

  Conventions. A Python call that may raise is a sum, \<open>'a res\<close>, whose \<open>err\<close> has one constructor per exception class of
  the code; a call on state is \<open>('s, 'a) act\<close>, from a state to a result and the state left, also when it raises.
  A JSON value is a \<open>json\<close>, a dictionary an association list in insertion order (\<open>pdict\<close>), an integer an \<open>int\<close>,
  a string a \<open>string\<close> of the characters up to U+00FF. SHA-256, HMAC, UUID5, the clock and fresh identifiers are
  arguments: a property that needs one to be injective says so.

  Theories, with the code each models.

  \<^item> \<open>Prelude\<close>, \<open>Py_Value\<close>: exceptions, sequencing, dictionaries, JSON values, their text (\<open>dumps\<close>), Python's truth, equality,
    \<open>str\<close> and \<open>repr\<close>. \<open>Json_Canon\<close>: the text of \<open>json.dumps\<close> with sorted keys determines the value up to key order.

  \<^item> \<open>Transactions\<close> (\<^verbatim>\<open>core_v3/transactions.py\<close>): collections, record identifiers, hashes, lock references.
    \<open>Scoped_Store\<close>, \<open>Scoped_Verify\<close> (\<^verbatim>\<open>core_v3/scoped_ledger.py\<close>, JSON backend): state, file, operations, transactions;
    the verifier. \<open>Scoped_Sqlite\<close>: the same on SQLite, the table with its constraints. \<open>Sessions\<close>: what a transaction's callback
    calls. The \<open>_ThreadTransactionState\<close> and the file are the record \<open>engine\<close>, one thread of one process.
    \<open>Scoped_Postgres\<close> (\<^verbatim>\<open>core_v3/postgres_scoped.py\<close>, \<^verbatim>\<open>postgres_advisory.py\<close>): the operations as SQL statements on the same
    tables, with the resolution of unique violations and the advisory lock keys.

  \<^item> \<open>Store_Invariant\<close>, \<open>Verify_Facts\<close>, \<open>Store_Engine\<close>, \<open>Store_Ops\<close>, \<open>Scope_Steps\<close>: the invariant \<open>store_ok\<close> (keys agree with rows, hashes are
    those of the contents, chains are gapless and linked, heads point at their ends), that every operation keeps it, that the
    verifier accepts it, what operations read and grow, and that steps of one tenant and project are not seen by another.
    \<open>Store_Properties\<close>: the properties of the JSON engine.

  \<^item> \<open>Sqlite_Refinement\<close>: the relation \<open>sql_rel\<close> between a database and a store, and that each SQLite operation refines the
    JSON one. \<open>Ledger_Contract\<close>: the locale \<open>scoped_ledger\<close> is what callers rely on, whichever backend; all three backends are
    interpretations. \<open>Backend_Properties\<close>: the properties of the SQLite backend and of both. \<open>Postgres_Refinement\<close>: the
    PostgreSQL operations are those of SQLite with the errors of the constraints resolved, so they inherit the refinement;
    \<open>Lock_Waits\<close>: transactions that wait for advisory locks as a step relation, free of deadlock because all lock in the
    order of the references; \<open>Postgres_Properties\<close>: the properties.

  \<^item> \<open>Core_Models\<close> (\<^verbatim>\<open>core_v3/models.py\<close>, \<^verbatim>\<open>core_v3/policy.py\<close>), \<open>Legacy_Ledger\<close> (\<^verbatim>\<open>core_v3/ledger.py\<close>,
    \<^verbatim>\<open>core_v3/backends.py\<close>): the records and the policy engine; the collection ledger over a backend with \<open>read_all\<close> and
    \<open>write_all\<close>. \<open>Legacy_Facts\<close> proves its chain invariant in the locale \<open>ledger_backend\<close>; \<open>Legacy_Backends\<close> interprets
    it on the JSON file and on the SQLite table; \<open>Sqlite_Collisions\<close> shows where the latter stops working.
    \<open>Receipts\<close> (\<^verbatim>\<open>core_v3/receipts.py\<close>): signing.

  \<^item> \<open>Grdi_Models\<close> (\<^verbatim>\<open>grdi/models.py\<close> and the row readers of \<^verbatim>\<open>grdi/service.py\<close>): enumerations and records, with
    \<open>to_dict\<close> and the constructors called on rows. \<open>Grdi_Rows\<close>: reading a written record gives it back up to key order.
    \<open>Grdi_Policy\<close> (\<^verbatim>\<open>grdi/authority.py\<close>, \<^verbatim>\<open>execution_gateway.py\<close>, \<^verbatim>\<open>events.py\<close>, \<^verbatim>\<open>outcome_ledger.py\<close>,
    \<^verbatim>\<open>projection.py\<close>), with \<open>Grdi_Policy_Properties\<close>. \<open>Grdi_Locks\<close> (\<^verbatim>\<open>grdi/ledger_ops.py\<close>): the lock lists of each handler.

  \<^item> \<open>Grdi_Service\<close> (\<^verbatim>\<open>grdi/service.py\<close>): the handlers. \<open>Grdi_Service_Facts\<close>: the program logic \<open>moves\<close> by which each handler is
    a sequence of engine steps. \<open>Grdi_Lock_Facts\<close>: no handler lacks a lock. \<open>Grdi_Frame\<close>: what a program leaves alone.
    \<open>Grdi_Demo\<close>: a concrete plan. \<open>Grdi_Steps\<close>: the step relation of all handlers. \<open>Grdi_Service_Properties\<close>,
    \<open>Grdi_Outcome_Properties\<close>: the properties.

  \<^item> \<open>Grdi_Replay\<close> (\<^verbatim>\<open>grdi/replay.py\<close>): the rows of a plan, the manifest, the report with its state, the checks of a stored report
    against itself and against the ledger, the comparison of two reports. \<open>Grdi_Replay_Service\<close>: the replay handlers of
    \<^verbatim>\<open>grdi/service.py\<close>. \<open>Grdi_Replay_Facts\<close>, \<open>Grdi_Replay_Locks\<close>: lemmas on both; \<open>Grdi_Replay_Properties\<close>: the properties.

  \<^item> \<open>Core_Identity\<close> (\<^verbatim>\<open>core_v3/security.py\<close>, \<^verbatim>\<open>api_key_identity.py\<close>, \<^verbatim>\<open>auth.py\<close>): roles, principals, bearer tokens, the key
    cache. \<open>Core_Guards\<close> (\<^verbatim>\<open>rate_limit.py\<close>, \<^verbatim>\<open>idempotency.py\<close>, \<^verbatim>\<open>metrics.py\<close>, \<^verbatim>\<open>auth_deps.py\<close>): the limiter, the store of
    responses, the counters, the dependencies of a request in their order. \<open>Guard_Properties\<close>: the properties.

  \<^item> \<open>Grdi_Migration\<close> (\<^verbatim>\<open>grdi/migration.py\<close> and the \<open>migrate_legacy_scoped\<close> functions of the ledgers): copying the rows of the
    collection ledger into the scoped ledger, then making the events of the copied plans. \<open>Migration_Facts\<close>: the locale
    \<open>migration_target\<close> is what the copying needs of a backend; all three backends are interpretations. \<open>Backfill_Facts\<close>,
    \<open>Backfill_Steps\<close>: the transaction of a plan and its second run. \<open>Migration_Properties\<close>: the properties.

  \<^item> \<open>Hav_Core\<close> (\<^verbatim>\<open>hav/models.py\<close>, \<^verbatim>\<open>policy.py\<close>, \<^verbatim>\<open>verifier.py\<close>, \<^verbatim>\<open>engine.py\<close>, \<^verbatim>\<open>governance.py\<close>, \<^verbatim>\<open>adapters.py\<close>):
    facts, claims, their comparison, the policy, the engine with its extractor as an argument. \<open>Hav_Service\<close>
    (\<^verbatim>\<open>hav/integration.py\<close>): what is written to the collection ledger. \<open>Hav_Properties\<close>: what each verdict means, where it is the documented one,
    and what a recorded verification leaves, proved in the locale \<open>ledger_backend\<close> for any backend.

  \<^item> \<open>Grdi_Api\<close> (\<^verbatim>\<open>grdi/api.py\<close>): every route, from the headers of a request to its answer, with the store of responses.
    \<open>Api_Properties\<close>: over any sequence of requests the chains verify, tenants are isolated, repeated requests do nothing, and the store of
    responses is well typed.

  \<^item> \<open>Core_Runtime\<close> (\<^verbatim>\<open>core_v3/runtime.py\<close>): a run, whose adapter, verifiers, executor and sink of events are arguments.
    \<open>Runtime_Properties\<close>: a logic of the executed actions, and what a run executes. \<open>Core_Api\<close> (\<^verbatim>\<open>core_v3/api.py\<close>): the routes
    of the collection ledger and of the runtime. \<open>Core_Api_Properties\<close>: the chains verify after any requests, over any backend of the locale
    \<open>ledger_backend\<close>; reads stay in the scope of the caller, writes of verifications do not.

  Bounds. Nothing runs on fuel. The loop of the rate limiter is \<open>while_option\<close>, with no result where it does not end;
  \<open>rate_check_Some\<close> proves that it always has one, and \<open>rate_limit_bounds_windows\<close> that every call is answered. The decoder of tokens calls itself at most once, by a measure; every
  other loop of the modelled code is structural. Listings are bounded by \<open>MAX_LIST_LIMIT\<close> as in the code; the keys of advisory
  locks are signed 32-bit words.

  Not modelled. Threads and processes other than one, apart from the waiting for advisory locks: file replacement, row locks and
  busy waits of SQLite are the atomicity of a step here. PostgreSQL itself, PyJWT, base64, JSON parsing of tokens and HTTP are
  arguments or read as the statements the code sends; texts with NUL, which PostgreSQL refuses, are not told apart.
  The schema checks of \<^verbatim>\<open>core_v3/postgres_migrations.py\<close>, which read catalogues of PostgreSQL, the routes of
  \<^verbatim>\<open>core_v3/api.py\<close> on code, GitHub, the sandbox, traces and metrics with the tools behind them, those of \<^verbatim>\<open>hav/api.py\<close>, the
  framework's parsing of paths and bodies, deployment, scripts, recorded spans, the extraction of claims from texts by regular
  expressions, and the packages outside \<^verbatim>\<open>core_v3\<close>, \<^verbatim>\<open>grdi\<close> and \<^verbatim>\<open>hav\<close>. Characters above U+00FF
  and floating-point numbers are outside \<open>string\<close> and \<open>json\<close>.
\<close>

end
